(* ===== verification/Prelude.thy ===== *)
theory Prelude
  imports Main "HOL-Library.Word" "HOL-Library.AList" "HOL-Library.Char_ord"
    "HOL-Library.List_Lexorder" "HOL-Library.Product_Lexorder"
begin

text \<open>
  Shared vocabulary of the development: the machine types and byte strings of the Rust sources,
  results with early return, big-endian encodings, saturating arithmetic, the identifier and address
  types, and \<^verbatim>\<open>HashMap\<close> as an association list with distinct keys.

  \<^item> \<open>u8\<close>, \<open>u16\<close>, \<open>u32\<close>, \<open>u64\<close>, \<open>u128\<close> are words of that width; \<open>bytes\<close> is \<^verbatim>\<open>Vec<u8>\<close> or \<^verbatim>\<open>&[u8]\<close>.
  \<^item> A \<^verbatim>\<open>Result<T, E>\<close> is \<open>'e + 'a\<close>, \<open>Inl\<close> being \<^verbatim>\<open>Err\<close>; \<open>rbind\<close> is the \<open>?\<close> operator.
  \<^item> A \<^verbatim>\<open>Uuid\<close> is its 128-bit value, written big endian on the wire; \<^verbatim>\<open>Ord\<close> on it is the order of the
    value. \<^verbatim>\<open>Ipv4Addr\<close> and \<^verbatim>\<open>Ipv6Addr\<close> are words in the same way.
  \<^item> A \<^verbatim>\<open>String\<close> is its UTF-8 byte sequence, a \<open>char list\<close>, ordered bytewise as in Rust.
  \<^item> \<^verbatim>\<open>Instant\<close> and \<^verbatim>\<open>Duration\<close> are natural numbers of nanoseconds.
\<close>

named_theorems wire_simps \<open>lengths and slices of encoded frames\<close>
named_theorems hm_simps \<open>lookups in hash maps\<close>

section \<open>Machine types and results\<close>

type_synonym u8 = "8 word"
type_synonym u16 = "16 word"
type_synonym u32 = "32 word"
type_synonym u64 = "64 word"
type_synonym u128 = "128 word"
type_synonym bytes = "u8 list"

fun rbind :: "'e + 'a \<Rightarrow> ('a \<Rightarrow> 'e + 'b) \<Rightarrow> 'e + 'b" where
  "rbind (Inl e) f = Inl e"
| "rbind (Inr x) f = f x"

definition ok_or :: "'e \<Rightarrow> 'a option \<Rightarrow> 'e + 'a" where
  "ok_or e x = (case x of None \<Rightarrow> Inl e | Some y \<Rightarrow> Inr y)"

fun map_err :: "('e \<Rightarrow> 'f) \<Rightarrow> 'e + 'a \<Rightarrow> 'f + 'a" where
  "map_err f (Inl e) = Inl (f e)"
| "map_err f (Inr x) = Inr x"

definition is_ok :: "'e + 'a \<Rightarrow> bool" where
  "is_ok r = (case r of Inl _ \<Rightarrow> False | Inr _ \<Rightarrow> True)"

text \<open>Checks every element of a slice in order and stops at the first error, as a \<open>for\<close> loop with \<open>?\<close>.\<close>

fun for_each :: "('a \<Rightarrow> 'e + unit) \<Rightarrow> 'a list \<Rightarrow> 'e + unit" where
  "for_each f [] = Inr ()"
| "for_each f (x # xs) = rbind (f x) (\<lambda>_. for_each f xs)"

text \<open>Maps a fallible function over a slice, stopping at the first error.\<close>

fun try_map :: "('a \<Rightarrow> 'e + 'b) \<Rightarrow> 'a list \<Rightarrow> 'e + 'b list" where
  "try_map f [] = Inr []"
| "try_map f (x # xs) = rbind (f x) (\<lambda>y. rbind (try_map f xs) (\<lambda>ys. Inr (y # ys)))"

lemma rbind_Inr_iff [simp]: "rbind r f = Inr y \<longleftrightarrow> (\<exists>x. r = Inr x \<and> f x = Inr y)"
  by (cases r) auto

lemma rbind_eq_InlE:
  assumes "rbind r f = Inl e"
  obtains "r = Inl e" | x where "r = Inr x" "f x = Inl e"
  using assms by (cases r) auto

lemma ok_or_simps [simp]: "ok_or e None = Inl e" "ok_or e (Some x) = Inr x"
  by (simp_all add: ok_or_def)

lemma ok_or_Inr_iff [simp]: "ok_or e x = Inr y \<longleftrightarrow> x = Some y"
  by (cases x) auto

lemma ok_or_Inl_iff [simp]: "ok_or e x = Inl f \<longleftrightarrow> x = None \<and> f = e"
  by (cases x) auto

lemma map_err_Inr_iff [simp]: "map_err f r = Inr y \<longleftrightarrow> r = Inr y"
  by (cases r) auto

lemma is_ok_simps [simp]: "is_ok (Inl e) = False" "is_ok (Inr x) = True"
  by (simp_all add: is_ok_def)

lemma is_ok_iff: "is_ok r \<longleftrightarrow> (\<exists>x. r = Inr x)"
  by (cases r) auto

lemma for_each_Inr_iff [simp]: "for_each f xs = Inr u \<longleftrightarrow> (\<forall>x \<in> set xs. f x = Inr ())"
  by (induction xs) auto

lemma try_map_Inr_iff: "try_map f xs = Inr ys \<longleftrightarrow> list_all2 (\<lambda>x y. f x = Inr y) xs ys"
proof (induction xs arbitrary: ys)
  case Nil
  then show ?case by auto
next
  case (Cons x xs)
  then show ?case by (cases ys) auto
qed

lemma if_Inl_eq_Inr [simp]:
  "((if b then Inl e else r) = Inr y) \<longleftrightarrow> \<not> b \<and> r = Inr y"
  by simp

section \<open>Arithmetic of unsigned integers\<close>

definition saturating_add :: "'a::len word \<Rightarrow> 'a word \<Rightarrow> 'a word" where
  "saturating_add a b = (if unat a + unat b < 2 ^ LENGTH('a) then a + b else - 1)"

definition saturating_sub :: "'a::len word \<Rightarrow> 'a word \<Rightarrow> 'a word" where
  "saturating_sub a b = (if b \<le> a then a - b else 0)"

definition abs_diff :: "'a::len word \<Rightarrow> 'a word \<Rightarrow> 'a word" where
  "abs_diff a b = (if a \<le> b then b - a else a - b)"

lemma unat_less_power: "unat (w::'a::len word) < 2 ^ LENGTH('a)"
  by simp

lemma unat_max_word: "unat (- 1 :: 'a::len word) = 2 ^ LENGTH('a) - 1"
proof -
  have "uint (- 1 :: 'a word) = 2 ^ LENGTH('a) - 1"
    by transfer (simp add: take_bit_minus_one_eq_mask mask_eq_exp_minus_1)
  then show ?thesis by (simp add: unat_eq_nat_uint nat_diff_distrib nat_power_eq)
qed

lemma unat_saturating_add:
  "unat (saturating_add a (b::'a::len word)) = min (unat a + unat b) (2 ^ LENGTH('a) - 1)"
proof (cases "unat a + unat b < 2 ^ LENGTH('a)")
  case True
  then show ?thesis by (simp add: saturating_add_def unat_word_ariths)
next
  case False
  then show ?thesis
    by (simp add: saturating_add_def unat_max_word)
qed

lemma saturating_add_ge: "a \<le> saturating_add a (b::'a::len word)"
proof -
  have "unat a < 2 ^ LENGTH('a)" by simp
  then have "unat a \<le> 2 ^ LENGTH('a) - 1" by linarith
  then show ?thesis by (simp add: word_le_nat_alt unat_saturating_add)
qed

lemma saturating_add_one_gt: "a \<noteq> - 1 \<Longrightarrow> a < saturating_add a (1::'a::len word)"
proof -
  assume "a \<noteq> - 1"
  then have "unat a \<noteq> 2 ^ LENGTH('a) - 1"
    by (metis unat_max_word word_unat_eq_iff)
  moreover have "unat a < 2 ^ LENGTH('a)" by simp
  ultimately have "unat a + 1 \<le> 2 ^ LENGTH('a) - 1" by linarith
  then show ?thesis by (simp add: word_less_nat_alt unat_saturating_add)
qed

lemma unat_saturating_sub: "unat (saturating_sub a b) = unat a - unat b"
  by (auto simp: saturating_sub_def unat_sub word_le_nat_alt)

lemma unat_abs_diff:
  "unat (abs_diff a b) = (if unat a \<le> unat b then unat b - unat a else unat a - unat b)"
  by (auto simp: abs_diff_def word_le_nat_alt unat_sub)

lemma abs_diff_self [simp]: "abs_diff a a = 0"
  by (simp add: abs_diff_def)

lemma abs_diff_commute: "abs_diff a b = abs_diff b a"
  by (auto simp: abs_diff_def)

section \<open>Slices and big-endian integers\<close>

text \<open>The bytes of an ASCII byte-string literal.\<close>

definition ascii :: "string \<Rightarrow> bytes" where
  "ascii s = map of_char s"

text \<open>\<open>slice a b xs\<close> is \<^verbatim>\<open>&xs[a..b]\<close>, used only where the length has been checked.\<close>

definition slice :: "nat \<Rightarrow> nat \<Rightarrow> 'a list \<Rightarrow> 'a list" where
  "slice a b xs = take (b - a) (drop a xs)"

lemma length_slice [simp]: "length (slice a b xs) = min (b - a) (length xs - a)"
  by (simp add: slice_def)

lemma slice_append_skip: "length xs = a \<Longrightarrow> slice a b (xs @ ys) = take (b - a) ys"
  by (simp add: slice_def)

lemma take_split_slice: "a \<le> b \<Longrightarrow> take b xs = take a xs @ slice a b xs"
  by (metis le_add_diff_inverse slice_def take_add)

lemma slice_concat: "length h = a \<Longrightarrow> length n = b - a \<Longrightarrow> slice a b (h @ n @ c) = n"
  by (simp add: slice_def)

lemma take_Suc_nth: "n < length xs \<Longrightarrow> take (Suc n) xs = take n xs @ [xs ! n]"
  by (rule take_Suc_conv_app_nth)

fun nat_to_be :: "nat \<Rightarrow> nat \<Rightarrow> bytes" where
  "nat_to_be 0 x = []"
| "nat_to_be (Suc n) x = nat_to_be n (x div 256) @ [of_nat (x mod 256)]"

definition be_to_nat :: "bytes \<Rightarrow> nat" where
  "be_to_nat bs = foldl (\<lambda>a b. a * 256 + unat b) 0 bs"

lemma length_nat_to_be [simp, wire_simps]: "length (nat_to_be n x) = n"
  by (induction n arbitrary: x) auto

lemma be_to_nat_Nil [simp]: "be_to_nat [] = 0"
  by (simp add: be_to_nat_def)

lemma be_to_nat_snoc [simp]: "be_to_nat (bs @ [b]) = be_to_nat bs * 256 + unat b"
  by (simp add: be_to_nat_def)

lemma unat_byte_of_mod: "unat (of_nat (x mod 256) :: u8) = x mod 256"
  by (simp add: unat_of_nat)

lemma be_to_nat_to_be: "be_to_nat (nat_to_be n x) = x mod 256 ^ n"
proof (induction n arbitrary: x)
  case 0
  then show ?case by simp
next
  case (Suc n)
  have "be_to_nat (nat_to_be (Suc n) x) = (x div 256 mod 256 ^ n) * 256 + x mod 256"
    by (simp add: Suc unat_byte_of_mod)
  also have "\<dots> = x mod (256 * 256 ^ n)"
    by (simp add: mod_mult2_eq)
  finally show ?case by simp
qed

lemma nat_to_be_of_be: "nat_to_be (length bs) (be_to_nat bs) = bs"
proof (induction bs rule: rev_induct)
  case Nil
  then show ?case by simp
next
  case (snoc b bs)
  have "unat b < 256" using unat_less_power [of b] by simp
  then show ?case by (simp add: snoc)
qed

lemma be_to_nat_bound: "be_to_nat bs < 256 ^ length bs"
proof -
  have "be_to_nat (nat_to_be (length bs) (be_to_nat bs)) = be_to_nat bs mod 256 ^ length bs"
    by (rule be_to_nat_to_be)
  then have "be_to_nat bs = be_to_nat bs mod 256 ^ length bs"
    by (simp only: nat_to_be_of_be)
  then show ?thesis by (metis mod_less_divisor zero_less_numeral zero_less_power)
qed

definition u16_to_be :: "u16 \<Rightarrow> bytes" where
  "u16_to_be w = nat_to_be 2 (unat w)"

definition u16_of_be :: "bytes \<Rightarrow> u16" where
  "u16_of_be bs = of_nat (be_to_nat bs)"

definition u32_to_be :: "u32 \<Rightarrow> bytes" where
  "u32_to_be w = nat_to_be 4 (unat w)"

definition u32_of_be :: "bytes \<Rightarrow> u32" where
  "u32_of_be bs = of_nat (be_to_nat bs)"

definition u64_to_be :: "u64 \<Rightarrow> bytes" where
  "u64_to_be w = nat_to_be 8 (unat w)"

definition u64_of_be :: "bytes \<Rightarrow> u64" where
  "u64_of_be bs = of_nat (be_to_nat bs)"

definition u128_to_be :: "u128 \<Rightarrow> bytes" where
  "u128_to_be w = nat_to_be 16 (unat w)"

definition u128_of_be :: "bytes \<Rightarrow> u128" where
  "u128_of_be bs = of_nat (be_to_nat bs)"

lemma length_to_be [simp, wire_simps]:
  "length (u16_to_be w2) = 2" "length (u32_to_be w4) = 4"
  "length (u64_to_be w8) = 8" "length (u128_to_be w16) = 16"
  by (simp_all add: u16_to_be_def u32_to_be_def u64_to_be_def u128_to_be_def)

lemma of_to_be [simp]:
  "u16_of_be (u16_to_be w2) = w2" "u32_of_be (u32_to_be w4) = w4"
  "u64_of_be (u64_to_be w8) = w8" "u128_of_be (u128_to_be w16) = w16"
proof -
  have w2: "unat w2 < 256 ^ 2" using unat_less_power [of w2] by simp
  have w4: "unat w4 < 256 ^ 4" using unat_less_power [of w4] by simp
  have w8: "unat w8 < 256 ^ 8" using unat_less_power [of w8] by simp
  have w16: "unat w16 < 256 ^ 16" using unat_less_power [of w16] by simp
  show "u16_of_be (u16_to_be w2) = w2" "u32_of_be (u32_to_be w4) = w4"
    "u64_of_be (u64_to_be w8) = w8" "u128_of_be (u128_to_be w16) = w16"
    using w2 w4 w8 w16
    by (simp_all only: u16_of_be_def u16_to_be_def u32_of_be_def u32_to_be_def u64_of_be_def
        u64_to_be_def u128_of_be_def u128_to_be_def be_to_nat_to_be mod_less of_nat_unat ucast_id)
qed

lemma to_of_be:
  "length bs = 8 \<Longrightarrow> u64_to_be (u64_of_be bs) = bs"
  "length cs = 16 \<Longrightarrow> u128_to_be (u128_of_be cs) = cs"
  using be_to_nat_bound [of bs] be_to_nat_bound [of cs]
    nat_to_be_of_be [of bs] nat_to_be_of_be [of cs]
  by (simp_all add: u64_to_be_def u64_of_be_def u128_to_be_def u128_of_be_def unat_of_nat)

lemma to_be_inject [simp]:
  "u64_to_be a = u64_to_be b \<longleftrightarrow> a = b" "u128_to_be c = u128_to_be d \<longleftrightarrow> c = d"
  by (metis of_to_be)+

section \<open>Identifiers and addresses\<close>

text \<open>
  \<^verbatim>\<open>DeviceId\<close> and \<^verbatim>\<open>NetworkId\<close> are newtypes of \<^verbatim>\<open>Uuid\<close> in the sources; the wrapper has no behaviour of its
  own. \<open>uuid_from_slice\<close> is \<^verbatim>\<open>Uuid::from_slice\<close>, which accepts exactly 16 bytes.
\<close>

type_synonym uuid = u128
type_synonym device_id = uuid
type_synonym network_id = uuid

abbreviation uuid_nil :: uuid where
  "uuid_nil \<equiv> 0"

definition uuid_from_slice :: "bytes \<Rightarrow> uuid option" where
  "uuid_from_slice bs = (if length bs = 16 then Some (u128_of_be bs) else None)"

lemma uuid_from_slice_to_be [simp]: "uuid_from_slice (u128_to_be u) = Some u"
  by (simp add: uuid_from_slice_def)

type_synonym ipv4_addr = u32
type_synonym ipv6_addr = u128

datatype ip_addr = V4 ipv4_addr | V6 ipv6_addr

text \<open>An IPv6 socket address carries its flow information and scope identifier, as in the standard library.\<close>

datatype socket_addr = SocketV4 ipv4_addr u16 | SocketV6 ipv6_addr u16 u32 u32

fun sock_ip :: "socket_addr \<Rightarrow> ip_addr" where
  "sock_ip (SocketV4 a p) = V4 a"
| "sock_ip (SocketV6 a p f s) = V6 a"

fun sock_port :: "socket_addr \<Rightarrow> u16" where
  "sock_port (SocketV4 a p) = p"
| "sock_port (SocketV6 a p f s) = p"

fun is_ipv4 :: "ip_addr \<Rightarrow> bool" where
  "is_ipv4 (V4 a) = True"
| "is_ipv4 (V6 a) = False"

abbreviation is_ipv6 :: "ip_addr \<Rightarrow> bool" where
  "is_ipv6 a \<equiv> \<not> is_ipv4 a"

definition ipv4_new :: "u8 \<Rightarrow> u8 \<Rightarrow> u8 \<Rightarrow> u8 \<Rightarrow> ipv4_addr" where
  "ipv4_new a b c d = u32_of_be [a, b, c, d]"

definition ipv4_octet :: "nat \<Rightarrow> ipv4_addr \<Rightarrow> nat" where
  "ipv4_octet i a = (unat a div 256 ^ (3 - i)) mod 256"

definition ipv4_broadcast :: ipv4_addr where
  "ipv4_broadcast = - 1"

text \<open>The address classes of \<^verbatim>\<open>std::net\<close>: 224.0.0.0/4 and ff00::/8 are multicast, 127.0.0.0/8 and ::1 are loopback.\<close>

fun ip_is_unspecified :: "ip_addr \<Rightarrow> bool" where
  "ip_is_unspecified (V4 a) = (a = 0)"
| "ip_is_unspecified (V6 a) = (a = 0)"

fun ip_is_multicast :: "ip_addr \<Rightarrow> bool" where
  "ip_is_multicast (V4 a) = (224 \<le> ipv4_octet 0 a \<and> ipv4_octet 0 a \<le> 239)"
| "ip_is_multicast (V6 a) = (unat a div 2 ^ 120 = 255)"

fun ip_is_loopback :: "ip_addr \<Rightarrow> bool" where
  "ip_is_loopback (V4 a) = (ipv4_octet 0 a = 127)"
| "ip_is_loopback (V6 a) = (a = 1)"

definition ipv4_is_private :: "ipv4_addr \<Rightarrow> bool" where
  "ipv4_is_private a \<longleftrightarrow> ipv4_octet 0 a = 10
     \<or> (ipv4_octet 0 a = 172 \<and> 16 \<le> ipv4_octet 1 a \<and> ipv4_octet 1 a \<le> 31)
     \<or> (ipv4_octet 0 a = 192 \<and> ipv4_octet 1 a = 168)"

definition ipv4_is_link_local :: "ipv4_addr \<Rightarrow> bool" where
  "ipv4_is_link_local a \<longleftrightarrow> ipv4_octet 0 a = 169 \<and> ipv4_octet 1 a = 254"

definition ipv6_is_unique_local :: "ipv6_addr \<Rightarrow> bool" where
  "ipv6_is_unique_local a \<longleftrightarrow> unat a div 2 ^ 121 = 126"

definition ipv6_is_unicast_link_local :: "ipv6_addr \<Rightarrow> bool" where
  "ipv6_is_unicast_link_local a \<longleftrightarrow> unat a div 2 ^ 118 = 1018"

text \<open>The derived orders of \<^verbatim>\<open>IpAddr\<close> and \<^verbatim>\<open>SocketAddr\<close>: IPv4 before IPv6, then the fields in turn.\<close>

fun ip_rank :: "ip_addr \<Rightarrow> nat \<times> nat" where
  "ip_rank (V4 a) = (0, unat a)"
| "ip_rank (V6 a) = (1, unat a)"

fun sock_rank :: "socket_addr \<Rightarrow> nat \<times> nat \<times> nat \<times> nat \<times> nat" where
  "sock_rank (SocketV4 a p) = (0, unat a, unat p, 0, 0)"
| "sock_rank (SocketV6 a p f s) = (1, unat a, unat p, unat f, unat s)"

lemma ip_rank_inject [simp]: "ip_rank a = ip_rank b \<longleftrightarrow> a = b"
  by (cases a; cases b) (auto simp: word_unat_eq_iff)

lemma sock_rank_inject [simp]: "sock_rank a = sock_rank b \<longleftrightarrow> a = b"
  by (cases a; cases b) (auto simp: word_unat_eq_iff)

instantiation ip_addr :: linorder
begin
definition less_eq_ip_addr :: "ip_addr \<Rightarrow> ip_addr \<Rightarrow> bool" where
  "less_eq_ip_addr a b \<longleftrightarrow> ip_rank a \<le> ip_rank b"
definition less_ip_addr :: "ip_addr \<Rightarrow> ip_addr \<Rightarrow> bool" where
  "less_ip_addr a b \<longleftrightarrow> ip_rank a < ip_rank b"
instance
  by standard (auto simp only: less_eq_ip_addr_def less_ip_addr_def less_le_not_le order_refl
      linear ip_rank_inject intro: order_trans dest: order_antisym)
end

instantiation socket_addr :: linorder
begin
definition less_eq_socket_addr :: "socket_addr \<Rightarrow> socket_addr \<Rightarrow> bool" where
  "less_eq_socket_addr a b \<longleftrightarrow> sock_rank a \<le> sock_rank b"
definition less_socket_addr :: "socket_addr \<Rightarrow> socket_addr \<Rightarrow> bool" where
  "less_socket_addr a b \<longleftrightarrow> sock_rank a < sock_rank b"
instance
  by standard (auto simp only: less_eq_socket_addr_def less_socket_addr_def less_le_not_le order_refl
      linear sock_rank_inject intro: order_trans dest: order_antisym)
end

section \<open>Sorting and deduplication\<close>

text \<open>
  \<^verbatim>\<open>sort\<close>, \<^verbatim>\<open>sort_unstable\<close> on values and the stable \<^verbatim>\<open>sort_by_key\<close> are \<open>sort\<close> and \<open>sort_key\<close>;
  \<^verbatim>\<open>dedup\<close> is \<open>remdups_adj\<close>.
\<close>

lemma remdups_adj_sorted: "sorted xs \<Longrightarrow> distinct (remdups_adj xs) \<and> sorted (remdups_adj xs)"
proof (induction xs rule: remdups_adj.induct)
  case (3 x y xs)
  then show ?case
    by (auto simp: remdups_adj_set order.order_iff_strict)
qed auto

lemma sort_dedup_distinct [simp]: "distinct (remdups_adj (sort xs))"
  using remdups_adj_sorted [of "sort xs"] by simp

lemma sort_dedup_set [simp]: "set (remdups_adj (sort xs)) = set xs"
  by simp

lemma sort_dedup_idem:
  assumes "sorted xs" and "distinct xs"
  shows "remdups_adj (sort xs) = xs"
  using assms by (simp add: sorted_sort_id remdups_adj_distinct)

section \<open>Trimming strings\<close>

text \<open>
  \<^verbatim>\<open>str::trim\<close> drops the characters with the Unicode property White_Space at both ends. \<open>whitespace\<close> lists
  their UTF-8 encodings; stripping at the end works on the reversed bytes.
\<close>

definition whitespace :: "string list" where
  "whitespace = map (map char_of)
     ([[9], [10], [11], [12], [13], [32], [0xC2, 0x85], [0xC2, 0xA0], [0xE1, 0x9A, 0x80],
       [0xE2, 0x80, 0xA8], [0xE2, 0x80, 0xA9], [0xE2, 0x80, 0xAF], [0xE2, 0x81, 0x9F], [0xE3, 0x80, 0x80]]
      @ map (\<lambda>i. [0xE2, 0x80, 0x80 + i]) [0..<11] :: nat list list)"

function strip_all :: "string list \<Rightarrow> string \<Rightarrow> string" where
  "strip_all ws s = (case find (\<lambda>w. w \<noteq> [] \<and> take (length w) s = w) ws of
     None \<Rightarrow> s | Some w \<Rightarrow> strip_all ws (drop (length w) s))"
  by pat_completeness auto
termination
proof (relation "measure (\<lambda>(ws, s). length s)")
  fix ws s w
  assume "find (\<lambda>w. w \<noteq> [] \<and> take (length w) s = w) ws = Some w"
  then have "w \<noteq> []" "take (length w) s = w" by (auto simp: find_Some_iff)
  then have "s \<noteq> []" by auto
  with \<open>w \<noteq> []\<close> show "((ws, drop (length w) s), ws, s) \<in> measure (\<lambda>(ws, s). length s)"
    by (simp add: length_greater_0_conv diff_less)
qed auto

declare strip_all.simps [simp del]

definition trim :: "string \<Rightarrow> string" where
  "trim s = rev (strip_all (map rev whitespace) (rev (strip_all whitespace s)))"

section \<open>Hash maps\<close>

text \<open>
  A \<^verbatim>\<open>HashMap\<close> is an association list with distinct keys; the order of the list stands for the
  unspecified iteration order. \<open>hm_ok\<close> is its well-formedness.
\<close>

type_synonym ('k, 'v) hash_map = "('k \<times> 'v) list"

definition hm_ok :: "('k, 'v) hash_map \<Rightarrow> bool" where
  "hm_ok m \<longleftrightarrow> distinct (map fst m)"

definition hm_get :: "('k, 'v) hash_map \<Rightarrow> 'k \<Rightarrow> 'v option" where
  "hm_get m k = map_of m k"

definition hm_insert :: "'k \<Rightarrow> 'v \<Rightarrow> ('k, 'v) hash_map \<Rightarrow> ('k, 'v) hash_map" where
  "hm_insert k v m = AList.update k v m"

definition hm_remove :: "'k \<Rightarrow> ('k, 'v) hash_map \<Rightarrow> ('k, 'v) hash_map" where
  "hm_remove k m = AList.delete k m"

definition hm_retain :: "('k \<Rightarrow> 'v \<Rightarrow> bool) \<Rightarrow> ('k, 'v) hash_map \<Rightarrow> ('k, 'v) hash_map" where
  "hm_retain P m = filter (\<lambda>(k, v). P k v) m"

lemma hm_ok_Nil [simp]: "hm_ok []"
  by (simp add: hm_ok_def)

lemma hm_get_Nil [hm_simps, simp]: "hm_get [] k = None"
  by (simp add: hm_get_def)

lemma hm_ok_insert [simp]: "hm_ok m \<Longrightarrow> hm_ok (hm_insert k v m)"
  by (simp add: hm_ok_def hm_insert_def distinct_update)

lemma hm_ok_remove [simp]: "hm_ok m \<Longrightarrow> hm_ok (hm_remove k m)"
  by (simp add: hm_ok_def hm_remove_def distinct_delete)

lemma hm_ok_retain [simp]: "hm_ok m \<Longrightarrow> hm_ok (hm_retain P m)"
  by (simp add: hm_ok_def hm_retain_def distinct_map_filter)

lemma hm_get_insert [hm_simps, simp]: "hm_get (hm_insert k v m) k' = (if k' = k then Some v else hm_get m k')"
  by (simp add: hm_get_def hm_insert_def update_conv')

lemma hm_get_remove [hm_simps, simp]: "hm_get (hm_remove k m) k' = (if k' = k then None else hm_get m k')"
  by (simp add: hm_get_def hm_remove_def delete_conv')

lemma hm_get_in_set: "hm_get m k = Some v \<Longrightarrow> (k, v) \<in> set m"
  by (simp add: hm_get_def map_of_SomeD)

lemma hm_in_set_iff: "hm_ok m \<Longrightarrow> (k, v) \<in> set m \<longleftrightarrow> hm_get m k = Some v"
  by (simp add: hm_ok_def hm_get_def)

lemma hm_get_retain [hm_simps]:
  assumes "hm_ok m"
  shows "hm_get (hm_retain P m) k
    = (case hm_get m k of None \<Rightarrow> None | Some v \<Rightarrow> if P k v then Some v else None)"
proof -
  have ok: "hm_ok (hm_retain P m)" using assms by simp
  have iff: "hm_get (hm_retain P m) k = Some v \<longleftrightarrow> hm_get m k = Some v \<and> P k v" for v
    using hm_in_set_iff [OF ok, of k v] hm_in_set_iff [OF assms, of k v]
    by (auto simp: hm_retain_def)
  show ?thesis
  proof (cases "hm_get (hm_retain P m) k")
    case None
    with iff show ?thesis by (auto split: option.split)
  next
    case (Some v)
    with iff [of v] show ?thesis by simp
  qed
qed

lemma hm_insert_fresh: "hm_get m k = None \<Longrightarrow> hm_insert k v m = m @ [(k, v)]"
  by (induction m) (auto simp: hm_insert_def hm_get_def split: if_splits)

lemma hm_get_append: "hm_get (m @ n) k = (case hm_get m k of None \<Rightarrow> hm_get n k | Some v \<Rightarrow> Some v)"
  by (simp add: hm_get_def map_add_def split: option.split)

lemma length_hm_insert: "length (hm_insert k v m) = (if hm_get m k = None then Suc (length m) else length m)"
  by (induction m) (auto simp: hm_insert_def hm_get_def)

lemma length_hm_retain: "length (hm_retain P m) \<le> length m"
  by (simp add: hm_retain_def)

lemma hm_retain_retain: "hm_retain P (hm_retain Q m) = hm_retain (\<lambda>k v. P k v \<and> Q k v) m"
  by (induction m) (auto simp: hm_retain_def)

lemma hm_retain_subset: "set (hm_retain P m) \<subseteq> set m"
  by (auto simp: hm_retain_def)

lemma hm_set_insert:
  "hm_ok m \<Longrightarrow> set (hm_insert k v m) = insert (k, v) {e \<in> set m. fst e \<noteq> k}"
proof -
  assume ok: "hm_ok m"
  have "hm_ok (hm_insert k v m)" using ok by simp
  then show ?thesis
    by (auto simp: hm_in_set_iff [OF ok] hm_in_set_iff split: if_splits)
qed

text \<open>The first entry found by a scan over the values, as \<^verbatim>\<open>iter().find(..)\<close>.\<close>

lemma hm_insert_insert [simp]: "hm_insert k v (hm_insert k w m) = hm_insert k v m"
  by (simp add: hm_insert_def)

lemma hm_remove_absent: "hm_get m k = None \<Longrightarrow> hm_remove k m = m"
  by (simp add: hm_remove_def hm_get_def map_of_eq_None_iff delete_id)

lemma in_set_map_filter_iff: "y \<in> set (List.map_filter f xs) \<longleftrightarrow> (\<exists>x. x \<in> set xs \<and> f x = Some y)"
  by (induction xs) (auto simp: map_filter_simps split: option.split)

lemma find_SomeD: "find P xs = Some x \<Longrightarrow> x \<in> set xs \<and> P x"
  by (induction xs) (auto split: if_splits)

end
