(* ===== verification/Primitives.thy ===== *)
theory Primitives
  imports Prelude
begin

text \<open>
  The cryptographic primitives the sources take from third-party crates, as a record of operations
  that every definition using them takes as an argument: Ed25519 signatures (\<^verbatim>\<open>ed25519_dalek\<close>) and the
  XChaCha20-Poly1305 AEAD (\<^verbatim>\<open>chacha20poly1305\<close>). Later theories extend the record with the JSON encodings
  (\<^verbatim>\<open>serde_json\<close>), key agreement and prefix operations they call. What the crates document of these
  operations is stated by the predicates below and is a hypothesis where a property needs it.

  Randomness (\<^verbatim>\<open>getrandom\<close>, \<^verbatim>\<open>Uuid::new_v4\<close>) and the clock are arguments of the operations that
  read them; \<open>None\<close> for a random draw is an unavailable source.
\<close>

record prims =
  verifying_key :: "bytes \<Rightarrow> bytes"                           \<comment> \<open>public key of a signing key\<close>
  ed_sign :: "bytes \<Rightarrow> bytes \<Rightarrow> bytes"                        \<comment> \<open>signing key, message\<close>
  ed_key_ok :: "bytes \<Rightarrow> bool"                               \<comment> \<open>\<^verbatim>\<open>VerifyingKey::from_bytes\<close> succeeds\<close>
  ed_verify :: "bytes \<Rightarrow> bytes \<Rightarrow> bytes \<Rightarrow> bool"               \<comment> \<open>public key, message, signature\<close>
  aead_encrypt :: "bytes \<Rightarrow> bytes \<Rightarrow> bytes \<Rightarrow> bytes \<Rightarrow> bytes option"  \<comment> \<open>key, nonce, associated data, message\<close>
  aead_decrypt :: "bytes \<Rightarrow> bytes \<Rightarrow> bytes \<Rightarrow> bytes \<Rightarrow> bytes option"  \<comment> \<open>key, nonce, associated data, ciphertext\<close>

datatype crypto_error =
    RandomnessUnavailable
  | EncryptionFailed
  | AuthenticationFailed
  | InvalidNetworkKey
  | InvalidOverlayPacket
  | InvalidSessionPacket
  | InvalidIdentityKey
  | InvalidSessionSignature
  | StaleSessionHandshake
  | SessionIdentityMismatch
  | InvalidSessionKey
  | SessionReplayDetected
  | AuthorizationManifestExpired
  | InvalidCertificate
  | CertificateExpired
  | UntrustedController
  | CertificateEncodingFailed
  | InvalidServiceIdentity

section \<open>Documented behaviour of the primitives\<close>

text \<open>
  A signature made with a 32-byte signing key has 64 bytes and verifies under its public key, which is
  a valid key of 32 bytes.
\<close>

definition ed_correct :: "'a prims_scheme \<Rightarrow> bool" where
  "ed_correct X \<longleftrightarrow> (\<forall>sk. length sk = 32 \<longrightarrow>
     length (verifying_key X sk) = 32 \<and> ed_key_ok X (verifying_key X sk)
     \<and> (\<forall>m. length (ed_sign X sk m) = 64 \<and> ed_verify X (verifying_key X sk) m (ed_sign X sk m)))"

text \<open>
  Existential unforgeability, idealised: what verifies under \<open>pk\<close> is among the messages \<open>M\<close> its holder signed.
\<close>

definition signs_only :: "'a prims_scheme \<Rightarrow> bytes \<Rightarrow> bytes set \<Rightarrow> bool" where
  "signs_only X pk M \<longleftrightarrow> (\<forall>m s. ed_verify X pk m s \<longrightarrow> m \<in> M)"

text \<open>Decryption inverts encryption, and the ciphertext is the message with a 16-byte tag.\<close>

definition aead_correct :: "'a prims_scheme \<Rightarrow> bool" where
  "aead_correct X \<longleftrightarrow> (\<forall>k n a m c. aead_encrypt X k n a m = Some c \<longrightarrow>
     aead_decrypt X k n a c = Some m \<and> length c = length m + 16)"

text \<open>Ciphertext integrity, idealised: what decrypts under \<open>k\<close> was sealed under it with that nonce and associated data.\<close>

definition opens_only :: "'a prims_scheme \<Rightarrow> bytes \<Rightarrow> (bytes \<times> bytes \<times> bytes) set \<Rightarrow> bool" where
  "opens_only X k S \<longleftrightarrow> (\<forall>n a c m. aead_decrypt X k n a c = Some m \<longrightarrow> (n, a, m) \<in> S)"

lemma ed_correctD:
  assumes "ed_correct X" and "length sk = 32"
  shows "length (verifying_key X sk) = 32" "ed_key_ok X (verifying_key X sk)"
    "length (ed_sign X sk m) = 64" "ed_verify X (verifying_key X sk) m (ed_sign X sk m)"
  using assms by (auto simp: ed_correct_def)

lemma signs_onlyD: "signs_only X pk M \<Longrightarrow> ed_verify X pk m s \<Longrightarrow> m \<in> M"
  by (auto simp: signs_only_def)

lemma aead_correctD:
  assumes "aead_correct X" and "aead_encrypt X k n a m = Some c"
  shows "aead_decrypt X k n a c = Some m" "length c = length m + 16"
  using assms by (auto simp: aead_correct_def)

section \<open>Signed documents\<close>

text \<open>
  Every signed document of the protocol is checked the same way: the verifier rebuilds the message that
  the signature covers and checks it under one public key. The locale states what a client relies on
  when a verifier accepts; each document type interprets it with its own verifier.
\<close>

locale signed_document =
  fixes X :: "'x prims_scheme"
    and message :: "'doc \<Rightarrow> bytes option"
    and signature :: "'doc \<Rightarrow> bytes"
    and accepts :: "bytes \<Rightarrow> 'ctx \<Rightarrow> 'doc \<Rightarrow> bool"
  assumes accepts_signed: "accepts pk ctx d \<Longrightarrow> \<exists>m. message d = Some m \<and> ed_verify X pk m (signature d)"
begin

lemma accepted_was_signed:
  assumes "signs_only X pk M" and "accepts pk ctx d"
  obtains m where "message d = Some m" and "m \<in> M"
  using accepts_signed [OF assms(2)] signs_onlyD [OF assms(1)] by blast

end

end
