(* ===== verification/Wire_Format.thy ===== *)
theory Wire_Format
  imports Primitives
begin

text \<open>
  The frame kinds and the 53-byte routing header of the UDP relay envelope
  (\<^verbatim>\<open>crates/meshlake-core/src/relay.rs\<close>), the network-key packet protection of
  \<^verbatim>\<open>NetworkKey\<close> (\<^verbatim>\<open>crates/meshlake-core/src/crypto.rs\<close>) and the relay packets built from them
  (\<^verbatim>\<open>crates/meshlake-core/src/overlay.rs\<close>).
\<close>

definition RELAY_MAGIC :: bytes where "RELAY_MAGIC = [0x4D, 0x4C, 0x52, 0x31]"
definition RELAY_REGISTER :: u8 where "RELAY_REGISTER = 1"
definition RELAY_DATA :: u8 where "RELAY_DATA = 2"
definition RELAY_PEER :: u8 where "RELAY_PEER = 3"
definition RELAY_PUNCH :: u8 where "RELAY_PUNCH = 4"
definition RELAY_CANDIDATE :: u8 where "RELAY_CANDIDATE = 5"
definition RELAY_REGISTER_ACK :: u8 where "RELAY_REGISTER_ACK = 6"
definition RELAY_PUNCH_ACK :: u8 where "RELAY_PUNCH_ACK = 7"
definition RELAY_PEER_IDENTITY :: u8 where "RELAY_PEER_IDENTITY = 8"
definition RELAY_REGISTER_SIGNED :: u8 where "RELAY_REGISTER_SIGNED = 9"
definition RELAY_SESSION_INIT :: u8 where "RELAY_SESSION_INIT = 10"
definition RELAY_SESSION_RESPONSE :: u8 where "RELAY_SESSION_RESPONSE = 11"
definition RELAY_SESSION_DATA :: u8 where "RELAY_SESSION_DATA = 12"
definition RELAY_REGISTER_ACK_SIGNED :: u8 where "RELAY_REGISTER_ACK_SIGNED = 13"
definition RELAY_DATA_HEADER_LEN :: nat where "RELAY_DATA_HEADER_LEN = 53"
definition RELAY_MAX_ASSIGNED_ADDRESSES :: nat where "RELAY_MAX_ASSIGNED_ADDRESSES = 16"

lemmas frame_kinds = RELAY_REGISTER_def RELAY_DATA_def RELAY_PEER_def RELAY_PUNCH_def
  RELAY_CANDIDATE_def RELAY_REGISTER_ACK_def RELAY_PUNCH_ACK_def RELAY_PEER_IDENTITY_def
  RELAY_REGISTER_SIGNED_def RELAY_SESSION_INIT_def RELAY_SESSION_RESPONSE_def
  RELAY_SESSION_DATA_def RELAY_REGISTER_ACK_SIGNED_def

text \<open>The header array is filled segment by segment, so it is the concatenation of the segments.\<close>

definition relay_associated_data :: "network_id \<Rightarrow> device_id \<Rightarrow> device_id \<Rightarrow> bytes" where
  "relay_associated_data network_id source destination =
     RELAY_MAGIC @ [RELAY_DATA] @ u128_to_be network_id @ u128_to_be source @ u128_to_be destination"

section \<open>Packets sealed with the network key\<close>

record sealed_packet =
  sealed_nonce :: bytes
  sealed_ciphertext :: bytes

definition network_key_from_slice :: "bytes \<Rightarrow> crypto_error + bytes" where
  "network_key_from_slice bs = (if length bs = 32 then Inr bs else Inl InvalidNetworkKey)"

definition network_key_generate :: "bytes option \<Rightarrow> crypto_error + bytes" where
  "network_key_generate random = ok_or RandomnessUnavailable random"

definition network_key_seal ::
  "'x prims_scheme \<Rightarrow> bytes \<Rightarrow> bytes option \<Rightarrow> bytes \<Rightarrow> bytes \<Rightarrow> crypto_error + sealed_packet" where
  "network_key_seal X key random plaintext associated_data =
     rbind (ok_or RandomnessUnavailable random) (\<lambda>nonce.
     rbind (ok_or EncryptionFailed (aead_encrypt X key nonce associated_data plaintext)) (\<lambda>ciphertext.
       Inr \<lparr>sealed_nonce = nonce, sealed_ciphertext = ciphertext\<rparr>))"

definition network_key_open ::
  "'x prims_scheme \<Rightarrow> bytes \<Rightarrow> sealed_packet \<Rightarrow> bytes \<Rightarrow> crypto_error + bytes" where
  "network_key_open X key packet associated_data =
     ok_or AuthenticationFailed
       (aead_decrypt X key (sealed_nonce packet) associated_data (sealed_ciphertext packet))"

section \<open>Relay packets\<close>

definition NONCE_LENGTH :: nat where "NONCE_LENGTH = 24"

definition seal_relay_packet ::
  "'x prims_scheme \<Rightarrow> bytes \<Rightarrow> bytes option \<Rightarrow> network_id \<Rightarrow> device_id \<Rightarrow> device_id \<Rightarrow> bytes
     \<Rightarrow> crypto_error + bytes" where
  "seal_relay_packet X key random network_id source destination plaintext =
     (let header = relay_associated_data network_id source destination
      in rbind (network_key_seal X key random plaintext header) (\<lambda>sealed.
           Inr (header @ sealed_nonce sealed @ sealed_ciphertext sealed)))"

definition open_relay_packet ::
  "'x prims_scheme \<Rightarrow> bytes \<Rightarrow> bytes \<Rightarrow> crypto_error + (network_id \<times> device_id \<times> device_id \<times> bytes)" where
  "open_relay_packet X key packet =
     (if length packet < RELAY_DATA_HEADER_LEN + NONCE_LENGTH
         \<or> take 4 packet \<noteq> RELAY_MAGIC \<or> packet ! 4 \<noteq> RELAY_DATA
      then Inl InvalidOverlayPacket
      else
        rbind (ok_or InvalidOverlayPacket (uuid_from_slice (slice 5 21 packet))) (\<lambda>network_id.
        rbind (ok_or InvalidOverlayPacket (uuid_from_slice (slice 21 37 packet))) (\<lambda>source.
        rbind (ok_or InvalidOverlayPacket (uuid_from_slice (slice 37 53 packet))) (\<lambda>destination.
          let nonce = slice RELAY_DATA_HEADER_LEN (RELAY_DATA_HEADER_LEN + NONCE_LENGTH) packet;
              ciphertext = drop (RELAY_DATA_HEADER_LEN + NONCE_LENGTH) packet
          in rbind (network_key_open X key \<lparr>sealed_nonce = nonce, sealed_ciphertext = ciphertext\<rparr>
                     (take RELAY_DATA_HEADER_LEN packet)) (\<lambda>plaintext.
               Inr (network_id, source, destination, plaintext))))))"

section \<open>The header determines the routing fields\<close>

lemma length_relay_associated_data [simp, wire_simps]: "length (relay_associated_data n s d) = 53"
  by (simp add: relay_associated_data_def RELAY_MAGIC_def)

lemma relay_associated_data_inject:
  "relay_associated_data n s d = relay_associated_data n' s' d' \<longleftrightarrow> n = n' \<and> s = s' \<and> d = d'"
  by (auto simp: relay_associated_data_def)

lemma relay_header_fields:
  "take 4 (relay_associated_data n s d @ r) = RELAY_MAGIC"
  "(relay_associated_data n s d @ r) ! 4 = RELAY_DATA"
  "slice 5 21 (relay_associated_data n s d @ r) = u128_to_be n"
  "slice 21 37 (relay_associated_data n s d @ r) = u128_to_be s"
  "slice 37 53 (relay_associated_data n s d @ r) = u128_to_be d"
  by (simp_all add: relay_associated_data_def RELAY_MAGIC_def slice_def)

text \<open>Cutting a packet into the five segments of the routing header and putting them together again.\<close>

lemma header_segments:
  assumes "53 \<le> length packet"
  shows "take 53 packet = take 4 packet @ [packet ! 4] @ slice 5 21 packet @ slice 21 37 packet
      @ slice 37 53 packet"
proof -
  have "take 53 packet = take 37 packet @ slice 37 53 packet" by (rule take_split_slice) simp
  also have "take 37 packet = take 21 packet @ slice 21 37 packet" by (rule take_split_slice) simp
  also have "take 21 packet = take 5 packet @ slice 5 21 packet" by (rule take_split_slice) simp
  also have "take 5 packet = take 4 packet @ [packet ! 4]"
    using assms take_Suc_nth [of 4 packet] by (simp add: eval_nat_numeral)
  finally show ?thesis by simp
qed

lemma open_seal_relay_packet:
  assumes "aead_correct X" and "length nonce = NONCE_LENGTH"
    and "seal_relay_packet X key (Some nonce) n s d plaintext = Inr packet"
  shows "open_relay_packet X key packet = Inr (n, s, d, plaintext)"
proof -
  let ?h = "relay_associated_data n s d"
  obtain c where c: "aead_encrypt X key nonce ?h plaintext = Some c" and p: "packet = ?h @ nonce @ c"
    using assms(3) by (auto simp: seal_relay_packet_def network_key_seal_def Let_def)
  have "slice 53 77 packet = nonce" "drop 77 packet = c" "take 53 packet = ?h" "\<not> length packet < 77"
    using assms(2) by (simp_all add: p slice_concat NONCE_LENGTH_def)
  then show ?thesis
    using aead_correctD(1) [OF assms(1) c] relay_header_fields [of n s d "nonce @ c"]
    by (simp add: open_relay_packet_def network_key_open_def RELAY_DATA_HEADER_LEN_def
        NONCE_LENGTH_def p)
qed

lemma open_relay_packet_authentic:
  assumes "opens_only X key S" and "open_relay_packet X key packet = Inr (n, s, d, plaintext)"
  shows "\<exists>nonce. (nonce, relay_associated_data n s d, plaintext) \<in> S"
proof -
  have len: "53 + 24 \<le> length packet" and hdr: "take 4 packet = RELAY_MAGIC" "packet ! 4 = RELAY_DATA"
    using assms(2) by (auto simp: open_relay_packet_def RELAY_DATA_HEADER_LEN_def NONCE_LENGTH_def
        not_less split: if_splits)
  have n: "n = u128_of_be (slice 5 21 packet)" and s: "s = u128_of_be (slice 21 37 packet)"
    and d: "d = u128_of_be (slice 37 53 packet)"
    using assms(2) len by (auto simp: open_relay_packet_def Let_def uuid_from_slice_def split: if_splits)
  have "take 53 packet = relay_associated_data n s d"
    using hdr len by (simp add: header_segments relay_associated_data_def n s d to_of_be)
  then show ?thesis
    using assms by (auto simp: open_relay_packet_def network_key_open_def Let_def opens_only_def
        RELAY_DATA_HEADER_LEN_def NONCE_LENGTH_def split: if_splits) blast
qed

end
