(* ===== verification/Replay_Window.thy ===== *)
theory Replay_Window
  imports Prelude
begin

unbundle bit_operations_syntax

text \<open>
  The 64-packet replay window of a pairwise session (\<^verbatim>\<open>ReplayWindow\<close> in
  \<^verbatim>\<open>crates/meshlake-core/src/session.rs\<close>) and its abstract specification, the set of sequence numbers
  accepted so far. The locale \<open>replay_guard\<close> states what a receiver relies on; it is
  interpreted on the window, and the receive path of a session uses the facts it gives.
\<close>

record replay_window =
  rw_highest :: "u64 option"
  rw_bitmap :: u64

definition replay_window_default :: replay_window where
  "replay_window_default = \<lparr>rw_highest = None, rw_bitmap = 0\<rparr>"

definition can_accept :: "replay_window \<Rightarrow> u64 \<Rightarrow> bool" where
  "can_accept w s =
     (case rw_highest w of
        None \<Rightarrow> True
      | Some h \<Rightarrow>
          if s > h then True
          else let distance = h - s
               in distance < 64 \<and> rw_bitmap w AND push_bit (unat distance) 1 = 0)"

text \<open>A shift of a \<open>u64\<close> takes its amount modulo 64; \<open>mark\<close> is reached only with smaller amounts.\<close>

definition mark :: "replay_window \<Rightarrow> u64 \<Rightarrow> replay_window" where
  "mark w s =
     (case rw_highest w of
        None \<Rightarrow> w\<lparr>rw_highest := Some s, rw_bitmap := 1\<rparr>
      | Some h \<Rightarrow>
          if s > h then
            let distance = s - h
            in w\<lparr>rw_bitmap := (if distance \<ge> 64 then 1
                              else push_bit (unat distance) (rw_bitmap w) OR 1),
                 rw_highest := Some s\<rparr>
          else w\<lparr>rw_bitmap := rw_bitmap w OR push_bit (unat (h - s) mod 64) 1\<rparr>)"

section \<open>The abstract specification\<close>

text \<open>
  \<open>spec_accept A s\<close>: the number is new and no more than 63 below the greatest accepted one.
\<close>

definition spec_accept :: "u64 set \<Rightarrow> u64 \<Rightarrow> bool" where
  "spec_accept A s \<longleftrightarrow> s \<notin> A \<and> (\<forall>t \<in> A. unat t < unat s + 64)"

text \<open>The bitmap records, bit by bit, which of the 64 numbers at and below the highest were accepted.\<close>

definition rw_refines :: "replay_window \<Rightarrow> u64 set \<Rightarrow> bool" where
  "rw_refines w A \<longleftrightarrow>
     (case rw_highest w of
        None \<Rightarrow> A = {}
      | Some h \<Rightarrow> h \<in> A \<and> (\<forall>t \<in> A. t \<le> h)
          \<and> (\<forall>i < 64. bit (rw_bitmap w) i \<longleftrightarrow> i \<le> unat h \<and> h - of_nat i \<in> A))"

lemma rw_refines_default: "rw_refines replay_window_default {}"
  by (simp add: rw_refines_def replay_window_default_def)

lemma bit_test: "(b::u64) AND 2 ^ n = 0 \<longleftrightarrow> \<not> bit b n"
  by (simp add: bit_iff_and_push_bit_not_eq_0 push_bit_eq_mult)

lemma small_of_nat_neq_0: "0 < i \<Longrightarrow> i < 64 \<Longrightarrow> (of_nat i :: u64) \<noteq> 0"
proof -
  assume "0 < i" "i < 64"
  then have "unat (of_nat i :: u64) = i" by (simp add: unat_of_nat)
  with \<open>0 < i\<close> show ?thesis by auto
qed

lemma sub_of_nat_diff: "(h::u64) - of_nat (unat (h - s)) = s"
  by simp

lemma rw_bit_iff:
  assumes "rw_refines w A" and "rw_highest w = Some h" and "s \<le> h" and "unat (h - s) < 64"
  shows "bit (rw_bitmap w) (unat (h - s)) \<longleftrightarrow> s \<in> A"
proof -
  have "unat (h - s) \<le> unat h"
    using assms(3) by (simp add: unat_sub word_le_nat_alt)
  with assms show ?thesis
    by (auto simp: rw_refines_def)
qed

lemma can_accept_refines:
  assumes "rw_refines w A"
  shows "can_accept w s \<longleftrightarrow> spec_accept A s"
proof (cases "rw_highest w")
  case None
  with assms show ?thesis by (simp add: can_accept_def spec_accept_def rw_refines_def)
next
  case (Some h)
  have h: "h \<in> A" "\<forall>t \<in> A. t \<le> h"
    using assms Some by (auto simp: rw_refines_def)
  show ?thesis
  proof (cases "s > h")
    case True
    moreover have "s \<notin> A" using h True by (auto simp: not_le)
    moreover have "\<forall>t \<in> A. unat t < unat s + 64"
      using h True by (fastforce simp: word_le_nat_alt word_less_nat_alt)
    ultimately show ?thesis using Some by (simp add: can_accept_def spec_accept_def)
  next
    case False
    then have le: "s \<le> h" by simp
    have d: "h - s < 64 \<longleftrightarrow> (\<forall>t \<in> A. unat t < unat s + 64)"
    proof
      assume "h - s < 64"
      then show "\<forall>t \<in> A. unat t < unat s + 64"
        using h le by (fastforce simp: word_less_nat_alt word_le_nat_alt unat_sub)
    next
      assume "\<forall>t \<in> A. unat t < unat s + 64"
      then have "unat h < unat s + 64" using h by blast
      then show "h - s < 64" using le by (simp add: word_less_nat_alt unat_sub word_le_nat_alt)
    qed
    have "unat (h - s) < 64" if "h - s < 64" using that by (simp add: word_less_nat_alt)
    then show ?thesis
      using Some False d rw_bit_iff [OF assms Some le]
      by (auto simp: can_accept_def spec_accept_def bit_test)
  qed
qed

section \<open>Marking keeps the refinement\<close>

lemma mark_above_bits:
  assumes "rw_refines w A" and "rw_highest w = Some h" and "s > h" and "i < 64"
  shows "bit (rw_bitmap (mark w s)) i \<longleftrightarrow> i \<le> unat s \<and> s - of_nat i \<in> insert s A"
proof -
  have hA: "\<forall>t \<in> A. t \<le> h" using assms by (auto simp: rw_refines_def)
  have bits: "\<forall>i < 64. bit (rw_bitmap w) i \<longleftrightarrow> i \<le> unat h \<and> h - of_nat i \<in> A"
    using assms by (simp add: rw_refines_def)
  define d where "d = unat (s - h)"
  have d: "unat s = unat h + d" "0 < d"
    using assms(3) by (auto simp: d_def unat_sub word_less_nat_alt word_le_nat_alt)
  have below: "s - of_nat i \<notin> A" if "i < d" "i \<noteq> 0"
  proof
    assume "s - of_nat i \<in> A"
    then have "unat (s - of_nat i) \<le> unat h" using hA by (simp add: word_le_nat_alt)
    moreover have "unat (s - of_nat i) = unat s - i"
      using that d assms(4) by (simp add: unat_sub word_le_nat_alt unat_of_nat)
    ultimately show False using that d by simp
  qed
  have shift: "s - of_nat i = h - of_nat (i - d)" if "d \<le> i"
  proof -
    have "s = h + of_nat d" by (simp add: d_def)
    moreover have "of_nat i = (of_nat d + of_nat (i - d) :: u64)"
      using that by (simp flip: of_nat_add)
    ultimately show ?thesis by simp
  qed
  have big: "s - h \<ge> 64 \<longleftrightarrow> 64 \<le> d" by (simp add: d_def word_le_nat_alt)
  have new: "rw_bitmap (mark w s) = (if 64 \<le> d then 1 else push_bit d (rw_bitmap w) OR 1)"
    using assms(2,3) big by (simp add: mark_def Let_def d_def)
  consider "i = 0" | "i \<noteq> 0" "i < d" | "d \<le> i" by linarith
  then show ?thesis
  proof cases
    case 1
    then show ?thesis by (simp add: new bit_or_iff)
  next
    case 2
    moreover have "s - of_nat i \<noteq> s" using 2 assms(4) small_of_nat_neq_0 by simp
    ultimately show ?thesis
      using below [OF 2(2,1)] by (auto simp: new bit_or_iff bit_push_bit_iff bit_1_iff)
  next
    case 3
    then have "i \<noteq> 0" "\<not> 64 \<le> d" using d assms(4) by auto
    moreover have "s - of_nat i \<noteq> s" using \<open>i \<noteq> 0\<close> assms(4) small_of_nat_neq_0 by simp
    moreover have "bit (rw_bitmap w) (i - d) \<longleftrightarrow> i - d \<le> unat h \<and> s - of_nat i \<in> A"
      using bits assms(4) shift [OF 3] by simp
    moreover have "bit (rw_bitmap (mark w s)) i \<longleftrightarrow> bit (rw_bitmap w) (i - d)"
      using 3 assms(4) calculation(1,2) by (simp add: new bit_or_iff bit_push_bit_iff bit_1_iff)
    moreover have "i - d \<le> unat h \<longleftrightarrow> i \<le> unat s" using d 3 by auto
    ultimately show ?thesis by simp
  qed
qed


lemma mark_below_bits:
  assumes "rw_refines w A" and "rw_highest w = Some h" and "s \<le> h" and "unat (h - s) < 64"
    and "i < 64"
  shows "bit (rw_bitmap (mark w s)) i \<longleftrightarrow> i \<le> unat h \<and> h - of_nat i \<in> insert s A"
proof -
  have bits: "bit (rw_bitmap w) i \<longleftrightarrow> i \<le> unat h \<and> h - of_nat i \<in> A"
    using assms by (simp add: rw_refines_def)
  have "rw_bitmap (mark w s) = rw_bitmap w OR push_bit (unat (h - s)) 1"
    using assms(2,4) leD [OF assms(3)] by (simp add: mark_def)
  then have new: "bit (rw_bitmap (mark w s)) i \<longleftrightarrow> bit (rw_bitmap w) i \<or> i = unat (h - s)"
    using assms(5) by (auto simp: bit_or_iff bit_exp_iff)
  have "i \<le> unat h \<and> h - of_nat i = s \<longleftrightarrow> i = unat (h - s)"
  proof
    assume "i \<le> unat h \<and> h - of_nat i = s"
    then have "h - s = of_nat i" by auto
    then show "i = unat (h - s)" using assms(5) by (simp add: unat_of_nat)
  next
    assume "i = unat (h - s)"
    then show "i \<le> unat h \<and> h - of_nat i = s"
      using assms(3) by (simp add: unat_sub word_le_nat_alt)
  qed
  with new bits show ?thesis by blast
qed

lemma mark_refines:
  assumes "rw_refines w A" and "can_accept w s"
  shows "rw_refines (mark w s) (insert s A)"
proof (cases "rw_highest w")
  case None
  with assms(1) show ?thesis
    by (auto simp: rw_refines_def mark_def bit_1_iff) (metis gr0I small_of_nat_neq_0)
next
  case (Some h)
  have hA: "h \<in> A" "\<forall>t \<in> A. t \<le> h" using assms(1) Some by (auto simp: rw_refines_def)
  show ?thesis
  proof (cases "s > h")
    case True
    moreover from True hA have "\<forall>t \<in> insert s A. t \<le> s" by auto
    moreover from True Some have "rw_highest (mark w s) = Some s" by (simp add: mark_def Let_def)
    ultimately show ?thesis
      using mark_above_bits [OF assms(1) Some True] by (simp add: rw_refines_def)
  next
    case False
    then have le: "s \<le> h" by simp
    have d: "unat (h - s) < 64"
      using assms(2) Some False by (auto simp: can_accept_def Let_def word_less_nat_alt)
    from False Some have "rw_highest (mark w s) = Some h" by (simp add: mark_def)
    then show ?thesis
      using mark_below_bits [OF assms(1) Some le d] hA le by (auto simp: rw_refines_def)
  qed
qed

section \<open>The contract of a replay guard\<close>

text \<open>
  \<open>guard_run\<close> feeds a list of items to a receiver that admits an item when it is \<open>good\<close> and the guard
  accepts its number, and collects the admitted items in order.
\<close>

fun guard_run ::
  "('w \<Rightarrow> 'n \<Rightarrow> bool) \<Rightarrow> ('w \<Rightarrow> 'n \<Rightarrow> 'w) \<Rightarrow> ('p \<Rightarrow> 'n) \<Rightarrow> ('p \<Rightarrow> bool) \<Rightarrow> 'w \<Rightarrow> 'p list \<Rightarrow> 'w \<times> 'p list"
where
  "guard_run acc upd num good w [] = (w, [])"
| "guard_run acc upd num good w (p # ps) =
     (if good p \<and> acc w (num p)
      then (let (w', out) = guard_run acc upd num good (upd w (num p)) ps in (w', p # out))
      else guard_run acc upd num good w ps)"

locale replay_guard =
  fixes acc :: "'w \<Rightarrow> 'n \<Rightarrow> bool"
    and upd :: "'w \<Rightarrow> 'n \<Rightarrow> 'w"
    and init :: "'w"
    and refines :: "'w \<Rightarrow> 'n set \<Rightarrow> bool"
    and admissible :: "'n set \<Rightarrow> 'n \<Rightarrow> bool"
  assumes refines_init: "refines init {}"
    and acc_iff: "refines w A \<Longrightarrow> acc w s \<longleftrightarrow> admissible A s"
    and refines_upd: "refines w A \<Longrightarrow> acc w s \<Longrightarrow> refines (upd w s) (insert s A)"
    and admissible_fresh: "admissible A s \<Longrightarrow> s \<notin> A"
begin

lemma refuse_seen: "refines w A \<Longrightarrow> s \<in> A \<Longrightarrow> \<not> acc w s"
  using acc_iff admissible_fresh by blast

lemma run_accepts_once:
  assumes "refines w A" and "guard_run acc upd num good w ps = (w', out)"
  shows "distinct (map num out) \<and> num ` set out \<inter> A = {} \<and> refines w' (A \<union> num ` set out)"
  using assms
proof (induction ps arbitrary: w A out)
  case Nil
  then show ?case by simp
next
  case (Cons p ps)
  show ?case
  proof (cases "good p \<and> acc w (num p)")
    case True
    then obtain out' where out': "guard_run acc upd num good (upd w (num p)) ps = (w', out')"
      and out: "out = p # out'"
      using Cons.prems(2) by (auto split: prod.splits)
    have "num p \<notin> A" using True Cons.prems(1) acc_iff admissible_fresh by blast
    moreover have "refines (upd w (num p)) (insert (num p) A)"
      using True Cons.prems(1) refines_upd by blast
    note Cons.IH [OF this out']
    ultimately show ?thesis by (auto simp: out)
  next
    case False
    with Cons.prems(2) have "guard_run acc upd num good w ps = (w', out)" by (simp split: if_splits)
    with Cons.IH Cons.prems(1) show ?thesis by blast
  qed
qed

lemma run_keeps_refusing:
  assumes "refines w A" and "num p \<in> A" and "guard_run acc upd num good w ps = (w', out)"
  shows "\<not> acc w' (num p)"
proof -
  from run_accepts_once [OF assms(1,3)] have "refines w' (A \<union> num ` set out)" by blast
  then show ?thesis using assms(2) refuse_seen by blast
qed

end

interpretation rw: replay_guard can_accept mark replay_window_default rw_refines spec_accept
  by unfold_locales
    (simp_all add: rw_refines_default can_accept_refines mark_refines spec_accept_def)

end
