(* ===== verification/Sample_Ops.thy ===== *)
theory Sample_Ops
  imports Primitives
begin

text \<open>
  A concrete instance of the primitives, on which the witnesses of the development evaluate: a signature
  of 64 bytes that repeats a checksum of key and message, a cipher that appends a 16-byte checksum tag,
  and a self-delimiting encoding of lists of byte strings with its decoder. They show that the laws
  assumed of the crates can hold; they are not models of the crates.
\<close>

definition checksum :: "bytes \<Rightarrow> u8" where
  "checksum bs = foldr (\<lambda>b a. 3 * a + b + 1) bs 0"

definition sample_sign :: "bytes \<Rightarrow> bytes \<Rightarrow> bytes" where
  "sample_sign key message = replicate 64 (checksum (key @ message))"

definition sample_verify :: "bytes \<Rightarrow> bytes \<Rightarrow> bytes \<Rightarrow> bool" where
  "sample_verify key message sig \<longleftrightarrow> sig = replicate 64 (checksum (key @ message))"

definition sample_tag :: "bytes \<Rightarrow> bytes \<Rightarrow> bytes \<Rightarrow> bytes \<Rightarrow> bytes" where
  "sample_tag key nonce ad m = replicate 16 (checksum (key @ nonce @ ad @ m))"

definition sample_encrypt :: "bytes \<Rightarrow> bytes \<Rightarrow> bytes \<Rightarrow> bytes \<Rightarrow> bytes option" where
  "sample_encrypt key nonce ad m = Some (m @ sample_tag key nonce ad m)"

definition sample_decrypt :: "bytes \<Rightarrow> bytes \<Rightarrow> bytes \<Rightarrow> bytes \<Rightarrow> bytes option" where
  "sample_decrypt key nonce ad c =
     (let m = take (length c - 16) c
      in if c = m @ sample_tag key nonce ad m then Some m else None)"

definition sample_prims :: prims where
  "sample_prims = \<lparr>verifying_key = (\<lambda>sk. sk), ed_sign = sample_sign, ed_key_ok = (\<lambda>_. True),
     ed_verify = sample_verify, aead_encrypt = sample_encrypt, aead_decrypt = sample_decrypt\<rparr>"

lemma sample_prims_ed_correct [simp]: "ed_correct (prims.extend sample_prims e)"
  by (simp add: ed_correct_def sample_prims_def prims.defs sample_sign_def sample_verify_def)

lemma sample_prims_aead_correct [simp]: "aead_correct (prims.extend sample_prims e)"
  by (simp add: aead_correct_def sample_prims_def prims.defs sample_encrypt_def sample_decrypt_def
      sample_tag_def)

lemma sample_prims_laws [simp]: "ed_correct sample_prims" "aead_correct sample_prims"
  using sample_prims_ed_correct [of "()"] sample_prims_aead_correct [of "()"]
  by (simp_all add: sample_prims_def prims.defs)

section \<open>A self-delimiting encoding\<close>

fun enc_bytes :: "bytes \<Rightarrow> bytes" where
  "enc_bytes [] = [0]"
| "enc_bytes (x # xs) = 1 # x # enc_bytes xs"

fun dec_bytes :: "bytes \<Rightarrow> (bytes \<times> bytes) option" where
  "dec_bytes [] = None"
| "dec_bytes (t # r) =
     (if t = 0 then Some ([], r)
      else (case r of [] \<Rightarrow> None | x # r' \<Rightarrow> map_option (\<lambda>(xs, q). (x # xs, q)) (dec_bytes r')))"

lemma dec_enc_bytes [simp]: "dec_bytes (enc_bytes xs @ r) = Some (xs, r)"
  by (induction xs) auto

fun enc_fields :: "bytes list \<Rightarrow> bytes" where
  "enc_fields [] = []"
| "enc_fields (f # fs) = enc_bytes f @ enc_fields fs"

fun dec_fields :: "nat \<Rightarrow> bytes \<Rightarrow> bytes list option" where
  "dec_fields 0 r = (if r = [] then Some [] else None)"
| "dec_fields (Suc n) r =
     (case dec_bytes r of None \<Rightarrow> None | Some (f, q) \<Rightarrow> map_option (Cons f) (dec_fields n q))"

lemma dec_enc_fields [simp]: "length fs = n \<Longrightarrow> dec_fields n (enc_fields fs) = Some fs"
  by (induction fs arbitrary: n) auto

end
