(* ===== verification/Pairwise_Session.thy ===== *)
theory Pairwise_Session
  imports Wire_Format Replay_Window Sample_Ops
begin

text \<open>
  Authenticated ephemeral pairwise sessions (\<^verbatim>\<open>crates/meshlake-core/src/session.rs\<close>): the signed
  X25519 handshake, the derivation of the two traffic keys, and data packets with a sequence number
  under the replay window. Fixed-size arrays of the source are byte lists here; where a size matters
  to a result it is a hypothesis. Third-party operations beyond \<open>prims\<close>: X25519
  (\<^verbatim>\<open>x25519_dalek\<close>), HKDF-SHA256 (\<^verbatim>\<open>hkdf\<close>) and the JSON encodings of the handshake documents.
\<close>

record session_init_payload =
  sip_version :: u8
  sip_network_id :: network_id
  sip_initiator :: device_id
  sip_responder :: device_id
  sip_session_id :: bytes
  sip_initiator_ephemeral_public_key :: bytes
  sip_issued_at_unix_seconds :: u64

record session_init =
  si_payload :: session_init_payload
  si_signature :: bytes

record session_response_payload =
  srp_version :: u8
  srp_network_id :: network_id
  srp_initiator :: device_id
  srp_responder :: device_id
  srp_session_id :: bytes
  srp_initiator_ephemeral_public_key :: bytes
  srp_responder_ephemeral_public_key :: bytes
  srp_issued_at_unix_seconds :: u64

record session_response =
  sr_payload :: session_response_payload
  sr_signature :: bytes

record session_ops = prims +
  x25519_public :: "bytes \<Rightarrow> bytes"                       \<comment> \<open>\<^verbatim>\<open>PublicKey::from(&secret)\<close>\<close>
  x25519 :: "bytes \<Rightarrow> bytes \<Rightarrow> bytes"                     \<comment> \<open>\<^verbatim>\<open>secret.diffie_hellman(&public)\<close>\<close>
  hkdf_expand :: "bytes \<Rightarrow> bytes \<Rightarrow> bytes \<Rightarrow> nat \<Rightarrow> bytes option"  \<comment> \<open>salt, secret, info, output length\<close>
  json_init_payload :: "session_init_payload \<Rightarrow> bytes option"
  json_init :: "session_init \<Rightarrow> bytes option"
  parse_init :: "bytes \<Rightarrow> session_init option"
  json_response_payload :: "session_response_payload \<Rightarrow> bytes option"
  json_response :: "session_response \<Rightarrow> bytes option"
  parse_response :: "bytes \<Rightarrow> session_response option"

definition SESSION_PROTOCOL_VERSION :: u8 where "SESSION_PROTOCOL_VERSION = 1"
definition SESSION_DATA_HEADER_LEN :: nat where
  "SESSION_DATA_HEADER_LEN = RELAY_DATA_HEADER_LEN + 16 + 8"

text \<open>The signature and derivation domains; each ends with a zero byte.\<close>

definition INIT_SIGNATURE_DOMAIN :: bytes where
  "INIT_SIGNATURE_DOMAIN = ascii ''MeshLake session init v1'' @ [0]"
definition RESPONSE_SIGNATURE_DOMAIN :: bytes where
  "RESPONSE_SIGNATURE_DOMAIN = ascii ''MeshLake session response v1'' @ [0]"
definition KDF_DOMAIN :: bytes where
  "KDF_DOMAIN = ascii ''MeshLake pairwise traffic keys v1'' @ [0]"

section \<open>Headers and nonces\<close>

definition routing_header :: "u8 \<Rightarrow> network_id \<Rightarrow> device_id \<Rightarrow> device_id \<Rightarrow> bytes" where
  "routing_header kind network_id source destination =
     RELAY_MAGIC @ [kind] @ u128_to_be network_id @ u128_to_be source @ u128_to_be destination"

definition session_data_header ::
  "network_id \<Rightarrow> device_id \<Rightarrow> device_id \<Rightarrow> bytes \<Rightarrow> u64 \<Rightarrow> bytes" where
  "session_data_header network_id source destination session_id sequence =
     routing_header RELAY_SESSION_DATA network_id source destination @ session_id @ u64_to_be sequence"

definition session_nonce :: "bytes \<Rightarrow> u64 \<Rightarrow> bytes" where
  "session_nonce session_id sequence = session_id @ u64_to_be sequence"

definition parse_session_routing_header ::
  "bytes \<Rightarrow> u8 \<Rightarrow> crypto_error + (network_id \<times> device_id \<times> device_id)" where
  "parse_session_routing_header packet expected_kind =
     (if length packet < RELAY_DATA_HEADER_LEN \<or> take 4 packet \<noteq> RELAY_MAGIC
         \<or> packet ! 4 \<noteq> expected_kind
      then Inl InvalidSessionPacket
      else
        rbind (ok_or InvalidSessionPacket (uuid_from_slice (slice 5 21 packet))) (\<lambda>network_id.
        rbind (ok_or InvalidSessionPacket (uuid_from_slice (slice 21 37 packet))) (\<lambda>source.
        rbind (ok_or InvalidSessionPacket (uuid_from_slice (slice 37 53 packet))) (\<lambda>destination.
          Inr (network_id, source, destination)))))"

definition parse_session_data_header ::
  "bytes \<Rightarrow> crypto_error + (network_id \<times> device_id \<times> device_id \<times> bytes \<times> u64)" where
  "parse_session_data_header packet =
     (if length packet < SESSION_DATA_HEADER_LEN + 16 then Inl InvalidSessionPacket
      else rbind (parse_session_routing_header packet RELAY_SESSION_DATA)
             (\<lambda>(network_id, source, destination).
                Inr (network_id, source, destination, slice 53 69 packet,
                     u64_of_be (slice 69 77 packet))))"

section \<open>Signed and routed documents\<close>

definition signature_message :: "('p \<Rightarrow> bytes option) \<Rightarrow> bytes \<Rightarrow> 'p \<Rightarrow> crypto_error + bytes" where
  "signature_message to_vec domain payload =
     rbind (ok_or InvalidSessionPacket (to_vec payload)) (\<lambda>encoded. Inr (domain @ encoded))"

definition sign_payload ::
  "'x prims_scheme \<Rightarrow> ('p \<Rightarrow> bytes option) \<Rightarrow> bytes \<Rightarrow> 'p \<Rightarrow> bytes \<Rightarrow> crypto_error + bytes" where
  "sign_payload X to_vec domain payload identity =
     rbind (signature_message to_vec domain payload) (\<lambda>message. Inr (ed_sign X identity message))"

definition verify_payload ::
  "'x prims_scheme \<Rightarrow> ('p \<Rightarrow> bytes option) \<Rightarrow> bytes \<Rightarrow> 'p \<Rightarrow> bytes \<Rightarrow> bytes \<Rightarrow> crypto_error + unit" where
  "verify_payload X to_vec domain payload signature public_key =
     (if length public_key \<noteq> 32 then Inl InvalidIdentityKey
      else if length signature \<noteq> 64 then Inl InvalidSessionSignature
      else rbind (signature_message to_vec domain payload) (\<lambda>message.
             if \<not> ed_key_ok X public_key then Inl InvalidIdentityKey
             else if \<not> ed_verify X public_key message signature then Inl InvalidSessionSignature
             else Inr ()))"

definition verify_fresh :: "u8 \<Rightarrow> u64 \<Rightarrow> u64 \<Rightarrow> u64 \<Rightarrow> crypto_error + unit" where
  "verify_fresh version issued_at now maximum_clock_skew =
     (if version \<noteq> SESSION_PROTOCOL_VERSION then Inl InvalidSessionPacket
      else if abs_diff now issued_at > maximum_clock_skew then Inl StaleSessionHandshake
      else Inr ())"

definition encode_routed_json ::
  "('v \<Rightarrow> bytes option) \<Rightarrow> u8 \<Rightarrow> network_id \<Rightarrow> device_id \<Rightarrow> device_id \<Rightarrow> 'v \<Rightarrow> crypto_error + bytes" where
  "encode_routed_json to_vec kind network_id source destination value =
     rbind (ok_or InvalidSessionPacket (to_vec value)) (\<lambda>encoded.
       Inr (routing_header kind network_id source destination @ encoded))"

definition parse_routed_json ::
  "(bytes \<Rightarrow> 'v option) \<Rightarrow> bytes \<Rightarrow> u8 \<Rightarrow> network_id \<Rightarrow> device_id \<Rightarrow> device_id \<Rightarrow> crypto_error + 'v" where
  "parse_routed_json from_slice packet kind network_id source destination =
     rbind (parse_session_routing_header packet kind) (\<lambda>routed.
       if routed \<noteq> (network_id, source, destination) then Inl SessionIdentityMismatch
       else ok_or InvalidSessionPacket (from_slice (drop RELAY_DATA_HEADER_LEN packet)))"

section \<open>Key derivation\<close>

record pairwise_session_keys =
  psk_session_id :: bytes
  psk_send_key :: bytes
  psk_receive_key :: bytes

definition kdf_info :: "session_response_payload \<Rightarrow> bytes" where
  "kdf_info response =
     KDF_DOMAIN @ u128_to_be (srp_network_id response) @ u128_to_be (srp_initiator response)
       @ u128_to_be (srp_responder response) @ srp_session_id response
       @ srp_initiator_ephemeral_public_key response @ srp_responder_ephemeral_public_key response"

definition derive_session_keys ::
  "'x session_ops_scheme \<Rightarrow> bytes \<Rightarrow> session_response_payload \<Rightarrow> bytes \<Rightarrow> bool
     \<Rightarrow> crypto_error + pairwise_session_keys" where
  "derive_session_keys X network_key response shared_secret local_is_initiator =
     (if shared_secret = replicate 32 0 then Inl InvalidSessionKey
      else rbind (ok_or InvalidSessionKey (hkdf_expand X network_key shared_secret (kdf_info response) 64))
        (\<lambda>output.
           let initiator_to_responder = take 32 output;
               responder_to_initiator = drop 32 output;
               (send_key, receive_key) =
                 (if local_is_initiator then (initiator_to_responder, responder_to_initiator)
                  else (responder_to_initiator, initiator_to_responder))
           in Inr \<lparr>psk_session_id = srp_session_id response, psk_send_key = send_key,
                   psk_receive_key = receive_key\<rparr>))"

section \<open>The handshake\<close>

record initiator_handshake =
  ih_init :: session_init
  ih_secret :: bytes

definition initiator_start ::
  "'x session_ops_scheme \<Rightarrow> bytes option \<Rightarrow> bytes option \<Rightarrow> network_id \<Rightarrow> device_id \<Rightarrow> device_id \<Rightarrow> bytes
     \<Rightarrow> u64 \<Rightarrow> crypto_error + (initiator_handshake \<times> bytes)" where
  "initiator_start X random_session_id random_secret network_id initiator responder identity issued_at =
     rbind (ok_or RandomnessUnavailable random_session_id) (\<lambda>session_id.
     rbind (ok_or RandomnessUnavailable random_secret) (\<lambda>secret.
       let payload = \<lparr>sip_version = SESSION_PROTOCOL_VERSION, sip_network_id = network_id,
             sip_initiator = initiator, sip_responder = responder, sip_session_id = session_id,
             sip_initiator_ephemeral_public_key = x25519_public X secret,
             sip_issued_at_unix_seconds = issued_at\<rparr>
       in rbind (sign_payload X (json_init_payload X) INIT_SIGNATURE_DOMAIN payload identity) (\<lambda>signature.
            let init = \<lparr>si_payload = payload, si_signature = signature\<rparr>
            in rbind (encode_routed_json (json_init X) RELAY_SESSION_INIT network_id initiator responder init)
                 (\<lambda>packet. Inr (\<lparr>ih_init = init, ih_secret = secret\<rparr>, packet)))))"

definition initiator_complete ::
  "'x session_ops_scheme \<Rightarrow> initiator_handshake \<Rightarrow> bytes \<Rightarrow> bytes \<Rightarrow> bytes \<Rightarrow> u64 \<Rightarrow> u64
     \<Rightarrow> crypto_error + pairwise_session_keys" where
  "initiator_complete X hs response_packet expected_responder_public_key network_key now maximum_clock_skew =
     (let init = si_payload (ih_init hs)
      in rbind (parse_routed_json (parse_response X) response_packet RELAY_SESSION_RESPONSE
            (sip_network_id init) (sip_responder init) (sip_initiator init)) (\<lambda>response.
         let payload = sr_payload response
         in rbind (verify_fresh (srp_version payload) (srp_issued_at_unix_seconds payload) now
                maximum_clock_skew) (\<lambda>_.
            if srp_network_id payload \<noteq> sip_network_id init
               \<or> srp_initiator payload \<noteq> sip_initiator init
               \<or> srp_responder payload \<noteq> sip_responder init
               \<or> srp_session_id payload \<noteq> sip_session_id init
               \<or> srp_initiator_ephemeral_public_key payload \<noteq> sip_initiator_ephemeral_public_key init
            then Inl SessionIdentityMismatch
            else rbind (verify_payload X (json_response_payload X) RESPONSE_SIGNATURE_DOMAIN payload
                   (sr_signature response) expected_responder_public_key) (\<lambda>_.
                 derive_session_keys X network_key payload
                   (x25519 X (ih_secret hs) (srp_responder_ephemeral_public_key payload)) True))))"

definition accept_pairwise_handshake ::
  "'x session_ops_scheme \<Rightarrow> bytes option \<Rightarrow> bytes \<Rightarrow> bytes \<Rightarrow> bytes \<Rightarrow> bytes \<Rightarrow> u64 \<Rightarrow> u64
     \<Rightarrow> crypto_error + (pairwise_session_keys \<times> bytes)" where
  "accept_pairwise_handshake X random_secret init_packet expected_initiator_public_key
       responder_identity network_key now maximum_clock_skew =
     rbind (parse_session_routing_header init_packet RELAY_SESSION_INIT)
       (\<lambda>(network_id, initiator, responder).
     rbind (parse_routed_json (parse_init X) init_packet RELAY_SESSION_INIT network_id initiator responder)
       (\<lambda>init.
       let payload = si_payload init
       in if sip_network_id payload \<noteq> network_id \<or> sip_initiator payload \<noteq> initiator
             \<or> sip_responder payload \<noteq> responder
          then Inl SessionIdentityMismatch
          else rbind (verify_fresh (sip_version payload) (sip_issued_at_unix_seconds payload) now
                 maximum_clock_skew) (\<lambda>_.
               rbind (verify_payload X (json_init_payload X) INIT_SIGNATURE_DOMAIN payload
                 (si_signature init) expected_initiator_public_key) (\<lambda>_.
               rbind (ok_or RandomnessUnavailable random_secret) (\<lambda>responder_secret.
               let response_payload = \<lparr>srp_version = SESSION_PROTOCOL_VERSION,
                     srp_network_id = network_id, srp_initiator = initiator, srp_responder = responder,
                     srp_session_id = sip_session_id payload,
                     srp_initiator_ephemeral_public_key = sip_initiator_ephemeral_public_key payload,
                     srp_responder_ephemeral_public_key = x25519_public X responder_secret,
                     srp_issued_at_unix_seconds = now\<rparr>
               in rbind (sign_payload X (json_response_payload X) RESPONSE_SIGNATURE_DOMAIN
                      response_payload responder_identity) (\<lambda>signature.
                  let response = \<lparr>sr_payload = response_payload, sr_signature = signature\<rparr>
                  in rbind (derive_session_keys X network_key response_payload
                         (x25519 X responder_secret (sip_initiator_ephemeral_public_key payload)) False)
                       (\<lambda>keys.
                     rbind (encode_routed_json (json_response X) RELAY_SESSION_RESPONSE network_id
                         responder initiator response) (\<lambda>packet.
                       Inr (keys, packet)))))))))"

definition session_handshake_id :: "'x session_ops_scheme \<Rightarrow> bytes \<Rightarrow> u8 \<Rightarrow> crypto_error + bytes" where
  "session_handshake_id X packet expected_kind =
     rbind (parse_session_routing_header packet expected_kind) (\<lambda>(network_id, source, destination).
       if expected_kind = RELAY_SESSION_INIT then
         rbind (parse_routed_json (parse_init X) packet expected_kind network_id source destination)
           (\<lambda>init.
             if sip_network_id (si_payload init) \<noteq> network_id
                \<or> sip_initiator (si_payload init) \<noteq> source
                \<or> sip_responder (si_payload init) \<noteq> destination
             then Inl SessionIdentityMismatch
             else Inr (sip_session_id (si_payload init)))
       else if expected_kind = RELAY_SESSION_RESPONSE then
         rbind (parse_routed_json (parse_response X) packet expected_kind network_id source destination)
           (\<lambda>response.
             if srp_network_id (sr_payload response) \<noteq> network_id
                \<or> srp_responder (sr_payload response) \<noteq> source
                \<or> srp_initiator (sr_payload response) \<noteq> destination
             then Inl SessionIdentityMismatch
             else Inr (srp_session_id (sr_payload response)))
       else Inl InvalidSessionPacket)"

section \<open>Data packets\<close>

record session_packet =
  sp_network_id :: network_id
  sp_source :: device_id
  sp_destination :: device_id
  sp_session_id :: bytes
  sp_sequence :: u64
  sp_plaintext :: bytes

definition session_seal ::
  "'x prims_scheme \<Rightarrow> pairwise_session_keys \<Rightarrow> network_id \<Rightarrow> device_id \<Rightarrow> device_id \<Rightarrow> u64 \<Rightarrow> bytes
     \<Rightarrow> crypto_error + bytes" where
  "session_seal X keys network_id source destination sequence plaintext =
     (let header = session_data_header network_id source destination (psk_session_id keys) sequence
      in rbind (ok_or EncryptionFailed (aead_encrypt X (psk_send_key keys)
             (session_nonce (psk_session_id keys) sequence) header plaintext)) (\<lambda>ciphertext.
           Inr (header @ ciphertext)))"

text \<open>Opening takes the window by mutable reference; the model returns it beside the result.\<close>

definition session_open ::
  "'x prims_scheme \<Rightarrow> pairwise_session_keys \<Rightarrow> replay_window \<Rightarrow> bytes
     \<Rightarrow> replay_window \<times> (crypto_error + session_packet)" where
  "session_open X keys window packet =
     (case parse_session_data_header packet of
        Inl e \<Rightarrow> (window, Inl e)
      | Inr (network_id, source, destination, session_id, sequence) \<Rightarrow>
          if session_id \<noteq> psk_session_id keys \<or> \<not> can_accept window sequence
          then (window, Inl SessionReplayDetected)
          else (case aead_decrypt X (psk_receive_key keys) (session_nonce session_id sequence)
                     (take SESSION_DATA_HEADER_LEN packet) (drop SESSION_DATA_HEADER_LEN packet) of
                  None \<Rightarrow> (window, Inl AuthenticationFailed)
                | Some plaintext \<Rightarrow>
                    (mark window sequence,
                     Inr \<lparr>sp_network_id = network_id, sp_source = source, sp_destination = destination,
                          sp_session_id = session_id, sp_sequence = sequence,
                          sp_plaintext = plaintext\<rparr>)))"

text \<open>A receiver that opens the packets it gets one after the other with one window.\<close>

fun session_receive ::
  "'x prims_scheme \<Rightarrow> pairwise_session_keys \<Rightarrow> replay_window \<Rightarrow> bytes list
     \<Rightarrow> replay_window \<times> session_packet list" where
  "session_receive X keys w [] = (w, [])"
| "session_receive X keys w (p # ps) =
     (case session_open X keys w p of
        (w', Inl _) \<Rightarrow> session_receive X keys w' ps
      | (w', Inr sp) \<Rightarrow> (let (w'', sps) = session_receive X keys w' ps in (w'', sp # sps)))"

section \<open>Headers are uniquely parsed\<close>

lemma length_routing_header [simp, wire_simps]: "length (routing_header k n s d) = 53"
  by (simp add: routing_header_def RELAY_MAGIC_def)

lemma routing_header_fields:
  "take 4 (routing_header k n s d @ r) = RELAY_MAGIC"
  "(routing_header k n s d @ r) ! 4 = k"
  "slice 5 21 (routing_header k n s d @ r) = u128_to_be n"
  "slice 21 37 (routing_header k n s d @ r) = u128_to_be s"
  "slice 37 53 (routing_header k n s d @ r) = u128_to_be d"
  by (simp_all add: routing_header_def RELAY_MAGIC_def slice_def)

lemma parse_routing_header_append [simp]:
  "parse_session_routing_header (routing_header k n s d @ r) k = Inr (n, s, d)"
  unfolding parse_session_routing_header_def routing_header_fields
  by (simp add: RELAY_DATA_HEADER_LEN_def)

lemma parse_routing_header_Inr_iff:
  "parse_session_routing_header p k = Inr (n, s, d) \<longleftrightarrow> (\<exists>r. p = routing_header k n s d @ r)"
proof
  assume parsed: "parse_session_routing_header p k = Inr (n, s, d)"
  then have len: "53 \<le> length p" and hdr: "take 4 p = RELAY_MAGIC" "p ! 4 = k"
    and fields: "n = u128_of_be (slice 5 21 p)" "s = u128_of_be (slice 21 37 p)"
      "d = u128_of_be (slice 37 53 p)"
    by (auto simp: parse_session_routing_header_def RELAY_DATA_HEADER_LEN_def uuid_from_slice_def
        split: if_splits)
  have "take 53 p = routing_header k n s d"
    using len hdr by (simp add: header_segments routing_header_def fields to_of_be)
  then show "\<exists>r. p = routing_header k n s d @ r"
    by (metis append_take_drop_id)
qed auto

lemma length_session_data_header [wire_simps]:
  "length (session_data_header n s d sid q) = 61 + length sid"
  by (simp add: session_data_header_def)

lemma parse_data_header_Inr_iff:
  "parse_session_data_header p = Inr (n, s, d, sid, q) \<longleftrightarrow>
     length sid = 16 \<and> (\<exists>c. p = session_data_header n s d sid q @ c \<and> 16 \<le> length c)"
proof
  assume parsed: "parse_session_data_header p = Inr (n, s, d, sid, q)"
  then obtain r where p: "p = routing_header RELAY_SESSION_DATA n s d @ r"
    and len: "93 \<le> length p" and sid: "sid = slice 53 69 p" and q: "q = u64_of_be (slice 69 77 p)"
    by (auto simp: parse_session_data_header_def parse_routing_header_Inr_iff
        SESSION_DATA_HEADER_LEN_def RELAY_DATA_HEADER_LEN_def split: if_splits)
  have r: "40 \<le> length r" using len p by simp
  have "sid = take 16 r" "slice 69 77 p = take 8 (drop 16 r)"
    using sid by (simp_all add: p slice_def)
  moreover have "drop 16 r = take 8 (drop 16 r) @ drop 24 r"
    using append_take_drop_id [of 8 "drop 16 r", symmetric] by simp
  then have "r = take 16 r @ take 8 (drop 16 r) @ drop 24 r"
    by (metis append_take_drop_id)
  ultimately have "p = session_data_header n s d sid q @ drop 24 r"
    using r by (simp add: p session_data_header_def q to_of_be)
  then show "length sid = 16 \<and> (\<exists>c. p = session_data_header n s d sid q @ c \<and> 16 \<le> length c)"
    using r \<open>sid = take 16 r\<close> by auto
next
  assume "length sid = 16 \<and> (\<exists>c. p = session_data_header n s d sid q @ c \<and> 16 \<le> length c)"
  then obtain c where len: "length sid = 16" "16 \<le> length c"
    and p: "p = routing_header RELAY_SESSION_DATA n s d @ sid @ u64_to_be q @ c"
    by (auto simp: session_data_header_def)
  have "slice 53 69 p = sid" "slice 69 77 p = u64_to_be q"
    using len by (simp_all add: p slice_def)
  then show "parse_session_data_header p = Inr (n, s, d, sid, q)"
    using len by (simp add: parse_session_data_header_def SESSION_DATA_HEADER_LEN_def
        RELAY_DATA_HEADER_LEN_def) (simp add: p)
qed

section \<open>Opening and sealing\<close>

text \<open>The open operation, with the parsed header put back together.\<close>

lemma session_open_eq:
  assumes "length sid = 16" and "16 \<le> length c"
  shows "session_open X keys w (session_data_header n s d sid q @ c) =
    (if sid \<noteq> psk_session_id keys \<or> \<not> can_accept w q then (w, Inl SessionReplayDetected)
     else (case aead_decrypt X (psk_receive_key keys) (session_nonce sid q)
                  (session_data_header n s d sid q) c of
             None \<Rightarrow> (w, Inl AuthenticationFailed)
           | Some m \<Rightarrow> (mark w q, Inr \<lparr>sp_network_id = n, sp_source = s, sp_destination = d,
                sp_session_id = sid, sp_sequence = q, sp_plaintext = m\<rparr>)))"
proof -
  have "parse_session_data_header (session_data_header n s d sid q @ c) = Inr (n, s, d, sid, q)"
    using assms by (auto simp: parse_data_header_Inr_iff)
  moreover have "take SESSION_DATA_HEADER_LEN (session_data_header n s d sid q @ c)
      = session_data_header n s d sid q"
    "drop SESSION_DATA_HEADER_LEN (session_data_header n s d sid q @ c) = c"
    using assms by (simp_all add: SESSION_DATA_HEADER_LEN_def RELAY_DATA_HEADER_LEN_def
        length_session_data_header)
  ultimately show ?thesis by (simp only: session_open_def sum.case prod.case)
qed

lemma session_open_InrE:
  assumes "session_open X keys w p = (w', Inr sp)"
  obtains c where "length (sp_session_id sp) = 16" and "16 \<le> length c"
    and "p = session_data_header (sp_network_id sp) (sp_source sp) (sp_destination sp)
           (sp_session_id sp) (sp_sequence sp) @ c"
    and "sp_session_id sp = psk_session_id keys" and "can_accept w (sp_sequence sp)"
    and "aead_decrypt X (psk_receive_key keys) (session_nonce (sp_session_id sp) (sp_sequence sp))
           (session_data_header (sp_network_id sp) (sp_source sp) (sp_destination sp)
             (sp_session_id sp) (sp_sequence sp)) c = Some (sp_plaintext sp)"
    and "w' = mark w (sp_sequence sp)"
proof -
  obtain n s d sid q where parsed: "parse_session_data_header p = Inr (n, s, d, sid, q)"
    using assms by (auto simp: session_open_def split: sum.splits)
  then obtain c where len: "length sid = 16" "16 \<le> length c"
    and p: "p = session_data_header n s d sid q @ c"
    by (auto simp: parse_data_header_Inr_iff)
  show ?thesis
    using assms that [of c] len
    by (auto simp: p session_open_eq [OF len] split: if_splits option.splits)
qed

lemma session_open_InlD: "session_open X keys w p = (w', Inl e) \<Longrightarrow> w' = w"
  by (auto simp: session_open_def split: sum.splits if_splits option.splits)

text \<open>Whether a packet is opened depends on the window only through the acceptance of its sequence number.\<close>

definition packet_good :: "'x prims_scheme \<Rightarrow> pairwise_session_keys \<Rightarrow> bytes \<Rightarrow> session_packet option" where
  "packet_good X keys p = (case snd (session_open X keys replay_window_default p) of
      Inl _ \<Rightarrow> None | Inr sp \<Rightarrow> Some sp)"

lemma session_open_good:
  "session_open X keys w p =
     (case packet_good X keys p of
        None \<Rightarrow> (w, snd (session_open X keys w p))
      | Some sp \<Rightarrow> if can_accept w (sp_sequence sp) then (mark w (sp_sequence sp), Inr sp)
                  else (w, Inl SessionReplayDetected))"
  by (auto simp: packet_good_def session_open_def can_accept_def replay_window_default_def
      split: sum.splits option.splits if_splits)

lemma session_open_not_good:
  "packet_good X keys p = None \<Longrightarrow> \<exists>e. snd (session_open X keys w p) = Inl e"
  by (auto simp: packet_good_def session_open_def can_accept_def replay_window_default_def
      split: sum.splits option.splits if_splits)

lemma session_receive_guard:
  "session_receive X keys w ps =
     (let (w', good) = guard_run can_accept mark sp_sequence (\<lambda>_. True) w
            (List.map_filter (packet_good X keys) ps)
      in (w', good))"
proof (induction ps arbitrary: w)
  case Nil
  then show ?case by (simp add: map_filter_simps)
next
  case (Cons p ps)
  show ?case
  proof (cases "packet_good X keys p")
    case None
    then obtain e where "session_open X keys w p = (w, Inl e)"
      using session_open_good [of X keys w p] session_open_not_good [of X keys p w] by (cases "session_open X keys w p") auto
    with None Cons show ?thesis by (simp add: map_filter_simps)
  next
    case (Some sp)
    then show ?thesis
      using Cons session_open_good [of X keys w p]
      by (simp add: map_filter_simps split_beta)
  qed
qed

lemma session_receive_refines:
  assumes "rw_refines w A" and "session_receive X keys w ps = (w', sps)"
  shows "distinct (map sp_sequence sps) \<and> sp_sequence ` set sps \<inter> A = {}
    \<and> rw_refines w' (A \<union> sp_sequence ` set sps)"
proof -
  have "guard_run can_accept mark sp_sequence (\<lambda>_. True) w
      (List.map_filter (packet_good X keys) ps) = (w', sps)"
    using assms(2) by (simp add: session_receive_guard)
  from rw.run_accepts_once [OF assms(1) this] show ?thesis .
qed

text \<open>
  C1: Replay protection. Whatever packets a receiver is given, in whatever order and however often, it
  opens at most one packet for each sequence number of the session.
\<close>

theorem session_sequences_opened_once:
  "distinct (map sp_sequence (snd (session_receive X keys replay_window_default ps)))"
  using session_receive_refines [OF rw_refines_default, of X keys ps]
  by (cases "session_receive X keys replay_window_default ps") auto

text \<open>
  C2: After any history of packets, the next packet is opened exactly when its header parses, carries the
  session identifier, its sequence number is new and less than 64 below every opened one, and its ciphertext
  authenticates: the 64-bit bitmap decides as the set of opened numbers does, so no fresh packet inside
  the window is lost.
\<close>

theorem session_open_after_history:
  "is_ok (snd (session_open X keys (fst (session_receive X keys replay_window_default ps)) p)) \<longleftrightarrow>
     (\<exists>n s d q c m. length (psk_session_id keys) = 16 \<and> 16 \<le> length c
        \<and> p = session_data_header n s d (psk_session_id keys) q @ c
        \<and> q \<notin> sp_sequence ` set (snd (session_receive X keys replay_window_default ps))
        \<and> sp_sequence ` set (snd (session_receive X keys replay_window_default ps))
             \<subseteq> {t. unat t < unat q + 64}
        \<and> aead_decrypt X (psk_receive_key keys) (session_nonce (psk_session_id keys) q)
             (session_data_header n s d (psk_session_id keys) q) c = Some m)"
  (is "?ok \<longleftrightarrow> ?rhs")
proof -
  obtain w sps where run: "session_receive X keys replay_window_default ps = (w, sps)"
    by fastforce
  have acc: "can_accept w q \<longleftrightarrow> q \<notin> sp_sequence ` set sps
      \<and> sp_sequence ` set sps \<subseteq> {t. unat t < unat q + 64}" for q
    using session_receive_refines [OF rw_refines_default run] can_accept_refines
    by (auto simp: spec_accept_def subset_iff)
  show ?thesis
  proof
    assume ?ok
    then obtain w' sp where "session_open X keys w p = (w', Inr sp)"
      by (cases "session_open X keys w p") (auto simp: run is_ok_iff)
    then show ?rhs
      by (elim session_open_InrE) (use acc run in \<open>fastforce\<close>)
  next
    assume ?rhs
    then show ?ok by (auto simp: run session_open_eq acc)
  qed
qed

section \<open>Correctness of the handshake\<close>

text \<open>What the crates document: \<^verbatim>\<open>from_slice\<close> inverts \<^verbatim>\<open>to_vec\<close>, and the key agreement is symmetric.\<close>

definition json_session_ok :: "'x session_ops_scheme \<Rightarrow> bool" where
  "json_session_ok X \<longleftrightarrow>
     (\<forall>v b. json_init X v = Some b \<longrightarrow> parse_init X b = Some v)
     \<and> (\<forall>v b. json_response X v = Some b \<longrightarrow> parse_response X b = Some v)"

definition dh_correct :: "'x session_ops_scheme \<Rightarrow> bool" where
  "dh_correct X \<longleftrightarrow> (\<forall>a b. x25519 X a (x25519_public X b) = x25519 X b (x25519_public X a))"

lemma parse_routed_json_encode [simp]:
  "parse_routed_json f (routing_header k n s d @ e) k n s d = ok_or InvalidSessionPacket (f e)"
  by (simp add: parse_routed_json_def RELAY_DATA_HEADER_LEN_def)

lemma verify_sign_payload:
  assumes "ed_correct X" and "length sk = 32" and "sign_payload X tv dm v sk = Inr sig"
  shows "verify_payload X tv dm v sig (verifying_key X sk) = Inr ()"
proof -
  obtain m where "signature_message tv dm v = Inr m" and "sig = ed_sign X sk m"
    using assms(3) by (auto simp: sign_payload_def)
  then show ?thesis using ed_correctD [OF assms(1,2)] by (simp add: verify_payload_def)
qed

lemma derive_session_keys_mirror:
  assumes "derive_session_keys X nk r shared False = Inr kr"
  shows "derive_session_keys X nk r shared True =
    Inr \<lparr>psk_session_id = psk_session_id kr, psk_send_key = psk_receive_key kr,
         psk_receive_key = psk_send_key kr\<rparr>"
  using assms by (auto simp: derive_session_keys_def Let_def split: if_splits)

lemma initiator_startE:
  assumes "initiator_start X (Some sid) (Some a) n i r sk t = Inr (hs, p)"
  obtains e where "json_init X (ih_init hs) = Some e"
    and "p = routing_header RELAY_SESSION_INIT n i r @ e" and "ih_secret hs = a"
    and "si_payload (ih_init hs) = \<lparr>sip_version = SESSION_PROTOCOL_VERSION, sip_network_id = n,
          sip_initiator = i, sip_responder = r, sip_session_id = sid,
          sip_initiator_ephemeral_public_key = x25519_public X a, sip_issued_at_unix_seconds = t\<rparr>"
    and "sign_payload X (json_init_payload X) INIT_SIGNATURE_DOMAIN (si_payload (ih_init hs)) sk
          = Inr (si_signature (ih_init hs))"
  using assms by (auto simp: initiator_start_def encode_routed_json_def Let_def)

text \<open>What the responder computes from an accepted first packet.\<close>

definition response_for :: "'x session_ops_scheme \<Rightarrow> session_init_payload \<Rightarrow> bytes \<Rightarrow> u64 \<Rightarrow> session_response_payload" where
  "response_for X v b now = \<lparr>srp_version = SESSION_PROTOCOL_VERSION,
     srp_network_id = sip_network_id v, srp_initiator = sip_initiator v,
     srp_responder = sip_responder v, srp_session_id = sip_session_id v,
     srp_initiator_ephemeral_public_key = sip_initiator_ephemeral_public_key v,
     srp_responder_ephemeral_public_key = x25519_public X b, srp_issued_at_unix_seconds = now\<rparr>"

lemma accept_handshakeE:
  assumes "accept_pairwise_handshake X (Some b) p ipk sk nk now skew = Inr (kr, p2)"
  obtains init sig e where
    "parse_session_routing_header p RELAY_SESSION_INIT
       = Inr (sip_network_id (si_payload init), sip_initiator (si_payload init), sip_responder (si_payload init))"
    and "parse_init X (drop RELAY_DATA_HEADER_LEN p) = Some init"
    and "verify_fresh (sip_version (si_payload init)) (sip_issued_at_unix_seconds (si_payload init)) now skew = Inr ()"
    and "verify_payload X (json_init_payload X) INIT_SIGNATURE_DOMAIN (si_payload init) (si_signature init) ipk = Inr ()"
    and "sign_payload X (json_response_payload X) RESPONSE_SIGNATURE_DOMAIN (response_for X (si_payload init) b now) sk = Inr sig"
    and "derive_session_keys X nk (response_for X (si_payload init) b now)
       (x25519 X b (sip_initiator_ephemeral_public_key (si_payload init))) False = Inr kr"
    and "json_response X \<lparr>sr_payload = response_for X (si_payload init) b now, sr_signature = sig\<rparr> = Some e"
    and "p2 = routing_header RELAY_SESSION_RESPONSE (sip_network_id (si_payload init))
       (sip_responder (si_payload init)) (sip_initiator (si_payload init)) @ e"
  using assms
  by (fastforce simp: accept_pairwise_handshake_def parse_routed_json_def encode_routed_json_def
      response_for_def Let_def split: if_splits)

lemma derive_session_keys_id: "derive_session_keys X nk r shared b = Inr k \<Longrightarrow> psk_session_id k = srp_session_id r"
  by (cases b) (clarsimp simp: derive_session_keys_def Let_def split: if_splits)+

lemma accepted_session_id:
  assumes "json_session_ok X"
    and start: "initiator_start X (Some sid) (Some a) n i r ski t0 = Inr (hs, p1)"
    and accept: "accept_pairwise_handshake X (Some b) p1 ipk skr nk t1 skew = Inr (kr, p2)"
  shows "psk_session_id kr = sid"
proof -
  obtain e where e: "json_init X (ih_init hs) = Some e"
    and p1: "p1 = routing_header RELAY_SESSION_INIT n i r @ e"
    and pl: "si_payload (ih_init hs) = \<lparr>sip_version = SESSION_PROTOCOL_VERSION, sip_network_id = n,
          sip_initiator = i, sip_responder = r, sip_session_id = sid,
          sip_initiator_ephemeral_public_key = x25519_public X a, sip_issued_at_unix_seconds = t0\<rparr>"
    using start by (elim initiator_startE)
  from accept show ?thesis
  proof (elim accept_handshakeE)
    fix init
    assume parsed: "parse_init X (drop RELAY_DATA_HEADER_LEN p1) = Some init"
      and keys: "derive_session_keys X nk (response_for X (si_payload init) b t1)
         (x25519 X b (sip_initiator_ephemeral_public_key (si_payload init))) False = Inr kr"
    have "init = ih_init hs"
      using parsed e assms(1) by (simp add: p1 RELAY_DATA_HEADER_LEN_def json_session_ok_def)
    then show ?thesis
      using derive_session_keys_id [OF keys] by (simp add: response_for_def pl)
  qed
qed

lemma initiator_completeE:
  assumes "initiator_complete X hs p rpk nk now skew = Inr ki"
  obtains resp :: session_response where "verify_payload X (json_response_payload X) RESPONSE_SIGNATURE_DOMAIN
      (sr_payload resp) (sr_signature resp) rpk = Inr ()"
    and "srp_network_id (sr_payload resp) = sip_network_id (si_payload (ih_init hs))"
    "srp_initiator (sr_payload resp) = sip_initiator (si_payload (ih_init hs))"
    "srp_responder (sr_payload resp) = sip_responder (si_payload (ih_init hs))"
    "srp_session_id (sr_payload resp) = sip_session_id (si_payload (ih_init hs))"
    "srp_initiator_ephemeral_public_key (sr_payload resp) = sip_initiator_ephemeral_public_key (si_payload (ih_init hs))"
    "abs_diff now (srp_issued_at_unix_seconds (sr_payload resp)) \<le> skew"
    "derive_session_keys X nk (sr_payload resp)
       (x25519 X (ih_secret hs) (srp_responder_ephemeral_public_key (sr_payload resp))) True = Inr ki"
proof -
  have "\<exists>(resp::session_response) u. verify_fresh (srp_version (sr_payload resp)) (srp_issued_at_unix_seconds (sr_payload resp))
        now skew = Inr u
    \<and> \<not> (srp_network_id (sr_payload resp) \<noteq> sip_network_id (si_payload (ih_init hs))
       \<or> srp_initiator (sr_payload resp) \<noteq> sip_initiator (si_payload (ih_init hs))
       \<or> srp_responder (sr_payload resp) \<noteq> sip_responder (si_payload (ih_init hs))
       \<or> srp_session_id (sr_payload resp) \<noteq> sip_session_id (si_payload (ih_init hs))
       \<or> srp_initiator_ephemeral_public_key (sr_payload resp)
           \<noteq> sip_initiator_ephemeral_public_key (si_payload (ih_init hs)))
    \<and> (\<exists>v. verify_payload X (json_response_payload X) RESPONSE_SIGNATURE_DOMAIN
         (sr_payload resp) (sr_signature resp) rpk = Inr v
       \<and> derive_session_keys X nk (sr_payload resp)
         (x25519 X (ih_secret hs) (srp_responder_ephemeral_public_key (sr_payload resp))) True = Inr ki)"
    using assms unfolding initiator_complete_def Let_def rbind_Inr_iff if_Inl_eq_Inr
    by (elim exE conjE) (intro exI conjI; assumption)
  then show thesis
    by (elim exE, intro that) (auto simp: verify_fresh_def not_less split: if_splits)
qed

lemma handshake_agrees:
  assumes "ed_correct X" and "dh_correct X" and "json_session_ok X"
    and "length skr = 32"
    and start: "initiator_start X (Some sid) (Some a) n i r ski t0 = Inr (hs, p1)"
    and accept: "accept_pairwise_handshake X (Some b) p1 ipk skr nk t1 skew = Inr (kr, p2)"
    and "abs_diff t2 t1 \<le> skew"
  shows "initiator_complete X hs p2 (verifying_key X skr) nk t2 skew =
    Inr \<lparr>psk_session_id = psk_session_id kr, psk_send_key = psk_receive_key kr,
         psk_receive_key = psk_send_key kr\<rparr>"
proof -
  obtain e where e: "json_init X (ih_init hs) = Some e"
    and p1: "p1 = routing_header RELAY_SESSION_INIT n i r @ e" and a: "ih_secret hs = a"
    and pl: "si_payload (ih_init hs) = \<lparr>sip_version = SESSION_PROTOCOL_VERSION, sip_network_id = n,
          sip_initiator = i, sip_responder = r, sip_session_id = sid,
          sip_initiator_ephemeral_public_key = x25519_public X a, sip_issued_at_unix_seconds = t0\<rparr>"
    using start by (elim initiator_startE)
  from accept show ?thesis
  proof (elim accept_handshakeE)
    fix init sig e2
    assume parsed: "parse_init X (drop RELAY_DATA_HEADER_LEN p1) = Some init"
      and sig: "sign_payload X (json_response_payload X) RESPONSE_SIGNATURE_DOMAIN (response_for X (si_payload init) b t1) skr = Inr sig"
      and keys: "derive_session_keys X nk (response_for X (si_payload init) b t1)
         (x25519 X b (sip_initiator_ephemeral_public_key (si_payload init))) False = Inr kr"
      and e2: "json_response X \<lparr>sr_payload = response_for X (si_payload init) b t1, sr_signature = sig\<rparr> = Some e2"
      and p2: "p2 = routing_header RELAY_SESSION_RESPONSE (sip_network_id (si_payload init))
         (sip_responder (si_payload init)) (sip_initiator (si_payload init)) @ e2"
    have init: "init = ih_init hs"
      using parsed e assms(3) by (simp add: p1 RELAY_DATA_HEADER_LEN_def json_session_ok_def)
    have parsed2: "parse_response X e2 = Some \<lparr>sr_payload = response_for X (si_payload init) b t1, sr_signature = sig\<rparr>"
      using e2 assms(3) by (simp add: json_session_ok_def)
    have shared: "x25519 X a (x25519_public X b) = x25519 X b (x25519_public X a)"
      using assms(2) by (simp add: dh_correct_def)
    show ?thesis
      using verify_sign_payload [OF assms(1,4) sig] derive_session_keys_mirror [OF keys] assms(7)
      by (simp add: initiator_complete_def p2 init pl parsed2 response_for_def a shared
          verify_fresh_def not_less)
  qed
qed

lemma accept_handshake_succeeds:
  assumes "ed_correct X" and "json_session_ok X" and "length ski = 32"
    and start: "initiator_start X (Some sid) (Some a) n i r ski t0 = Inr (hs, p1)"
    and "abs_diff t1 t0 \<le> skew"
    and enc: "\<And>v. json_response_payload X v \<noteq> None" "\<And>v. json_response X v \<noteq> None"
    and kdf: "\<And>salt ikm info. hkdf_expand X salt ikm info 64 \<noteq> None"
    and "x25519 X b (x25519_public X a) \<noteq> replicate 32 0"
  shows "\<exists>kr p2. accept_pairwise_handshake X (Some b) p1 (verifying_key X ski) skr nk t1 skew = Inr (kr, p2)"
proof -
  obtain e where e: "json_init X (ih_init hs) = Some e"
    and p1: "p1 = routing_header RELAY_SESSION_INIT n i r @ e"
    and pl: "si_payload (ih_init hs) = \<lparr>sip_version = SESSION_PROTOCOL_VERSION, sip_network_id = n,
          sip_initiator = i, sip_responder = r, sip_session_id = sid,
          sip_initiator_ephemeral_public_key = x25519_public X a, sip_issued_at_unix_seconds = t0\<rparr>"
    and sig: "sign_payload X (json_init_payload X) INIT_SIGNATURE_DOMAIN (si_payload (ih_init hs)) ski
          = Inr (si_signature (ih_init hs))"
    using start by (elim initiator_startE)
  have parsed: "parse_init X e = Some (ih_init hs)"
    using e assms(2) by (simp add: json_session_ok_def)
  have fresh: "verify_fresh SESSION_PROTOCOL_VERSION t0 t1 skew = Inr ()"
    using assms(5) by (simp add: verify_fresh_def not_less)
  note ver = verify_sign_payload [OF assms(1,3) sig, unfolded pl]
  obtain er where er: "json_response_payload X (response_for X (si_payload (ih_init hs)) b t1) = Some er"
    using enc(1) by blast
  let ?resp = "\<lparr>sr_payload = response_for X (si_payload (ih_init hs)) b t1,
    sr_signature = ed_sign X skr (RESPONSE_SIGNATURE_DOMAIN @ er)\<rparr>"
  obtain e2 where e2: "json_response X ?resp = Some e2" using enc(2) by blast
  obtain out where out: "hkdf_expand X nk (x25519 X b (x25519_public X a))
      (kdf_info (response_for X (si_payload (ih_init hs)) b t1)) 64 = Some out"
    using kdf by blast
  show ?thesis
    using parsed fresh ver er e2 out assms(9)
    by (simp add: accept_pairwise_handshake_def p1 pl sign_payload_def signature_message_def
        response_for_def derive_session_keys_def encode_routed_json_def Let_def)
qed

text \<open>
  A handshake between two honest devices completes. If both clocks stay within the allowed skew, the
  encoders and HKDF succeed and the agreed secret is not the all-zero one, then the initiator's packet is
  accepted, the response completes the handshake, and the two ends hold the same session identifier
  with each sending key equal to the other's receiving key.
\<close>

theorem handshake_completes:
  assumes "ed_correct X" and "dh_correct X" and "json_session_ok X"
    and "length ski = 32" and "length skr = 32"
    and "\<And>v. json_init_payload X v \<noteq> None" and "\<And>v. json_init X v \<noteq> None"
    and "\<And>v. json_response_payload X v \<noteq> None" and "\<And>v. json_response X v \<noteq> None"
    and "\<And>salt ikm info. hkdf_expand X salt ikm info 64 \<noteq> None"
    and "x25519 X b (x25519_public X a) \<noteq> replicate 32 0"
    and "abs_diff t1 t0 \<le> skew" and "abs_diff t2 t1 \<le> skew"
  shows "\<exists>hs p1 kr p2 ki.
    initiator_start X (Some sid) (Some a) n i r ski t0 = Inr (hs, p1)
    \<and> accept_pairwise_handshake X (Some b) p1 (verifying_key X ski) skr nk t1 skew = Inr (kr, p2)
    \<and> initiator_complete X hs p2 (verifying_key X skr) nk t2 skew = Inr ki
    \<and> psk_session_id ki = sid \<and> psk_session_id kr = sid
    \<and> psk_send_key ki = psk_receive_key kr \<and> psk_receive_key ki = psk_send_key kr"
proof -
  obtain hs p1 where start: "initiator_start X (Some sid) (Some a) n i r ski t0 = Inr (hs, p1)"
    using assms(6,7) by (fastforce simp: initiator_start_def sign_payload_def signature_message_def
        encode_routed_json_def Let_def)
  obtain kr p2 where accept: "accept_pairwise_handshake X (Some b) p1 (verifying_key X ski) skr nk t1 skew = Inr (kr, p2)"
    using accept_handshake_succeeds [OF assms(1,3,4) start assms(12,8,9,10,11)] by blast
  have "psk_session_id kr = sid"
    by (rule accepted_session_id [OF assms(3) start accept])
  then show ?thesis
    using start accept handshake_agrees [OF assms(1,2,3,5) start accept assms(13)] by auto
qed

section \<open>Authenticity\<close>

text \<open>A message of one handshake role is never a message of the other: the domains differ at a fixed place.\<close>

lemma handshake_domains_disjoint: "INIT_SIGNATURE_DOMAIN @ a \<noteq> RESPONSE_SIGNATURE_DOMAIN @ b"
  by (simp add: INIT_SIGNATURE_DOMAIN_def RESPONSE_SIGNATURE_DOMAIN_def ascii_def)

lemma verify_payload_Inr_iff:
  "verify_payload X tv dm v sig pk = Inr () \<longleftrightarrow>
     length pk = 32 \<and> length sig = 64 \<and> ed_key_ok X pk
     \<and> (\<exists>e. tv v = Some e \<and> ed_verify X pk (dm @ e) sig)"
  by (auto simp: verify_payload_def signature_message_def split: if_splits)

interpretation sess_init: signed_document X
    "\<lambda>d. map_option ((@) INIT_SIGNATURE_DOMAIN) (json_init_payload X (si_payload d))" si_signature
    "\<lambda>pk (_::unit) d. verify_payload X (json_init_payload X) INIT_SIGNATURE_DOMAIN (si_payload d)
       (si_signature d) pk = Inr ()"
  for X :: "'x session_ops_scheme"
  by unfold_locales (auto simp: verify_payload_Inr_iff)

interpretation sess_response: signed_document X
    "\<lambda>d. map_option ((@) RESPONSE_SIGNATURE_DOMAIN) (json_response_payload X (sr_payload d))" sr_signature
    "\<lambda>pk (_::unit) d. verify_payload X (json_response_payload X) RESPONSE_SIGNATURE_DOMAIN (sr_payload d)
       (sr_signature d) pk = Inr ()"
  for X :: "'x session_ops_scheme"
  by unfold_locales (auto simp: verify_payload_Inr_iff)

text \<open>
  C10: The responder accepts a first packet only if the holder of the expected identity key signed a
  handshake naming exactly the network, initiator and responder of the packet's routing header, and
  issued within the allowed clock skew.
\<close>

theorem accepted_init_was_signed:
  assumes "signs_only X ipk M"
    and "accept_pairwise_handshake X (Some b) p ipk skr nk now skew = Inr (kr, p2)"
  shows "\<exists>v e. json_init_payload X v = Some e \<and> INIT_SIGNATURE_DOMAIN @ e \<in> M
    \<and> parse_session_routing_header p RELAY_SESSION_INIT
        = Inr (sip_network_id v, sip_initiator v, sip_responder v)
    \<and> abs_diff now (sip_issued_at_unix_seconds v) \<le> skew \<and> psk_session_id kr = sip_session_id v"
  using assms(2)
proof (elim accept_handshakeE)
  fix init sig e2
  assume hdr: "parse_session_routing_header p RELAY_SESSION_INIT
       = Inr (sip_network_id (si_payload init), sip_initiator (si_payload init), sip_responder (si_payload init))"
    and fresh: "verify_fresh (sip_version (si_payload init)) (sip_issued_at_unix_seconds (si_payload init)) now skew = Inr ()"
    and ver: "verify_payload X (json_init_payload X) INIT_SIGNATURE_DOMAIN (si_payload init) (si_signature init) ipk = Inr ()"
    and keys: "derive_session_keys X nk (response_for X (si_payload init) b now)
       (x25519 X b (sip_initiator_ephemeral_public_key (si_payload init))) False = Inr kr"
  obtain m where "map_option ((@) INIT_SIGNATURE_DOMAIN) (json_init_payload X (si_payload init)) = Some m"
    and "m \<in> M"
    by (rule sess_init.accepted_was_signed [OF assms(1) ver])
  then show ?thesis
    using hdr fresh keys
    by (intro exI [of _ "si_payload init"])
      (auto simp: verify_fresh_def derive_session_keys_def response_for_def Let_def split: if_splits)
qed

text \<open>
  The initiator completes only with a response that the holder of the expected responder key signed
  for this very handshake: same network, devices, session identifier and initiator ephemeral key. A
  response recorded from another handshake is refused, and the keys come from the signed response.
\<close>

theorem completed_response_was_signed:
  assumes "signs_only X rpk M"
    and "initiator_complete X hs p rpk nk now skew = Inr ki"
  shows "\<exists>v e. json_response_payload X v = Some e \<and> RESPONSE_SIGNATURE_DOMAIN @ e \<in> M
    \<and> srp_network_id v = sip_network_id (si_payload (ih_init hs))
    \<and> srp_initiator v = sip_initiator (si_payload (ih_init hs))
    \<and> srp_responder v = sip_responder (si_payload (ih_init hs))
    \<and> srp_session_id v = sip_session_id (si_payload (ih_init hs))
    \<and> srp_initiator_ephemeral_public_key v = sip_initiator_ephemeral_public_key (si_payload (ih_init hs))
    \<and> abs_diff now (srp_issued_at_unix_seconds v) \<le> skew
    \<and> derive_session_keys X nk v (x25519 X (ih_secret hs) (srp_responder_ephemeral_public_key v)) True = Inr ki"
proof -
  obtain resp :: session_response where ver: "verify_payload X (json_response_payload X) RESPONSE_SIGNATURE_DOMAIN
      (sr_payload resp) (sr_signature resp) rpk = Inr ()"
    and rest: "srp_network_id (sr_payload resp) = sip_network_id (si_payload (ih_init hs))"
    "srp_initiator (sr_payload resp) = sip_initiator (si_payload (ih_init hs))"
    "srp_responder (sr_payload resp) = sip_responder (si_payload (ih_init hs))"
    "srp_session_id (sr_payload resp) = sip_session_id (si_payload (ih_init hs))"
    "srp_initiator_ephemeral_public_key (sr_payload resp) = sip_initiator_ephemeral_public_key (si_payload (ih_init hs))"
    "abs_diff now (srp_issued_at_unix_seconds (sr_payload resp)) \<le> skew"
    "derive_session_keys X nk (sr_payload resp)
       (x25519 X (ih_secret hs) (srp_responder_ephemeral_public_key (sr_payload resp))) True = Inr ki"
    using assms(2) by (elim initiator_completeE)
  obtain m where "map_option ((@) RESPONSE_SIGNATURE_DOMAIN) (json_response_payload X (sr_payload resp)) = Some m"
    and "m \<in> M"
    by (rule sess_response.accepted_was_signed [OF assms(1) ver])
  then show ?thesis using rest by (intro exI [of _ "sr_payload resp"]) auto
qed

text \<open>
  C11: A packet sealed by one end opens at the other: with mirrored keys and a window that accepts the
  number, opening returns the routing fields, the number and the plaintext that were sealed, and marks
  the number.
\<close>

theorem open_sealed_packet:
  assumes "aead_correct X"
    and "psk_receive_key kr = psk_send_key ks" and "psk_session_id kr = psk_session_id ks"
    and "length (psk_session_id ks) = 16"
    and "session_seal X ks n s d q plaintext = Inr packet" and "can_accept w q"
  shows "session_open X kr w packet = (mark w q,
    Inr \<lparr>sp_network_id = n, sp_source = s, sp_destination = d, sp_session_id = psk_session_id ks,
         sp_sequence = q, sp_plaintext = plaintext\<rparr>)"
proof -
  obtain c where c: "aead_encrypt X (psk_send_key ks) (session_nonce (psk_session_id ks) q)
      (session_data_header n s d (psk_session_id ks) q) plaintext = Some c"
    and p: "packet = session_data_header n s d (psk_session_id ks) q @ c"
    using assms(5) by (auto simp: session_seal_def Let_def)
  show ?thesis
    using aead_correctD [OF assms(1) c] assms by (simp add: p session_open_eq)
qed

text \<open>
  C12: A packet that is opened was sealed under the session's receiving key with exactly the routing
  header, session identifier and sequence number it carries; a packet that is refused leaves the replay
  window as it was.
\<close>

theorem opened_packet_was_sealed:
  assumes "opens_only X (psk_receive_key keys) S"
    and "session_open X keys w packet = (w', res)"
  shows "case res of
      Inl _ \<Rightarrow> w' = w
    | Inr sp \<Rightarrow> (session_nonce (psk_session_id keys) (sp_sequence sp),
        session_data_header (sp_network_id sp) (sp_source sp) (sp_destination sp)
          (psk_session_id keys) (sp_sequence sp), sp_plaintext sp) \<in> S"
proof (cases res)
  case (Inl e)
  with assms(2) show ?thesis by (auto dest: session_open_InlD)
next
  case (Inr sp)
  with assms(2) have "session_open X keys w packet = (w', Inr sp)" by simp
  then show ?thesis
    by (elim session_open_InrE) (use assms(1) Inr in \<open>auto simp: opens_only_def\<close>)
qed

text \<open>Distinct session and sequence numbers give distinct nonces.\<close>

lemma session_nonce_inject:
  "length sid = length sid' \<Longrightarrow> session_nonce sid q = session_nonce sid' q' \<longleftrightarrow> sid = sid' \<and> q = q'"
  by (simp add: session_nonce_def)

section \<open>Instances of the properties\<close>

definition init_payload_fields :: "session_init_payload \<Rightarrow> bytes list" where
  "init_payload_fields v = [[sip_version v], u128_to_be (sip_network_id v), u128_to_be (sip_initiator v),
     u128_to_be (sip_responder v), sip_session_id v, sip_initiator_ephemeral_public_key v,
     u64_to_be (sip_issued_at_unix_seconds v)]"

definition init_payload_of_fields :: "bytes list \<Rightarrow> session_init_payload" where
  "init_payload_of_fields fs = \<lparr>sip_version = hd (fs ! 0), sip_network_id = u128_of_be (fs ! 1),
     sip_initiator = u128_of_be (fs ! 2), sip_responder = u128_of_be (fs ! 3), sip_session_id = fs ! 4,
     sip_initiator_ephemeral_public_key = fs ! 5, sip_issued_at_unix_seconds = u64_of_be (fs ! 6)\<rparr>"

definition response_payload_fields :: "session_response_payload \<Rightarrow> bytes list" where
  "response_payload_fields v = [[srp_version v], u128_to_be (srp_network_id v), u128_to_be (srp_initiator v),
     u128_to_be (srp_responder v), srp_session_id v, srp_initiator_ephemeral_public_key v,
     srp_responder_ephemeral_public_key v, u64_to_be (srp_issued_at_unix_seconds v)]"

definition response_payload_of_fields :: "bytes list \<Rightarrow> session_response_payload" where
  "response_payload_of_fields fs = \<lparr>srp_version = hd (fs ! 0), srp_network_id = u128_of_be (fs ! 1),
     srp_initiator = u128_of_be (fs ! 2), srp_responder = u128_of_be (fs ! 3), srp_session_id = fs ! 4,
     srp_initiator_ephemeral_public_key = fs ! 5, srp_responder_ephemeral_public_key = fs ! 6,
     srp_issued_at_unix_seconds = u64_of_be (fs ! 7)\<rparr>"

definition sample_session :: session_ops where
  "sample_session = prims.extend sample_prims (session_ops.fields
     (\<lambda>sk. sk) (\<lambda>a b. replicate 32 (sum_list a + sum_list b))
     (\<lambda>salt ikm info n. Some (replicate n (checksum (salt @ ikm @ info))))
     (\<lambda>v. Some (enc_fields (init_payload_fields v)))
     (\<lambda>v. Some (enc_fields (init_payload_fields (si_payload v) @ [si_signature v])))
     (\<lambda>bs. map_option (\<lambda>fs. \<lparr>si_payload = init_payload_of_fields (take 7 fs), si_signature = fs ! 7\<rparr>)
        (dec_fields 8 bs))
     (\<lambda>v. Some (enc_fields (response_payload_fields v)))
     (\<lambda>v. Some (enc_fields (response_payload_fields (sr_payload v) @ [sr_signature v])))
     (\<lambda>bs. map_option (\<lambda>fs. \<lparr>sr_payload = response_payload_of_fields (take 8 fs), sr_signature = fs ! 8\<rparr>)
        (dec_fields 9 bs)))"

lemma payload_fields_roundtrip [simp]:
  "init_payload_of_fields (init_payload_fields v) = v"
  "response_payload_of_fields (response_payload_fields w) = w"
  by (simp_all add: init_payload_of_fields_def init_payload_fields_def response_payload_of_fields_def
      response_payload_fields_def)

lemma length_payload_fields [simp]:
  "length (init_payload_fields v) = 7" "length (response_payload_fields w) = 8"
  by (simp_all add: init_payload_fields_def response_payload_fields_def)

lemma sample_session_prims [simp]: "ed_correct sample_session" "aead_correct sample_session"
  by (simp_all only: sample_session_def sample_prims_ed_correct sample_prims_aead_correct)

lemma sample_session_laws [simp]: "dh_correct sample_session" "json_session_ok sample_session"
  by (simp_all add: sample_session_def dh_correct_def json_session_ok_def add.commute nth_append
      prims.defs session_ops.defs del: enc_fields.simps)

lemma sample_session_simps:
  "x25519 sample_session a b = replicate 32 (sum_list a + sum_list b)"
  "x25519_public sample_session a = a"
  "verifying_key sample_session a = a"
  "aead_encrypt sample_session = sample_encrypt" "aead_decrypt sample_session = sample_decrypt"
  by (simp_all add: sample_session_def sample_prims_def prims.defs session_ops.defs)

lemma sample_session_total:
  "json_init_payload sample_session v1 \<noteq> None" "json_init sample_session v2 \<noteq> None"
  "json_response_payload sample_session v3 \<noteq> None" "json_response sample_session v4 \<noteq> None"
  "hkdf_expand sample_session salt ikm info 64 \<noteq> None"
  by (simp_all add: sample_session_def prims.defs session_ops.defs)

theorem handshake_completes_witness:
  "\<exists>hs p1 kr p2 ki.
    initiator_start sample_session (Some (replicate 16 7)) (Some [1]) 5 1 2 (replicate 32 9) 100 = Inr (hs, p1)
    \<and> accept_pairwise_handshake sample_session (Some [2]) p1 (replicate 32 9) (replicate 32 8)
        (replicate 32 3) 110 30 = Inr (kr, p2)
    \<and> initiator_complete sample_session hs p2 (replicate 32 8) (replicate 32 3) 120 30 = Inr ki
    \<and> psk_send_key ki = psk_receive_key kr"
proof -
  have "x25519 sample_session [2] (x25519_public sample_session [1]) \<noteq> replicate 32 0"
    by (simp add: sample_session_simps)
  moreover have "abs_diff (110::u64) 100 \<le> 30" "abs_diff (120::u64) 110 \<le> 30"
    by (simp_all add: abs_diff_def)
  ultimately show ?thesis
    using handshake_completes [of sample_session "replicate 32 9" "replicate 32 8" "[2]" "[1]"
        110 100 30 120 "replicate 16 7" 5 1 2 "replicate 32 3"] sample_session_total
    by (simp add: sample_session_simps) blast
qed

text \<open>Operations that know a single handshake: fixed documents, and a signature check that accepts only their messages.\<close>

definition one_init :: session_init where
  "one_init = \<lparr>si_payload = \<lparr>sip_version = 1, sip_network_id = 5, sip_initiator = 1, sip_responder = 2,
      sip_session_id = replicate 16 7, sip_initiator_ephemeral_public_key = [1],
      sip_issued_at_unix_seconds = 100\<rparr>, si_signature = replicate 64 0\<rparr>"

definition one_response :: session_response where
  "one_response = \<lparr>sr_payload = \<lparr>srp_version = 1, srp_network_id = 5, srp_initiator = 1,
      srp_responder = 2, srp_session_id = replicate 16 7, srp_initiator_ephemeral_public_key = [1],
      srp_responder_ephemeral_public_key = [2], srp_issued_at_unix_seconds = 110\<rparr>,
      sr_signature = replicate 64 0\<rparr>"

definition one_session :: session_ops where
  "one_session = prims.extend (sample_prims\<lparr>ed_verify := (\<lambda>pk m s.
        m = INIT_SIGNATURE_DOMAIN @ [1] \<or> m = RESPONSE_SIGNATURE_DOMAIN @ [2])\<rparr>) (session_ops.fields
     (\<lambda>sk. sk) (\<lambda>a b. replicate 32 (sum_list a + sum_list b)) (\<lambda>salt ikm info n. Some (replicate n 1))
     (\<lambda>v. if v = si_payload one_init then Some [1] else None) (\<lambda>_. Some [3]) (\<lambda>_. Some one_init)
     (\<lambda>v. if v = sr_payload one_response then Some [2] else None) (\<lambda>_. Some [4]) (\<lambda>_. Some one_response))"

lemmas one_session_simps = one_session_def one_init_def one_response_def prims.defs session_ops.defs
  sample_prims_def

lemma one_session_signs:
  "signs_only one_session pk {INIT_SIGNATURE_DOMAIN @ [1], RESPONSE_SIGNATURE_DOMAIN @ [2]}"
  by (simp add: signs_only_def one_session_simps)

theorem accepted_init_was_signed_witness:
  "\<exists>kr p2 v e. accept_pairwise_handshake one_session (Some [2]) (routing_header RELAY_SESSION_INIT 5 1 2 @ [3])
      (replicate 32 9) (replicate 32 8) (replicate 32 3) 110 30 = Inr (kr, p2)
    \<and> json_init_payload one_session v = Some e
    \<and> INIT_SIGNATURE_DOMAIN @ e \<in> {INIT_SIGNATURE_DOMAIN @ [1], RESPONSE_SIGNATURE_DOMAIN @ [2]}
    \<and> psk_session_id kr = sip_session_id v"
proof -
  have "is_ok (accept_pairwise_handshake one_session (Some [2]) (routing_header RELAY_SESSION_INIT 5 1 2 @ [3])
      (replicate 32 9) (replicate 32 8) (replicate 32 3) 110 30)"
    by (simp add: accept_pairwise_handshake_def parse_routed_json_def RELAY_DATA_HEADER_LEN_def
        one_session_simps verify_fresh_def verify_payload_def sign_payload_def signature_message_def
        derive_session_keys_def encode_routed_json_def SESSION_PROTOCOL_VERSION_def abs_diff_def Let_def)
  then obtain kr p2 where "accept_pairwise_handshake one_session (Some [2])
      (routing_header RELAY_SESSION_INIT 5 1 2 @ [3]) (replicate 32 9) (replicate 32 8) (replicate 32 3) 110 30
      = Inr (kr, p2)"
    by (auto simp: is_ok_iff)
  from accepted_init_was_signed [OF one_session_signs this] this show ?thesis by blast
qed

theorem completed_response_was_signed_witness:
  "\<exists>ki v e. initiator_complete one_session \<lparr>ih_init = one_init, ih_secret = [1]\<rparr>
      (routing_header RELAY_SESSION_RESPONSE 5 2 1 @ [4]) (replicate 32 8) (replicate 32 3) 120 30 = Inr ki
    \<and> json_response_payload one_session v = Some e
    \<and> RESPONSE_SIGNATURE_DOMAIN @ e \<in> {INIT_SIGNATURE_DOMAIN @ [1], RESPONSE_SIGNATURE_DOMAIN @ [2]}
    \<and> srp_session_id v = sip_session_id (si_payload one_init)"
proof -
  have "is_ok (initiator_complete one_session \<lparr>ih_init = one_init, ih_secret = [1]\<rparr>
      (routing_header RELAY_SESSION_RESPONSE 5 2 1 @ [4]) (replicate 32 8) (replicate 32 3) 120 30)"
    by (simp add: initiator_complete_def one_session_simps verify_fresh_def verify_payload_def
        signature_message_def derive_session_keys_def SESSION_PROTOCOL_VERSION_def abs_diff_def Let_def)
  then obtain ki where "initiator_complete one_session \<lparr>ih_init = one_init, ih_secret = [1]\<rparr>
      (routing_header RELAY_SESSION_RESPONSE 5 2 1 @ [4]) (replicate 32 8) (replicate 32 3) 120 30 = Inr ki"
    by (auto simp: is_ok_iff)
  from completed_response_was_signed [OF one_session_signs this] this show ?thesis by auto
qed

definition left_keys :: pairwise_session_keys where
  "left_keys = \<lparr>psk_session_id = replicate 16 7, psk_send_key = [1], psk_receive_key = [2]\<rparr>"

definition right_keys :: pairwise_session_keys where
  "right_keys = \<lparr>psk_session_id = replicate 16 7, psk_send_key = [2], psk_receive_key = [1]\<rparr>"

theorem open_sealed_packet_witness:
  "\<exists>packet. session_seal sample_prims left_keys 5 1 2 9 [42] = Inr packet
    \<and> snd (session_open sample_prims right_keys replay_window_default packet)
      = Inr \<lparr>sp_network_id = 5, sp_source = 1, sp_destination = 2, sp_session_id = replicate 16 7,
             sp_sequence = 9, sp_plaintext = [42]\<rparr>"
proof -
  obtain packet where "session_seal sample_prims left_keys 5 1 2 9 [42] = Inr packet"
    by (simp add: session_seal_def sample_prims_def sample_encrypt_def Let_def)
  with open_sealed_packet [of sample_prims right_keys left_keys 5 1 2 9 "[42]" packet replay_window_default]
  show ?thesis by (simp add: left_keys_def right_keys_def can_accept_def replay_window_default_def)
qed

theorem opened_packet_was_sealed_witness:
  "\<exists>w' sp. session_open (sample_prims\<lparr>aead_decrypt := \<lambda>k n a c.
        if n = session_nonce (replicate 16 7) 9 \<and> a = session_data_header 5 1 2 (replicate 16 7) 9
        then Some [42] else None\<rparr>) right_keys replay_window_default
      (session_data_header 5 1 2 (replicate 16 7) 9 @ replicate 16 0) = (w', Inr sp)
    \<and> (session_nonce (replicate 16 7) (sp_sequence sp), session_data_header (sp_network_id sp)
        (sp_source sp) (sp_destination sp) (replicate 16 7) (sp_sequence sp), sp_plaintext sp)
      = (session_nonce (replicate 16 7) 9, session_data_header 5 1 2 (replicate 16 7) 9, [42])"
proof -
  define X where "X = sample_prims\<lparr>aead_decrypt := \<lambda>k n a c.
        if n = session_nonce (replicate 16 7) 9 \<and> a = session_data_header 5 1 2 (replicate 16 7) 9
        then Some [42] else None\<rparr>"
  have only: "opens_only X (psk_receive_key right_keys)
      {(session_nonce (replicate 16 7) 9, session_data_header 5 1 2 (replicate 16 7) 9, [42])}"
    by (auto simp: opens_only_def X_def split: if_splits)
  have "is_ok (snd (session_open X right_keys replay_window_default
      (session_data_header 5 1 2 (replicate 16 7) 9 @ replicate 16 0)))"
    by (simp add: session_open_eq X_def right_keys_def can_accept_def replay_window_default_def)
  then obtain w' sp where sp: "session_open X right_keys replay_window_default
      (session_data_header 5 1 2 (replicate 16 7) 9 @ replicate 16 0) = (w', Inr sp)"
    by (metis is_ok_iff prod.collapse)
  from opened_packet_was_sealed [OF only sp] sp show ?thesis
    unfolding X_def by (auto simp: right_keys_def)
qed

end
