(* ===== verification/Membership.thy ===== *)
theory Membership
  imports Sample_Ops
begin

text \<open>
  Virtual networks (\<^verbatim>\<open>crates/meshlake-core/src/model.rs\<close>) and the controller-signed membership certificates
  (\<^verbatim>\<open>crates/meshlake-core/src/crypto.rs\<close>). \<open>cert_ops\<close> adds to the primitives the JSON encodings of the two
  signed forms and the prefix parsers of the \<^verbatim>\<open>ipnet\<close> crate.
\<close>

section \<open>Virtual networks\<close>

datatype relay_policy = Preferred | Required | Disabled

record virtual_network =
  vn_id :: network_id
  vn_name :: string
  vn_ipv4_prefix :: string
  vn_ipv6_prefix :: "string option"
  vn_relay_policy :: relay_policy

record membership =
  mem_network_id :: network_id
  mem_device_id :: device_id
  mem_assigned_addresses :: "ip_addr list"
  mem_allowed_routes :: "string list"

record upsert_network_request =
  unr_id :: "network_id option"
  unr_name :: string
  unr_ipv4_prefix :: string
  unr_ipv6_prefix :: "string option"
  unr_relay_policy :: relay_policy

datatype model_error = EmptyNetworkName | MissingAddress | InvalidIpv4Prefix | InvalidIpv6Prefix

section \<open>Certificates\<close>

record membership_claims =
  mcl_network_id :: network_id
  mcl_device_id :: device_id
  mcl_device_public_key :: bytes
  mcl_assigned_addresses :: "ip_addr list"
  mcl_allowed_routes :: "string list"
  mcl_issued_at_unix_seconds :: u64
  mcl_expires_at_unix_seconds :: "u64 option"

record membership_certificate =
  mc_version :: u8
  mc_certificate_id :: uuid
  mc_network_key_epoch :: u64
  mc_claims :: membership_claims
  mc_controller_public_key :: bytes
  mc_signature :: bytes

record membership_certificate_payload =
  mcp_version :: u8
  mcp_certificate_id :: uuid
  mcp_network_key_epoch :: u64
  mcp_claims :: membership_claims

text \<open>A prefix as \<^verbatim>\<open>ipnet\<close> parses it: the address as written, host bits included, and the prefix length.\<close>

record ipv4_net =
  n4_addr :: ipv4_addr
  n4_prefix_len :: nat

record ipv6_net =
  n6_addr :: ipv6_addr
  n6_prefix_len :: nat

record cert_ops = prims +
  json_claims :: "membership_claims \<Rightarrow> bytes option"
  json_cert_payload :: "membership_certificate_payload \<Rightarrow> bytes option"
  parse_ipv4_net :: "string \<Rightarrow> ipv4_net option"
  parse_ipv6_net :: "string \<Rightarrow> ipv6_net option"

definition virtual_network_validate :: "virtual_network \<Rightarrow> model_error + unit" where
  "virtual_network_validate n = (if trim (vn_name n) = [] then Inl EmptyNetworkName else Inr ())"

definition membership_validate :: "membership \<Rightarrow> model_error + unit" where
  "membership_validate m = (if mem_assigned_addresses m = [] then Inl MissingAddress else Inr ())"

definition upsert_network_request_validate ::
  "'x cert_ops_scheme \<Rightarrow> upsert_network_request \<Rightarrow> model_error + unit" where
  "upsert_network_request_validate X r =
     (if trim (unr_name r) = [] then Inl EmptyNetworkName
      else if parse_ipv4_net X (unr_ipv4_prefix r) = None then Inl InvalidIpv4Prefix
      else case unr_ipv6_prefix r of
        None \<Rightarrow> Inr ()
      | Some prefix \<Rightarrow> if parse_ipv6_net X prefix = None then Inl InvalidIpv6Prefix else Inr ())"

definition certificate_sign_authorized ::
  "'x cert_ops_scheme \<Rightarrow> membership_claims \<Rightarrow> uuid \<Rightarrow> u64 \<Rightarrow> bytes \<Rightarrow> crypto_error + membership_certificate" where
  "certificate_sign_authorized X claims certificate_id network_key_epoch signing_key =
     (let payload = \<lparr>mcp_version = 1, mcp_certificate_id = certificate_id,
            mcp_network_key_epoch = network_key_epoch, mcp_claims = claims\<rparr>
      in rbind (ok_or CertificateEncodingFailed (json_cert_payload X payload)) (\<lambda>bs.
           Inr \<lparr>mc_version = 1, mc_certificate_id = certificate_id,
                mc_network_key_epoch = network_key_epoch, mc_claims = claims,
                mc_controller_public_key = verifying_key X signing_key,
                mc_signature = ed_sign X signing_key bs\<rparr>))"

definition certificate_sign ::
  "'x cert_ops_scheme \<Rightarrow> uuid \<Rightarrow> membership_claims \<Rightarrow> bytes \<Rightarrow> crypto_error + membership_certificate" where
  "certificate_sign X new_uuid claims signing_key = certificate_sign_authorized X claims new_uuid 1 signing_key"

definition certificate_message ::
  "'x cert_ops_scheme \<Rightarrow> membership_certificate \<Rightarrow> crypto_error + bytes" where
  "certificate_message X c =
     (if mc_version c = 0 then ok_or CertificateEncodingFailed (json_claims X (mc_claims c))
      else if mc_version c = 1 \<and> mc_certificate_id c \<noteq> uuid_nil \<and> mc_network_key_epoch c > 0
      then ok_or CertificateEncodingFailed (json_cert_payload X
             \<lparr>mcp_version = mc_version c, mcp_certificate_id = mc_certificate_id c,
              mcp_network_key_epoch = mc_network_key_epoch c, mcp_claims = mc_claims c\<rparr>)
      else Inl InvalidCertificate)"

definition certificate_verify ::
  "'x cert_ops_scheme \<Rightarrow> membership_certificate \<Rightarrow> u64 \<Rightarrow> crypto_error + unit" where
  "certificate_verify X c now =
     (if length (mc_controller_public_key c) \<noteq> 32 then Inl InvalidCertificate
      else if length (mc_signature c) \<noteq> 64 then Inl InvalidCertificate
      else if (case mcl_expires_at_unix_seconds (mc_claims c) of
                 None \<Rightarrow> False | Some expiry \<Rightarrow> now > expiry)
      then Inl CertificateExpired
      else if \<not> ed_key_ok X (mc_controller_public_key c) then Inl InvalidCertificate
      else rbind (certificate_message X c) (\<lambda>bs.
             if ed_verify X (mc_controller_public_key c) bs (mc_signature c) then Inr ()
             else Inl InvalidCertificate))"

definition certificate_verify_from_controller ::
  "'x cert_ops_scheme \<Rightarrow> membership_certificate \<Rightarrow> bytes \<Rightarrow> u64 \<Rightarrow> crypto_error + unit" where
  "certificate_verify_from_controller X c trusted_controller_public_key now =
     (if mc_controller_public_key c \<noteq> trusted_controller_public_key then Inl UntrustedController
      else certificate_verify X c now)"

section \<open>Signing and verifying\<close>

lemma certificate_verify_Inr_iff:
  "certificate_verify_from_controller X c pk now = Inr () \<longleftrightarrow>
     mc_controller_public_key c = pk \<and> length pk = 32 \<and> length (mc_signature c) = 64
     \<and> (case mcl_expires_at_unix_seconds (mc_claims c) of None \<Rightarrow> True | Some e \<Rightarrow> now \<le> e)
     \<and> ed_key_ok X pk
     \<and> (\<exists>m. certificate_message X c = Inr m \<and> ed_verify X pk m (mc_signature c))"
  by (auto simp: certificate_verify_from_controller_def certificate_verify_def not_less
      split: option.splits if_splits)

interpretation cert: signed_document X
    "\<lambda>c. case certificate_message X c of Inl _ \<Rightarrow> None | Inr m \<Rightarrow> Some m" mc_signature
    "\<lambda>pk now c. certificate_verify_from_controller X c pk now = Inr ()"
  for X :: "'x cert_ops_scheme"
  by unfold_locales (auto simp: certificate_verify_Inr_iff)

lemma certificate_accepted_signed:
  assumes "signs_only X pk M" and "certificate_verify_from_controller X c pk now = Inr ()"
  obtains m where "certificate_message X c = Inr m" and "m \<in> M"
proof -
  obtain m where "(case certificate_message X c of Inl _ \<Rightarrow> None | Inr m \<Rightarrow> Some m) = Some m" "m \<in> M"
    by (rule cert.accepted_was_signed [OF assms])
  then show thesis by (cases "certificate_message X c") (simp_all add: that)
qed

lemma certificate_signed_verifies:
  assumes "ed_correct X" and "length sk = 32"
    and "certificate_sign_authorized X claims cid epoch sk = Inr c"
    and "cid \<noteq> uuid_nil" and "epoch > 0"
    and "case mcl_expires_at_unix_seconds claims of None \<Rightarrow> True | Some e \<Rightarrow> now \<le> e"
  shows "certificate_verify_from_controller X c (verifying_key X sk) now = Inr ()"
proof -
  obtain bs where "json_cert_payload X \<lparr>mcp_version = 1, mcp_certificate_id = cid,
            mcp_network_key_epoch = epoch, mcp_claims = claims\<rparr> = Some bs"
    and "c = \<lparr>mc_version = 1, mc_certificate_id = cid, mc_network_key_epoch = epoch,
          mc_claims = claims, mc_controller_public_key = verifying_key X sk,
          mc_signature = ed_sign X sk bs\<rparr>"
    using assms(3) by (auto simp: certificate_sign_authorized_def Let_def)
  then show ?thesis
    using assms(4-6) ed_correctD [OF assms(1,2)]
    by (simp add: certificate_verify_Inr_iff certificate_message_def)
qed

text \<open>
  Within its validity a version-1 certificate is accepted under the controller's key only if the
  controller signed exactly its identifier, key epoch and claims; a version-0 certificate is checked on
  its claims alone, so that its identifier and key epoch can be replaced without the signature noticing.
\<close>

theorem certificate_binding:
  assumes "signs_only X pk M" and "certificate_verify_from_controller X c pk now = Inr ()"
  shows "(mc_version c = 1 \<and> mc_certificate_id c \<noteq> uuid_nil \<and> mc_network_key_epoch c > 0
        \<and> (\<exists>m \<in> M. json_cert_payload X \<lparr>mcp_version = 1, mcp_certificate_id = mc_certificate_id c,
              mcp_network_key_epoch = mc_network_key_epoch c, mcp_claims = mc_claims c\<rparr> = Some m))
      \<or> (mc_version c = 0 \<and> (\<exists>m \<in> M. json_claims X (mc_claims c) = Some m)
          \<and> (\<forall>cid epoch. certificate_verify_from_controller X
               (c\<lparr>mc_certificate_id := cid, mc_network_key_epoch := epoch\<rparr>) pk now = Inr ()))"
proof -
  obtain m where m: "certificate_message X c = Inr m" "m \<in> M"
    by (rule certificate_accepted_signed [OF assms])
  show ?thesis
  proof (cases "mc_version c = 0")
    case True
    then show ?thesis
      using m assms(2) by (auto simp: certificate_verify_Inr_iff certificate_message_def)
  next
    case False
    then show ?thesis using m by (auto simp: certificate_message_def split: if_splits)
  qed
qed

definition sample_claims :: membership_claims where
  "sample_claims = \<lparr>mcl_network_id = 5, mcl_device_id = 1, mcl_device_public_key = replicate 32 4,
     mcl_assigned_addresses = [V4 0x64400002], mcl_allowed_routes = [],
     mcl_issued_at_unix_seconds = 100, mcl_expires_at_unix_seconds = None\<rparr>"

definition sample_certificate :: membership_certificate where
  "sample_certificate = \<lparr>mc_version = 1, mc_certificate_id = 11, mc_network_key_epoch = 2,
     mc_claims = sample_claims, mc_controller_public_key = replicate 32 6, mc_signature = replicate 64 0\<rparr>"

text \<open>Operations whose controller signed a single certificate.\<close>

definition one_cert_ops :: cert_ops where
  "one_cert_ops = prims.extend (sample_prims\<lparr>ed_verify := \<lambda>pk m s. m = [1]\<rparr>)
     (cert_ops.fields (\<lambda>_. None)
       (\<lambda>p. if mcp_certificate_id p = 11 \<and> mcp_network_key_epoch p = 2 \<and> mcp_claims p = sample_claims
            then Some [1] else None) (\<lambda>_. None) (\<lambda>_. None))"

theorem certificate_binding_witness:
  "certificate_verify_from_controller one_cert_ops sample_certificate (replicate 32 6) 200 = Inr ()
   \<and> (\<exists>m \<in> {[1]}. json_cert_payload one_cert_ops \<lparr>mcp_version = 1, mcp_certificate_id = 11,
        mcp_network_key_epoch = 2, mcp_claims = sample_claims\<rparr> = Some m)"
proof -
  have s: "signs_only one_cert_ops (replicate 32 6) {[1]}"
    by (simp add: signs_only_def one_cert_ops_def prims.defs)
  have v: "certificate_verify_from_controller one_cert_ops sample_certificate (replicate 32 6) 200 = Inr ()"
    by (simp add: certificate_verify_Inr_iff certificate_message_def sample_certificate_def
        sample_claims_def one_cert_ops_def sample_prims_def prims.defs cert_ops.defs)
  from certificate_binding [OF s v] v show ?thesis by (simp add: sample_certificate_def)
qed

end
