(* ===== verification/Authorization.thy ===== *)
theory Authorization
  imports Membership
begin

text \<open>
  Controller-signed online authorization state: epoch hints, network authorization manifests and
  membership refresh requests (\<^verbatim>\<open>crates/meshlake-core/src/authorization.rs\<close>).
\<close>

definition AUTHORIZATION_MANIFEST_VERSION :: u8 where "AUTHORIZATION_MANIFEST_VERSION = 1"
definition AUTHORIZATION_EPOCH_HINT_VERSION :: u8 where "AUTHORIZATION_EPOCH_HINT_VERSION = 1"
definition REFRESH_DOMAIN :: bytes where
  "REFRESH_DOMAIN = ascii ''MeshLake membership refresh v1'' @ [0]"
definition EPOCH_HINT_DOMAIN :: bytes where
  "EPOCH_HINT_DOMAIN = ascii ''MeshLake authorization epoch hint v1'' @ [0]"

record authorization_epoch_hint =
  aeh_version :: u8
  aeh_network_id :: network_id
  aeh_authorization_epoch :: u64
  aeh_network_key_epoch :: u64
  aeh_issued_at_unix_seconds :: u64
  aeh_expires_at_unix_seconds :: u64
  aeh_controller_public_key :: bytes
  aeh_signature :: bytes

record authorization_epoch_hint_payload =
  aehp_version :: u8
  aehp_network_id :: network_id
  aehp_authorization_epoch :: u64
  aehp_network_key_epoch :: u64
  aehp_issued_at_unix_seconds :: u64
  aehp_expires_at_unix_seconds :: u64
  aehp_controller_public_key :: bytes

record authorized_membership =
  am_device_id :: device_id
  am_certificate_id :: uuid
  am_device_public_key :: bytes
  am_network_key_epoch :: u64

record network_authorization_manifest =
  nam_version :: u8
  nam_network_id :: network_id
  nam_authorization_epoch :: u64
  nam_network_key_epoch :: u64
  nam_active_members :: "authorized_membership list"
  nam_revoked_certificate_ids :: "uuid list"
  nam_issued_at_unix_seconds :: u64
  nam_expires_at_unix_seconds :: u64
  nam_controller_public_key :: bytes
  nam_signature :: bytes
  nam_epoch_hint :: "authorization_epoch_hint option"

record manifest_payload =
  mp_version :: u8
  mp_network_id :: network_id
  mp_authorization_epoch :: u64
  mp_network_key_epoch :: u64
  mp_active_members :: "authorized_membership list"
  mp_revoked_certificate_ids :: "uuid list"
  mp_issued_at_unix_seconds :: u64
  mp_expires_at_unix_seconds :: u64
  mp_controller_public_key :: bytes

record membership_refresh_request_payload =
  mrr_version :: u8
  mrr_network_id :: network_id
  mrr_device_id :: device_id
  mrr_certificate_id :: uuid
  mrr_issued_at_unix_seconds :: u64
  mrr_nonce :: bytes

record membership_refresh_request =
  mr_payload :: membership_refresh_request_payload
  mr_signature :: bytes

record authz_ops = cert_ops +
  json_hint_payload :: "authorization_epoch_hint_payload \<Rightarrow> bytes option"
  json_manifest_payload :: "manifest_payload \<Rightarrow> bytes option"
  json_refresh_payload :: "membership_refresh_request_payload \<Rightarrow> bytes option"

section \<open>Epoch hints\<close>

definition hint_is_expired :: "authorization_epoch_hint \<Rightarrow> u64 \<Rightarrow> bool" where
  "hint_is_expired h now \<longleftrightarrow> now > aeh_expires_at_unix_seconds h"

definition hint_supersedes :: "authorization_epoch_hint \<Rightarrow> authorization_epoch_hint \<Rightarrow> bool" where
  "hint_supersedes h current \<longleftrightarrow> aeh_network_id h = aeh_network_id current
     \<and> (aeh_authorization_epoch h, aeh_issued_at_unix_seconds h, aeh_expires_at_unix_seconds h)
       > (aeh_authorization_epoch current, aeh_issued_at_unix_seconds current,
          aeh_expires_at_unix_seconds current)"

definition hint_payload :: "authorization_epoch_hint \<Rightarrow> authorization_epoch_hint_payload" where
  "hint_payload h = \<lparr>aehp_version = aeh_version h, aehp_network_id = aeh_network_id h,
     aehp_authorization_epoch = aeh_authorization_epoch h, aehp_network_key_epoch = aeh_network_key_epoch h,
     aehp_issued_at_unix_seconds = aeh_issued_at_unix_seconds h,
     aehp_expires_at_unix_seconds = aeh_expires_at_unix_seconds h,
     aehp_controller_public_key = aeh_controller_public_key h\<rparr>"

definition hint_sign ::
  "'x authz_ops_scheme \<Rightarrow> network_id \<Rightarrow> u64 \<Rightarrow> u64 \<Rightarrow> u64 \<Rightarrow> u64 \<Rightarrow> bytes
     \<Rightarrow> crypto_error + authorization_epoch_hint" where
  "hint_sign X network_id authorization_epoch network_key_epoch issued_at expires_at signing_key =
     (let controller_public_key = verifying_key X signing_key;
          payload = \<lparr>aehp_version = AUTHORIZATION_EPOCH_HINT_VERSION, aehp_network_id = network_id,
            aehp_authorization_epoch = authorization_epoch, aehp_network_key_epoch = network_key_epoch,
            aehp_issued_at_unix_seconds = issued_at, aehp_expires_at_unix_seconds = expires_at,
            aehp_controller_public_key = controller_public_key\<rparr>
      in rbind (ok_or CertificateEncodingFailed (json_hint_payload X payload)) (\<lambda>json.
           let encoded = EPOCH_HINT_DOMAIN @ json
           in Inr \<lparr>aeh_version = AUTHORIZATION_EPOCH_HINT_VERSION, aeh_network_id = network_id,
                aeh_authorization_epoch = authorization_epoch, aeh_network_key_epoch = network_key_epoch,
                aeh_issued_at_unix_seconds = issued_at, aeh_expires_at_unix_seconds = expires_at,
                aeh_controller_public_key = controller_public_key,
                aeh_signature = ed_sign X signing_key encoded\<rparr>))"

definition hint_verify_from_controller ::
  "'x authz_ops_scheme \<Rightarrow> authorization_epoch_hint \<Rightarrow> bytes \<Rightarrow> u64 \<Rightarrow> crypto_error + unit" where
  "hint_verify_from_controller X h trusted_controller_public_key now =
     (if aeh_version h \<noteq> AUTHORIZATION_EPOCH_HINT_VERSION
         \<or> aeh_controller_public_key h \<noteq> trusted_controller_public_key
         \<or> now > aeh_expires_at_unix_seconds h
         \<or> aeh_issued_at_unix_seconds h > saturating_add now 120
      then Inl UntrustedController
      else if length (aeh_controller_public_key h) \<noteq> 32 then Inl InvalidCertificate
      else if length (aeh_signature h) \<noteq> 64 then Inl InvalidCertificate
      else rbind (ok_or CertificateEncodingFailed (json_hint_payload X (hint_payload h))) (\<lambda>json.
             let encoded = EPOCH_HINT_DOMAIN @ json
             in if \<not> ed_key_ok X (aeh_controller_public_key h) then Inl InvalidCertificate
                else if ed_verify X (aeh_controller_public_key h) encoded (aeh_signature h) then Inr ()
                else Inl InvalidCertificate))"

section \<open>Authorization manifests\<close>

definition authorization_sign ::
  "'x authz_ops_scheme \<Rightarrow> network_id \<Rightarrow> u64 \<Rightarrow> u64 \<Rightarrow> authorized_membership list \<Rightarrow> uuid list \<Rightarrow> u64 \<Rightarrow> u64
     \<Rightarrow> bytes \<Rightarrow> crypto_error + network_authorization_manifest" where
  "authorization_sign X network_id authorization_epoch network_key_epoch active_members
       revoked_certificate_ids issued_at expires_at signing_key =
     (let active_members = sort_key (\<lambda>m. (am_device_id m, am_certificate_id m)) active_members;
          revoked_certificate_ids = remdups_adj (sort revoked_certificate_ids);
          controller_public_key = verifying_key X signing_key;
          payload = \<lparr>mp_version = AUTHORIZATION_MANIFEST_VERSION, mp_network_id = network_id,
            mp_authorization_epoch = authorization_epoch, mp_network_key_epoch = network_key_epoch,
            mp_active_members = active_members, mp_revoked_certificate_ids = revoked_certificate_ids,
            mp_issued_at_unix_seconds = issued_at, mp_expires_at_unix_seconds = expires_at,
            mp_controller_public_key = controller_public_key\<rparr>
      in rbind (ok_or CertificateEncodingFailed (json_manifest_payload X payload)) (\<lambda>encoded.
         rbind (hint_sign X network_id authorization_epoch network_key_epoch issued_at expires_at signing_key)
           (\<lambda>hint.
           Inr \<lparr>nam_version = AUTHORIZATION_MANIFEST_VERSION, nam_network_id = network_id,
                nam_authorization_epoch = authorization_epoch, nam_network_key_epoch = network_key_epoch,
                nam_active_members = active_members, nam_revoked_certificate_ids = revoked_certificate_ids,
                nam_issued_at_unix_seconds = issued_at, nam_expires_at_unix_seconds = expires_at,
                nam_controller_public_key = controller_public_key,
                nam_signature = ed_sign X signing_key encoded, nam_epoch_hint = Some hint\<rparr>)))"

definition authorization_payload :: "network_authorization_manifest \<Rightarrow> manifest_payload" where
  "authorization_payload m = \<lparr>mp_version = nam_version m, mp_network_id = nam_network_id m,
     mp_authorization_epoch = nam_authorization_epoch m, mp_network_key_epoch = nam_network_key_epoch m,
     mp_active_members = nam_active_members m, mp_revoked_certificate_ids = nam_revoked_certificate_ids m,
     mp_issued_at_unix_seconds = nam_issued_at_unix_seconds m,
     mp_expires_at_unix_seconds = nam_expires_at_unix_seconds m,
     mp_controller_public_key = nam_controller_public_key m\<rparr>"

definition authorization_verify_from_controller ::
  "'x authz_ops_scheme \<Rightarrow> network_authorization_manifest \<Rightarrow> bytes \<Rightarrow> u64 \<Rightarrow> crypto_error + unit" where
  "authorization_verify_from_controller X m trusted_controller_public_key now =
     (if nam_version m \<noteq> AUTHORIZATION_MANIFEST_VERSION
         \<or> nam_controller_public_key m \<noteq> trusted_controller_public_key
      then Inl UntrustedController
      else if now > nam_expires_at_unix_seconds m
              \<or> nam_issued_at_unix_seconds m > saturating_add now 120
      then Inl AuthorizationManifestExpired
      else if length (nam_controller_public_key m) \<noteq> 32 then Inl InvalidCertificate
      else if length (nam_signature m) \<noteq> 64 then Inl InvalidCertificate
      else rbind (ok_or CertificateEncodingFailed (json_manifest_payload X (authorization_payload m)))
        (\<lambda>encoded.
           if \<not> ed_key_ok X (nam_controller_public_key m) then Inl InvalidCertificate
           else if \<not> ed_verify X (nam_controller_public_key m) encoded (nam_signature m)
           then Inl InvalidCertificate
           else case nam_epoch_hint m of
             None \<Rightarrow> Inr ()
           | Some hint \<Rightarrow>
               rbind (hint_verify_from_controller X hint trusted_controller_public_key now) (\<lambda>_.
                 if aeh_network_id hint \<noteq> nam_network_id m
                    \<or> aeh_authorization_epoch hint \<noteq> nam_authorization_epoch m
                    \<or> aeh_network_key_epoch hint \<noteq> nam_network_key_epoch m
                 then Inl InvalidCertificate
                 else Inr ())))"

definition authorizes :: "network_authorization_manifest \<Rightarrow> membership_certificate \<Rightarrow> bool" where
  "authorizes m c \<longleftrightarrow>
     mcl_network_id (mc_claims c) = nam_network_id m
     \<and> mc_network_key_epoch c = nam_network_key_epoch m
     \<and> mc_certificate_id c \<notin> set (nam_revoked_certificate_ids m)
     \<and> list_ex (\<lambda>member. am_device_id member = mcl_device_id (mc_claims c)
          \<and> am_certificate_id member = mc_certificate_id c
          \<and> am_device_public_key member = mcl_device_public_key (mc_claims c)
          \<and> am_network_key_epoch member = mc_network_key_epoch c) (nam_active_members m)"

section \<open>Refresh requests\<close>

definition refresh_message ::
  "'x authz_ops_scheme \<Rightarrow> membership_refresh_request_payload \<Rightarrow> crypto_error + bytes" where
  "refresh_message X payload =
     rbind (ok_or InvalidSessionPacket (json_refresh_payload X payload)) (\<lambda>encoded.
       Inr (REFRESH_DOMAIN @ encoded))"

definition refresh_sign ::
  "'x authz_ops_scheme \<Rightarrow> network_id \<Rightarrow> device_id \<Rightarrow> uuid \<Rightarrow> u64 \<Rightarrow> bytes \<Rightarrow> bytes
     \<Rightarrow> crypto_error + membership_refresh_request" where
  "refresh_sign X network_id device_id certificate_id issued_at nonce signing_key =
     (let payload = \<lparr>mrr_version = 1, mrr_network_id = network_id, mrr_device_id = device_id,
            mrr_certificate_id = certificate_id, mrr_issued_at_unix_seconds = issued_at,
            mrr_nonce = nonce\<rparr>
      in rbind (refresh_message X payload) (\<lambda>encoded.
           Inr \<lparr>mr_payload = payload, mr_signature = ed_sign X signing_key encoded\<rparr>))"

definition refresh_verify ::
  "'x authz_ops_scheme \<Rightarrow> membership_refresh_request \<Rightarrow> bytes \<Rightarrow> u64 \<Rightarrow> u64 \<Rightarrow> crypto_error + unit" where
  "refresh_verify X r expected_device_public_key now maximum_clock_skew =
     (if mrr_version (mr_payload r) \<noteq> 1
         \<or> abs_diff now (mrr_issued_at_unix_seconds (mr_payload r)) > maximum_clock_skew
      then Inl StaleSessionHandshake
      else if length expected_device_public_key \<noteq> 32 then Inl InvalidIdentityKey
      else if length (mr_signature r) \<noteq> 64 then Inl InvalidSessionSignature
      else rbind (refresh_message X (mr_payload r)) (\<lambda>encoded.
             if \<not> ed_key_ok X expected_device_public_key then Inl InvalidIdentityKey
             else if ed_verify X expected_device_public_key encoded (mr_signature r) then Inr ()
             else Inl InvalidSessionSignature))"

section \<open>Verification inverts signing\<close>

lemma hint_verify_Inr_iff:
  "hint_verify_from_controller X h pk now = Inr () \<longleftrightarrow>
     aeh_version h = AUTHORIZATION_EPOCH_HINT_VERSION \<and> aeh_controller_public_key h = pk
     \<and> now \<le> aeh_expires_at_unix_seconds h \<and> aeh_issued_at_unix_seconds h \<le> saturating_add now 120
     \<and> length pk = 32 \<and> length (aeh_signature h) = 64 \<and> ed_key_ok X pk
     \<and> (\<exists>e. json_hint_payload X (hint_payload h) = Some e
            \<and> ed_verify X pk (EPOCH_HINT_DOMAIN @ e) (aeh_signature h))"
  by (auto simp: hint_verify_from_controller_def Let_def not_less split: if_splits)

lemma hint_signed_verifies:
  assumes "ed_correct X" and "length sk = 32"
    and "hint_sign X n ae ke issued expires sk = Inr h"
    and "now \<le> expires" and "issued \<le> saturating_add now 120"
  shows "hint_verify_from_controller X h (verifying_key X sk) now = Inr ()"
    and "aeh_network_id h = n" "aeh_authorization_epoch h = ae" "aeh_network_key_epoch h = ke"
proof -
  obtain json where "json_hint_payload X \<lparr>aehp_version = AUTHORIZATION_EPOCH_HINT_VERSION,
        aehp_network_id = n, aehp_authorization_epoch = ae, aehp_network_key_epoch = ke,
        aehp_issued_at_unix_seconds = issued, aehp_expires_at_unix_seconds = expires,
        aehp_controller_public_key = verifying_key X sk\<rparr> = Some json"
    and "h = \<lparr>aeh_version = AUTHORIZATION_EPOCH_HINT_VERSION, aeh_network_id = n,
        aeh_authorization_epoch = ae, aeh_network_key_epoch = ke, aeh_issued_at_unix_seconds = issued,
        aeh_expires_at_unix_seconds = expires, aeh_controller_public_key = verifying_key X sk,
        aeh_signature = ed_sign X sk (EPOCH_HINT_DOMAIN @ json)\<rparr>"
    using assms(3) by (auto simp: hint_sign_def Let_def)
  then show "hint_verify_from_controller X h (verifying_key X sk) now = Inr ()"
    and "aeh_network_id h = n" "aeh_authorization_epoch h = ae" "aeh_network_key_epoch h = ke"
    using assms(4,5) ed_correctD [OF assms(1,2)]
    by (simp_all add: hint_verify_Inr_iff hint_payload_def)
qed

lemma authorization_verify_Inr_iff:
  "authorization_verify_from_controller X m pk now = Inr () \<longleftrightarrow>
     nam_version m = AUTHORIZATION_MANIFEST_VERSION \<and> nam_controller_public_key m = pk
     \<and> now \<le> nam_expires_at_unix_seconds m \<and> nam_issued_at_unix_seconds m \<le> saturating_add now 120
     \<and> length pk = 32 \<and> length (nam_signature m) = 64 \<and> ed_key_ok X pk
     \<and> (\<exists>e. json_manifest_payload X (authorization_payload m) = Some e \<and> ed_verify X pk e (nam_signature m))
     \<and> (case nam_epoch_hint m of None \<Rightarrow> True
        | Some h \<Rightarrow> hint_verify_from_controller X h pk now = Inr ()
            \<and> aeh_network_id h = nam_network_id m
            \<and> aeh_authorization_epoch h = nam_authorization_epoch m
            \<and> aeh_network_key_epoch h = nam_network_key_epoch m)"
  by (cases "nam_epoch_hint m"; cases "json_manifest_payload X (authorization_payload m)")
    (auto simp: authorization_verify_from_controller_def not_less split: if_splits)

lemma authorization_signE:
  assumes "authorization_sign X n ae ke act revoked issued expires sk = Inr m"
  obtains e h where "json_manifest_payload X (authorization_payload m) = Some e"
    and "hint_sign X n ae ke issued expires sk = Inr h" and "nam_epoch_hint m = Some h"
    and "nam_signature m = ed_sign X sk e" and "nam_version m = AUTHORIZATION_MANIFEST_VERSION"
    and "nam_controller_public_key m = verifying_key X sk" and "nam_network_id m = n"
    and "nam_authorization_epoch m = ae" and "nam_network_key_epoch m = ke"
    and "nam_active_members m = sort_key (\<lambda>m. (am_device_id m, am_certificate_id m)) act"
    and "nam_revoked_certificate_ids m = remdups_adj (sort revoked)"
    and "nam_issued_at_unix_seconds m = issued" and "nam_expires_at_unix_seconds m = expires"
  using assms by (auto simp: authorization_sign_def authorization_payload_def Let_def)

lemma authorization_signed_verifies:
  assumes "ed_correct X" and "length sk = 32"
    and "authorization_sign X n ae ke act revoked issued expires sk = Inr m"
    and "now \<le> expires" and "issued \<le> saturating_add now 120"
  shows "authorization_verify_from_controller X m (verifying_key X sk) now = Inr ()"
  using assms(3)
proof (elim authorization_signE)
  fix e h
  assume e: "json_manifest_payload X (authorization_payload m) = Some e"
    and h: "hint_sign X n ae ke issued expires sk = Inr h"
    and rest: "nam_epoch_hint m = Some h" "nam_signature m = ed_sign X sk e"
      "nam_version m = AUTHORIZATION_MANIFEST_VERSION" "nam_controller_public_key m = verifying_key X sk"
      "nam_network_id m = n" "nam_authorization_epoch m = ae" "nam_network_key_epoch m = ke"
      "nam_issued_at_unix_seconds m = issued" "nam_expires_at_unix_seconds m = expires"
  from hint_signed_verifies [OF assms(1,2) h assms(4,5)] ed_correctD [OF assms(1,2)] assms(4,5)
  show ?thesis by (simp add: authorization_verify_Inr_iff rest e)
qed

lemma refresh_verify_Inr_iff:
  "refresh_verify X r pk now skew = Inr () \<longleftrightarrow>
     mrr_version (mr_payload r) = 1
     \<and> abs_diff now (mrr_issued_at_unix_seconds (mr_payload r)) \<le> skew
     \<and> length pk = 32 \<and> length (mr_signature r) = 64 \<and> ed_key_ok X pk
     \<and> (\<exists>e. json_refresh_payload X (mr_payload r) = Some e
            \<and> ed_verify X pk (REFRESH_DOMAIN @ e) (mr_signature r))"
  by (cases "json_refresh_payload X (mr_payload r)")
    (auto simp: refresh_verify_def refresh_message_def not_less split: if_splits)

lemma refresh_signed_verifies:
  assumes "ed_correct X" and "length sk = 32"
    and "refresh_sign X n d cid issued nonce sk = Inr r" and "abs_diff now issued \<le> skew"
  shows "refresh_verify X r (verifying_key X sk) now skew = Inr ()"
  using assms(3,4) ed_correctD [OF assms(1,2)]
  by (auto simp: refresh_sign_def refresh_message_def refresh_verify_Inr_iff Let_def)

interpretation hint_doc: signed_document X
    "\<lambda>h. map_option ((@) EPOCH_HINT_DOMAIN) (json_hint_payload X (hint_payload h))" aeh_signature
    "\<lambda>pk now h. hint_verify_from_controller X h pk now = Inr ()"
  for X :: "'x authz_ops_scheme"
  by unfold_locales (auto simp: hint_verify_Inr_iff)

interpretation authz_doc: signed_document X
    "\<lambda>m. json_manifest_payload X (authorization_payload m)" nam_signature
    "\<lambda>pk now m. authorization_verify_from_controller X m pk now = Inr ()"
  for X :: "'x authz_ops_scheme"
  by unfold_locales (auto simp: authorization_verify_Inr_iff)

interpretation refresh_doc: signed_document X
    "\<lambda>r. map_option ((@) REFRESH_DOMAIN) (json_refresh_payload X (mr_payload r))" mr_signature
    "\<lambda>pk (now, skew) r. refresh_verify X r pk now skew = Inr ()"
  for X :: "'x authz_ops_scheme"
  by unfold_locales (auto simp: refresh_verify_Inr_iff)

section \<open>What an authorization shows\<close>

lemma hint_supersedes_order:
  "\<not> hint_supersedes h h"
  "hint_supersedes a b \<Longrightarrow> hint_supersedes b c \<Longrightarrow> hint_supersedes a c"
  "hint_supersedes a b \<Longrightarrow> aeh_authorization_epoch b \<le> aeh_authorization_epoch a"
  by (auto simp: hint_supersedes_def less_prod_def)

lemma authorizesE:
  assumes "authorizes m c"
  obtains member where "member \<in> set (nam_active_members m)"
    and "am_device_id member = mcl_device_id (mc_claims c)"
    and "am_certificate_id member = mc_certificate_id c"
    and "am_device_public_key member = mcl_device_public_key (mc_claims c)"
    and "am_network_key_epoch member = mc_network_key_epoch c"
    and "mc_certificate_id c \<notin> set (nam_revoked_certificate_ids m)"
    and "mcl_network_id (mc_claims c) = nam_network_id m"
    and "mc_network_key_epoch c = nam_network_key_epoch m"
  using assms by (auto simp: authorizes_def list_ex_iff)

lemma member_matches:
  fixes S :: "authorized_membership set"
  shows "(\<exists>x \<in> S. am_device_id x = d \<and> am_certificate_id x = i \<and> am_device_public_key x = k
      \<and> am_network_key_epoch x = e) \<longleftrightarrow>
    \<lparr>am_device_id = d, am_certificate_id = i, am_device_public_key = k, am_network_key_epoch = e\<rparr> \<in> S"
proof
  assume "\<lparr>am_device_id = d, am_certificate_id = i, am_device_public_key = k, am_network_key_epoch = e\<rparr> \<in> S"
  then show "\<exists>x \<in> S. am_device_id x = d \<and> am_certificate_id x = i \<and> am_device_public_key x = k
      \<and> am_network_key_epoch x = e" by (rule bexI [rotated]) simp
next
  assume "\<exists>x \<in> S. am_device_id x = d \<and> am_certificate_id x = i \<and> am_device_public_key x = k
      \<and> am_network_key_epoch x = e"
  then obtain x :: authorized_membership where "x \<in> S" and "am_device_id x = d" "am_certificate_id x = i"
    "am_device_public_key x = k" "am_network_key_epoch x = e" by blast
  then show "\<lparr>am_device_id = d, am_certificate_id = i, am_device_public_key = k, am_network_key_epoch = e\<rparr> \<in> S"
    by (cases x) simp
qed

text \<open>
  The manifest the controller signs verifies under its key throughout its validity and authorizes a
  certificate exactly when the certificate is of the network and the current key epoch, its identifier
  is not on the revocation list handed to the signer, and the device, identifier, device key and epoch
  are those of an active member. Sorting and deduplication do not change who is authorized.
\<close>

theorem signed_authorization_decides:
  assumes "ed_correct X" and "length sk = 32"
    and "authorization_sign X n ae ke act revoked issued expires sk = Inr m"
    and "now \<le> expires" and "issued \<le> saturating_add now 120"
  shows "authorization_verify_from_controller X m (verifying_key X sk) now = Inr ()
    \<and> (authorizes m c \<longleftrightarrow>
         mcl_network_id (mc_claims c) = n \<and> mc_network_key_epoch c = ke
         \<and> mc_certificate_id c \<notin> set revoked
         \<and> \<lparr>am_device_id = mcl_device_id (mc_claims c), am_certificate_id = mc_certificate_id c,
             am_device_public_key = mcl_device_public_key (mc_claims c),
             am_network_key_epoch = mc_network_key_epoch c\<rparr> \<in> set act)"
proof -
  have "nam_network_id m = n" "nam_network_key_epoch m = ke"
    "set (nam_active_members m) = set act" "set (nam_revoked_certificate_ids m) = set revoked"
    using assms(3) by (auto elim!: authorization_signE)
  then show ?thesis
    using authorization_signed_verifies [OF assms]
    by (simp add: authorizes_def list_ex_iff member_matches)
qed

text \<open>
  C13: A manifest accepted under the pinned controller key and a certificate it authorizes: the controller
  signed a manifest with this network, epochs, member list and revocation list, in which the certificate is
  active and not revoked, and an epoch hint carried with it, also signed by the controller, agrees
  with it on network and epochs.
\<close>

theorem accepted_authorization_was_signed:
  assumes "signs_only X pk M" and "authorization_verify_from_controller X m pk now = Inr ()"
    and "authorizes m c"
  shows "\<exists>e p member. json_manifest_payload X p = Some e \<and> e \<in> M
      \<and> mp_network_id p = mcl_network_id (mc_claims c)
      \<and> mp_network_key_epoch p = mc_network_key_epoch c
      \<and> mc_certificate_id c \<notin> set (mp_revoked_certificate_ids p)
      \<and> member \<in> set (mp_active_members p) \<and> am_certificate_id member = mc_certificate_id c
      \<and> am_device_public_key member = mcl_device_public_key (mc_claims c)
      \<and> now \<le> mp_expires_at_unix_seconds p
      \<and> (case nam_epoch_hint m of None \<Rightarrow> True
         | Some h \<Rightarrow> (\<exists>eh. json_hint_payload X (hint_payload h) = Some eh \<and> EPOCH_HINT_DOMAIN @ eh \<in> M)
             \<and> aeh_authorization_epoch h = mp_authorization_epoch p
             \<and> aeh_network_key_epoch h = mp_network_key_epoch p)"
proof -
  obtain e where e: "json_manifest_payload X (authorization_payload m) = Some e" "e \<in> M"
    by (rule authz_doc.accepted_was_signed [OF assms(1,2)])
  obtain member where "member \<in> set (nam_active_members m)"
    "am_certificate_id member = mc_certificate_id c"
    "am_device_public_key member = mcl_device_public_key (mc_claims c)"
    "mc_certificate_id c \<notin> set (nam_revoked_certificate_ids m)"
    "mcl_network_id (mc_claims c) = nam_network_id m" "mc_network_key_epoch c = nam_network_key_epoch m"
    using assms(3) by (elim authorizesE)
  moreover have "case nam_epoch_hint m of None \<Rightarrow> True
     | Some h \<Rightarrow> (\<exists>eh. json_hint_payload X (hint_payload h) = Some eh \<and> EPOCH_HINT_DOMAIN @ eh \<in> M)
         \<and> aeh_authorization_epoch h = nam_authorization_epoch m
         \<and> aeh_network_key_epoch h = nam_network_key_epoch m"
    using assms(1,2) by (auto simp: authorization_verify_Inr_iff hint_verify_Inr_iff split: option.splits
        dest: signs_onlyD)
  moreover have "now \<le> nam_expires_at_unix_seconds m"
    using assms(2) by (simp add: authorization_verify_Inr_iff)
  ultimately show ?thesis
    using e by (intro exI [of _ e] exI [of _ "authorization_payload m"] exI [of _ member])
      (auto simp: authorization_payload_def split: option.splits)
qed

section \<open>Instances\<close>

definition sample_member :: authorized_membership where
  "sample_member = \<lparr>am_device_id = 1, am_certificate_id = 11, am_device_public_key = replicate 32 4,
     am_network_key_epoch = 2\<rparr>"

text \<open>Encoders that return a fixed text, which is enough where a property only needs them to succeed.\<close>

definition const_cert :: "prims \<Rightarrow> cert_ops" where
  "const_cert P = prims.extend P (cert_ops.fields (\<lambda>_. Some [1]) (\<lambda>_. Some [2]) (\<lambda>_. None) (\<lambda>_. None))"

definition const_authz :: "prims \<Rightarrow> authz_ops" where
  "const_authz P = cert_ops.extend (const_cert P)
     (authz_ops.fields (\<lambda>_. Some [3]) (\<lambda>_. Some [4]) (\<lambda>_. Some [5]))"

lemmas const_authz_simps = const_authz_def const_cert_def prims.defs cert_ops.defs authz_ops.defs

lemma const_authz_ed_correct: "ed_correct (const_authz P) \<longleftrightarrow> ed_correct P"
  by (simp add: ed_correct_def const_authz_simps)

lemma const_authz_signs_only: "signs_only (const_authz P) pk M \<longleftrightarrow> signs_only P pk M"
  by (simp add: signs_only_def const_authz_simps)

theorem signed_authorization_decides_witness:
  "\<exists>m. authorization_sign (const_authz sample_prims) 5 7 2 [sample_member] [12, 12] 100 400 (replicate 32 6) = Inr m
    \<and> authorization_verify_from_controller (const_authz sample_prims) m (replicate 32 6) 300 = Inr ()
    \<and> authorizes m sample_certificate"
proof -
  obtain m where m: "authorization_sign (const_authz sample_prims) 5 7 2 [sample_member] [12, 12] 100 400
      (replicate 32 6) = Inr m"
    by (simp add: authorization_sign_def hint_sign_def const_authz_simps Let_def)
  have "(100::u64) \<le> saturating_add 300 120" by (simp add: saturating_add_def)
  with signed_authorization_decides [OF _ _ m, of 300 sample_certificate] m show ?thesis
    by (simp add: const_authz_ed_correct sample_member_def sample_certificate_def sample_claims_def)
      (simp add: const_authz_simps sample_prims_def)
qed

definition sample_manifest :: network_authorization_manifest where
  "sample_manifest = \<lparr>nam_version = 1, nam_network_id = 5, nam_authorization_epoch = 7,
     nam_network_key_epoch = 2, nam_active_members = [sample_member], nam_revoked_certificate_ids = [12],
     nam_issued_at_unix_seconds = 100, nam_expires_at_unix_seconds = 400,
     nam_controller_public_key = replicate 32 6, nam_signature = replicate 64 0, nam_epoch_hint = None\<rparr>"

theorem accepted_authorization_was_signed_witness:
  "authorization_verify_from_controller (const_authz (sample_prims\<lparr>ed_verify := \<lambda>pk m s. m = [4]\<rparr>))
      sample_manifest (replicate 32 6) 300 = Inr ()
    \<and> authorizes sample_manifest sample_certificate
    \<and> (\<exists>e p. json_manifest_payload (const_authz (sample_prims\<lparr>ed_verify := \<lambda>pk m s. m = [4]\<rparr>)) p = Some e
        \<and> e \<in> {[4]} \<and> (11::uuid) \<notin> set (mp_revoked_certificate_ids p))"
proof -
  let ?X = "const_authz (sample_prims\<lparr>ed_verify := \<lambda>pk m s. m = [4]\<rparr>)"
  have s: "signs_only ?X (replicate 32 6) {[4]}"
    by (simp add: const_authz_signs_only) (simp add: signs_only_def)
  have v: "authorization_verify_from_controller ?X sample_manifest (replicate 32 6) 300 = Inr ()"
    by (simp add: authorization_verify_Inr_iff sample_manifest_def AUTHORIZATION_MANIFEST_VERSION_def
        saturating_add_def) (simp add: const_authz_simps sample_prims_def)
  have a: "authorizes sample_manifest sample_certificate"
    by (simp add: authorizes_def sample_manifest_def sample_member_def sample_certificate_def sample_claims_def)
  from accepted_authorization_was_signed [OF s v a] v a show ?thesis
    by (auto simp: sample_certificate_def)
qed

end
