(* ===== verification/Service_Identity.thy ===== *)
theory Service_Identity
  imports Sample_Ops
begin

text \<open>
  Service identities pinned by the planet manifest and their dual-signature rotation windows
  (\<^verbatim>\<open>crates/meshlake-core/src/service_identity.rs\<close>), with the checks a persisted identity passes
  before it is used. Reading and writing the protected file itself is left out.
\<close>

record service_identity_policy =
  sid_service_id :: uuid
  sid_current_public_key :: bytes
  sid_next_public_key :: "bytes option"
  sid_transition_not_before :: "u64 option"
  sid_transition_not_after :: "u64 option"
  sid_revoked_public_keys :: "bytes list"

record service_signature =
  ss_public_key :: bytes
  ss_signature :: bytes

datatype service_identity_error =
    InvalidKey
  | InvalidRotationWindow
  | RotationWindowExpired
  | RevokedKey
  | InvalidSignatureSet

definition validate_key :: "bytes \<Rightarrow> service_identity_error + unit" where
  "validate_key key = (if length key = 32 then Inr () else Inl InvalidKey)"

definition service_identity_stable :: "uuid \<Rightarrow> bytes \<Rightarrow> service_identity_policy" where
  "service_identity_stable service_id current_public_key =
     \<lparr>sid_service_id = service_id, sid_current_public_key = current_public_key,
      sid_next_public_key = None, sid_transition_not_before = None,
      sid_transition_not_after = None, sid_revoked_public_keys = []\<rparr>"

definition required_public_keys ::
  "service_identity_policy \<Rightarrow> u64 \<Rightarrow> service_identity_error + bytes list" where
  "required_public_keys p now =
     rbind (validate_key (sid_current_public_key p)) (\<lambda>_.
     if sid_current_public_key p \<in> set (sid_revoked_public_keys p) then Inl RevokedKey
     else case sid_next_public_key p of
       None \<Rightarrow>
         if sid_transition_not_before p \<noteq> None \<or> sid_transition_not_after p \<noteq> None
         then Inl InvalidRotationWindow
         else Inr [sid_current_public_key p]
     | Some next \<Rightarrow>
         rbind (validate_key next) (\<lambda>_.
         if next \<in> set (sid_revoked_public_keys p) then Inl RevokedKey
         else case (sid_transition_not_before p, sid_transition_not_after p) of
           (Some not_before, Some not_after) \<Rightarrow>
             if not_before \<ge> not_after \<or> next = sid_current_public_key p
             then Inl InvalidRotationWindow
             else if now < not_before then Inr [sid_current_public_key p]
             else if now > not_after then Inl RotationWindowExpired
             else Inr [sid_current_public_key p, next]
         | _ \<Rightarrow> Inl InvalidRotationWindow))"

definition verify_one ::
  "'x prims_scheme \<Rightarrow> bytes \<Rightarrow> bytes \<times> service_signature \<Rightarrow> service_identity_error + unit" where
  "verify_one X message = (\<lambda>(public_key, sig).
     if ss_public_key sig \<noteq> public_key then Inl InvalidSignatureSet
     else if length public_key \<noteq> 32 then Inl InvalidKey
     else if length (ss_signature sig) \<noteq> 64 then Inl InvalidSignatureSet
     else if \<not> ed_key_ok X public_key then Inl InvalidKey
     else if \<not> ed_verify X public_key message (ss_signature sig) then Inl InvalidSignatureSet
     else Inr ())"

definition verify_signatures ::
  "'x prims_scheme \<Rightarrow> service_identity_policy \<Rightarrow> bytes \<Rightarrow> service_signature list \<Rightarrow> u64
     \<Rightarrow> service_identity_error + unit" where
  "verify_signatures X p message signatures now =
     rbind (required_public_keys p now) (\<lambda>required.
     if list_ex (\<lambda>sig. ss_public_key sig \<in> set (sid_revoked_public_keys p)) signatures
     then Inl RevokedKey
     else if length signatures \<noteq> length required then Inl InvalidSignatureSet
     else for_each (verify_one X message) (zip required signatures))"

section \<open>Persisted identities\<close>

datatype service_identity_kind = RootKind | RelayKind

record persisted_service_identity =
  psi_schema_version :: u32
  psi_kind :: service_identity_kind
  psi_service_id :: uuid
  psi_secret_key :: bytes

datatype service_identity_file_error =
    UnsupportedSchema
  | WrongKind
  | InvalidSecretKey
  | ServiceIdMismatch
  | InvalidServiceId
  | InsecurePermissions
  | WrongOwner
  | IdentityRandomnessUnavailable
  | StateFileFailure

definition SERVICE_IDENTITY_SCHEMA_VERSION :: u32 where "SERVICE_IDENTITY_SCHEMA_VERSION = 2"

definition parse_secret_key :: "bytes \<Rightarrow> service_identity_file_error + bytes" where
  "parse_secret_key bs = (if length bs = 32 then Inr bs else Inl InvalidSecretKey)"

definition validate_service_id :: "uuid \<Rightarrow> uuid option \<Rightarrow> service_identity_file_error + unit" where
  "validate_service_id service_id expected =
     (if service_id = uuid_nil then Inl InvalidServiceId
      else case expected of
        None \<Rightarrow> Inr ()
      | Some e \<Rightarrow> if e \<noteq> service_id then Inl ServiceIdMismatch else Inr ())"

definition validate_persisted_identity ::
  "persisted_service_identity \<Rightarrow> service_identity_kind \<Rightarrow> uuid option \<Rightarrow> service_identity_file_error + unit" where
  "validate_persisted_identity p expected_kind expected_service_id =
     (if psi_schema_version p \<noteq> SERVICE_IDENTITY_SCHEMA_VERSION then Inl UnsupportedSchema
      else if psi_kind p \<noteq> expected_kind then Inl WrongKind
      else rbind (validate_service_id (psi_service_id p) expected_service_id) (\<lambda>_.
           rbind (parse_secret_key (psi_secret_key p)) (\<lambda>_. Inr ())))"

unbundle bit_operations_syntax

text \<open>The Unix check of the file: no permission for group or others, owned by the effective user.\<close>

definition validate_identity_file_security :: "u32 \<Rightarrow> u32 \<Rightarrow> u32 \<Rightarrow> service_identity_file_error + unit" where
  "validate_identity_file_security mode uid effective_user =
     (if mode AND 63 \<noteq> 0 then Inl InsecurePermissions
      else if uid \<noteq> effective_user then Inl WrongOwner
      else Inr ())"

text \<open>
  Creating an identity draws the key, settles the identifier and writes the file; \<open>write\<close> is the protected
  writer, which reports success.
\<close>

definition create_identity ::
  "(persisted_service_identity \<Rightarrow> bool) \<Rightarrow> bytes option \<Rightarrow> uuid \<Rightarrow> uuid option \<Rightarrow> service_identity_kind
     \<Rightarrow> service_identity_file_error + persisted_service_identity" where
  "create_identity write random new_uuid expected_service_id kind =
     rbind (ok_or IdentityRandomnessUnavailable random) (\<lambda>secret_key.
       let service_id = (case expected_service_id of None \<Rightarrow> new_uuid | Some e \<Rightarrow> e)
       in rbind (validate_service_id service_id expected_service_id) (\<lambda>_.
            let persisted = \<lparr>psi_schema_version = SERVICE_IDENTITY_SCHEMA_VERSION, psi_kind = kind,
                  psi_service_id = service_id, psi_secret_key = secret_key\<rparr>
            in if write persisted then Inr persisted else Inl StateFileFailure))"

lemma created_identity_validates:
  assumes "create_identity write (Some key) u expected kind = Inr p" and "length key = 32"
  shows "validate_persisted_identity p kind expected = Inr ()"
  using assms by (auto simp: create_identity_def validate_persisted_identity_def parse_secret_key_def Let_def
      split: if_splits)

section \<open>What an accepted signature set shows\<close>

text \<open>A policy requires one or two keys, the current one first; all are well formed and none is revoked.\<close>

lemma required_public_keys_InrD:
  assumes "required_public_keys p now = Inr keys"
  shows "keys = [sid_current_public_key p]
      \<or> (\<exists>next. sid_next_public_key p = Some next \<and> next \<noteq> sid_current_public_key p
           \<and> keys = [sid_current_public_key p, next])"
    and "list_all (\<lambda>k. length k = 32 \<and> k \<notin> set (sid_revoked_public_keys p)) keys"
  using assms
  by (auto simp: required_public_keys_def validate_key_def split: if_splits option.splits)

lemma required_public_keys_distinct: "required_public_keys p now = Inr keys \<Longrightarrow> distinct keys"
  by (drule required_public_keys_InrD(1)) auto

lemma verify_one_Inr_iff:
  "verify_one X m (k, s) = Inr () \<longleftrightarrow>
     ss_public_key s = k \<and> length k = 32 \<and> length (ss_signature s) = 64 \<and> ed_key_ok X k
     \<and> ed_verify X k m (ss_signature s)"
  by (simp add: verify_one_def)

lemma verify_zip_iff:
  assumes "length sigs = length keys"
  shows "for_each (verify_one X m) (zip keys sigs) = Inr () \<longleftrightarrow>
     map ss_public_key sigs = keys
     \<and> list_all (\<lambda>s. length (ss_public_key s) = 32 \<and> length (ss_signature s) = 64
         \<and> ed_key_ok X (ss_public_key s) \<and> ed_verify X (ss_public_key s) m (ss_signature s)) sigs"
  using assms by (induction keys sigs rule: list_induct2') (auto simp: verify_one_Inr_iff)

lemma verify_signatures_Inr_iff:
  "verify_signatures X p m sigs now = Inr () \<longleftrightarrow>
     required_public_keys p now = Inr (map ss_public_key sigs)
     \<and> list_all (\<lambda>s. ss_public_key s \<notin> set (sid_revoked_public_keys p)
          \<and> length (ss_signature s) = 64 \<and> ed_key_ok X (ss_public_key s)
          \<and> ed_verify X (ss_public_key s) m (ss_signature s)) sigs"
proof (cases "required_public_keys p now")
  case (Inl e)
  then show ?thesis by (simp add: verify_signatures_def)
next
  case (Inr keys)
  have keys: "list_all (\<lambda>k. length k = 32 \<and> k \<notin> set (sid_revoked_public_keys p)) keys"
    by (rule required_public_keys_InrD(2) [OF Inr])
  have all32: "list_all (\<lambda>s. length (ss_public_key s) = 32) sigs" if "map ss_public_key sigs = keys"
    using keys that by (auto simp: list_all_iff)
  show ?thesis
  proof (cases "length sigs = length keys")
    case True
    then show ?thesis
      using Inr keys all32 verify_zip_iff [OF True, of X m]
      by (auto simp: verify_signatures_def list_all_iff list_ex_iff)
  next
    case False
    then have "map ss_public_key sigs \<noteq> keys" by (metis length_map)
    with False Inr show ?thesis by (auto simp: verify_signatures_def)
  qed
qed

text \<open>
  A signature set is accepted exactly when it has one valid signature of the message by each key the
  policy requires at that time, in the policy's order and no other signature. The required keys are
  never revoked, so the revocation test on the set is subsumed and a set with a revoked key never passes.
\<close>

theorem verify_signatures_iff:
  "verify_signatures X p m sigs now = Inr () \<longleftrightarrow>
     required_public_keys p now = Inr (map ss_public_key sigs)
     \<and> list_all (\<lambda>s. ss_public_key s \<notin> set (sid_revoked_public_keys p)
          \<and> length (ss_signature s) = 64 \<and> ed_key_ok X (ss_public_key s)
          \<and> ed_verify X (ss_public_key s) m (ss_signature s)) sigs"
  by (rule verify_signatures_Inr_iff)

lemma verify_signatures_signed:
  assumes "verify_signatures X p m sigs now = Inr ()" and "required_public_keys p now = Inr keys"
    and "k \<in> set keys"
  shows "\<exists>s \<in> set sigs. ss_public_key s = k \<and> ed_verify X k m (ss_signature s)"
  using assms by (auto simp: verify_signatures_Inr_iff list_all_iff)

text \<open>
  Dual signing. Inside the rotation window a document is accepted only if both the holder of the
  current key and the holder of the next key signed it; before the window the current key alone decides,
  and after it every document is refused.
\<close>

theorem rotation_window_needs_both_keys:
  assumes "signs_only X (sid_current_public_key p) M" and "signs_only X next N"
    and "sid_next_public_key p = Some next"
    and "sid_transition_not_before p = Some b" and "sid_transition_not_after p = Some a"
    and "verify_signatures X p m sigs now = Inr ()"
  shows "m \<in> M \<and> (b \<le> now \<longrightarrow> m \<in> N) \<and> now \<le> a"
proof -
  have keys: "required_public_keys p now = Inr (map ss_public_key sigs)"
    and ver: "list_all (\<lambda>s. ed_verify X (ss_public_key s) m (ss_signature s)) sigs"
    using assms(6) by (auto simp: verify_signatures_Inr_iff list_all_iff)
  have "map ss_public_key sigs = (if now < b then [sid_current_public_key p] else [sid_current_public_key p, next])
      \<and> now \<le> a"
    using keys assms(3-5) by (auto simp: required_public_keys_def split: if_splits)
  then show ?thesis
    using ver signs_onlyD [OF assms(1)] signs_onlyD [OF assms(2)]
    by (cases sigs; cases "tl sigs") (auto split: if_splits)
qed

definition sample_rotation :: service_identity_policy where
  "sample_rotation = \<lparr>sid_service_id = 3, sid_current_public_key = replicate 32 1,
     sid_next_public_key = Some (replicate 32 2), sid_transition_not_before = Some 10,
     sid_transition_not_after = Some 20, sid_revoked_public_keys = []\<rparr>"

theorem rotation_window_needs_both_keys_witness:
  "verify_signatures (sample_prims\<lparr>ed_verify := \<lambda>pk m s. m = [7]\<rparr>) sample_rotation [7]
     [\<lparr>ss_public_key = replicate 32 1, ss_signature = replicate 64 0\<rparr>,
      \<lparr>ss_public_key = replicate 32 2, ss_signature = replicate 64 0\<rparr>] 15 = Inr ()
   \<and> [7] \<in> {[7::u8]} \<and> (15::u64) \<le> 20"
proof -
  let ?X = "sample_prims\<lparr>ed_verify := \<lambda>pk m s. m = [7]\<rparr>"
  have ok: "verify_signatures ?X sample_rotation [7]
     [\<lparr>ss_public_key = replicate 32 1, ss_signature = replicate 64 0\<rparr>,
      \<lparr>ss_public_key = replicate 32 2, ss_signature = replicate 64 0\<rparr>] 15 = Inr ()"
    by (simp add: verify_signatures_def required_public_keys_def validate_key_def verify_one_def
        sample_rotation_def sample_prims_def replicate_eq_replicate)
  have s: "signs_only ?X pk {[7]}" for pk by (simp add: signs_only_def)
  show ?thesis
    using rotation_window_needs_both_keys [OF s s _ _ _ ok, of "replicate 32 2" 10 20] ok
    by (simp add: sample_rotation_def)
qed

end
