(* ===== verification/Planet.thy ===== *)
theory Planet
  imports Authorization Service_Identity
begin

text \<open>
  Planet manifests, the controller-signed bootstrap documents of versions 1 to 5
  (\<^verbatim>\<open>crates/meshlake-core/src/crypto.rs\<close>). \<open>planet_ops\<close> adds the JSON encodings of the five signed
  payloads and of the semantic payload, and SHA-256.
\<close>

datatype turn_transport = Udp | Tcp | Tls

fun turn_transport_u8 :: "turn_transport \<Rightarrow> u8" where
  "turn_transport_u8 Udp = 0"
| "turn_transport_u8 Tcp = 1"
| "turn_transport_u8 Tls = 2"

record planet_turn_server =
  pts_endpoint :: socket_addr
  pts_transport :: turn_transport
  pts_server_name :: "string option"
  pts_certificate_sha256 :: bytes
  pts_priority :: u16

record planet_root =
  pr_public_key :: bytes
  pr_endpoints :: "socket_addr list"
  pr_priority :: u16
  pr_identity :: "service_identity_policy option"

record planet_relay =
  prl_endpoint :: socket_addr
  prl_priority :: u16
  prl_identity :: "service_identity_policy option"

record planet_tls_relay =
  ptr_relay_id :: uuid
  ptr_endpoint :: socket_addr
  ptr_server_name :: string
  ptr_certificate_sha256 :: bytes
  ptr_priority :: u16

record planet_manifest =
  pm_version :: u8
  pm_controller_url :: string
  pm_relay_endpoint :: socket_addr
  pm_roots :: "planet_root list"
  pm_relays :: "planet_relay list"
  pm_tls_relays :: "planet_tls_relay list"
  pm_turn_servers :: "planet_turn_server list"
  pm_stun_servers :: "string list"
  pm_issued_at_unix_seconds :: u64
  pm_expires_at_unix_seconds :: "u64 option"
  pm_controller_public_key :: bytes
  pm_signature :: bytes

text \<open>The signed payloads; each version extends the fields of the one before it.\<close>

record planet_manifest_payload =
  pp_version :: u8
  pp_controller_url :: string
  pp_relay_endpoint :: socket_addr
  pp_stun_servers :: "string list"
  pp_issued_at_unix_seconds :: u64
  pp_expires_at_unix_seconds :: "u64 option"
  pp_controller_public_key :: bytes

record planet_manifest_v2_payload = planet_manifest_payload +
  pp_roots :: "planet_root list"
  pp_relays :: "planet_relay list"

type_synonym planet_manifest_v3_payload = planet_manifest_v2_payload

record planet_manifest_v4_payload = planet_manifest_v2_payload +
  pp_tls_relays :: "planet_tls_relay list"

record planet_manifest_v5_payload = planet_manifest_v4_payload +
  pp_turn_servers :: "planet_turn_server list"

record planet_manifest_semantic_payload =
  psp_version :: u8
  psp_controller_url :: string
  psp_relay_endpoint :: socket_addr
  psp_roots :: "planet_root list"
  psp_relays :: "planet_relay list"
  psp_tls_relays :: "planet_tls_relay list"
  psp_turn_servers :: "planet_turn_server list"
  psp_stun_servers :: "string list"
  psp_controller_public_key :: bytes

record planet_ops = authz_ops +
  json_planet_v1 :: "planet_manifest_payload \<Rightarrow> bytes option"
  json_planet_v2 :: "planet_manifest_v2_payload \<Rightarrow> bytes option"
  json_planet_v3 :: "planet_manifest_v3_payload \<Rightarrow> bytes option"
  json_planet_v4 :: "planet_manifest_v4_payload \<Rightarrow> bytes option"
  json_planet_v5 :: "planet_manifest_v5_payload \<Rightarrow> bytes option"
  json_planet_semantic :: "planet_manifest_semantic_payload \<Rightarrow> bytes option"
  sha256 :: "bytes \<Rightarrow> bytes"

definition planet_v1_payload :: "planet_manifest \<Rightarrow> planet_manifest_payload" where
  "planet_v1_payload m = \<lparr>pp_version = pm_version m, pp_controller_url = pm_controller_url m,
     pp_relay_endpoint = pm_relay_endpoint m, pp_stun_servers = pm_stun_servers m,
     pp_issued_at_unix_seconds = pm_issued_at_unix_seconds m,
     pp_expires_at_unix_seconds = pm_expires_at_unix_seconds m,
     pp_controller_public_key = pm_controller_public_key m\<rparr>"

definition planet_v2_payload :: "planet_manifest \<Rightarrow> planet_manifest_v2_payload" where
  "planet_v2_payload m = planet_manifest_payload.extend (planet_v1_payload m)
     \<lparr>pp_roots = pm_roots m, pp_relays = pm_relays m\<rparr>"

definition planet_v4_payload :: "planet_manifest \<Rightarrow> planet_manifest_v4_payload" where
  "planet_v4_payload m = planet_manifest_v2_payload.extend (planet_v2_payload m)
     \<lparr>pp_tls_relays = pm_tls_relays m\<rparr>"

definition planet_v5_payload :: "planet_manifest \<Rightarrow> planet_manifest_v5_payload" where
  "planet_v5_payload m = planet_manifest_v4_payload.extend (planet_v4_payload m)
     \<lparr>pp_turn_servers = pm_turn_servers m\<rparr>"

definition semantic_digest :: "'x planet_ops_scheme \<Rightarrow> planet_manifest \<Rightarrow> crypto_error + bytes" where
  "semantic_digest X m =
     rbind (ok_or CertificateEncodingFailed (json_planet_semantic X
       \<lparr>psp_version = pm_version m, psp_controller_url = pm_controller_url m,
        psp_relay_endpoint = pm_relay_endpoint m, psp_roots = pm_roots m, psp_relays = pm_relays m,
        psp_tls_relays = pm_tls_relays m, psp_turn_servers = pm_turn_servers m,
        psp_stun_servers = pm_stun_servers m,
        psp_controller_public_key = pm_controller_public_key m\<rparr>)) (\<lambda>encoded.
     Inr (sha256 X encoded))"

section \<open>Validation of the service lists\<close>

definition is_ascii_control :: "char \<Rightarrow> bool" where
  "is_ascii_control c \<longleftrightarrow> (of_char c :: nat) < 32 \<or> (of_char c :: nat) = 127"

definition is_ascii_whitespace :: "char \<Rightarrow> bool" where
  "is_ascii_whitespace c \<longleftrightarrow> (of_char c :: nat) \<in> {9, 10, 12, 13, 32}"

fun tls_relays_loop ::
  "planet_relay list \<Rightarrow> uuid list \<Rightarrow> socket_addr list \<Rightarrow> planet_tls_relay list \<Rightarrow> crypto_error + unit" where
  "tls_relays_loop relays relay_ids endpoints [] = Inr ()"
| "tls_relays_loop relays relay_ids endpoints (r # rs) =
     (if ptr_relay_id r = uuid_nil
         \<or> ptr_server_name r = []
         \<or> length (ptr_server_name r) > 253
         \<or> list_ex is_ascii_control (ptr_server_name r)
         \<or> length (ptr_certificate_sha256 r) \<noteq> 32
         \<or> ptr_relay_id r \<in> set relay_ids
         \<or> ptr_endpoint r \<in> set endpoints
         \<or> \<not> list_ex (\<lambda>udp. case prl_identity udp of None \<Rightarrow> False
               | Some i \<Rightarrow> sid_service_id i = ptr_relay_id r) relays
      then Inl InvalidCertificate
      else tls_relays_loop relays (ptr_relay_id r # relay_ids) (ptr_endpoint r # endpoints) rs)"

definition validate_tls_relays :: "planet_tls_relay list \<Rightarrow> planet_relay list \<Rightarrow> crypto_error + unit" where
  "validate_tls_relays tls_relays relays = tls_relays_loop relays [] [] tls_relays"

definition is_public_unicast_endpoint :: "socket_addr \<Rightarrow> bool" where
  "is_public_unicast_endpoint endpoint =
     (if sock_port endpoint = 0 then False
      else case sock_ip endpoint of
        V4 a \<Rightarrow> \<not> ip_is_unspecified (V4 a) \<and> \<not> ip_is_loopback (V4 a) \<and> \<not> ip_is_multicast (V4 a)
               \<and> a \<noteq> ipv4_broadcast \<and> \<not> ipv4_is_private a \<and> \<not> ipv4_is_link_local a
      | V6 a \<Rightarrow> \<not> ip_is_unspecified (V6 a) \<and> \<not> ip_is_loopback (V6 a) \<and> \<not> ip_is_multicast (V6 a)
               \<and> \<not> ipv6_is_unique_local a \<and> \<not> ipv6_is_unicast_link_local a)"

definition turn_server_shape :: "planet_turn_server \<Rightarrow> crypto_error + unit" where
  "turn_server_shape s =
     (case pts_transport s of
        Tls \<Rightarrow>
          (case pts_server_name s of
             None \<Rightarrow> Inl InvalidCertificate
           | Some name \<Rightarrow>
               if name = [] \<or> length name > 253
                  \<or> list_ex (\<lambda>c. is_ascii_control c \<or> is_ascii_whitespace c) name
                  \<or> length (pts_certificate_sha256 s) \<noteq> 32
               then Inl InvalidCertificate
               else Inr ())
      | _ \<Rightarrow> if pts_server_name s \<noteq> None \<or> pts_certificate_sha256 s \<noteq> [] then Inl InvalidCertificate
             else Inr ())"

fun turn_servers_loop :: "(socket_addr \<times> u8) list \<Rightarrow> planet_turn_server list \<Rightarrow> crypto_error + unit" where
  "turn_servers_loop endpoints [] = Inr ()"
| "turn_servers_loop endpoints (s # ss) =
     (if \<not> is_public_unicast_endpoint (pts_endpoint s)
         \<or> (pts_endpoint s, turn_transport_u8 (pts_transport s)) \<in> set endpoints
      then Inl InvalidCertificate
      else rbind (turn_server_shape s) (\<lambda>_.
             turn_servers_loop ((pts_endpoint s, turn_transport_u8 (pts_transport s)) # endpoints) ss))"

definition validate_turn_servers :: "planet_turn_server list \<Rightarrow> crypto_error + unit" where
  "validate_turn_servers turn_servers = turn_servers_loop [] turn_servers"

definition planet_check_root :: "u64 \<Rightarrow> planet_root \<Rightarrow> crypto_error + unit" where
  "planet_check_root now r =
     rbind (ok_or InvalidServiceIdentity (pr_identity r)) (\<lambda>identity.
     rbind (map_err (\<lambda>_. InvalidServiceIdentity) (required_public_keys identity now)) (\<lambda>_.
       if pr_public_key r \<noteq> sid_current_public_key identity then Inl InvalidServiceIdentity
       else Inr ()))"

definition planet_check_relay :: "u64 \<Rightarrow> planet_relay \<Rightarrow> crypto_error + unit" where
  "planet_check_relay now r =
     rbind (ok_or InvalidServiceIdentity (prl_identity r)) (\<lambda>identity.
     rbind (map_err (\<lambda>_. InvalidServiceIdentity) (required_public_keys identity now)) (\<lambda>_. Inr ()))"

definition planet_check_identities ::
  "planet_root list \<Rightarrow> planet_relay list \<Rightarrow> u64 \<Rightarrow> crypto_error + unit" where
  "planet_check_identities roots relays now =
     (if list_ex (\<lambda>r. pr_identity r = None) roots \<or> relays = []
         \<or> list_ex (\<lambda>r. prl_identity r = None) relays
      then Inl InvalidServiceIdentity
      else rbind (for_each (planet_check_root now) roots) (\<lambda>_. for_each (planet_check_relay now) relays))"

section \<open>Signing\<close>

definition planet_sign ::
  "'x planet_ops_scheme \<Rightarrow> string \<Rightarrow> socket_addr \<Rightarrow> string list \<Rightarrow> u64 \<Rightarrow> u64 option \<Rightarrow> bytes
     \<Rightarrow> crypto_error + planet_manifest" where
  "planet_sign X controller_url relay_endpoint stun_servers issued_at expires_at signing_key =
     (let m = \<lparr>pm_version = 1, pm_controller_url = controller_url, pm_relay_endpoint = relay_endpoint,
            pm_roots = [], pm_relays = [], pm_tls_relays = [], pm_turn_servers = [],
            pm_stun_servers = stun_servers, pm_issued_at_unix_seconds = issued_at,
            pm_expires_at_unix_seconds = expires_at,
            pm_controller_public_key = verifying_key X signing_key, pm_signature = []\<rparr>
      in rbind (ok_or CertificateEncodingFailed (json_planet_v1 X (planet_v1_payload m))) (\<lambda>bs.
           Inr (m\<lparr>pm_signature := ed_sign X signing_key bs\<rparr>)))"

definition planet_sign_v2 ::
  "'x planet_ops_scheme \<Rightarrow> string \<Rightarrow> planet_root list \<Rightarrow> planet_relay list \<Rightarrow> string list \<Rightarrow> u64 \<Rightarrow> u64 option
     \<Rightarrow> bytes \<Rightarrow> crypto_error + planet_manifest" where
  "planet_sign_v2 X controller_url roots relays stun_servers issued_at expires_at signing_key =
     (let roots = sort_key pr_priority roots;
          relays = sort_key prl_priority relays
      in case relays of
           [] \<Rightarrow> Inl InvalidCertificate
         | first # _ \<Rightarrow>
             let m = \<lparr>pm_version = 2, pm_controller_url = controller_url,
                   pm_relay_endpoint = prl_endpoint first,
                   pm_roots = roots, pm_relays = relays, pm_tls_relays = [], pm_turn_servers = [],
                   pm_stun_servers = stun_servers, pm_issued_at_unix_seconds = issued_at,
                   pm_expires_at_unix_seconds = expires_at,
                   pm_controller_public_key = verifying_key X signing_key, pm_signature = []\<rparr>
             in rbind (ok_or CertificateEncodingFailed (json_planet_v2 X (planet_v2_payload m))) (\<lambda>bs.
                  Inr (m\<lparr>pm_signature := ed_sign X signing_key bs\<rparr>)))"

definition planet_sign_v3 ::
  "'x planet_ops_scheme \<Rightarrow> string \<Rightarrow> planet_root list \<Rightarrow> planet_relay list \<Rightarrow> string list \<Rightarrow> u64 \<Rightarrow> u64 option
     \<Rightarrow> bytes \<Rightarrow> crypto_error + planet_manifest" where
  "planet_sign_v3 X controller_url roots relays stun_servers issued_at expires_at signing_key =
     (let roots = sort_key pr_priority roots;
          relays = sort_key prl_priority relays
      in rbind (planet_check_identities roots relays issued_at) (\<lambda>_.
           let m = \<lparr>pm_version = 3, pm_controller_url = controller_url,
                 pm_relay_endpoint = prl_endpoint (hd relays),
                 pm_roots = roots, pm_relays = relays, pm_tls_relays = [], pm_turn_servers = [],
                 pm_stun_servers = stun_servers, pm_issued_at_unix_seconds = issued_at,
                 pm_expires_at_unix_seconds = expires_at,
                 pm_controller_public_key = verifying_key X signing_key, pm_signature = []\<rparr>
           in rbind (ok_or CertificateEncodingFailed (json_planet_v3 X (planet_v2_payload m))) (\<lambda>bs.
                Inr (m\<lparr>pm_signature := ed_sign X signing_key bs\<rparr>))))"

definition planet_sign_v4 ::
  "'x planet_ops_scheme \<Rightarrow> string \<Rightarrow> planet_root list \<Rightarrow> planet_relay list \<Rightarrow> planet_tls_relay list \<Rightarrow> string list
     \<Rightarrow> u64 \<Rightarrow> u64 option \<Rightarrow> bytes \<Rightarrow> crypto_error + planet_manifest" where
  "planet_sign_v4 X controller_url roots relays tls_relays stun_servers issued_at expires_at signing_key =
     rbind (planet_sign_v3 X controller_url roots relays stun_servers issued_at expires_at signing_key)
       (\<lambda>manifest.
       let tls_relays = sort_key ptr_priority tls_relays
       in rbind (validate_tls_relays tls_relays (pm_relays manifest)) (\<lambda>_.
            let m = manifest\<lparr>pm_version := 4, pm_tls_relays := tls_relays\<rparr>
            in rbind (ok_or CertificateEncodingFailed (json_planet_v4 X (planet_v4_payload m))) (\<lambda>bs.
                 Inr (m\<lparr>pm_signature := ed_sign X signing_key bs\<rparr>))))"

definition planet_sign_v5 ::
  "'x planet_ops_scheme \<Rightarrow> string \<Rightarrow> planet_root list \<Rightarrow> planet_relay list \<Rightarrow> planet_tls_relay list
     \<Rightarrow> planet_turn_server list \<Rightarrow> string list \<Rightarrow> u64 \<Rightarrow> u64 option \<Rightarrow> bytes \<Rightarrow> crypto_error + planet_manifest" where
  "planet_sign_v5 X controller_url roots relays tls_relays turn_servers stun_servers issued_at expires_at
       signing_key =
     rbind (planet_sign_v4 X controller_url roots relays tls_relays stun_servers issued_at expires_at signing_key)
       (\<lambda>manifest.
       let turn_servers = sort_key (\<lambda>s. (pts_priority s, pts_endpoint s, turn_transport_u8 (pts_transport s)))
             turn_servers
       in rbind (validate_turn_servers turn_servers) (\<lambda>_.
            let m = manifest\<lparr>pm_version := 5, pm_turn_servers := turn_servers\<rparr>
            in rbind (ok_or CertificateEncodingFailed (json_planet_v5 X (planet_v5_payload m))) (\<lambda>bs.
                 Inr (m\<lparr>pm_signature := ed_sign X signing_key bs\<rparr>))))"

section \<open>Verification\<close>

definition planet_message :: "'x planet_ops_scheme \<Rightarrow> planet_manifest \<Rightarrow> bytes option" where
  "planet_message X m =
     (if pm_version m = 1 then json_planet_v1 X (planet_v1_payload m)
      else if pm_version m = 2 then json_planet_v2 X (planet_v2_payload m)
      else if pm_version m = 3 then json_planet_v3 X (planet_v2_payload m)
      else if pm_version m = 4 then json_planet_v4 X (planet_v4_payload m)
      else json_planet_v5 X (planet_v5_payload m))"

definition planet_check_services :: "planet_manifest \<Rightarrow> u64 \<Rightarrow> crypto_error + unit" where
  "planet_check_services m now =
     (if pm_version m < 3 then
        (if list_ex (\<lambda>r. pr_identity r \<noteq> None) (pm_roots m)
            \<or> list_ex (\<lambda>r. prl_identity r \<noteq> None) (pm_relays m)
         then Inl InvalidServiceIdentity
         else Inr ())
      else
        rbind (planet_check_identities (pm_roots m) (pm_relays m) now) (\<lambda>_.
        rbind (if pm_version m \<ge> 4 then validate_tls_relays (pm_tls_relays m) (pm_relays m)
               else if pm_tls_relays m \<noteq> [] then Inl InvalidCertificate else Inr ()) (\<lambda>_.
          if pm_version m = 5 then validate_turn_servers (pm_turn_servers m)
          else if pm_turn_servers m \<noteq> [] then Inl InvalidCertificate else Inr ())))"

definition planet_verify_from_controller ::
  "'x planet_ops_scheme \<Rightarrow> planet_manifest \<Rightarrow> bytes \<Rightarrow> u64 \<Rightarrow> crypto_error + unit" where
  "planet_verify_from_controller X m trusted_controller_public_key now =
     (if \<not> (1 \<le> pm_version m \<and> pm_version m \<le> 5)
         \<or> pm_controller_public_key m \<noteq> trusted_controller_public_key
      then Inl UntrustedController
      else if (case pm_expires_at_unix_seconds m of None \<Rightarrow> False | Some expiry \<Rightarrow> now > expiry)
      then Inl CertificateExpired
      else if length (pm_controller_public_key m) \<noteq> 32 then Inl InvalidCertificate
      else if length (pm_signature m) \<noteq> 64 then Inl InvalidCertificate
      else rbind (planet_check_services m now) (\<lambda>_.
           rbind (ok_or CertificateEncodingFailed (planet_message X m)) (\<lambda>bs.
             if \<not> ed_key_ok X (pm_controller_public_key m) then Inl InvalidCertificate
             else if ed_verify X (pm_controller_public_key m) bs (pm_signature m) then Inr ()
             else Inl InvalidCertificate)))"

section \<open>What an accepted manifest shows\<close>

lemma tls_relays_loop_Inr:
  assumes "tls_relays_loop relays ids eps rs = Inr ()"
  shows "distinct (map ptr_relay_id rs) \<and> distinct (map ptr_endpoint rs)
    \<and> set (map ptr_relay_id rs) \<inter> set ids = {} \<and> set (map ptr_endpoint rs) \<inter> set eps = {}
    \<and> list_all (\<lambda>r. length (ptr_certificate_sha256 r) = 32
        \<and> ptr_relay_id r \<in> {sid_service_id i | i u. u \<in> set relays \<and> prl_identity u = Some i}) rs"
  using assms
proof (induction rs arbitrary: ids eps)
  case Nil
  then show ?case by simp
next
  case (Cons r rs)
  then have rest: "tls_relays_loop relays (ptr_relay_id r # ids) (ptr_endpoint r # eps) rs = Inr ()"
    and here: "length (ptr_certificate_sha256 r) = 32" "ptr_relay_id r \<notin> set ids" "ptr_endpoint r \<notin> set eps"
    and listed: "list_ex (\<lambda>udp. case prl_identity udp of None \<Rightarrow> False
               | Some i \<Rightarrow> sid_service_id i = ptr_relay_id r) relays"
    by (simp_all split: if_splits)
  from listed have "ptr_relay_id r \<in> {sid_service_id i | i u. u \<in> set relays \<and> prl_identity u = Some i}"
    by (force simp: list_ex_iff split: option.splits)
  with Cons.IH [OF rest] here show ?case by auto
qed

lemma turn_servers_loop_Inr:
  assumes "turn_servers_loop eps ss = Inr ()"
  shows "list_all (\<lambda>s. is_public_unicast_endpoint (pts_endpoint s) \<and> turn_server_shape s = Inr ()) ss
    \<and> distinct (map (\<lambda>s. (pts_endpoint s, turn_transport_u8 (pts_transport s))) ss)
    \<and> set (map (\<lambda>s. (pts_endpoint s, turn_transport_u8 (pts_transport s))) ss) \<inter> set eps = {}"
  using assms
  by (induction ss arbitrary: eps) (fastforce split: if_splits)+

lemma planet_check_identities_Inr_iff:
  "planet_check_identities roots relays now = Inr () \<longleftrightarrow>
     relays \<noteq> []
     \<and> list_all (\<lambda>r. \<exists>i keys. pr_identity r = Some i \<and> required_public_keys i now = Inr keys
          \<and> pr_public_key r = sid_current_public_key i) roots
     \<and> list_all (\<lambda>r. \<exists>i keys. prl_identity r = Some i \<and> required_public_keys i now = Inr keys) relays"
  by (auto simp: planet_check_identities_def planet_check_root_def planet_check_relay_def list_ex_iff
      list_all_iff)

lemma planet_verify_Inr_iff:
  "planet_verify_from_controller X m pk now = Inr () \<longleftrightarrow>
     1 \<le> pm_version m \<and> pm_version m \<le> 5 \<and> pm_controller_public_key m = pk
     \<and> (case pm_expires_at_unix_seconds m of None \<Rightarrow> True | Some e \<Rightarrow> now \<le> e)
     \<and> length pk = 32 \<and> length (pm_signature m) = 64 \<and> ed_key_ok X pk
     \<and> planet_check_services m now = Inr ()
     \<and> (\<exists>e. planet_message X m = Some e \<and> ed_verify X pk e (pm_signature m))"
  by (cases "planet_message X m"; cases "pm_expires_at_unix_seconds m")
    (auto simp: planet_verify_from_controller_def not_less split: if_splits)

interpretation planet_doc: signed_document X "planet_message X" pm_signature
    "\<lambda>pk now m. planet_verify_from_controller X m pk now = Inr ()"
  for X :: "'x planet_ops_scheme"
  by unfold_locales (auto simp: planet_verify_Inr_iff)


section \<open>Signed manifests verify\<close>

lemma planet_sign_v3E:
  assumes "planet_sign_v3 X url roots relays stun issued expires sk = Inr m"
  obtains "planet_check_identities (pm_roots m) (pm_relays m) issued = Inr ()"
    and "pm_roots m = sort_key pr_priority roots" and "pm_relays m = sort_key prl_priority relays"
    and "pm_turn_servers m = []" and "pm_expires_at_unix_seconds m = expires"
    and "pm_controller_public_key m = verifying_key X sk"
  using assms by (auto simp: planet_sign_v3_def Let_def)

lemma planet_sign_v4E:
  assumes "planet_sign_v4 X url roots relays tls stun issued expires sk = Inr m"
  obtains "planet_check_identities (pm_roots m) (pm_relays m) issued = Inr ()"
    and "pm_roots m = sort_key pr_priority roots" and "pm_relays m = sort_key prl_priority relays"
    and "validate_tls_relays (pm_tls_relays m) (pm_relays m) = Inr ()"
    and "pm_expires_at_unix_seconds m = expires"
    and "pm_controller_public_key m = verifying_key X sk"
  using assms by (auto simp: planet_sign_v4_def Let_def elim!: planet_sign_v3E)

lemma planet_sign_v5E:
  assumes "planet_sign_v5 X url roots relays tls turn stun issued expires sk = Inr m"
  obtains e where "pm_roots m = sort_key pr_priority roots" and "pm_relays m = sort_key prl_priority relays"
    and "planet_check_identities (pm_roots m) (pm_relays m) issued = Inr ()"
    and "validate_tls_relays (pm_tls_relays m) (pm_relays m) = Inr ()"
    and "validate_turn_servers (pm_turn_servers m) = Inr ()"
    and "pm_expires_at_unix_seconds m = expires" and "pm_version m = 5"
    and "pm_controller_public_key m = verifying_key X sk"
    and "json_planet_v5 X (planet_v5_payload m) = Some e" and "pm_signature m = ed_sign X sk e"
proof -
  obtain m4 e where m4: "planet_sign_v4 X url roots relays tls stun issued expires sk = Inr m4"
    and turn: "validate_turn_servers (sort_key (\<lambda>s. (pts_priority s, pts_endpoint s,
        turn_transport_u8 (pts_transport s))) turn) = Inr ()"
    and e: "json_planet_v5 X (planet_v5_payload (m4\<lparr>pm_version := 5, pm_turn_servers := sort_key
        (\<lambda>s. (pts_priority s, pts_endpoint s, turn_transport_u8 (pts_transport s))) turn\<rparr>)) = Some e"
    and m: "m = m4\<lparr>pm_version := 5, pm_turn_servers := sort_key (\<lambda>s. (pts_priority s, pts_endpoint s,
        turn_transport_u8 (pts_transport s))) turn, pm_signature := ed_sign X sk e\<rparr>"
    using assms by (auto simp: planet_sign_v5_def Let_def)
  from m4 show thesis
  proof (elim planet_sign_v4E)
    assume f: "planet_check_identities (pm_roots m4) (pm_relays m4) issued = Inr ()"
      "pm_roots m4 = sort_key pr_priority roots" "pm_relays m4 = sort_key prl_priority relays"
      "validate_tls_relays (pm_tls_relays m4) (pm_relays m4) = Inr ()"
      "pm_expires_at_unix_seconds m4 = expires" "pm_controller_public_key m4 = verifying_key X sk"
    have "planet_v5_payload m = planet_v5_payload (m4\<lparr>pm_version := 5, pm_turn_servers := sort_key
        (\<lambda>s. (pts_priority s, pts_endpoint s, turn_transport_u8 (pts_transport s))) turn\<rparr>)"
      by (simp add: m planet_v5_payload_def planet_v4_payload_def planet_v2_payload_def planet_v1_payload_def)
    then show thesis using f e turn by (intro that [of e]) (simp_all add: m)
  qed
qed

text \<open>
  The manifest that the controller signs as version 5 verifies under its key at every time before its
  expiry at which the identity policies of its roots and relays are still in force, in particular at
  the time of issue.
\<close>

theorem signed_planet_verifies:
  assumes "ed_correct X" and "length sk = 32"
    and "planet_sign_v5 X url roots relays tls turn stun issued expires sk = Inr m"
    and "case expires of None \<Rightarrow> True | Some e \<Rightarrow> now \<le> e"
    and "now = issued \<or> planet_check_identities roots relays now = Inr ()"
  shows "planet_verify_from_controller X m (verifying_key X sk) now = Inr ()"
  using assms(3)
proof (elim planet_sign_v5E)
  fix e
  assume f: "pm_roots m = sort_key pr_priority roots" "pm_relays m = sort_key prl_priority relays"
    "planet_check_identities (pm_roots m) (pm_relays m) issued = Inr ()"
    "validate_tls_relays (pm_tls_relays m) (pm_relays m) = Inr ()"
    "validate_turn_servers (pm_turn_servers m) = Inr ()"
    "pm_expires_at_unix_seconds m = expires" "pm_version m = 5"
    "pm_controller_public_key m = verifying_key X sk"
    "json_planet_v5 X (planet_v5_payload m) = Some e" "pm_signature m = ed_sign X sk e"
  have "planet_check_identities (pm_roots m) (pm_relays m) now = Inr ()"
    using assms(5) f(1-3) by (auto simp: planet_check_identities_Inr_iff list_all_iff)
  then have "planet_check_services m now = Inr ()"
    using f by (simp add: planet_check_services_def)
  moreover have "planet_message X m = Some e" using f by (simp add: planet_message_def)
  ultimately show ?thesis
    using f assms(4) ed_correctD [OF assms(1,2)] by (simp add: planet_verify_Inr_iff)
qed

section \<open>Instances\<close>

definition const_planet :: "prims \<Rightarrow> planet_ops" where
  "const_planet P = authz_ops.extend (const_authz P) (planet_ops.fields (\<lambda>_. Some [11]) (\<lambda>_. Some [12])
     (\<lambda>_. Some [13]) (\<lambda>_. Some [14]) (\<lambda>_. Some [15]) (\<lambda>_. Some [16]) (\<lambda>_. replicate 32 0))"

lemmas const_planet_simps = const_planet_def const_authz_simps planet_ops.defs

lemma const_planet_ed_correct: "ed_correct (const_planet P) \<longleftrightarrow> ed_correct P"
  by (simp add: ed_correct_def const_planet_simps)

definition sample_relay :: planet_relay where
  "sample_relay = \<lparr>prl_endpoint = SocketV4 0x08080808 9000, prl_priority = 1,
     prl_identity = Some (service_identity_stable 3 (replicate 32 1))\<rparr>"

definition sample_planet :: planet_manifest where
  "sample_planet = \<lparr>pm_version = 3, pm_controller_url = ''https://c'',
     pm_relay_endpoint = SocketV4 0x08080808 9000, pm_roots = [], pm_relays = [sample_relay],
     pm_tls_relays = [], pm_turn_servers = [], pm_stun_servers = [], pm_issued_at_unix_seconds = 100,
     pm_expires_at_unix_seconds = Some 400, pm_controller_public_key = replicate 32 6,
     pm_signature = replicate 64 0\<rparr>"

lemma sample_relay_identity: "planet_check_identities [] [sample_relay] now = Inr ()"
  by (simp add: planet_check_identities_Inr_iff sample_relay_def service_identity_stable_def
      required_public_keys_def validate_key_def)


theorem signed_planet_verifies_witness:
  "\<exists>m. planet_sign_v5 (const_planet sample_prims) ''https://c'' [] [sample_relay] [] [] [] 100 (Some 400)
        (replicate 32 6) = Inr m
    \<and> planet_verify_from_controller (const_planet sample_prims) m (replicate 32 6) 300 = Inr ()"
proof -
  obtain m where m: "planet_sign_v5 (const_planet sample_prims) ''https://c'' [] [sample_relay] [] [] [] 100
      (Some 400) (replicate 32 6) = Inr m"
    by (simp add: planet_sign_v5_def planet_sign_v4_def planet_sign_v3_def sample_relay_identity
        validate_tls_relays_def validate_turn_servers_def const_planet_simps Let_def)
  have "verifying_key (const_planet sample_prims) (replicate 32 6) = replicate 32 6"
    by (simp add: const_planet_simps sample_prims_def)
  with signed_planet_verifies [OF _ _ m, of 300] m show ?thesis
    by (simp add: const_planet_ed_correct sample_relay_identity)
qed

end
