(* ===== verification/Network_Policy.thy ===== *)
theory Network_Policy
  imports Planet
begin

text \<open>
  Controller-signed routes, exit candidates and split-DNS policy of one virtual network
  (\<^verbatim>\<open>crates/meshlake-core/src/policy.rs\<close>). \<open>policy_ops\<close> adds the operations of the \<^verbatim>\<open>ipnet\<close> crate
  on prefixes and the JSON encodings of the two payload versions.
\<close>

datatype ip_net = Net4 ipv4_net | Net6 ipv6_net

fun net_prefix_len :: "ip_net \<Rightarrow> nat" where
  "net_prefix_len (Net4 n) = n4_prefix_len n"
| "net_prefix_len (Net6 n) = n6_prefix_len n"

definition NETWORK_POLICY_MANIFEST_VERSION :: u8 where "NETWORK_POLICY_MANIFEST_VERSION = 2"
definition NETWORK_POLICY_MANIFEST_VERSION_V1 :: u8 where "NETWORK_POLICY_MANIFEST_VERSION_V1 = 1"
definition MAX_ROUTES :: nat where "MAX_ROUTES = 256"
definition MAX_EXIT_NODES :: nat where "MAX_EXIT_NODES = 16"
definition MAX_DNS_SERVERS :: nat where "MAX_DNS_SERVERS = 8"
definition MAX_SEARCH_DOMAINS :: nat where "MAX_SEARCH_DOMAINS = 16"

record policy_route =
  prt_prefix :: string
  prt_gateway_certificate :: membership_certificate

record exit_node =
  en_gateway_certificate :: membership_certificate
  en_supports_ipv4 :: bool
  en_supports_ipv6 :: bool

record dns_policy =
  dns_servers :: "ip_addr list"
  dns_search_domains :: "string list"

record network_policy_manifest =
  npm_version :: u8
  npm_network_id :: network_id
  npm_policy_epoch :: u64
  npm_routes :: "policy_route list"
  npm_exit_nodes :: "exit_node list"
  npm_dns :: dns_policy
  npm_issued_at_unix_seconds :: u64
  npm_expires_at_unix_seconds :: u64
  npm_controller_public_key :: bytes
  npm_signature :: bytes

record policy_payload_v1 =
  pol_version :: u8
  pol_network_id :: network_id
  pol_policy_epoch :: u64
  pol_routes :: "policy_route list"
  pol_dns :: dns_policy
  pol_issued_at_unix_seconds :: u64
  pol_expires_at_unix_seconds :: u64
  pol_controller_public_key :: bytes

record policy_payload_v2 = policy_payload_v1 +
  pol_exit_nodes :: "exit_node list"

datatype policy_error =
    PolicyUntrustedController
  | PolicyInvalidSignature
  | PolicyExpired
  | PolicyCrossNetwork
  | PolicyRollback
  | PolicyInvalidRoute
  | PolicyDefaultRoute
  | PolicyUnsupportedVersion
  | PolicyAmbiguousRoute
  | PolicyUnauthorizedGateway
  | PolicyInvalidExitNode
  | PolicyInvalidDns
  | PolicyEncodingFailed

record policy_ops = planet_ops +
  parse_ip_net :: "string \<Rightarrow> ip_net option"
  show_ip_net :: "ip_net \<Rightarrow> string"
  net4_contains :: "ipv4_net \<Rightarrow> ipv4_addr \<Rightarrow> bool"
  net4_network :: "ipv4_net \<Rightarrow> ipv4_addr"
  net6_contains :: "ipv6_net \<Rightarrow> ipv6_addr \<Rightarrow> bool"
  net6_network :: "ipv6_net \<Rightarrow> ipv6_addr"
  json_policy_v1 :: "policy_payload_v1 \<Rightarrow> bytes option"
  json_policy_v2 :: "policy_payload_v2 \<Rightarrow> bytes option"

text \<open>Containment of an address in a prefix of either family; the crate compares only equal families.\<close>

fun net_contains :: "'x policy_ops_scheme \<Rightarrow> ip_net \<Rightarrow> ip_addr \<Rightarrow> bool" where
  "net_contains X (Net4 n) (V4 a) = net4_contains X n a"
| "net_contains X (Net6 n) (V6 a) = net6_contains X n a"
| "net_contains X _ _ = False"

section \<open>Prefixes and domains\<close>

definition parse_route :: "'x policy_ops_scheme \<Rightarrow> string \<Rightarrow> policy_error + ip_net" where
  "parse_route X raw =
     rbind (ok_or PolicyInvalidRoute (parse_ip_net X raw)) (\<lambda>prefix.
       if net_prefix_len prefix = 0 then Inl PolicyDefaultRoute else Inr prefix)"

definition prefix_covers :: "'x policy_ops_scheme \<Rightarrow> string \<Rightarrow> string \<Rightarrow> bool" where
  "prefix_covers X allowed target =
     (case (parse_ip_net X allowed, parse_ip_net X target) of
        (Some (Net4 a), Some (Net4 t)) \<Rightarrow>
          n4_prefix_len a \<le> n4_prefix_len t \<and> net4_contains X a (net4_network X t)
      | (Some (Net6 a), Some (Net6 t)) \<Rightarrow>
          n6_prefix_len a \<le> n6_prefix_len t \<and> net6_contains X a (net6_network X t)
      | _ \<Rightarrow> False)"

definition trim_end_matches :: "char \<Rightarrow> string \<Rightarrow> string" where
  "trim_end_matches c s = rev (dropWhile (\<lambda>x. x = c) (rev s))"

definition to_ascii_lowercase :: "char \<Rightarrow> char" where
  "to_ascii_lowercase c = (let n = of_char c :: nat in if 65 \<le> n \<and> n \<le> 90 then char_of (n + 32) else c)"

definition is_ascii_alphanumeric :: "char \<Rightarrow> bool" where
  "is_ascii_alphanumeric c \<longleftrightarrow> (let n = of_char c :: nat in
     (48 \<le> n \<and> n \<le> 57) \<or> (65 \<le> n \<and> n \<le> 90) \<or> (97 \<le> n \<and> n \<le> 122))"

fun split_on :: "char \<Rightarrow> string \<Rightarrow> string list" where
  "split_on c [] = [[]]"
| "split_on c (x # xs) =
     (if x = c then [] # split_on c xs
      else (case split_on c xs of [] \<Rightarrow> [[x]] | l # ls \<Rightarrow> (x # l) # ls))"

definition domain_label_ok :: "string \<Rightarrow> bool" where
  "domain_label_ok label \<longleftrightarrow> label \<noteq> [] \<and> length label \<le> 63
     \<and> hd label \<noteq> CHR ''-'' \<and> last label \<noteq> CHR ''-''
     \<and> list_all (\<lambda>c. is_ascii_alphanumeric c \<or> c = CHR ''-'') label"

definition normalize_domain :: "string \<Rightarrow> policy_error + string" where
  "normalize_domain raw =
     (let domain = map to_ascii_lowercase (trim_end_matches CHR ''.'' (trim raw))
      in if domain = [] \<or> length domain > 253
            \<or> list_ex (\<lambda>label. \<not> domain_label_ok label) (split_on CHR ''.'' domain)
         then Inl PolicyInvalidDns
         else Inr domain)"

section \<open>Validation\<close>

fun routes_loop :: "'x policy_ops_scheme \<Rightarrow> string list \<Rightarrow> policy_route list \<Rightarrow> policy_error + unit" where
  "routes_loop X prefixes [] = Inr ()"
| "routes_loop X prefixes (r # rs) =
     rbind (parse_route X (prt_prefix r)) (\<lambda>prefix.
       if show_ip_net X prefix \<noteq> prt_prefix r then Inl PolicyInvalidRoute
       else if prt_prefix r \<in> set prefixes then Inl PolicyAmbiguousRoute
       else routes_loop X (prt_prefix r # prefixes) rs)"

fun domains_loop :: "string list \<Rightarrow> string list \<Rightarrow> policy_error + unit" where
  "domains_loop domains [] = Inr ()"
| "domains_loop domains (d # ds) =
     (if normalize_domain d \<noteq> Inr d \<or> d \<in> set domains then Inl PolicyInvalidDns
      else domains_loop (d # domains) ds)"

fun dns_server_bad :: "ip_addr \<Rightarrow> bool" where
  "dns_server_bad (V4 a) = (ip_is_unspecified (V4 a) \<or> ip_is_multicast (V4 a) \<or> a = ipv4_broadcast)"
| "dns_server_bad (V6 a) = (ip_is_unspecified (V6 a) \<or> ip_is_multicast (V6 a))"

definition validate_normalized_policy ::
  "'x policy_ops_scheme \<Rightarrow> policy_route list \<Rightarrow> dns_policy \<Rightarrow> policy_error + unit" where
  "validate_normalized_policy X routes dns =
     (if length routes > MAX_ROUTES then Inl PolicyInvalidRoute
      else rbind (routes_loop X [] routes) (\<lambda>_.
        if length (dns_servers dns) > MAX_DNS_SERVERS
           \<or> length (dns_search_domains dns) > MAX_SEARCH_DOMAINS
           \<or> (dns_search_domains dns \<noteq> [] \<and> dns_servers dns = [])
           \<or> \<not> distinct (dns_servers dns)
        then Inl PolicyInvalidDns
        else if list_ex dns_server_bad (dns_servers dns) then Inl PolicyInvalidDns
        else domains_loop [] (dns_search_domains dns)))"

fun exit_nodes_loop :: "device_id list \<Rightarrow> exit_node list \<Rightarrow> policy_error + unit" where
  "exit_nodes_loop devices [] = Inr ()"
| "exit_nodes_loop devices (e # es) =
     (let device_id = mcl_device_id (mc_claims (en_gateway_certificate e))
      in if (\<not> en_supports_ipv4 e \<and> \<not> en_supports_ipv6 e) \<or> device_id \<in> set devices
         then Inl PolicyInvalidExitNode
         else exit_nodes_loop (device_id # devices) es)"

definition validate_exit_nodes :: "exit_node list \<Rightarrow> policy_error + unit" where
  "validate_exit_nodes exit_nodes =
     (if length exit_nodes > MAX_EXIT_NODES then Inl PolicyInvalidExitNode
      else exit_nodes_loop [] exit_nodes)"

definition normalize_policy ::
  "'x policy_ops_scheme \<Rightarrow> policy_route list \<Rightarrow> dns_policy
     \<Rightarrow> policy_error + (policy_route list \<times> dns_policy)" where
  "normalize_policy X routes dns =
     rbind (try_map (\<lambda>r. rbind (parse_route X (prt_prefix r)) (\<lambda>prefix.
              Inr (r\<lparr>prt_prefix := show_ip_net X prefix\<rparr>))) routes) (\<lambda>routes.
       let routes = sort_key prt_prefix routes;
           servers = remdups_adj (sort (dns_servers dns))
       in rbind (try_map normalize_domain (dns_search_domains dns)) (\<lambda>domains.
            let dns = \<lparr>dns_servers = servers, dns_search_domains = remdups_adj (sort domains)\<rparr>
            in rbind (validate_normalized_policy X routes dns) (\<lambda>_. Inr (routes, dns))))"

definition normalize_exit_nodes :: "exit_node list \<Rightarrow> policy_error + exit_node list" where
  "normalize_exit_nodes exit_nodes =
     (let exit_nodes = sort_key (\<lambda>e. mcl_device_id (mc_claims (en_gateway_certificate e))) exit_nodes
      in rbind (validate_exit_nodes exit_nodes) (\<lambda>_. Inr exit_nodes))"

definition encoded_policy_payload :: "'x policy_ops_scheme \<Rightarrow> network_policy_manifest \<Rightarrow> policy_error + bytes" where
  "encoded_policy_payload X m =
     (let v1 = \<lparr>pol_version = npm_version m, pol_network_id = npm_network_id m,
            pol_policy_epoch = npm_policy_epoch m, pol_routes = npm_routes m, pol_dns = npm_dns m,
            pol_issued_at_unix_seconds = npm_issued_at_unix_seconds m,
            pol_expires_at_unix_seconds = npm_expires_at_unix_seconds m,
            pol_controller_public_key = npm_controller_public_key m\<rparr>
      in if npm_version m = NETWORK_POLICY_MANIFEST_VERSION_V1 \<and> npm_exit_nodes m = []
         then ok_or PolicyEncodingFailed (json_policy_v1 X v1)
         else if npm_version m = NETWORK_POLICY_MANIFEST_VERSION
         then ok_or PolicyEncodingFailed (json_policy_v2 X
                (policy_payload_v1.extend v1 \<lparr>pol_exit_nodes = npm_exit_nodes m\<rparr>))
         else Inl PolicyUnsupportedVersion)"

section \<open>Signing and verifying\<close>

definition policy_sign_with_exit_nodes ::
  "'x policy_ops_scheme \<Rightarrow> network_id \<Rightarrow> u64 \<Rightarrow> policy_route list \<Rightarrow> exit_node list \<Rightarrow> dns_policy \<Rightarrow> u64 \<Rightarrow> u64
     \<Rightarrow> bytes \<Rightarrow> policy_error + network_policy_manifest" where
  "policy_sign_with_exit_nodes X network_id policy_epoch routes exit_nodes dns issued_at expires_at
       signing_key =
     (if policy_epoch = 0 then Inl PolicyRollback
      else rbind (normalize_policy X routes dns) (\<lambda>(routes, dns).
           rbind (normalize_exit_nodes exit_nodes) (\<lambda>exit_nodes.
             let version = (if exit_nodes = [] then NETWORK_POLICY_MANIFEST_VERSION_V1
                            else NETWORK_POLICY_MANIFEST_VERSION);
                 m = \<lparr>npm_version = version, npm_network_id = network_id, npm_policy_epoch = policy_epoch,
                   npm_routes = routes, npm_exit_nodes = exit_nodes, npm_dns = dns,
                   npm_issued_at_unix_seconds = issued_at, npm_expires_at_unix_seconds = expires_at,
                   npm_controller_public_key = verifying_key X signing_key, npm_signature = []\<rparr>
             in rbind (encoded_policy_payload X m) (\<lambda>payload.
                  Inr (m\<lparr>npm_signature := ed_sign X signing_key payload\<rparr>)))))"

definition policy_sign ::
  "'x policy_ops_scheme \<Rightarrow> network_id \<Rightarrow> u64 \<Rightarrow> policy_route list \<Rightarrow> dns_policy \<Rightarrow> u64 \<Rightarrow> u64
     \<Rightarrow> bytes \<Rightarrow> policy_error + network_policy_manifest" where
  "policy_sign X network_id policy_epoch routes dns issued_at expires_at signing_key =
     policy_sign_with_exit_nodes X network_id policy_epoch routes [] dns issued_at expires_at signing_key"

definition policy_check_route ::
  "'x policy_ops_scheme \<Rightarrow> network_id \<Rightarrow> bytes \<Rightarrow> network_authorization_manifest \<Rightarrow> u64 \<Rightarrow> policy_route
     \<Rightarrow> policy_error + unit" where
  "policy_check_route X network_id key authorization now route =
     (let c = prt_gateway_certificate route
      in rbind (map_err (\<lambda>_. PolicyUnauthorizedGateway) (certificate_verify_from_controller X c key now)) (\<lambda>_.
           if mcl_network_id (mc_claims c) \<noteq> network_id
              \<or> \<not> authorizes authorization c
              \<or> \<not> list_ex (\<lambda>allowed. prefix_covers X allowed (prt_prefix route))
                    (mcl_allowed_routes (mc_claims c))
           then Inl PolicyUnauthorizedGateway
           else Inr ()))"

definition policy_check_exit_node ::
  "'x policy_ops_scheme \<Rightarrow> network_id \<Rightarrow> bytes \<Rightarrow> network_authorization_manifest \<Rightarrow> u64 \<Rightarrow> exit_node
     \<Rightarrow> policy_error + unit" where
  "policy_check_exit_node X network_id key authorization now node =
     (let c = en_gateway_certificate node
      in rbind (map_err (\<lambda>_. PolicyInvalidExitNode) (certificate_verify_from_controller X c key now)) (\<lambda>_.
           if mcl_network_id (mc_claims c) \<noteq> network_id \<or> \<not> authorizes authorization c
           then Inl PolicyInvalidExitNode
           else Inr ()))"

definition policy_verify_for_network ::
  "'x policy_ops_scheme \<Rightarrow> network_policy_manifest \<Rightarrow> network_id \<Rightarrow> bytes \<Rightarrow> network_authorization_manifest
     \<Rightarrow> u64 \<Rightarrow> u64 option \<Rightarrow> policy_error + unit" where
  "policy_verify_for_network X m network_id key authorization now previous_policy_epoch =
     (if npm_version m \<notin> {NETWORK_POLICY_MANIFEST_VERSION_V1, NETWORK_POLICY_MANIFEST_VERSION}
      then Inl PolicyUnsupportedVersion
      else if npm_controller_public_key m \<noteq> key then Inl PolicyUntrustedController
      else if npm_network_id m \<noteq> network_id \<or> nam_network_id authorization \<noteq> network_id
      then Inl PolicyCrossNetwork
      else if npm_policy_epoch m = 0 then Inl PolicyRollback
      else
        rbind (map_err (\<lambda>_. PolicyUnauthorizedGateway)
          (authorization_verify_from_controller X authorization key now)) (\<lambda>_.
        if (case previous_policy_epoch of None \<Rightarrow> False | Some epoch \<Rightarrow> npm_policy_epoch m \<le> epoch)
        then Inl PolicyRollback
        else if now > npm_expires_at_unix_seconds m
                \<or> npm_issued_at_unix_seconds m > saturating_add now 120
                \<or> npm_expires_at_unix_seconds m \<le> npm_issued_at_unix_seconds m
        then Inl PolicyExpired
        else
          rbind (validate_normalized_policy X (npm_routes m) (npm_dns m)) (\<lambda>_.
          rbind (validate_exit_nodes (npm_exit_nodes m)) (\<lambda>_.
          if npm_version m = NETWORK_POLICY_MANIFEST_VERSION_V1 \<and> npm_exit_nodes m \<noteq> []
          then Inl PolicyUnsupportedVersion
          else if length (npm_controller_public_key m) \<noteq> 32 then Inl PolicyInvalidSignature
          else if length (npm_signature m) \<noteq> 64 then Inl PolicyInvalidSignature
          else
            rbind (encoded_policy_payload X m) (\<lambda>encoded.
            if \<not> ed_key_ok X (npm_controller_public_key m) then Inl PolicyInvalidSignature
            else if \<not> ed_verify X (npm_controller_public_key m) encoded (npm_signature m)
            then Inl PolicyInvalidSignature
            else
              rbind (for_each (policy_check_route X network_id key authorization now) (npm_routes m)) (\<lambda>_.
                for_each (policy_check_exit_node X network_id key authorization now)
                  (npm_exit_nodes m)))))))"

section \<open>Lookups\<close>

text \<open>\<^verbatim>\<open>max_by_key\<close>: of several maximal elements the last one is returned.\<close>

fun max_by_key :: "('a \<Rightarrow> nat) \<Rightarrow> 'a list \<Rightarrow> 'a option" where
  "max_by_key f [] = None"
| "max_by_key f (x # xs) =
     (case max_by_key f xs of None \<Rightarrow> Some x | Some y \<Rightarrow> if f y \<ge> f x then Some y else Some x)"

definition gateway_for :: "'x policy_ops_scheme \<Rightarrow> network_policy_manifest \<Rightarrow> ip_addr \<Rightarrow> device_id option" where
  "gateway_for X m destination =
     map_option snd (max_by_key fst (List.map_filter (\<lambda>route.
       case parse_ip_net X (prt_prefix route) of
         None \<Rightarrow> None
       | Some prefix \<Rightarrow>
           if net_contains X prefix destination
           then Some (net_prefix_len prefix, mcl_device_id (mc_claims (prt_gateway_certificate route)))
           else None) (npm_routes m)))"

definition exit_node_supports :: "network_policy_manifest \<Rightarrow> device_id \<Rightarrow> ip_addr \<Rightarrow> bool" where
  "exit_node_supports m device_id destination =
     list_ex (\<lambda>e. mcl_device_id (mc_claims (en_gateway_certificate e)) = device_id
        \<and> (case destination of V4 _ \<Rightarrow> en_supports_ipv4 e | V6 _ \<Rightarrow> en_supports_ipv6 e))
       (npm_exit_nodes m)"

section \<open>Prefix containment\<close>

text \<open>
  What \<^verbatim>\<open>ipnet\<close> documents: an address is in a prefix when it agrees with it on the leading bits, the network
  address of a prefix lies in it, and a parsed length does not exceed the address width.
\<close>

definition ipnet_laws :: "'x policy_ops_scheme \<Rightarrow> bool" where
  "ipnet_laws X \<longleftrightarrow>
     (\<forall>n a. n4_prefix_len n \<le> 32 \<longrightarrow>
        net4_contains X n a = (drop_bit (32 - n4_prefix_len n) a = drop_bit (32 - n4_prefix_len n) (n4_addr n)))
     \<and> (\<forall>n. n4_prefix_len n \<le> 32 \<longrightarrow> net4_contains X n (net4_network X n))
     \<and> (\<forall>n a. n6_prefix_len n \<le> 128 \<longrightarrow>
        net6_contains X n a = (drop_bit (128 - n6_prefix_len n) a = drop_bit (128 - n6_prefix_len n) (n6_addr n)))
     \<and> (\<forall>n. n6_prefix_len n \<le> 128 \<longrightarrow> net6_contains X n (net6_network X n))
     \<and> (\<forall>s n. parse_ip_net X s = Some (Net4 n) \<longrightarrow> n4_prefix_len n \<le> 32)
     \<and> (\<forall>s n. parse_ip_net X s = Some (Net6 n) \<longrightarrow> n6_prefix_len n \<le> 128)"

lemma ipnet_lawsD:
  fixes n :: ipv4_net and k :: ipv6_net
  assumes "ipnet_laws X"
  shows "n4_prefix_len n \<le> 32 \<Longrightarrow>
      net4_contains X n a \<longleftrightarrow> drop_bit (32 - n4_prefix_len n) a = drop_bit (32 - n4_prefix_len n) (n4_addr n)"
    and "n4_prefix_len n \<le> 32 \<Longrightarrow> net4_contains X n (net4_network X n)"
    and "n6_prefix_len k \<le> 128 \<Longrightarrow>
      net6_contains X k b \<longleftrightarrow> drop_bit (128 - n6_prefix_len k) b = drop_bit (128 - n6_prefix_len k) (n6_addr k)"
    and "n6_prefix_len k \<le> 128 \<Longrightarrow> net6_contains X k (net6_network X k)"
  using assms unfolding ipnet_laws_def by blast+

text \<open>Agreement on more leading bits implies agreement on fewer.\<close>

lemma drop_bit_coarser:
  fixes x y :: "'a::len word"
  assumes "drop_bit (w - m) x = drop_bit (w - m) y" and "k \<le> m" and "m \<le> w"
  shows "drop_bit (w - k) x = drop_bit (w - k) y"
proof -
  have split: "drop_bit (w - k) z = drop_bit (m - k) (drop_bit (w - m) z)" for z :: "'a word"
    using assms(2,3) by (simp add: drop_bit_drop_bit)
  show ?thesis by (simp only: split [of x] split [of y] assms(1))
qed

lemma prefix_covers_sound:
  assumes "ipnet_laws X" and "prefix_covers X allowed target"
  shows "\<exists>a t. parse_ip_net X allowed = Some a \<and> parse_ip_net X target = Some t
    \<and> (\<forall>d. net_contains X t d \<longrightarrow> net_contains X a d)"
proof -
  consider (v4) a t where "parse_ip_net X allowed = Some (Net4 a)" "parse_ip_net X target = Some (Net4 t)"
      "n4_prefix_len a \<le> n4_prefix_len t" "net4_contains X a (net4_network X t)"
    | (v6) a t where "parse_ip_net X allowed = Some (Net6 a)" "parse_ip_net X target = Some (Net6 t)"
      "n6_prefix_len a \<le> n6_prefix_len t" "net6_contains X a (net6_network X t)"
    using assms(2)
    by (cases "parse_ip_net X allowed"; cases "parse_ip_net X target"; cases "the (parse_ip_net X allowed)";
        cases "the (parse_ip_net X target)") (simp_all add: prefix_covers_def)
  then show ?thesis
  proof cases
    case v4
    then have len: "n4_prefix_len a \<le> 32" "n4_prefix_len t \<le> 32" using assms(1) by (auto simp: ipnet_laws_def)
    have "net4_contains X a d" if "net4_contains X t d" for d
    proof -
      have "drop_bit (32 - n4_prefix_len t) d = drop_bit (32 - n4_prefix_len t) (net4_network X t)"
        using that ipnet_lawsD(1,2) [OF assms(1) len(2)] by metis
      from drop_bit_coarser [OF this v4(3) len(2)] show ?thesis
        using v4(4) ipnet_lawsD(1) [OF assms(1) len(1)] by metis
    qed
    then have "\<forall>d. net_contains X (Net4 t) d \<longrightarrow> net_contains X (Net4 a) d"
      by (auto elim!: net_contains.elims)
    with v4 show ?thesis by blast
  next
    case v6
    then have len: "n6_prefix_len a \<le> 128" "n6_prefix_len t \<le> 128" using assms(1) by (auto simp: ipnet_laws_def)
    have "net6_contains X a d" if "net6_contains X t d" for d
    proof -
      have "drop_bit (128 - n6_prefix_len t) d = drop_bit (128 - n6_prefix_len t) (net6_network X t)"
        using that ipnet_lawsD(3,4) [OF assms(1) len(2)] by metis
      from drop_bit_coarser [OF this v6(3) len(2)] show ?thesis
        using v6(4) ipnet_lawsD(3) [OF assms(1) len(1)] by metis
    qed
    then have "\<forall>d. net_contains X (Net6 t) d \<longrightarrow> net_contains X (Net6 a) d"
      by (auto elim!: net_contains.elims)
    with v6 show ?thesis by blast
  qed
qed

section \<open>Longest-prefix lookup\<close>

lemma max_by_key_Some: "max_by_key f xs = Some y \<Longrightarrow> y \<in> set xs \<and> (\<forall>x \<in> set xs. f x \<le> f y)"
proof (induction xs arbitrary: y)
  case Nil
  then show ?case by simp
next
  case (Cons x xs)
  show ?case
  proof (cases "max_by_key f xs")
    case None
    then have "xs = []" by (cases xs) (auto split: option.splits if_splits)
    with Cons.prems show ?thesis by simp
  next
    case (Some z)
    from Cons.IH [OF Some] Cons.prems Some show ?thesis by (auto split: if_splits)
  qed
qed

lemma max_by_key_None: "max_by_key f xs = None \<longleftrightarrow> xs = []"
  by (cases xs) (auto split: option.splits)

definition route_matches :: "'x policy_ops_scheme \<Rightarrow> ip_addr \<Rightarrow> policy_route \<Rightarrow> ip_net \<Rightarrow> bool" where
  "route_matches X d r p \<longleftrightarrow> parse_ip_net X (prt_prefix r) = Some p \<and> net_contains X p d"

lemma gateway_candidates:
  "(l, g) \<in> set (List.map_filter (\<lambda>route.
       case parse_ip_net X (prt_prefix route) of
         None \<Rightarrow> None
       | Some prefix \<Rightarrow>
           if net_contains X prefix d
           then Some (net_prefix_len prefix, mcl_device_id (mc_claims (prt_gateway_certificate route)))
           else None) rs)
   \<longleftrightarrow> (\<exists>r \<in> set rs. \<exists>p. route_matches X d r p \<and> l = net_prefix_len p
         \<and> g = mcl_device_id (mc_claims (prt_gateway_certificate r)))"
  by (induction rs) (auto simp: map_filter_simps route_matches_def split: option.splits)

lemma gateway_for_SomeD:
  assumes "gateway_for X m d = Some g"
  shows "\<exists>r \<in> set (npm_routes m). \<exists>p. route_matches X d r p
    \<and> g = mcl_device_id (mc_claims (prt_gateway_certificate r))
    \<and> (\<forall>r' \<in> set (npm_routes m). \<forall>p'. route_matches X d r' p' \<longrightarrow> net_prefix_len p' \<le> net_prefix_len p)"
proof -
  obtain l where best: "max_by_key fst (List.map_filter (\<lambda>route.
       case parse_ip_net X (prt_prefix route) of
         None \<Rightarrow> None
       | Some prefix \<Rightarrow>
           if net_contains X prefix d
           then Some (net_prefix_len prefix, mcl_device_id (mc_claims (prt_gateway_certificate route)))
           else None) (npm_routes m)) = Some (l, g)"
    using assms by (auto simp: gateway_for_def)
  note facts = max_by_key_Some [OF best]
  from facts have "(l, g) \<in> set (List.map_filter (\<lambda>route.
       case parse_ip_net X (prt_prefix route) of
         None \<Rightarrow> None
       | Some prefix \<Rightarrow>
           if net_contains X prefix d
           then Some (net_prefix_len prefix, mcl_device_id (mc_claims (prt_gateway_certificate route)))
           else None) (npm_routes m))" by blast
  then obtain r p where rp: "r \<in> set (npm_routes m)" "route_matches X d r p" "l = net_prefix_len p"
    "g = mcl_device_id (mc_claims (prt_gateway_certificate r))"
    by (auto simp: gateway_candidates)
  have "net_prefix_len p' \<le> net_prefix_len p"
    if "r' \<in> set (npm_routes m)" "route_matches X d r' p'" for r' p'
    using facts that rp(3) gateway_candidates [of "net_prefix_len p'"
        "mcl_device_id (mc_claims (prt_gateway_certificate r'))" X d "npm_routes m"]
    by fastforce
  with rp show ?thesis by blast
qed

section \<open>What an accepted policy shows\<close>

lemma policy_check_route_Inr_iff:
  "policy_check_route X n key auth now r = Inr () \<longleftrightarrow>
     certificate_verify_from_controller X (prt_gateway_certificate r) key now = Inr ()
     \<and> mcl_network_id (mc_claims (prt_gateway_certificate r)) = n
     \<and> authorizes auth (prt_gateway_certificate r)
     \<and> list_ex (\<lambda>allowed. prefix_covers X allowed (prt_prefix r))
          (mcl_allowed_routes (mc_claims (prt_gateway_certificate r)))"
  by (auto simp: policy_check_route_def Let_def)

lemma policy_check_exit_node_Inr_iff:
  "policy_check_exit_node X n key auth now e = Inr () \<longleftrightarrow>
     certificate_verify_from_controller X (en_gateway_certificate e) key now = Inr ()
     \<and> mcl_network_id (mc_claims (en_gateway_certificate e)) = n
     \<and> authorizes auth (en_gateway_certificate e)"
  by (auto simp: policy_check_exit_node_def Let_def)

lemma policy_verify_Inr_iff:
  "policy_verify_for_network X m n key auth now prev = Inr () \<longleftrightarrow>
     npm_version m \<in> {NETWORK_POLICY_MANIFEST_VERSION_V1, NETWORK_POLICY_MANIFEST_VERSION}
     \<and> npm_controller_public_key m = key \<and> npm_network_id m = n \<and> nam_network_id auth = n
     \<and> npm_policy_epoch m \<noteq> 0
     \<and> authorization_verify_from_controller X auth key now = Inr ()
     \<and> (case prev of None \<Rightarrow> True | Some e \<Rightarrow> e < npm_policy_epoch m)
     \<and> now \<le> npm_expires_at_unix_seconds m \<and> npm_issued_at_unix_seconds m \<le> saturating_add now 120
     \<and> npm_issued_at_unix_seconds m < npm_expires_at_unix_seconds m
     \<and> validate_normalized_policy X (npm_routes m) (npm_dns m) = Inr ()
     \<and> validate_exit_nodes (npm_exit_nodes m) = Inr ()
     \<and> (npm_version m = NETWORK_POLICY_MANIFEST_VERSION_V1 \<longrightarrow> npm_exit_nodes m = [])
     \<and> length key = 32 \<and> length (npm_signature m) = 64 \<and> ed_key_ok X key
     \<and> (\<exists>e. encoded_policy_payload X m = Inr e \<and> ed_verify X key e (npm_signature m))
     \<and> list_all (\<lambda>r. policy_check_route X n key auth now r = Inr ()) (npm_routes m)
     \<and> list_all (\<lambda>e. policy_check_exit_node X n key auth now e = Inr ()) (npm_exit_nodes m)"
  unfolding policy_verify_for_network_def rbind_Inr_iff if_Inl_eq_Inr for_each_Inr_iff map_err_Inr_iff
  by (cases prev) (auto simp: not_less not_le list_all_iff)

interpretation policy_doc: signed_document X
    "\<lambda>m. case encoded_policy_payload X m of Inl _ \<Rightarrow> None | Inr e \<Rightarrow> Some e" npm_signature
    "\<lambda>key (n, auth, now, prev) m. policy_verify_for_network X m n key auth now prev = Inr ()"
  for X :: "'x policy_ops_scheme"
  by unfold_locales (auto simp: policy_verify_Inr_iff)

text \<open>
  Under an accepted policy, the gateway chosen for a destination is an active, unrevoked member of the
  network with a certificate the controller's key verifies, and the certificate allows a prefix that
  contains the destination; no matching route of the policy is longer than the one it was chosen for.
\<close>

theorem gateway_is_authorized:
  assumes "ipnet_laws X"
    and "policy_verify_for_network X m n key auth now prev = Inr ()"
    and "gateway_for X m d = Some g"
  shows "\<exists>c allowed a l. mcl_device_id (mc_claims c) = g \<and> mcl_network_id (mc_claims c) = n
    \<and> certificate_verify_from_controller X c key now = Inr () \<and> authorizes auth c
    \<and> allowed \<in> set (mcl_allowed_routes (mc_claims c)) \<and> parse_ip_net X allowed = Some a
    \<and> net_contains X a d
    \<and> (\<forall>r \<in> set (npm_routes m). \<forall>p. route_matches X d r p \<longrightarrow> net_prefix_len p \<le> l)
    \<and> (\<exists>r \<in> set (npm_routes m). \<exists>p. route_matches X d r p \<and> net_prefix_len p = l
          \<and> prt_gateway_certificate r = c)"
proof -
  obtain r p where r: "r \<in> set (npm_routes m)" "route_matches X d r p"
    "g = mcl_device_id (mc_claims (prt_gateway_certificate r))"
    and longest: "\<forall>r' \<in> set (npm_routes m). \<forall>p'. route_matches X d r' p' \<longrightarrow> net_prefix_len p' \<le> net_prefix_len p"
    using gateway_for_SomeD [OF assms(3)] by blast
  have "policy_check_route X n key auth now r = Inr ()"
    using assms(2) r(1) by (auto simp: policy_verify_Inr_iff list_all_iff)
  then obtain allowed where c: "certificate_verify_from_controller X (prt_gateway_certificate r) key now = Inr ()"
    "mcl_network_id (mc_claims (prt_gateway_certificate r)) = n" "authorizes auth (prt_gateway_certificate r)"
    "allowed \<in> set (mcl_allowed_routes (mc_claims (prt_gateway_certificate r)))"
    and covers: "prefix_covers X allowed (prt_prefix r)"
    by (auto simp: policy_check_route_Inr_iff list_ex_iff)
  obtain a where "parse_ip_net X allowed = Some a" "net_contains X a d"
    using prefix_covers_sound [OF assms(1) covers] r(2) by (auto simp: route_matches_def)
  with r c longest show ?thesis
    by (intro exI [of _ "prt_gateway_certificate r"] exI [of _ allowed] exI [of _ a]
        exI [of _ "net_prefix_len p"]) blast
qed

text \<open>
  A policy replaces another only with a strictly larger epoch: it is refused when its epoch does not
  exceed the previous one, when it has expired or was issued more than two minutes ahead, when it or
  the authorization is for another network, or when the signing key is not the pinned one.
\<close>

theorem policy_refusals:
  assumes "(\<exists>e. prev = Some e \<and> npm_policy_epoch m \<le> e) \<or> npm_policy_epoch m = 0
      \<or> now > npm_expires_at_unix_seconds m \<or> npm_issued_at_unix_seconds m > saturating_add now 120
      \<or> npm_network_id m \<noteq> n \<or> nam_network_id auth \<noteq> n \<or> npm_controller_public_key m \<noteq> key"
  shows "\<exists>e. policy_verify_for_network X m n key auth now prev = Inl e"
proof (cases "policy_verify_for_network X m n key auth now prev")
  case (Inr u)
  then have "policy_verify_for_network X m n key auth now prev = Inr ()" by simp
  then show ?thesis using assms unfolding policy_verify_Inr_iff by (auto split: option.splits)
qed simp

section \<open>Signed policies verify\<close>

lemma encoded_policy_payload_signature [simp]:
  "encoded_policy_payload X (m\<lparr>npm_signature := s\<rparr>) = encoded_policy_payload X m"
  by (simp add: encoded_policy_payload_def Let_def)

lemma normalize_policy_valid:
  "normalize_policy X routes dns = Inr (r, d) \<Longrightarrow> validate_normalized_policy X r d = Inr ()"
  by (auto simp: normalize_policy_def Let_def)

lemma normalize_exit_nodes_valid:
  "normalize_exit_nodes es = Inr e \<Longrightarrow> validate_exit_nodes e = Inr () \<and> set e = set es"
  by (auto simp: normalize_exit_nodes_def Let_def)

lemma policy_signE:
  assumes "policy_sign_with_exit_nodes X n epoch routes exits dns issued expires sk = Inr m"
  obtains e where "epoch \<noteq> 0" and "npm_policy_epoch m = epoch" and "npm_network_id m = n"
    and "npm_controller_public_key m = verifying_key X sk"
    and "npm_issued_at_unix_seconds m = issued" and "npm_expires_at_unix_seconds m = expires"
    and "npm_version m = (if npm_exit_nodes m = [] then NETWORK_POLICY_MANIFEST_VERSION_V1
           else NETWORK_POLICY_MANIFEST_VERSION)"
    and "validate_normalized_policy X (npm_routes m) (npm_dns m) = Inr ()"
    and "validate_exit_nodes (npm_exit_nodes m) = Inr ()" and "set (npm_exit_nodes m) = set exits"
    and "encoded_policy_payload X m = Inr e" and "npm_signature m = ed_sign X sk e"
proof -
  obtain r d es where norm: "normalize_policy X routes dns = Inr (r, d)"
    and ex: "normalize_exit_nodes exits = Inr es" and nz: "epoch \<noteq> 0"
    using assms by (auto simp: policy_sign_with_exit_nodes_def Let_def split: if_splits prod.splits)
  define m0 where "m0 = \<lparr>npm_version = (if es = [] then NETWORK_POLICY_MANIFEST_VERSION_V1
        else NETWORK_POLICY_MANIFEST_VERSION), npm_network_id = n, npm_policy_epoch = epoch,
      npm_routes = r, npm_exit_nodes = es, npm_dns = d, npm_issued_at_unix_seconds = issued,
      npm_expires_at_unix_seconds = expires, npm_controller_public_key = verifying_key X sk,
      npm_signature = []\<rparr>"
  obtain e where e: "encoded_policy_payload X m0 = Inr e" and m: "m = m0\<lparr>npm_signature := ed_sign X sk e\<rparr>"
    using assms norm ex nz unfolding policy_sign_with_exit_nodes_def m0_def Let_def
    by auto
  show thesis
    using normalize_policy_valid [OF norm] normalize_exit_nodes_valid [OF ex] nz e
    by (intro that [of e]) (simp_all add: m, simp_all add: m0_def)
qed

text \<open>
  The policy the controller signs is accepted by every member during its validity, as long as the
  authorization manifest verifies, the epoch is larger than the applied one, and the gateways named in it are
  active members whose certificates allow their prefixes.
\<close>

theorem signed_policy_verifies:
  assumes "ed_correct X" and "length sk = 32"
    and "policy_sign_with_exit_nodes X n epoch routes exits dns issued expires sk = Inr m"
    and "authorization_verify_from_controller X auth (verifying_key X sk) now = Inr ()"
    and "nam_network_id auth = n" and "case prev of None \<Rightarrow> True | Some e \<Rightarrow> e < epoch"
    and "now \<le> expires" and "issued \<le> saturating_add now 120" and "issued < expires"
    and "\<forall>r \<in> set (npm_routes m). policy_check_route X n (verifying_key X sk) auth now r = Inr ()"
    and "\<forall>e \<in> set exits. policy_check_exit_node X n (verifying_key X sk) auth now e = Inr ()"
  shows "policy_verify_for_network X m n (verifying_key X sk) auth now prev = Inr ()"
  using assms(3)
proof (elim policy_signE)
  fix e
  assume f: "epoch \<noteq> 0" "npm_policy_epoch m = epoch" "npm_network_id m = n"
    "npm_controller_public_key m = verifying_key X sk" "npm_issued_at_unix_seconds m = issued"
    "npm_expires_at_unix_seconds m = expires"
    "npm_version m = (if npm_exit_nodes m = [] then NETWORK_POLICY_MANIFEST_VERSION_V1
       else NETWORK_POLICY_MANIFEST_VERSION)"
    "validate_normalized_policy X (npm_routes m) (npm_dns m) = Inr ()"
    "validate_exit_nodes (npm_exit_nodes m) = Inr ()" "set (npm_exit_nodes m) = set exits"
    "encoded_policy_payload X m = Inr e" "npm_signature m = ed_sign X sk e"
  have "npm_version m = NETWORK_POLICY_MANIFEST_VERSION_V1 \<longrightarrow> npm_exit_nodes m = []"
    using f(7) by (simp add: NETWORK_POLICY_MANIFEST_VERSION_V1_def NETWORK_POLICY_MANIFEST_VERSION_def
        split: if_splits)
  moreover have "npm_version m \<in> {NETWORK_POLICY_MANIFEST_VERSION_V1, NETWORK_POLICY_MANIFEST_VERSION}"
    using f(7) by (simp split: if_splits)
  moreover have "list_all (\<lambda>e. policy_check_exit_node X n (verifying_key X sk) auth now e = Inr ()) (npm_exit_nodes m)"
    "list_all (\<lambda>r. policy_check_route X n (verifying_key X sk) auth now r = Inr ()) (npm_routes m)"
    using assms(10,11) f(10) by (simp_all only: list_all_iff)
  moreover note ed_correctD [OF assms(1,2)]
  ultimately show ?thesis
    unfolding policy_verify_Inr_iff
    using assms(4-9) f(1) by (simp only: f(2-6,8,9,11,12) simp_thms sum.inject ex_simps)
qed

section \<open>Search domains\<close>

lemma split_on_not_Nil [simp]: "split_on c s \<noteq> []"
  by (cases s) (auto split: list.splits)

lemma split_on_chars:
  assumes "list_all domain_label_ok (split_on CHR ''.'' s)"
  shows "list_all (\<lambda>c. is_ascii_alphanumeric c \<or> c = CHR ''-'' \<or> c = CHR ''.'') s"
  using assms
proof (induction s)
  case Nil
  then show ?case by simp
next
  case (Cons x s)
  have weak: "list_all (\<lambda>c. is_ascii_alphanumeric c \<or> c = CHR ''-'') (concat (split_on CHR ''.'' t))
    \<Longrightarrow> list_all (\<lambda>c. is_ascii_alphanumeric c \<or> c = CHR ''-'' \<or> c = CHR ''.'') t" for t
    by (induction t) (auto split: list.splits if_splits)
  have "list_all (\<lambda>c. is_ascii_alphanumeric c \<or> c = CHR ''-'') (concat (split_on CHR ''.'' (x # s)))"
    using Cons.prems by (auto simp: list_all_iff domain_label_ok_def)
  from weak [OF this] show ?case .
qed

definition domain_char :: "char \<Rightarrow> bool" where
  "domain_char c \<longleftrightarrow> is_ascii_alphanumeric c \<or> c = CHR ''-'' \<or> c = CHR ''.''"

lemma whitespace_no_domain_char:
  "list_all (\<lambda>w. \<not> domain_char (hd w) \<and> \<not> domain_char (last w)) whitespace"
  by code_simp

lemma strip_all_id:
  assumes "\<And>w. w \<in> set ws \<Longrightarrow> w \<noteq> [] \<Longrightarrow> hd w \<notin> set s"
  shows "strip_all ws s = s"
proof -
  have "find (\<lambda>w. w \<noteq> [] \<and> take (length w) s = w) ws = None"
    unfolding find_None_iff
  proof
    assume "\<exists>w. w \<in> set ws \<and> w \<noteq> [] \<and> take (length w) s = w"
    then obtain w where w: "w \<in> set ws" "w \<noteq> []" "take (length w) s = w" by blast
    then have "hd w \<in> set s" by (metis hd_in_set in_set_takeD)
    with assms w show False by blast
  qed
  then show ?thesis by (subst strip_all.simps) simp
qed

lemma trim_domain_id:
  assumes "list_all domain_char s"
  shows "trim s = s"
proof -
  have no: "\<not> domain_char (hd w)" "\<not> domain_char (last w)" if "w \<in> set whitespace" for w
    using whitespace_no_domain_char that by (auto simp: list_all_iff)
  have "strip_all whitespace s = s"
    using assms no by (intro strip_all_id) (auto simp: list_all_iff)
  moreover have "strip_all (map rev whitespace) (rev s) = rev s"
    using assms no by (intro strip_all_id) (fastforce simp: list_all_iff hd_rev)
  ultimately show ?thesis by (simp add: trim_def)
qed

lemma last_split_on: "s \<noteq> [] \<Longrightarrow> last s = c \<Longrightarrow> last (split_on c s) = []"
proof (induction s)
  case (Cons x s)
  show ?case
  proof (cases "s = []")
    case False
    with Cons have "last (split_on c s) = []" by simp
    moreover obtain l ls where "split_on c s = l # ls" by (cases "split_on c s") auto
    moreover have "ls \<noteq> []" if "l \<noteq> []" using that calculation by auto
    moreover have "l = [] \<Longrightarrow> ls = [] \<Longrightarrow> False"
    proof -
      assume "l = []" "ls = []"
      with calculation(2) have "split_on c s = [[]]" by simp
      with False show False by (cases s) (auto split: if_splits list.splits)
    qed
    ultimately show ?thesis by (cases "ls = []") auto
  qed (use Cons in auto)
qed simp

lemma to_ascii_lowercase_idem: "to_ascii_lowercase (to_ascii_lowercase c) = to_ascii_lowercase c"
  by (auto simp: to_ascii_lowercase_def Let_def)

text \<open>
  Normalising a search domain is idempotent: the result is a lower-case name of at most 253 bytes made of
  non-empty labels of letters, digits and inner hyphens, and normalising it again returns it. So a manifest whose
  domains were normalised by the signer passes the verifier's test that every domain is its own normal form.
\<close>

theorem normalize_domain_idempotent:
  assumes "normalize_domain raw = Inr d"
  shows "normalize_domain d = Inr d \<and> d \<noteq> [] \<and> length d \<le> 253 \<and> map to_ascii_lowercase d = d
    \<and> list_all domain_label_ok (split_on CHR ''.'' d)"
proof -
  have ok: "d \<noteq> []" "length d \<le> 253" "list_all domain_label_ok (split_on CHR ''.'' d)"
    and d: "d = map to_ascii_lowercase (trim_end_matches CHR ''.'' (trim raw))"
    using assms by (auto simp: normalize_domain_def Let_def list_all_iff list_ex_iff split: if_splits)
  have "list_all domain_char d"
    using split_on_chars [OF ok(3)] by (simp add: list_all_iff domain_char_def)
  then have "trim d = d" by (rule trim_domain_id)
  moreover have "last d \<noteq> CHR ''.''"
  proof
    assume "last d = CHR ''.''"
    then have "last (split_on CHR ''.'' d) = []" using ok(1) by (intro last_split_on)
    moreover have "last (split_on CHR ''.'' d) \<in> set (split_on CHR ''.'' d)" by simp
    ultimately show False using ok(3) by (auto simp: list_all_iff domain_label_ok_def)
  qed
  then have "trim_end_matches CHR ''.'' d = d"
    using ok(1) by (cases d rule: rev_cases) (auto simp: trim_end_matches_def)
  moreover have "map to_ascii_lowercase d = d"
    by (simp add: d to_ascii_lowercase_idem)
  ultimately show ?thesis
    using ok by (simp add: normalize_domain_def list_ex_iff list_all_iff)
qed

section \<open>Instances\<close>

definition sample_parse_net :: "string \<Rightarrow> ip_net option" where
  "sample_parse_net s =
     (if s = ''10.0.0.0/8'' then Some (Net4 \<lparr>n4_addr = 0x0A000000, n4_prefix_len = 8\<rparr>)
      else if s = ''10.1.0.0/16'' then Some (Net4 \<lparr>n4_addr = 0x0A010000, n4_prefix_len = 16\<rparr>)
      else None)"

definition sample_show_net :: "ip_net \<Rightarrow> string" where
  "sample_show_net n = (if net_prefix_len n = 8 then ''10.0.0.0/8'' else ''10.1.0.0/16'')"

definition const_policy :: "prims \<Rightarrow> policy_ops" where
  "const_policy P = planet_ops.extend (const_planet P) (policy_ops.fields sample_parse_net sample_show_net
     (\<lambda>n a. drop_bit (32 - n4_prefix_len n) a = drop_bit (32 - n4_prefix_len n) (n4_addr n)) n4_addr
     (\<lambda>n a. drop_bit (128 - n6_prefix_len n) a = drop_bit (128 - n6_prefix_len n) (n6_addr n)) n6_addr
     (\<lambda>_. Some [21]) (\<lambda>_. Some [22]))"

lemmas const_policy_simps = const_policy_def const_planet_simps policy_ops.defs

lemma const_policy_laws [simp]:
  "ipnet_laws (const_policy P)" "ed_correct (const_policy P) \<longleftrightarrow> ed_correct P"
  by (auto simp: ipnet_laws_def ed_correct_def const_policy_simps sample_parse_net_def)

definition open_prims :: prims where
  "open_prims = sample_prims\<lparr>ed_verify := \<lambda>pk m s. True, ed_sign := \<lambda>k m. replicate 64 0\<rparr>"

lemma open_prims_ed_correct [simp]: "ed_correct open_prims"
  by (simp add: ed_correct_def open_prims_def sample_prims_def)

definition gateway_certificate :: membership_certificate where
  "gateway_certificate = sample_certificate\<lparr>mc_claims := sample_claims\<lparr>mcl_allowed_routes := [''10.0.0.0/8'']\<rparr>\<rparr>"

definition sample_route :: policy_route where
  "sample_route = \<lparr>prt_prefix = ''10.1.0.0/16'', prt_gateway_certificate = gateway_certificate\<rparr>"

definition no_dns :: dns_policy where
  "no_dns = \<lparr>dns_servers = [], dns_search_domains = []\<rparr>"

definition sample_policy :: network_policy_manifest where
  "sample_policy = \<lparr>npm_version = 1, npm_network_id = 5, npm_policy_epoch = 3, npm_routes = [sample_route],
     npm_exit_nodes = [], npm_dns = no_dns, npm_issued_at_unix_seconds = 100,
     npm_expires_at_unix_seconds = 400, npm_controller_public_key = replicate 32 6,
     npm_signature = replicate 64 0\<rparr>"

lemma gateway_certificate_ok:
  "certificate_verify_from_controller (const_policy open_prims) gateway_certificate (replicate 32 6) now = Inr ()"
  "authorizes sample_manifest gateway_certificate"
  by (simp_all add: certificate_verify_Inr_iff certificate_message_def gateway_certificate_def
      sample_certificate_def sample_claims_def authorizes_def sample_manifest_def sample_member_def
      const_policy_simps open_prims_def sample_prims_def)

lemma sample_manifest_ok:
  "authorization_verify_from_controller (const_policy open_prims) sample_manifest (replicate 32 6) 300 = Inr ()"
  by (simp add: authorization_verify_Inr_iff sample_manifest_def AUTHORIZATION_MANIFEST_VERSION_def
      saturating_add_def const_policy_simps open_prims_def sample_prims_def)

lemma sample_route_ok:
  "policy_check_route (const_policy open_prims) 5 (replicate 32 6) sample_manifest now sample_route = Inr ()"
proof -
  have "prefix_covers (const_policy open_prims) ''10.0.0.0/8'' ''10.1.0.0/16''"
    by (simp add: prefix_covers_def const_policy_simps sample_parse_net_def drop_bit_eq_div)
  then show ?thesis
    using gateway_certificate_ok
    by (simp add: policy_check_route_Inr_iff sample_route_def)
      (simp add: gateway_certificate_def sample_certificate_def sample_claims_def)
qed

lemma sample_policy_valid:
  "validate_normalized_policy (const_policy P) [sample_route] no_dns = Inr ()"
  by (simp add: validate_normalized_policy_def parse_route_def sample_route_def no_dns_def MAX_ROUTES_def
      MAX_DNS_SERVERS_def const_policy_simps sample_parse_net_def sample_show_net_def)

lemma sample_policy_ok:
  "policy_verify_for_network (const_policy open_prims) sample_policy 5 (replicate 32 6) sample_manifest 300 (Some 2)
     = Inr ()"
proof -
  have "encoded_policy_payload (const_policy open_prims) sample_policy = Inr [21]"
    by (simp add: encoded_policy_payload_def sample_policy_def NETWORK_POLICY_MANIFEST_VERSION_V1_def
        const_policy_simps)
  moreover have "ed_verify (const_policy open_prims) pk m s" "ed_key_ok (const_policy open_prims) pk" for pk m s
    by (simp_all add: const_policy_simps open_prims_def sample_prims_def)
  moreover have "nam_network_id sample_manifest = 5" by (simp add: sample_manifest_def)
  ultimately show ?thesis
    unfolding policy_verify_Inr_iff
    by (simp add: sample_manifest_ok) (simp add: sample_policy_def sample_policy_valid sample_route_ok
        validate_exit_nodes_def saturating_add_def NETWORK_POLICY_MANIFEST_VERSION_V1_def)
qed

theorem gateway_is_authorized_witness:
  "gateway_for (const_policy open_prims) sample_policy (V4 0x0A010203) = Some 1
   \<and> (\<exists>c allowed a. mcl_device_id (mc_claims c) = 1 \<and> authorizes sample_manifest c
       \<and> allowed \<in> set (mcl_allowed_routes (mc_claims c))
       \<and> parse_ip_net (const_policy open_prims) allowed = Some a
       \<and> net_contains (const_policy open_prims) a (V4 0x0A010203))"
proof -
  have g: "gateway_for (const_policy open_prims) sample_policy (V4 0x0A010203) = Some 1"
    by (simp add: gateway_for_def sample_policy_def sample_route_def gateway_certificate_def
        sample_certificate_def sample_claims_def map_filter_simps const_policy_simps sample_parse_net_def
        drop_bit_eq_div)
  from gateway_is_authorized [OF const_policy_laws(1) sample_policy_ok g] g show ?thesis by blast
qed

theorem policy_refusals_witness:
  "\<exists>e. policy_verify_for_network (const_policy open_prims) sample_policy 5 (replicate 32 6) sample_manifest 300
     (Some 3) = Inl e"
  by (rule policy_refusals) (simp add: sample_policy_def)

theorem signed_policy_verifies_witness:
  "\<exists>m. policy_sign_with_exit_nodes (const_policy open_prims) 5 3 [sample_route] [] no_dns 100 400 (replicate 32 6)
       = Inr m
    \<and> policy_verify_for_network (const_policy open_prims) m 5 (replicate 32 6) sample_manifest 300 (Some 2) = Inr ()"
proof -
  have v: "verifying_key (const_policy open_prims) (replicate 32 6) = replicate 32 6"
    by (simp add: const_policy_simps open_prims_def sample_prims_def)
  have "normalize_policy (const_policy open_prims) [sample_route] no_dns = Inr ([sample_route], no_dns)"
    using sample_policy_valid [of open_prims]
    by (simp add: normalize_policy_def parse_route_def sample_route_def no_dns_def const_policy_simps
        sample_parse_net_def sample_show_net_def Let_def)
  then obtain m where m: "policy_sign_with_exit_nodes (const_policy open_prims) 5 3 [sample_route] [] no_dns 100 400
      (replicate 32 6) = Inr m" and r: "npm_routes m = [sample_route]"
    by (simp add: policy_sign_with_exit_nodes_def normalize_exit_nodes_def validate_exit_nodes_def
        encoded_policy_payload_def NETWORK_POLICY_MANIFEST_VERSION_V1_def const_policy_simps Let_def)
  have "policy_verify_for_network (const_policy open_prims) m 5 (replicate 32 6) sample_manifest 300 (Some 2) = Inr ()"
    using signed_policy_verifies [OF _ _ m, of sample_manifest 300 "Some 2"] sample_manifest_ok sample_route_ok
    by (simp add: v r) (simp add: sample_manifest_def saturating_add_def)
  with m show ?thesis by blast
qed

theorem normalize_domain_idempotent_witness:
  "normalize_domain '' Corp.Example. '' = Inr ''corp.example'' \<and> normalize_domain ''corp.example'' = Inr ''corp.example''"
proof -
  have n: "normalize_domain '' Corp.Example. '' = Inr ''corp.example''" by code_simp
  from normalize_domain_idempotent [OF n] n show ?thesis by simp
qed

end
