(* ===== verification/Root_Protocol.thy ===== *)
theory Root_Protocol
  imports Network_Policy
begin

text \<open>
  The authenticated discovery protocol shared by roots, relays and agents
  (\<^verbatim>\<open>crates/meshlake-core/src/root.rs\<close>): device-signed registrations carrying membership certificates and
  authorization manifests, and root responses signed by the root's service identity.
\<close>

definition ROOT_PROTOCOL_VERSION :: u8 where "ROOT_PROTOCOL_VERSION = 1"
definition ROOT_REGISTRATION_PROTOCOL_VERSION_LEGACY :: u8 where
  "ROOT_REGISTRATION_PROTOCOL_VERSION_LEGACY = 1"
definition ROOT_REGISTRATION_PROTOCOL_VERSION_TARGET_BOUND :: u8 where
  "ROOT_REGISTRATION_PROTOCOL_VERSION_TARGET_BOUND = 2"
definition ROOT_IDENTITY_RESPONSE_DOMAIN :: bytes where
  "ROOT_IDENTITY_RESPONSE_DOMAIN = ascii ''MeshLake root identity response v2'' @ [0]"
definition TARGET_BOUND_REGISTRATION_DOMAIN :: bytes where
  "TARGET_BOUND_REGISTRATION_DOMAIN = ascii ''MeshLake target-bound service registration v2'' @ [0]"

lemmas registration_versions = ROOT_REGISTRATION_PROTOCOL_VERSION_LEGACY_def
  ROOT_REGISTRATION_PROTOCOL_VERSION_TARGET_BOUND_def

datatype root_registration_service_kind = RootService | RelayService

record root_registration_target =
  rrt_service_kind :: root_registration_service_kind
  rrt_service_id :: uuid

record root_registration_payload =
  rrp_version :: u8
  rrp_device_id :: device_id
  rrp_device_public_key :: bytes
  rrp_certificates :: "membership_certificate list"
  rrp_authorization_manifests :: "network_authorization_manifest list"
  rrp_candidates :: "socket_addr list"
  rrp_issued_at_unix_seconds :: u64
  rrp_nonce :: bytes
  rrp_target :: "root_registration_target option"

record root_registration =
  rr_payload :: root_registration_payload
  rr_signature :: bytes

record root_peer =
  rp_network_id :: network_id
  rp_device_id :: device_id
  rp_candidates :: "socket_addr list"
  rp_assigned_addresses :: "ip_addr list"
  rp_certificate :: "membership_certificate option"

text \<open>The fields of \<open>Registered\<close>: observed endpoint, peers, seconds until the next refresh, and epoch hints.\<close>

datatype root_response =
    Registered socket_addr "root_peer list" u32 "authorization_epoch_hint list"
  | RootError string

record root_response_payload =
  rsp_version :: u8
  rsp_root_public_key :: bytes
  rsp_request_nonce :: bytes
  rsp_response :: root_response

record root_identity_response_payload =
  rip_version :: u8
  rip_root_id :: uuid
  rip_request_nonce :: bytes
  rip_response :: root_response

record signed_root_response =
  srr_version :: u8
  srr_root_public_key :: bytes
  srr_request_nonce :: bytes
  srr_response :: root_response
  srr_signature :: bytes
  srr_root_id :: "uuid option"
  srr_identity_signatures :: "service_signature list"

datatype root_protocol_error =
    RootUnsupportedVersion
  | RootInvalidIdentityKey
  | RootInvalidSignature
  | StaleRegistration
  | MissingMembership
  | MembershipIdentityMismatch
  | UntrustedMembership
  | MissingAuthorization
  | InvalidAuthorizationSet
  | DuplicateMembership
  | RevokedMembership
  | TargetMismatch
  | LegacyRegistrationDisabled
  | RootEncodingFailed
  | RootInvalidServiceIdentity service_identity_error

record root_ops = policy_ops +
  json_registration_payload :: "root_registration_payload \<Rightarrow> bytes option"
  json_root_response_payload :: "root_response_payload \<Rightarrow> bytes option"
  json_root_identity_payload :: "root_identity_response_payload \<Rightarrow> bytes option"
  parse_registration :: "bytes \<Rightarrow> root_registration option"

section \<open>Registrations\<close>

definition registration_signature_message ::
  "'x root_ops_scheme \<Rightarrow> root_registration_payload \<Rightarrow> root_protocol_error + bytes" where
  "registration_signature_message X payload =
     rbind (ok_or RootEncodingFailed (json_registration_payload X payload)) (\<lambda>encoded.
       if rrp_version payload = ROOT_REGISTRATION_PROTOCOL_VERSION_LEGACY \<and> rrp_target payload = None
       then Inr encoded
       else if rrp_version payload = ROOT_REGISTRATION_PROTOCOL_VERSION_TARGET_BOUND
               \<and> rrp_target payload \<noteq> None
       then Inr (TARGET_BOUND_REGISTRATION_DOMAIN @ encoded)
       else Inl RootUnsupportedVersion)"

definition registration_sign_payload ::
  "'x root_ops_scheme \<Rightarrow> root_registration_payload \<Rightarrow> bytes \<Rightarrow> root_protocol_error + root_registration" where
  "registration_sign_payload X payload signing_key =
     rbind (registration_signature_message X payload) (\<lambda>message.
       Inr \<lparr>rr_payload = payload, rr_signature = ed_sign X signing_key message\<rparr>)"

definition registration_sign_authorized ::
  "'x root_ops_scheme \<Rightarrow> device_id \<Rightarrow> membership_certificate list \<Rightarrow> network_authorization_manifest list
     \<Rightarrow> socket_addr list \<Rightarrow> u64 \<Rightarrow> bytes \<Rightarrow> bytes \<Rightarrow> root_protocol_error + root_registration" where
  "registration_sign_authorized X device_id certificates manifests candidates issued_at nonce signing_key =
     registration_sign_payload X
       \<lparr>rrp_version = ROOT_REGISTRATION_PROTOCOL_VERSION_LEGACY, rrp_device_id = device_id,
        rrp_device_public_key = verifying_key X signing_key, rrp_certificates = certificates,
        rrp_authorization_manifests = manifests, rrp_candidates = candidates,
        rrp_issued_at_unix_seconds = issued_at, rrp_nonce = nonce, rrp_target = None\<rparr> signing_key"

definition registration_sign ::
  "'x root_ops_scheme \<Rightarrow> device_id \<Rightarrow> membership_certificate list
     \<Rightarrow> socket_addr list \<Rightarrow> u64 \<Rightarrow> bytes \<Rightarrow> bytes \<Rightarrow> root_protocol_error + root_registration" where
  "registration_sign X device_id certificates candidates issued_at nonce signing_key =
     registration_sign_authorized X device_id certificates [] candidates issued_at nonce signing_key"

definition registration_sign_authorized_for_service ::
  "'x root_ops_scheme \<Rightarrow> device_id \<Rightarrow> membership_certificate list \<Rightarrow> network_authorization_manifest list
     \<Rightarrow> socket_addr list \<Rightarrow> u64 \<Rightarrow> bytes \<Rightarrow> root_registration_service_kind \<Rightarrow> uuid \<Rightarrow> bytes
     \<Rightarrow> root_protocol_error + root_registration" where
  "registration_sign_authorized_for_service X device_id certificates manifests candidates issued_at nonce
       service_kind service_id signing_key =
     registration_sign_payload X
       \<lparr>rrp_version = ROOT_REGISTRATION_PROTOCOL_VERSION_TARGET_BOUND, rrp_device_id = device_id,
        rrp_device_public_key = verifying_key X signing_key, rrp_certificates = certificates,
        rrp_authorization_manifests = manifests, rrp_candidates = candidates,
        rrp_issued_at_unix_seconds = issued_at, rrp_nonce = nonce,
        rrp_target = Some \<lparr>rrt_service_kind = service_kind, rrt_service_id = service_id\<rparr>\<rparr> signing_key"

definition registration_check_target ::
  "root_registration_payload \<Rightarrow> root_registration_target option \<Rightarrow> root_protocol_error + unit" where
  "registration_check_target p expected_target =
     (if rrp_version p = ROOT_REGISTRATION_PROTOCOL_VERSION_LEGACY \<and> rrp_target p = None
         \<and> expected_target = None
      then Inr ()
      else if rrp_version p = ROOT_REGISTRATION_PROTOCOL_VERSION_TARGET_BOUND \<and> rrp_target p \<noteq> None
              \<and> expected_target \<noteq> None \<and> rrp_target p = expected_target
      then Inr ()
      else if rrp_version p = ROOT_REGISTRATION_PROTOCOL_VERSION_LEGACY
              \<or> rrp_version p = ROOT_REGISTRATION_PROTOCOL_VERSION_TARGET_BOUND
      then Inl TargetMismatch
      else Inl RootUnsupportedVersion)"

definition registration_check_certificate ::
  "'x root_ops_scheme \<Rightarrow> root_registration_payload \<Rightarrow> bytes list \<Rightarrow> u64 \<Rightarrow> membership_certificate
     \<Rightarrow> root_protocol_error + unit" where
  "registration_check_certificate X p trusted_controller_keys now c =
     (if mcl_device_id (mc_claims c) \<noteq> rrp_device_id p
         \<or> mcl_device_public_key (mc_claims c) \<noteq> rrp_device_public_key p
      then Inl MembershipIdentityMismatch
      else if list_ex (\<lambda>key. is_ok (certificate_verify_from_controller X c key now)) trusted_controller_keys
      then Inr ()
      else Inl UntrustedMembership)"

definition registration_verify_membership ::
  "'x root_ops_scheme \<Rightarrow> root_registration \<Rightarrow> bytes list \<Rightarrow> u64 \<Rightarrow> u64 \<Rightarrow> root_registration_target option
     \<Rightarrow> root_protocol_error + unit" where
  "registration_verify_membership X r trusted_controller_keys now maximum_clock_skew expected_target =
     (let p = rr_payload r
      in rbind (registration_check_target p expected_target) (\<lambda>_.
         if abs_diff now (rrp_issued_at_unix_seconds p) > maximum_clock_skew then Inl StaleRegistration
         else if length (rrp_device_public_key p) \<noteq> 32 then Inl RootInvalidIdentityKey
         else if length (rr_signature r) \<noteq> 64 then Inl RootInvalidSignature
         else rbind (registration_signature_message X p) (\<lambda>message.
           if \<not> ed_key_ok X (rrp_device_public_key p) then Inl RootInvalidIdentityKey
           else if \<not> ed_verify X (rrp_device_public_key p) message (rr_signature r)
           then Inl RootInvalidSignature
           else if rrp_certificates p = [] then Inl MissingMembership
           else for_each (registration_check_certificate X p trusted_controller_keys now)
                  (rrp_certificates p))))"

fun certificate_table ::
  "(network_id, membership_certificate) hash_map \<Rightarrow> membership_certificate list
     \<Rightarrow> root_protocol_error + (network_id, membership_certificate) hash_map" where
  "certificate_table table [] = Inr table"
| "certificate_table table (c # cs) =
     (if hm_get table (mcl_network_id (mc_claims c)) \<noteq> None then Inl DuplicateMembership
      else certificate_table (hm_insert (mcl_network_id (mc_claims c)) c table) cs)"

fun manifest_table ::
  "'x root_ops_scheme \<Rightarrow> bytes list \<Rightarrow> u64 \<Rightarrow> (network_id, membership_certificate) hash_map
     \<Rightarrow> (network_id, network_authorization_manifest) hash_map \<Rightarrow> network_authorization_manifest list
     \<Rightarrow> root_protocol_error + (network_id, network_authorization_manifest) hash_map" where
  "manifest_table X keys now certificates table [] = Inr table"
| "manifest_table X keys now certificates table (m # ms) =
     (case hm_get certificates (nam_network_id m) of
        None \<Rightarrow> Inl InvalidAuthorizationSet
      | Some c \<Rightarrow>
          if hm_get table (nam_network_id m) \<noteq> None
             \<or> nam_controller_public_key m \<noteq> mc_controller_public_key c
             \<or> \<not> list_ex (\<lambda>key. is_ok (authorization_verify_from_controller X m key now)) keys
          then Inl InvalidAuthorizationSet
          else if \<not> authorizes m c then Inl RevokedMembership
          else manifest_table X keys now certificates (hm_insert (nam_network_id m) m table) ms)"

definition registration_verify_authorization_set ::
  "'x root_ops_scheme \<Rightarrow> root_registration \<Rightarrow> bytes list \<Rightarrow> u64 \<Rightarrow> bool \<Rightarrow> root_protocol_error + unit" where
  "registration_verify_authorization_set X r trusted_controller_keys now require_every_membership =
     rbind (certificate_table [] (rrp_certificates (rr_payload r))) (\<lambda>certificates.
     rbind (manifest_table X trusted_controller_keys now certificates []
              (rrp_authorization_manifests (rr_payload r))) (\<lambda>manifests.
       if require_every_membership \<and> length manifests \<noteq> length certificates
       then Inl MissingAuthorization
       else Inr ()))"

definition registration_verify ::
  "'x root_ops_scheme \<Rightarrow> root_registration \<Rightarrow> bytes list \<Rightarrow> u64 \<Rightarrow> u64 \<Rightarrow> root_protocol_error + unit" where
  "registration_verify X r keys now skew =
     rbind (registration_verify_membership X r keys now skew None) (\<lambda>_.
       registration_verify_authorization_set X r keys now False)"

definition registration_verify_authorized ::
  "'x root_ops_scheme \<Rightarrow> root_registration \<Rightarrow> bytes list \<Rightarrow> u64 \<Rightarrow> u64 \<Rightarrow> root_protocol_error + unit" where
  "registration_verify_authorized X r keys now skew =
     rbind (registration_verify_membership X r keys now skew None) (\<lambda>_.
       registration_verify_authorization_set X r keys now True)"

definition registration_verify_authorized_for_service ::
  "'x root_ops_scheme \<Rightarrow> root_registration \<Rightarrow> bytes list \<Rightarrow> u64 \<Rightarrow> u64 \<Rightarrow> root_registration_service_kind
     \<Rightarrow> uuid \<Rightarrow> root_protocol_error + unit" where
  "registration_verify_authorized_for_service X r keys now skew service_kind service_id =
     rbind (registration_verify_membership X r keys now skew
              (Some \<lparr>rrt_service_kind = service_kind, rrt_service_id = service_id\<rparr>)) (\<lambda>_.
       registration_verify_authorization_set X r keys now True)"

section \<open>Responses\<close>

definition root_response_sign ::
  "'x root_ops_scheme \<Rightarrow> bytes \<Rightarrow> root_response \<Rightarrow> bytes \<Rightarrow> root_protocol_error + signed_root_response" where
  "root_response_sign X request_nonce response signing_key =
     (let root_public_key = verifying_key X signing_key
      in rbind (ok_or RootEncodingFailed (json_root_response_payload X
             \<lparr>rsp_version = ROOT_PROTOCOL_VERSION, rsp_root_public_key = root_public_key,
              rsp_request_nonce = request_nonce, rsp_response = response\<rparr>)) (\<lambda>bs.
           Inr \<lparr>srr_version = ROOT_PROTOCOL_VERSION, srr_root_public_key = root_public_key,
                srr_request_nonce = request_nonce, srr_response = response,
                srr_signature = ed_sign X signing_key bs, srr_root_id = None,
                srr_identity_signatures = []\<rparr>))"

definition service_sign :: "'x prims_scheme \<Rightarrow> bytes \<Rightarrow> bytes \<Rightarrow> service_signature" where
  "service_sign X message key =
     \<lparr>ss_public_key = verifying_key X key, ss_signature = ed_sign X key message\<rparr>"

definition root_response_sign_with_identity ::
  "'x root_ops_scheme \<Rightarrow> bytes \<Rightarrow> root_response \<Rightarrow> uuid \<Rightarrow> bytes list
     \<Rightarrow> root_protocol_error + signed_root_response" where
  "root_response_sign_with_identity X request_nonce response root_id signing_keys =
     (case signing_keys of
        [] \<Rightarrow> Inl RootInvalidIdentityKey
      | current # _ \<Rightarrow>
          let root_public_key = verifying_key X current
          in rbind (ok_or RootEncodingFailed (json_root_response_payload X
                 \<lparr>rsp_version = ROOT_PROTOCOL_VERSION, rsp_root_public_key = root_public_key,
                  rsp_request_nonce = request_nonce, rsp_response = response\<rparr>)) (\<lambda>legacy_bytes.
             rbind (ok_or RootEncodingFailed (json_root_identity_payload X
                 \<lparr>rip_version = ROOT_PROTOCOL_VERSION, rip_root_id = root_id,
                  rip_request_nonce = request_nonce, rip_response = response\<rparr>)) (\<lambda>identity_bytes.
               let identity_message = ROOT_IDENTITY_RESPONSE_DOMAIN @ identity_bytes
               in Inr \<lparr>srr_version = ROOT_PROTOCOL_VERSION, srr_root_public_key = root_public_key,
                    srr_request_nonce = request_nonce, srr_response = response,
                    srr_signature = ed_sign X current legacy_bytes, srr_root_id = Some root_id,
                    srr_identity_signatures = map (service_sign X identity_message) signing_keys\<rparr>)))"

definition root_response_verify ::
  "'x root_ops_scheme \<Rightarrow> signed_root_response \<Rightarrow> bytes \<Rightarrow> root_protocol_error + unit" where
  "root_response_verify X r trusted_root_public_key =
     (if srr_version r \<noteq> ROOT_PROTOCOL_VERSION \<or> srr_root_public_key r \<noteq> trusted_root_public_key
      then Inl RootInvalidIdentityKey
      else if length (srr_root_public_key r) \<noteq> 32 then Inl RootInvalidIdentityKey
      else if length (srr_signature r) \<noteq> 64 then Inl RootInvalidSignature
      else rbind (ok_or RootEncodingFailed (json_root_response_payload X
               \<lparr>rsp_version = srr_version r, rsp_root_public_key = srr_root_public_key r,
                rsp_request_nonce = srr_request_nonce r, rsp_response = srr_response r\<rparr>)) (\<lambda>bs.
             if \<not> ed_key_ok X (srr_root_public_key r) then Inl RootInvalidIdentityKey
             else if ed_verify X (srr_root_public_key r) bs (srr_signature r) then Inr ()
             else Inl RootInvalidSignature))"

definition root_response_verify_identity ::
  "'x root_ops_scheme \<Rightarrow> signed_root_response \<Rightarrow> service_identity_policy \<Rightarrow> u64 \<Rightarrow> root_protocol_error + unit" where
  "root_response_verify_identity X r identity now =
     (if srr_version r \<noteq> ROOT_PROTOCOL_VERSION \<or> srr_root_id r \<noteq> Some (sid_service_id identity)
         \<or> srr_root_public_key r \<noteq> sid_current_public_key identity
      then Inl RootInvalidIdentityKey
      else rbind (ok_or RootEncodingFailed (json_root_identity_payload X
               \<lparr>rip_version = srr_version r, rip_root_id = sid_service_id identity,
                rip_request_nonce = srr_request_nonce r, rip_response = srr_response r\<rparr>)) (\<lambda>bs.
             map_err RootInvalidServiceIdentity
               (verify_signatures X identity (ROOT_IDENTITY_RESPONSE_DOMAIN @ bs)
                  (srr_identity_signatures r) now)))"

section \<open>The two tables\<close>

lemma hm_get_snoc_None: "hm_get (m @ [(k, v)]) k' = None \<longleftrightarrow> hm_get m k' = None \<and> k' \<noteq> k"
  by (simp add: hm_get_append split: option.split) (auto simp: hm_get_def)

lemma certificate_table_Inr_iff:
  "certificate_table t cs = Inr t' \<longleftrightarrow>
     distinct (map (\<lambda>c. mcl_network_id (mc_claims c)) cs)
     \<and> (\<forall>c \<in> set cs. hm_get t (mcl_network_id (mc_claims c)) = None)
     \<and> t' = t @ map (\<lambda>c. (mcl_network_id (mc_claims c), c)) cs"
proof (induction cs arbitrary: t)
  case Nil
  then show ?case by auto
next
  case (Cons c cs)
  show ?case
    by (cases "hm_get t (mcl_network_id (mc_claims c)) = None")
      (auto simp: Cons.IH hm_insert_fresh hm_get_snoc_None image_iff)
qed

definition manifest_admitted ::
  "'x root_ops_scheme \<Rightarrow> bytes list \<Rightarrow> u64 \<Rightarrow> membership_certificate \<Rightarrow> network_authorization_manifest \<Rightarrow> bool" where
  "manifest_admitted X keys now c m \<longleftrightarrow>
     nam_controller_public_key m = mc_controller_public_key c
     \<and> (\<exists>key \<in> set keys. authorization_verify_from_controller X m key now = Inr ()) \<and> authorizes m c"

lemma manifest_table_Inr_iff:
  "manifest_table X keys now certs t ms = Inr t' \<longleftrightarrow>
     distinct (map nam_network_id ms)
     \<and> (\<forall>m \<in> set ms. hm_get t (nam_network_id m) = None
          \<and> (\<exists>c. hm_get certs (nam_network_id m) = Some c \<and> manifest_admitted X keys now c m))
     \<and> t' = t @ map (\<lambda>m. (nam_network_id m, m)) ms"
proof (induction ms arbitrary: t)
  case Nil
  then show ?case by auto
next
  case (Cons m ms)
  show ?case
  proof (cases "hm_get certs (nam_network_id m)")
    case None
    then show ?thesis by auto
  next
    case (Some c)
    have ex: "list_ex (\<lambda>key. is_ok (authorization_verify_from_controller X m key now)) keys
        \<longleftrightarrow> (\<exists>key \<in> set keys. authorization_verify_from_controller X m key now = Inr ())"
      by (auto simp: list_ex_iff is_ok_iff)
    show ?thesis
    proof (cases "hm_get t (nam_network_id m) = None \<and> manifest_admitted X keys now c m")
      case True
      then have step: "manifest_table X keys now certs t (m # ms)
          = manifest_table X keys now certs (t @ [(nam_network_id m, m)]) ms"
        using Some ex by (simp add: manifest_admitted_def hm_insert_fresh)
      show ?thesis
        unfolding step Cons.IH using True Some by (auto simp: hm_get_snoc_None image_iff)
    next
      case False
      then show ?thesis using Some ex by (auto simp: manifest_admitted_def)
    qed
  qed
qed

lemma authorization_set_Inr_iff:
  "registration_verify_authorization_set X r keys now True = Inr () \<longleftrightarrow>
     distinct (map (\<lambda>c. mcl_network_id (mc_claims c)) (rrp_certificates (rr_payload r)))
     \<and> distinct (map nam_network_id (rrp_authorization_manifests (rr_payload r)))
     \<and> nam_network_id ` set (rrp_authorization_manifests (rr_payload r))
         = (\<lambda>c. mcl_network_id (mc_claims c)) ` set (rrp_certificates (rr_payload r))
     \<and> (\<forall>c \<in> set (rrp_certificates (rr_payload r)). \<forall>m \<in> set (rrp_authorization_manifests (rr_payload r)).
          nam_network_id m = mcl_network_id (mc_claims c) \<longrightarrow> manifest_admitted X keys now c m)"
  (is "_ \<longleftrightarrow> ?dc \<and> ?dm \<and> ?eq \<and> ?adm")
proof -
  let ?cs = "rrp_certificates (rr_payload r)" and ?ms = "rrp_authorization_manifests (rr_payload r)"
  let ?net = "\<lambda>c. mcl_network_id (mc_claims c)"
  let ?table = "map (\<lambda>c. (?net c, c)) ?cs"
  have get: "hm_get ?table n = Some c \<longleftrightarrow> c \<in> set ?cs \<and> ?net c = n" if ?dc for n c
  proof -
    have "hm_ok ?table" using that by (simp add: hm_ok_def comp_def)
    from hm_in_set_iff [OF this, of n c] show ?thesis by auto
  qed
  have "registration_verify_authorization_set X r keys now True = Inr () \<longleftrightarrow>
     ?dc \<and> ?dm \<and> (\<forall>m \<in> set ?ms. \<exists>c. hm_get ?table (nam_network_id m) = Some c \<and> manifest_admitted X keys now c m)
     \<and> length ?ms = length ?cs"
    by (auto simp: registration_verify_authorization_set_def certificate_table_Inr_iff manifest_table_Inr_iff)
  also have "\<dots> \<longleftrightarrow> ?dc \<and> ?dm \<and> ?eq \<and> ?adm"
  proof (cases "?dc \<and> ?dm")
    case True
    then have card: "card (nam_network_id ` set ?ms) = length ?ms" "card (?net ` set ?cs) = length ?cs"
      by (metis distinct_card length_map set_map)+
    have uniq: "c = c'" if "c \<in> set ?cs" "c' \<in> set ?cs" "?net c = ?net c'" for c c'
      using True that by (auto simp: distinct_map inj_on_def)
    show ?thesis
    proof
      assume l: "?dc \<and> ?dm \<and> (\<forall>m \<in> set ?ms. \<exists>c. hm_get ?table (nam_network_id m) = Some c
          \<and> manifest_admitted X keys now c m) \<and> length ?ms = length ?cs"
      have sub: "nam_network_id ` set ?ms \<subseteq> ?net ` set ?cs"
      proof (rule image_subsetI)
        fix m assume "m \<in> set ?ms"
        then obtain c where "hm_get ?table (nam_network_id m) = Some c" using l by blast
        then have "c \<in> set ?cs" "?net c = nam_network_id m" using get True by auto
        then show "nam_network_id m \<in> ?net ` set ?cs" by (metis image_eqI)
      qed
      have ?eq using card_subset_eq [OF _ sub] card l by simp
      moreover have ?adm
      proof (intro ballI impI)
        fix c m assume c: "c \<in> set ?cs" and m: "m \<in> set ?ms" "nam_network_id m = ?net c"
        then obtain c' where "hm_get ?table (nam_network_id m) = Some c'" "manifest_admitted X keys now c' m"
          using l by blast
        then show "manifest_admitted X keys now c m" using get True uniq [of c' c] c m by auto
      qed
      ultimately show "?dc \<and> ?dm \<and> ?eq \<and> ?adm" using True by simp
    next
      assume rhs: "?dc \<and> ?dm \<and> ?eq \<and> ?adm"
      then have "length ?ms = length ?cs" using card by simp
      moreover have "\<exists>c. hm_get ?table (nam_network_id m) = Some c \<and> manifest_admitted X keys now c m"
        if "m \<in> set ?ms" for m
      proof -
        have "nam_network_id m \<in> ?net ` set ?cs" using rhs that by blast
        then obtain c where "c \<in> set ?cs" "nam_network_id m = ?net c" by blast
        then show ?thesis using rhs that get True by auto
      qed
      ultimately show "?dc \<and> ?dm \<and> (\<forall>m \<in> set ?ms. \<exists>c. hm_get ?table (nam_network_id m) = Some c
          \<and> manifest_admitted X keys now c m) \<and> length ?ms = length ?cs" using True by simp
    qed
  qed auto
  finally show ?thesis .
qed

section \<open>What an accepted registration shows\<close>

lemma registration_check_certificate_Inr_iff:
  "registration_check_certificate X p keys now c = Inr () \<longleftrightarrow>
     mcl_device_id (mc_claims c) = rrp_device_id p
     \<and> mcl_device_public_key (mc_claims c) = rrp_device_public_key p
     \<and> (\<exists>key \<in> set keys. certificate_verify_from_controller X c key now = Inr ())"
  by (auto simp: registration_check_certificate_def list_ex_iff is_ok_iff)

lemma registration_check_target_Inr_iff:
  "registration_check_target p expected = Inr () \<longleftrightarrow>
     (rrp_target p = expected
      \<and> rrp_version p = (if expected = None then ROOT_REGISTRATION_PROTOCOL_VERSION_LEGACY
           else ROOT_REGISTRATION_PROTOCOL_VERSION_TARGET_BOUND))"
  by (auto simp: registration_check_target_def registration_versions)

lemma verify_membership_Inr_iff:
  "registration_verify_membership X r keys now skew expected = Inr () \<longleftrightarrow>
     registration_check_target (rr_payload r) expected = Inr ()
     \<and> abs_diff now (rrp_issued_at_unix_seconds (rr_payload r)) \<le> skew
     \<and> length (rrp_device_public_key (rr_payload r)) = 32 \<and> length (rr_signature r) = 64
     \<and> ed_key_ok X (rrp_device_public_key (rr_payload r))
     \<and> (\<exists>m. registration_signature_message X (rr_payload r) = Inr m
           \<and> ed_verify X (rrp_device_public_key (rr_payload r)) m (rr_signature r))
     \<and> rrp_certificates (rr_payload r) \<noteq> []
     \<and> (\<forall>c \<in> set (rrp_certificates (rr_payload r)).
          registration_check_certificate X (rr_payload r) keys now c = Inr ())"
  by (auto simp: registration_verify_membership_def Let_def not_less)

text \<open>
  C15: A registration that a service accepts is bound to this service and recent, is signed by the device
  key it names, and carries at least one membership, at most one per network. Every certificate is for that
  device and key and verifies under a trusted controller key, and there is exactly one authorization
  manifest for its network, issued by the same controller, which verifies under a trusted key and
  authorizes the certificate.
\<close>

theorem accepted_registration_is_authorized:
  assumes "registration_verify_authorized_for_service X r keys now skew kind service_id = Inr ()"
    and "signs_only X (rrp_device_public_key (rr_payload r)) M"
  shows "rrp_target (rr_payload r) = Some \<lparr>rrt_service_kind = kind, rrt_service_id = service_id\<rparr>
    \<and> abs_diff now (rrp_issued_at_unix_seconds (rr_payload r)) \<le> skew
    \<and> (\<exists>e. json_registration_payload X (rr_payload r) = Some e \<and> TARGET_BOUND_REGISTRATION_DOMAIN @ e \<in> M)
    \<and> rrp_certificates (rr_payload r) \<noteq> []
    \<and> (\<forall>c \<in> set (rrp_certificates (rr_payload r)).
         mcl_device_id (mc_claims c) = rrp_device_id (rr_payload r)
         \<and> mcl_device_public_key (mc_claims c) = rrp_device_public_key (rr_payload r)
         \<and> (\<exists>key \<in> set keys. certificate_verify_from_controller X c key now = Inr ()
             \<and> (\<exists>!m. m \<in> set (rrp_authorization_manifests (rr_payload r))
                   \<and> nam_network_id m = mcl_network_id (mc_claims c)
                   \<and> authorization_verify_from_controller X m key now = Inr () \<and> authorizes m c)))
    \<and> distinct (map (\<lambda>c. mcl_network_id (mc_claims c)) (rrp_certificates (rr_payload r)))"
proof -
  let ?p = "rr_payload r"
  let ?cs = "rrp_certificates ?p" and ?ms = "rrp_authorization_manifests ?p"
  have mem: "registration_verify_membership X r keys now skew
      (Some \<lparr>rrt_service_kind = kind, rrt_service_id = service_id\<rparr>) = Inr ()"
    and set: "registration_verify_authorization_set X r keys now True = Inr ()"
    using assms(1) by (auto simp: registration_verify_authorized_for_service_def)
  note m = mem [unfolded verify_membership_Inr_iff registration_check_target_Inr_iff
      registration_check_certificate_Inr_iff]
  note s = set [unfolded authorization_set_Inr_iff]
  obtain msg where msg: "registration_signature_message X ?p = Inr msg" "msg \<in> M"
    using m signs_onlyD [OF assms(2)] by blast
  have version: "rrp_version ?p = ROOT_REGISTRATION_PROTOCOL_VERSION_TARGET_BOUND"
    "rrp_target ?p = Some \<lparr>rrt_service_kind = kind, rrt_service_id = service_id\<rparr>"
    using m by simp_all
  have enc: "\<exists>e. json_registration_payload X ?p = Some e \<and> TARGET_BOUND_REGISTRATION_DOMAIN @ e \<in> M"
    using msg version by (auto simp: registration_signature_message_def registration_versions)
  have one: "\<exists>key \<in> set keys. certificate_verify_from_controller X c key now = Inr ()
      \<and> (\<exists>!m. m \<in> set ?ms \<and> nam_network_id m = mcl_network_id (mc_claims c)
            \<and> authorization_verify_from_controller X m key now = Inr () \<and> authorizes m c)"
    if c: "c \<in> set ?cs" for c
  proof -
    obtain key where key: "key \<in> set keys" "certificate_verify_from_controller X c key now = Inr ()"
      using m c by blast
    then have ck: "mc_controller_public_key c = key" by (simp add: certificate_verify_Inr_iff)
    have "mcl_network_id (mc_claims c) \<in> nam_network_id ` set ?ms" using s c by force
    then obtain mf where mf: "mf \<in> set ?ms" "nam_network_id mf = mcl_network_id (mc_claims c)" by auto
    then have "manifest_admitted X keys now c mf" using s c by blast
    then obtain k where k: "authorization_verify_from_controller X mf k now = Inr ()" "authorizes mf c"
      "nam_controller_public_key mf = key"
      using ck by (auto simp: manifest_admitted_def)
    then have "k = key" by (simp add: authorization_verify_Inr_iff)
    with k have "authorization_verify_from_controller X mf key now = Inr ()" "authorizes mf c" by simp_all
    moreover have "m' = mf" if "m' \<in> set ?ms" "nam_network_id m' = mcl_network_id (mc_claims c)" for m'
      using s mf that by (metis (mono_tags, lifting) distinct_map inj_onD)
    ultimately show ?thesis using key mf by blast
  qed
  show ?thesis
  proof (intro conjI ballI)
    show "rrp_target ?p = Some \<lparr>rrt_service_kind = kind, rrt_service_id = service_id\<rparr>" by (rule version(2))
    show "abs_diff now (rrp_issued_at_unix_seconds ?p) \<le> skew" "?cs \<noteq> []" using m by simp_all
    show "\<exists>e. json_registration_payload X ?p = Some e \<and> TARGET_BOUND_REGISTRATION_DOMAIN @ e \<in> M"
      by (rule enc)
    show "distinct (map (\<lambda>c. mcl_network_id (mc_claims c)) ?cs)" using s by simp
  next
    fix c assume "c \<in> set ?cs"
    then show "mcl_device_id (mc_claims c) = rrp_device_id ?p"
      "mcl_device_public_key (mc_claims c) = rrp_device_public_key ?p" using m by simp_all
  next
    fix c assume "c \<in> set ?cs"
    from one [OF this] show "\<exists>key \<in> set keys. certificate_verify_from_controller X c key now = Inr ()
      \<and> (\<exists>!m. m \<in> set ?ms \<and> nam_network_id m = mcl_network_id (mc_claims c)
            \<and> authorization_verify_from_controller X m key now = Inr () \<and> authorizes m c)" .
  qed
qed

text \<open>
  An authorized device is admitted: the registration it signs for a service is accepted by that
  service within the clock skew, when its certificates verify under the service's trusted keys, there is at
  most one per network, and it attaches for each the current manifest of the same controller that authorizes it.
\<close>

theorem signed_registration_accepted:
  assumes "ed_correct X" and "length sk = 32"
    and "registration_sign_authorized_for_service X d cs ms cand issued nonce kind service_id sk = Inr r"
    and "abs_diff now issued \<le> skew" and "cs \<noteq> []"
    and "\<forall>c \<in> set cs. mcl_device_id (mc_claims c) = d
       \<and> mcl_device_public_key (mc_claims c) = verifying_key X sk
       \<and> (\<exists>key \<in> set keys. certificate_verify_from_controller X c key now = Inr ())"
    and "distinct (map (\<lambda>c. mcl_network_id (mc_claims c)) cs)"
    and "map nam_network_id ms = map (\<lambda>c. mcl_network_id (mc_claims c)) cs"
    and "\<forall>c \<in> set cs. \<forall>m \<in> set ms. nam_network_id m = mcl_network_id (mc_claims c) \<longrightarrow>
       manifest_admitted X keys now c m"
  shows "registration_verify_authorized_for_service X r keys now skew kind service_id = Inr ()"
proof -
  define p where "p = \<lparr>rrp_version = ROOT_REGISTRATION_PROTOCOL_VERSION_TARGET_BOUND, rrp_device_id = d,
      rrp_device_public_key = verifying_key X sk, rrp_certificates = cs, rrp_authorization_manifests = ms,
      rrp_candidates = cand, rrp_issued_at_unix_seconds = issued, rrp_nonce = nonce,
      rrp_target = Some \<lparr>rrt_service_kind = kind, rrt_service_id = service_id\<rparr>\<rparr>"
  obtain msg where msg: "registration_signature_message X p = Inr msg"
    and r: "r = \<lparr>rr_payload = p, rr_signature = ed_sign X sk msg\<rparr>"
    using assms(3) by (auto simp: registration_sign_authorized_for_service_def registration_sign_payload_def p_def)
  have "registration_check_target p (Some \<lparr>rrt_service_kind = kind, rrt_service_id = service_id\<rparr>) = Inr ()"
    by (simp add: registration_check_target_Inr_iff p_def)
  then have "registration_verify_membership X r keys now skew
      (Some \<lparr>rrt_service_kind = kind, rrt_service_id = service_id\<rparr>) = Inr ()"
    using assms(4-6) ed_correctD [OF assms(1,2)] msg
    unfolding verify_membership_Inr_iff registration_check_certificate_Inr_iff
    by (simp add: r) (simp add: p_def)
  moreover have "nam_network_id ` set ms = (\<lambda>c. mcl_network_id (mc_claims c)) ` set cs"
    using assms(8) by (metis set_map)
  then have "registration_verify_authorization_set X r keys now True = Inr ()"
    using assms(7-9) by (simp add: authorization_set_Inr_iff r p_def)
  ultimately show ?thesis by (simp add: registration_verify_authorized_for_service_def)
qed

section \<open>Responses\<close>

lemma root_response_identity_Inr_iff:
  "root_response_verify_identity X r identity now = Inr () \<longleftrightarrow>
     srr_version r = ROOT_PROTOCOL_VERSION \<and> srr_root_id r = Some (sid_service_id identity)
     \<and> srr_root_public_key r = sid_current_public_key identity
     \<and> (\<exists>e. json_root_identity_payload X \<lparr>rip_version = srr_version r, rip_root_id = sid_service_id identity,
            rip_request_nonce = srr_request_nonce r, rip_response = srr_response r\<rparr> = Some e
          \<and> verify_signatures X identity (ROOT_IDENTITY_RESPONSE_DOMAIN @ e) (srr_identity_signatures r) now
              = Inr ())"
  by (auto simp: root_response_verify_identity_def)

text \<open>
  A root response that the client accepts under the identity policy pinned by the planet manifest was
  signed by the holder of the root's current key for exactly this request nonce and this response, so a
  response cannot be replayed to another request.
\<close>

theorem root_response_is_bound:
  assumes "signs_only X (sid_current_public_key identity) M"
    and "root_response_verify_identity X r identity now = Inr ()"
  shows "\<exists>e. json_root_identity_payload X \<lparr>rip_version = ROOT_PROTOCOL_VERSION,
          rip_root_id = sid_service_id identity, rip_request_nonce = srr_request_nonce r,
          rip_response = srr_response r\<rparr> = Some e \<and> ROOT_IDENTITY_RESPONSE_DOMAIN @ e \<in> M"
proof -
  obtain e where e: "json_root_identity_payload X \<lparr>rip_version = srr_version r,
        rip_root_id = sid_service_id identity, rip_request_nonce = srr_request_nonce r,
        rip_response = srr_response r\<rparr> = Some e" "srr_version r = ROOT_PROTOCOL_VERSION"
    and v: "verify_signatures X identity (ROOT_IDENTITY_RESPONSE_DOMAIN @ e) (srr_identity_signatures r) now = Inr ()"
    using assms(2) by (auto simp: root_response_identity_Inr_iff)
  obtain keys where keys: "required_public_keys identity now = Inr keys"
    using v by (auto simp: verify_signatures_def)
  then have "sid_current_public_key identity \<in> set keys" using required_public_keys_InrD(1) by fastforce
  from verify_signatures_signed [OF v keys this] e show ?thesis
    using signs_onlyD [OF assms(1)] by auto
qed

lemma service_sign_verifies:
  assumes "ed_correct X" and "list_all (\<lambda>k. length k = 32) sks"
    and "required_public_keys p now = Inr (map (verifying_key X) sks)"
  shows "verify_signatures X p m (map (service_sign X m) sks) now = Inr ()"
proof -
  have pub: "map ss_public_key (map (service_sign X m) sks) = map (verifying_key X) sks"
    by (simp add: service_sign_def comp_def)
  have "list_all (\<lambda>k. length k = 32 \<and> k \<notin> set (sid_revoked_public_keys p)) (map (verifying_key X) sks)"
    by (rule required_public_keys_InrD(2) [OF assms(3)])
  then show ?thesis
    unfolding verify_signatures_Inr_iff pub using assms(2,3)
    by (auto simp: list_all_iff service_sign_def ed_correctD [OF assms(1)])
qed

text \<open>
  A root that signs with the keys its identity policy requires at that time, the current one first,
  produces a response that its clients accept, in rotation windows as well.
\<close>

theorem signed_root_response_verifies:
  assumes "ed_correct X" and "list_all (\<lambda>k. length k = 32) sks"
    and "required_public_keys identity now = Inr (map (verifying_key X) sks)"
    and "root_response_sign_with_identity X nonce response (sid_service_id identity) sks = Inr r"
  shows "root_response_verify_identity X r identity now = Inr ()
    \<and> srr_request_nonce r = nonce \<and> srr_response r = response"
proof -
  obtain current rest where sks: "sks = current # rest"
    using assms(4) by (cases sks) (auto simp: root_response_sign_with_identity_def)
  have cur: "sid_current_public_key identity = verifying_key X current"
    using required_public_keys_InrD(1) [OF assms(3)] by (auto simp: sks)
  show ?thesis
    using assms(4) service_sign_verifies [OF assms(1-3)]
    by (auto simp: root_response_identity_Inr_iff root_response_sign_with_identity_def sks cur Let_def)
qed

section \<open>Instances\<close>

definition const_root :: "prims \<Rightarrow> root_ops" where
  "const_root P = policy_ops.extend (const_policy P) (root_ops.fields (\<lambda>_. Some [31]) (\<lambda>_. Some [32])
     (\<lambda>_. Some [33]) (\<lambda>_. None))"

lemmas const_root_simps = const_root_def const_policy_simps root_ops.defs

lemma const_root_ed_correct [simp]: "ed_correct (const_root P) \<longleftrightarrow> ed_correct P"
  by (simp add: ed_correct_def const_root_simps)

definition sample_registration :: root_registration where
  "sample_registration = \<lparr>rr_payload = \<lparr>rrp_version = 2, rrp_device_id = 1,
      rrp_device_public_key = replicate 32 4, rrp_certificates = [sample_certificate],
      rrp_authorization_manifests = [sample_manifest], rrp_candidates = [],
      rrp_issued_at_unix_seconds = 290, rrp_nonce = replicate 16 0,
      rrp_target = Some \<lparr>rrt_service_kind = RelayService, rrt_service_id = 3\<rparr>\<rparr>,
    rr_signature = replicate 64 0\<rparr>"

definition strict_prims :: prims where
  "strict_prims = sample_prims\<lparr>ed_verify :=
     \<lambda>pk m s. m = TARGET_BOUND_REGISTRATION_DOMAIN @ [31] \<or> m = [2] \<or> m = [4]\<rparr>"

lemma sample_documents_ok:
  "certificate_verify_from_controller (const_root strict_prims) sample_certificate (replicate 32 6) now = Inr ()"
  "authorization_verify_from_controller (const_root strict_prims) sample_manifest (replicate 32 6) 300 = Inr ()"
  "authorizes sample_manifest sample_certificate"
  by (simp_all add: certificate_verify_Inr_iff certificate_message_def sample_certificate_def sample_claims_def
      authorization_verify_Inr_iff sample_manifest_def sample_member_def AUTHORIZATION_MANIFEST_VERSION_def
      saturating_add_def authorizes_def const_root_simps strict_prims_def sample_prims_def)

lemma sample_manifest_admitted:
  "manifest_admitted (const_root strict_prims) [replicate 32 6] 300 sample_certificate sample_manifest"
  using sample_documents_ok
  by (simp add: manifest_admitted_def) (simp add: sample_manifest_def sample_certificate_def)

lemma sample_registration_ok:
  "registration_verify_authorized_for_service (const_root strict_prims) sample_registration [replicate 32 6] 300 30
     RelayService 3 = Inr ()"
proof -
  have "registration_signature_message (const_root strict_prims) (rr_payload sample_registration)
      = Inr (TARGET_BOUND_REGISTRATION_DOMAIN @ [31])"
    by (simp add: registration_signature_message_def sample_registration_def registration_versions const_root_simps)
  moreover have "ed_verify (const_root strict_prims) pk (TARGET_BOUND_REGISTRATION_DOMAIN @ [31]) s"
    "ed_key_ok (const_root strict_prims) pk" for pk s
    by (simp_all add: const_root_simps strict_prims_def sample_prims_def)
  ultimately have "registration_verify_membership (const_root strict_prims) sample_registration [replicate 32 6]
      300 30 (Some \<lparr>rrt_service_kind = RelayService, rrt_service_id = 3\<rparr>) = Inr ()"
    using sample_documents_ok(1) [of 300]
    unfolding verify_membership_Inr_iff registration_check_target_Inr_iff registration_check_certificate_Inr_iff
    by simp (simp add: sample_registration_def sample_certificate_def sample_claims_def registration_versions
        abs_diff_def)
  moreover have "registration_verify_authorization_set (const_root strict_prims) sample_registration
      [replicate 32 6] 300 True = Inr ()"
    using sample_manifest_admitted
    by (simp add: authorization_set_Inr_iff sample_registration_def)
      (simp add: sample_manifest_def sample_certificate_def sample_claims_def)
  ultimately show ?thesis by (simp add: registration_verify_authorized_for_service_def)
qed

theorem accepted_registration_is_authorized_witness:
  "\<exists>e. json_registration_payload (const_root strict_prims) (rr_payload sample_registration) = Some e
    \<and> TARGET_BOUND_REGISTRATION_DOMAIN @ e \<in> {TARGET_BOUND_REGISTRATION_DOMAIN @ [31], [2], [4]}"
proof -
  have "signs_only (const_root strict_prims) (rrp_device_public_key (rr_payload sample_registration))
      {TARGET_BOUND_REGISTRATION_DOMAIN @ [31], [2], [4]}"
    by (simp add: signs_only_def const_root_simps strict_prims_def)
  from accepted_registration_is_authorized [OF sample_registration_ok this] show ?thesis by blast
qed

lemma sample_documents_open:
  "certificate_verify_from_controller (const_root open_prims) sample_certificate (replicate 32 6) now = Inr ()"
  "authorization_verify_from_controller (const_root open_prims) sample_manifest (replicate 32 6) 300 = Inr ()"
  by (simp_all add: certificate_verify_Inr_iff certificate_message_def sample_certificate_def sample_claims_def
      authorization_verify_Inr_iff sample_manifest_def AUTHORIZATION_MANIFEST_VERSION_def
      saturating_add_def const_root_simps open_prims_def sample_prims_def)

theorem signed_registration_accepted_witness:
  "\<exists>r. registration_sign_authorized_for_service (const_root open_prims) 1 [sample_certificate] [sample_manifest] []
      290 (replicate 16 0) RelayService 3 (replicate 32 4) = Inr r
    \<and> registration_verify_authorized_for_service (const_root open_prims) r [replicate 32 6] 300 30 RelayService 3
      = Inr ()"
proof -
  obtain r where r: "registration_sign_authorized_for_service (const_root open_prims) 1 [sample_certificate]
      [sample_manifest] [] 290 (replicate 16 0) RelayService 3 (replicate 32 4) = Inr r"
    by (simp add: registration_sign_authorized_for_service_def registration_sign_payload_def
        registration_signature_message_def registration_versions const_root_simps)
  have adm: "manifest_admitted (const_root open_prims) [replicate 32 6] 300 sample_certificate sample_manifest"
    using sample_documents_open sample_documents_ok(3)
    by (simp add: manifest_admitted_def) (simp add: sample_manifest_def sample_certificate_def)
  have key: "verifying_key (const_root open_prims) sk = sk" for sk
    by (simp add: const_root_simps open_prims_def sample_prims_def)
  show ?thesis
    using signed_registration_accepted [OF _ _ r, of 300 30 "[replicate 32 6]"] r adm sample_documents_open(1)
    by (simp add: key abs_diff_def)
      (simp add: sample_certificate_def sample_claims_def sample_manifest_def)
qed

definition sample_root_response :: signed_root_response where
  "sample_root_response = \<lparr>srr_version = 1, srr_root_public_key = replicate 32 1,
     srr_request_nonce = replicate 16 9, srr_response = RootError ''x'', srr_signature = [],
     srr_root_id = Some 3, srr_identity_signatures =
       [\<lparr>ss_public_key = replicate 32 1, ss_signature = replicate 64 0\<rparr>]\<rparr>"

theorem root_response_is_bound_witness:
  "root_response_verify_identity (const_root (sample_prims\<lparr>ed_verify := \<lambda>pk m s.
        m = ROOT_IDENTITY_RESPONSE_DOMAIN @ [33]\<rparr>)) sample_root_response
      (service_identity_stable 3 (replicate 32 1)) 10 = Inr ()
   \<and> (\<exists>e. json_root_identity_payload (const_root (sample_prims\<lparr>ed_verify := \<lambda>pk m s.
            m = ROOT_IDENTITY_RESPONSE_DOMAIN @ [33]\<rparr>)) \<lparr>rip_version = ROOT_PROTOCOL_VERSION, rip_root_id = 3,
          rip_request_nonce = replicate 16 9, rip_response = RootError ''x''\<rparr> = Some e
        \<and> ROOT_IDENTITY_RESPONSE_DOMAIN @ e \<in> {ROOT_IDENTITY_RESPONSE_DOMAIN @ [33]})"
proof -
  let ?X = "const_root (sample_prims\<lparr>ed_verify := \<lambda>pk m s. m = ROOT_IDENTITY_RESPONSE_DOMAIN @ [33]\<rparr>)"
  have s: "signs_only ?X pk {ROOT_IDENTITY_RESPONSE_DOMAIN @ [33]}" for pk
    by (simp add: signs_only_def const_root_simps)
  have v: "root_response_verify_identity ?X sample_root_response (service_identity_stable 3 (replicate 32 1)) 10
      = Inr ()"
    by (simp add: root_response_verify_identity_def sample_root_response_def service_identity_stable_def
        ROOT_PROTOCOL_VERSION_def verify_signatures_def required_public_keys_def validate_key_def verify_one_def
        const_root_simps sample_prims_def)
  from root_response_is_bound [OF s v] v show ?thesis
    by (simp add: sample_root_response_def service_identity_stable_def)
qed

theorem signed_root_response_verifies_witness:
  "\<exists>r. root_response_sign_with_identity (const_root sample_prims) (replicate 16 9) (RootError ''x'') 3 [replicate 32 1]
      = Inr r
    \<and> root_response_verify_identity (const_root sample_prims) r (service_identity_stable 3 (replicate 32 1)) 10
      = Inr ()"
proof -
  have key: "verifying_key (const_root sample_prims) sk = sk" for sk
    by (simp add: const_root_simps sample_prims_def)
  obtain r where r: "root_response_sign_with_identity (const_root sample_prims) (replicate 16 9) (RootError ''x'') 3
      [replicate 32 1] = Inr r"
    by (simp add: root_response_sign_with_identity_def const_root_simps Let_def)
  have req: "required_public_keys (service_identity_stable 3 (replicate 32 1)) 10
      = Inr (map (verifying_key (const_root sample_prims)) [replicate 32 1])"
    by (simp add: key required_public_keys_def service_identity_stable_def validate_key_def)
  show ?thesis
    using signed_root_response_verifies [OF _ _ req, of "replicate 16 9" "RootError ''x''" r] r
    by (simp add: service_identity_stable_def)
qed

end
