(* ===== verification/Relay_Protocol.thy ===== *)
theory Relay_Protocol
  imports Root_Protocol Wire_Format
begin

text \<open>
  The signed acknowledgement of a relay registration and the peer identity announcement
  (\<^verbatim>\<open>crates/meshlake-core/src/relay.rs\<close>).
\<close>

definition RELAY_ACK_PROTOCOL_VERSION :: u8 where "RELAY_ACK_PROTOCOL_VERSION = 2"
definition RELAY_ACK_DOMAIN :: bytes where
  "RELAY_ACK_DOMAIN = ascii ''MeshLake relay registration acknowledgement v2'' @ [0]"
definition MAX_RELAY_ACK_LIFETIME_SECONDS :: u64 where "MAX_RELAY_ACK_LIFETIME_SECONDS = 30"

datatype relay_receiver_endpoint = ObservedRegistrationSource (receiver_endpoint: socket_addr)

record relay_registration_ack_payload =
  rap_version :: u8
  rap_network_id :: network_id
  rap_device_id :: device_id
  rap_relay_id :: uuid
  rap_request_nonce :: bytes
  rap_receiver :: relay_receiver_endpoint
  rap_issued_at_unix_seconds :: u64
  rap_expires_at_unix_seconds :: u64
  rap_authorization_hint :: "authorization_epoch_hint option"

record signed_relay_registration_ack =
  sra_payload :: relay_registration_ack_payload
  sra_signatures :: "service_signature list"

datatype relay_protocol_error =
    RelayUnsupportedVersion
  | RelayTransactionMismatch
  | RelayInvalidLifetime
  | RelayInvalidReceiverEndpoint
  | RelayEncodingFailed
  | RelayInvalidServiceIdentity service_identity_error

record relay_ops = root_ops +
  json_ack_payload :: "relay_registration_ack_payload \<Rightarrow> bytes option"
  json_ack :: "signed_relay_registration_ack \<Rightarrow> bytes option"
  json_certificate :: "membership_certificate \<Rightarrow> bytes option"
  parse_certificate :: "bytes \<Rightarrow> membership_certificate option"

definition relay_ack_message ::
  "'x relay_ops_scheme \<Rightarrow> relay_registration_ack_payload \<Rightarrow> relay_protocol_error + bytes" where
  "relay_ack_message X payload =
     rbind (ok_or RelayEncodingFailed (json_ack_payload X payload)) (\<lambda>encoded.
       Inr (RELAY_ACK_DOMAIN @ encoded))"

definition relay_ack_sign ::
  "'x relay_ops_scheme \<Rightarrow> network_id \<Rightarrow> device_id \<Rightarrow> uuid \<Rightarrow> bytes \<Rightarrow> socket_addr \<Rightarrow> u64 \<Rightarrow> u64
     \<Rightarrow> authorization_epoch_hint option \<Rightarrow> bytes list \<Rightarrow> relay_protocol_error + signed_relay_registration_ack" where
  "relay_ack_sign X network_id device_id relay_id request_nonce observed issued_at expires_at hint
       signing_keys =
     (let payload = \<lparr>rap_version = RELAY_ACK_PROTOCOL_VERSION, rap_network_id = network_id,
            rap_device_id = device_id, rap_relay_id = relay_id, rap_request_nonce = request_nonce,
            rap_receiver = ObservedRegistrationSource observed, rap_issued_at_unix_seconds = issued_at,
            rap_expires_at_unix_seconds = expires_at, rap_authorization_hint = hint\<rparr>
      in rbind (relay_ack_message X payload) (\<lambda>message.
           Inr \<lparr>sra_payload = payload, sra_signatures = map (service_sign X message) signing_keys\<rparr>))"

definition relay_ack_verify ::
  "'x relay_ops_scheme \<Rightarrow> signed_relay_registration_ack \<Rightarrow> service_identity_policy \<Rightarrow> network_id \<Rightarrow> device_id
     \<Rightarrow> bytes \<Rightarrow> u64 \<Rightarrow> u64 \<Rightarrow> relay_protocol_error + unit" where
  "relay_ack_verify X a identity expected_network_id expected_device_id expected_nonce now
       maximum_future_skew =
     (let p = sra_payload a
      in if rap_version p \<noteq> RELAY_ACK_PROTOCOL_VERSION then Inl RelayUnsupportedVersion
         else if rap_network_id p \<noteq> expected_network_id \<or> rap_device_id p \<noteq> expected_device_id
                 \<or> rap_relay_id p \<noteq> sid_service_id identity \<or> rap_request_nonce p \<noteq> expected_nonce
         then Inl RelayTransactionMismatch
         else if rap_expires_at_unix_seconds p < rap_issued_at_unix_seconds p
                 \<or> saturating_sub (rap_expires_at_unix_seconds p) (rap_issued_at_unix_seconds p)
                     > MAX_RELAY_ACK_LIFETIME_SECONDS
                 \<or> rap_issued_at_unix_seconds p > saturating_add now maximum_future_skew
                 \<or> now > rap_expires_at_unix_seconds p
         then Inl RelayInvalidLifetime
         else case rap_receiver p of ObservedRegistrationSource endpoint \<Rightarrow>
           if \<not> (sock_port endpoint \<noteq> 0 \<and> \<not> ip_is_unspecified (sock_ip endpoint)
                  \<and> \<not> ip_is_multicast (sock_ip endpoint))
           then Inl RelayInvalidReceiverEndpoint
           else rbind (relay_ack_message X p) (\<lambda>message.
                  map_err RelayInvalidServiceIdentity
                    (verify_signatures X identity message (sra_signatures a) now)))"

definition peer_identity_announcement :: "'x relay_ops_scheme \<Rightarrow> membership_certificate \<Rightarrow> bytes option" where
  "peer_identity_announcement X certificate =
     map_option (\<lambda>encoded. RELAY_MAGIC @ [RELAY_PEER_IDENTITY] @ encoded) (json_certificate X certificate)"

definition parse_peer_identity :: "'x relay_ops_scheme \<Rightarrow> bytes \<Rightarrow> membership_certificate option" where
  "parse_peer_identity X packet =
     (if length packet \<le> 5 \<or> take 4 packet \<noteq> RELAY_MAGIC \<or> packet ! 4 \<noteq> RELAY_PEER_IDENTITY then None
      else parse_certificate X (drop 5 packet))"

section \<open>Acknowledgements\<close>

lemma relay_ack_verify_Inr_iff:
  "relay_ack_verify X a identity n d nonce now skew = Inr () \<longleftrightarrow>
     rap_version (sra_payload a) = RELAY_ACK_PROTOCOL_VERSION
     \<and> rap_network_id (sra_payload a) = n \<and> rap_device_id (sra_payload a) = d
     \<and> rap_relay_id (sra_payload a) = sid_service_id identity \<and> rap_request_nonce (sra_payload a) = nonce
     \<and> rap_issued_at_unix_seconds (sra_payload a) \<le> rap_expires_at_unix_seconds (sra_payload a)
     \<and> saturating_sub (rap_expires_at_unix_seconds (sra_payload a)) (rap_issued_at_unix_seconds (sra_payload a))
         \<le> MAX_RELAY_ACK_LIFETIME_SECONDS
     \<and> rap_issued_at_unix_seconds (sra_payload a) \<le> saturating_add now skew
     \<and> now \<le> rap_expires_at_unix_seconds (sra_payload a)
     \<and> sock_port (receiver_endpoint (rap_receiver (sra_payload a))) \<noteq> 0
     \<and> \<not> ip_is_unspecified (sock_ip (receiver_endpoint (rap_receiver (sra_payload a))))
     \<and> \<not> ip_is_multicast (sock_ip (receiver_endpoint (rap_receiver (sra_payload a))))
     \<and> (\<exists>e. json_ack_payload X (sra_payload a) = Some e
          \<and> verify_signatures X identity (RELAY_ACK_DOMAIN @ e) (sra_signatures a) now = Inr ())"
  by (cases "rap_receiver (sra_payload a)")
    (auto simp: relay_ack_verify_def relay_ack_message_def Let_def not_less)

text \<open>
  An acknowledgement is accepted only for the pending transaction: the relay's current key signed
  exactly this network, device, relay and request nonce, it has not expired, and it was issued at most
  30 seconds before its expiry, so an accepted acknowledgement is at most 30 seconds old.
\<close>

theorem relay_ack_is_bound:
  assumes "signs_only X (sid_current_public_key identity) M"
    and "relay_ack_verify X a identity n d nonce now skew = Inr ()"
  shows "\<exists>p e. json_ack_payload X p = Some e \<and> RELAY_ACK_DOMAIN @ e \<in> M
    \<and> rap_network_id p = n \<and> rap_device_id p = d \<and> rap_relay_id p = sid_service_id identity
    \<and> rap_request_nonce p = nonce \<and> now \<le> rap_expires_at_unix_seconds p
    \<and> unat now \<le> unat (rap_issued_at_unix_seconds p) + 30"
proof -
  let ?p = "sra_payload a"
  obtain e where e: "json_ack_payload X ?p = Some e"
    and v: "verify_signatures X identity (RELAY_ACK_DOMAIN @ e) (sra_signatures a) now = Inr ()"
    using assms(2) by (auto simp: relay_ack_verify_Inr_iff)
  obtain keys where keys: "required_public_keys identity now = Inr keys"
    using v by (auto simp: verify_signatures_def)
  then have "sid_current_public_key identity \<in> set keys" using required_public_keys_InrD(1) by fastforce
  from verify_signatures_signed [OF v keys this] have "RELAY_ACK_DOMAIN @ e \<in> M"
    using signs_onlyD [OF assms(1)] by auto
  moreover have "unat now \<le> unat (rap_issued_at_unix_seconds ?p) + 30"
    using assms(2) by (auto simp: relay_ack_verify_Inr_iff word_le_nat_alt unat_saturating_sub
        MAX_RELAY_ACK_LIFETIME_SECONDS_def)
  ultimately show ?thesis using e assms(2) by (auto simp: relay_ack_verify_Inr_iff)
qed

text \<open>
  The acknowledgement that a relay signs with its required keys for a registration it has just accepted
  is accepted by the client that sent the registration, as long as it reaches it within the stated lifetime.
\<close>

theorem signed_relay_ack_verifies:
  assumes "ed_correct X" and "list_all (\<lambda>k. length k = 32) sks"
    and "required_public_keys identity now = Inr (map (verifying_key X) sks)"
    and "relay_ack_sign X n d (sid_service_id identity) nonce observed issued expires hint sks = Inr a"
    and "issued \<le> expires" and "expires - issued \<le> 30" and "issued \<le> saturating_add now skew" and "now \<le> expires"
    and "sock_port observed \<noteq> 0" and "\<not> ip_is_unspecified (sock_ip observed)"
    and "\<not> ip_is_multicast (sock_ip observed)"
  shows "relay_ack_verify X a identity n d nonce now skew = Inr ()"
  using assms(4-11) service_sign_verifies [OF assms(1-3)]
  by (auto simp: relay_ack_verify_Inr_iff relay_ack_sign_def relay_ack_message_def Let_def saturating_sub_def
      MAX_RELAY_ACK_LIFETIME_SECONDS_def)

lemma parse_peer_identity_announcement:
  assumes "\<And>c b. json_certificate X c = Some b \<Longrightarrow> parse_certificate X b = Some c \<and> b \<noteq> []"
    and "peer_identity_announcement X c = Some packet"
  shows "parse_peer_identity X packet = Some c"
  using assms by (auto simp: peer_identity_announcement_def parse_peer_identity_def RELAY_MAGIC_def
      RELAY_PEER_IDENTITY_def)

section \<open>Instances\<close>

definition const_relay :: "prims \<Rightarrow> relay_ops" where
  "const_relay P = root_ops.extend (const_root P) (relay_ops.fields (\<lambda>_. Some [41]) (\<lambda>_. Some [42])
     (\<lambda>_. Some [43]) (\<lambda>_. None))"

lemmas const_relay_simps = const_relay_def const_root_simps relay_ops.defs

lemma const_relay_ed_correct [simp]: "ed_correct (const_relay P) \<longleftrightarrow> ed_correct P"
  by (simp add: ed_correct_def const_relay_simps)

definition sample_ack :: signed_relay_registration_ack where
  "sample_ack = \<lparr>sra_payload = \<lparr>rap_version = 2, rap_network_id = 5, rap_device_id = 1, rap_relay_id = 3,
      rap_request_nonce = replicate 16 9, rap_receiver = ObservedRegistrationSource (SocketV4 0x08080404 4000),
      rap_issued_at_unix_seconds = 100, rap_expires_at_unix_seconds = 120, rap_authorization_hint = None\<rparr>,
    sra_signatures = [\<lparr>ss_public_key = replicate 32 1, ss_signature = replicate 64 0\<rparr>]\<rparr>"

theorem relay_ack_is_bound_witness:
  "relay_ack_verify (const_relay (sample_prims\<lparr>ed_verify := \<lambda>pk m s. m = RELAY_ACK_DOMAIN @ [41]\<rparr>)) sample_ack
     (service_identity_stable 3 (replicate 32 1)) 5 1 (replicate 16 9) 110 5 = Inr ()
   \<and> (\<exists>p e. json_ack_payload (const_relay (sample_prims\<lparr>ed_verify := \<lambda>pk m s. m = RELAY_ACK_DOMAIN @ [41]\<rparr>)) p
          = Some e \<and> rap_request_nonce p = replicate 16 9 \<and> unat (110::u64) \<le> unat (rap_issued_at_unix_seconds p) + 30)"
proof -
  let ?X = "const_relay (sample_prims\<lparr>ed_verify := \<lambda>pk m s. m = RELAY_ACK_DOMAIN @ [41]\<rparr>)"
  have s: "signs_only ?X pk {RELAY_ACK_DOMAIN @ [41]}" for pk
    by (simp add: signs_only_def const_relay_simps)
  have v: "relay_ack_verify ?X sample_ack (service_identity_stable 3 (replicate 32 1)) 5 1 (replicate 16 9) 110 5
      = Inr ()"
    by (simp add: relay_ack_verify_def relay_ack_message_def sample_ack_def service_identity_stable_def
        RELAY_ACK_PROTOCOL_VERSION_def MAX_RELAY_ACK_LIFETIME_SECONDS_def saturating_sub_def saturating_add_def
        ipv4_octet_def verify_signatures_def required_public_keys_def validate_key_def verify_one_def
        const_relay_simps sample_prims_def)
  from relay_ack_is_bound [OF s v] v show ?thesis by blast
qed

theorem signed_relay_ack_verifies_witness:
  "\<exists>a. relay_ack_sign (const_relay sample_prims) 5 1 3 (replicate 16 9) (SocketV4 0x08080404 4000) 100 120 None
      [replicate 32 1] = Inr a
    \<and> relay_ack_verify (const_relay sample_prims) a (service_identity_stable 3 (replicate 32 1)) 5 1
      (replicate 16 9) 110 5 = Inr ()"
proof -
  have key: "verifying_key (const_relay sample_prims) sk = sk" for sk
    by (simp add: const_relay_simps sample_prims_def)
  obtain a where a: "relay_ack_sign (const_relay sample_prims) 5 1 3 (replicate 16 9) (SocketV4 0x08080404 4000)
      100 120 None [replicate 32 1] = Inr a"
    by (simp add: relay_ack_sign_def relay_ack_message_def const_relay_simps Let_def)
  have req: "required_public_keys (service_identity_stable 3 (replicate 32 1)) 110
      = Inr (map (verifying_key (const_relay sample_prims)) [replicate 32 1])"
    by (simp add: key required_public_keys_def service_identity_stable_def validate_key_def)
  have "(100::u64) \<le> saturating_add 110 5" by (simp add: saturating_add_def)
  then show ?thesis
    using signed_relay_ack_verifies [OF _ _ req, of 5 1 "replicate 16 9" "SocketV4 0x08080404 4000" 100 120 None a 5] a
    by (simp add: service_identity_stable_def ipv4_octet_def)
qed

end
