(* ===== verification/Nonce_Cache.thy ===== *)
theory Nonce_Cache
  imports Prelude
begin

text \<open>
  The replay caches of the relay, the root and the controller: a hash map from nonces to the instant they
  were seen, pruned by age before each insertion. The three servers run the same two statements
  (\<^verbatim>\<open>retain\<close>, then \<^verbatim>\<open>insert(..).is_some()\<close>); \<open>nonce_admit\<close> is that pair, and the locale states what a
  server relies on.
\<close>

definition NANOS_PER_SEC :: nat where "NANOS_PER_SEC = 1000000000"

definition REGISTRATION_NONCE_TTL :: nat where "REGISTRATION_NONCE_TTL = 300 * NANOS_PER_SEC"

text \<open>\<^verbatim>\<open>Instant::elapsed\<close> saturates at zero, as subtraction of natural numbers does. The result says whether the nonce is new.\<close>

definition nonce_admit ::
  "nat \<Rightarrow> nat \<Rightarrow> 'k \<Rightarrow> ('k, nat) hash_map \<Rightarrow> bool \<times> ('k, nat) hash_map" where
  "nonce_admit ttl instant k seen =
     (let seen = hm_retain (\<lambda>_ at. instant - at \<le> ttl) seen
      in (hm_get seen k = None, hm_insert k instant seen))"

section \<open>The contract of a nonce cache\<close>

locale nonce_cache =
  fixes admit :: "nat \<Rightarrow> 'k \<Rightarrow> 'c \<Rightarrow> bool \<times> 'c"
    and recorded :: "'c \<Rightarrow> 'k \<Rightarrow> nat \<Rightarrow> bool"
    and ok :: "'c \<Rightarrow> bool"
    and ttl :: nat
  assumes admit_ok: "ok c \<Longrightarrow> ok (snd (admit t k c))"
    and admit_records: "ok c \<Longrightarrow> recorded (snd (admit t k c)) k t"
    and admit_refuses: "ok c \<Longrightarrow> recorded c k s \<Longrightarrow> t - s \<le> ttl \<Longrightarrow> \<not> fst (admit t k c)"
    and admit_keeps: "ok c \<Longrightarrow> recorded c k s \<Longrightarrow> t - s \<le> ttl \<Longrightarrow> k' \<noteq> k \<Longrightarrow>
        recorded (snd (admit t k' c)) k s"
begin

text \<open>A run admits a list of nonces, each at its instant.\<close>

fun run :: "(nat \<times> 'k) list \<Rightarrow> 'c \<Rightarrow> 'c" where
  "run [] c = c"
| "run ((t, k) # es) c = run es (snd (admit t k c))"

lemma run_ok: "ok c \<Longrightarrow> ok (run es c)"
  by (induction es c rule: run.induct) (auto intro: admit_ok)

lemma run_keeps:
  assumes "ok c" and "recorded c k s" and "sorted (map fst es)"
    and "\<And>t k'. (t, k') \<in> set es \<Longrightarrow> s \<le> t \<and> t \<le> u" and "s \<le> u" and "u - s \<le> ttl"
  shows "\<exists>s'. s \<le> s' \<and> s' \<le> u \<and> recorded (run es c) k s'"
  using assms
proof (induction es c arbitrary: s rule: run.induct)
  case (1 c)
  then show ?case by auto
next
  case (2 t k0 es c)
  have t: "s \<le> t" "t \<le> u" using "2.prems"(4) [of t k0] by auto
  show ?case
  proof (cases "k0 = k")
    case True
    have "\<exists>s'. t \<le> s' \<and> s' \<le> u \<and> recorded (run es (snd (admit t k0 c))) k s'"
    proof (rule "2.IH")
      show "ok (snd (admit t k0 c))" using "2.prems"(1) by (rule admit_ok)
      show "recorded (snd (admit t k0 c)) k t" using admit_records "2.prems"(1) True by simp
      show "sorted (map fst es)" using "2.prems"(3) by simp
      show "t \<le> t' \<and> t' \<le> u" if "(t', k') \<in> set es" for t' k'
        using that "2.prems"(3,4) by fastforce
    qed (use t "2.prems" in auto)
    then show ?thesis using t by (auto intro: order_trans)
  next
    case False
    have "\<exists>s'. s \<le> s' \<and> s' \<le> u \<and> recorded (run es (snd (admit t k0 c))) k s'"
    proof (rule "2.IH")
      show "ok (snd (admit t k0 c))" using "2.prems"(1) by (rule admit_ok)
      show "recorded (snd (admit t k0 c)) k s" using admit_keeps "2.prems" t False by simp
      show "sorted (map fst es)" using "2.prems"(3) by simp
      show "s \<le> t' \<and> t' \<le> u" if "(t', k') \<in> set es" for t' k'
        using that by (intro "2.prems"(4) [of t' k']) simp
    qed (use "2.prems" in auto)
    then show ?thesis by simp
  qed
qed

lemma run_refuses:
  assumes "ok c" and "sorted (map fst es)" and "\<And>t k'. (t, k') \<in> set es \<Longrightarrow> s \<le> t \<and> t \<le> u"
    and "s \<le> u" and "u - s \<le> ttl"
  shows "\<not> fst (admit u k (run es (snd (admit s k c))))"
proof -
  have "ok (snd (admit s k c))" "recorded (snd (admit s k c)) k s"
    using assms(1) by (auto intro: admit_ok admit_records)
  then obtain s' where "s \<le> s'" "s' \<le> u" "recorded (run es (snd (admit s k c))) k s'"
    using run_keeps assms(2-5) by blast
  moreover have "ok (run es (snd (admit s k c)))"
    using assms(1) by (intro run_ok admit_ok)
  ultimately show ?thesis using admit_refuses assms(5) by (meson diff_le_mono2 le_trans)
qed

end

lemma nonce_admit_get:
  "hm_ok seen \<Longrightarrow> hm_get (snd (nonce_admit ttl t k seen)) k' =
     (if k' = k then Some t
      else (case hm_get seen k' of None \<Rightarrow> None | Some s \<Rightarrow> if t - s \<le> ttl then Some s else None))"
  by (simp add: nonce_admit_def Let_def hm_get_retain)

lemma nonce_admit_fst:
  "hm_ok seen \<Longrightarrow> fst (nonce_admit ttl t k seen) \<longleftrightarrow>
     (case hm_get seen k of None \<Rightarrow> True | Some s \<Rightarrow> ttl < t - s)"
  by (auto simp: nonce_admit_def Let_def hm_get_retain split: option.splits)

lemma nonce_admit_ok: "hm_ok seen \<Longrightarrow> hm_ok (snd (nonce_admit ttl t k seen))"
  by (simp add: nonce_admit_def Let_def)

interpretation nonces: nonce_cache "nonce_admit ttl" "\<lambda>m k s. hm_get m k = Some s" hm_ok ttl for ttl
  by unfold_locales (simp_all add: nonce_admit_get nonce_admit_fst nonce_admit_ok not_less)

section \<open>Servers behind a nonce cache\<close>

text \<open>A datagram with the readings of the monotonic and the wall clock when it is handled.\<close>

record datagram_event =
  ev_instant :: nat
  ev_now :: u64
  ev_remote :: socket_addr
  ev_packet :: bytes

text \<open>
  With signed times, a datagram is refused forever: \<open>window\<close> bounds the time between two moments at which the
  same datagram authenticates.
\<close>

lemma nonce_instant_near:
  assumes "unat (ev_now e2) \<le> unat (ev_now e1) + window" and "window + drift < 300"
    and "unat (ev_now e1) + (ev_instant e2 - ev_instant e1) div NANOS_PER_SEC \<le> unat (ev_now e2) + drift"
  shows "ev_instant e2 - ev_instant e1 \<le> REGISTRATION_NONCE_TTL"
proof -
  have "(ev_instant e2 - ev_instant e1) div NANOS_PER_SEC \<le> 299" using assms by linarith
  then show ?thesis unfolding REGISTRATION_NONCE_TTL_def NANOS_PER_SEC_def by linarith
qed

text \<open>
  A server whose steps touch the cache only by admitting the nonce of an authenticated datagram, as a locale:
  \<open>nonce_of\<close> is that nonce, if there is one.
\<close>

locale replay_guard =
  fixes step :: "datagram_event \<Rightarrow> 's \<Rightarrow> 's"
    and nonce_of :: "datagram_event \<Rightarrow> 'k option"
    and seen :: "'s \<Rightarrow> ('k, nat) hash_map"
  assumes step_seen: "seen (step e s) = (case nonce_of e of None \<Rightarrow> seen s
      | Some k \<Rightarrow> snd (nonce_admit REGISTRATION_NONCE_TTL (ev_instant e) k (seen s)))"
begin

fun admitted :: "datagram_event list \<Rightarrow> (nat \<times> 'k) list" where
  "admitted [] = []"
| "admitted (e # es) = (case nonce_of e of None \<Rightarrow> admitted es | Some k \<Rightarrow> (ev_instant e, k) # admitted es)"

lemma admitted_instants: "fst ` set (admitted es) \<subseteq> ev_instant ` set es"
  by (induction es) (auto split: option.splits)

lemma admitted_sorted: "sorted (map ev_instant es) \<Longrightarrow> sorted (map fst (admitted es))"
proof (induction es)
  case (Cons e es)
  then show ?case using admitted_instants [of es] by (fastforce split: option.splits)
qed simp

lemma fold_seen: "seen (fold step es s) = nonces.run REGISTRATION_NONCE_TTL (admitted es) (seen s)"
  by (induction es arbitrary: s) (auto simp: step_seen split: option.splits)

lemma refuses:
  assumes "hm_ok (seen s)" and "nonce_of e1 = Some k" and "sorted (map ev_instant (e1 # es @ [e2]))"
    and "ev_instant e2 - ev_instant e1 \<le> REGISTRATION_NONCE_TTL"
  shows "\<not> fst (nonce_admit REGISTRATION_NONCE_TTL (ev_instant e2) k (seen (fold step (e1 # es) s)))"
proof -
  let ?s = "ev_instant e1" and ?u = "ev_instant e2"
  have srt: "sorted (map ev_instant es)" "\<forall>e \<in> set es. ?s \<le> ev_instant e \<and> ev_instant e \<le> ?u" "?s \<le> ?u"
    using assms(3) by (auto simp: sorted_append)
  show ?thesis
    unfolding fold_seen admitted.simps assms(2) option.case nonces.run.simps
  proof (rule nonces.run_refuses [OF assms(1) admitted_sorted [OF srt(1)] _ srt(3) assms(4)])
    show "?s \<le> t \<and> t \<le> ?u" if "(t, k) \<in> set (admitted es)" for t k
      using that admitted_instants [of es] srt(2) by force
  qed
qed

end

end
