(* ===== verification/Peer_Table.thy ===== *)
theory Peer_Table
  imports Prelude
begin

text \<open>
  The peer tables of the relay and of the root: hash maps from a network and a device to the record of a
  registered peer. Both servers refuse a registration whose virtual addresses another device of the same
  network holds; the locale states this check and shows that a table grown under it keeps the addresses of a
  network disjoint.
\<close>

type_synonym peer_key = "network_id \<times> device_id"

lemma hm_get_retainD: "hm_ok m \<Longrightarrow> hm_get (hm_retain P m) k = Some v \<Longrightarrow> hm_get m k = Some v \<and> P k v"
  by (auto simp: hm_get_retain split: option.splits if_splits)

lemma list_ex_shared: "list_ex (\<lambda>a. a \<in> set as) xs \<longleftrightarrow> set xs \<inter> set as \<noteq> {}"
  by (auto simp: list_ex_iff)

lemma list_ex_hash_map:
  assumes "hm_ok m"
  shows "list_ex (\<lambda>(k, v). P k v) m \<longleftrightarrow> (\<exists>k v. hm_get m k = Some v \<and> P k v)"
proof -
  have "list_ex (\<lambda>(k, v). P k v) m \<longleftrightarrow> (\<exists>x. x \<in> set m \<and> P (fst x) (snd x))"
    by (simp only: list_ex_iff Bex_def case_prod_beta)
  also have "\<dots> \<longleftrightarrow> (\<exists>k v. hm_get m k = Some v \<and> P k v)"
    by (metis fst_conv snd_conv prod.collapse hm_in_set_iff [OF assms])
  finally show ?thesis .
qed

locale peer_table =
  fixes addresses :: "'p \<Rightarrow> ip_addr list"
    and conflict :: "(peer_key, 'p) hash_map \<Rightarrow> peer_key \<Rightarrow> ip_addr list \<Rightarrow> bool"
  assumes conflict_iff: "hm_ok peers \<Longrightarrow> conflict peers key as \<longleftrightarrow>
      (\<exists>k p. hm_get peers k = Some p \<and> fst k = fst key \<and> snd k \<noteq> snd key \<and> set (addresses p) \<inter> set as \<noteq> {})"
begin

definition disjoint :: "(peer_key, 'p) hash_map \<Rightarrow> bool" where
  "disjoint peers \<longleftrightarrow>
     (\<forall>k1 p1 k2 p2. hm_get peers k1 = Some p1 \<longrightarrow> hm_get peers k2 = Some p2 \<longrightarrow> fst k1 = fst k2 \<longrightarrow> k1 \<noteq> k2
        \<longrightarrow> set (addresses p1) \<inter> set (addresses p2) = {})"

lemma disjointD:
  "disjoint m \<Longrightarrow> hm_get m k1 = Some p1 \<Longrightarrow> hm_get m k2 = Some p2 \<Longrightarrow> fst k1 = fst k2 \<Longrightarrow> k1 \<noteq> k2
     \<Longrightarrow> set (addresses p1) \<inter> set (addresses p2) = {}"
  unfolding disjoint_def by blast

lemma disjoint_Nil: "disjoint []"
  by (simp add: disjoint_def)

lemma disjoint_retain: "hm_ok m \<Longrightarrow> disjoint m \<Longrightarrow> disjoint (hm_retain P m)"
  unfolding disjoint_def by (meson hm_get_retainD)

lemma disjoint_insert:
  assumes "hm_ok m" and "disjoint m" and "\<not> conflict m k (addresses p)"
  shows "disjoint (hm_insert k p m)"
proof -
  have new: "set (addresses q) \<inter> set (addresses p) = {}"
    if "hm_get m j = Some q" "fst j = fst k" "j \<noteq> k" for j q
    using assms(3) that unfolding conflict_iff [OF assms(1)] by (metis prod_eq_iff)
  show ?thesis
    unfolding disjoint_def
  proof (intro allI impI)
    fix k1 p1 k2 p2
    assume "hm_get (hm_insert k p m) k1 = Some p1" "hm_get (hm_insert k p m) k2 = Some p2"
      "fst k1 = fst k2" "k1 \<noteq> k2"
    then show "set (addresses p1) \<inter> set (addresses p2) = {}"
      using new [of k1 p1] new [of k2 p2] disjointD [OF assms(2), of k1 p1 k2 p2]
      by (cases "k1 = k"; cases "k2 = k"; simp add: Int_commute)
  qed
qed

lemma conflict_insert_other:
  assumes "hm_ok m" and "fst j \<noteq> fst k"
  shows "conflict (hm_insert j q m) k as \<longleftrightarrow> conflict m k as"
proof -
  have "hm_get (hm_insert j q m) i = hm_get m i" if "fst i = fst k" for i
    using assms(2) that by auto
  then show ?thesis
    unfolding conflict_iff [OF assms(1)] conflict_iff [OF hm_ok_insert [OF assms(1)]] by metis
qed

text \<open>Entries for distinct networks are checked against the old table and then inserted one after the other.\<close>

lemma disjoint_insert_all:
  assumes "hm_ok m" and "disjoint m" and "distinct (map (fst \<circ> fst) es)"
    and "\<forall>(k, p) \<in> set es. \<not> conflict m k (addresses p)"
  shows "disjoint (fold (\<lambda>(k, p). hm_insert k p) es m)"
  using assms
proof (induction es arbitrary: m)
  case (Cons e es)
  obtain k p where e: "e = (k, p)" by (cases e)
  have "\<not> conflict (hm_insert k p m) k' (addresses p')" if "(k', p') \<in> set es" for k' p'
  proof -
    have "fst k \<noteq> fst k'" using Cons.prems(3) that by (force simp: e)
    then show ?thesis using Cons.prems(1,4) that by (auto simp: conflict_insert_other)
  qed
  moreover have "disjoint (hm_insert k p m)" using Cons.prems by (intro disjoint_insert) (auto simp: e)
  ultimately show ?case using Cons.prems by (simp add: e) (rule Cons.IH; auto)
qed simp

end

lemma hm_ok_fold_insert: "hm_ok m \<Longrightarrow> hm_ok (fold (\<lambda>(k, p). hm_insert k p) es m)"
  by (induction es arbitrary: m) (auto simp: case_prod_beta)

lemma hm_get_fold_insert:
  "hm_get (fold (\<lambda>(k, p). hm_insert k p) es m) k = Some p \<Longrightarrow> (k, p) \<in> set es \<or> hm_get m k = Some p"
  by (induction es arbitrary: m) (fastforce simp: case_prod_beta split: if_splits)+

lemma hm_get_fold_insert_other:
  "k \<notin> fst ` set es \<Longrightarrow> hm_get (fold (\<lambda>(k, p). hm_insert k p) es m) k = hm_get m k"
  by (induction es arbitrary: m) (auto simp: case_prod_beta)

lemma hm_get_fold_insert_distinct:
  "distinct (map fst es) \<Longrightarrow> (k, p) \<in> set es \<Longrightarrow> hm_get (fold (\<lambda>(k, p). hm_insert k p) es m) k = Some p"
proof (induction es arbitrary: m)
  case (Cons e es)
  show ?case
  proof (cases "e = (k, p)")
    case True
    then have "k \<notin> fst ` set es" using Cons.prems(1) by force
    then show ?thesis using True by (simp add: hm_get_fold_insert_other)
  next
    case False
    then show ?thesis using Cons by simp
  qed
qed simp

end
