(* ===== verification/Relay_Server.thy ===== *)
theory Relay_Server
  imports Relay_Protocol Nonce_Cache Peer_Table
begin

text \<open>
  The UDP relay (\<^verbatim>\<open>crates/meshlake-relay/src/main.rs\<close>): its tables, the packet handler and the receive
  loop. A step takes the monotonic clock and the wall clock as read once for the packet, and returns the
  new tables, the datagrams sent in order, and whether the handler failed (which ends the loop of the
  source). Sending a datagram is taken to succeed. The TCP and TLS proxies, which only wrap datagrams, are
  represented by their frame codec.
\<close>

definition PEER_TTL :: nat where "PEER_TTL = 90 * NANOS_PER_SEC"
definition MAX_CANDIDATES_PER_PEER :: nat where "MAX_CANDIDATES_PER_PEER = 16"
definition MAX_TCP_FRAME_BYTES :: nat where "MAX_TCP_FRAME_BYTES = 65535"

record peer_record =
  pe_endpoint :: socket_addr
  pe_candidates :: "socket_addr list"
  pe_assigned_addresses :: "ip_addr list"
  pe_certificate :: membership_certificate
  pe_authorization_expires_at_unix_seconds :: u64
  pe_last_seen :: nat

record authenticated_registration =
  ar_key :: peer_key
  ar_certificate :: membership_certificate
  ar_nonce :: bytes
  ar_authorization_expires_at_unix_seconds :: u64
  ar_authorization_hint :: "authorization_epoch_hint option"
  ar_candidates :: "socket_addr list"

record relay_identity =
  ri_relay_id :: uuid
  ri_current :: bytes
  ri_next :: "bytes option"

record relay_config =
  rc_trusted_key :: bytes
  rc_identity :: relay_identity
  rc_allow_legacy_registration :: bool

record relay_state =
  rs_peers :: "(peer_key, peer_record) hash_map"
  rs_seen_nonces :: "(network_id \<times> device_id \<times> bytes, nat) hash_map"
  rs_authorization_hints :: "(network_id, authorization_epoch_hint) hash_map"

definition relay_initial :: relay_state where
  "relay_initial = \<lparr>rs_peers = [], rs_seen_nonces = [], rs_authorization_hints = []\<rparr>"

section \<open>Helpers\<close>

definition peer_announcement :: "peer_key \<Rightarrow> socket_addr \<Rightarrow> bytes" where
  "peer_announcement peer address =
     RELAY_MAGIC @ [RELAY_PEER] @ u128_to_be (fst peer) @ u128_to_be (snd peer)
       @ (case sock_ip address of
            V4 ip \<Rightarrow> [4] @ u16_to_be (sock_port address) @ u32_to_be ip
          | V6 ip \<Rightarrow> [6] @ u16_to_be (sock_port address) @ u128_to_be ip)"

definition valid_candidate :: "socket_addr \<Rightarrow> bool" where
  "valid_candidate c \<longleftrightarrow> sock_port c \<noteq> 0 \<and> \<not> ip_is_unspecified (sock_ip c)
     \<and> \<not> ip_is_multicast (sock_ip c) \<and> \<not> ip_is_loopback (sock_ip c) \<and> sock_ip c \<noteq> V4 ipv4_broadcast"

fun candidates_loop :: "socket_addr \<Rightarrow> socket_addr list \<Rightarrow> socket_addr list \<Rightarrow> socket_addr list" where
  "candidates_loop observed candidates [] = candidates"
| "candidates_loop observed candidates (c # cs) =
     (if sock_ip c = sock_ip observed \<and> valid_candidate c \<and> c \<notin> set candidates then
        (if length (candidates @ [c]) = MAX_CANDIDATES_PER_PEER then candidates @ [c]
         else candidates_loop observed (candidates @ [c]) cs)
      else candidates_loop observed candidates cs)"

definition accepted_candidates :: "socket_addr \<Rightarrow> socket_addr list \<Rightarrow> socket_addr list" where
  "accepted_candidates observed_endpoint advertised =
     candidates_loop observed_endpoint [observed_endpoint] advertised"

definition candidate_delta :: "socket_addr list \<Rightarrow> socket_addr list \<Rightarrow> socket_addr list" where
  "candidate_delta previous current = filter (\<lambda>c. c \<notin> set previous) current"

definition registration_candidate_fanout ::
  "peer_key \<Rightarrow> socket_addr list \<Rightarrow> socket_addr \<Rightarrow> (peer_key \<times> peer_record) list \<Rightarrow> (socket_addr \<times> bytes) list" where
  "registration_candidate_fanout registering candidates endpoint existing =
     concat (map (\<lambda>(k, peer).
       if fst k \<noteq> fst registering \<or> k = registering then []
       else map (\<lambda>c. (pe_endpoint peer, peer_announcement registering c)) candidates
          @ map (\<lambda>c. (endpoint, peer_announcement k c)) (pe_candidates peer)) existing)"

definition relay_targets ::
  "(peer_key, peer_record) hash_map \<Rightarrow> peer_key \<Rightarrow> device_id \<Rightarrow> socket_addr list" where
  "relay_targets peers source destination =
     (if destination = uuid_nil
      then map (\<lambda>(k, peer). pe_endpoint peer)
             (filter (\<lambda>(k, peer). fst k = fst source \<and> k \<noteq> source) peers)
      else (case hm_get peers (fst source, destination) of
              None \<Rightarrow> [] | Some peer \<Rightarrow> [pe_endpoint peer]))"

definition authorized_addresses :: "membership_certificate \<Rightarrow> ip_addr list" where
  "authorized_addresses certificate =
     take RELAY_MAX_ASSIGNED_ADDRESSES (remdups_adj (sort
       (filter (\<lambda>a. \<not> ip_is_unspecified a \<and> \<not> ip_is_multicast a)
          (mcl_assigned_addresses (mc_claims certificate)))))"

definition has_address_conflict ::
  "(peer_key, peer_record) hash_map \<Rightarrow> peer_key \<Rightarrow> ip_addr list \<Rightarrow> bool" where
  "has_address_conflict peers registering addresses =
     list_ex (\<lambda>(k, peer). fst k = fst registering \<and> snd k \<noteq> snd registering
        \<and> list_ex (\<lambda>a. a \<in> set addresses) (pe_assigned_addresses peer)) peers"

definition parse_signed_registration ::
  "'x relay_ops_scheme \<Rightarrow> bytes \<Rightarrow> bytes \<Rightarrow> uuid \<Rightarrow> bool \<Rightarrow> u64 \<Rightarrow> authenticated_registration option" where
  "parse_signed_registration X bs trusted_key relay_id allow_legacy now =
     (case parse_registration X bs of
        None \<Rightarrow> None
      | Some registration \<Rightarrow>
          let p = rr_payload registration;
              verified =
                (if rrp_version p = ROOT_REGISTRATION_PROTOCOL_VERSION_LEGACY then
                   (if allow_legacy then registration_verify_authorized X registration [trusted_key] now 120
                    else Inl LegacyRegistrationDisabled)
                 else if rrp_version p = ROOT_REGISTRATION_PROTOCOL_VERSION_TARGET_BOUND
                 then registration_verify_authorized_for_service X registration [trusted_key] now 120
                        RelayService relay_id
                 else Inl RootUnsupportedVersion)
          in if \<not> is_ok verified then None
             else (case rrp_certificates p of
                [certificate] \<Rightarrow>
                  (case find (\<lambda>a. nam_network_id a = mcl_network_id (mc_claims certificate))
                          (rrp_authorization_manifests p) of
                     None \<Rightarrow> None
                   | Some authorization \<Rightarrow>
                       if mcl_device_id (mc_claims certificate) = rrp_device_id p
                       then Some \<lparr>ar_key = (mcl_network_id (mc_claims certificate),
                                            mcl_device_id (mc_claims certificate)),
                              ar_certificate = certificate, ar_nonce = rrp_nonce p,
                              ar_authorization_expires_at_unix_seconds = nam_expires_at_unix_seconds authorization,
                              ar_authorization_hint = nam_epoch_hint authorization,
                              ar_candidates = rrp_candidates p\<rparr>
                       else None)
              | _ \<Rightarrow> None))"

definition parse_data_header :: "bytes \<Rightarrow> (network_id \<times> device_id \<times> device_id) option" where
  "parse_data_header packet =
     (if length packet < RELAY_DATA_HEADER_LEN then None
      else case (uuid_from_slice (slice 5 21 packet), uuid_from_slice (slice 21 37 packet),
                 uuid_from_slice (slice 37 53 packet)) of
             (Some network, Some source, Some destination) \<Rightarrow> Some (network, source, destination)
           | _ \<Rightarrow> None)"

section \<open>The packet handler\<close>

type_synonym datagrams = "(socket_addr \<times> bytes) list"

text \<open>The announcements to and about the members already there; encoding stops at the first failure.\<close>

fun announce_identities ::
  "'x relay_ops_scheme \<Rightarrow> membership_certificate \<Rightarrow> socket_addr \<Rightarrow> (peer_key \<times> peer_record) list
     \<Rightarrow> datagrams \<times> bool" where
  "announce_identities X certificate remote [] = ([], True)"
| "announce_identities X certificate remote ((k, peer) # rest) =
     (case peer_identity_announcement X certificate of
        None \<Rightarrow> ([], False)
      | Some own \<Rightarrow>
          (case peer_identity_announcement X (pe_certificate peer) of
             None \<Rightarrow> ([(pe_endpoint peer, own)], False)
           | Some other \<Rightarrow>
               let (out, done) = announce_identities X certificate remote rest
               in ((pe_endpoint peer, own) # (remote, other) # out, done)))"

definition update_hint ::
  "network_id \<Rightarrow> authorization_epoch_hint option \<Rightarrow> (network_id, authorization_epoch_hint) hash_map
     \<Rightarrow> (network_id, authorization_epoch_hint) hash_map" where
  "update_hint network_id hint hints =
     (case hint of
        None \<Rightarrow> hints
      | Some h \<Rightarrow>
          if (case hm_get hints network_id of None \<Rightarrow> True | Some current \<Rightarrow> hint_supersedes h current)
          then hm_insert network_id h hints
          else hints)"

definition relay_signing_keys :: "relay_identity \<Rightarrow> bytes list" where
  "relay_signing_keys identity =
     (case ri_next identity of None \<Rightarrow> [ri_current identity] | Some next \<Rightarrow> [ri_current identity, next])"

definition handle_registration ::
  "'x relay_ops_scheme \<Rightarrow> relay_identity \<Rightarrow> nat \<Rightarrow> u64 \<Rightarrow> socket_addr \<Rightarrow> authenticated_registration
     \<Rightarrow> relay_state \<Rightarrow> relay_state \<times> datagrams \<times> bool" where
  "handle_registration X identity instant now remote r st =
     (let key = ar_key r;
          (fresh, seen) = nonce_admit REGISTRATION_NONCE_TTL instant (fst key, snd key, ar_nonce r)
            (rs_seen_nonces st);
          st = st\<lparr>rs_seen_nonces := seen\<rparr>;
          peers = rs_peers st
      in if \<not> fresh then (st, [], True)
         else
           let candidates = accepted_candidates remote (ar_candidates r);
               previous = (case hm_get peers key of None \<Rightarrow> [] | Some peer \<Rightarrow> pe_candidates peer);
               new_candidates = candidate_delta previous candidates;
               assigned = authorized_addresses (ar_certificate r)
           in if has_address_conflict peers key assigned then (st, [], True)
              else
                let existing = filter (\<lambda>(k, peer). fst k = fst key \<and> k \<noteq> key) peers;
                    st = st\<lparr>rs_peers := hm_insert key \<lparr>pe_endpoint = remote, pe_candidates = candidates,
                             pe_assigned_addresses = assigned, pe_certificate = ar_certificate r,
                             pe_authorization_expires_at_unix_seconds =
                               ar_authorization_expires_at_unix_seconds r,
                             pe_last_seen = instant\<rparr> peers,
                           rs_authorization_hints :=
                             update_hint (fst key) (ar_authorization_hint r) (rs_authorization_hints st)\<rparr>
                in case relay_ack_sign X (fst key) (snd key) (ri_relay_id identity) (ar_nonce r) remote
                          now (now + 15) (hm_get (rs_authorization_hints st) (fst key))
                          (relay_signing_keys identity) of
                     Inl _ \<Rightarrow> (st, [], False)
                   | Inr ack \<Rightarrow>
                       (case json_ack X ack of
                          None \<Rightarrow> (st, [], False)
                        | Some encoded \<Rightarrow>
                            let (identities, done) = announce_identities X (ar_certificate r) remote existing
                            in (st, (remote, RELAY_MAGIC @ [RELAY_REGISTER_ACK_SIGNED] @ encoded)
                                  # registration_candidate_fanout key new_candidates remote existing
                                  @ identities, done)))"

definition handle_packet ::
  "'x relay_ops_scheme \<Rightarrow> relay_config \<Rightarrow> nat \<Rightarrow> u64 \<Rightarrow> socket_addr \<Rightarrow> bytes \<Rightarrow> relay_state
     \<Rightarrow> relay_state \<times> datagrams \<times> bool" where
  "handle_packet X cfg instant now remote packet st =
     (let kind = packet ! 4
      in if kind = RELAY_REGISTER_SIGNED then
           (case parse_signed_registration X (drop 5 packet) (rc_trusted_key cfg)
                   (ri_relay_id (rc_identity cfg)) (rc_allow_legacy_registration cfg) now of
              None \<Rightarrow> (st, [], True)
            | Some r \<Rightarrow> handle_registration X (rc_identity cfg) instant now remote r st)
         else if kind \<in> {RELAY_DATA, RELAY_SESSION_INIT, RELAY_SESSION_RESPONSE, RELAY_SESSION_DATA} then
           (case parse_data_header packet of
              None \<Rightarrow> (st, [], True)
            | Some (network, source, destination) \<Rightarrow>
                if map_option pe_endpoint (hm_get (rs_peers st) (network, source)) \<noteq> Some remote
                then (st, [], True)
                else (st, map (\<lambda>target. (target, packet))
                        (relay_targets (rs_peers st) (network, source) destination), True))
         else (st, [], True))"

text \<open>One turn of the receive loop.\<close>

definition relay_receive ::
  "'x relay_ops_scheme \<Rightarrow> relay_config \<Rightarrow> nat \<Rightarrow> u64 \<Rightarrow> socket_addr \<Rightarrow> bytes \<Rightarrow> relay_state
     \<Rightarrow> relay_state \<times> datagrams \<times> bool" where
  "relay_receive X cfg instant now remote packet st =
     (if length packet < 5 \<or> take 4 packet \<noteq> RELAY_MAGIC then (st, [], True)
      else handle_packet X cfg instant now remote packet
             (st\<lparr>rs_authorization_hints := hm_retain (\<lambda>_ h. \<not> hint_is_expired h now) (rs_authorization_hints st),
                 rs_peers := hm_retain (\<lambda>_ peer. instant - pe_last_seen peer \<le> PEER_TTL
                   \<and> now \<le> pe_authorization_expires_at_unix_seconds peer) (rs_peers st)\<rparr>))"

section \<open>TCP framing\<close>

text \<open>
  \<open>read_tcp_frame\<close> reads from the bytes of the stream still to come: \<open>Inr None\<close> is the end of the stream
  before a length, \<open>Inl\<close> a failed read; otherwise the frame and the rest of the stream.
\<close>

datatype frame_error = FrameLengthOutOfRange | FrameReadFailed

definition read_tcp_frame :: "bytes \<Rightarrow> frame_error + (bytes \<times> bytes) option" where
  "read_tcp_frame stream =
     (if length stream < 4 then Inr None
      else let len = unat (u32_of_be (take 4 stream))
           in if len = 0 \<or> len > MAX_TCP_FRAME_BYTES then Inl FrameLengthOutOfRange
              else if length (drop 4 stream) < len then Inl FrameReadFailed
              else Inr (Some (take len (drop 4 stream), drop len (drop 4 stream))))"

definition write_tcp_frame :: "bytes \<Rightarrow> frame_error + bytes" where
  "write_tcp_frame frame =
     (if frame = [] \<or> length frame > MAX_TCP_FRAME_BYTES then Inl FrameLengthOutOfRange
      else Inr (u32_to_be (of_nat (length frame)) @ frame))"

definition local_udp_proxy_target :: "socket_addr \<Rightarrow> socket_addr \<Rightarrow> socket_addr" where
  "local_udp_proxy_target configured actual =
     (if \<not> ip_is_unspecified (sock_ip configured) then configured
      else if is_ipv4 (sock_ip actual) then SocketV4 (ipv4_new 127 0 0 1) (sock_port actual)
      else SocketV6 1 (sock_port actual) 0 0)"

section \<open>Candidates and addresses\<close>

lemma candidates_loop_props:
  assumes "length acc < MAX_CANDIDATES_PER_PEER" and "\<forall>c \<in> set acc. sock_ip c = sock_ip observed"
    and "distinct acc"
  shows "length (candidates_loop observed acc cs) \<le> MAX_CANDIDATES_PER_PEER
    \<and> (\<forall>c \<in> set (candidates_loop observed acc cs). sock_ip c = sock_ip observed)
    \<and> set acc \<subseteq> set (candidates_loop observed acc cs)
    \<and> set (candidates_loop observed acc cs) \<subseteq> set acc \<union> {c \<in> set cs. valid_candidate c}
    \<and> distinct (candidates_loop observed acc cs)"
  using assms
proof (induction cs arbitrary: acc)
  case Nil
  then show ?case by simp
next
  case (Cons c cs)
  consider (skip) "\<not> (sock_ip c = sock_ip observed \<and> valid_candidate c \<and> c \<notin> set acc)"
    | (full) "sock_ip c = sock_ip observed \<and> valid_candidate c \<and> c \<notin> set acc"
        "Suc (length acc) = MAX_CANDIDATES_PER_PEER"
    | (push) "sock_ip c = sock_ip observed \<and> valid_candidate c \<and> c \<notin> set acc"
        "Suc (length acc) < MAX_CANDIDATES_PER_PEER"
    using Cons.prems(1) by linarith
  then show ?case
  proof cases
    case skip
    have step: "candidates_loop observed acc (c # cs) = candidates_loop observed acc cs"
      using skip by (simp only: candidates_loop.simps if_False)
    show ?thesis unfolding step using Cons.IH [OF Cons.prems] by auto
  next
    case full
    then show ?thesis using Cons.prems by auto
  next
    case push
    have step: "candidates_loop observed acc (c # cs) = candidates_loop observed (acc @ [c]) cs"
      using push by simp
    have "length (acc @ [c]) < MAX_CANDIDATES_PER_PEER" "\<forall>x \<in> set (acc @ [c]). sock_ip x = sock_ip observed"
      "distinct (acc @ [c])" using push Cons.prems by auto
    from Cons.IH [OF this] show ?thesis unfolding step using push by auto
  qed
qed

lemma accepted_candidates_props:
  "length (accepted_candidates observed cs) \<le> MAX_CANDIDATES_PER_PEER"
  "\<forall>c \<in> set (accepted_candidates observed cs). sock_ip c = sock_ip observed"
  "observed \<in> set (accepted_candidates observed cs)"
proof -
  have "length [observed] < MAX_CANDIDATES_PER_PEER" "\<forall>c \<in> set [observed]. sock_ip c = sock_ip observed"
    "distinct [observed]" by (simp_all add: MAX_CANDIDATES_PER_PEER_def)
  note p = candidates_loop_props [OF this, of cs, folded accepted_candidates_def]
  from p show "length (accepted_candidates observed cs) \<le> MAX_CANDIDATES_PER_PEER" by blast
  from p show "\<forall>c \<in> set (accepted_candidates observed cs). sock_ip c = sock_ip observed" by blast
  from p have "set [observed] \<subseteq> set (accepted_candidates observed cs)" by blast
  then show "observed \<in> set (accepted_candidates observed cs)" by simp
qed

lemma authorized_addresses_subset: "set (authorized_addresses c) \<subseteq> set (mcl_assigned_addresses (mc_claims c))"
proof -
  have "set (authorized_addresses c) \<subseteq> set (remdups_adj (sort
      (filter (\<lambda>a. \<not> ip_is_unspecified a \<and> \<not> ip_is_multicast a) (mcl_assigned_addresses (mc_claims c)))))"
    unfolding authorized_addresses_def by (rule set_take_subset)
  then show ?thesis by auto
qed

lemma relay_targets_iff:
  assumes "hm_ok peers"
  shows "t \<in> set (relay_targets peers (n, s) d) \<longleftrightarrow>
      (\<exists>d' q. hm_get peers (n, d') = Some q \<and> pe_endpoint q = t \<and> (if d = uuid_nil then d' \<noteq> s else d' = d))"
proof (cases "d = uuid_nil")
  case True
  have "t \<in> set (relay_targets peers (n, s) d) \<longleftrightarrow>
      (\<exists>x. x \<in> set peers \<and> fst (fst x) = n \<and> fst x \<noteq> (n, s) \<and> pe_endpoint (snd x) = t)"
    unfolding relay_targets_def if_P [OF True] set_map set_filter case_prod_beta fst_conv by blast
  also have "\<dots> \<longleftrightarrow> (\<exists>d' q. hm_get peers (n, d') = Some q \<and> d' \<noteq> s \<and> pe_endpoint q = t)"
    by (metis fst_conv snd_conv prod.collapse hm_in_set_iff [OF assms])
  finally show ?thesis using True by auto
next
  case False
  then show ?thesis by (cases "hm_get peers (n, d)") (auto simp: relay_targets_def)
qed

interpretation relay_table: peer_table pe_assigned_addresses has_address_conflict
  by unfold_locales (simp only: has_address_conflict_def list_ex_shared list_ex_hash_map)

section \<open>Registrations the relay accepts\<close>

lemma parse_signed_registrationE:
  assumes "parse_signed_registration X bs tk rid legacy now = Some r"
  obtains reg target m where "parse_registration X bs = Some reg"
    and "rrp_certificates (rr_payload reg) = [ar_certificate r]"
    and "registration_verify_membership X reg [tk] now 120 target = Inr ()"
    and "registration_verify_authorization_set X reg [tk] now True = Inr ()"
    and "target = Some \<lparr>rrt_service_kind = RelayService, rrt_service_id = rid\<rparr> \<or> legacy \<and> target = None"
    and "ar_key r = (mcl_network_id (mc_claims (ar_certificate r)), mcl_device_id (mc_claims (ar_certificate r)))"
    and "ar_nonce r = rrp_nonce (rr_payload reg)" and "ar_candidates r = rrp_candidates (rr_payload reg)"
    and "m \<in> set (rrp_authorization_manifests (rr_payload reg))"
    and "nam_network_id m = fst (ar_key r)"
    and "ar_authorization_expires_at_unix_seconds r = nam_expires_at_unix_seconds m"
    and "ar_authorization_hint r = nam_epoch_hint m"
proof -
  obtain reg where reg: "parse_registration X bs = Some reg"
    using assms by (auto simp: parse_signed_registration_def split: option.splits)
  obtain target where mem: "registration_verify_membership X reg [tk] now 120 target = Inr ()"
      "registration_verify_authorization_set X reg [tk] now True = Inr ()"
      "target = Some \<lparr>rrt_service_kind = RelayService, rrt_service_id = rid\<rparr> \<or> legacy \<and> target = None"
    using assms reg
    by (auto simp: parse_signed_registration_def registration_verify_authorized_def is_ok_iff
        registration_verify_authorized_for_service_def Let_def split: if_splits)
  obtain c where c: "rrp_certificates (rr_payload reg) = [c]"
    using assms reg by (auto simp: parse_signed_registration_def Let_def split: if_splits list.splits)
  obtain m where m: "find (\<lambda>a. nam_network_id a = mcl_network_id (mc_claims c))
        (rrp_authorization_manifests (rr_payload reg)) = Some m"
    using assms reg c by (auto simp: parse_signed_registration_def Let_def split: if_splits option.splits)
  have r: "r = \<lparr>ar_key = (mcl_network_id (mc_claims c), mcl_device_id (mc_claims c)), ar_certificate = c,
      ar_nonce = rrp_nonce (rr_payload reg),
      ar_authorization_expires_at_unix_seconds = nam_expires_at_unix_seconds m,
      ar_authorization_hint = nam_epoch_hint m, ar_candidates = rrp_candidates (rr_payload reg)\<rparr>"
    using assms reg c m by (auto simp: parse_signed_registration_def Let_def split: if_splits)
  from find_SomeD [OF m] show thesis
    using reg mem c r by (intro that [of reg target m]) simp_all
qed

lemma accepted_certificate_valid:
  assumes "parse_signed_registration X bs tk rid legacy now = Some r"
  shows "certificate_verify_from_controller X (ar_certificate r) tk now = Inr ()"
    and "ar_key r = (mcl_network_id (mc_claims (ar_certificate r)), mcl_device_id (mc_claims (ar_certificate r)))"
  using assms
  by (auto elim!: parse_signed_registrationE
      simp: verify_membership_Inr_iff registration_check_certificate_Inr_iff)

section \<open>The invariant\<close>

text \<open>
  A peer entry is filed under the network and device of its certificate, which verified under the trusted key
  when it was accepted; its candidates are at most 16, all on the endpoint's address, and the addresses are the
  authorized ones of the certificate.
\<close>

definition peer_good :: "'x relay_ops_scheme \<Rightarrow> bytes \<Rightarrow> peer_key \<Rightarrow> peer_record \<Rightarrow> bool" where
  "peer_good X tk k p \<longleftrightarrow>
     k = (mcl_network_id (mc_claims (pe_certificate p)), mcl_device_id (mc_claims (pe_certificate p)))
     \<and> (\<exists>t. certificate_verify_from_controller X (pe_certificate p) tk t = Inr ())
     \<and> pe_endpoint p \<in> set (pe_candidates p) \<and> length (pe_candidates p) \<le> MAX_CANDIDATES_PER_PEER
     \<and> (\<forall>c \<in> set (pe_candidates p). sock_ip c = sock_ip (pe_endpoint p))
     \<and> pe_assigned_addresses p = authorized_addresses (pe_certificate p)"

definition relay_inv :: "'x relay_ops_scheme \<Rightarrow> bytes \<Rightarrow> relay_state \<Rightarrow> bool" where
  "relay_inv X tk st \<longleftrightarrow> hm_ok (rs_peers st) \<and> hm_ok (rs_seen_nonces st) \<and> hm_ok (rs_authorization_hints st)
     \<and> (\<forall>k p. hm_get (rs_peers st) k = Some p \<longrightarrow> peer_good X tk k p) \<and> relay_table.disjoint (rs_peers st)"

lemma relay_inv_initial: "relay_inv X tk relay_initial"
  by (simp add: relay_inv_def relay_initial_def relay_table.disjoint_Nil)

definition relay_entry :: "nat \<Rightarrow> socket_addr \<Rightarrow> authenticated_registration \<Rightarrow> peer_record" where
  "relay_entry instant remote r = \<lparr>pe_endpoint = remote,
     pe_candidates = accepted_candidates remote (ar_candidates r),
     pe_assigned_addresses = authorized_addresses (ar_certificate r), pe_certificate = ar_certificate r,
     pe_authorization_expires_at_unix_seconds = ar_authorization_expires_at_unix_seconds r,
     pe_last_seen = instant\<rparr>"

lemma relay_entry_sel [simp]:
  "pe_endpoint (relay_entry instant remote r) = remote"
  "pe_candidates (relay_entry instant remote r) = accepted_candidates remote (ar_candidates r)"
  "pe_assigned_addresses (relay_entry instant remote r) = authorized_addresses (ar_certificate r)"
  "pe_certificate (relay_entry instant remote r) = ar_certificate r"
  "pe_authorization_expires_at_unix_seconds (relay_entry instant remote r) =
     ar_authorization_expires_at_unix_seconds r"
  "pe_last_seen (relay_entry instant remote r) = instant"
  by (simp_all add: relay_entry_def)

lemma relay_entry_good:
  assumes "parse_signed_registration X bs tk rid legacy now = Some r"
  shows "peer_good X tk (ar_key r) (relay_entry instant remote r)"
  unfolding peer_good_def relay_entry_sel
proof (intro conjI)
  show "\<exists>t. certificate_verify_from_controller X (ar_certificate r) tk t = Inr ()"
    using accepted_certificate_valid(1) [OF assms] by (rule exI)
qed (rule accepted_certificate_valid(2) [OF assms] accepted_candidates_props refl)+

text \<open>What a registration does to the tables, whatever is sent.\<close>

lemma handle_registration_state:
  "fst (handle_registration X identity instant now remote r st) =
     (let (fresh, seen) = nonce_admit REGISTRATION_NONCE_TTL instant (fst (ar_key r), snd (ar_key r), ar_nonce r)
            (rs_seen_nonces st)
      in if \<not> fresh \<or> has_address_conflict (rs_peers st) (ar_key r) (authorized_addresses (ar_certificate r))
         then st\<lparr>rs_seen_nonces := seen\<rparr>
         else st\<lparr>rs_seen_nonces := seen, rs_peers := hm_insert (ar_key r) (relay_entry instant remote r) (rs_peers st),
                rs_authorization_hints := update_hint (fst (ar_key r)) (ar_authorization_hint r)
                  (rs_authorization_hints st)\<rparr>)"
  by (simp add: handle_registration_def relay_entry_def Let_def split_beta split: sum.split option.split)

lemma hm_ok_update_hint: "hm_ok hints \<Longrightarrow> hm_ok (update_hint n h hints)"
  by (simp add: update_hint_def split: option.split)

lemma handle_registration_inv:
  assumes "relay_inv X tk st" and "parse_signed_registration X bs tk rid legacy now = Some r"
  shows "relay_inv X tk (fst (handle_registration X identity instant now remote r st))"
proof -
  have ok: "hm_ok (rs_peers st)" "hm_ok (rs_seen_nonces st)" "hm_ok (rs_authorization_hints st)"
    and good: "\<forall>k p. hm_get (rs_peers st) k = Some p \<longrightarrow> peer_good X tk k p"
    and dis: "relay_table.disjoint (rs_peers st)"
    using assms(1) by (simp_all add: relay_inv_def)
  have "relay_table.disjoint (hm_insert (ar_key r) (relay_entry instant remote r) (rs_peers st))"
    if "\<not> has_address_conflict (rs_peers st) (ar_key r) (authorized_addresses (ar_certificate r))"
    using relay_table.disjoint_insert [OF ok(1) dis, of "ar_key r" "relay_entry instant remote r"] that
    by (simp add: relay_entry_def)
  then show ?thesis
    using ok good dis relay_entry_good [OF assms(2)] nonce_admit_ok [OF ok(2)] hm_ok_update_hint [OF ok(3)]
    by (simp add: handle_registration_state relay_inv_def split_beta)
qed

lemma relay_receive_inv:
  assumes "relay_inv X (rc_trusted_key cfg) st"
  shows "relay_inv X (rc_trusted_key cfg) (fst (relay_receive X cfg instant now remote packet st))"
proof -
  let ?st = "st\<lparr>rs_authorization_hints := hm_retain (\<lambda>_ h. \<not> hint_is_expired h now) (rs_authorization_hints st),
                 rs_peers := hm_retain (\<lambda>_ peer. instant - pe_last_seen peer \<le> PEER_TTL
                   \<and> now \<le> pe_authorization_expires_at_unix_seconds peer) (rs_peers st)\<rparr>"
  have pruned: "relay_inv X (rc_trusted_key cfg) ?st"
    using assms by (auto simp: relay_inv_def intro: relay_table.disjoint_retain dest: hm_get_retainD)
  have "relay_inv X (rc_trusted_key cfg) (fst (handle_packet X cfg instant now remote packet ?st))"
    unfolding handle_packet_def Let_def
    using pruned by (simp split: option.split prod.split) (blast intro: handle_registration_inv)
  then show ?thesis using assms by (simp add: relay_receive_def)
qed

section \<open>What a packet does\<close>

text \<open>The tables as the loop prunes them before it dispatches a packet.\<close>

definition relay_pruned :: "nat \<Rightarrow> u64 \<Rightarrow> relay_state \<Rightarrow> relay_state" where
  "relay_pruned instant now st =
     st\<lparr>rs_authorization_hints := hm_retain (\<lambda>_ h. \<not> hint_is_expired h now) (rs_authorization_hints st),
        rs_peers := hm_retain (\<lambda>_ peer. instant - pe_last_seen peer \<le> PEER_TTL
          \<and> now \<le> pe_authorization_expires_at_unix_seconds peer) (rs_peers st)\<rparr>"

definition peer_live :: "nat \<Rightarrow> u64 \<Rightarrow> peer_record \<Rightarrow> bool" where
  "peer_live instant now p \<longleftrightarrow>
     instant - pe_last_seen p \<le> PEER_TTL \<and> now \<le> pe_authorization_expires_at_unix_seconds p"

definition relay_packet :: "bytes \<Rightarrow> bool" where
  "relay_packet packet \<longleftrightarrow> 5 \<le> length packet \<and> take 4 packet = RELAY_MAGIC"

definition relay_data_kinds :: "u8 set" where
  "relay_data_kinds = {RELAY_DATA, RELAY_SESSION_INIT, RELAY_SESSION_RESPONSE, RELAY_SESSION_DATA}"

lemma register_not_data: "RELAY_REGISTER_SIGNED \<notin> relay_data_kinds"
  by (simp add: relay_data_kinds_def RELAY_REGISTER_SIGNED_def RELAY_DATA_def RELAY_SESSION_INIT_def
      RELAY_SESSION_RESPONSE_def RELAY_SESSION_DATA_def)

lemma relay_pruned_sel [simp]:
  "rs_seen_nonces (relay_pruned instant now st) = rs_seen_nonces st"
  "hm_ok (rs_peers st) \<Longrightarrow> hm_get (rs_peers (relay_pruned instant now st)) k = Some p \<longleftrightarrow>
     hm_get (rs_peers st) k = Some p \<and> peer_live instant now p"
  "hm_ok (rs_authorization_hints st) \<Longrightarrow> hm_get (rs_authorization_hints (relay_pruned instant now st)) n = Some h \<longleftrightarrow>
     hm_get (rs_authorization_hints st) n = Some h \<and> \<not> hint_is_expired h now"
  by (auto simp: relay_pruned_def peer_live_def hm_get_retain split: option.splits if_splits)

lemma relay_receive_cases:
  "\<not> relay_packet packet \<Longrightarrow> relay_receive X cfg instant now remote packet st = (st, [], True)"
  "relay_packet packet \<Longrightarrow> relay_receive X cfg instant now remote packet st =
     handle_packet X cfg instant now remote packet (relay_pruned instant now st)"
  by (auto simp: relay_receive_def relay_packet_def relay_pruned_def not_less)

lemma handle_packet_cases:
  "packet ! 4 = RELAY_REGISTER_SIGNED \<Longrightarrow> handle_packet X cfg instant now remote packet st =
     (case parse_signed_registration X (drop 5 packet) (rc_trusted_key cfg)
             (ri_relay_id (rc_identity cfg)) (rc_allow_legacy_registration cfg) now of
        None \<Rightarrow> (st, [], True)
      | Some r \<Rightarrow> handle_registration X (rc_identity cfg) instant now remote r st)"
  "packet ! 4 \<noteq> RELAY_REGISTER_SIGNED \<Longrightarrow> fst (handle_packet X cfg instant now remote packet st) = st"
  by (simp_all add: handle_packet_def Let_def split: option.split prod.split)

text \<open>The registration that a packet carries, if the relay accepts it at this time.\<close>

definition relay_accepts :: "'x relay_ops_scheme \<Rightarrow> relay_config \<Rightarrow> u64 \<Rightarrow> bytes \<Rightarrow> authenticated_registration option" where
  "relay_accepts X cfg now packet =
     (if relay_packet packet \<and> packet ! 4 = RELAY_REGISTER_SIGNED
      then parse_signed_registration X (drop 5 packet) (rc_trusted_key cfg) (ri_relay_id (rc_identity cfg))
             (rc_allow_legacy_registration cfg) now
      else None)"

lemma relay_receive_unaccepted:
  "relay_accepts X cfg now packet = None \<Longrightarrow> relay_packet packet \<Longrightarrow>
     fst (relay_receive X cfg instant now remote packet st) = relay_pruned instant now st"
  by (cases "packet ! 4 = RELAY_REGISTER_SIGNED")
    (simp_all add: relay_accepts_def relay_receive_cases(2) handle_packet_cases)

lemma relay_receive_accepted:
  "relay_accepts X cfg now packet = Some r \<Longrightarrow>
     relay_receive X cfg instant now remote packet st =
       handle_registration X (rc_identity cfg) instant now remote r (relay_pruned instant now st)"
  by (auto simp: relay_accepts_def relay_receive_cases(2) handle_packet_cases(1) split: if_splits)

definition nonce_key :: "authenticated_registration \<Rightarrow> network_id \<times> device_id \<times> bytes" where
  "nonce_key r = (fst (ar_key r), snd (ar_key r), ar_nonce r)"

lemma handle_registration_replayed:
  assumes "\<not> fst (nonce_admit REGISTRATION_NONCE_TTL instant (nonce_key r) (rs_seen_nonces st))"
  shows "fst (snd (handle_registration X identity instant now remote r st)) = []
    \<and> rs_peers (fst (handle_registration X identity instant now remote r st)) = rs_peers st
    \<and> rs_authorization_hints (fst (handle_registration X identity instant now remote r st))
      = rs_authorization_hints st"
  using assms by (simp add: handle_registration_def nonce_key_def Let_def split_beta)

section \<open>Reachable states\<close>

inductive relay_reachable :: "'x relay_ops_scheme \<Rightarrow> relay_config \<Rightarrow> relay_state \<Rightarrow> bool"
  for X :: "'x relay_ops_scheme" and cfg :: relay_config where
  start: "relay_reachable X cfg relay_initial"
| receive: "relay_reachable X cfg st \<Longrightarrow>
    relay_reachable X cfg (fst (relay_receive X cfg instant now remote packet st))"

lemma relay_reachable_inv: "relay_reachable X cfg st \<Longrightarrow> relay_inv X (rc_trusted_key cfg) st"
  by (induction rule: relay_reachable.induct) (auto intro: relay_inv_initial relay_receive_inv)

text \<open>
  C17: In every state the relay can reach, a peer filed under a network and a device holds a certificate for
  exactly that network and device that verified under the trusted controller key, has at most 16 candidates,
  all on the address its registration came from, the addresses authorized by its certificate, and none of
  these addresses is held by another device of the same network.
\<close>

theorem relay_peers_certified:
  assumes "relay_reachable X cfg st" and "hm_get (rs_peers st) (n, d) = Some p"
  shows "mcl_network_id (mc_claims (pe_certificate p)) = n
    \<and> mcl_device_id (mc_claims (pe_certificate p)) = d
    \<and> (\<exists>t. certificate_verify_from_controller X (pe_certificate p) (rc_trusted_key cfg) t = Inr ())
    \<and> pe_endpoint p \<in> set (pe_candidates p) \<and> length (pe_candidates p) \<le> 16
    \<and> (\<forall>c \<in> set (pe_candidates p). sock_ip c = sock_ip (pe_endpoint p))
    \<and> set (pe_assigned_addresses p) \<subseteq> set (mcl_assigned_addresses (mc_claims (pe_certificate p)))
    \<and> (\<forall>d' p'. hm_get (rs_peers st) (n, d') = Some p' \<longrightarrow> d' \<noteq> d
         \<longrightarrow> set (pe_assigned_addresses p) \<inter> set (pe_assigned_addresses p') = {})"
proof -
  have inv: "relay_inv X (rc_trusted_key cfg) st" using assms(1) by (rule relay_reachable_inv)
  then have good: "peer_good X (rc_trusted_key cfg) (n, d) p" and dis: "relay_table.disjoint (rs_peers st)"
    using assms(2) by (auto simp: relay_inv_def)
  note g = good [unfolded peer_good_def prod.inject MAX_CANDIDATES_PER_PEER_def]
  show ?thesis
  proof (intro conjI allI impI)
    show "set (pe_assigned_addresses p) \<subseteq> set (mcl_assigned_addresses (mc_claims (pe_certificate p)))"
      using g authorized_addresses_subset [of "pe_certificate p"] by presburger
    show "set (pe_assigned_addresses p) \<inter> set (pe_assigned_addresses p') = {}"
      if "hm_get (rs_peers st) (n, d') = Some p'" "d' \<noteq> d" for d' p'
      using relay_table.disjointD [OF dis assms(2) that(1)] that(2) by simp
  qed (use g in blast)+
qed

text \<open>
  C16: Forwarding. A well-formed data or session packet is sent on, unchanged, exactly when it comes from the
  endpoint at which its source device is registered in the network it names and both registrations are live,
  and exactly to the live destination device of that network, or, for the nil destination, to every other
  live device of that network. Nothing else is sent, and the tables are only pruned.
\<close>

theorem relay_forwarding:
  assumes "relay_reachable X cfg st" and "relay_packet packet" and "packet ! 4 \<in> relay_data_kinds"
  shows "((target, bs) \<in> set (fst (snd (relay_receive X cfg instant now remote packet st))) \<longleftrightarrow>
      bs = packet \<and> (\<exists>n s d p d' q. parse_data_header packet = Some (n, s, d)
        \<and> hm_get (rs_peers st) (n, s) = Some p \<and> peer_live instant now p \<and> pe_endpoint p = remote
        \<and> hm_get (rs_peers st) (n, d') = Some q \<and> peer_live instant now q \<and> pe_endpoint q = target
        \<and> (if d = uuid_nil then d' \<noteq> s else d' = d)))
    \<and> fst (relay_receive X cfg instant now remote packet st) = relay_pruned instant now st"
    (is "?sent \<and> ?state")
proof
  let ?st = "relay_pruned instant now st"
  have ok: "hm_ok (rs_peers st)" using relay_reachable_inv [OF assms(1)] by (simp add: relay_inv_def)
  then have okp: "hm_ok (rs_peers ?st)" by (simp add: relay_pruned_def)
  have reg: "packet ! 4 \<noteq> RELAY_REGISTER_SIGNED" using assms(3) register_not_data by auto
  show ?state using reg by (simp add: relay_receive_cases(2) [OF assms(2)] handle_packet_cases)
  have "fst (snd (relay_receive X cfg instant now remote packet st)) =
      (case parse_data_header packet of None \<Rightarrow> []
       | Some (n, s, d) \<Rightarrow>
           if map_option pe_endpoint (hm_get (rs_peers ?st) (n, s)) \<noteq> Some remote then []
           else map (\<lambda>t. (t, packet)) (relay_targets (rs_peers ?st) (n, s) d))"
    using reg assms(3) unfolding relay_receive_cases(2) [OF assms(2)] handle_packet_def relay_data_kinds_def Let_def
    by (simp split: option.split) blast
  note sent = this
  show ?sent
  proof (cases "parse_data_header packet")
    case None
    then show ?thesis using sent by simp
  next
    case (Some h)
    obtain n s d where h: "parse_data_header packet = Some (n, s, d)" using Some by (cases h) simp
    have "(target, bs) \<in> set (fst (snd (relay_receive X cfg instant now remote packet st))) \<longleftrightarrow>
        bs = packet \<and> (\<exists>p. hm_get (rs_peers ?st) (n, s) = Some p \<and> pe_endpoint p = remote)
          \<and> target \<in> set (relay_targets (rs_peers ?st) (n, s) d)"
      using sent by (auto simp: h)
    then show ?thesis unfolding relay_targets_iff [OF okp] relay_pruned_sel(2) [OF ok] h option.inject prod.inject by blast
  qed
qed

section \<open>Replay protection\<close>

definition relay_step ::
  "'x relay_ops_scheme \<Rightarrow> relay_config \<Rightarrow> datagram_event \<Rightarrow> relay_state \<Rightarrow> relay_state \<times> datagrams \<times> bool" where
  "relay_step X cfg e st = relay_receive X cfg (ev_instant e) (ev_now e) (ev_remote e) (ev_packet e) st"

lemma relay_step_seen:
  "rs_seen_nonces (fst (relay_step X cfg e st)) =
     (case relay_accepts X cfg (ev_now e) (ev_packet e) of
        None \<Rightarrow> rs_seen_nonces st
      | Some r \<Rightarrow> snd (nonce_admit REGISTRATION_NONCE_TTL (ev_instant e) (nonce_key r) (rs_seen_nonces st)))"
proof (cases "relay_accepts X cfg (ev_now e) (ev_packet e)")
  case None
  then show ?thesis
    by (cases "relay_packet (ev_packet e)")
      (simp_all add: relay_step_def relay_receive_cases(1) relay_receive_unaccepted)
next
  case (Some r)
  then show ?thesis
    by (simp add: relay_step_def relay_receive_accepted handle_registration_state nonce_key_def split_beta)
qed

interpretation relay_guard: replay_guard "\<lambda>e st. fst (relay_step X cfg e st)"
    "\<lambda>e. map_option nonce_key (relay_accepts X cfg (ev_now e) (ev_packet e))" rs_seen_nonces for X cfg
  by unfold_locales (simp add: relay_step_seen split: option.split)

lemma relay_accepts_again:
  assumes "relay_accepts X cfg t1 packet = Some r1" and "relay_accepts X cfg t2 packet = Some r2"
  shows "nonce_key r2 = nonce_key r1" and "unat t2 \<le> unat t1 + 240"
proof -
  have p: "parse_signed_registration X (drop 5 packet) (rc_trusted_key cfg) (ri_relay_id (rc_identity cfg))
      (rc_allow_legacy_registration cfg) t1 = Some r1"
    "parse_signed_registration X (drop 5 packet) (rc_trusted_key cfg) (ri_relay_id (rc_identity cfg))
      (rc_allow_legacy_registration cfg) t2 = Some r2"
    using assms by (simp_all add: relay_accepts_def split: if_splits)
  obtain g1 where g1: "parse_registration X (drop 5 packet) = Some g1"
    "rrp_certificates (rr_payload g1) = [ar_certificate r1]" "ar_nonce r1 = rrp_nonce (rr_payload g1)"
    "abs_diff t1 (rrp_issued_at_unix_seconds (rr_payload g1)) \<le> 120"
    "ar_key r1 = (mcl_network_id (mc_claims (ar_certificate r1)), mcl_device_id (mc_claims (ar_certificate r1)))"
    by (rule parse_signed_registrationE [OF p(1)]) (simp add: verify_membership_Inr_iff)
  obtain g2 where g2: "parse_registration X (drop 5 packet) = Some g2"
    "rrp_certificates (rr_payload g2) = [ar_certificate r2]" "ar_nonce r2 = rrp_nonce (rr_payload g2)"
    "abs_diff t2 (rrp_issued_at_unix_seconds (rr_payload g2)) \<le> 120"
    "ar_key r2 = (mcl_network_id (mc_claims (ar_certificate r2)), mcl_device_id (mc_claims (ar_certificate r2)))"
    by (rule parse_signed_registrationE [OF p(2)]) (simp add: verify_membership_Inr_iff)
  have same: "g2 = g1" "ar_certificate r2 = ar_certificate r1" using g1(1,2) g2(1,2) by auto
  show "nonce_key r2 = nonce_key r1" using g1(3,5) g2(3,5) same by (simp add: nonce_key_def)
  show "unat t2 \<le> unat t1 + 240"
    using g1(4) g2(4) unfolding same(1) word_le_nat_alt unat_abs_diff by (auto split: if_splits)
qed

text \<open>
  Replay protection. Once the relay has accepted a registration packet, the same packet received again, at
  any later time, from any endpoint and after any packets in between, sends nothing and registers nothing:
  within five minutes its nonce is still remembered, and afterwards its signed time is too old. The wall clock may
  lag behind the monotonic clock by up to 59 seconds in between.
\<close>

theorem relay_refuses_replay:
  assumes "relay_reachable X cfg st"
    and "relay_accepts X cfg (ev_now e1) (ev_packet e1) = Some r"
    and "sorted (map ev_instant (e1 # es @ [e2]))" and "ev_packet e2 = ev_packet e1"
    and "unat (ev_now e1) + (ev_instant e2 - ev_instant e1) div NANOS_PER_SEC \<le> unat (ev_now e2) + 59"
  shows "fst (snd (relay_step X cfg e2 (fold (\<lambda>e st. fst (relay_step X cfg e st)) (e1 # es) st))) = []
    \<and> rs_peers (fst (relay_step X cfg e2 (fold (\<lambda>e st. fst (relay_step X cfg e st)) (e1 # es) st)))
      = rs_peers (relay_pruned (ev_instant e2) (ev_now e2) (fold (\<lambda>e st. fst (relay_step X cfg e st)) (e1 # es) st))"
proof (cases "relay_accepts X cfg (ev_now e2) (ev_packet e2)")
  case None
  moreover have "relay_packet (ev_packet e2)" "ev_packet e2 ! 4 = RELAY_REGISTER_SIGNED"
    using assms(2,4) by (auto simp: relay_accepts_def split: if_splits)
  ultimately show ?thesis
    by (simp add: relay_step_def relay_accepts_def relay_receive_cases(2) handle_packet_cases(1))
next
  case (Some r2)
  let ?st = "fold (\<lambda>e st. fst (relay_step X cfg e st)) (e1 # es) st" and ?s = "ev_instant e1" and ?u = "ev_instant e2"
  have again: "nonce_key r2 = nonce_key r" "unat (ev_now e2) \<le> unat (ev_now e1) + 240"
    using relay_accepts_again [of X cfg "ev_now e1" "ev_packet e1" r "ev_now e2" r2] assms(2,4) Some by simp_all
  have near: "?u - ?s \<le> REGISTRATION_NONCE_TTL"
    by (rule nonce_instant_near [OF again(2) _ assms(5)]) simp
  have ok: "hm_ok (rs_seen_nonces st)" using relay_reachable_inv [OF assms(1)] by (simp add: relay_inv_def)
  have "\<not> fst (nonce_admit REGISTRATION_NONCE_TTL ?u (nonce_key r2) (rs_seen_nonces ?st))"
    by (rule relay_guard.refuses [OF ok _ assms(3) near]) (simp add: assms(2) again(1))
  then show ?thesis
    using handle_registration_replayed [of ?u r2 "relay_pruned ?u (ev_now e2) ?st" X "rc_identity cfg"]
    by (simp add: relay_step_def relay_receive_accepted [OF Some])
qed

section \<open>Changes of the tables\<close>

lemma relay_receive_new_peer:
  assumes "relay_inv X tk st" and "hm_get (rs_peers (fst (relay_receive X cfg instant now remote packet st))) k = Some p"
    and "hm_get (rs_peers st) k \<noteq> Some p"
  obtains r where "relay_accepts X cfg now packet = Some r" and "k = ar_key r"
    and "p = relay_entry instant remote r"
proof (cases "relay_accepts X cfg now packet")
  case None
  have ok: "hm_ok (rs_peers st)" using assms(1) by (simp add: relay_inv_def)
  then have "hm_get (rs_peers st) k = Some p"
    using assms(2) None
    by (cases "relay_packet packet") (simp_all add: relay_receive_cases(1) relay_receive_unaccepted)
  then show ?thesis using assms(3) by simp
next
  case (Some r)
  have ok: "hm_ok (rs_peers st)" using assms(1) by (simp add: relay_inv_def)
  have "hm_get (rs_peers (relay_pruned instant now st)) k \<noteq> Some p" using assms(3) ok by simp
  then have "k = ar_key r \<and> p = relay_entry instant remote r"
    using assms(2) by (auto simp: relay_receive_accepted [OF Some] handle_registration_state split_beta
        split: if_splits)
  then show ?thesis using that Some by blast
qed

text \<open>
  The relay's table gains or changes an entry only for a registration packet that its device signed for
  this relay (or for no relay, where legacy registrations are enabled) within two minutes, with a certificate
  for that network and device and a current manifest that authorizes the certificate, both signed by the
  trusted controller. The entry is reachable at the endpoint the packet came from and ends with the manifest.
\<close>

theorem relay_entry_is_signed:
  assumes "relay_reachable X cfg st"
    and "hm_get (rs_peers (fst (relay_receive X cfg instant now remote packet st))) (n, d) = Some p"
    and "hm_get (rs_peers st) (n, d) \<noteq> Some p"
    and "signs_only X (mcl_device_public_key (mc_claims (pe_certificate p))) M"
  shows "\<exists>reg msg m. parse_registration X (drop 5 packet) = Some reg
    \<and> registration_signature_message X (rr_payload reg) = Inr msg \<and> msg \<in> M
    \<and> abs_diff now (rrp_issued_at_unix_seconds (rr_payload reg)) \<le> 120
    \<and> (rrp_target (rr_payload reg) = Some \<lparr>rrt_service_kind = RelayService,
           rrt_service_id = ri_relay_id (rc_identity cfg)\<rparr>
       \<or> rc_allow_legacy_registration cfg \<and> rrp_target (rr_payload reg) = None)
    \<and> rrp_device_id (rr_payload reg) = d \<and> rrp_certificates (rr_payload reg) = [pe_certificate p]
    \<and> certificate_verify_from_controller X (pe_certificate p) (rc_trusted_key cfg) now = Inr ()
    \<and> m \<in> set (rrp_authorization_manifests (rr_payload reg)) \<and> nam_network_id m = n
    \<and> authorization_verify_from_controller X m (rc_trusted_key cfg) now = Inr ()
    \<and> authorizes m (pe_certificate p)
    \<and> pe_endpoint p = remote \<and> pe_authorization_expires_at_unix_seconds p = nam_expires_at_unix_seconds m"
proof -
  obtain r where r: "relay_accepts X cfg now packet = Some r" "(n, d) = ar_key r" "p = relay_entry instant remote r"
    using relay_receive_new_peer [OF relay_reachable_inv [OF assms(1)] assms(2,3)] by blast
  have parse: "parse_signed_registration X (drop 5 packet) (rc_trusted_key cfg) (ri_relay_id (rc_identity cfg))
      (rc_allow_legacy_registration cfg) now = Some r"
    using r(1) by (simp add: relay_accepts_def split: if_splits)
  have cert: "pe_certificate p = ar_certificate r" using r(3) by simp
  from parse show ?thesis
  proof (rule parse_signed_registrationE)
    fix reg target m
    assume reg: "parse_registration X (drop 5 packet) = Some reg"
      "rrp_certificates (rr_payload reg) = [ar_certificate r]"
      and mem: "registration_verify_membership X reg [rc_trusted_key cfg] now 120 target = Inr ()"
      and set: "registration_verify_authorization_set X reg [rc_trusted_key cfg] now True = Inr ()"
      and target: "target = Some \<lparr>rrt_service_kind = RelayService, rrt_service_id = ri_relay_id (rc_identity cfg)\<rparr>
        \<or> rc_allow_legacy_registration cfg \<and> target = None"
      and key: "ar_key r = (mcl_network_id (mc_claims (ar_certificate r)), mcl_device_id (mc_claims (ar_certificate r)))"
      and m: "m \<in> set (rrp_authorization_manifests (rr_payload reg))" "nam_network_id m = fst (ar_key r)"
      and ends: "ar_authorization_expires_at_unix_seconds r = nam_expires_at_unix_seconds m"
    note v = mem [unfolded verify_membership_Inr_iff registration_check_target_Inr_iff
        registration_check_certificate_Inr_iff reg(2)]
    have adm: "manifest_admitted X [rc_trusted_key cfg] now (ar_certificate r) m"
      using set m reg(2) key by (simp add: authorization_set_Inr_iff)
    obtain msg where msg: "registration_signature_message X (rr_payload reg) = Inr msg" "msg \<in> M"
      using v signs_onlyD [OF assms(4)] by (auto simp: cert)
    have "rrp_device_id (rr_payload reg) = d \<and> nam_network_id m = n" using v r(2) key m(2) by simp
    then show ?thesis
      using reg msg v target m(1) adm ends r(3)
      by (intro exI [of _ reg] exI [of _ msg] exI [of _ m]) (simp add: cert manifest_admitted_def)
  qed
qed

text \<open>
  The authorization hint that the relay hands out for a network never goes back: as long as it has not
  expired, a packet leaves it as it is or replaces it by one that supersedes it, which never lowers the epoch.
\<close>

theorem relay_hint_monotone:
  assumes "relay_reachable X cfg st" and "hm_get (rs_authorization_hints st) n = Some h"
    and "\<not> hint_is_expired h now"
  shows "\<exists>h'. hm_get (rs_authorization_hints (fst (relay_receive X cfg instant now remote packet st))) n = Some h'
    \<and> (h' = h \<or> hint_supersedes h' h) \<and> aeh_authorization_epoch h \<le> aeh_authorization_epoch h'"
proof -
  have ok: "hm_ok (rs_authorization_hints st)"
    using relay_reachable_inv [OF assms(1)] by (simp add: relay_inv_def)
  have keep: "hm_get (rs_authorization_hints (relay_pruned instant now st)) n = Some h" using ok assms(2,3) by simp
  have update: "\<exists>h'. hm_get (update_hint n' new hints) n = Some h' \<and> (h' = h \<or> hint_supersedes h' h)"
    if "hm_get hints n = Some h" for n' new hints
    using that by (cases "n' = n") (auto simp: update_hint_def split: option.split)
  have "\<exists>h'. hm_get (rs_authorization_hints (fst (relay_receive X cfg instant now remote packet st))) n = Some h'
    \<and> (h' = h \<or> hint_supersedes h' h)"
  proof (cases "relay_accepts X cfg now packet")
    case None
    then show ?thesis
      using keep assms(2) by (cases "relay_packet packet") (auto simp: relay_receive_cases(1) relay_receive_unaccepted)
  next
    case (Some r)
    then show ?thesis
      using keep update [OF keep] by (simp add: relay_receive_accepted handle_registration_state split_beta)
  qed
  then show ?thesis using hint_supersedes_order(3) by blast
qed

section \<open>Frames\<close>

lemma u32_to_be_of_be: "length bs = 4 \<Longrightarrow> u32_to_be (u32_of_be bs) = bs"
  using be_to_nat_bound [of bs] nat_to_be_of_be [of bs] by (simp add: u32_to_be_def u32_of_be_def unat_of_nat)

text \<open>
  A frame written to the TCP stream is read back as it was, whatever follows it, and the reader never
  accepts an empty frame or one of more than 65535 bytes: a frame is read exactly when the stream starts
  with the writer's encoding of it.
\<close>

theorem tcp_frame_roundtrip:
  "read_tcp_frame stream = Inr (Some (frame, rest)) \<longleftrightarrow>
     (\<exists>bs. write_tcp_frame frame = Inr bs \<and> stream = bs @ rest)"
proof
  assume "\<exists>bs. write_tcp_frame frame = Inr bs \<and> stream = bs @ rest"
  then have len: "0 < length frame" "length frame \<le> 65535"
    and s: "stream = u32_to_be (of_nat (length frame)) @ frame @ rest"
    by (auto simp: write_tcp_frame_def MAX_TCP_FRAME_BYTES_def split: if_splits)
  have "unat (of_nat (length frame) :: u32) = length frame" using len by (simp add: unat_of_nat)
  then show "read_tcp_frame stream = Inr (Some (frame, rest))"
    using len by (simp add: read_tcp_frame_def s MAX_TCP_FRAME_BYTES_def)
next
  assume "read_tcp_frame stream = Inr (Some (frame, rest))"
  then have r: "4 \<le> length stream" "frame = take (unat (u32_of_be (take 4 stream))) (drop 4 stream)"
    "rest = drop (unat (u32_of_be (take 4 stream))) (drop 4 stream)"
    "unat (u32_of_be (take 4 stream)) \<noteq> 0" "unat (u32_of_be (take 4 stream)) \<le> 65535"
    "unat (u32_of_be (take 4 stream)) \<le> length (drop 4 stream)"
    by (auto simp: read_tcp_frame_def Let_def MAX_TCP_FRAME_BYTES_def not_less split: if_splits)
  have len: "length frame = unat (u32_of_be (take 4 stream))" using r by simp
  have "u32_to_be (of_nat (length frame)) = take 4 stream" unfolding len using r(1) by (simp add: u32_to_be_of_be)
  then have "write_tcp_frame frame = Inr (take 4 stream @ frame)"
    using r len by (auto simp: write_tcp_frame_def MAX_TCP_FRAME_BYTES_def)
  moreover have "stream = (take 4 stream @ frame) @ rest" unfolding r(2,3) by (simp only: append_assoc append_take_drop_id)
  ultimately show "\<exists>bs. write_tcp_frame frame = Inr bs \<and> stream = bs @ rest" by blast
qed

section \<open>Instances\<close>

definition sample_hint :: authorization_epoch_hint where
  "sample_hint = \<lparr>aeh_version = 1, aeh_network_id = 5, aeh_authorization_epoch = 7, aeh_network_key_epoch = 2,
     aeh_issued_at_unix_seconds = 100, aeh_expires_at_unix_seconds = 400,
     aeh_controller_public_key = replicate 32 6, aeh_signature = replicate 64 0\<rparr>"

definition hinted_manifest :: network_authorization_manifest where
  "hinted_manifest = sample_manifest\<lparr>nam_epoch_hint := Some sample_hint\<rparr>"

definition hinted_registration :: root_registration where
  "hinted_registration = sample_registration\<lparr>rr_payload :=
     (rr_payload sample_registration)\<lparr>rrp_authorization_manifests := [hinted_manifest]\<rparr>\<rparr>"

definition sample_relay_ops :: relay_ops where
  "sample_relay_ops = (const_relay (sample_prims\<lparr>ed_verify :=
       \<lambda>pk m s. m \<in> {TARGET_BOUND_REGISTRATION_DOMAIN @ [31], [2], [4], EPOCH_HINT_DOMAIN @ [3]}\<rparr>))
     \<lparr>parse_registration := \<lambda>_. Some hinted_registration\<rparr>"

definition sample_relay_config :: relay_config where
  "sample_relay_config = \<lparr>rc_trusted_key = replicate 32 6,
     rc_identity = \<lparr>ri_relay_id = 3, ri_current = replicate 32 1, ri_next = None\<rparr>,
     rc_allow_legacy_registration = False\<rparr>"

definition sample_endpoint :: socket_addr where
  "sample_endpoint = SocketV4 0x08080404 4000"

definition sample_register_packet :: bytes where
  "sample_register_packet = RELAY_MAGIC @ [RELAY_REGISTER_SIGNED]"

definition sample_accepted :: authenticated_registration where
  "sample_accepted = \<lparr>ar_key = (5, 1), ar_certificate = sample_certificate, ar_nonce = replicate 16 0,
     ar_authorization_expires_at_unix_seconds = 400, ar_authorization_hint = Some sample_hint, ar_candidates = []\<rparr>"

lemmas sample_relay_simps = sample_relay_ops_def const_relay_simps sample_prims_def

lemma sample_relay_documents:
  "certificate_verify_from_controller sample_relay_ops sample_certificate (replicate 32 6) now = Inr ()"
  "manifest_admitted sample_relay_ops [replicate 32 6] 300 sample_certificate hinted_manifest"
  by (simp_all add: certificate_verify_Inr_iff certificate_message_def sample_certificate_def sample_claims_def
      authorization_verify_Inr_iff hinted_manifest_def sample_manifest_def sample_member_def AUTHORIZATION_MANIFEST_VERSION_def
      saturating_add_def authorizes_def manifest_admitted_def sample_relay_simps
      sample_hint_def hint_verify_Inr_iff AUTHORIZATION_EPOCH_HINT_VERSION_def)

lemma sample_relay_registration:
  assumes "abs_diff now 290 \<le> 120"
  shows "registration_verify_membership sample_relay_ops hinted_registration [replicate 32 6] now 120
      (Some \<lparr>rrt_service_kind = RelayService, rrt_service_id = 3\<rparr>) = Inr ()"
    and "registration_verify_authorization_set sample_relay_ops hinted_registration [replicate 32 6] 300 True = Inr ()"
proof -
  have "registration_signature_message sample_relay_ops (rr_payload hinted_registration)
      = Inr (TARGET_BOUND_REGISTRATION_DOMAIN @ [31])"
    by (simp add: registration_signature_message_def hinted_registration_def sample_registration_def registration_versions sample_relay_simps)
  moreover have "ed_verify sample_relay_ops pk (TARGET_BOUND_REGISTRATION_DOMAIN @ [31]) s"
    "ed_key_ok sample_relay_ops pk" for pk s
    by (simp_all add: sample_relay_simps)
  ultimately show "registration_verify_membership sample_relay_ops hinted_registration [replicate 32 6]
      now 120 (Some \<lparr>rrt_service_kind = RelayService, rrt_service_id = 3\<rparr>) = Inr ()"
    using sample_relay_documents(1) [of now] assms
    unfolding verify_membership_Inr_iff registration_check_target_Inr_iff registration_check_certificate_Inr_iff
    by simp (simp add: hinted_registration_def sample_registration_def sample_certificate_def sample_claims_def registration_versions)
  show "registration_verify_authorization_set sample_relay_ops hinted_registration
      [replicate 32 6] 300 True = Inr ()"
    using sample_relay_documents(2)
    by (simp add: authorization_set_Inr_iff hinted_registration_def sample_registration_def)
      (simp add: hinted_manifest_def sample_manifest_def sample_certificate_def sample_claims_def)
qed

lemma sample_relay_accepts:
  "relay_accepts sample_relay_ops sample_relay_config 300 sample_register_packet = Some sample_accepted"
proof -
  have "registration_verify_authorized_for_service sample_relay_ops hinted_registration [replicate 32 6] 300 120
      RelayService 3 = Inr ()"
    using sample_relay_registration [of 300] by (simp add: registration_verify_authorized_for_service_def abs_diff_def)
  moreover have "parse_registration sample_relay_ops bs = Some hinted_registration" for bs
    by (simp add: sample_relay_ops_def)
  ultimately show ?thesis
    by (simp add: relay_accepts_def relay_packet_def sample_register_packet_def RELAY_MAGIC_def
        parse_signed_registration_def sample_relay_config_def Let_def)
      (simp add: hinted_registration_def sample_registration_def registration_versions is_ok_def sample_certificate_def sample_claims_def
        hinted_manifest_def sample_manifest_def sample_accepted_def)
qed

definition sample_relay_state :: relay_state where
  "sample_relay_state =
     fst (relay_receive sample_relay_ops sample_relay_config 0 300 sample_endpoint sample_register_packet relay_initial)"

lemma sample_relay_state_reachable: "relay_reachable sample_relay_ops sample_relay_config sample_relay_state"
  unfolding sample_relay_state_def by (intro relay_reachable.intros)

lemma sample_relay_state_peer:
  "hm_get (rs_peers sample_relay_state) (5, 1) = Some (relay_entry 0 sample_endpoint sample_accepted)"
proof -
  have pruned: "relay_pruned 0 300 relay_initial = relay_initial"
    by (simp add: relay_pruned_def relay_initial_def hm_retain_def)
  have "ar_key sample_accepted = (5, 1)" by (simp add: sample_accepted_def)
  then show ?thesis
    by (simp add: sample_relay_state_def relay_receive_accepted [OF sample_relay_accepts] handle_registration_state
        pruned) (simp add: relay_initial_def nonce_admit_def has_address_conflict_def hm_retain_def)
qed

theorem relay_peers_certified_witness:
  "mcl_network_id (mc_claims (pe_certificate (relay_entry 0 sample_endpoint sample_accepted))) = 5
    \<and> hm_get (rs_peers sample_relay_state) (5, 1) = Some (relay_entry 0 sample_endpoint sample_accepted)"
  using relay_peers_certified [OF sample_relay_state_reachable sample_relay_state_peer] sample_relay_state_peer by blast

definition sample_data_packet :: bytes where
  "sample_data_packet = RELAY_MAGIC @ [RELAY_DATA] @ u128_to_be 5 @ u128_to_be 1 @ u128_to_be 1"

theorem relay_forwarding_witness:
  "(sample_endpoint, sample_data_packet) \<in> set (fst (snd (relay_receive sample_relay_ops sample_relay_config 10 310
     sample_endpoint sample_data_packet sample_relay_state)))"
proof -
  have kind: "relay_packet sample_data_packet" "sample_data_packet ! 4 \<in> relay_data_kinds"
    by (simp_all add: relay_packet_def sample_data_packet_def RELAY_MAGIC_def relay_data_kinds_def)
  have header: "parse_data_header sample_data_packet = Some (5, 1, 1)"
    by (simp add: parse_data_header_def sample_data_packet_def RELAY_MAGIC_def RELAY_DATA_HEADER_LEN_def slice_def
        uuid_from_slice_def)
  have live: "peer_live 10 310 (relay_entry 0 sample_endpoint sample_accepted)"
    by (simp add: peer_live_def sample_accepted_def PEER_TTL_def NANOS_PER_SEC_def)
  show ?thesis
    unfolding relay_forwarding [OF sample_relay_state_reachable kind, THEN conjunct1] header
    using sample_relay_state_peer live by simp
qed

theorem relay_refuses_replay_witness:
  "fst (snd (relay_step sample_relay_ops sample_relay_config
     \<lparr>ev_instant = 10, ev_now = 310, ev_remote = sample_endpoint, ev_packet = sample_register_packet\<rparr>
     (fold (\<lambda>e st. fst (relay_step sample_relay_ops sample_relay_config e st))
       [\<lparr>ev_instant = 0, ev_now = 300, ev_remote = sample_endpoint, ev_packet = sample_register_packet\<rparr>]
       relay_initial))) = []"
  using relay_refuses_replay [OF relay_reachable.start, of sample_relay_ops sample_relay_config
      "\<lparr>ev_instant = 0, ev_now = 300, ev_remote = sample_endpoint, ev_packet = sample_register_packet\<rparr>"
      sample_accepted "[]"
      "\<lparr>ev_instant = 10, ev_now = 310, ev_remote = sample_endpoint, ev_packet = sample_register_packet\<rparr>"]
    sample_relay_accepts
  by (simp add: NANOS_PER_SEC_def)

theorem relay_entry_is_signed_witness:
  "\<exists>reg m. parse_registration sample_relay_ops (drop 5 sample_register_packet) = Some reg
    \<and> authorization_verify_from_controller sample_relay_ops m (replicate 32 6) 300 = Inr ()
    \<and> authorizes m sample_certificate"
proof -
  have "signs_only sample_relay_ops pk {TARGET_BOUND_REGISTRATION_DOMAIN @ [31], [2], [4], EPOCH_HINT_DOMAIN @ [3]}" for pk
    by (simp add: signs_only_def sample_relay_simps)
  from relay_entry_is_signed [OF relay_reachable.start sample_relay_state_peer [unfolded sample_relay_state_def] _ this]
  show ?thesis
    by (simp add: relay_initial_def sample_relay_config_def) (auto simp: sample_accepted_def)
qed

lemma sample_relay_state_hint: "hm_get (rs_authorization_hints sample_relay_state) 5 = Some sample_hint"
proof -
  have pruned: "relay_pruned 0 300 relay_initial = relay_initial"
    by (simp add: relay_pruned_def relay_initial_def hm_retain_def)
  have "ar_key sample_accepted = (5, 1)" "ar_authorization_hint sample_accepted = Some sample_hint"
    by (simp_all add: sample_accepted_def)
  then show ?thesis
    by (simp add: sample_relay_state_def relay_receive_accepted [OF sample_relay_accepts] handle_registration_state
        pruned) (simp add: relay_initial_def nonce_admit_def has_address_conflict_def hm_retain_def update_hint_def)
qed

theorem relay_hint_monotone_witness:
  "\<exists>h'. hm_get (rs_authorization_hints (fst (relay_receive sample_relay_ops sample_relay_config 10 310
       sample_endpoint sample_register_packet sample_relay_state))) 5 = Some h' \<and> 7 \<le> aeh_authorization_epoch h'"
proof -
  have "\<not> hint_is_expired sample_hint 310" by (simp add: hint_is_expired_def sample_hint_def)
  moreover have "aeh_authorization_epoch sample_hint = 7" by (simp add: sample_hint_def)
  ultimately show ?thesis
    using relay_hint_monotone [OF sample_relay_state_reachable sample_relay_state_hint] by metis
qed

end
