(* ===== verification/Root_Server.thy ===== *)
theory Root_Server
  imports Root_Protocol Nonce_Cache Peer_Table
begin

text \<open>
  The root discovery service (\<^verbatim>\<open>crates/meshlake-root/src/main.rs\<close>): its tables, the processing of a
  registration and the receive loop. As for the relay, a step takes the monotonic clock and the wall clock
  as read once for the datagram and returns the new tables, also on the error paths, which keep the changes made
  before the error. The Base64 decoding of the controller keys, the configuration file and the
  autostart integration are not modelled.
\<close>

definition MAX_DATAGRAM_SIZE :: nat where "MAX_DATAGRAM_SIZE = 65507"
definition MAX_CERTIFICATES_PER_REGISTRATION :: nat where "MAX_CERTIFICATES_PER_REGISTRATION = 64"
definition ROOT_MAX_CANDIDATES_PER_PEER :: nat where "ROOT_MAX_CANDIDATES_PER_PEER = 16"
definition MAX_ADDRESSES_PER_PEER :: nat where "MAX_ADDRESSES_PER_PEER = 16"
definition MAX_PEERS_PER_RESPONSE :: nat where "MAX_PEERS_PER_RESPONSE = 64"

text \<open>The settings that the service reads while it runs; paths and the bind address are not among them.\<close>

record root_config =
  rcf_controller_public_keys :: "bytes list"
  rcf_peer_ttl_seconds :: u64
  rcf_maximum_clock_skew_seconds :: u64
  rcf_allow_legacy_registration :: bool

definition root_config_default :: root_config where
  "root_config_default = \<lparr>rcf_controller_public_keys = [], rcf_peer_ttl_seconds = 90,
     rcf_maximum_clock_skew_seconds = 120, rcf_allow_legacy_registration = False\<rparr>"

record root_peer_record =
  rpe_candidates :: "socket_addr list"
  rpe_assigned_addresses :: "ip_addr list"
  rpe_certificate :: membership_certificate
  rpe_authorization_expires_at_unix_seconds :: u64
  rpe_last_seen :: nat

record root_state =
  rt_peers :: "(peer_key, root_peer_record) hash_map"
  rt_seen_nonces :: "(bytes, nat) hash_map"
  rt_authorization_hints :: "(network_id, authorization_epoch_hint) hash_map"

definition root_initial :: root_state where
  "root_initial = \<lparr>rt_peers = [], rt_seen_nonces = [], rt_authorization_hints = []\<rparr>"

record root_server_ops = root_ops +
  json_signed_root_response :: "signed_root_response \<Rightarrow> bytes option"

datatype root_server_error =
    TooManyMemberships
  | RegistrationAuthenticationFailed
  | RegistrationNonceReused
  | TooManyVirtualAddresses
  | InvalidVirtualAddress
  | MissingAuthorizationManifest
  | DuplicateNetworkMembership
  | VirtualAddressConflict

fun root_error_message :: "root_server_error \<Rightarrow> string" where
  "root_error_message TooManyMemberships = ''registration contains too many memberships''"
| "root_error_message RegistrationAuthenticationFailed = ''registration authentication failed''"
| "root_error_message RegistrationNonceReused = ''registration nonce was already used''"
| "root_error_message TooManyVirtualAddresses = ''membership contains too many virtual addresses''"
| "root_error_message InvalidVirtualAddress = ''membership contains an invalid virtual address''"
| "root_error_message MissingAuthorizationManifest =
     ''verified registration is missing its authorization manifest''"
| "root_error_message DuplicateNetworkMembership =
     ''registration contains duplicate memberships for one network''"
| "root_error_message VirtualAddressConflict = ''registration conflicts with an existing virtual address''"

section \<open>Processing a registration\<close>

definition root_verify_registration ::
  "'x root_server_ops_scheme \<Rightarrow> root_registration \<Rightarrow> bytes list \<Rightarrow> u64 \<Rightarrow> u64 \<Rightarrow> uuid \<Rightarrow> bool
     \<Rightarrow> root_protocol_error + unit" where
  "root_verify_registration X registration keys now skew root_id allow_legacy =
     (let version = rrp_version (rr_payload registration)
      in if version = ROOT_REGISTRATION_PROTOCOL_VERSION_LEGACY then
           (if allow_legacy then registration_verify_authorized X registration keys now skew
            else Inl LegacyRegistrationDisabled)
         else if version = ROOT_REGISTRATION_PROTOCOL_VERSION_TARGET_BOUND then
           registration_verify_authorized_for_service X registration keys now skew RootService root_id
         else Inl RootUnsupportedVersion)"

definition root_candidates :: "socket_addr \<Rightarrow> socket_addr list \<Rightarrow> socket_addr list" where
  "root_candidates observed_endpoint candidates =
     take ROOT_MAX_CANDIDATES_PER_PEER (remdups_adj (sort
       (observed_endpoint # filter (\<lambda>c. sock_port c \<noteq> 0 \<and> \<not> ip_is_unspecified (sock_ip c)) candidates)))"

fun root_update_hints ::
  "network_authorization_manifest list \<Rightarrow> (network_id, authorization_epoch_hint) hash_map
     \<Rightarrow> (network_id, authorization_epoch_hint) hash_map" where
  "root_update_hints [] hints = hints"
| "root_update_hints (authorization # rest) hints =
     root_update_hints rest
       (case nam_epoch_hint authorization of
          None \<Rightarrow> hints
        | Some hint \<Rightarrow>
            if (case hm_get hints (aeh_network_id hint) of None \<Rightarrow> True | Some current \<Rightarrow> hint_supersedes hint current)
            then hm_insert (aeh_network_id hint) hint hints
            else hints)"

type_synonym root_membership = "ip_addr list \<times> membership_certificate \<times> u64"

fun root_memberships ::
  "network_authorization_manifest list \<Rightarrow> membership_certificate list
     \<Rightarrow> (network_id, root_membership) hash_map \<Rightarrow> root_server_error + (network_id, root_membership) hash_map" where
  "root_memberships manifests [] memberships = Inr memberships"
| "root_memberships manifests (certificate # rest) memberships =
     (let claims = mc_claims certificate
      in if length (mcl_assigned_addresses claims) > MAX_ADDRESSES_PER_PEER then Inl TooManyVirtualAddresses
         else if list_ex (\<lambda>a. ip_is_unspecified a \<or> ip_is_multicast a) (mcl_assigned_addresses claims)
         then Inl InvalidVirtualAddress
         else
           let addresses = remdups_adj (sort (filter (\<lambda>a. \<not> ip_is_unspecified a \<and> \<not> ip_is_multicast a)
                 (mcl_assigned_addresses claims)))
           in case find (\<lambda>a. nam_network_id a = mcl_network_id claims) manifests of
                None \<Rightarrow> Inl MissingAuthorizationManifest
              | Some authorization \<Rightarrow>
                  if hm_get memberships (mcl_network_id claims) \<noteq> None then Inl DuplicateNetworkMembership
                  else root_memberships manifests rest
                         (hm_insert (mcl_network_id claims)
                            (addresses, certificate, nam_expires_at_unix_seconds authorization) memberships))"

definition root_address_conflict ::
  "(peer_key, root_peer_record) hash_map \<Rightarrow> peer_key \<Rightarrow> ip_addr list \<Rightarrow> bool" where
  "root_address_conflict peers registering addresses =
     list_ex (\<lambda>(k, peer). fst k = fst registering \<and> snd k \<noteq> snd registering
        \<and> list_ex (\<lambda>a. a \<in> set addresses) (rpe_assigned_addresses peer)) peers"

definition root_discovered ::
  "(peer_key, root_peer_record) hash_map \<Rightarrow> (network_id, root_membership) hash_map \<Rightarrow> device_id \<Rightarrow> root_peer list" where
  "root_discovered peers memberships device =
     sort_key (\<lambda>p. (rp_network_id p, rp_device_id p))
       (take MAX_PEERS_PER_RESPONSE
         (map (\<lambda>(k, peer). \<lparr>rp_network_id = fst k, rp_device_id = snd k, rp_candidates = rpe_candidates peer,
              rp_assigned_addresses = mcl_assigned_addresses (mc_claims (rpe_certificate peer)),
              rp_certificate = Some (rpe_certificate peer)\<rparr>)
           (filter (\<lambda>(k, peer). hm_get memberships (fst k) \<noteq> None \<and> snd k \<noteq> device) peers)))"

definition root_entries ::
  "nat \<Rightarrow> device_id \<Rightarrow> socket_addr list \<Rightarrow> (network_id, root_membership) hash_map
     \<Rightarrow> (peer_key \<times> root_peer_record) list" where
  "root_entries instant device candidates memberships =
     map (\<lambda>(network, addresses, certificate, expires).
       ((network, device), \<lparr>rpe_candidates = candidates, rpe_assigned_addresses = addresses,
          rpe_certificate = certificate, rpe_authorization_expires_at_unix_seconds = expires,
          rpe_last_seen = instant\<rparr>)) memberships"

definition root_pruned :: "nat \<Rightarrow> nat \<Rightarrow> u64 \<Rightarrow> root_state \<Rightarrow> root_state" where
  "root_pruned peer_ttl instant now st =
     st\<lparr>rt_authorization_hints := hm_retain (\<lambda>_ h. \<not> hint_is_expired h now) (rt_authorization_hints st),
        rt_peers := hm_retain (\<lambda>_ peer. instant - rpe_last_seen peer \<le> peer_ttl
          \<and> now \<le> rpe_authorization_expires_at_unix_seconds peer) (rt_peers st)\<rparr>"

definition root_refresh_after_seconds :: "nat \<Rightarrow> u32" where
  "root_refresh_after_seconds peer_ttl = of_nat (max 10 (min 60 (peer_ttl div NANOS_PER_SEC div 3)))"

definition process_registration ::
  "'x root_server_ops_scheme \<Rightarrow> root_registration \<Rightarrow> socket_addr \<Rightarrow> uuid \<Rightarrow> bool \<Rightarrow> bytes list \<Rightarrow> u64 \<Rightarrow> nat
     \<Rightarrow> nat \<Rightarrow> u64 \<Rightarrow> root_state \<Rightarrow> root_state \<times> (root_server_error + root_response)" where
  "process_registration X registration observed root_id allow_legacy keys skew peer_ttl instant now st =
     (let p = rr_payload registration
      in if length (rrp_certificates p) > MAX_CERTIFICATES_PER_REGISTRATION then (st, Inl TooManyMemberships)
         else if \<not> is_ok (root_verify_registration X registration keys now skew root_id allow_legacy)
         then (st, Inl RegistrationAuthenticationFailed)
         else
           let (fresh, seen) = nonce_admit REGISTRATION_NONCE_TTL instant (rrp_nonce p) (rt_seen_nonces st);
               st = st\<lparr>rt_seen_nonces := seen\<rparr>
           in if \<not> fresh then (st, Inl RegistrationNonceReused)
              else
                let st = root_pruned peer_ttl instant now st;
                    candidates = root_candidates observed (rrp_candidates p);
                    st = st\<lparr>rt_authorization_hints :=
                      root_update_hints (rrp_authorization_manifests p) (rt_authorization_hints st)\<rparr>
                in case root_memberships (rrp_authorization_manifests p) (rrp_certificates p) [] of
                     Inl e \<Rightarrow> (st, Inl e)
                   | Inr memberships \<Rightarrow>
                       if list_ex (\<lambda>(n, addresses, _). root_address_conflict (rt_peers st)
                            (n, rrp_device_id p) addresses) memberships
                       then (st, Inl VirtualAddressConflict)
                       else
                         (st\<lparr>rt_peers := fold (\<lambda>(k, peer). hm_insert k peer)
                               (root_entries instant (rrp_device_id p) candidates memberships) (rt_peers st)\<rparr>,
                          Inr (Registered observed
                            (root_discovered (rt_peers st) memberships (rrp_device_id p))
                            (root_refresh_after_seconds peer_ttl)
                            (List.map_filter (\<lambda>(n, _). hm_get (rt_authorization_hints st) n) memberships))))"

section \<open>The receive loop\<close>

record root_runtime =
  rr_identity :: uuid
  rr_signing_keys :: "bytes list"
  rr_config :: root_config

definition root_peer_ttl :: "root_config \<Rightarrow> nat" where
  "root_peer_ttl cfg = unat (max 30 (min 600 (rcf_peer_ttl_seconds cfg))) * NANOS_PER_SEC"

definition root_clock_skew :: "root_config \<Rightarrow> u64" where
  "root_clock_skew cfg = max 30 (min 600 (rcf_maximum_clock_skew_seconds cfg))"

text \<open>The signed answer and whether the loop goes on.\<close>

definition root_receive ::
  "'x root_server_ops_scheme \<Rightarrow> root_runtime \<Rightarrow> nat \<Rightarrow> u64 \<Rightarrow> socket_addr \<Rightarrow> bytes \<Rightarrow> root_state
     \<Rightarrow> root_state \<times> (socket_addr \<times> bytes) list \<times> bool" where
  "root_receive X rt instant now remote datagram st =
     (case parse_registration X datagram of
        None \<Rightarrow> (st, [], True)
      | Some registration \<Rightarrow>
          let (st, result) = process_registration X registration remote (rr_identity rt)
                (rcf_allow_legacy_registration (rr_config rt)) (rcf_controller_public_keys (rr_config rt))
                (root_clock_skew (rr_config rt)) (root_peer_ttl (rr_config rt)) instant now st;
              response = (case result of Inl e \<Rightarrow> RootError (root_error_message e) | Inr registered \<Rightarrow> registered)
          in (case root_response_sign_with_identity X (rrp_nonce (rr_payload registration)) response
                    (rr_identity rt) (rr_signing_keys rt) of
               Inl _ \<Rightarrow> (st, [], False)
             | Inr signed_response \<Rightarrow>
                 (case json_signed_root_response X signed_response of
                    None \<Rightarrow> (st, [], False)
                  | Some encoded \<Rightarrow>
                      (st, (if length encoded \<le> MAX_DATAGRAM_SIZE then [(remote, encoded)] else []), True))))"

section \<open>The stages of a registration\<close>

interpretation root_table: peer_table rpe_assigned_addresses root_address_conflict
  by unfold_locales (simp only: root_address_conflict_def list_ex_shared list_ex_hash_map)

definition certificate_addresses :: "membership_certificate \<Rightarrow> ip_addr list" where
  "certificate_addresses c = remdups_adj (sort (filter (\<lambda>a. \<not> ip_is_unspecified a \<and> \<not> ip_is_multicast a)
     (mcl_assigned_addresses (mc_claims c))))"

definition network_of :: "membership_certificate \<Rightarrow> network_id" where
  "network_of c = mcl_network_id (mc_claims c)"

definition addresses_acceptable :: "membership_certificate \<Rightarrow> bool" where
  "addresses_acceptable c \<longleftrightarrow> length (mcl_assigned_addresses (mc_claims c)) \<le> MAX_ADDRESSES_PER_PEER
     \<and> (\<forall>a \<in> set (mcl_assigned_addresses (mc_claims c)). \<not> ip_is_unspecified a \<and> \<not> ip_is_multicast a)"

definition manifest_expiry :: "network_authorization_manifest list \<Rightarrow> membership_certificate \<Rightarrow> u64" where
  "manifest_expiry ms c = (case find (\<lambda>a. nam_network_id a = network_of c) ms of
     None \<Rightarrow> 0 | Some a \<Rightarrow> nam_expires_at_unix_seconds a)"

lemma root_memberships_Inr_iff:
  "root_memberships ms cs acc = Inr r \<longleftrightarrow>
     (\<forall>c \<in> set cs. addresses_acceptable c \<and> network_of c \<in> nam_network_id ` set ms)
     \<and> distinct (map network_of cs) \<and> (\<forall>c \<in> set cs. hm_get acc (network_of c) = None)
     \<and> r = acc @ map (\<lambda>c. (network_of c, certificate_addresses c, c, manifest_expiry ms c)) cs"
proof (induction cs arbitrary: acc)
  case Nil
  then show ?case by auto
next
  case (Cons c cs)
  have guards: "\<not> MAX_ADDRESSES_PER_PEER < length (mcl_assigned_addresses (mc_claims c))"
    "\<not> list_ex (\<lambda>a. ip_is_unspecified a \<or> ip_is_multicast a) (mcl_assigned_addresses (mc_claims c))"
    if "addresses_acceptable c"
    using that by (auto simp: addresses_acceptable_def list_ex_iff)
  consider (long) "length (mcl_assigned_addresses (mc_claims c)) > MAX_ADDRESSES_PER_PEER"
    | (bad) "length (mcl_assigned_addresses (mc_claims c)) \<le> MAX_ADDRESSES_PER_PEER"
        "list_ex (\<lambda>a. ip_is_unspecified a \<or> ip_is_multicast a) (mcl_assigned_addresses (mc_claims c))"
    | (missing) "addresses_acceptable c" "find (\<lambda>a. nam_network_id a = network_of c) ms = None"
    | (dup) m where "addresses_acceptable c" "find (\<lambda>a. nam_network_id a = network_of c) ms = Some m"
        "hm_get acc (network_of c) \<noteq> None"
    | (ok) m where "addresses_acceptable c" "find (\<lambda>a. nam_network_id a = network_of c) ms = Some m"
        "hm_get acc (network_of c) = None"
    unfolding addresses_acceptable_def list_ex_iff by fastforce
  then show ?case
  proof cases
    case long
    then show ?thesis by (auto simp: addresses_acceptable_def)
  next
    case bad
    then show ?thesis by (auto simp: addresses_acceptable_def list_ex_iff)
  next
    case missing
    then have "root_memberships ms (c # cs) acc = Inl MissingAuthorizationManifest"
      using guards by (simp add: Let_def network_of_def)
    moreover have "network_of c \<notin> nam_network_id ` set ms" using missing(2) by (auto simp: find_None_iff)
    ultimately show ?thesis by simp
  next
    case (dup m)
    then have "root_memberships ms (c # cs) acc = Inl DuplicateNetworkMembership"
      using guards by (simp add: Let_def network_of_def)
    then show ?thesis using dup(3) by simp
  next
    case (ok m)
    have step: "root_memberships ms (c # cs) acc = root_memberships ms cs
        (acc @ [(network_of c, certificate_addresses c, c, manifest_expiry ms c)])"
      using guards [OF ok(1)] ok(2,3) by (simp add: Let_def network_of_def certificate_addresses_def manifest_expiry_def
          hm_insert_fresh)
    have m: "network_of c \<in> nam_network_id ` set ms" using find_SomeD [OF ok(2)] by force
    have get: "hm_get (acc @ [(network_of c, x)]) n = None \<longleftrightarrow> hm_get acc n = None \<and> n \<noteq> network_of c" for n x
      by (auto simp: hm_get_append hm_get_def split: option.splits)
    show ?thesis unfolding step Cons.IH get using ok(1,3) m by (auto simp: image_iff)
  qed
qed

lemma root_verify_registrationE:
  assumes "root_verify_registration X reg keys now skew root_id legacy = Inr ()"
  obtains target where "registration_verify_membership X reg keys now skew target = Inr ()"
    and "registration_verify_authorization_set X reg keys now True = Inr ()"
    and "target = Some \<lparr>rrt_service_kind = RootService, rrt_service_id = root_id\<rparr> \<or> legacy \<and> target = None"
  using assms
  by (auto simp: root_verify_registration_def registration_verify_authorized_def
      registration_verify_authorized_for_service_def Let_def split: if_splits)

text \<open>The four ways in which a registration ends.\<close>

definition root_after_nonce :: "nat \<Rightarrow> root_registration \<Rightarrow> root_state \<Rightarrow> root_state" where
  "root_after_nonce instant reg st = st\<lparr>rt_seen_nonces :=
     snd (nonce_admit REGISTRATION_NONCE_TTL instant (rrp_nonce (rr_payload reg)) (rt_seen_nonces st))\<rparr>"

definition root_after_hints :: "nat \<Rightarrow> nat \<Rightarrow> u64 \<Rightarrow> root_registration \<Rightarrow> root_state \<Rightarrow> root_state" where
  "root_after_hints ttl instant now reg st =
     (let st = root_pruned ttl instant now (root_after_nonce instant reg st)
      in st\<lparr>rt_authorization_hints :=
           root_update_hints (rrp_authorization_manifests (rr_payload reg)) (rt_authorization_hints st)\<rparr>)"

definition root_fresh :: "nat \<Rightarrow> root_registration \<Rightarrow> root_state \<Rightarrow> bool" where
  "root_fresh instant reg st \<longleftrightarrow>
     fst (nonce_admit REGISTRATION_NONCE_TTL instant (rrp_nonce (rr_payload reg)) (rt_seen_nonces st))"

definition root_conflict_free :: "(peer_key, root_peer_record) hash_map \<Rightarrow> device_id \<Rightarrow>
    (network_id, root_membership) hash_map \<Rightarrow> bool" where
  "root_conflict_free peers device memberships \<longleftrightarrow>
     \<not> list_ex (\<lambda>(n, addresses, _). root_address_conflict peers (n, device) addresses) memberships"

lemma process_registration_split:
  "process_registration X reg observed root_id legacy keys skew ttl instant now st =
     (let p = rr_payload reg
      in if length (rrp_certificates p) > MAX_CERTIFICATES_PER_REGISTRATION then (st, Inl TooManyMemberships)
         else if root_verify_registration X reg keys now skew root_id legacy \<noteq> Inr ()
         then (st, Inl RegistrationAuthenticationFailed)
         else if \<not> root_fresh instant reg st then (root_after_nonce instant reg st, Inl RegistrationNonceReused)
         else let st' = root_after_hints ttl instant now reg st
              in case root_memberships (rrp_authorization_manifests p) (rrp_certificates p) [] of
                   Inl e \<Rightarrow> (st', Inl e)
                 | Inr ms \<Rightarrow>
                     if \<not> root_conflict_free (rt_peers st') (rrp_device_id p) ms
                     then (st', Inl VirtualAddressConflict)
                     else (st'\<lparr>rt_peers := fold (\<lambda>(k, peer). hm_insert k peer)
                             (root_entries instant (rrp_device_id p) (root_candidates observed (rrp_candidates p)) ms)
                             (rt_peers st')\<rparr>,
                           Inr (Registered observed (root_discovered (rt_peers st') ms (rrp_device_id p))
                             (root_refresh_after_seconds ttl)
                             (List.map_filter (\<lambda>(n, _). hm_get (rt_authorization_hints st') n) ms))))"
  by (simp add: process_registration_def root_after_hints_def root_after_nonce_def root_fresh_def
      root_conflict_free_def is_ok_iff Let_def split_beta split: sum.split)

section \<open>The invariant\<close>

definition root_peer_good :: "'x root_server_ops_scheme \<Rightarrow> bytes list \<Rightarrow> peer_key \<Rightarrow> root_peer_record \<Rightarrow> bool" where
  "root_peer_good X keys k p \<longleftrightarrow>
     k = (network_of (rpe_certificate p), mcl_device_id (mc_claims (rpe_certificate p)))
     \<and> (\<exists>key \<in> set keys. \<exists>t. certificate_verify_from_controller X (rpe_certificate p) key t = Inr ())
     \<and> length (rpe_candidates p) \<le> ROOT_MAX_CANDIDATES_PER_PEER
     \<and> addresses_acceptable (rpe_certificate p)
     \<and> rpe_assigned_addresses p = certificate_addresses (rpe_certificate p)"

definition root_inv :: "'x root_server_ops_scheme \<Rightarrow> bytes list \<Rightarrow> root_state \<Rightarrow> bool" where
  "root_inv X keys st \<longleftrightarrow> hm_ok (rt_peers st) \<and> hm_ok (rt_seen_nonces st) \<and> hm_ok (rt_authorization_hints st)
     \<and> (\<forall>k p. hm_get (rt_peers st) k = Some p \<longrightarrow> root_peer_good X keys k p) \<and> root_table.disjoint (rt_peers st)"

lemma root_inv_initial: "root_inv X keys root_initial"
  by (simp add: root_inv_def root_initial_def root_table.disjoint_Nil)

lemma hm_ok_root_update_hints: "hm_ok hints \<Longrightarrow> hm_ok (root_update_hints ms hints)"
proof (induction ms arbitrary: hints)
  case (Cons m ms)
  then show ?case by (cases "nam_epoch_hint m") auto
qed simp

definition root_peer_live :: "nat \<Rightarrow> nat \<Rightarrow> u64 \<Rightarrow> root_peer_record \<Rightarrow> bool" where
  "root_peer_live ttl instant now p \<longleftrightarrow>
     instant - rpe_last_seen p \<le> ttl \<and> now \<le> rpe_authorization_expires_at_unix_seconds p"

lemma root_after_nonce_sel [simp]:
  "rt_peers (root_after_nonce instant reg st) = rt_peers st"
  "rt_authorization_hints (root_after_nonce instant reg st) = rt_authorization_hints st"
  "rt_seen_nonces (root_after_nonce instant reg st) =
     snd (nonce_admit REGISTRATION_NONCE_TTL instant (rrp_nonce (rr_payload reg)) (rt_seen_nonces st))"
  by (simp_all add: root_after_nonce_def)

lemma root_after_hints_sel:
  "rt_seen_nonces (root_after_hints ttl instant now reg st) =
     snd (nonce_admit REGISTRATION_NONCE_TTL instant (rrp_nonce (rr_payload reg)) (rt_seen_nonces st))"
  "rt_peers (root_after_hints ttl instant now reg st) =
     hm_retain (\<lambda>_. root_peer_live ttl instant now) (rt_peers st)"
  by (simp_all add: root_after_hints_def root_pruned_def root_peer_live_def [abs_def] Let_def)

lemma root_after_hints_get:
  "hm_ok (rt_peers st) \<Longrightarrow> hm_get (rt_peers (root_after_hints ttl instant now reg st)) k = Some p \<longleftrightarrow>
     hm_get (rt_peers st) k = Some p \<and> root_peer_live ttl instant now p"
  by (auto simp: root_after_hints_sel hm_get_retain split: option.splits if_splits)

lemma root_inv_after_nonce: "root_inv X keys st \<Longrightarrow> root_inv X keys (root_after_nonce instant reg st)"
  by (simp add: root_inv_def nonce_admit_ok)

lemma root_inv_after_hints:
  assumes "root_inv X keys st"
  shows "root_inv X keys (root_after_hints ttl instant now reg st)"
proof -
  let ?st = "root_after_hints ttl instant now reg st"
  have ok: "hm_ok (rt_peers st)" "hm_ok (rt_seen_nonces st)" "hm_ok (rt_authorization_hints st)"
    and good: "\<forall>k p. hm_get (rt_peers st) k = Some p \<longrightarrow> root_peer_good X keys k p"
    and dis: "root_table.disjoint (rt_peers st)" using assms by (simp_all add: root_inv_def)
  have "hm_ok (rt_authorization_hints ?st)"
    using ok(3) by (simp add: root_after_hints_def root_pruned_def hm_ok_root_update_hints Let_def)
  moreover have "root_table.disjoint (rt_peers ?st)" "hm_ok (rt_peers ?st)"
    using root_table.disjoint_retain [OF ok(1) dis] ok(1) by (simp_all add: root_after_hints_sel)
  moreover have "hm_ok (rt_seen_nonces ?st)" using ok(2) by (simp add: root_after_hints_sel nonce_admit_ok)
  moreover have "root_peer_good X keys k p" if "hm_get (rt_peers ?st) k = Some p" for k p
    using that good root_after_hints_get [OF ok(1)] by blast
  ultimately show ?thesis by (simp only: root_inv_def) blast
qed

lemma root_entry_cases:
  assumes "root_memberships ms cs [] = Inr mem" and "(k, p) \<in> set (root_entries instant device cand mem)"
  obtains c where "c \<in> set cs" and "k = (network_of c, device)" and "addresses_acceptable c"
    and "p = \<lparr>rpe_candidates = cand, rpe_assigned_addresses = certificate_addresses c, rpe_certificate = c,
          rpe_authorization_expires_at_unix_seconds = manifest_expiry ms c, rpe_last_seen = instant\<rparr>"
  using assms by (auto simp: root_memberships_Inr_iff root_entries_def)

lemma root_entries_networks:
  "root_memberships ms cs [] = Inr mem \<Longrightarrow> distinct (map (fst \<circ> fst) (root_entries instant device cand mem))"
  by (auto simp: root_memberships_Inr_iff root_entries_def comp_def)

lemma root_entries_conflict_free:
  assumes "root_conflict_free peers device mem"
  shows "\<forall>(k, p) \<in> set (root_entries instant device cand mem).
    \<not> root_address_conflict peers k (rpe_assigned_addresses p)"
  using assms by (fastforce simp: root_conflict_free_def root_entries_def list_ex_iff)

lemma root_candidates_length: "length (root_candidates observed cs) \<le> ROOT_MAX_CANDIDATES_PER_PEER"
  by (simp add: root_candidates_def)

lemma process_registration_inv:
  assumes "root_inv X keys st"
  shows "root_inv X keys (fst (process_registration X reg observed root_id legacy keys skew ttl instant now st))"
proof -
  let ?p = "rr_payload reg" and ?st = "root_after_hints ttl instant now reg st"
  have step: "root_inv X keys (?st\<lparr>rt_peers := fold (\<lambda>(k, peer). hm_insert k peer)
        (root_entries instant (rrp_device_id ?p) (root_candidates observed (rrp_candidates ?p)) mem) (rt_peers ?st)\<rparr>)"
    if v: "root_verify_registration X reg keys now skew root_id legacy = Inr ()"
      and mem: "root_memberships (rrp_authorization_manifests ?p) (rrp_certificates ?p) [] = Inr mem"
      and free: "root_conflict_free (rt_peers ?st) (rrp_device_id ?p) mem" for mem
  proof -
    let ?es = "root_entries instant (rrp_device_id ?p) (root_candidates observed (rrp_candidates ?p)) mem"
    have inv: "root_inv X keys ?st" by (rule root_inv_after_hints [OF assms])
    have ok: "hm_ok (rt_peers ?st)" and dis: "root_table.disjoint (rt_peers ?st)"
      using inv by (simp_all add: root_inv_def)
    obtain target where vm: "registration_verify_membership X reg keys now skew target = Inr ()"
      using v by (rule root_verify_registrationE)
    have good: "root_peer_good X keys k p" if e: "(k, p) \<in> set ?es" for k p
    proof -
      obtain c where c: "c \<in> set (rrp_certificates ?p)" "k = (network_of c, rrp_device_id ?p)" "addresses_acceptable c"
        "rpe_certificate p = c" "rpe_candidates p = root_candidates observed (rrp_candidates ?p)"
        "rpe_assigned_addresses p = certificate_addresses c"
        by (rule root_entry_cases [OF mem e]) simp
      have "mcl_device_id (mc_claims c) = rrp_device_id ?p"
        "\<exists>key \<in> set keys. certificate_verify_from_controller X c key now = Inr ()"
        using vm c(1) by (auto simp: verify_membership_Inr_iff registration_check_certificate_Inr_iff)
      then show ?thesis using c root_candidates_length unfolding root_peer_good_def by metis
    qed
    have "root_table.disjoint (fold (\<lambda>(k, peer). hm_insert k peer) ?es (rt_peers ?st))"
      by (rule root_table.disjoint_insert_all [OF ok dis root_entries_networks [OF mem]
            root_entries_conflict_free [OF free]])
    moreover have "root_peer_good X keys k p"
      if "hm_get (fold (\<lambda>(k, peer). hm_insert k peer) ?es (rt_peers ?st)) k = Some p" for k p
      using hm_get_fold_insert [OF that] good inv unfolding root_inv_def by blast
    moreover have "hm_ok (fold (\<lambda>(k, peer). hm_insert k peer) ?es (rt_peers ?st))"
      by (rule hm_ok_fold_insert [OF ok])
    ultimately show ?thesis using inv unfolding root_inv_def by simp
  qed
  show ?thesis
    unfolding process_registration_split Let_def
    using assms step root_inv_after_nonce [OF assms] root_inv_after_hints [OF assms]
    by (simp split: sum.split)
qed

section \<open>Reachable states\<close>

definition root_process ::
  "'x root_server_ops_scheme \<Rightarrow> root_runtime \<Rightarrow> nat \<Rightarrow> u64 \<Rightarrow> socket_addr \<Rightarrow> root_registration \<Rightarrow> root_state
     \<Rightarrow> root_state \<times> (root_server_error + root_response)" where
  "root_process X rt instant now remote reg st =
     process_registration X reg remote (rr_identity rt) (rcf_allow_legacy_registration (rr_config rt))
       (rcf_controller_public_keys (rr_config rt)) (root_clock_skew (rr_config rt)) (root_peer_ttl (rr_config rt))
       instant now st"

lemma root_receive_state:
  "fst (root_receive X rt instant now remote datagram st) =
     (case parse_registration X datagram of None \<Rightarrow> st
      | Some reg \<Rightarrow> fst (root_process X rt instant now remote reg st))"
  by (simp add: root_receive_def root_process_def Let_def split_beta split: option.split sum.split)

inductive root_reachable :: "'x root_server_ops_scheme \<Rightarrow> root_runtime \<Rightarrow> root_state \<Rightarrow> bool"
  for X :: "'x root_server_ops_scheme" and rt :: root_runtime where
  start: "root_reachable X rt root_initial"
| receive: "root_reachable X rt st \<Longrightarrow> root_reachable X rt (fst (root_receive X rt instant now remote datagram st))"

lemma root_reachable_inv:
  "root_reachable X rt st \<Longrightarrow> root_inv X (rcf_controller_public_keys (rr_config rt)) st"
proof (induction rule: root_reachable.induct)
  case (receive st instant now remote datagram)
  then show ?case
    by (simp add: root_receive_state root_process_def process_registration_inv split: option.split)
qed (rule root_inv_initial)

text \<open>
  C18: In every state the root can reach, a peer filed under a network and a device holds a certificate for exactly
  that network and device that verified under one of the trusted controller keys, at most 16 candidates, and
  exactly the virtual addresses of its certificate, at most 16, none of them unspecified or multicast; no other
  device of the same network holds one of these addresses.
\<close>

theorem root_peers_certified:
  assumes "root_reachable X rt st" and "hm_get (rt_peers st) (n, d) = Some p"
  shows "mcl_network_id (mc_claims (rpe_certificate p)) = n
    \<and> mcl_device_id (mc_claims (rpe_certificate p)) = d
    \<and> (\<exists>key \<in> set (rcf_controller_public_keys (rr_config rt)).
         \<exists>t. certificate_verify_from_controller X (rpe_certificate p) key t = Inr ())
    \<and> length (rpe_candidates p) \<le> 16
    \<and> set (rpe_assigned_addresses p) = set (mcl_assigned_addresses (mc_claims (rpe_certificate p)))
    \<and> length (mcl_assigned_addresses (mc_claims (rpe_certificate p))) \<le> 16
    \<and> (\<forall>a \<in> set (rpe_assigned_addresses p). \<not> ip_is_unspecified a \<and> \<not> ip_is_multicast a)
    \<and> (\<forall>d' p'. hm_get (rt_peers st) (n, d') = Some p' \<longrightarrow> d' \<noteq> d
         \<longrightarrow> set (rpe_assigned_addresses p) \<inter> set (rpe_assigned_addresses p') = {})"
proof -
  have inv: "root_inv X (rcf_controller_public_keys (rr_config rt)) st" using assms(1) by (rule root_reachable_inv)
  then have good: "root_peer_good X (rcf_controller_public_keys (rr_config rt)) (n, d) p"
    and dis: "root_table.disjoint (rt_peers st)" using assms(2) by (auto simp: root_inv_def)
  note g = good [unfolded root_peer_good_def prod.inject ROOT_MAX_CANDIDATES_PER_PEER_def network_of_def
      addresses_acceptable_def MAX_ADDRESSES_PER_PEER_def]
  have same: "set (rpe_assigned_addresses p) = set (mcl_assigned_addresses (mc_claims (rpe_certificate p)))"
    using g by (auto simp: certificate_addresses_def)
  show ?thesis
  proof (intro conjI allI impI)
    show "set (rpe_assigned_addresses p) \<inter> set (rpe_assigned_addresses p') = {}"
      if "hm_get (rt_peers st) (n, d') = Some p'" "d' \<noteq> d" for d' p'
      using root_table.disjointD [OF dis assms(2) that(1)] that(2) by simp
    show "\<forall>a \<in> set (rpe_assigned_addresses p). \<not> ip_is_unspecified a \<and> \<not> ip_is_multicast a"
      unfolding same using g by blast
  qed (use g same in blast)+
qed

section \<open>What a registration returns\<close>

lemma root_process_InrE:
  assumes "snd (root_process X rt instant now remote reg st) = Inr response"
  obtains mem where "length (rrp_certificates (rr_payload reg)) \<le> MAX_CERTIFICATES_PER_REGISTRATION"
    and "root_verify_registration X reg (rcf_controller_public_keys (rr_config rt)) now
      (root_clock_skew (rr_config rt)) (rr_identity rt) (rcf_allow_legacy_registration (rr_config rt)) = Inr ()"
    and "root_fresh instant reg st"
    and "root_memberships (rrp_authorization_manifests (rr_payload reg)) (rrp_certificates (rr_payload reg)) []
      = Inr mem"
    and "root_conflict_free (rt_peers (root_after_hints (root_peer_ttl (rr_config rt)) instant now reg st))
      (rrp_device_id (rr_payload reg)) mem"
    and "response = Registered remote
      (root_discovered (rt_peers (root_after_hints (root_peer_ttl (rr_config rt)) instant now reg st)) mem
         (rrp_device_id (rr_payload reg)))
      (root_refresh_after_seconds (root_peer_ttl (rr_config rt)))
      (List.map_filter (\<lambda>(n, _). hm_get (rt_authorization_hints
         (root_after_hints (root_peer_ttl (rr_config rt)) instant now reg st)) n) mem)"
proof (cases "root_memberships (rrp_authorization_manifests (rr_payload reg)) (rrp_certificates (rr_payload reg)) []")
  case (Inr mem)
  then show ?thesis
    using assms that [of mem] unfolding root_process_def process_registration_split Let_def
    by (simp split: if_splits)
qed (use assms in \<open>simp add: root_process_def process_registration_split Let_def split: if_splits\<close>)

definition root_comember :: "nat \<Rightarrow> nat \<Rightarrow> u64 \<Rightarrow> root_registration \<Rightarrow> root_state \<Rightarrow> root_peer \<Rightarrow> bool" where
  "root_comember ttl instant now reg st q \<longleftrightarrow>
     rp_network_id q \<in> network_of ` set (rrp_certificates (rr_payload reg))
     \<and> rp_device_id q \<noteq> rrp_device_id (rr_payload reg)
     \<and> (\<exists>p. hm_get (rt_peers st) (rp_network_id q, rp_device_id q) = Some p \<and> root_peer_live ttl instant now p
          \<and> rp_candidates q = rpe_candidates p \<and> rp_certificate q = Some (rpe_certificate p)
          \<and> rp_assigned_addresses q = mcl_assigned_addresses (mc_claims (rpe_certificate p)))"

text \<open>The peers of the answer before the limit of 64 is applied.\<close>

definition root_comembers :: "(peer_key, root_peer_record) hash_map \<Rightarrow> (network_id, root_membership) hash_map
    \<Rightarrow> device_id \<Rightarrow> root_peer list" where
  "root_comembers peers memberships device =
     map (\<lambda>(k, peer). \<lparr>rp_network_id = fst k, rp_device_id = snd k, rp_candidates = rpe_candidates peer,
          rp_assigned_addresses = mcl_assigned_addresses (mc_claims (rpe_certificate peer)),
          rp_certificate = Some (rpe_certificate peer)\<rparr>)
       (filter (\<lambda>(k, peer). hm_get memberships (fst k) \<noteq> None \<and> snd k \<noteq> device) peers)"

lemma root_comembers_distinct: "hm_ok peers \<Longrightarrow> distinct (root_comembers peers mem device)"
proof -
  assume ok: "hm_ok peers"
  have "map (\<lambda>q. (rp_network_id q, rp_device_id q)) (root_comembers peers mem device) =
      map fst (filter (\<lambda>(k, peer). hm_get mem (fst k) \<noteq> None \<and> snd k \<noteq> device) peers)"
    by (simp add: root_comembers_def case_prod_beta)
  then have "distinct (map (\<lambda>q. (rp_network_id q, rp_device_id q)) (root_comembers peers mem device))"
    using ok by (simp add: hm_ok_def distinct_map_filter)
  then show ?thesis by (simp add: distinct_map)
qed

lemma root_comembers_iff:
  assumes "hm_ok (rt_peers st)"
    and "root_memberships ms (rrp_certificates (rr_payload reg)) [] = Inr mem"
  shows "(q :: root_peer) \<in> set (root_comembers (rt_peers (root_after_hints ttl instant now reg st)) mem
      (rrp_device_id (rr_payload reg))) \<longleftrightarrow> root_comember ttl instant now reg st q"
proof -
  let ?peers = "rt_peers (root_after_hints ttl instant now reg st)"
  have ok: "hm_ok ?peers" using assms(1) by (simp add: root_after_hints_sel)
  have net: "hm_get mem n \<noteq> None \<longleftrightarrow> n \<in> network_of ` set (rrp_certificates (rr_payload reg))" for n
    using assms(2) by (auto simp: root_memberships_Inr_iff hm_get_def map_of_eq_None_iff image_iff)
  have "q \<in> set (root_comembers ?peers mem (rrp_device_id (rr_payload reg))) \<longleftrightarrow>
      (\<exists>x. x \<in> set ?peers \<and> hm_get mem (fst (fst x)) \<noteq> None \<and> snd (fst x) \<noteq> rrp_device_id (rr_payload reg)
        \<and> q = \<lparr>rp_network_id = fst (fst x), rp_device_id = snd (fst x), rp_candidates = rpe_candidates (snd x),
          rp_assigned_addresses = mcl_assigned_addresses (mc_claims (rpe_certificate (snd x))),
          rp_certificate = Some (rpe_certificate (snd x))\<rparr>)"
    unfolding root_comembers_def set_map set_filter case_prod_beta by blast
  also have "\<dots> \<longleftrightarrow> (\<exists>n d p. hm_get ?peers (n, d) = Some p \<and> hm_get mem n \<noteq> None
        \<and> d \<noteq> rrp_device_id (rr_payload reg)
        \<and> q = \<lparr>rp_network_id = n, rp_device_id = d, rp_candidates = rpe_candidates p,
          rp_assigned_addresses = mcl_assigned_addresses (mc_claims (rpe_certificate p)),
          rp_certificate = Some (rpe_certificate p)\<rparr>)"
    by (metis fst_conv snd_conv prod.collapse hm_in_set_iff [OF ok])
  also have "\<dots> \<longleftrightarrow> root_comember ttl instant now reg st q"
    unfolding net root_after_hints_get [OF assms(1)] root_comember_def
    by (cases q) auto
  finally show ?thesis .
qed

lemma root_discovered_props:
  "set (root_discovered peers mem d) \<subseteq> set (root_comembers peers mem d)"
  "length (root_discovered peers mem d) \<le> 64"
  "set (root_discovered peers mem d) = set (root_comembers peers mem d) \<or> length (root_discovered peers mem d) = 64"
  "sorted (map (\<lambda>p. (rp_network_id p, rp_device_id p)) (root_discovered peers mem d))"
proof -
  have eq: "root_discovered peers mem d =
      sort_key (\<lambda>p. (rp_network_id p, rp_device_id p)) (take 64 (root_comembers peers mem d))"
    by (simp add: root_discovered_def root_comembers_def MAX_PEERS_PER_RESPONSE_def)
  show "set (root_discovered peers mem d) \<subseteq> set (root_comembers peers mem d)"
    unfolding eq by (simp add: set_take_subset)
  show "length (root_discovered peers mem d) \<le> 64"
    "sorted (map (\<lambda>p. (rp_network_id p, rp_device_id p)) (root_discovered peers mem d))"
    unfolding eq by simp_all
  show "set (root_discovered peers mem d) = set (root_comembers peers mem d)
      \<or> length (root_discovered peers mem d) = 64"
    unfolding eq by (cases "length (root_comembers peers mem d) \<le> 64") simp_all
qed

lemma root_refresh_bounds: "10 \<le> root_refresh_after_seconds ttl" "root_refresh_after_seconds ttl \<le> 60"
proof -
  have "unat (root_refresh_after_seconds ttl) = max 10 (min 60 (ttl div NANOS_PER_SEC div 3))"
    by (simp add: root_refresh_after_seconds_def unat_of_nat)
  then show "10 \<le> root_refresh_after_seconds ttl" "root_refresh_after_seconds ttl \<le> 60"
    by (simp_all add: word_le_nat_alt)
qed

text \<open>
  What a device learns. When the root answers a registration, the device holds, for every network it asks
  about, a certificate that verifies under a trusted controller key; every peer in the answer is a live member
  of one of these networks other than the device, with its registered candidates and certificate; and unless
  the answer is full (64 peers) it lists every such member. The answer is sorted, and asks for a refresh after
  10 to 60 seconds.
\<close>

theorem root_answer_lists_comembers:
  assumes "root_reachable X rt st"
    and "snd (root_process X rt instant now remote reg st) = Inr (Registered ep peers refresh hints)"
  shows "ep = remote \<and> 10 \<le> refresh \<and> refresh \<le> 60 \<and> length peers \<le> 64
    \<and> sorted (map (\<lambda>p. (rp_network_id p, rp_device_id p)) peers)
    \<and> (\<forall>c \<in> set (rrp_certificates (rr_payload reg)). mcl_device_id (mc_claims c) = rrp_device_id (rr_payload reg)
        \<and> (\<exists>key \<in> set (rcf_controller_public_keys (rr_config rt)).
             certificate_verify_from_controller X c key now = Inr ()))
    \<and> (\<forall>q \<in> set peers. root_comember (root_peer_ttl (rr_config rt)) instant now reg st q)
    \<and> (length peers < 64 \<longrightarrow>
         (\<forall>q :: root_peer. root_comember (root_peer_ttl (rr_config rt)) instant now reg st q \<longrightarrow> q \<in> set peers))"
proof -
  let ?p = "rr_payload reg" and ?st = "root_after_hints (root_peer_ttl (rr_config rt)) instant now reg st"
  have ok: "hm_ok (rt_peers st)" using root_reachable_inv [OF assms(1)] by (simp add: root_inv_def)
  obtain mem where v: "root_verify_registration X reg (rcf_controller_public_keys (rr_config rt)) now
      (root_clock_skew (rr_config rt)) (rr_identity rt) (rcf_allow_legacy_registration (rr_config rt)) = Inr ()"
    and mem: "root_memberships (rrp_authorization_manifests ?p) (rrp_certificates ?p) [] = Inr mem"
    and r: "ep = remote" "peers = root_discovered (rt_peers ?st) mem (rrp_device_id ?p)"
      "refresh = root_refresh_after_seconds (root_peer_ttl (rr_config rt))"
    by (rule root_process_InrE [OF assms(2)]) simp
  obtain target where vm: "registration_verify_membership X reg (rcf_controller_public_keys (rr_config rt)) now
      (root_clock_skew (rr_config rt)) target = Inr ()"
    using v by (rule root_verify_registrationE)
  have certs: "\<forall>c \<in> set (rrp_certificates ?p). mcl_device_id (mc_claims c) = rrp_device_id ?p
      \<and> (\<exists>key \<in> set (rcf_controller_public_keys (rr_config rt)).
           certificate_verify_from_controller X c key now = Inr ())"
    using vm unfolding verify_membership_Inr_iff registration_check_certificate_Inr_iff by blast
  note co = root_comembers_iff [OF ok mem, where ttl = "root_peer_ttl (rr_config rt)" and instant = instant and now = now]
  note d = root_discovered_props [where peers = "rt_peers ?st" and mem = mem and d = "rrp_device_id ?p", folded r(2)]
  have "\<forall>q \<in> set peers. root_comember (root_peer_ttl (rr_config rt)) instant now reg st q"
    using d(1) co by blast
  moreover have "q \<in> set peers" if "length peers < 64"
    "root_comember (root_peer_ttl (rr_config rt)) instant now reg st q" for q :: root_peer
    using d(3) co [of q] that by auto
  ultimately show ?thesis using certs d(2,4) r(1) root_refresh_bounds unfolding r(3) by blast
qed

lemma root_conflict_freeI:
  assumes "hm_ok (rt_peers st)"
    and "\<And>c d p. c \<in> set cs \<Longrightarrow> hm_get (rt_peers st) (network_of c, d) = Some p \<Longrightarrow> d \<noteq> device
      \<Longrightarrow> root_peer_live ttl instant now p
      \<Longrightarrow> set (rpe_assigned_addresses p) \<inter> set (mcl_assigned_addresses (mc_claims c)) = {}"
  shows "root_conflict_free (rt_peers (root_after_hints ttl instant now reg st)) device
    (map (\<lambda>c. (network_of c, certificate_addresses c, c, manifest_expiry ms c)) cs)"
proof -
  let ?peers = "rt_peers (root_after_hints ttl instant now reg st)"
  have ok: "hm_ok ?peers" using assms(1) by (simp add: root_after_hints_sel)
  have "\<not> root_address_conflict ?peers (network_of c, device) (certificate_addresses c)" if c: "c \<in> set cs" for c
  proof
    assume "root_address_conflict ?peers (network_of c, device) (certificate_addresses c)"
    then obtain d p where "hm_get ?peers (network_of c, d) = Some p" "d \<noteq> device"
      "set (rpe_assigned_addresses p) \<inter> set (certificate_addresses c) \<noteq> {}"
      unfolding root_table.conflict_iff [OF ok] by (metis fst_conv snd_conv prod.collapse)
    moreover have "set (certificate_addresses c) \<subseteq> set (mcl_assigned_addresses (mc_claims c))"
      by (auto simp: certificate_addresses_def)
    ultimately show False using assms(2) [OF c] unfolding root_after_hints_get [OF assms(1)] by blast
  qed
  then show ?thesis by (auto simp: root_conflict_free_def list_ex_iff)
qed

lemma root_entries_get:
  assumes "root_memberships ms cs [] = Inr mem" and "c \<in> set cs"
  shows "hm_get (fold (\<lambda>(k, peer). hm_insert k peer) (root_entries instant device cand mem) peers)
    (network_of c, device) = Some \<lparr>rpe_candidates = cand, rpe_assigned_addresses = certificate_addresses c,
       rpe_certificate = c, rpe_authorization_expires_at_unix_seconds = manifest_expiry ms c,
       rpe_last_seen = instant\<rparr>"
proof (rule hm_get_fold_insert_distinct)
  show "distinct (map fst (root_entries instant device cand mem))"
    using root_entries_networks [OF assms(1), of instant device cand]
    by (metis distinct_map map_map)
qed (use assms in \<open>auto simp: root_memberships_Inr_iff root_entries_def\<close>)

lemma root_process_registers:
  assumes "hm_ok (rt_peers st)"
    and "length (rrp_certificates (rr_payload reg)) \<le> 64"
    and "root_verify_registration X reg (rcf_controller_public_keys (rr_config rt)) now
      (root_clock_skew (rr_config rt)) (rr_identity rt) (rcf_allow_legacy_registration (rr_config rt)) = Inr ()"
    and "root_fresh instant reg st"
    and "\<forall>c \<in> set (rrp_certificates (rr_payload reg)). addresses_acceptable c
      \<and> (\<forall>d p. hm_get (rt_peers st) (network_of c, d) = Some p \<longrightarrow> d \<noteq> rrp_device_id (rr_payload reg)
           \<longrightarrow> root_peer_live (root_peer_ttl (rr_config rt)) instant now p
           \<longrightarrow> set (rpe_assigned_addresses p) \<inter> set (mcl_assigned_addresses (mc_claims c)) = {})"
  shows "(\<exists>peers refresh hints.
      snd (root_process X rt instant now remote reg st) = Inr (Registered remote peers refresh hints))
    \<and> (\<forall>c \<in> set (rrp_certificates (rr_payload reg)).
         \<exists>p. hm_get (rt_peers (fst (root_process X rt instant now remote reg st)))
               (network_of c, rrp_device_id (rr_payload reg)) = Some p
           \<and> rpe_certificate p = c \<and> rpe_last_seen p = instant
           \<and> rpe_candidates p = root_candidates remote (rrp_candidates (rr_payload reg)))"
proof -
  let ?p = "rr_payload reg" and ?st = "root_after_hints (root_peer_ttl (rr_config rt)) instant now reg st"
  let ?mem = "map (\<lambda>c. (network_of c, certificate_addresses c, c,
      manifest_expiry (rrp_authorization_manifests ?p) c)) (rrp_certificates ?p)"
  let ?es = "root_entries instant (rrp_device_id ?p) (root_candidates remote (rrp_candidates ?p)) ?mem"
  obtain target where set: "registration_verify_authorization_set X reg (rcf_controller_public_keys (rr_config rt))
      now True = Inr ()"
    using assms(3) by (rule root_verify_registrationE)
  have nets: "distinct (map network_of (rrp_certificates ?p))"
    "\<forall>c \<in> set (rrp_certificates ?p). network_of c \<in> nam_network_id ` set (rrp_authorization_manifests ?p)"
    using set by (auto simp: authorization_set_Inr_iff network_of_def [abs_def])
  then have mem: "root_memberships (rrp_authorization_manifests ?p) (rrp_certificates ?p) [] = Inr ?mem"
    using assms(5) by (simp add: root_memberships_Inr_iff)
  have free: "root_conflict_free (rt_peers ?st) (rrp_device_id ?p) ?mem"
    using assms(5) by (intro root_conflict_freeI [OF assms(1)]) blast
  have len: "\<not> MAX_CERTIFICATES_PER_REGISTRATION < length (rrp_certificates ?p)"
    using assms(2) by (simp add: MAX_CERTIFICATES_PER_REGISTRATION_def)
  have proc: "root_process X rt instant now remote reg st =
      (?st\<lparr>rt_peers := fold (\<lambda>(k, peer). hm_insert k peer) ?es (rt_peers ?st)\<rparr>,
       Inr (Registered remote (root_discovered (rt_peers ?st) ?mem (rrp_device_id ?p))
         (root_refresh_after_seconds (root_peer_ttl (rr_config rt)))
         (List.map_filter (\<lambda>(n, _). hm_get (rt_authorization_hints ?st) n) ?mem)))"
    unfolding root_process_def process_registration_split Let_def mem sum.case using len assms(3,4) free by simp
  show ?thesis
    unfolding proc fst_conv snd_conv
  proof (intro conjI ballI)
    fix c assume c: "c \<in> set (rrp_certificates ?p)"
    show "\<exists>p. hm_get (rt_peers (?st\<lparr>rt_peers := fold (\<lambda>(k, peer). hm_insert k peer) ?es
        (rt_peers ?st)\<rparr>)) (network_of c, rrp_device_id ?p) = Some p \<and> rpe_certificate p = c
        \<and> rpe_last_seen p = instant \<and> rpe_candidates p = root_candidates remote (rrp_candidates ?p)"
      using root_entries_get [OF mem c] by simp
  qed simp
qed

text \<open>
  An authorized registration is served. If a registration verifies, its nonce is fresh, its addresses are
  acceptable and no live device of its networks holds one of them, then the root answers it and the device
  is from then on filed under every network of its certificates, at the time of the registration.
\<close>

theorem root_registers_authorized:
  assumes "root_reachable X rt st"
    and "length (rrp_certificates (rr_payload reg)) \<le> 64"
    and "root_verify_registration X reg (rcf_controller_public_keys (rr_config rt)) now
      (root_clock_skew (rr_config rt)) (rr_identity rt) (rcf_allow_legacy_registration (rr_config rt)) = Inr ()"
    and "root_fresh instant reg st"
    and "\<forall>c \<in> set (rrp_certificates (rr_payload reg)). addresses_acceptable c
      \<and> (\<forall>d p. hm_get (rt_peers st) (network_of c, d) = Some p \<longrightarrow> d \<noteq> rrp_device_id (rr_payload reg)
           \<longrightarrow> root_peer_live (root_peer_ttl (rr_config rt)) instant now p
           \<longrightarrow> set (rpe_assigned_addresses p) \<inter> set (mcl_assigned_addresses (mc_claims c)) = {})"
  shows "(\<exists>peers refresh hints.
      snd (root_process X rt instant now remote reg st) = Inr (Registered remote peers refresh hints))
    \<and> (\<forall>c \<in> set (rrp_certificates (rr_payload reg)).
         \<exists>p. hm_get (rt_peers (fst (root_process X rt instant now remote reg st)))
               (network_of c, rrp_device_id (rr_payload reg)) = Some p
           \<and> rpe_certificate p = c \<and> rpe_last_seen p = instant
           \<and> rpe_candidates p = root_candidates remote (rrp_candidates (rr_payload reg)))"
proof -
  have "hm_ok (rt_peers st)" using root_reachable_inv [OF assms(1)] by (simp add: root_inv_def)
  from root_process_registers [OF this assms(2-5)] show ?thesis .
qed

section \<open>Replay protection\<close>

definition root_accepts :: "'x root_server_ops_scheme \<Rightarrow> root_runtime \<Rightarrow> u64 \<Rightarrow> bytes \<Rightarrow> root_registration option" where
  "root_accepts X rt now datagram =
     (case parse_registration X datagram of
        None \<Rightarrow> None
      | Some reg \<Rightarrow>
          if length (rrp_certificates (rr_payload reg)) \<le> MAX_CERTIFICATES_PER_REGISTRATION
             \<and> root_verify_registration X reg (rcf_controller_public_keys (rr_config rt)) now
                 (root_clock_skew (rr_config rt)) (rr_identity rt) (rcf_allow_legacy_registration (rr_config rt)) = Inr ()
          then Some reg else None)"

definition root_step ::
  "'x root_server_ops_scheme \<Rightarrow> root_runtime \<Rightarrow> datagram_event \<Rightarrow> root_state
     \<Rightarrow> root_state \<times> (socket_addr \<times> bytes) list \<times> bool" where
  "root_step X rt e st = root_receive X rt (ev_instant e) (ev_now e) (ev_remote e) (ev_packet e) st"

lemma root_process_unaccepted:
  assumes "parse_registration X datagram = Some reg" and "root_accepts X rt now datagram = None"
  shows "\<exists>e. root_process X rt instant now remote reg st = (st, Inl e)"
  using assms by (auto simp: root_accepts_def root_process_def process_registration_split Let_def split: if_splits)

lemma root_process_seen:
  assumes "root_accepts X rt now datagram = Some reg"
  shows "rt_seen_nonces (fst (root_process X rt instant now remote reg st)) =
    snd (nonce_admit REGISTRATION_NONCE_TTL instant (rrp_nonce (rr_payload reg)) (rt_seen_nonces st))"
  using assms
  by (auto simp: root_accepts_def root_process_def process_registration_split Let_def root_after_hints_sel
      split: if_splits option.splits sum.splits)

lemma root_process_replayed:
  assumes "root_accepts X rt now datagram = Some reg" and "\<not> root_fresh instant reg st"
  shows "root_process X rt instant now remote reg st = (root_after_nonce instant reg st, Inl RegistrationNonceReused)"
  using assms
  by (auto simp: root_accepts_def root_process_def process_registration_split Let_def split: if_splits option.splits)

lemma root_step_seen:
  "rt_seen_nonces (fst (root_step X rt e st)) =
     (case root_accepts X rt (ev_now e) (ev_packet e) of
        None \<Rightarrow> rt_seen_nonces st
      | Some reg \<Rightarrow> snd (nonce_admit REGISTRATION_NONCE_TTL (ev_instant e) (rrp_nonce (rr_payload reg)) (rt_seen_nonces st)))"
proof (cases "parse_registration X (ev_packet e)")
  case None
  then show ?thesis by (simp add: root_step_def root_receive_state root_accepts_def)
next
  case (Some reg)
  show ?thesis
  proof (cases "root_accepts X rt (ev_now e) (ev_packet e)")
    case None
    then show ?thesis
      using root_process_unaccepted [OF Some None, of "ev_instant e" "ev_remote e" st] Some
      by (auto simp: root_step_def root_receive_state)
  next
    case reg': (Some reg')
    then have "reg' = reg" using Some by (simp add: root_accepts_def split: if_splits)
    then show ?thesis using root_process_seen [OF reg'] reg' Some by (simp add: root_step_def root_receive_state)
  qed
qed

interpretation root_guard: replay_guard "\<lambda>e st. fst (root_step X rt e st)"
    "\<lambda>e. map_option (\<lambda>reg. rrp_nonce (rr_payload reg)) (root_accepts X rt (ev_now e) (ev_packet e))"
    rt_seen_nonces for X rt
  by unfold_locales (simp add: root_step_seen split: option.split)

lemma root_accepts_again:
  assumes "root_accepts X rt t1 datagram = Some r1" and "root_accepts X rt t2 datagram = Some r2"
  shows "r2 = r1" and "unat t2 \<le> unat t1 + 2 * unat (root_clock_skew (rr_config rt))"
proof -
  show same: "r2 = r1" using assms by (auto simp: root_accepts_def split: option.splits if_splits)
  have d: "abs_diff t (rrp_issued_at_unix_seconds (rr_payload r)) \<le> root_clock_skew (rr_config rt)"
    if "root_accepts X rt t datagram = Some r" for t r
  proof -
    have v: "root_verify_registration X r (rcf_controller_public_keys (rr_config rt)) t
      (root_clock_skew (rr_config rt)) (rr_identity rt) (rcf_allow_legacy_registration (rr_config rt)) = Inr ()"
      using that by (auto simp: root_accepts_def split: option.splits if_splits)
    then show ?thesis by (rule root_verify_registrationE) (simp add: verify_membership_Inr_iff)
  qed
  show "unat t2 \<le> unat t1 + 2 * unat (root_clock_skew (rr_config rt))"
    using d [OF assms(1)] d [OF assms(2)] unfolding same word_le_nat_alt unat_abs_diff by (auto split: if_splits)
qed

text \<open>
  Replay protection. If twice the configured clock skew, together with the drift between the wall clock and
  the monotonic clock, stays below the five minutes for which nonces are remembered (as it does for the default of
  120 seconds), then a registration datagram that was accepted once is answered by an error ever after, from any
  endpoint and after any datagrams in between, and changes neither the peers nor the hints.
\<close>

theorem root_refuses_replay:
  assumes "root_reachable X rt st"
    and "root_accepts X rt (ev_now e1) (ev_packet e1) = Some reg"
    and "sorted (map ev_instant (e1 # es @ [e2]))" and "ev_packet e2 = ev_packet e1"
    and "2 * unat (root_clock_skew (rr_config rt)) + drift < 300"
    and "unat (ev_now e1) + (ev_instant e2 - ev_instant e1) div NANOS_PER_SEC \<le> unat (ev_now e2) + drift"
    and "st' = fold (\<lambda>e st. fst (root_step X rt e st)) (e1 # es) st"
  shows "(\<exists>err. snd (root_process X rt (ev_instant e2) (ev_now e2) (ev_remote e2) reg st') = Inl err)
    \<and> rt_peers (fst (root_step X rt e2 st')) = rt_peers st'
    \<and> rt_authorization_hints (fst (root_step X rt e2 st')) = rt_authorization_hints st'"
proof -
  have parse: "parse_registration X (ev_packet e2) = Some reg"
    using assms(2,4) by (auto simp: root_accepts_def split: option.splits if_splits)
  have step: "fst (root_step X rt e2 st') = fst (root_process X rt (ev_instant e2) (ev_now e2) (ev_remote e2) reg st')"
    by (simp add: root_step_def root_receive_state parse)
  show ?thesis
  proof (cases "root_accepts X rt (ev_now e2) (ev_packet e2)")
    case None
    obtain err where "root_process X rt (ev_instant e2) (ev_now e2) (ev_remote e2) reg st' = (st', Inl err)"
      using root_process_unaccepted [OF parse None] by blast
    then show ?thesis unfolding step by simp
  next
    case (Some reg2)
    have again: "reg2 = reg" "unat (ev_now e2) \<le> unat (ev_now e1) + 2 * unat (root_clock_skew (rr_config rt))"
      using root_accepts_again [OF assms(2) Some [unfolded assms(4)]] by simp_all
    have near: "ev_instant e2 - ev_instant e1 \<le> REGISTRATION_NONCE_TTL"
      by (rule nonce_instant_near [OF again(2) assms(5,6)])
    have ok: "hm_ok (rt_seen_nonces st)" using root_reachable_inv [OF assms(1)] by (simp add: root_inv_def)
    have "\<not> root_fresh (ev_instant e2) reg2 st'"
      unfolding root_fresh_def assms(7)
      by (rule root_guard.refuses [OF ok _ assms(3) near]) (simp add: assms(2) again(1))
    from root_process_replayed [OF Some this] show ?thesis unfolding step by (simp add: again(1))
  qed
qed

section \<open>Instances\<close>

definition root_manifest :: network_authorization_manifest where
  "root_manifest = sample_manifest\<lparr>nam_expires_at_unix_seconds := 1000\<rparr>"

definition root_sample_registration :: root_registration where
  "root_sample_registration = \<lparr>rr_payload = \<lparr>rrp_version = 2, rrp_device_id = 1,
      rrp_device_public_key = replicate 32 4, rrp_certificates = [sample_certificate],
      rrp_authorization_manifests = [root_manifest], rrp_candidates = [],
      rrp_issued_at_unix_seconds = 290, rrp_nonce = replicate 16 0,
      rrp_target = Some \<lparr>rrt_service_kind = RootService, rrt_service_id = 3\<rparr>\<rparr>,
    rr_signature = replicate 64 0\<rparr>"

definition sample_root_ops :: root_server_ops where
  "sample_root_ops = (root_ops.extend (const_root strict_prims) (root_server_ops.fields (\<lambda>_. Some [51])))
     \<lparr>parse_registration := \<lambda>_. Some root_sample_registration\<rparr>"

definition sample_root_runtime :: "u64 \<Rightarrow> root_runtime" where
  "sample_root_runtime skew = \<lparr>rr_identity = 3, rr_signing_keys = [replicate 32 1],
     rr_config = root_config_default\<lparr>rcf_controller_public_keys := [replicate 32 6],
       rcf_maximum_clock_skew_seconds := skew\<rparr>\<rparr>"

lemmas sample_root_simps = sample_root_ops_def const_root_simps root_server_ops.defs strict_prims_def sample_prims_def

lemma root_sample_registration_sel [simp]:
  "rrp_certificates (rr_payload root_sample_registration) = [sample_certificate]"
  "rrp_device_id (rr_payload root_sample_registration) = 1"
  "rrp_nonce (rr_payload root_sample_registration) = replicate 16 0"
  "network_of sample_certificate = 5" "mcl_device_id (mc_claims sample_certificate) = 1"
  "addresses_acceptable sample_certificate"
  by (simp_all add: root_sample_registration_def network_of_def sample_certificate_def sample_claims_def
      addresses_acceptable_def MAX_ADDRESSES_PER_PEER_def ipv4_octet_def)

lemma sample_root_documents:
  "certificate_verify_from_controller sample_root_ops sample_certificate (replicate 32 6) now = Inr ()"
  "now \<in> {300, 310, 601} \<Longrightarrow> manifest_admitted sample_root_ops [replicate 32 6] now sample_certificate root_manifest"
  by (auto simp add: certificate_verify_Inr_iff certificate_message_def sample_certificate_def sample_claims_def
      authorization_verify_Inr_iff sample_manifest_def root_manifest_def sample_member_def
      AUTHORIZATION_MANIFEST_VERSION_def saturating_add_def authorizes_def manifest_admitted_def sample_root_simps)

lemma sample_root_verifies:
  assumes "abs_diff now 290 \<le> skew" and "now \<in> {300, 310, 601}"
  shows "root_verify_registration sample_root_ops root_sample_registration [replicate 32 6] now skew 3 False = Inr ()"
proof -
  have "registration_signature_message sample_root_ops (rr_payload root_sample_registration)
      = Inr (TARGET_BOUND_REGISTRATION_DOMAIN @ [31])"
    by (simp add: registration_signature_message_def root_sample_registration_def registration_versions
        sample_root_simps)
  moreover have "ed_verify sample_root_ops pk (TARGET_BOUND_REGISTRATION_DOMAIN @ [31]) s"
    "ed_key_ok sample_root_ops pk" for pk s
    by (simp_all add: sample_root_simps)
  ultimately have "registration_verify_membership sample_root_ops root_sample_registration [replicate 32 6]
      now skew (Some \<lparr>rrt_service_kind = RootService, rrt_service_id = 3\<rparr>) = Inr ()"
    using sample_root_documents(1) [of now] assms(1)
    unfolding verify_membership_Inr_iff registration_check_target_Inr_iff registration_check_certificate_Inr_iff
    by simp (simp add: root_sample_registration_def sample_certificate_def sample_claims_def registration_versions)
  moreover have "registration_verify_authorization_set sample_root_ops root_sample_registration
      [replicate 32 6] now True = Inr ()"
    using sample_root_documents(2) [OF assms(2)]
    by (simp add: authorization_set_Inr_iff root_sample_registration_def)
      (simp add: sample_manifest_def root_manifest_def sample_certificate_def sample_claims_def)
  moreover have "rrp_version (rr_payload root_sample_registration) = 2" by (simp add: root_sample_registration_def)
  ultimately show ?thesis
    by (simp add: root_verify_registration_def registration_verify_authorized_for_service_def registration_versions)
qed

lemma sample_root_runtime_sel [simp]:
  "rcf_controller_public_keys (rr_config (sample_root_runtime skew)) = [replicate 32 6]"
  "rcf_allow_legacy_registration (rr_config (sample_root_runtime skew)) = False"
  "rr_identity (sample_root_runtime skew) = 3"
  "root_clock_skew (rr_config (sample_root_runtime skew)) = max 30 (min 600 skew)"
  "root_peer_ttl (rr_config (sample_root_runtime skew)) = 90 * NANOS_PER_SEC"
  by (simp_all add: sample_root_runtime_def root_config_default_def root_clock_skew_def root_peer_ttl_def
      max_def min_def)

lemma sample_root_verifies_at:
  "root_verify_registration sample_root_ops root_sample_registration [replicate 32 6] 300 120 3 False = Inr ()"
  "root_verify_registration sample_root_ops root_sample_registration [replicate 32 6] 300 600 3 False = Inr ()"
  "root_verify_registration sample_root_ops root_sample_registration [replicate 32 6] 601 600 3 False = Inr ()"
  by (rule sample_root_verifies; simp add: abs_diff_def)+

lemma root_process_own:
  assumes "hm_get (rt_peers (fst (root_process X rt instant now remote reg st))) k = Some p" and "hm_ok (rt_peers st)"
  shows "snd k = rrp_device_id (rr_payload reg) \<or> hm_get (rt_peers st) k = Some p"
proof -
  let ?st = "root_after_hints (root_peer_ttl (rr_config rt)) instant now reg st"
  have "snd k = rrp_device_id (rr_payload reg) \<or> hm_get (rt_peers ?st) k = Some p \<or> hm_get (rt_peers st) k = Some p"
    using assms(1) unfolding root_process_def process_registration_split Let_def
    by (auto simp: root_entries_def split: if_splits sum.splits dest!: hm_get_fold_insert)
  then show ?thesis using root_after_hints_get [OF assms(2)] by blast
qed

lemma root_fresh_initial: "root_fresh instant reg root_initial"
  by (simp add: root_fresh_def root_initial_def nonce_admit_def hm_retain_def)

lemma sample_root_registers:
  assumes "skew \<in> {120, 600}"
  shows "(\<exists>peers refresh hints. snd (root_process sample_root_ops (sample_root_runtime skew) 0 300 remote
        root_sample_registration root_initial) = Inr (Registered remote peers refresh hints))
    \<and> (\<exists>p. hm_get (rt_peers (fst (root_process sample_root_ops (sample_root_runtime skew) 0 300 remote
        root_sample_registration root_initial))) (5, 1) = Some p)"
proof -
  have "max 30 (min 600 skew) = skew" using assms by (auto simp: max_def min_def)
  moreover have "root_verify_registration sample_root_ops root_sample_registration [replicate 32 6] 300 skew 3 False
      = Inr ()" using assms sample_root_verifies_at by blast
  ultimately show ?thesis
    using root_process_registers [of root_initial root_sample_registration sample_root_ops "sample_root_runtime skew"
        300 0 remote] root_fresh_initial
    by (simp add: root_initial_def) blast
qed

definition sample_root_state :: root_state where
  "sample_root_state = fst (root_receive sample_root_ops (sample_root_runtime 120) 0 300 (SocketV4 0x08080404 4000) []
     root_initial)"

lemma sample_root_parse: "parse_registration sample_root_ops datagram = Some root_sample_registration"
  by (simp add: sample_root_ops_def)

theorem root_peers_certified_witness:
  "\<exists>p. hm_get (rt_peers sample_root_state) (5, 1) = Some p \<and> length (rpe_candidates p) \<le> 16
    \<and> mcl_network_id (mc_claims (rpe_certificate p)) = 5"
proof -
  have reach: "root_reachable sample_root_ops (sample_root_runtime 120) sample_root_state"
    unfolding sample_root_state_def by (intro root_reachable.intros)
  obtain p where p: "hm_get (rt_peers sample_root_state) (5, 1) = Some p"
    using sample_root_registers [of 120] by (auto simp: sample_root_state_def root_receive_state sample_root_parse)
  from root_peers_certified [OF reach p] p show ?thesis by blast
qed

theorem root_answer_lists_comembers_witness:
  "\<exists>peers refresh hints. snd (root_process sample_root_ops (sample_root_runtime 120) 0 300 (SocketV4 0x08080404 4000)
      root_sample_registration root_initial) = Inr (Registered (SocketV4 0x08080404 4000) peers refresh hints)
    \<and> length peers \<le> 64 \<and> refresh \<le> 60"
proof -
  obtain peers refresh hints where r: "snd (root_process sample_root_ops (sample_root_runtime 120) 0 300
      (SocketV4 0x08080404 4000) root_sample_registration root_initial)
      = Inr (Registered (SocketV4 0x08080404 4000) peers refresh hints)"
    using sample_root_registers [of 120] by blast
  from root_answer_lists_comembers [OF root_reachable.start r] r show ?thesis by blast
qed

theorem root_registers_authorized_witness:
  "\<exists>peers refresh hints. snd (root_process sample_root_ops (sample_root_runtime 120) 0 300 (SocketV4 0x08080404 4000)
      root_sample_registration root_initial) = Inr (Registered (SocketV4 0x08080404 4000) peers refresh hints)"
  using root_registers_authorized [OF root_reachable.start, of root_sample_registration sample_root_ops
      "sample_root_runtime 120" 300 0 "SocketV4 0x08080404 4000"] sample_root_verifies_at(1) root_fresh_initial
  by (simp add: root_initial_def)

definition sample_datagram :: "nat \<Rightarrow> u64 \<Rightarrow> socket_addr \<Rightarrow> datagram_event" where
  "sample_datagram instant now remote =
     \<lparr>ev_instant = instant, ev_now = now, ev_remote = remote, ev_packet = []\<rparr>"

theorem root_refuses_replay_witness:
  "\<exists>err. snd (root_process sample_root_ops (sample_root_runtime 120) 10 310 (SocketV4 0x08080404 4000)
      root_sample_registration (fold (\<lambda>e st. fst (root_step sample_root_ops (sample_root_runtime 120) e st))
        [sample_datagram 0 300 (SocketV4 0x08080404 4000)] root_initial)) = Inl err"
proof -
  have "root_accepts sample_root_ops (sample_root_runtime 120) 300 [] = Some root_sample_registration"
    using sample_root_verifies_at(1)
    by (simp add: root_accepts_def sample_root_parse MAX_CERTIFICATES_PER_REGISTRATION_def)
  then show ?thesis
    using root_refuses_replay [OF root_reachable.start, of sample_root_ops "sample_root_runtime 120"
        "sample_datagram 0 300 (SocketV4 0x08080404 4000)" root_sample_registration "[]"
        "sample_datagram 10 310 (SocketV4 0x08080404 4000)" 0]
    by (simp add: sample_datagram_def)
qed

text \<open>
  The service accepts a configured clock skew of up to 600 seconds but remembers nonces for 300 seconds only.
  With a skew of 600 seconds and exact clocks, a registration datagram that was accepted is accepted a second time
  301 seconds later from another endpoint, and the device is then filed with that endpoint as its candidate.
\<close>

theorem root_long_skew_admits_replay:
  "\<exists>st'. st' = fst (root_step sample_root_ops (sample_root_runtime 600)
        (sample_datagram 0 300 (SocketV4 0x08080404 4000)) root_initial)
    \<and> root_clock_skew (rr_config (sample_root_runtime 600)) = 600
    \<and> (\<exists>peers refresh hints. snd (root_process sample_root_ops (sample_root_runtime 600) 0 300
          (SocketV4 0x08080404 4000) root_sample_registration root_initial)
        = Inr (Registered (SocketV4 0x08080404 4000) peers refresh hints))
    \<and> (\<exists>peers refresh hints. snd (root_process sample_root_ops (sample_root_runtime 600) (301 * NANOS_PER_SEC) 601
          (SocketV4 0x01010101 9) root_sample_registration st')
        = Inr (Registered (SocketV4 0x01010101 9) peers refresh hints))
    \<and> (\<exists>p. hm_get (rt_peers (fst (root_process sample_root_ops (sample_root_runtime 600) (301 * NANOS_PER_SEC) 601
          (SocketV4 0x01010101 9) root_sample_registration st'))) (5, 1) = Some p
          \<and> rpe_candidates p = [SocketV4 0x01010101 9])"
proof -
  let ?rt = "sample_root_runtime 600" and ?reg = root_sample_registration
  define st1 where "st1 = fst (root_process sample_root_ops ?rt 0 300 (SocketV4 0x08080404 4000) ?reg root_initial)"
  have st1: "st1 = fst (root_step sample_root_ops ?rt (sample_datagram 0 300 (SocketV4 0x08080404 4000)) root_initial)"
    by (simp add: st1_def root_step_def sample_datagram_def root_receive_state sample_root_parse)
  have "root_reachable sample_root_ops ?rt st1"
    unfolding st1 root_step_def by (intro root_reachable.intros)
  then have inv: "root_inv sample_root_ops [replicate 32 6] st1" using root_reachable_inv by force
  then have ok: "hm_ok (rt_peers st1)" by (simp add: root_inv_def)
  have acc: "root_accepts sample_root_ops ?rt 300 [] = Some ?reg"
    using sample_root_verifies_at(2)
    by (simp add: root_accepts_def sample_root_parse MAX_CERTIFICATES_PER_REGISTRATION_def)
  have seen: "rt_seen_nonces st1 = [(replicate 16 0, 0)]"
    using root_process_seen [OF acc, of 0 "SocketV4 0x08080404 4000" root_initial]
    by (simp add: st1_def root_initial_def nonce_admit_def hm_retain_def hm_insert_fresh)
  have fresh: "root_fresh (301 * NANOS_PER_SEC) ?reg st1"
    by (simp add: root_fresh_def seen nonce_admit_def hm_retain_def REGISTRATION_NONCE_TTL_def NANOS_PER_SEC_def)
  have own: "d = 1" if "hm_get (rt_peers st1) (n, d) = Some p" for n d p
    using inv that root_process_own [of sample_root_ops ?rt 0 300 _ ?reg root_initial "(n, d)" p]
    by (auto simp: st1_def root_initial_def)
  have cand: "root_candidates (SocketV4 0x01010101 9) (rrp_candidates (rr_payload ?reg)) = [SocketV4 0x01010101 9]"
    by (simp add: root_candidates_def root_sample_registration_def ROOT_MAX_CANDIDATES_PER_PEER_def)
  have "(\<exists>peers refresh hints. snd (root_process sample_root_ops ?rt (301 * NANOS_PER_SEC) 601
          (SocketV4 0x01010101 9) ?reg st1) = Inr (Registered (SocketV4 0x01010101 9) peers refresh hints))
    \<and> (\<exists>p. hm_get (rt_peers (fst (root_process sample_root_ops ?rt (301 * NANOS_PER_SEC) 601
          (SocketV4 0x01010101 9) ?reg st1))) (5, 1) = Some p \<and> rpe_candidates p = [SocketV4 0x01010101 9])"
    using root_process_registers [OF ok, of ?reg sample_root_ops ?rt 601 "301 * NANOS_PER_SEC" "SocketV4 0x01010101 9"]
      fresh own sample_root_verifies_at(3) cand by simp blast
  then show ?thesis using st1 sample_root_registers [of 600] by simp
qed

end
