(* ===== verification/Address_Pool.thy ===== *)
theory Address_Pool
  imports Network_Policy
begin

text \<open>
  Allocation of virtual addresses by the controller (\<^verbatim>\<open>crates/meshlake-controller/src/main.rs\<close>, functions
  \<^verbatim>\<open>assigned_addresses_for_device\<close>, \<^verbatim>\<open>allocate_ipv4_address\<close> and \<^verbatim>\<open>allocate_ipv6_address\<close>).
  \<open>pool_ops\<close> adds the broadcast address of an IPv4 prefix to the operations of \<^verbatim>\<open>ipnet\<close>.
\<close>

record pool_ops = policy_ops +
  net4_broadcast :: "ipv4_net \<Rightarrow> ipv4_addr"

type_synonym member_map = "(device_id, membership_claims) hash_map"

datatype pool_error =
    PoolInvalidIpv4Prefix
  | PoolIpv4PrefixTooLong
  | PoolIpv4Exhausted
  | PoolNoIpv6Prefix
  | PoolInvalidIpv6Prefix
  | PoolIpv6PrefixTooLong
  | PoolIpv6Exhausted

fun v4_of :: "ip_addr \<Rightarrow> ipv4_addr option" where
  "v4_of (V4 a) = Some a"
| "v4_of (V6 a) = None"

fun v6_of :: "ip_addr \<Rightarrow> ipv6_addr option" where
  "v6_of (V6 a) = Some a"
| "v6_of (V4 a) = None"

definition member_addresses :: "member_map \<Rightarrow> ip_addr list" where
  "member_addresses members = concat (map (\<lambda>(_, claims). mcl_assigned_addresses claims) members)"

text \<open>The loop over \<^verbatim>\<open>first..=last\<close>, with the number of candidates still to try.\<close>

fun ipv4_scan :: "nat \<Rightarrow> ipv4_addr \<Rightarrow> ipv4_addr list \<Rightarrow> ipv4_addr option" where
  "ipv4_scan 0 candidate used = None"
| "ipv4_scan (Suc n) candidate used =
     (if candidate \<notin> set used then Some candidate else ipv4_scan n (candidate + 1) used)"

definition allocate_ipv4_address ::
  "'x pool_ops_scheme \<Rightarrow> virtual_network \<Rightarrow> member_map \<Rightarrow> pool_error + ipv4_addr" where
  "allocate_ipv4_address X network members =
     (case parse_ipv4_net X (vn_ipv4_prefix network) of
        None \<Rightarrow> Inl PoolInvalidIpv4Prefix
      | Some prefix \<Rightarrow>
          if n4_prefix_len prefix \<ge> 31 then Inl PoolIpv4PrefixTooLong
          else
            let used = List.map_filter v4_of (member_addresses members);
                first = net4_network X prefix + 1;
                last = net4_broadcast X prefix - 1
            in (case ipv4_scan (Suc (unat last) - unat first) first used of
                  None \<Rightarrow> Inl PoolIpv4Exhausted
                | Some candidate \<Rightarrow> Inr candidate))"

text \<open>The loop over \<^verbatim>\<open>1..=used.len() + 1\<close>, which stops at the end of the address space and of the prefix.\<close>

fun ipv6_scan :: "'x pool_ops_scheme \<Rightarrow> ipv6_net \<Rightarrow> ipv6_addr list \<Rightarrow> nat \<Rightarrow> nat \<Rightarrow> ipv6_addr option" where
  "ipv6_scan X prefix used 0 offset = None"
| "ipv6_scan X prefix used (Suc n) offset =
     (let raw = unat (net6_network X prefix) + offset
      in if raw \<ge> 2 ^ 128 then None
         else
           let candidate = of_nat raw
           in if \<not> net6_contains X prefix candidate then None
              else if candidate \<notin> set used then Some candidate
              else ipv6_scan X prefix used n (Suc offset))"

definition allocate_ipv6_address ::
  "'x pool_ops_scheme \<Rightarrow> virtual_network \<Rightarrow> member_map \<Rightarrow> pool_error + ipv6_addr" where
  "allocate_ipv6_address X network members =
     (case vn_ipv6_prefix network of
        None \<Rightarrow> Inl PoolNoIpv6Prefix
      | Some text \<Rightarrow>
          (case parse_ipv6_net X text of
             None \<Rightarrow> Inl PoolInvalidIpv6Prefix
           | Some prefix \<Rightarrow>
               if n6_prefix_len prefix = 128 then Inl PoolIpv6PrefixTooLong
               else
                 let used = List.map_filter v6_of (member_addresses members)
                 in (case ipv6_scan X prefix used (length (remdups used) + 1) 1 of
                       None \<Rightarrow> Inl PoolIpv6Exhausted
                     | Some candidate \<Rightarrow> Inr candidate)))"

definition assigned_addresses_for_device ::
  "'x pool_ops_scheme \<Rightarrow> virtual_network \<Rightarrow> member_map \<Rightarrow> device_id \<Rightarrow> pool_error + ip_addr list" where
  "assigned_addresses_for_device X network members device =
     (let addresses = (case hm_get members device of None \<Rightarrow> [] | Some claims \<Rightarrow> mcl_assigned_addresses claims)
      in rbind (if list_ex is_ipv4 addresses then Inr addresses
                else rbind (allocate_ipv4_address X network members) (\<lambda>a. Inr (addresses @ [V4 a])))
         (\<lambda>addresses.
           if vn_ipv6_prefix network \<noteq> None \<and> \<not> list_ex (\<lambda>a. \<not> is_ipv4 a) addresses
           then rbind (allocate_ipv6_address X network members) (\<lambda>a. Inr (addresses @ [V6 a]))
           else Inr addresses))"

section \<open>Laws of the prefixes\<close>

text \<open>
  What \<^verbatim>\<open>ipnet\<close> documents of the two ends of a prefix: the network address has the host bits cleared and the
  broadcast address has them set; an IPv6 prefix contains exactly the block of its size at its network address.
\<close>

definition pool_laws :: "'x pool_ops_scheme \<Rightarrow> bool" where
  "pool_laws X \<longleftrightarrow>
     (\<forall>p. n4_prefix_len p \<le> 32 \<longrightarrow>
        unat (net4_broadcast X p) = unat (net4_network X p) + (2 ^ (32 - n4_prefix_len p) - 1))
     \<and> (\<forall>p a. n6_prefix_len p \<le> 128 \<longrightarrow>
        (net6_contains X p a \<longleftrightarrow> unat (net6_network X p) \<le> unat a
           \<and> unat a < unat (net6_network X p) + 2 ^ (128 - n6_prefix_len p)))
     \<and> (\<forall>s p. parse_ipv6_net X s = Some p \<longrightarrow> n6_prefix_len p \<le> 128
          \<and> unat (net6_network X p) + 2 ^ (128 - n6_prefix_len p) \<le> 2 ^ 128)"

section \<open>The scans\<close>

lemma in_family_iff:
  "a \<in> set (List.map_filter v4_of xs) \<longleftrightarrow> V4 a \<in> set xs"
  "b \<in> set (List.map_filter v6_of xs) \<longleftrightarrow> V6 b \<in> set xs"
proof -
  show "a \<in> set (List.map_filter v4_of xs) \<longleftrightarrow> V4 a \<in> set xs"
  proof (induction xs)
    case (Cons x xs)
    then show ?case by (cases x) (auto simp: map_filter_simps)
  qed (simp add: map_filter_simps)
  show "b \<in> set (List.map_filter v6_of xs) \<longleftrightarrow> V6 b \<in> set xs"
  proof (induction xs)
    case (Cons x xs)
    then show ?case by (cases x) (auto simp: map_filter_simps)
  qed (simp add: map_filter_simps)
qed

lemma ipv4_scan_Some:
  "ipv4_scan n c used = Some a \<Longrightarrow> unat c + n \<le> 2 ^ 32
     \<Longrightarrow> a \<notin> set used \<and> unat c \<le> unat a \<and> unat a < unat c + n"
proof (induction n arbitrary: c)
  case (Suc n)
  show ?case
  proof (cases "c \<in> set used")
    case True
    then have rec: "ipv4_scan n (c + 1) used = Some a" using Suc.prems(1) by simp
    have "n \<noteq> 0" using rec by (cases n) auto
    then have "unat (c + 1) = unat c + 1" using Suc.prems(2) by (simp add: unat_word_ariths(1))
    then show ?thesis using Suc.IH [OF rec] Suc.prems(2) by simp
  qed (use Suc.prems in auto)
qed simp

lemma ipv4_scan_None:
  "ipv4_scan n c used = None \<Longrightarrow> unat c + n \<le> 2 ^ 32 \<Longrightarrow> unat c \<le> unat a \<Longrightarrow> unat a < unat c + n \<Longrightarrow> a \<in> set used"
proof (induction n arbitrary: c)
  case (Suc n)
  have c: "c \<in> set used" and rec: "ipv4_scan n (c + 1) used = None"
    using Suc.prems(1) by (auto split: if_splits)
  show ?case
  proof (cases "a = c")
    case False
    then have "unat c \<noteq> unat a" by (metis word_unat_eq_iff)
    then have lt: "unat c < unat a" using Suc.prems(3) by simp
    then have "unat (c + 1) = unat c + 1" using unat_less_power [of a] by (simp add: unat_word_ariths(1))
    then show ?thesis using Suc.IH [OF rec] Suc.prems(2,4) lt by simp
  qed (use c in simp)
qed simp

text \<open>
  C19: IPv4 allocation. An allocated address is strictly between the network and the broadcast address of the
  network's prefix and is not held by any member, and allocation reports exhaustion only when every such address
  is held by a member.
\<close>

theorem allocate_ipv4_address_correct:
  assumes "pool_laws X" and "parse_ipv4_net X (vn_ipv4_prefix network) = Some prefix" and "n4_prefix_len prefix < 31"
  shows "case allocate_ipv4_address X network members of
      Inr a \<Rightarrow> unat (net4_network X prefix) < unat a \<and> unat a < unat (net4_broadcast X prefix)
        \<and> V4 a \<notin> set (member_addresses members)
    | Inl e \<Rightarrow> e = PoolIpv4Exhausted \<and> (\<forall>a. unat (net4_network X prefix) < unat a
        \<longrightarrow> unat a < unat (net4_broadcast X prefix) \<longrightarrow> V4 a \<in> set (member_addresses members))"
proof -
  let ?used = "List.map_filter v4_of (member_addresses members)"
  let ?net = "net4_network X prefix" and ?bc = "net4_broadcast X prefix"
  note used = in_family_iff(1) [of _ "member_addresses members"]
  have "(2::nat) ^ 2 \<le> 2 ^ (32 - n4_prefix_len prefix)" using assms(3) by (intro power_increasing) auto
  then have bc: "unat ?net + 3 \<le> unat ?bc" using assms(1,3) by (simp add: pool_laws_def)
  have lim: "unat ?bc < 2 ^ 32" using unat_less_power [of ?bc] by simp
  have ends: "unat (?net + 1) = unat ?net + 1" "unat (?bc - 1) = unat ?bc - 1"
    using bc lim by (simp_all add: unat_word_ariths(1) unat_sub word_le_nat_alt)
  have size: "Suc (unat (?bc - 1)) - unat (?net + 1) = unat ?bc - unat ?net - 1" "unat (?net + 1) + (unat ?bc - unat ?net - 1) \<le> 2 ^ 32"
    using ends bc lim by simp_all
  show ?thesis
  proof (cases "ipv4_scan (unat ?bc - unat ?net - 1) (?net + 1) ?used")
    case None
    have "V4 a \<in> set (member_addresses members)" if "unat ?net < unat a" "unat a < unat ?bc" for a
      using ipv4_scan_None [OF None size(2), of a] that ends bc unfolding used by simp
    then show ?thesis using assms(2,3) None size(1) by (simp add: allocate_ipv4_address_def Let_def)
  next
    case (Some a)
    then show ?thesis
      using assms(2,3) size(1) ipv4_scan_Some [OF Some size(2)] ends bc
      by (auto simp: allocate_ipv4_address_def used Let_def)
  qed
qed

lemma unat_ipv6_of_nat: "n < 2 ^ 128 \<Longrightarrow> unat (of_nat n :: ipv6_addr) = n"
  by (simp add: unat_of_nat)

lemma ipv6_scan_Some:
  "ipv6_scan X prefix used n k = Some a \<Longrightarrow>
     a \<notin> set used \<and> net6_contains X prefix a \<and> unat (net6_network X prefix) + k \<le> unat a"
proof (induction n arbitrary: k)
  case (Suc n)
  let ?raw = "unat (net6_network X prefix) + k"
  have raw: "?raw < 2 ^ 128" "net6_contains X prefix (of_nat ?raw)"
    using Suc.prems by (auto simp: Let_def not_less split: if_splits)
  have u: "unat (of_nat ?raw :: ipv6_addr) = ?raw" using raw(1) by (rule unat_ipv6_of_nat)
  show ?case
  proof (cases "of_nat ?raw \<in> set used")
    case True
    then have "ipv6_scan X prefix used n (Suc k) = Some a" using Suc.prems raw by (simp add: Let_def)
    from Suc.IH [OF this] show ?thesis by simp
  next
    case False
    then have "a = of_nat ?raw" using Suc.prems raw by (simp add: Let_def)
    then show ?thesis using False raw(2) u by simp
  qed
qed simp

text \<open>A scan that finds nothing has seen only used addresses, up to the end of the prefix or of its count.\<close>

lemma ipv6_scan_None:
  assumes "ipv6_scan X prefix used n k = None" and "i < n"
    and "unat (net6_network X prefix) + k + i < 2 ^ 128"
    and "\<And>j. j \<le> i \<Longrightarrow> net6_contains X prefix (of_nat (unat (net6_network X prefix) + k + j))"
  shows "of_nat (unat (net6_network X prefix) + k + i) \<in> set used"
  using assms
proof (induction n arbitrary: k i)
  case (Suc n)
  let ?net = "unat (net6_network X prefix)"
  have "?net + k < 2 ^ 128" "net6_contains X prefix (of_nat (?net + k))"
    using Suc.prems(3) Suc.prems(4) [of 0] by simp_all
  then have first: "of_nat (?net + k) \<in> set used" "ipv6_scan X prefix used n (Suc k) = None"
    using Suc.prems(1) by (auto simp: Let_def split: if_splits)
  show ?case
  proof (cases i)
    case (Suc i')
    have "of_nat (?net + Suc k + i') \<in> set used"
    proof (rule Suc.IH [OF first(2)])
      show "i' < n" "?net + Suc k + i' < 2 ^ 128" using Suc.prems(2,3) Suc by simp_all
      show "net6_contains X prefix (of_nat (?net + Suc k + j))" if "j \<le> i'" for j
        using Suc.prems(4) [of "Suc j"] that Suc by simp
    qed
    then show ?thesis using Suc by simp
  qed (use first(1) in simp)
qed simp

text \<open>More consecutive addresses than there are used ones cannot all be used.\<close>

lemma used_block_small:
  fixes used :: "ipv6_addr list"
  assumes "net + room \<le> 2 ^ 128"
    and "\<And>j. 1 \<le> j \<Longrightarrow> j \<le> length (remdups used) + 1 \<Longrightarrow> j < room \<Longrightarrow> of_nat (net + j) \<in> set used"
  shows "room \<le> length (remdups used) + 1"
proof (rule ccontr)
  define n where "n = length (remdups used) + 1"
  define f :: "nat \<Rightarrow> ipv6_addr" where "f j = of_nat (net + j)" for j
  assume "\<not> room \<le> length (remdups used) + 1"
  then have lt: "n < room" by (simp add: n_def)
  have val: "unat (f j) = net + j" if "j \<le> n" for j
    unfolding f_def
  proof (rule unat_ipv6_of_nat)
    have "net + j < net + room" using that lt by (simp only: nat_add_left_cancel_less)
    then show "net + j < 2 ^ 128" using assms(1) by (rule less_le_trans)
  qed
  have "inj_on f {1..n}"
  proof (rule inj_onI)
    fix i j assume "i \<in> {1..n}" "j \<in> {1..n}" "f i = f j"
    then have "net + i = net + j" by (metis atLeastAtMost_iff val)
    then show "i = j" by (rule add_left_imp_eq)
  qed
  moreover have "f ` {1..n} \<subseteq> set used"
  proof
    fix x assume "x \<in> f ` {1..n}"
    then obtain j where j: "x = f j" "1 \<le> j" "j \<le> n" by auto
    then have "of_nat (net + j) \<in> set used" using lt by (intro assms(2)) (simp_all add: n_def)
    then show "x \<in> set used" by (simp only: j(1) f_def)
  qed
  ultimately have "card {1..n} \<le> card (set used)" by (rule card_inj_on_le) (rule finite_set)
  then show False by (simp add: n_def length_remdups_card_conv)
qed

text \<open>
  IPv6 allocation tries only as many candidates as there are used addresses and one more, and that is enough:
  an allocated address is a host address of the prefix that no member holds, and exhaustion is reported only when
  every host address of the prefix is held by a member.
\<close>

theorem allocate_ipv6_address_correct:
  assumes "pool_laws X" and "vn_ipv6_prefix network = Some text" and "parse_ipv6_net X text = Some prefix"
    and "n6_prefix_len prefix < 128"
  shows "case allocate_ipv6_address X network members of
      Inr a \<Rightarrow> net6_contains X prefix a \<and> unat (net6_network X prefix) < unat a
        \<and> V6 a \<notin> set (member_addresses members)
    | Inl e \<Rightarrow> e = PoolIpv6Exhausted \<and> (\<forall>a. net6_contains X prefix a
        \<longrightarrow> a \<noteq> net6_network X prefix \<longrightarrow> V6 a \<in> set (member_addresses members))"
proof -
  let ?used = "List.map_filter v6_of (member_addresses members)" and ?net = "unat (net6_network X prefix)"
  let ?n = "length (remdups ?used) + 1" and ?size = "2 ^ (128 - n6_prefix_len prefix) :: nat"
  note used = in_family_iff(2) [of _ "member_addresses members"]
  have len: "n6_prefix_len prefix \<le> 128" "?net + ?size \<le> 2 ^ 128" using assms(1,3) by (auto simp: pool_laws_def)
  have mem: "net6_contains X prefix a \<longleftrightarrow> ?net \<le> unat a \<and> unat a < ?net + ?size" for a
    using assms(1) len(1) by (simp add: pool_laws_def)
  have addr: "unat (of_nat (?net + j) :: ipv6_addr) = ?net + j" if "j < ?size" for j
    using that len(2) by (intro unat_ipv6_of_nat) simp
  show ?thesis
  proof (cases "ipv6_scan X prefix ?used ?n 1")
    case None
    have hit: "of_nat (?net + j) \<in> set ?used" if "1 \<le> j" "j \<le> ?n" "j < ?size" for j
    proof -
      have "of_nat (?net + 1 + (j - 1)) \<in> set ?used"
      proof (rule ipv6_scan_None [OF None])
        show "j - 1 < ?n" "?net + 1 + (j - 1) < 2 ^ 128" using that len(2) by simp_all
        show "net6_contains X prefix (of_nat (?net + 1 + i))" if "i \<le> j - 1" for i
          unfolding mem using addr [of "1 + i"] that \<open>1 \<le> j\<close> \<open>j < ?size\<close> by simp
      qed
      then show ?thesis using that(1) by simp
    qed
    have small: "?size \<le> ?n"
      by (rule used_block_small [of ?net ?size, OF len(2)]) (rule hit)
    have "V6 a \<in> set (member_addresses members)" if "net6_contains X prefix a" "a \<noteq> net6_network X prefix" for a
    proof -
      have a: "?net < unat a" "unat a < ?net + ?size" using that mem by (auto simp: word_unat_eq_iff)
      then have "of_nat (?net + (unat a - ?net)) \<in> set ?used" using small by (intro hit) auto
      then show ?thesis using a unfolding used by simp
    qed
    then show ?thesis using assms(2-4) None by (simp add: allocate_ipv6_address_def Let_def)
  next
    case (Some a)
    then show ?thesis
      using assms(2-4) ipv6_scan_Some [OF Some] used by (auto simp: allocate_ipv6_address_def Let_def)
  qed
qed

section \<open>The addresses of a device\<close>

lemma allocate_fresh:
  "allocate_ipv4_address X network members = Inr a \<Longrightarrow> V4 a \<notin> set (member_addresses members)"
  "allocate_ipv6_address X network members = Inr b \<Longrightarrow> V6 b \<notin> set (member_addresses members)"
proof -
  have scan: "ipv4_scan n c used = Some a \<Longrightarrow> a \<notin> set used" for n c used
    by (induction n c used rule: ipv4_scan.induct) (auto split: if_splits)
  show "allocate_ipv4_address X network members = Inr a \<Longrightarrow> V4 a \<notin> set (member_addresses members)"
    unfolding in_family_iff(1) [symmetric]
    by (auto simp: allocate_ipv4_address_def Let_def split: option.splits if_splits dest: scan)
  show "allocate_ipv6_address X network members = Inr b \<Longrightarrow> V6 b \<notin> set (member_addresses members)"
    unfolding in_family_iff(2) [symmetric]
    by (auto simp: allocate_ipv6_address_def Let_def simp del: ipv6_scan.simps
        split: option.splits if_splits dest: ipv6_scan_Some)
qed

definition device_addresses :: "member_map \<Rightarrow> device_id \<Rightarrow> ip_addr list" where
  "device_addresses members d = (case hm_get members d of None \<Rightarrow> [] | Some c \<Rightarrow> mcl_assigned_addresses c)"

text \<open>A device keeps the addresses it has; what is added is held by no member.\<close>

lemma assigned_addresses_Inr:
  assumes "assigned_addresses_for_device X network members d = Inr as"
  shows "set (device_addresses members d) \<subseteq> set as"
    and "\<And>a. a \<in> set as \<Longrightarrow> a \<in> set (device_addresses members d) \<or> a \<notin> set (member_addresses members)"
    and "\<exists>a. V4 a \<in> set as"
proof -
  let ?old = "device_addresses members d"
  obtain mid where mid: "(if list_ex is_ipv4 ?old then Inr ?old
      else rbind (allocate_ipv4_address X network members) (\<lambda>a. Inr (?old @ [V4 a]))) = Inr mid"
    and res: "(if vn_ipv6_prefix network \<noteq> None \<and> \<not> list_ex (\<lambda>a. \<not> is_ipv4 a) mid
      then rbind (allocate_ipv6_address X network members) (\<lambda>a. Inr (mid @ [V6 a])) else Inr mid) = Inr as"
    using assms unfolding assigned_addresses_for_device_def device_addresses_def Let_def rbind_Inr_iff by blast
  have m: "set ?old \<subseteq> set mid" "\<And>a. a \<in> set mid \<Longrightarrow> a \<in> set ?old \<or> a \<notin> set (member_addresses members)"
    "\<exists>a. V4 a \<in> set mid"
    using mid by (auto dest: allocate_fresh(1) simp: list_ex_iff split: if_splits elim!: is_ipv4.elims)
  have r: "set mid \<subseteq> set as" "\<And>a. a \<in> set as \<Longrightarrow> a \<in> set mid \<or> a \<notin> set (member_addresses members)"
    using res by (auto dest: allocate_fresh(2) split: if_splits)
  show "set ?old \<subseteq> set as" using m(1) r(1) by blast
  show "a \<in> set ?old \<or> a \<notin> set (member_addresses members)" if "a \<in> set as" for a
    using m(2) r(2) [OF that] by blast
  show "\<exists>a. V4 a \<in> set as" using m(3) r(1) by blast
qed

lemma device_addresses_member: "hm_ok members \<Longrightarrow> a \<in> set (member_addresses members) \<longleftrightarrow>
    (\<exists>d. a \<in> set (device_addresses members d))"
proof -
  assume ok: "hm_ok members"
  have "a \<in> set (member_addresses members) \<longleftrightarrow> (\<exists>x. x \<in> set members \<and> a \<in> set (mcl_assigned_addresses (snd x)))"
    by (auto simp: member_addresses_def)
  also have "\<dots> \<longleftrightarrow> (\<exists>d c. hm_get members d = Some c \<and> a \<in> set (mcl_assigned_addresses c))"
    by (metis prod.collapse snd_conv hm_in_set_iff [OF ok])
  also have "\<dots> \<longleftrightarrow> (\<exists>d. a \<in> set (device_addresses members d))"
  proof (rule ex_cong1)
    show "(\<exists>c. hm_get members d = Some c \<and> a \<in> set (mcl_assigned_addresses c)) \<longleftrightarrow>
        a \<in> set (device_addresses members d)" for d
      by (cases "hm_get members d") (simp_all add: device_addresses_def)
  qed
  finally show ?thesis .
qed

section \<open>Instances\<close>

text \<open>Prefixes at the start of each address space, written as one letter.\<close>

definition sample_pool :: pool_ops where
  "sample_pool = (policy_ops.extend (const_policy sample_prims)
       (pool_ops.fields (\<lambda>p. of_nat (2 ^ (32 - n4_prefix_len p) - 1))))
     \<lparr>net4_network := \<lambda>_. 0, net6_network := \<lambda>_. 0,
      net6_contains := \<lambda>p a. unat a < 2 ^ (128 - n6_prefix_len p),
      parse_ipv4_net := \<lambda>s. if s = ''a'' then Some \<lparr>n4_addr = 0, n4_prefix_len = 24\<rparr> else None,
      parse_ipv6_net := \<lambda>s. if s = ''b'' then Some \<lparr>n6_addr = 0, n6_prefix_len = 64\<rparr> else None\<rparr>"

lemma unat_ipv4_of_nat: "n < 2 ^ 32 \<Longrightarrow> unat (of_nat n :: ipv4_addr) = n"
  by (simp add: unat_of_nat)

lemma sample_pool_laws: "pool_laws sample_pool"
proof -
  have "unat (of_nat (2 ^ (32 - n) - 1) :: ipv4_addr) = 2 ^ (32 - n) - 1" for n
  proof -
    have "(2::nat) ^ (32 - n) \<le> 2 ^ 32" by (rule power_increasing) simp_all
    moreover have "(0::nat) < 2 ^ (32 - n)" by simp
    ultimately have "(2::nat) ^ (32 - n) - 1 < 2 ^ 32" by linarith
    then show ?thesis by (simp only: unat_ipv4_of_nat)
  qed
  then show ?thesis
    by (auto simp: pool_laws_def sample_pool_def policy_ops.defs pool_ops.defs split: if_splits)
qed

definition sample_network :: virtual_network where
  "sample_network = \<lparr>vn_id = 5, vn_name = ''n'', vn_ipv4_prefix = ''a'', vn_ipv6_prefix = Some ''b'',
     vn_relay_policy = Preferred\<rparr>"

theorem allocate_ipv4_address_correct_witness:
  "case allocate_ipv4_address sample_pool sample_network [] of Inr a \<Rightarrow> 0 < unat a | Inl e \<Rightarrow> e = PoolIpv4Exhausted"
proof -
  have "parse_ipv4_net sample_pool (vn_ipv4_prefix sample_network) = Some \<lparr>n4_addr = 0, n4_prefix_len = 24\<rparr>"
    by (simp add: sample_pool_def sample_network_def)
  from allocate_ipv4_address_correct [OF sample_pool_laws this, of "[]"] show ?thesis
    by (auto split: sum.splits)
qed

theorem allocate_ipv6_address_correct_witness:
  "case allocate_ipv6_address sample_pool sample_network [] of Inr a \<Rightarrow> 0 < unat a | Inl e \<Rightarrow> e = PoolIpv6Exhausted"
proof -
  have "vn_ipv6_prefix sample_network = Some ''b''"
    "parse_ipv6_net sample_pool ''b'' = Some \<lparr>n6_addr = 0, n6_prefix_len = 64\<rparr>"
    by (simp_all add: sample_pool_def sample_network_def)
  from allocate_ipv6_address_correct [OF sample_pool_laws this, of "[]"] show ?thesis
    by (auto split: sum.splits)
qed

end
