(* ===== verification/Controller.thy ===== *)
theory Controller
  imports Wire_Format Address_Pool Nonce_Cache
begin

text \<open>
  The controller (\<^verbatim>\<open>crates/meshlake-controller/src/main.rs\<close>): its state, and the operations behind its HTTP
  routes. An operation takes what it reads from outside as an \<open>environment\<close> (the clocks, a new identifier, a
  new network key or the failure to generate one, and whether the state file could be written) and returns the
  new state, also when it fails: the source changes the state in memory before it writes the file, and
  keeps those changes on the later error paths. All readings of the wall clock in one operation give the same
  value. State files, their protection and migration from disk, TLS and the HTTP server are not modelled.
\<close>

section \<open>State\<close>

definition CONTROLLER_STATE_SCHEMA_VERSION :: u32 where "CONTROLLER_STATE_SCHEMA_VERSION = 2"

record managed_policy_route =
  mpr_prefix :: string
  mpr_gateway_device_id :: device_id

record managed_exit_node =
  men_gateway_device_id :: device_id
  men_supports_ipv4 :: bool
  men_supports_ipv6 :: bool

record managed_policy =
  mpo_routes :: "managed_policy_route list"
  mpo_exit_nodes :: "managed_exit_node list"
  mpo_dns :: dns_policy

record managed_network =
  mn_network :: virtual_network
  mn_members :: member_map
  mn_network_key :: bytes
  mn_network_key_epoch :: u64
  mn_authorization_epoch :: u64
  mn_member_certificate_ids :: "(device_id, uuid) hash_map"
  mn_revoked_certificate_ids :: "(uuid, u64) hash_map"
  mn_policy_epoch :: u64
  mn_policy :: managed_policy

record enrollment_token =
  et_network_id :: network_id
  et_expires_at_unix_seconds :: u64
  et_used_by :: "device_id option"

record controller_state =
  cs_schema_version :: u32
  cs_signing_key :: bytes
  cs_admin_token :: string
  cs_networks :: "(network_id, managed_network) hash_map"
  cs_enrollment_tokens :: "(uuid, enrollment_token) hash_map"

record turn_rest_auth =
  tra_secret :: bytes
  tra_credential_ttl_seconds :: u64

record planet_settings =
  pls_version :: u8
  pls_controller_url :: string
  pls_tls_client_ca_pem :: "string option"
  pls_roots :: "planet_root list"
  pls_relays :: "planet_relay list"
  pls_tls_relays :: "planet_tls_relay list"
  pls_turn_servers :: "planet_turn_server list"
  pls_turn_auth :: "turn_rest_auth option"
  pls_stun_servers :: "string list"

record controller =
  ct_state :: controller_state
  ct_planet :: "planet_settings option"
  ct_refresh_nonces :: "(bytes, nat) hash_map"

record environment =
  env_now :: u64
  env_instant :: nat
  env_new_uuid :: uuid
  env_new_key :: "bytes option"
  env_saved :: bool

section \<open>Requests, responses and errors\<close>

record policy_update_request =
  pur_routes :: "managed_policy_route list"
  pur_exit_nodes :: "managed_exit_node list"
  pur_dns :: dns_policy

record token_response =
  tr_token :: string
  tr_expires_at_unix_seconds :: u64
  tr_invite_link :: "string option"

record enrollment_request =
  er_network_id :: network_id
  er_device_id :: device_id
  er_device_public_key :: bytes
  er_token :: string

record turn_credential =
  tc_version :: u8
  tc_username :: string
  tc_password :: string
  tc_expires_at_unix_seconds :: u64

record enrollment_response =
  ers_network :: virtual_network
  ers_certificate :: membership_certificate
  ers_network_key :: bytes
  ers_authorization :: network_authorization_manifest
  ers_turn_credential :: "turn_credential option"

record membership_refresh_response =
  mrs_revoked :: bool
  mrs_authorization :: network_authorization_manifest
  mrs_certificate :: "membership_certificate option"
  mrs_network_key :: bytes
  mrs_turn_credential :: "turn_credential option"

datatype policy_sign_error =
    GatewayNotMember
  | GatewayCertificateMissing
  | GatewayNotAuthorized
  | ExitNotMember
  | ExitCertificateMissing
  | CertificateFailed crypto_error
  | PolicyFailed policy_error

text \<open>An error of the API: its status and what its text is made of.\<close>

datatype api_reason =
    Text string
  | OfModel model_error
  | OfPool pool_error
  | OfCrypto crypto_error
  | OfPolicy policy_sign_error

datatype api_error =
    BadRequest api_reason
  | Conflict api_reason
  | NotFound api_reason
  | Unauthorized api_reason
  | Internal api_reason

text \<open>
  The operations of the crates that the controller uses besides: identifiers as text, Base64, HMAC-SHA1 and URLs
  with query pairs.
\<close>

record controller_ops = pool_ops +
  parse_uuid :: "string \<Rightarrow> uuid option"
  show_uuid :: "uuid \<Rightarrow> string"
  base64_encode :: "bytes \<Rightarrow> string"
  hmac_sha1 :: "bytes \<Rightarrow> bytes \<Rightarrow> bytes option"
  url_with_pairs :: "string \<Rightarrow> (string \<times> string) list \<Rightarrow> string"

section \<open>Helpers\<close>

definition signing_key :: "controller_state \<Rightarrow> bytes option" where
  "signing_key st = (if length (cs_signing_key st) = 32 then Some (cs_signing_key st) else None)"

definition require_admin :: "controller_state \<Rightarrow> string option \<Rightarrow> api_error + unit" where
  "require_admin st header =
     (if (case header of None \<Rightarrow> '''' | Some supplied \<Rightarrow> supplied) = cs_admin_token st then Inr ()
      else Inl (Unauthorized (Text ''administrator token is required'')))"

text \<open>Decimal digits, as \<^verbatim>\<open>Display\<close> writes an unsigned integer.\<close>

fun show_nat :: "nat \<Rightarrow> string" where
  "show_nat n = (if n < 10 then [char_of (48 + n)] else show_nat (n div 10) @ [char_of (48 + n mod 10)])"

declare show_nat.simps [simp del]

definition mint_turn_credential ::
  "'x controller_ops_scheme \<Rightarrow> turn_rest_auth \<Rightarrow> device_id \<Rightarrow> u64 \<Rightarrow> turn_credential option" where
  "mint_turn_credential X auth device now =
     (let expires = saturating_add now (tra_credential_ttl_seconds auth);
          username = show_nat (unat expires) @ '':'' @ show_uuid X device
      in map_option (\<lambda>mac. \<lparr>tc_version = 1, tc_username = username, tc_password = base64_encode X mac,
             tc_expires_at_unix_seconds = expires\<rparr>)
           (hmac_sha1 X (tra_secret auth) (ascii username)))"

text \<open>The outer option is the result: \<open>None\<close> is an error.\<close>

definition turn_credential_for ::
  "'x controller_ops_scheme \<Rightarrow> planet_settings option \<Rightarrow> device_id \<Rightarrow> u64 \<Rightarrow> turn_credential option option" where
  "turn_credential_for X planet device now =
     (case planet of
        None \<Rightarrow> Some None
      | Some p \<Rightarrow>
          (case pls_turn_auth p of
             None \<Rightarrow> Some None
           | Some auth \<Rightarrow> map_option Some (mint_turn_credential X auth device now)))"

definition make_invite_link ::
  "'x controller_ops_scheme \<Rightarrow> string \<Rightarrow> uuid \<Rightarrow> string \<Rightarrow> string \<Rightarrow> string option \<Rightarrow> string" where
  "make_invite_link X controller_url network_id token key ca =
     (let base = trim_end_matches CHR ''/'' controller_url
      in url_with_pairs X ''meshlake://join''
           ([(''controller'', base), (''network_id'', show_uuid X network_id), (''token'', token),
             (''public_key'', key), (''planet'', base @ ''/v1/planet'')]
            @ (case ca of None \<Rightarrow> [] | Some pem \<Rightarrow> [(''tls_ca'', base64_encode X (ascii pem))])))"

definition sign_authorization ::
  "'x controller_ops_scheme \<Rightarrow> u64 \<Rightarrow> managed_network \<Rightarrow> bytes \<Rightarrow> crypto_error + network_authorization_manifest" where
  "sign_authorization X now network key =
     authorization_sign X (vn_id (mn_network network)) (mn_authorization_epoch network) (mn_network_key_epoch network)
       (List.map_filter (\<lambda>(device, claims).
          map_option (\<lambda>certificate_id. \<lparr>am_device_id = device, am_certificate_id = certificate_id,
              am_device_public_key = mcl_device_public_key claims,
              am_network_key_epoch = mn_network_key_epoch network\<rparr>)
            (hm_get (mn_member_certificate_ids network) device)) (mn_members network))
       (map fst (mn_revoked_certificate_ids network)) now (now + 90) key"

definition route_prefix_covers :: "'x controller_ops_scheme \<Rightarrow> string \<Rightarrow> string \<Rightarrow> bool" where
  "route_prefix_covers X allowed target =
     (case (parse_ip_net X allowed, parse_ip_net X target) of
        (Some (Net4 a), Some (Net4 t)) \<Rightarrow>
          n4_prefix_len a \<le> n4_prefix_len t \<and> net4_contains X a (net4_network X t)
      | (Some (Net6 a), Some (Net6 t)) \<Rightarrow>
          n6_prefix_len a \<le> n6_prefix_len t \<and> net6_contains X a (net6_network X t)
      | _ \<Rightarrow> False)"

definition renewed_claims :: "u64 \<Rightarrow> membership_claims \<Rightarrow> membership_claims" where
  "renewed_claims now claims =
     claims\<lparr>mcl_issued_at_unix_seconds := now, mcl_expires_at_unix_seconds := Some (now + 86400)\<rparr>"

definition sign_policy_route ::
  "'x controller_ops_scheme \<Rightarrow> u64 \<Rightarrow> managed_network \<Rightarrow> bytes \<Rightarrow> managed_policy_route
     \<Rightarrow> policy_sign_error + policy_route" where
  "sign_policy_route X now network key route =
     rbind (ok_or GatewayNotMember (hm_get (mn_members network) (mpr_gateway_device_id route))) (\<lambda>claims.
     rbind (ok_or GatewayCertificateMissing
              (hm_get (mn_member_certificate_ids network) (mpr_gateway_device_id route))) (\<lambda>certificate_id.
       if \<not> list_ex (\<lambda>allowed. route_prefix_covers X allowed (mpr_prefix route)) (mcl_allowed_routes claims)
       then Inl GatewayNotAuthorized
       else rbind (map_err CertificateFailed (certificate_sign_authorized X (renewed_claims now claims)
                certificate_id (mn_network_key_epoch network) key)) (\<lambda>certificate.
              Inr \<lparr>prt_prefix = mpr_prefix route, prt_gateway_certificate = certificate\<rparr>)))"

definition sign_exit_node ::
  "'x controller_ops_scheme \<Rightarrow> u64 \<Rightarrow> managed_network \<Rightarrow> bytes \<Rightarrow> managed_exit_node
     \<Rightarrow> policy_sign_error + exit_node" where
  "sign_exit_node X now network key node =
     rbind (ok_or ExitNotMember (hm_get (mn_members network) (men_gateway_device_id node))) (\<lambda>claims.
     rbind (ok_or ExitCertificateMissing
              (hm_get (mn_member_certificate_ids network) (men_gateway_device_id node))) (\<lambda>certificate_id.
     rbind (map_err CertificateFailed (certificate_sign_authorized X (renewed_claims now claims)
              certificate_id (mn_network_key_epoch network) key)) (\<lambda>certificate.
       Inr \<lparr>en_gateway_certificate = certificate, en_supports_ipv4 = men_supports_ipv4 node,
            en_supports_ipv6 = men_supports_ipv6 node\<rparr>)))"

definition sign_policy ::
  "'x controller_ops_scheme \<Rightarrow> u64 \<Rightarrow> managed_network \<Rightarrow> bytes \<Rightarrow> policy_sign_error + network_policy_manifest" where
  "sign_policy X now network key =
     rbind (try_map (sign_policy_route X now network key) (mpo_routes (mn_policy network))) (\<lambda>routes.
     rbind (try_map (sign_exit_node X now network key) (mpo_exit_nodes (mn_policy network))) (\<lambda>exit_nodes.
       map_err PolicyFailed (policy_sign_with_exit_nodes X (vn_id (mn_network network)) (mn_policy_epoch network)
         routes exit_nodes (mpo_dns (mn_policy network)) now (now + 90) key)))"

definition network_routes :: "virtual_network \<Rightarrow> string list" where
  "network_routes network =
     vn_ipv4_prefix network # (case vn_ipv6_prefix network of None \<Rightarrow> [] | Some prefix \<Rightarrow> [prefix])"

section \<open>Operations\<close>

text \<open>Writing the state file at the end of an operation.\<close>

definition saved :: "environment \<Rightarrow> controller_state \<Rightarrow> 'a \<Rightarrow> controller_state \<times> (api_error + 'a)" where
  "saved env st result =
     (st, if env_saved env then Inr result else Inl (Internal (Text ''cannot securely write controller state'')))"

definition put_network :: "controller_state \<Rightarrow> network_id \<Rightarrow> managed_network \<Rightarrow> controller_state" where
  "put_network st network_id managed = st\<lparr>cs_networks := hm_insert network_id managed (cs_networks st)\<rparr>"

definition network_missing :: api_error where
  "network_missing = NotFound (Text ''network does not exist'')"

definition key_invalid :: api_error where
  "key_invalid = Internal (Text ''controller signing key is invalid'')"

definition create_network ::
  "'x controller_ops_scheme \<Rightarrow> environment \<Rightarrow> string option \<Rightarrow> upsert_network_request \<Rightarrow> controller_state
     \<Rightarrow> controller_state \<times> (api_error + virtual_network)" where
  "create_network X env header request st =
     (case upsert_network_request_validate X request of
        Inl e \<Rightarrow> (st, Inl (BadRequest (OfModel e)))
      | Inr _ \<Rightarrow>
          (case require_admin st header of
             Inl e \<Rightarrow> (st, Inl e)
           | Inr _ \<Rightarrow>
               let nid = (case unr_id request of None \<Rightarrow> env_new_uuid env | Some given \<Rightarrow> given)
               in if hm_get (cs_networks st) nid \<noteq> None then (st, Inl (Conflict (Text ''network id already exists'')))
                  else
                    let network = \<lparr>vn_id = nid, vn_name = unr_name request, vn_ipv4_prefix = unr_ipv4_prefix request,
                          vn_ipv6_prefix = unr_ipv6_prefix request, vn_relay_policy = unr_relay_policy request\<rparr>
                    in (case network_key_generate (env_new_key env) of
                          Inl e \<Rightarrow> (st, Inl (Internal (OfCrypto e)))
                        | Inr key \<Rightarrow>
                            saved env (put_network st nid \<lparr>mn_network = network, mn_members = [], mn_network_key = key,
                                mn_network_key_epoch = 1, mn_authorization_epoch = 1,
                                mn_member_certificate_ids = [], mn_revoked_certificate_ids = [], mn_policy_epoch = 1,
                                mn_policy = \<lparr>mpo_routes = [], mpo_exit_nodes = [],
                                  mpo_dns = \<lparr>dns_servers = [], dns_search_domains = []\<rparr>\<rparr>\<rparr>) network)))"

definition issue_token ::
  "'x controller_ops_scheme \<Rightarrow> environment \<Rightarrow> planet_settings option \<Rightarrow> string option \<Rightarrow> network_id \<Rightarrow> u64 option
     \<Rightarrow> controller_state \<Rightarrow> controller_state \<times> (api_error + token_response)" where
  "issue_token X env planet header network_id expires_in st =
     (case require_admin st header of
        Inl e \<Rightarrow> (st, Inl e)
      | Inr _ \<Rightarrow>
          if hm_get (cs_networks st) network_id = None then (st, Inl network_missing)
          else
            let expires = env_now env + max 60 (min 86400 (case expires_in of None \<Rightarrow> 900 | Some s \<Rightarrow> s));
                token = env_new_uuid env;
                st = st\<lparr>cs_enrollment_tokens := hm_insert token \<lparr>et_network_id = network_id,
                      et_expires_at_unix_seconds = expires, et_used_by = None\<rparr> (cs_enrollment_tokens st)\<rparr>
            in if \<not> env_saved env then (st, Inl (Internal (Text ''cannot securely write controller state'')))
               else (case signing_key st of
                       None \<Rightarrow> (st, Inl key_invalid)
                     | Some key \<Rightarrow>
                         (st, Inr \<lparr>tr_token = show_uuid X token, tr_expires_at_unix_seconds = expires,
                            tr_invite_link = map_option (\<lambda>p. make_invite_link X (pls_controller_url p) network_id
                              (show_uuid X token) (base64_encode X (verifying_key X key))
                              (pls_tls_client_ca_pem p)) planet\<rparr>)))"

text \<open>Enrollment, after the token has been bound to the device.\<close>

definition enroll_member ::
  "'x controller_ops_scheme \<Rightarrow> environment \<Rightarrow> planet_settings option \<Rightarrow> enrollment_request \<Rightarrow> bytes \<Rightarrow> managed_network
     \<Rightarrow> controller_state \<Rightarrow> controller_state \<times> (api_error + enrollment_response)" where
  "enroll_member X env planet request key managed st =
     (let device = er_device_id request;
          network = mn_network managed
      in case assigned_addresses_for_device X network (mn_members managed) device of
           Inl e \<Rightarrow> (st, Inl (BadRequest (OfPool e)))
         | Inr assigned \<Rightarrow>
             let certificate_id = (case hm_get (mn_member_certificate_ids managed) device of
                   None \<Rightarrow> env_new_uuid env | Some existing \<Rightarrow> existing);
                 managed = managed\<lparr>mn_member_certificate_ids :=
                   hm_insert device certificate_id (mn_member_certificate_ids managed)\<rparr>;
                 st = put_network st (er_network_id request) managed;
                 claims = \<lparr>mcl_network_id = er_network_id request, mcl_device_id = device,
                   mcl_device_public_key = er_device_public_key request, mcl_assigned_addresses = assigned,
                   mcl_allowed_routes = network_routes network, mcl_issued_at_unix_seconds = env_now env,
                   mcl_expires_at_unix_seconds = Some (env_now env + 86400)\<rparr>
             in (case certificate_sign_authorized X claims certificate_id (mn_network_key_epoch managed) key of
                   Inl e \<Rightarrow> (st, Inl (Internal (OfCrypto e)))
                 | Inr certificate \<Rightarrow>
                     let managed = managed\<lparr>mn_members := hm_insert device claims (mn_members managed),
                           mn_authorization_epoch := saturating_add (mn_authorization_epoch managed) 1\<rparr>;
                         st = put_network st (er_network_id request) managed
                     in (case sign_authorization X (env_now env) managed key of
                           Inl e \<Rightarrow> (st, Inl (Internal (OfCrypto e)))
                         | Inr authorization \<Rightarrow>
                             if \<not> env_saved env
                             then (st, Inl (Internal (Text ''cannot securely write controller state'')))
                             else (case turn_credential_for X planet device (env_now env) of
                                     None \<Rightarrow> (st, Inl (Internal (Text ''TURN static-auth secret is invalid'')))
                                   | Some credential \<Rightarrow>
                                       (st, Inr \<lparr>ers_network = network, ers_certificate = certificate,
                                          ers_network_key = mn_network_key managed,
                                          ers_authorization = authorization,
                                          ers_turn_credential = credential\<rparr>)))))"

definition enroll ::
  "'x controller_ops_scheme \<Rightarrow> environment \<Rightarrow> planet_settings option \<Rightarrow> enrollment_request \<Rightarrow> controller_state
     \<Rightarrow> controller_state \<times> (api_error + enrollment_response)" where
  "enroll X env planet request st =
     (if length (er_device_public_key request) \<noteq> 32
      then (st, Inl (BadRequest (Text ''device public key must contain exactly 32 bytes'')))
      else case parse_uuid X (er_token request) of
        None \<Rightarrow> (st, Inl (BadRequest (Text ''token format is invalid'')))
      | Some token_id \<Rightarrow>
          (case hm_get (cs_enrollment_tokens st) token_id of
             None \<Rightarrow> (st, Inl (Unauthorized (Text ''token is invalid or expired'')))
           | Some token \<Rightarrow>
               if et_network_id token \<noteq> er_network_id request \<or> env_now env > et_expires_at_unix_seconds token
               then (st, Inl (Unauthorized (Text ''token is invalid or expired'')))
               else if et_used_by token \<notin> {None, Some (er_device_id request)}
               then (st, Inl (Unauthorized (Text ''token is already bound to another device'')))
               else
                 let st = st\<lparr>cs_enrollment_tokens := hm_insert token_id
                       (token\<lparr>et_used_by := Some (er_device_id request)\<rparr>) (cs_enrollment_tokens st)\<rparr>
                 in (case signing_key st of
                       None \<Rightarrow> (st, Inl key_invalid)
                     | Some key \<Rightarrow>
                         (case hm_get (cs_networks st) (er_network_id request) of
                            None \<Rightarrow> (st, Inl network_missing)
                          | Some managed \<Rightarrow> enroll_member X env planet request key managed st))))"

definition list_networks :: "controller_state \<Rightarrow> virtual_network list" where
  "list_networks st = map (\<lambda>(_, managed). mn_network managed) (cs_networks st)"

definition delete_network ::
  "environment \<Rightarrow> string option \<Rightarrow> network_id \<Rightarrow> controller_state \<Rightarrow> controller_state \<times> (api_error + unit)" where
  "delete_network env header network_id st =
     (case require_admin st header of
        Inl e \<Rightarrow> (st, Inl e)
      | Inr _ \<Rightarrow>
          if hm_get (cs_networks st) network_id = None then (st, Inl network_missing)
          else saved env (st\<lparr>cs_networks := hm_remove network_id (cs_networks st),
                 cs_enrollment_tokens := hm_retain (\<lambda>_ token. et_network_id token \<noteq> network_id)
                   (cs_enrollment_tokens st)\<rparr>) ())"

definition list_members ::
  "string option \<Rightarrow> network_id \<Rightarrow> controller_state \<Rightarrow> api_error + membership_claims list" where
  "list_members header network_id st =
     rbind (require_admin st header) (\<lambda>_.
     rbind (ok_or network_missing (hm_get (cs_networks st) network_id)) (\<lambda>managed.
       Inr (map snd (mn_members managed))))"

fun parse_allowed_routes :: "'x controller_ops_scheme \<Rightarrow> string list \<Rightarrow> api_error + string list" where
  "parse_allowed_routes X [] = Inr []"
| "parse_allowed_routes X (raw # rest) =
     (case parse_ip_net X raw of
        None \<Rightarrow> Inl (BadRequest (Text ''invalid allowed route''))
      | Some prefix \<Rightarrow>
          if net_prefix_len prefix = 0 then Inl (BadRequest (Text ''default routes are not supported in this stage''))
          else rbind (parse_allowed_routes X rest) (\<lambda>routes. Inr (show_ip_net X prefix # routes)))"

definition authorize_member_routes ::
  "'x controller_ops_scheme \<Rightarrow> environment \<Rightarrow> string option \<Rightarrow> network_id \<Rightarrow> device_id \<Rightarrow> string list \<Rightarrow> controller_state
     \<Rightarrow> controller_state \<times> (api_error + membership_claims)" where
  "authorize_member_routes X env header network_id device requested st =
     (case rbind (require_admin st header) (\<lambda>_.
           rbind (ok_or key_invalid (signing_key st)) (\<lambda>key.
           rbind (ok_or network_missing (hm_get (cs_networks st) network_id)) (\<lambda>managed.
           rbind (parse_allowed_routes X requested) (\<lambda>parsed.
             let allowed = remdups_adj (sort (network_routes (mn_network managed) @ parsed))
             in if length allowed > 258
                then Inl (BadRequest (Text ''too many member route authorizations''))
                else rbind (ok_or (NotFound (Text ''member does not exist'')) (hm_get (mn_members managed) device))
                  (\<lambda>claims.
                    let updated = renewed_claims (env_now env) (claims\<lparr>mcl_allowed_routes := allowed\<rparr>);
                        candidate = managed\<lparr>mn_members := hm_insert device updated (mn_members managed)\<rparr>
                    in rbind (map_err (\<lambda>e. BadRequest (OfPolicy e)) (sign_policy X (env_now env) candidate key)) (\<lambda>_.
                         Inr (candidate, updated))))))) of
        Inl e \<Rightarrow> (st, Inl e)
      | Inr (candidate, updated) \<Rightarrow> saved env (put_network st network_id candidate) updated)"

definition removed_policy :: "device_id \<Rightarrow> managed_network \<Rightarrow> managed_network" where
  "removed_policy device managed =
     (let policy = mn_policy managed;
          routes = filter (\<lambda>r. mpr_gateway_device_id r \<noteq> device) (mpo_routes policy);
          exits = filter (\<lambda>e. men_gateway_device_id e \<noteq> device) (mpo_exit_nodes policy)
      in managed\<lparr>mn_policy := policy\<lparr>mpo_routes := routes, mpo_exit_nodes := exits\<rparr>,
           mn_policy_epoch :=
             (if length routes \<noteq> length (mpo_routes policy) \<or> length exits \<noteq> length (mpo_exit_nodes policy)
              then max (saturating_add (mn_policy_epoch managed) 1) 1 else mn_policy_epoch managed)\<rparr>)"

definition remove_member ::
  "environment \<Rightarrow> string option \<Rightarrow> network_id \<Rightarrow> device_id \<Rightarrow> controller_state
     \<Rightarrow> controller_state \<times> (api_error + unit)" where
  "remove_member env header network_id device st =
     (case rbind (require_admin st header) (\<lambda>_. ok_or network_missing (hm_get (cs_networks st) network_id)) of
        Inl e \<Rightarrow> (st, Inl e)
      | Inr managed \<Rightarrow>
          if hm_get (mn_members managed) device = None
          then (st, Inl (NotFound (Text ''member does not exist'')))
          else
            let managed = managed\<lparr>mn_members := hm_remove device (mn_members managed)\<rparr>;
                managed = (case hm_get (mn_member_certificate_ids managed) device of
                  None \<Rightarrow> managed
                | Some certificate_id \<Rightarrow>
                    managed\<lparr>mn_member_certificate_ids := hm_remove device (mn_member_certificate_ids managed),
                      mn_revoked_certificate_ids :=
                        hm_insert certificate_id (env_now env) (mn_revoked_certificate_ids managed)\<rparr>);
                managed = removed_policy device managed
            in (case network_key_generate (env_new_key env) of
                  Inl e \<Rightarrow> (put_network st network_id managed, Inl (Internal (OfCrypto e)))
                | Inr key \<Rightarrow>
                    saved env (put_network st network_id (managed\<lparr>mn_network_key := key,
                      mn_network_key_epoch := max (saturating_add (mn_network_key_epoch managed) 1) 1,
                      mn_authorization_epoch := max (saturating_add (mn_authorization_epoch managed) 1) 1\<rparr>)) ()))"

definition authorization_of ::
  "'x controller_ops_scheme \<Rightarrow> environment \<Rightarrow> network_id \<Rightarrow> controller_state
     \<Rightarrow> api_error + network_authorization_manifest" where
  "authorization_of X env network_id st =
     rbind (ok_or key_invalid (signing_key st)) (\<lambda>key.
     rbind (ok_or network_missing (hm_get (cs_networks st) network_id)) (\<lambda>managed.
       map_err (\<lambda>e. Internal (OfCrypto e)) (sign_authorization X (env_now env) managed key)))"

definition policy_of ::
  "'x controller_ops_scheme \<Rightarrow> environment \<Rightarrow> network_id \<Rightarrow> controller_state \<Rightarrow> api_error + network_policy_manifest" where
  "policy_of X env network_id st =
     rbind (ok_or key_invalid (signing_key st)) (\<lambda>key.
     rbind (ok_or network_missing (hm_get (cs_networks st) network_id)) (\<lambda>managed.
       map_err (\<lambda>e. Internal (OfPolicy e)) (sign_policy X (env_now env) managed key)))"

definition update_policy ::
  "'x controller_ops_scheme \<Rightarrow> environment \<Rightarrow> string option \<Rightarrow> network_id \<Rightarrow> policy_update_request \<Rightarrow> controller_state
     \<Rightarrow> controller_state \<times> (api_error + network_policy_manifest)" where
  "update_policy X env header network_id request st =
     (case rbind (require_admin st header) (\<lambda>_.
           rbind (ok_or key_invalid (signing_key st)) (\<lambda>key.
           rbind (ok_or network_missing (hm_get (cs_networks st) network_id)) (\<lambda>managed.
             let candidate = managed\<lparr>mn_policy := \<lparr>mpo_routes = pur_routes request,
                     mpo_exit_nodes = pur_exit_nodes request, mpo_dns = pur_dns request\<rparr>,
                   mn_policy_epoch := max (saturating_add (mn_policy_epoch managed) 1) 1\<rparr>
             in rbind (map_err (\<lambda>e. BadRequest (OfPolicy e)) (sign_policy X (env_now env) candidate key)) (\<lambda>manifest.
                  Inr (candidate\<lparr>mn_policy := \<lparr>
                      mpo_routes = map (\<lambda>r. \<lparr>mpr_prefix = prt_prefix r,
                        mpr_gateway_device_id = mcl_device_id (mc_claims (prt_gateway_certificate r))\<rparr>)
                        (npm_routes manifest),
                      mpo_exit_nodes = map (\<lambda>e. \<lparr>
                        men_gateway_device_id = mcl_device_id (mc_claims (en_gateway_certificate e)),
                        men_supports_ipv4 = en_supports_ipv4 e, men_supports_ipv6 = en_supports_ipv6 e\<rparr>)
                        (npm_exit_nodes manifest),
                      mpo_dns = npm_dns manifest\<rparr>\<rparr>, manifest))))) of
        Inl e \<Rightarrow> (st, Inl e)
      | Inr (candidate, manifest) \<Rightarrow> saved env (put_network st network_id candidate) manifest)"

definition refresh_membership ::
  "'x controller_ops_scheme \<Rightarrow> environment \<Rightarrow> membership_refresh_request \<Rightarrow> controller
     \<Rightarrow> controller \<times> (api_error + membership_refresh_response)" where
  "refresh_membership X env request ct =
     (let p = mr_payload request;
          st = ct_state ct
      in case rbind (ok_or network_missing (hm_get (cs_networks st) (mrr_network_id p))) (\<lambda>managed.
              rbind (ok_or (Unauthorized (Text ''membership is revoked or unknown''))
                (hm_get (mn_members managed) (mrr_device_id p))) (\<lambda>claims.
              rbind (ok_or (Unauthorized (Text ''membership certificate is unknown''))
                (hm_get (mn_member_certificate_ids managed) (mrr_device_id p))) (\<lambda>certificate_id.
                if mrr_certificate_id p \<noteq> certificate_id
                then Inl (Unauthorized (Text ''membership certificate is revoked''))
                else rbind (map_err (\<lambda>e. Unauthorized (OfCrypto e))
                       (refresh_verify X request (mcl_device_public_key claims) (env_now env) 120)) (\<lambda>_.
                     Inr (managed, claims, certificate_id))))) of
           Inl e \<Rightarrow> (ct, Inl e)
         | Inr (managed, claims, certificate_id) \<Rightarrow>
             let (fresh, nonces) = nonce_admit REGISTRATION_NONCE_TTL (env_instant env) (mrr_nonce p)
                   (ct_refresh_nonces ct);
                 ct = ct\<lparr>ct_refresh_nonces := nonces\<rparr>
             in if \<not> fresh then (ct, Inl (Unauthorized (Text ''refresh request was already used'')))
                else (ct,
                  rbind (ok_or key_invalid (signing_key st)) (\<lambda>key.
                  rbind (map_err (\<lambda>e. Internal (OfCrypto e)) (certificate_sign_authorized X
                    (renewed_claims (env_now env) claims) certificate_id (mn_network_key_epoch managed) key)) (\<lambda>certificate.
                  rbind (map_err (\<lambda>e. Internal (OfCrypto e)) (sign_authorization X (env_now env) managed key))
                    (\<lambda>authorization.
                  rbind (ok_or (Internal (Text ''TURN static-auth secret is invalid''))
                    (turn_credential_for X (ct_planet ct) (mrr_device_id p) (env_now env))) (\<lambda>credential.
                    Inr \<lparr>mrs_revoked = False, mrs_authorization = authorization,
                         mrs_certificate = Some certificate, mrs_network_key = mn_network_key managed,
                         mrs_turn_credential = credential\<rparr>))))))"

text \<open>The inner option is the absence of planet settings.\<close>

definition controller_planet_manifest ::
  "'x controller_ops_scheme \<Rightarrow> environment \<Rightarrow> controller \<Rightarrow> api_error + planet_manifest option" where
  "controller_planet_manifest X env ct =
     (case ct_planet ct of
        None \<Rightarrow> Inr None
      | Some p \<Rightarrow>
          rbind (ok_or key_invalid (signing_key (ct_state ct))) (\<lambda>key.
            map_err (\<lambda>e. Internal (OfCrypto e)) (rbind
              (if pls_version p = 5 then
                 planet_sign_v5 X (pls_controller_url p) (pls_roots p) (pls_relays p) (pls_tls_relays p)
                   (pls_turn_servers p) (pls_stun_servers p) (env_now env) None key
               else if pls_version p = 4 then
                 planet_sign_v4 X (pls_controller_url p) (pls_roots p) (pls_relays p) (pls_tls_relays p)
                   (pls_stun_servers p) (env_now env) None key
               else if pls_version p = 3 then
                 planet_sign_v3 X (pls_controller_url p) (pls_roots p) (pls_relays p) (pls_stun_servers p)
                   (env_now env) None key
               else
                 planet_sign_v2 X (pls_controller_url p) (pls_roots p) (pls_relays p) (pls_stun_servers p)
                   (env_now env) None key) (\<lambda>m. Inr (Some m)))))"

section \<open>Histories\<close>

text \<open>
  The requests that may change the state, with the environment in which each is served. \<open>controller_apply\<close> is the
  state after a request, whatever it answers.
\<close>

datatype controller_request =
    CreateNetwork "string option" upsert_network_request
  | IssueToken "string option" network_id "u64 option"
  | Enroll enrollment_request
  | DeleteNetwork "string option" network_id
  | AuthorizeMemberRoutes "string option" network_id device_id "string list"
  | RemoveMember "string option" network_id device_id
  | UpdatePolicy "string option" network_id policy_update_request

fun controller_apply ::
  "'x controller_ops_scheme \<Rightarrow> planet_settings option \<Rightarrow> environment \<times> controller_request \<Rightarrow> controller_state
     \<Rightarrow> controller_state" where
  "controller_apply X planet (env, CreateNetwork h r) st = fst (create_network X env h r st)"
| "controller_apply X planet (env, IssueToken h n s) st = fst (issue_token X env planet h n s st)"
| "controller_apply X planet (env, Enroll r) st = fst (enroll X env planet r st)"
| "controller_apply X planet (env, DeleteNetwork h n) st = fst (delete_network env h n st)"
| "controller_apply X planet (env, AuthorizeMemberRoutes h n d rs) st =
     fst (authorize_member_routes X env h n d rs st)"
| "controller_apply X planet (env, RemoveMember h n d) st = fst (remove_member env h n d st)"
| "controller_apply X planet (env, UpdatePolicy h n r) st = fst (update_policy X env h n r st)"

text \<open>
  What every request does to the networks: it leaves them alone, inserts a new network, removes one, or changes the
  membership of one in one of five ways. A property of memberships is then checked once for each of them.
\<close>

definition bound_certificate :: "environment \<Rightarrow> managed_network \<Rightarrow> device_id \<Rightarrow> uuid" where
  "bound_certificate env m d = (case hm_get (mn_member_certificate_ids m) d of
     None \<Rightarrow> env_new_uuid env | Some existing \<Rightarrow> existing)"

inductive network_change ::
  "'x controller_ops_scheme \<Rightarrow> environment \<Rightarrow> network_id \<Rightarrow> managed_network \<Rightarrow> managed_network \<Rightarrow> bool"
  for X :: "'x controller_ops_scheme" and env :: environment and n :: network_id
    and m :: managed_network and m' :: managed_network where
  bind_certificate: "mn_network m' = mn_network m \<Longrightarrow> mn_members m' = mn_members m \<Longrightarrow>
    mn_revoked_certificate_ids m' = mn_revoked_certificate_ids m \<Longrightarrow>
    mn_member_certificate_ids m' = hm_insert d (bound_certificate env m d) (mn_member_certificate_ids m) \<Longrightarrow>
    network_change X env n m m'"
| add_member: "assigned_addresses_for_device X (mn_network m) (mn_members m) d = Inr (mcl_assigned_addresses claims) \<Longrightarrow>
    mcl_network_id claims = n \<Longrightarrow> mcl_device_id claims = d \<Longrightarrow> length (mcl_device_public_key claims) = 32 \<Longrightarrow>
    mn_network m' = mn_network m \<Longrightarrow> mn_members m' = hm_insert d claims (mn_members m) \<Longrightarrow>
    mn_revoked_certificate_ids m' = mn_revoked_certificate_ids m \<Longrightarrow>
    mn_member_certificate_ids m' = hm_insert d (bound_certificate env m d) (mn_member_certificate_ids m) \<Longrightarrow>
    network_change X env n m m'"
| renew_member: "hm_get (mn_members m) d = Some claims \<Longrightarrow> mn_network m' = mn_network m \<Longrightarrow>
    mn_members m' = hm_insert d (renewed_claims now (claims\<lparr>mcl_allowed_routes := allowed\<rparr>)) (mn_members m) \<Longrightarrow>
    mn_revoked_certificate_ids m' = mn_revoked_certificate_ids m \<Longrightarrow>
    mn_member_certificate_ids m' = mn_member_certificate_ids m \<Longrightarrow> network_change X env n m m'"
| drop_member: "mn_network m' = mn_network m \<Longrightarrow> mn_members m' = hm_remove d (mn_members m) \<Longrightarrow>
    mn_member_certificate_ids m' = hm_remove d (mn_member_certificate_ids m) \<Longrightarrow>
    mn_revoked_certificate_ids m' = (case hm_get (mn_member_certificate_ids m) d of
        None \<Rightarrow> mn_revoked_certificate_ids m
      | Some certificate_id \<Rightarrow> hm_insert certificate_id (env_now env) (mn_revoked_certificate_ids m)) \<Longrightarrow>
    network_change X env n m m'"
| keep_members: "mn_network m' = mn_network m \<Longrightarrow> mn_members m' = mn_members m \<Longrightarrow>
    mn_revoked_certificate_ids m' = mn_revoked_certificate_ids m \<Longrightarrow>
    mn_member_certificate_ids m' = mn_member_certificate_ids m \<Longrightarrow> network_change X env n m m'"

definition empty_network :: "virtual_network \<Rightarrow> bytes \<Rightarrow> managed_network" where
  "empty_network network key = \<lparr>mn_network = network, mn_members = [], mn_network_key = key,
     mn_network_key_epoch = 1, mn_authorization_epoch = 1, mn_member_certificate_ids = [],
     mn_revoked_certificate_ids = [], mn_policy_epoch = 1,
     mn_policy = \<lparr>mpo_routes = [], mpo_exit_nodes = [], mpo_dns = \<lparr>dns_servers = [], dns_search_domains = []\<rparr>\<rparr>\<rparr>"

text \<open>Epochs never go back.\<close>

definition epochs_le :: "managed_network \<Rightarrow> managed_network \<Rightarrow> bool" where
  "epochs_le m m' \<longleftrightarrow> mn_network_key_epoch m \<le> mn_network_key_epoch m'
     \<and> mn_authorization_epoch m \<le> mn_authorization_epoch m' \<and> mn_policy_epoch m \<le> mn_policy_epoch m'"

lemma epoch_bump_ge: "a \<le> max (saturating_add a 1) (1 :: u64)"
  using saturating_add_ge [of a 1] by (simp add: le_max_iff_disj)

inductive networks_change ::
  "'x controller_ops_scheme \<Rightarrow> environment \<Rightarrow> (network_id, managed_network) hash_map
     \<Rightarrow> (network_id, managed_network) hash_map \<Rightarrow> bool"
  for X :: "'x controller_ops_scheme" and env :: environment where
  same: "networks_change X env ns ns"
| create: "hm_get ns n = None \<Longrightarrow> vn_id network = n \<Longrightarrow>
    networks_change X env ns (hm_insert n (empty_network network key) ns)"
| delete: "networks_change X env ns (hm_remove n ns)"
| change: "hm_get ns n = Some m \<Longrightarrow> network_change X env n m m' \<Longrightarrow> epochs_le m m' \<Longrightarrow>
    networks_change X env ns (hm_insert n m' ns)"

section \<open>What each request changes\<close>

lemma saved_fst [simp]: "fst (saved env st r) = st"
  by (simp add: saved_def)

lemma put_network_networks [simp]: "cs_networks (put_network st n m) = hm_insert n m (cs_networks st)"
  and put_network_tokens [simp]: "cs_enrollment_tokens (put_network st n m) = cs_enrollment_tokens st"
  and put_network_keys [simp]: "cs_signing_key (put_network st n m) = cs_signing_key st"
    "cs_admin_token (put_network st n m) = cs_admin_token st"
  by (simp_all add: put_network_def)

lemma create_network_changes:
  "networks_change X env (cs_networks st) (cs_networks (fst (create_network X env h r st)))"
  by (auto simp: create_network_def Let_def empty_network_def [symmetric] intro: networks_change.intros
      split: sum.split)

lemma delete_network_changes:
  "networks_change X env (cs_networks st) (cs_networks (fst (delete_network env h n st)))"
  by (auto simp: delete_network_def intro: networks_change.intros split: sum.split)

lemma issue_token_networks: "cs_networks (fst (issue_token X env planet h n s st)) = cs_networks st"
  by (auto simp: issue_token_def Let_def split: sum.split option.split)

lemma enroll_member_changes:
  assumes "hm_get (cs_networks st) (er_network_id r) = Some m" and "length (er_device_public_key r) = 32"
  shows "networks_change X env (cs_networks st) (cs_networks (fst (enroll_member X env planet r key m st)))"
proof (cases "assigned_addresses_for_device X (mn_network m) (mn_members m) (er_device_id r)")
  case (Inl e)
  then show ?thesis by (simp add: enroll_member_def Let_def networks_change.same)
next
  case (Inr assigned)
  let ?d = "er_device_id r" and ?n = "er_network_id r"
  define cid where "cid = bound_certificate env m ?d"
  define m1 where "m1 = m\<lparr>mn_member_certificate_ids := hm_insert ?d cid (mn_member_certificate_ids m)\<rparr>"
  define claims where "claims = \<lparr>mcl_network_id = ?n, mcl_device_id = ?d,
      mcl_device_public_key = er_device_public_key r, mcl_assigned_addresses = assigned,
      mcl_allowed_routes = network_routes (mn_network m), mcl_issued_at_unix_seconds = env_now env,
      mcl_expires_at_unix_seconds = Some (env_now env + 86400)\<rparr>"
  define m2 where "m2 = m1\<lparr>mn_members := hm_insert ?d claims (mn_members m1),
      mn_authorization_epoch := saturating_add (mn_authorization_epoch m1) 1\<rparr>"
  have s1: "network_change X env ?n m m1"
    by (rule network_change.bind_certificate [where d = ?d]) (simp_all add: m1_def cid_def)
  have s2: "network_change X env ?n m m2"
    by (rule network_change.add_member [where d = ?d and claims = claims])
      (use Inr assms(2) in \<open>simp_all add: m2_def m1_def cid_def claims_def\<close>)
  have "epochs_le m m1" "epochs_le m m2"
    by (simp_all add: epochs_le_def m1_def m2_def saturating_add_ge)
  then show ?thesis
    using networks_change.change [OF assms(1) s1] networks_change.change [OF assms(1) s2] Inr
    by (simp add: enroll_member_def Let_def cid_def [symmetric, unfolded bound_certificate_def] m1_def [symmetric]
        claims_def [symmetric] m2_def [symmetric] split: sum.split option.split)
qed

lemma enroll_changes:
  "networks_change X env (cs_networks st) (cs_networks (fst (enroll X env planet r st)))"
proof -
  have "networks_change X env (cs_networks st) (cs_networks (fst (enroll_member X env planet r key m
      (st\<lparr>cs_enrollment_tokens := ts\<rparr>))))"
    if "hm_get (cs_networks st) (er_network_id r) = Some m" "length (er_device_public_key r) = 32" for key m ts
    using enroll_member_changes [of "st\<lparr>cs_enrollment_tokens := ts\<rparr>" r m X env planet key] that by simp
  then show ?thesis
    by (auto simp: enroll_def Let_def networks_change.same split: option.split)
qed

lemma authorize_member_routes_changes:
  "networks_change X env (cs_networks st) (cs_networks (fst (authorize_member_routes X env h n d rs st)))"
proof -
  have "networks_change X env (cs_networks st) (hm_insert n (m\<lparr>mn_members :=
      hm_insert d (renewed_claims (env_now env) (claims\<lparr>mcl_allowed_routes := allowed\<rparr>)) (mn_members m)\<rparr>)
      (cs_networks st))"
    if "hm_get (cs_networks st) n = Some m" "hm_get (mn_members m) d = Some claims" for m claims allowed
    by (rule networks_change.change [OF that(1) network_change.renew_member [OF that(2)]]) (simp_all add: epochs_le_def)
  then show ?thesis
    by (auto simp: authorize_member_routes_def Let_def networks_change.same ok_or_Inr_iff
        split: sum.split if_splits)
qed

lemma update_policy_changes:
  "networks_change X env (cs_networks st) (cs_networks (fst (update_policy X env h n r st)))"
proof -
  have "networks_change X env (cs_networks st) (hm_insert n (m\<lparr>mn_policy_epoch := pe, mn_policy := p\<rparr>)
      (cs_networks st))" if "hm_get (cs_networks st) n = Some m" "mn_policy_epoch m \<le> pe" for m p pe
    by (rule networks_change.change [OF that(1) network_change.keep_members]) (simp_all add: epochs_le_def that(2))
  then show ?thesis
    by (auto simp: update_policy_def Let_def networks_change.same ok_or_Inr_iff epoch_bump_ge split: sum.split)
qed

lemma remove_member_changes:
  "networks_change X env (cs_networks st) (cs_networks (fst (remove_member env h n d st)))"
proof (cases "rbind (require_admin st h) (\<lambda>_. ok_or network_missing (hm_get (cs_networks st) n))")
  case (Inl e)
  then show ?thesis by (simp add: remove_member_def networks_change.same)
next
  case (Inr m)
  then have m: "hm_get (cs_networks st) n = Some m" by (auto simp: ok_or_Inr_iff)
  show ?thesis
  proof (cases "hm_get (mn_members m) d = None")
    case True
    then show ?thesis using Inr by (simp add: remove_member_def networks_change.same)
  next
    case False
    have drop: "networks_change X env (cs_networks st) (hm_insert n m' (cs_networks st))"
      if "mn_network m' = mn_network m" "mn_members m' = hm_remove d (mn_members m)"
        "mn_member_certificate_ids m' = hm_remove d (mn_member_certificate_ids m)"
        "mn_revoked_certificate_ids m' = (case hm_get (mn_member_certificate_ids m) d of
            None \<Rightarrow> mn_revoked_certificate_ids m
          | Some cid \<Rightarrow> hm_insert cid (env_now env) (mn_revoked_certificate_ids m))" "epochs_le m m'" for m'
      by (rule networks_change.change [OF m _ that(5)]) (rule network_change.drop_member [OF that(1-4)])
    show ?thesis
      unfolding remove_member_def Inr sum.case if_not_P [OF False] Let_def
      by (cases "hm_get (mn_member_certificate_ids m) d"; cases "env_new_key env")
        (auto simp: network_key_generate_def removed_policy_def Let_def hm_remove_absent epochs_le_def epoch_bump_ge
          intro!: drop)
  qed
qed

lemma controller_apply_changes:
  "networks_change X env (cs_networks st) (cs_networks (controller_apply X planet (env, req) st))"
  by (cases req) (simp_all add: create_network_changes delete_network_changes issue_token_networks enroll_changes
      authorize_member_routes_changes update_policy_changes remove_member_changes networks_change.same)

end
