(* ===== verification/Controller_Invariants.thy ===== *)
theory Controller_Invariants
  imports Controller
begin

text \<open>
  What holds of the controller's state over its whole history: the invariant of the memberships, tokens that stay
  with the device that redeemed them, certificates that stay revoked, and the authority of the administrator token.
  Histories are lists of requests with the environment in which they were served; that \<^verbatim>\<open>Uuid::new_v4\<close> does not
  repeat an identifier is a hypothesis where it is needed.
\<close>

section \<open>The invariant\<close>

definition network_ok :: "network_id \<Rightarrow> managed_network \<Rightarrow> bool" where
  "network_ok n m \<longleftrightarrow> hm_ok (mn_members m) \<and> hm_ok (mn_member_certificate_ids m)
     \<and> hm_ok (mn_revoked_certificate_ids m) \<and> vn_id (mn_network m) = n \<and> 0 < mn_network_key_epoch m
     \<and> (\<forall>d c. hm_get (mn_members m) d = Some c \<longrightarrow> mcl_device_id c = d \<and> mcl_network_id c = n
          \<and> length (mcl_device_public_key c) = 32 \<and> hm_get (mn_member_certificate_ids m) d \<noteq> None)
     \<and> (\<forall>d d'. d \<noteq> d' \<longrightarrow> set (device_addresses (mn_members m) d) \<inter> set (device_addresses (mn_members m) d') = {})
     \<and> (\<forall>d d' i. hm_get (mn_member_certificate_ids m) d = Some i
          \<longrightarrow> hm_get (mn_member_certificate_ids m) d' = Some i \<longrightarrow> d = d')
     \<and> (\<forall>d i. hm_get (mn_member_certificate_ids m) d = Some i \<longrightarrow>
          i \<noteq> uuid_nil \<and> hm_get (mn_revoked_certificate_ids m) i = None)"

definition certificate_unused :: "managed_network \<Rightarrow> uuid \<Rightarrow> bool" where
  "certificate_unused m u \<longleftrightarrow> u \<noteq> uuid_nil \<and> (\<forall>d. hm_get (mn_member_certificate_ids m) d \<noteq> Some u)
     \<and> hm_get (mn_revoked_certificate_ids m) u = None"

lemma device_addresses_insert [simp]:
  "device_addresses (hm_insert d c ms) d' = (if d' = d then mcl_assigned_addresses c else device_addresses ms d')"
  by (simp add: device_addresses_def)

lemma device_addresses_remove [simp]:
  "device_addresses (hm_remove d ms) d' = (if d' = d then [] else device_addresses ms d')"
  by (simp add: device_addresses_def)

lemma renewed_claims_sel [simp]:
  "mcl_device_id (renewed_claims now (c\<lparr>mcl_allowed_routes := r\<rparr>)) = mcl_device_id c"
  "mcl_network_id (renewed_claims now (c\<lparr>mcl_allowed_routes := r\<rparr>)) = mcl_network_id c"
  "mcl_device_public_key (renewed_claims now (c\<lparr>mcl_allowed_routes := r\<rparr>)) = mcl_device_public_key c"
  "mcl_assigned_addresses (renewed_claims now (c\<lparr>mcl_allowed_routes := r\<rparr>)) = mcl_assigned_addresses c"
  by (simp_all add: renewed_claims_def)

text \<open>The addresses given to a device are held by no other member.\<close>

lemma assigned_addresses_disjoint:
  assumes "hm_ok ms"
    and "\<And>e e'. e \<noteq> e' \<Longrightarrow> set (device_addresses ms e) \<inter> set (device_addresses ms e') = {}"
    and "assigned_addresses_for_device X network ms d = Inr as" and "e \<noteq> d"
  shows "set as \<inter> set (device_addresses ms e) = {}"
proof -
  have "a \<notin> set (device_addresses ms e)" if "a \<in> set as" for a
    using assigned_addresses_Inr(2) [OF assms(3) that] assms(2) [OF assms(4)] device_addresses_member [OF assms(1), of a]
    by blast
  then show ?thesis by blast
qed

lemma bound_certificate_cases:
  "(\<exists>i. hm_get (mn_member_certificate_ids m) d = Some i \<and> bound_certificate env m d = i)
   \<or> hm_get (mn_member_certificate_ids m) d = None \<and> bound_certificate env m d = env_new_uuid env"
  by (cases "hm_get (mn_member_certificate_ids m) d") (simp_all add: bound_certificate_def)

text \<open>Binding a certificate keeps the identifiers distinct and unrevoked.\<close>

lemma bound_certificate_ok:
  assumes "network_ok n m" and "certificate_unused m (env_new_uuid env)"
    and "ids = hm_insert d (bound_certificate env m d) (mn_member_certificate_ids m)"
  shows "hm_ok ids" and "\<And>d1 d2 i. hm_get ids d1 = Some i \<Longrightarrow> hm_get ids d2 = Some i \<Longrightarrow> d1 = d2"
    and "\<And>d' i. hm_get ids d' = Some i \<Longrightarrow> i \<noteq> uuid_nil \<and> hm_get (mn_revoked_certificate_ids m) i = None"
    and "hm_get ids d \<noteq> None" and "\<And>d'. hm_get (mn_member_certificate_ids m) d' \<noteq> None \<Longrightarrow> hm_get ids d' \<noteq> None"
proof -
  have ok: "hm_ok (mn_member_certificate_ids m)"
    and inj: "\<And>d1 d2 i. hm_get (mn_member_certificate_ids m) d1 = Some i \<Longrightarrow>
        hm_get (mn_member_certificate_ids m) d2 = Some i \<Longrightarrow> d1 = d2"
    and rev: "\<And>d' i. hm_get (mn_member_certificate_ids m) d' = Some i \<Longrightarrow>
        i \<noteq> uuid_nil \<and> hm_get (mn_revoked_certificate_ids m) i = None"
    using assms(1) by (simp_all add: network_ok_def)
  show "hm_ok ids" using ok assms(3) by simp
  show "hm_get ids d \<noteq> None" using assms(3) by simp
  show "hm_get ids d' \<noteq> None" if "hm_get (mn_member_certificate_ids m) d' \<noteq> None" for d'
    using assms(3) that by simp
  have new: "bound_certificate env m d = i \<Longrightarrow> hm_get (mn_member_certificate_ids m) e = Some i \<Longrightarrow> e = d" for e i
    using bound_certificate_cases [of m d env] inj assms(2) by (auto simp: certificate_unused_def)
  show "d1 = d2" if "hm_get ids d1 = Some i" "hm_get ids d2 = Some i" for d1 d2 i
    using that inj new unfolding assms(3) by (cases "d1 = d"; cases "d2 = d") auto
  show "i \<noteq> uuid_nil \<and> hm_get (mn_revoked_certificate_ids m) i = None" if "hm_get ids d' = Some i" for d' i
    using that rev bound_certificate_cases [of m d env] assms(2) unfolding assms(3)
    by (cases "d' = d") (auto simp: certificate_unused_def)
qed

lemma network_change_ok:
  assumes "network_change X env n m m'" and "network_ok n m" and "certificate_unused m (env_new_uuid env)"
    and "0 < mn_network_key_epoch m'"
  shows "network_ok n m'"
  using assms(1)
proof cases
  case (bind_certificate d)
  note b = bound_certificate_ok [OF assms(2,3) bind_certificate(4)]
  show ?thesis
    using assms(2,4) b(1,5) unfolding network_ok_def bind_certificate(1-3) by (auto intro: b(2) dest: b(3))
next
  case (add_member d claims)
  note b = bound_certificate_ok [OF assms(2,3) add_member(8)]
  have ok: "hm_ok (mn_members m)"
    and dis: "\<And>e e'. e \<noteq> e' \<Longrightarrow> set (device_addresses (mn_members m) e) \<inter> set (device_addresses (mn_members m) e') = {}"
    using assms(2) by (simp_all add: network_ok_def)
  have new: "set (mcl_assigned_addresses claims) \<inter> set (device_addresses (mn_members m) e) = {}" if "e \<noteq> d" for e
    by (rule assigned_addresses_disjoint [OF ok dis add_member(1) that])
  have disj: "set (device_addresses (mn_members m') e) \<inter> set (device_addresses (mn_members m') e') = {}"
    if "e \<noteq> e'" for e e'
    using that dis [OF that] new [of e] new [of e'] unfolding add_member(6)
    by (cases "e = d"; cases "e' = d") (simp_all add: Int_commute)
  show ?thesis
    using assms(2,4) b(1,4,5) disj add_member(2-4) unfolding network_ok_def add_member(5,7)
    by (auto simp: add_member(6) intro: b(2) dest: b(3))
next
  case (renew_member d claims now allowed)
  have disj: "set (device_addresses (mn_members m') e) \<inter> set (device_addresses (mn_members m') e') = {}"
    if "e \<noteq> e'" for e e'
  proof -
    have "device_addresses (mn_members m') e = device_addresses (mn_members m) e" for e
      using renew_member(1) unfolding renew_member(3) by (simp add: device_addresses_def)
    then show ?thesis using assms(2) that by (simp add: network_ok_def)
  qed
  show ?thesis
    using assms(2,4) disj renew_member(1) unfolding network_ok_def renew_member(2,4,5) by (auto simp: renew_member(3))
next
  case (drop_member d)
  have disj: "set (device_addresses (mn_members m') e) \<inter> set (device_addresses (mn_members m') e') = {}"
    if "e \<noteq> e'" for e e'
    using assms(2) that unfolding drop_member(2) by (simp add: network_ok_def)
  show ?thesis
    using assms(2,4) disj unfolding network_ok_def drop_member(1,3,4)
    by (auto simp: drop_member(2) split: option.splits)
next
  case keep_members
  then show ?thesis using assms(2,4) by (simp add: network_ok_def)
qed

definition controller_ok :: "controller_state \<Rightarrow> bool" where
  "controller_ok st \<longleftrightarrow> hm_ok (cs_networks st) \<and> hm_ok (cs_enrollment_tokens st)
     \<and> (\<forall>n m. hm_get (cs_networks st) n = Some m \<longrightarrow> network_ok n m)"

definition identifier_fresh :: "controller_state \<Rightarrow> uuid \<Rightarrow> bool" where
  "identifier_fresh st u \<longleftrightarrow> (\<forall>n m. hm_get (cs_networks st) n = Some m \<longrightarrow> certificate_unused m u)"

lemma empty_network_ok: "network_ok (vn_id network) (empty_network network key)"
  by (simp add: network_ok_def empty_network_def device_addresses_def)

lemma networks_change_ok:
  assumes "networks_change X env ns ns'" and "hm_ok ns" and "\<And>n m. hm_get ns n = Some m \<Longrightarrow> network_ok n m"
    and "\<And>n m. hm_get ns n = Some m \<Longrightarrow> certificate_unused m (env_new_uuid env)"
  shows "hm_ok ns' \<and> (\<forall>n m. hm_get ns' n = Some m \<longrightarrow> network_ok n m)"
  using assms(1)
proof cases
  case (change n m m')
  have "0 < mn_network_key_epoch m'"
    using assms(3) [OF change(2)] change(4) by (auto simp: network_ok_def epochs_le_def intro: less_le_trans)
  then have "network_ok n m'" using network_change_ok [OF change(3)] assms(3,4) change(2) by blast
  then show ?thesis using assms(2,3) change(1) by auto
qed (use assms(2,3) empty_network_ok in \<open>auto\<close>)

text \<open>Tokens: what a request does to them.\<close>

lemma enroll_tokens:
  "cs_enrollment_tokens (fst (enroll X env planet r st)) = cs_enrollment_tokens st
   \<or> (\<exists>t tok. parse_uuid X (er_token r) = Some t \<and> hm_get (cs_enrollment_tokens st) t = Some tok
        \<and> et_used_by tok \<in> {None, Some (er_device_id r)}
        \<and> cs_enrollment_tokens (fst (enroll X env planet r st)) =
            hm_insert t (tok\<lparr>et_used_by := Some (er_device_id r)\<rparr>) (cs_enrollment_tokens st))"
proof -
  have member: "cs_enrollment_tokens (fst (enroll_member X env planet r key m s)) = cs_enrollment_tokens s" for key m s
    by (simp add: enroll_member_def Let_def split: sum.split option.split)
  show ?thesis
    by (cases "parse_uuid X (er_token r)"; cases "hm_get (cs_enrollment_tokens st) (the (parse_uuid X (er_token r)))")
      (simp_all add: enroll_def Let_def member split: option.split)
qed

lemma authorize_member_routes_tokens:
  "cs_enrollment_tokens (fst (authorize_member_routes X env h n d rs st)) = cs_enrollment_tokens st"
  by (simp add: authorize_member_routes_def split: sum.split prod.split)

lemma update_policy_tokens: "cs_enrollment_tokens (fst (update_policy X env h n r st)) = cs_enrollment_tokens st"
  by (simp add: update_policy_def split: sum.split prod.split)

lemma remove_member_tokens: "cs_enrollment_tokens (fst (remove_member env h n d st)) = cs_enrollment_tokens st"
  by (simp add: remove_member_def Let_def split: sum.split option.split)

lemma create_network_tokens: "cs_enrollment_tokens (fst (create_network X env h r st)) = cs_enrollment_tokens st"
  by (simp add: create_network_def Let_def split: sum.split option.split)

definition token_kept :: "enrollment_token \<Rightarrow> enrollment_token \<Rightarrow> bool" where
  "token_kept old new \<longleftrightarrow> et_network_id new = et_network_id old
     \<and> et_expires_at_unix_seconds new = et_expires_at_unix_seconds old
     \<and> (et_used_by old = None \<or> et_used_by new = et_used_by old)"

lemma token_kept_refl [simp]: "token_kept tok tok"
  by (simp add: token_kept_def)

lemma controller_apply_token:
  assumes "hm_ok (cs_enrollment_tokens st)" and "env_new_uuid env \<noteq> t"
    and "hm_get (cs_enrollment_tokens (controller_apply X planet (env, req) st)) t = Some new"
  shows "\<exists>old. hm_get (cs_enrollment_tokens st) t = Some old \<and> token_kept old new"
proof (cases req)
  case (CreateNetwork h r)
  then show ?thesis using assms(3) by (simp add: create_network_tokens)
next
  case (IssueToken h n s)
  then show ?thesis
    using assms(2,3) by (auto simp: issue_token_def Let_def split: sum.splits option.splits if_splits)
next
  case (Enroll r)
  then show ?thesis
    using assms(3) enroll_tokens [of X env planet r st] by (auto simp: token_kept_def split: if_splits)
next
  case (DeleteNetwork h n)
  then show ?thesis
    using assms(1,3) by (auto simp: delete_network_def hm_get_retain split: sum.splits option.splits if_splits)
qed (use assms(3) in \<open>simp_all add: authorize_member_routes_tokens update_policy_tokens remove_member_tokens\<close>)

lemma controller_apply_tokens_ok:
  "hm_ok (cs_enrollment_tokens st) \<Longrightarrow> hm_ok (cs_enrollment_tokens (controller_apply X planet (env, req) st))"
proof (cases req)
  case (IssueToken h n s)
  assume "hm_ok (cs_enrollment_tokens st)"
  then show ?thesis
    using IssueToken by (simp add: issue_token_def Let_def split: sum.split option.split)
next
  case (Enroll r)
  assume "hm_ok (cs_enrollment_tokens st)"
  then show ?thesis using Enroll enroll_tokens [of X env planet r st] by auto
next
  case (DeleteNetwork h n)
  assume "hm_ok (cs_enrollment_tokens st)"
  then show ?thesis using DeleteNetwork by (simp add: delete_network_def split: sum.split)
qed (simp_all add: create_network_tokens authorize_member_routes_tokens update_policy_tokens remove_member_tokens)

lemma controller_apply_ok:
  assumes "controller_ok st" and "identifier_fresh st (env_new_uuid env)"
  shows "controller_ok (controller_apply X planet (env, req) st)"
  using networks_change_ok [OF controller_apply_changes [of X env st planet req]] assms
    controller_apply_tokens_ok [of st X planet env req]
  by (simp add: controller_ok_def identifier_fresh_def)

section \<open>Reachable states\<close>

text \<open>The state of a controller that has just been set up.\<close>

definition initial_controller_state :: "bytes \<Rightarrow> string \<Rightarrow> controller_state" where
  "initial_controller_state key token = \<lparr>cs_schema_version = CONTROLLER_STATE_SCHEMA_VERSION, cs_signing_key = key,
     cs_admin_token = token, cs_networks = [], cs_enrollment_tokens = []\<rparr>"

inductive controller_reachable :: "'x controller_ops_scheme \<Rightarrow> planet_settings option \<Rightarrow> controller_state \<Rightarrow> bool"
  for X :: "'x controller_ops_scheme" and planet :: "planet_settings option" where
  start: "controller_reachable X planet (initial_controller_state key token)"
| request: "controller_reachable X planet st \<Longrightarrow> identifier_fresh st (env_new_uuid env) \<Longrightarrow>
    controller_reachable X planet (controller_apply X planet (env, req) st)"

lemma controller_reachable_ok: "controller_reachable X planet st \<Longrightarrow> controller_ok st"
proof (induction rule: controller_reachable.induct)
  case (start key token)
  then show ?case by (simp add: controller_ok_def initial_controller_state_def)
qed (rule controller_apply_ok)

text \<open>
  C20: In every state the controller can reach, if new identifiers do not collide with certificate identifiers in
  use, the members of a network have pairwise disjoint virtual addresses and distinct certificate identifiers, none
  of which is revoked, every member has a certificate identifier and a 32-byte key, and its claims name its own
  network and device.
\<close>

theorem controller_members_distinct:
  assumes "controller_reachable X planet st" and "hm_get (cs_networks st) n = Some m"
    and "hm_get (mn_members m) d = Some c"
  shows "mcl_device_id c = d \<and> mcl_network_id c = n \<and> length (mcl_device_public_key c) = 32
    \<and> (\<exists>i. hm_get (mn_member_certificate_ids m) d = Some i \<and> hm_get (mn_revoked_certificate_ids m) i = None
         \<and> (\<forall>d'. hm_get (mn_member_certificate_ids m) d' = Some i \<longrightarrow> d' = d))
    \<and> (\<forall>d' c'. d' \<noteq> d \<longrightarrow> hm_get (mn_members m) d' = Some c'
         \<longrightarrow> set (mcl_assigned_addresses c) \<inter> set (mcl_assigned_addresses c') = {})"
proof -
  have ok: "network_ok n m" using controller_reachable_ok [OF assms(1)] assms(2) by (simp add: controller_ok_def)
  then have dis: "\<And>e e'. e \<noteq> e' \<Longrightarrow> set (device_addresses (mn_members m) e) \<inter> set (device_addresses (mn_members m) e') = {}"
    by (simp add: network_ok_def)
  have "set (mcl_assigned_addresses c) \<inter> set (mcl_assigned_addresses c') = {}"
    if "d' \<noteq> d" "hm_get (mn_members m) d' = Some c'" for d' c'
    using dis [of d d'] assms(3) that by (simp add: device_addresses_def)
  moreover obtain i where "hm_get (mn_member_certificate_ids m) d = Some i"
    using ok assms(3) by (auto simp: network_ok_def)
  ultimately show ?thesis using ok assms(3) by (auto simp: network_ok_def)
qed

section \<open>Enrollment\<close>

text \<open>A successful enrollment, taken apart.\<close>

lemma enroll_InrE:
  assumes "enroll X env planet r st = (st', Inr resp)"
  obtains t tok key m assigned where "length (er_device_public_key r) = 32"
    and "parse_uuid X (er_token r) = Some t" and "hm_get (cs_enrollment_tokens st) t = Some tok"
    and "et_network_id tok = er_network_id r" and "env_now env \<le> et_expires_at_unix_seconds tok"
    and "et_used_by tok \<in> {None, Some (er_device_id r)}"
    and "signing_key st = Some key" and "hm_get (cs_networks st) (er_network_id r) = Some m"
    and "assigned_addresses_for_device X (mn_network m) (mn_members m) (er_device_id r) = Inr assigned"
    and "certificate_sign_authorized X \<lparr>mcl_network_id = er_network_id r, mcl_device_id = er_device_id r,
        mcl_device_public_key = er_device_public_key r, mcl_assigned_addresses = assigned,
        mcl_allowed_routes = network_routes (mn_network m), mcl_issued_at_unix_seconds = env_now env,
        mcl_expires_at_unix_seconds = Some (env_now env + 86400)\<rparr>
      (bound_certificate env m (er_device_id r)) (mn_network_key_epoch m) key = Inr (ers_certificate resp)"
    and "sign_authorization X (env_now env) (m\<lparr>mn_member_certificate_ids :=
          hm_insert (er_device_id r) (bound_certificate env m (er_device_id r)) (mn_member_certificate_ids m),
        mn_members := hm_insert (er_device_id r) (mc_claims (ers_certificate resp)) (mn_members m),
        mn_authorization_epoch := saturating_add (mn_authorization_epoch m) 1\<rparr>) key = Inr (ers_authorization resp)"
    and "ers_network resp = mn_network m" and "ers_network_key resp = mn_network_key m"
    and "st' = put_network (st\<lparr>cs_enrollment_tokens :=
          hm_insert t (tok\<lparr>et_used_by := Some (er_device_id r)\<rparr>) (cs_enrollment_tokens st)\<rparr>) (er_network_id r)
        (m\<lparr>mn_member_certificate_ids :=
          hm_insert (er_device_id r) (bound_certificate env m (er_device_id r)) (mn_member_certificate_ids m),
        mn_members := hm_insert (er_device_id r) (mc_claims (ers_certificate resp)) (mn_members m),
        mn_authorization_epoch := saturating_add (mn_authorization_epoch m) 1\<rparr>)"
proof -
  obtain t tok where t: "length (er_device_public_key r) = 32" "parse_uuid X (er_token r) = Some t"
    "hm_get (cs_enrollment_tokens st) t = Some tok" "et_network_id tok = er_network_id r"
    "env_now env \<le> et_expires_at_unix_seconds tok" "et_used_by tok \<in> {None, Some (er_device_id r)}"
    using assms by (auto simp: enroll_def Let_def not_less split: if_splits option.splits)
  let ?st = "st\<lparr>cs_enrollment_tokens :=
      hm_insert t (tok\<lparr>et_used_by := Some (er_device_id r)\<rparr>) (cs_enrollment_tokens st)\<rparr>"
  have key: "signing_key ?st = signing_key st" by (simp add: signing_key_def)
  have body: "(case signing_key st of None \<Rightarrow> (?st, Inl key_invalid)
      | Some key \<Rightarrow> (case hm_get (cs_networks ?st) (er_network_id r) of None \<Rightarrow> (?st, Inl network_missing)
          | Some m \<Rightarrow> enroll_member X env planet r key m ?st)) = (st', Inr resp)"
    using assms t by (simp add: enroll_def Let_def key not_less [symmetric])
  then obtain key m where k: "signing_key st = Some key" "hm_get (cs_networks st) (er_network_id r) = Some m"
    "enroll_member X env planet r key m ?st = (st', Inr resp)"
    by (auto split: option.splits)
  have claims: "mc_claims c = claims" if "certificate_sign_authorized X claims i e k = Inr c" for c claims i e k
    using that by (auto simp: certificate_sign_authorized_def Let_def)
  show thesis
    using k(3) unfolding enroll_member_def Let_def bound_certificate_def [symmetric]
    by (auto split: sum.splits option.splits if_splits simp: put_network_def claims
        intro!: that [OF t k(1,2)])
qed

lemma certificate_sign_authorized_sel:
  "certificate_sign_authorized X claims i e k = Inr c \<Longrightarrow>
     mc_claims c = claims \<and> mc_certificate_id c = i \<and> mc_network_key_epoch c = e"
  by (auto simp: certificate_sign_authorized_def Let_def)

lemma sign_authorization_authorizes:
  assumes "hm_ok (mn_members m)" and "sign_authorization X now m key = Inr a"
  shows "authorizes a c \<longleftrightarrow> mcl_network_id (mc_claims c) = vn_id (mn_network m)
      \<and> mc_network_key_epoch c = mn_network_key_epoch m
      \<and> hm_get (mn_revoked_certificate_ids m) (mc_certificate_id c) = None
      \<and> (\<exists>claims. hm_get (mn_members m) (mcl_device_id (mc_claims c)) = Some claims
           \<and> hm_get (mn_member_certificate_ids m) (mcl_device_id (mc_claims c)) = Some (mc_certificate_id c)
           \<and> mcl_device_public_key claims = mcl_device_public_key (mc_claims c))"
proof -
  let ?f = "\<lambda>x. map_option (\<lambda>i. \<lparr>am_device_id = fst x, am_certificate_id = i,
      am_device_public_key = mcl_device_public_key (snd x), am_network_key_epoch = mn_network_key_epoch m\<rparr>)
      (hm_get (mn_member_certificate_ids m) (fst x))"
  let ?member = "\<lparr>am_device_id = mcl_device_id (mc_claims c), am_certificate_id = mc_certificate_id c,
      am_device_public_key = mcl_device_public_key (mc_claims c), am_network_key_epoch = mc_network_key_epoch c\<rparr>"
  have sel: "nam_network_id a = vn_id (mn_network m)" "nam_network_key_epoch a = mn_network_key_epoch m"
    "set (nam_active_members a) = set (List.map_filter ?f (mn_members m))"
    "set (nam_revoked_certificate_ids a) = fst ` set (mn_revoked_certificate_ids m)"
    by (rule authorization_signE [OF assms(2) [unfolded sign_authorization_def case_prod_beta]]; simp)+
  have rev: "i \<in> fst ` set (mn_revoked_certificate_ids m) \<longleftrightarrow> hm_get (mn_revoked_certificate_ids m) i \<noteq> None" for i
    by (simp add: hm_get_def map_of_eq_None_iff)
  have "?member \<in> set (List.map_filter ?f (mn_members m)) \<longleftrightarrow> (\<exists>x. x \<in> set (mn_members m) \<and> ?f x = Some ?member)"
    by (rule in_set_map_filter_iff)
  also have "\<dots> \<longleftrightarrow> (\<exists>d claims. hm_get (mn_members m) d = Some claims \<and> ?f (d, claims) = Some ?member)"
    by (metis prod.collapse hm_in_set_iff [OF assms(1)])
  also have "\<dots> \<longleftrightarrow> mc_network_key_epoch c = mn_network_key_epoch m
      \<and> (\<exists>claims. hm_get (mn_members m) (mcl_device_id (mc_claims c)) = Some claims
           \<and> hm_get (mn_member_certificate_ids m) (mcl_device_id (mc_claims c)) = Some (mc_certificate_id c)
           \<and> mcl_device_public_key claims = mcl_device_public_key (mc_claims c))"
    by auto
  finally show ?thesis
    unfolding authorizes_def sel rev list_ex_iff by (simp add: member_matches) blast
qed

text \<open>The documents the controller signs can be encoded.\<close>

definition sign_encodes :: "'x controller_ops_scheme \<Rightarrow> bool" where
  "sign_encodes X \<longleftrightarrow> (\<forall>p. json_cert_payload X p \<noteq> None) \<and> (\<forall>p. json_manifest_payload X p \<noteq> None)
     \<and> (\<forall>p. json_hint_payload X p \<noteq> None)"


lemma sign_encodes_cert:
  "sign_encodes X \<Longrightarrow> certificate_sign_authorized X claims i e key \<noteq> Inl x"
proof
  assume enc: "sign_encodes X" and "certificate_sign_authorized X claims i e key = Inl x"
  then obtain p where "json_cert_payload X p = None"
    by (auto simp: certificate_sign_authorized_def Let_def ok_or_def split: option.splits)
  then show False using enc unfolding sign_encodes_def by blast
qed

lemma sign_encodes_authorization:
  "sign_encodes X \<Longrightarrow> sign_authorization X now m key \<noteq> Inl x"
proof
  assume enc: "sign_encodes X" and "sign_authorization X now m key = Inl x"
  then obtain p q where "json_manifest_payload X p = None \<or> json_hint_payload X q = None"
    by (auto simp: sign_authorization_def authorization_sign_def hint_sign_def Let_def ok_or_def split: option.splits)
  then show False using enc unfolding sign_encodes_def by blast
qed

lemma enroll_accepts:
  assumes "length (er_device_public_key r) = 32" and "parse_uuid X (er_token r) = Some t"
    and "hm_get (cs_enrollment_tokens st) t = Some tok" and "et_network_id tok = er_network_id r"
    and "env_now env \<le> et_expires_at_unix_seconds tok" and "et_used_by tok \<in> {None, Some (er_device_id r)}"
    and "signing_key st = Some key" and "hm_get (cs_networks st) (er_network_id r) = Some m"
    and "assigned_addresses_for_device X (mn_network m) (mn_members m) (er_device_id r) = Inr assigned"
    and "sign_encodes X" and "env_saved env" and "turn_credential_for X planet (er_device_id r) (env_now env) \<noteq> None"
  shows "\<exists>resp. snd (enroll X env planet r st) = Inr resp"
proof -
  have key: "signing_key (st\<lparr>cs_enrollment_tokens := ts\<rparr>) = signing_key st" for ts by (simp add: signing_key_def)
  have "\<exists>resp. snd (enroll_member X env planet r key m s) = Inr resp" for s
    using sign_encodes_cert [OF assms(10)] sign_encodes_authorization [OF assms(10)] assms(9,11,12)
    unfolding enroll_member_def Let_def by (auto split: sum.split option.split)
  then show ?thesis using assms(1-8) key by (simp add: enroll_def Let_def not_less [symmetric])
qed

text \<open>
  C21: A device that enrolls gets what it needs to take part: the certificate and the authorization manifest of the
  answer verify under the controller's public key for the next 90 seconds, the manifest authorizes the certificate,
  and the certificate names the device, its key and the network of the request.
\<close>

theorem enrolled_device_is_authorized:
  assumes "controller_reachable X planet st" and "identifier_fresh st (env_new_uuid env)" and "ed_correct X"
    and "enroll X env planet r st = (st', Inr resp)" and "unat (env_now env) + 86400 < 2 ^ 64"
    and "env_now env \<le> now" and "now \<le> env_now env + 90"
  shows "\<exists>key. signing_key st = Some key
    \<and> certificate_verify_from_controller X (ers_certificate resp) (verifying_key X key) now = Inr ()
    \<and> authorization_verify_from_controller X (ers_authorization resp) (verifying_key X key) now = Inr ()
    \<and> authorizes (ers_authorization resp) (ers_certificate resp)
    \<and> mcl_network_id (mc_claims (ers_certificate resp)) = er_network_id r
    \<and> mcl_device_id (mc_claims (ers_certificate resp)) = er_device_id r
    \<and> mcl_device_public_key (mc_claims (ers_certificate resp)) = er_device_public_key r"
  using assms(4)
proof (rule enroll_InrE)
  fix t tok key m assigned
  let ?d = "er_device_id r" and ?i = "bound_certificate env m (er_device_id r)"
  let ?ids = "hm_insert ?d ?i (mn_member_certificate_ids m)"
  let ?c = "ers_certificate resp" and ?claims = "\<lparr>mcl_network_id = er_network_id r, mcl_device_id = er_device_id r,
        mcl_device_public_key = er_device_public_key r, mcl_assigned_addresses = assigned,
        mcl_allowed_routes = network_routes (mn_network m), mcl_issued_at_unix_seconds = env_now env,
        mcl_expires_at_unix_seconds = Some (env_now env + 86400)\<rparr>"
  assume key: "signing_key st = Some key" and m: "hm_get (cs_networks st) (er_network_id r) = Some m"
    and cert: "certificate_sign_authorized X ?claims ?i (mn_network_key_epoch m) key = Inr ?c"
    and auth: "sign_authorization X (env_now env) (m\<lparr>mn_member_certificate_ids := ?ids,
        mn_members := hm_insert ?d (mc_claims ?c) (mn_members m),
        mn_authorization_epoch := saturating_add (mn_authorization_epoch m) 1\<rparr>) key = Inr (ers_authorization resp)"
  have len: "length key = 32" using key by (auto simp: signing_key_def split: if_splits)
  have ok: "network_ok (er_network_id r) m"
    using controller_reachable_ok [OF assms(1)] m by (simp add: controller_ok_def)
  have unused: "certificate_unused m (env_new_uuid env)" using assms(2) m by (simp add: identifier_fresh_def)
  note ids = bound_certificate_ok [OF ok unused refl, of ?d]
  have i: "?i \<noteq> uuid_nil" "hm_get (mn_revoked_certificate_ids m) ?i = None" using ids(3) [of ?d ?i] by simp_all
  have c: "mc_claims ?c = ?claims" "mc_certificate_id ?c = ?i" "mc_network_key_epoch ?c = mn_network_key_epoch m"
    using certificate_sign_authorized_sel [OF cert] by simp_all
  have wrap: "unat (env_now env + 86400) = unat (env_now env) + 86400" "unat (env_now env + 90) = unat (env_now env) + 90"
    using assms(5) by (simp_all add: unat_word_ariths(1))
  have "now \<le> env_now env + 86400" using assms(7) wrap unfolding word_le_nat_alt by linarith
  then have "certificate_verify_from_controller X ?c (verifying_key X key) now = Inr ()"
    using i(1) ok by (intro certificate_signed_verifies [OF assms(3) len cert]) (simp_all add: network_ok_def)
  moreover have "env_now env \<le> saturating_add now 120" using assms(6) saturating_add_ge by (rule order_trans)
  then have "authorization_verify_from_controller X (ers_authorization resp) (verifying_key X key) now = Inr ()"
    using authorization_signed_verifies [OF assms(3) len auth [unfolded sign_authorization_def]] assms(7) by simp
  moreover have "authorizes (ers_authorization resp) ?c"
    using sign_authorization_authorizes [OF _ auth, of ?c] ok i(2) by (simp add: c network_ok_def)
  ultimately show ?thesis using key by (simp add: c(1))
qed

section \<open>What later requests cannot undo\<close>

text \<open>
  The states that requests can lead to, when no new identifier is one of \<open>used\<close> or collides with a certificate
  identifier in use.
\<close>

inductive controller_later ::
  "'x controller_ops_scheme \<Rightarrow> planet_settings option \<Rightarrow> uuid set \<Rightarrow> controller_state \<Rightarrow> controller_state \<Rightarrow> bool"
  for X :: "'x controller_ops_scheme" and planet :: "planet_settings option" and used :: "uuid set"
    and st :: controller_state where
  here: "controller_later X planet used st st"
| later: "controller_later X planet used st st' \<Longrightarrow> identifier_fresh st' (env_new_uuid env) \<Longrightarrow>
    env_new_uuid env \<notin> used \<Longrightarrow> controller_later X planet used st (controller_apply X planet (env, req) st')"

lemma controller_later_ok: "controller_later X planet used st st' \<Longrightarrow> controller_ok st \<Longrightarrow> controller_ok st'"
  by (induction rule: controller_later.induct) (simp_all add: controller_apply_ok)

lemma controller_later_token:
  assumes "controller_later X planet used st st'" and "controller_ok st" and "t \<in> used"
    and "hm_get (cs_enrollment_tokens st') t = Some new"
  shows "\<exists>old. hm_get (cs_enrollment_tokens st) t = Some old \<and> token_kept old new"
  using assms
proof (induction arbitrary: new rule: controller_later.induct)
  case (later st' env req)
  have "hm_ok (cs_enrollment_tokens st')"
    using controller_later_ok [OF later.hyps(1) later.prems(1)] by (simp add: controller_ok_def)
  then obtain old where "hm_get (cs_enrollment_tokens st') t = Some old" "token_kept old new"
    using controller_apply_token later.hyps(3) later.prems(2,3) by metis
  then show ?case using later.IH [OF later.prems(1,2)] by (fastforce simp: token_kept_def)
qed simp

text \<open>
  C22: An enrollment token serves one device. Once a device has enrolled with it, then after any further requests an
  enrollment of another device with the same token is refused and changes nothing.
\<close>

theorem token_serves_one_device:
  assumes "controller_reachable X planet st" and "identifier_fresh st (env_new_uuid env)"
    and "enroll X env planet r st = (st1, Inr resp)" and "parse_uuid X (er_token r) = Some t"
    and "controller_later X planet {t} st1 st2"
    and "parse_uuid X (er_token r') = Some t" and "er_device_id r' \<noteq> er_device_id r"
  shows "\<exists>e. enroll X env' planet r' st2 = (st2, Inl e)"
proof -
  have "controller_ok (controller_apply X planet (env, Enroll r) st)"
    by (rule controller_apply_ok [OF controller_reachable_ok [OF assms(1)] assms(2)])
  then have ok: "controller_ok st1" by (simp add: assms(3))
  obtain tok where "hm_get (cs_enrollment_tokens st1) t = Some (tok\<lparr>et_used_by := Some (er_device_id r)\<rparr>)"
    using assms(3) by (rule enroll_InrE) (simp add: assms(4))
  then have "et_used_by new = Some (er_device_id r)" if "hm_get (cs_enrollment_tokens st2) t = Some new" for new
    using controller_later_token [OF assms(5) ok _ that] by (auto simp: token_kept_def)
  then show ?thesis using assms(6,7) by (auto simp: enroll_def split: option.split)
qed

definition certificate_absent :: "uuid \<Rightarrow> network_id \<Rightarrow> controller_state \<Rightarrow> bool" where
  "certificate_absent i n st \<longleftrightarrow> (\<forall>m d. hm_get (cs_networks st) n = Some m \<longrightarrow>
     hm_get (mn_member_certificate_ids m) d \<noteq> Some i)"

lemma network_change_absent:
  assumes "network_change X env n m m'" and "env_new_uuid env \<noteq> i" and "hm_ok (mn_member_certificate_ids m)"
    and "\<And>d. hm_get (mn_member_certificate_ids m) d \<noteq> Some i"
  shows "hm_get (mn_member_certificate_ids m') d \<noteq> Some i"
  using assms(1)
proof cases
  case (bind_certificate e)
  then show ?thesis using assms(2,4) bound_certificate_cases [of m e env] by auto
next
  case (add_member e claims)
  then show ?thesis using assms(2,4) bound_certificate_cases [of m e env] by auto
qed (use assms(3,4) in simp_all)

lemma controller_later_absent:
  assumes "controller_later X planet used st st'" and "controller_ok st" and "i \<in> used" and "certificate_absent i n st"
  shows "certificate_absent i n st'"
  using assms
proof (induction rule: controller_later.induct)
  case (later st' env req)
  have ok: "controller_ok st'" by (rule controller_later_ok [OF later.hyps(1) later.prems(1)])
  have IH: "certificate_absent i n st'" by (rule later.IH [OF later.prems])
  show ?case
    using controller_apply_changes [of X env st' planet req]
  proof cases
    case (change n' m m')
    have "network_ok n' m" using ok change(2) by (simp add: controller_ok_def)
    then have "hm_get (mn_member_certificate_ids m') d \<noteq> Some i" if "n' = n" for d
      using IH change(2) later.hyps(3) later.prems(2) that
      by (intro network_change_absent [OF change(3)]) (auto simp: certificate_absent_def network_ok_def)
    then show ?thesis using IH unfolding certificate_absent_def change(1) by auto
  qed (use IH ok in \<open>auto simp: certificate_absent_def empty_network_def controller_ok_def split: if_splits\<close>)
qed simp

lemma remove_member_InrE:
  assumes "remove_member env h n d st = (st', Inr ())"
  obtains m key m' where "require_admin st h = Inr ()" and "hm_get (cs_networks st) n = Some m"
    and "hm_get (mn_members m) d \<noteq> None" and "env_new_key env = Some key" and "st' = put_network st n m'"
    and "mn_network m' = mn_network m" and "mn_members m' = hm_remove d (mn_members m)"
    and "hm_ok (mn_member_certificate_ids m) \<Longrightarrow>
      mn_member_certificate_ids m' = hm_remove d (mn_member_certificate_ids m)"
    and "mn_network_key m' = key"
    and "mn_network_key_epoch m' = max (saturating_add (mn_network_key_epoch m) 1) 1"
    and "mn_authorization_epoch m' = max (saturating_add (mn_authorization_epoch m) 1) 1"
  using assms
  by (cases "hm_get (cs_networks st) n")
    (auto simp: remove_member_def Let_def network_key_generate_def removed_policy_def saved_def hm_remove_absent
      split: sum.splits if_splits option.splits)

lemma refresh_refused:
  assumes "\<And>m. hm_get (cs_networks (ct_state ct)) (mrr_network_id (mr_payload q)) = Some m \<Longrightarrow>
      hm_get (mn_member_certificate_ids m) (mrr_device_id (mr_payload q)) \<noteq> Some (mrr_certificate_id (mr_payload q))"
  shows "\<exists>e. refresh_membership X env q ct = (ct, Inl e)"
proof (cases "hm_get (cs_networks (ct_state ct)) (mrr_network_id (mr_payload q))")
  case None
  then show ?thesis by (simp add: refresh_membership_def)
next
  case (Some m)
  then show ?thesis
    using assms [OF Some]
    by (cases "hm_get (mn_members m) (mrr_device_id (mr_payload q))";
        cases "hm_get (mn_member_certificate_ids m) (mrr_device_id (mr_payload q))")
      (auto simp: refresh_membership_def)
qed

text \<open>
  C23: Removing a member is final for its certificate. The network gets a new key and its key epoch grows; and after
  any further requests no authorization manifest of the network authorizes a certificate with the removed
  identifier, and the controller refuses to refresh it.
\<close>

theorem removed_member_stays_out:
  assumes "controller_reachable X planet st" and "identifier_fresh st (env_new_uuid env)"
    and "remove_member env h n d st = (st1, Inr ())" and "hm_get (cs_networks st) n = Some m"
    and "hm_get (mn_member_certificate_ids m) d = Some i" and "controller_later X planet {i} st1 st2"
  shows "(\<exists>m1. hm_get (cs_networks st1) n = Some m1 \<and> env_new_key env = Some (mn_network_key m1)
      \<and> (mn_network_key_epoch m \<noteq> - 1 \<longrightarrow> mn_network_key_epoch m < mn_network_key_epoch m1))
    \<and> (authorization_of X env' n st2 = Inr a \<longrightarrow> mc_certificate_id c = i \<longrightarrow> \<not> authorizes a c)
    \<and> (mrr_network_id (mr_payload q) = n \<longrightarrow> mrr_certificate_id (mr_payload q) = i \<longrightarrow>
        (\<exists>e. refresh_membership X env' q (ct\<lparr>ct_state := st2\<rparr>) = (ct\<lparr>ct_state := st2\<rparr>, Inl e)))"
proof -
  have ok: "controller_ok st" by (rule controller_reachable_ok [OF assms(1)])
  then have m: "network_ok n m" using assms(4) by (simp add: controller_ok_def)
  obtain m1 where m1: "st1 = put_network st n m1" "env_new_key env = Some (mn_network_key m1)"
    "mn_member_certificate_ids m1 = hm_remove d (mn_member_certificate_ids m)"
    "mn_network_key_epoch m1 = max (saturating_add (mn_network_key_epoch m) 1) 1"
    using assms(3) by (rule remove_member_InrE) (use assms(4) m in \<open>auto simp: network_ok_def\<close>)
  have "controller_ok (controller_apply X planet (env, RemoveMember h n d) st)"
    by (rule controller_apply_ok [OF ok assms(2)])
  then have ok1: "controller_ok st1" by (simp add: assms(3))
  have "certificate_absent i n st1"
    using m assms(5) by (auto simp: certificate_absent_def m1 network_ok_def split: if_splits)
  then have absent: "certificate_absent i n st2" by (intro controller_later_absent [OF assms(6) ok1]) simp_all
  have ok2: "controller_ok st2" by (rule controller_later_ok [OF assms(6) ok1])
  have "\<not> authorizes a c" if a: "authorization_of X env' n st2 = Inr a" and c: "mc_certificate_id c = i"
  proof -
    obtain key m2 where m2: "hm_get (cs_networks st2) n = Some m2" "sign_authorization X (env_now env') m2 key = Inr a"
      using a by (auto simp: authorization_of_def ok_or_Inr_iff)
    have "hm_ok (mn_members m2)" using ok2 m2(1) by (simp add: controller_ok_def network_ok_def)
    then show ?thesis
      using sign_authorization_authorizes [OF _ m2(2), of c] absent m2(1) c by (auto simp: certificate_absent_def)
  qed
  moreover have "\<exists>e. refresh_membership X env' q (ct\<lparr>ct_state := st2\<rparr>) = (ct\<lparr>ct_state := st2\<rparr>, Inl e)"
    if "mrr_network_id (mr_payload q) = n" "mrr_certificate_id (mr_payload q) = i"
    using refresh_refused [of "ct\<lparr>ct_state := st2\<rparr>" q] that absent by (simp add: certificate_absent_def)
  moreover have "mn_network_key_epoch m < mn_network_key_epoch m1" if "mn_network_key_epoch m \<noteq> - 1"
    using that unfolding m1(4) by (simp add: less_max_iff_disj saturating_add_one_gt)
  ultimately show ?thesis using m1(1,2) by simp
qed

section \<open>Authority\<close>

text \<open>The administrator header of a request, for the requests that need one.\<close>

fun admin_header :: "controller_request \<Rightarrow> string option option" where
  "admin_header (CreateNetwork h r) = Some h"
| "admin_header (IssueToken h n s) = Some h"
| "admin_header (Enroll r) = None"
| "admin_header (DeleteNetwork h n) = Some h"
| "admin_header (AuthorizeMemberRoutes h n d rs) = Some h"
| "admin_header (RemoveMember h n d) = Some h"
| "admin_header (UpdatePolicy h n r) = Some h"

lemma admin_required:
  assumes "admin_header req = Some h" and "require_admin st h \<noteq> Inr ()"
  shows "controller_apply X planet (env, req) st = st"
proof -
  obtain e where e: "require_admin st h = Inl e" using assms(2) by (cases "require_admin st h") auto
  show ?thesis
    using assms(1) e
    by (cases req) (auto simp: create_network_def issue_token_def delete_network_def authorize_member_routes_def
        remove_member_def update_policy_def split: sum.split)
qed

lemma enroll_needs_token:
  assumes "fst (enroll X env planet r st) \<noteq> st"
  shows "\<exists>t tok. parse_uuid X (er_token r) = Some t \<and> hm_get (cs_enrollment_tokens st) t = Some tok
    \<and> et_network_id tok = er_network_id r \<and> env_now env \<le> et_expires_at_unix_seconds tok
    \<and> et_used_by tok \<in> {None, Some (er_device_id r)} \<and> length (er_device_public_key r) = 32"
  using assms by (auto simp: enroll_def Let_def not_less split: if_splits option.splits)

text \<open>
  C24: Nothing changes the controller's state but a request with the administrator token, and an enrollment with a
  token of its network that has not expired and is unused or already bound to the enrolling device. Such an
  enrollment changes no other network.
\<close>

theorem state_change_needs_authority:
  assumes "controller_apply X planet (env, req) st \<noteq> st"
  shows "(\<exists>h. admin_header req = Some h \<and> (case h of None \<Rightarrow> '''' | Some supplied \<Rightarrow> supplied) = cs_admin_token st)
    \<or> (\<exists>r t tok. req = Enroll r \<and> parse_uuid X (er_token r) = Some t
        \<and> hm_get (cs_enrollment_tokens st) t = Some tok \<and> et_network_id tok = er_network_id r
        \<and> env_now env \<le> et_expires_at_unix_seconds tok \<and> et_used_by tok \<in> {None, Some (er_device_id r)}
        \<and> (\<forall>n. n \<noteq> er_network_id r \<longrightarrow>
             hm_get (cs_networks (controller_apply X planet (env, req) st)) n = hm_get (cs_networks st) n))"
proof (cases "admin_header req")
  case None
  then obtain r where r: "req = Enroll r" by (cases req) auto
  have "hm_get (cs_networks (fst (enroll X env planet r st))) n = hm_get (cs_networks st) n"
    if "n \<noteq> er_network_id r" for n
  proof -
    have "hm_get (cs_networks (fst (enroll_member X env planet r key m s))) n = hm_get (cs_networks s) n" for key m s
      using that by (simp add: enroll_member_def Let_def split: sum.split option.split)
    then show ?thesis by (simp add: enroll_def Let_def split: option.split)
  qed
  then show ?thesis using enroll_needs_token [of X env planet r st] assms r by auto
next
  case (Some h)
  then show ?thesis
    using admin_required [OF Some, of st X planet env] assms by (auto simp: require_admin_def split: if_splits)
qed

lemma networks_change_epochs:
  assumes "networks_change X env ns ns'" and "hm_ok ns" and "hm_get ns n = Some m" and "hm_get ns' n = Some m'"
  shows "epochs_le m m' \<and> mn_network m' = mn_network m"
  using assms(1)
proof cases
  case (change k a b)
  have "mn_network b = mn_network a" using change(3) by cases simp_all
  then show ?thesis using change assms(2-4) by (auto simp: epochs_le_def split: if_splits)
qed (use assms(2-4) in \<open>auto simp: epochs_le_def split: if_splits\<close>)

text \<open>
  As long as a network exists, its key epoch, its authorization epoch and its policy epoch never decrease, and
  its description does not change, whatever request is served.
\<close>

theorem controller_epochs_monotone:
  assumes "controller_reachable X planet st" and "hm_get (cs_networks st) n = Some m"
    and "hm_get (cs_networks (controller_apply X planet (env, req) st)) n = Some m'"
  shows "mn_network_key_epoch m \<le> mn_network_key_epoch m' \<and> mn_authorization_epoch m \<le> mn_authorization_epoch m'
    \<and> mn_policy_epoch m \<le> mn_policy_epoch m' \<and> mn_network m' = mn_network m"
  using networks_change_epochs [OF controller_apply_changes _ assms(2,3)] controller_reachable_ok [OF assms(1)]
  by (simp add: controller_ok_def epochs_le_def)

section \<open>A sample history\<close>

definition sample_controller :: controller_ops where
  "sample_controller = pool_ops.extend sample_pool (controller_ops.fields (\<lambda>s. Some (of_nat (length s)))
     (\<lambda>u. replicate (unat u) CHR ''a'') (\<lambda>_. ''b'') (\<lambda>_ _. Some []) (\<lambda>base _. base))"

definition sample_env :: "uuid \<Rightarrow> environment" where
  "sample_env u = \<lparr>env_now = 100, env_instant = 0, env_new_uuid = u, env_new_key = Some (replicate 32 3),
     env_saved = True\<rparr>"

definition sample_enrollment :: "device_id \<Rightarrow> string \<Rightarrow> enrollment_request" where
  "sample_enrollment d token = \<lparr>er_network_id = 5, er_device_id = d, er_device_public_key = replicate 32 4,
     er_token = token\<rparr>"


definition sample_managed :: "member_map \<Rightarrow> (device_id, uuid) hash_map \<Rightarrow> u64 \<Rightarrow> managed_network" where
  "sample_managed members ids epoch = (empty_network \<lparr>vn_id = 5, vn_name = ''net'', vn_ipv4_prefix = ''a'',
        vn_ipv6_prefix = None, vn_relay_policy = Preferred\<rparr> (replicate 32 3))
     \<lparr>mn_members := members, mn_member_certificate_ids := ids, mn_authorization_epoch := epoch\<rparr>"

definition sample_token :: "device_id option \<Rightarrow> enrollment_token" where
  "sample_token d = \<lparr>et_network_id = 5, et_expires_at_unix_seconds = 1000, et_used_by = d\<rparr>"

definition sample_state :: "managed_network \<Rightarrow> (uuid, enrollment_token) hash_map \<Rightarrow> controller_state" where
  "sample_state m tokens = \<lparr>cs_schema_version = 2, cs_signing_key = replicate 32 6, cs_admin_token = ''secret'',
     cs_networks = [(5, m)], cs_enrollment_tokens = tokens\<rparr>"



lemma sample_controller_sel [simp]:
  "parse_uuid sample_controller s = Some (of_nat (length s))"
  "parse_ipv4_net sample_controller ''a'' = Some \<lparr>n4_addr = 0, n4_prefix_len = 24\<rparr>"
  "net4_network sample_controller p = 0" "net4_broadcast sample_controller p = of_nat (2 ^ (32 - n4_prefix_len p) - 1)"
  "\<exists>b. json_cert_payload sample_controller cp = Some b"
  "\<exists>b. json_manifest_payload sample_controller mp = Some b"
  "\<exists>b. json_hint_payload sample_controller hp = Some b"
  by (simp_all add: sample_controller_def sample_pool_def const_policy_simps pool_ops.defs controller_ops.defs)

lemma ipv4_scan_hit: "0 < n \<Longrightarrow> a \<notin> set used \<Longrightarrow> ipv4_scan n a used = Some a"
  by (cases n) simp_all

lemma sample_create:
  "controller_apply sample_controller None (sample_env 5, CreateNetwork (Some ''secret'') \<lparr>unr_id = None,
       unr_name = ''net'', unr_ipv4_prefix = ''a'', unr_ipv6_prefix = None, unr_relay_policy = Preferred\<rparr>)
     (initial_controller_state (replicate 32 6) ''secret'')
   = sample_state (sample_managed [] [] 1) []"
proof -
  have "trim ''net'' \<noteq> []" by code_simp
  then show ?thesis
    by (simp add: initial_controller_state_def CONTROLLER_STATE_SCHEMA_VERSION_def create_network_def
        require_admin_def sample_env_def put_network_def saved_def network_key_generate_def
        upsert_network_request_validate_def sample_state_def sample_managed_def empty_network_def hm_insert_def
        hm_get_def Let_def)
qed

lemma sample_issue:
  "controller_apply sample_controller None (sample_env u, IssueToken (Some ''secret'') 5 None) (sample_state m ts)
    = sample_state m (hm_insert u (sample_token None) ts)"
  by (simp add: issue_token_def require_admin_def sample_env_def sample_state_def
     sample_token_def signing_key_def hm_get_def)


lemma sample_managed_sel [simp]:
  "mn_members (sample_managed ms ids e) = ms" "mn_member_certificate_ids (sample_managed ms ids e) = ids"
  "mn_revoked_certificate_ids (sample_managed ms ids e) = []"
  by (simp_all add: sample_managed_def empty_network_def)

lemma sample_fresh: "u \<noteq> uuid_nil \<Longrightarrow> identifier_fresh (sample_state (sample_managed [] [] e) ts) u"
  by (simp add: identifier_fresh_def certificate_unused_def sample_state_def hm_get_def)

definition sample_ready :: controller_state where
  "sample_ready = sample_state (sample_managed [] [] 1) [(7, sample_token None), (8, sample_token None)]"

definition sample_enrolled :: controller_state where
  "sample_enrolled = fst (enroll sample_controller (sample_env 9) None (sample_enrollment 1 ''ttttttt'') sample_ready)"

lemma sample_ready_reachable: "controller_reachable sample_controller None sample_ready"
proof -
  let ?R = "controller_reachable sample_controller None"
  have "?R (sample_state (sample_managed [] [] 1) [])"
    unfolding sample_create [symmetric]
    by (rule controller_reachable.request [OF controller_reachable.start])
      (simp add: identifier_fresh_def initial_controller_state_def)
  from controller_reachable.request [OF this, where env = "sample_env 7" and req = "IssueToken (Some ''secret'') 5 None"]
  have "?R (sample_state (sample_managed [] [] 1) [(7, sample_token None)])"
    unfolding sample_issue by (simp add: sample_fresh sample_env_def hm_insert_def)
  from controller_reachable.request [OF this, where env = "sample_env 8" and req = "IssueToken (Some ''secret'') 5 None"]
  show ?thesis
    unfolding sample_issue by (simp add: sample_fresh sample_env_def hm_insert_def sample_ready_def)
qed

lemma sample_assigned:
  "assigned_addresses_for_device sample_controller (mn_network (sample_managed [] [] 1)) [] d = Inr [V4 1]"
  by (simp add: assigned_addresses_for_device_def allocate_ipv4_address_def sample_managed_def empty_network_def
      member_addresses_def ipv4_scan_hit hm_get_def)

lemma sample_encodes: "sign_encodes sample_controller"
  unfolding sign_encodes_def using sample_controller_sel(5-7) by simp

lemma sample_enroll:
  obtains resp where "enroll sample_controller (sample_env 9) None (sample_enrollment 1 ''ttttttt'') sample_ready
    = (sample_enrolled, Inr resp)"
proof -
  have "\<exists>resp. snd (enroll sample_controller (sample_env 9) None (sample_enrollment 1 ''ttttttt'') sample_ready) = Inr resp"
  proof (rule enroll_accepts [where t = 7 and tok = "sample_token None" and key = "replicate 32 6"
        and m = "sample_managed [] [] 1" and assigned = "[V4 1]"])
  qed (simp_all add: sample_assigned sample_encodes sample_enrollment_def sample_token_def sample_env_def sample_ready_def sample_state_def
      signing_key_def hm_get_def turn_credential_for_def)
  then show thesis using that unfolding sample_enrolled_def by (metis prod.collapse)
qed

lemma sample_enrolled_reachable: "controller_reachable sample_controller None sample_enrolled"
  using controller_reachable.request [OF sample_ready_reachable, where env = "sample_env 9"
      and req = "Enroll (sample_enrollment 1 ''ttttttt'')"]
  by (simp add: sample_enrolled_def sample_ready_def sample_fresh sample_env_def)

lemma sample_enrolled_state:
  obtains c where "sample_enrolled = sample_state (sample_managed [(1, c)] [(1, 9)] 2)
      [(7, sample_token (Some 1)), (8, sample_token None)]" and "mcl_assigned_addresses c = [V4 1]"
proof -
  obtain resp where "enroll sample_controller (sample_env 9) None (sample_enrollment 1 ''ttttttt'') sample_ready
    = (sample_enrolled, Inr resp)" by (rule sample_enroll)
  then show thesis
  proof (rule enroll_InrE)
    fix t tok key m assigned
    let ?r = "sample_enrollment 1 ''ttttttt''"
    let ?m = "m\<lparr>mn_member_certificate_ids :=
          hm_insert (er_device_id ?r) (bound_certificate (sample_env 9) m (er_device_id ?r)) (mn_member_certificate_ids m),
        mn_members := hm_insert (er_device_id ?r) (mc_claims (ers_certificate resp)) (mn_members m),
        mn_authorization_epoch := saturating_add (mn_authorization_epoch m) 1\<rparr>"
    assume "hm_get (cs_networks sample_ready) (er_network_id ?r) = Some m"
    then have m: "m = sample_managed [] [] 1" by (simp add: sample_ready_def sample_state_def hm_get_def sample_enrollment_def)
    assume "parse_uuid sample_controller (er_token ?r) = Some t" and "hm_get (cs_enrollment_tokens sample_ready) t = Some tok"
    then have t: "t = 7" "tok = sample_token None"
      by (auto simp: sample_enrollment_def sample_ready_def sample_state_def hm_get_def)
    assume "assigned_addresses_for_device sample_controller (mn_network m) (mn_members m) (er_device_id ?r) = Inr assigned"
      and cert: "certificate_sign_authorized sample_controller \<lparr>mcl_network_id = er_network_id ?r,
        mcl_device_id = er_device_id ?r, mcl_device_public_key = er_device_public_key ?r,
        mcl_assigned_addresses = assigned, mcl_allowed_routes = network_routes (mn_network m),
        mcl_issued_at_unix_seconds = env_now (sample_env 9),
        mcl_expires_at_unix_seconds = Some (env_now (sample_env 9) + 86400)\<rparr>
        (bound_certificate (sample_env 9) m (er_device_id ?r)) (mn_network_key_epoch m) key = Inr (ers_certificate resp)"
    then have "mcl_assigned_addresses (mc_claims (ers_certificate resp)) = [V4 1]"
      using sample_assigned certificate_sign_authorized_sel [OF cert] by (simp add: m sample_enrollment_def)
    moreover assume eq: "sample_enrolled = put_network (sample_ready\<lparr>cs_enrollment_tokens :=
          hm_insert t (tok\<lparr>et_used_by := Some (er_device_id ?r)\<rparr>) (cs_enrollment_tokens sample_ready)\<rparr>) (er_network_id ?r) ?m"
    have "sample_enrolled = sample_state (sample_managed [(1, mc_claims (ers_certificate resp))] [(1, 9)] 2)
      [(7, sample_token (Some 1)), (8, sample_token None)]"
      by (subst eq) (simp add: t m sample_ready_def sample_state_def hm_insert_def sample_enrollment_def put_network_def
          bound_certificate_def hm_get_def sample_env_def sample_token_def sample_managed_def empty_network_def
          saturating_add_def)
    ultimately show thesis using that by blast
  qed
qed

lemma sample_enrolled_network:
  obtains m c where "hm_get (cs_networks sample_enrolled) 5 = Some m" and "hm_get (mn_members m) 1 = Some c"
    and "hm_get (mn_member_certificate_ids m) 1 = Some 9" and "cs_networks sample_enrolled = [(5, m)]"
    and "mn_member_certificate_ids m = [(1, 9)]" and "mn_revoked_certificate_ids m = []"
proof (rule sample_enrolled_state)
  fix c
  assume eq: "sample_enrolled = sample_state (sample_managed [(1, c)] [(1, 9)] 2)
      [(7, sample_token (Some 1)), (8, sample_token None)]"
  show thesis by (rule that [of "sample_managed [(1, c)] [(1, 9)] 2" c]) (simp_all add: eq sample_state_def hm_get_def)
qed

definition sample_removed :: controller_state where
  "sample_removed = fst (remove_member (sample_env 10) (Some ''secret'') 5 1 sample_enrolled)"

lemma enroll_keys: "cs_admin_token (fst (enroll X env planet r st)) = cs_admin_token st"
proof -
  have "cs_admin_token (fst (enroll_member X env planet r key m s)) = cs_admin_token s" for key m s
    by (simp add: enroll_member_def Let_def split: sum.split option.split)
  then show ?thesis by (simp add: enroll_def Let_def split: option.split)
qed

lemma sample_remove:
  "remove_member (sample_env 10) (Some ''secret'') 5 1 sample_enrolled = (sample_removed, Inr ())"
proof -
  obtain m c where m: "hm_get (cs_networks sample_enrolled) 5 = Some m" "hm_get (mn_members m) 1 = Some c"
    by (rule sample_enrolled_network)
  have "cs_admin_token sample_enrolled = ''secret''"
    by (simp add: sample_enrolled_def enroll_keys sample_ready_def sample_state_def)
  then have "snd (remove_member (sample_env 10) (Some ''secret'') 5 1 sample_enrolled) = Inr ()"
    using m by (simp add: remove_member_def require_admin_def Let_def network_key_generate_def sample_env_def saved_def)
  then show ?thesis by (simp add: sample_removed_def prod_eq_iff)
qed

lemma sample_removed_network:
  obtains m where "hm_get (cs_networks sample_removed) 5 = Some m" and "hm_get (mn_members m) 1 = None"
proof (rule remove_member_InrE [OF sample_remove])
  fix m key m'
  assume m: "hm_get (cs_networks sample_enrolled) 5 = Some m" "mn_members m' = hm_remove 1 (mn_members m)"
    and eq: "sample_removed = put_network sample_enrolled 5 m'"
  have "hm_ok (mn_members m)"
    using controller_reachable_ok [OF sample_enrolled_reachable] m(1) by (simp add: controller_ok_def network_ok_def)
  then show thesis by (intro that [of m']) (simp_all add: eq m(2))
qed

lemma sample_enrolled_fresh: "u \<notin> {uuid_nil, 9} \<Longrightarrow> identifier_fresh sample_enrolled u"
  by (rule sample_enrolled_network)
    (auto simp: identifier_fresh_def certificate_unused_def hm_get_def split: if_splits)

theorem controller_members_distinct_witness:
  "\<exists>m c. hm_get (cs_networks sample_enrolled) 5 = Some m \<and> hm_get (mn_members m) 1 = Some c
     \<and> mcl_device_id c = 1 \<and> mcl_network_id c = 5"
proof -
  obtain m c where "hm_get (cs_networks sample_enrolled) 5 = Some m" "hm_get (mn_members m) 1 = Some c"
    by (rule sample_enrolled_network)
  with controller_members_distinct [OF sample_enrolled_reachable this] show ?thesis by blast
qed

theorem enrolled_device_is_authorized_witness:
  "\<exists>resp key. snd (enroll sample_controller (sample_env 9) None (sample_enrollment 1 ''ttttttt'') sample_ready) = Inr resp
     \<and> certificate_verify_from_controller sample_controller (ers_certificate resp) (verifying_key sample_controller key) 150
       = Inr () \<and> authorizes (ers_authorization resp) (ers_certificate resp)"
proof -
  obtain resp where e: "enroll sample_controller (sample_env 9) None (sample_enrollment 1 ''ttttttt'') sample_ready
    = (sample_enrolled, Inr resp)" by (rule sample_enroll)
  have "ed_correct sample_controller"
    by (simp add: ed_correct_def sample_controller_def sample_pool_def const_policy_simps pool_ops.defs
        controller_ops.defs sample_prims_def sample_sign_def sample_verify_def)
  moreover have "identifier_fresh sample_ready (env_new_uuid (sample_env 9))"
    by (simp add: sample_env_def sample_ready_def sample_fresh)
  moreover have "unat (env_now (sample_env 9)) + 86400 < 2 ^ 64" "env_now (sample_env 9) \<le> 150"
    "150 \<le> env_now (sample_env 9) + 90" by (simp_all add: sample_env_def)
  ultimately show ?thesis using enrolled_device_is_authorized [OF sample_ready_reachable _ _ e] e by fastforce
qed

theorem token_serves_one_device_witness:
  "\<exists>e. enroll sample_controller (sample_env 11) None (sample_enrollment 2 ''uuuuuuu'') sample_enrolled
     = (sample_enrolled, Inl e)"
proof -
  obtain resp where e: "enroll sample_controller (sample_env 9) None (sample_enrollment 1 ''ttttttt'') sample_ready
    = (sample_enrolled, Inr resp)" by (rule sample_enroll)
  show ?thesis
    by (rule token_serves_one_device [OF sample_ready_reachable _ e _ controller_later.here, where t = 7])
      (simp_all add: sample_env_def sample_enrollment_def sample_ready_def sample_fresh)
qed

theorem removed_member_stays_out_witness:
  "\<exists>m1. hm_get (cs_networks sample_removed) 5 = Some m1 \<and> env_new_key (sample_env 10) = Some (mn_network_key m1)"
proof -
  obtain m where m: "hm_get (cs_networks sample_enrolled) 5 = Some m" "hm_get (mn_member_certificate_ids m) 1 = Some 9"
    by (rule sample_enrolled_network)
  have "identifier_fresh sample_enrolled (env_new_uuid (sample_env 10))"
    by (rule sample_enrolled_fresh) (simp add: sample_env_def)
  from removed_member_stays_out [OF sample_enrolled_reachable this sample_remove m controller_later.here]
  show ?thesis by blast
qed

theorem state_change_needs_authority_witness:
  "sample_removed \<noteq> sample_enrolled \<and> cs_admin_token sample_enrolled = ''secret''"
proof -
  have ne: "sample_removed \<noteq> sample_enrolled"
    by (rule sample_enrolled_network, rule sample_removed_network) auto
  then have "controller_apply sample_controller None (sample_env 10, RemoveMember (Some ''secret'') 5 1) sample_enrolled
    \<noteq> sample_enrolled" by (simp add: sample_remove)
  from state_change_needs_authority [OF this] ne show ?thesis by auto
qed

theorem controller_epochs_monotone_witness:
  "\<exists>m m'. hm_get (cs_networks sample_enrolled) 5 = Some m \<and> hm_get (cs_networks sample_removed) 5 = Some m'
     \<and> mn_authorization_epoch m \<le> mn_authorization_epoch m'"
proof -
  obtain m where m: "hm_get (cs_networks sample_enrolled) 5 = Some m" by (rule sample_enrolled_network)
  obtain m' where m': "hm_get (cs_networks (controller_apply sample_controller None
      (sample_env 10, RemoveMember (Some ''secret'') 5 1) sample_enrolled)) 5 = Some m'"
    by (rule sample_removed_network) (auto simp: sample_remove)
  from controller_epochs_monotone [OF sample_enrolled_reachable m m'] m m' show ?thesis by (auto simp: sample_remove)
qed

section \<open>Enrolling again\<close>

lemma try_map_Inl: "x \<in> set xs \<Longrightarrow> f x = Inl e \<Longrightarrow> \<exists>e'. try_map f xs = Inl e'"
proof (induction xs)
  case (Cons y ys)
  then show ?case by (cases "f y") auto
qed simp

text \<open>
  Enrolling a device that is already a member, with any valid token of the network: the member keeps its
  certificate identifier and its addresses, and takes the key of the request, whoever sent it. Its
  route authorizations are set back to the network's own prefixes, so that if the policy has a route through
  the device that the prefixes do not cover, the controller can no longer sign the network's policy.
\<close>

theorem reenrollment_keeps_identity_loses_routes:
  assumes "enroll X env planet r st = (st', Inr resp)"
    and "hm_get (cs_networks st) (er_network_id r) = Some m" and "hm_get (mn_members m) (er_device_id r) = Some c"
    and "hm_get (mn_member_certificate_ids m) (er_device_id r) = Some i"
  shows "\<exists>m' c'. hm_get (cs_networks st') (er_network_id r) = Some m'
      \<and> hm_get (mn_member_certificate_ids m') (er_device_id r) = Some i
      \<and> hm_get (mn_members m') (er_device_id r) = Some c' \<and> mcl_device_public_key c' = er_device_public_key r
      \<and> set (mcl_assigned_addresses c) \<subseteq> set (mcl_assigned_addresses c')
      \<and> mcl_allowed_routes c' = network_routes (mn_network m)
      \<and> ((\<exists>route \<in> set (mpo_routes (mn_policy m)). mpr_gateway_device_id route = er_device_id r
           \<and> (\<forall>p \<in> set (network_routes (mn_network m)). \<not> route_prefix_covers X p (mpr_prefix route)))
         \<longrightarrow> (\<exists>e. policy_of X env' (er_network_id r) st' = Inl e))"
  using assms(1)
proof (rule enroll_InrE)
  fix t tok key m2 assigned
  let ?d = "er_device_id r" and ?n = "er_network_id r"
  let ?m = "m\<lparr>mn_member_certificate_ids := hm_insert ?d (bound_certificate env m ?d) (mn_member_certificate_ids m),
      mn_members := hm_insert ?d (mc_claims (ers_certificate resp)) (mn_members m),
      mn_authorization_epoch := saturating_add (mn_authorization_epoch m) 1\<rparr>"
  assume "hm_get (cs_networks st) ?n = Some m2"
  then have [simp]: "m2 = m" using assms(2) by simp
  assume as: "assigned_addresses_for_device X (mn_network m2) (mn_members m2) ?d = Inr assigned"
    and cert: "certificate_sign_authorized X \<lparr>mcl_network_id = er_network_id r, mcl_device_id = er_device_id r,
        mcl_device_public_key = er_device_public_key r, mcl_assigned_addresses = assigned,
        mcl_allowed_routes = network_routes (mn_network m2), mcl_issued_at_unix_seconds = env_now env,
        mcl_expires_at_unix_seconds = Some (env_now env + 86400)\<rparr>
      (bound_certificate env m2 ?d) (mn_network_key_epoch m2) key = Inr (ers_certificate resp)"
    and "st' = put_network (st\<lparr>cs_enrollment_tokens :=
          hm_insert t (tok\<lparr>et_used_by := Some (er_device_id r)\<rparr>) (cs_enrollment_tokens st)\<rparr>) ?n
        (m2\<lparr>mn_member_certificate_ids :=
          hm_insert (er_device_id r) (bound_certificate env m2 (er_device_id r)) (mn_member_certificate_ids m2),
        mn_members := hm_insert (er_device_id r) (mc_claims (ers_certificate resp)) (mn_members m2),
        mn_authorization_epoch := saturating_add (mn_authorization_epoch m2) 1\<rparr>)"
  then have st': "hm_get (cs_networks st') ?n = Some ?m" by simp
  let ?c = "mc_claims (ers_certificate resp)"
  have c: "mcl_device_public_key ?c = er_device_public_key r" "mcl_assigned_addresses ?c = assigned"
    "mcl_allowed_routes ?c = network_routes (mn_network m)"
    using certificate_sign_authorized_sel [OF cert] by simp_all
  have addr: "set (mcl_assigned_addresses c) \<subseteq> set assigned"
    using assigned_addresses_Inr(1) [OF as] assms(3) by (simp add: device_addresses_def)
  have pol: "\<exists>e. policy_of X env' ?n st' = Inl e"
    if route: "route \<in> set (mpo_routes (mn_policy m))" "mpr_gateway_device_id route = ?d"
      "\<forall>p \<in> set (network_routes (mn_network m)). \<not> route_prefix_covers X p (mpr_prefix route)" for route
  proof -
    have "sign_policy_route X (env_now env') ?m k route = Inl GatewayNotAuthorized" for k
      using route(2,3) c(3) by (simp add: sign_policy_route_def list_ex_iff)
    then have "\<exists>e. sign_policy X (env_now env') ?m k = Inl e" for k
      using try_map_Inl [OF route(1), of "sign_policy_route X (env_now env') ?m k"] by (auto simp: sign_policy_def)
    then obtain e where "sign_policy X (env_now env') ?m (the (signing_key st')) = Inl e" by blast
    then show ?thesis using st' by (cases "signing_key st'") (simp_all add: policy_of_def)
  qed
  have "hm_get (mn_member_certificate_ids ?m) ?d = Some i" using assms(4) by (simp add: bound_certificate_def)
  moreover have "hm_get (mn_members ?m) ?d = Some ?c" by simp
  ultimately show ?thesis using st' c(1,3) addr [folded c(2)] pol by blast
qed

theorem reenrollment_keeps_identity_loses_routes_witness:
  "\<exists>st' m' c'. fst (enroll sample_controller (sample_env 12) None (sample_enrollment 1 ''ttttttt'') sample_enrolled) = st'
     \<and> hm_get (cs_networks st') 5 = Some m' \<and> hm_get (mn_member_certificate_ids m') 1 = Some 9
     \<and> hm_get (mn_members m') 1 = Some c' \<and> {V4 1} \<subseteq> set (mcl_assigned_addresses c')"
proof -
  obtain c where c: "sample_enrolled = sample_state (sample_managed [(1, c)] [(1, 9)] 2)
      [(7, sample_token (Some 1)), (8, sample_token None)]" "mcl_assigned_addresses c = [V4 1]"
    by (rule sample_enrolled_state)
  have as: "assigned_addresses_for_device sample_controller (mn_network (sample_managed [(1, c)] [(1, 9)] 2)) [(1, c)] 1
    = Inr [V4 1]"
    by (simp add: assigned_addresses_for_device_def hm_get_def c(2) sample_managed_def empty_network_def)
  have "\<exists>resp. snd (enroll sample_controller (sample_env 12) None (sample_enrollment 1 ''ttttttt'') sample_enrolled) = Inr resp"
    by (rule enroll_accepts [where t = 7 and tok = "sample_token (Some 1)" and key = "replicate 32 6"
        and m = "sample_managed [(1, c)] [(1, 9)] 2" and assigned = "[V4 1]"])
      (simp_all add: as sample_encodes sample_enrollment_def sample_token_def sample_env_def c(1) sample_state_def
        signing_key_def hm_get_def turn_credential_for_def)
  then obtain resp where e: "enroll sample_controller (sample_env 12) None (sample_enrollment 1 ''ttttttt'') sample_enrolled
      = (fst (enroll sample_controller (sample_env 12) None (sample_enrollment 1 ''ttttttt'') sample_enrolled), Inr resp)"
    by (metis prod.collapse)
  have er: "er_network_id (sample_enrollment 1 ''ttttttt'') = 5" "er_device_id (sample_enrollment 1 ''ttttttt'') = 1"
    by (simp_all add: sample_enrollment_def)
  have "hm_get (cs_networks sample_enrolled) 5 = Some (sample_managed [(1, c)] [(1, 9)] 2)"
    by (simp add: c(1) sample_state_def hm_get_def)
  from reenrollment_keeps_identity_loses_routes [OF e, unfolded er, OF this, of c 9 "sample_env 13"]
  show ?thesis by (simp add: c(2) hm_get_def) blast
qed

end
