(* ===== verification/Controller_State.thy ===== *)
theory Controller_State
  imports Controller_Invariants
begin

text \<open>
  The controller's state file when the controller starts (\<^verbatim>\<open>crates/meshlake-controller/src/main.rs\<close>):
  migration of older schemas and validation, the state of a new controller, and the public key the
  controller publishes. Identifiers and keys generated during a migration are given as functions of the network and
  the device they are generated for; each is drawn at most once. Reading, decrypting and writing the file are
  I/O.
\<close>

section \<open>Definitions\<close>

datatype state_error =
    SchemaTooNew
  | StateNetworkKeyInvalid network_id
  | StateKeyGeneration crypto_error
  | StateSigningKeyInvalid
  | StateAdminTokenEmpty
  | StatePolicyInvalid network_id policy_sign_error

fun validate_networks ::
  "'x controller_ops_scheme \<Rightarrow> u64 \<Rightarrow> bytes \<Rightarrow> (network_id, managed_network) hash_map \<Rightarrow> state_error + unit" where
  "validate_networks X now key [] = Inr ()"
| "validate_networks X now key ((network_id, managed) # rest) =
     rbind (map_err (\<lambda>_. StateNetworkKeyInvalid network_id) (network_key_from_slice (mn_network_key managed))) (\<lambda>_.
     rbind (map_err (StatePolicyInvalid network_id) (sign_policy X now managed key)) (\<lambda>_.
       validate_networks X now key rest))"

definition validate_controller_state ::
  "'x controller_ops_scheme \<Rightarrow> u64 \<Rightarrow> controller_state \<Rightarrow> state_error + unit" where
  "validate_controller_state X now st =
     rbind (ok_or StateSigningKeyInvalid (signing_key st)) (\<lambda>key.
       if trim (cs_admin_token st) = [] then Inl StateAdminTokenEmpty
       else validate_networks X now key (cs_networks st))"

text \<open>The loop over the members that have no certificate identifier yet.\<close>

fun bind_missing ::
  "(device_id \<Rightarrow> uuid) \<Rightarrow> device_id list \<Rightarrow> (device_id, uuid) hash_map \<Rightarrow> bool \<Rightarrow> (device_id, uuid) hash_map \<times> bool" where
  "bind_missing new_uuid [] ids migrated = (ids, migrated)"
| "bind_missing new_uuid (device # rest) ids migrated =
     (case hm_get ids device of
        None \<Rightarrow> bind_missing new_uuid rest (hm_insert device (new_uuid device) ids) True
      | Some _ \<Rightarrow> bind_missing new_uuid rest ids migrated)"

definition migrate_network ::
  "u32 \<Rightarrow> (network_id \<Rightarrow> bytes option) \<Rightarrow> (network_id \<Rightarrow> device_id \<Rightarrow> uuid) \<Rightarrow> network_id \<times> managed_network
     \<Rightarrow> state_error + (network_id \<times> managed_network) \<times> bool" where
  "migrate_network schema new_key new_uuid entry =
     (let (network_id, managed) = entry
      in rbind (if length (mn_network_key managed) \<noteq> 32 then
                  if schema \<ge> CONTROLLER_STATE_SCHEMA_VERSION
                  then Inl (StateNetworkKeyInvalid (vn_id (mn_network managed)))
                  else rbind (map_err StateKeyGeneration (network_key_generate (new_key network_id))) (\<lambda>key.
                         Inr (managed\<lparr>mn_network_key := key\<rparr>, True))
                else Inr (managed, False)) (\<lambda>(managed, migrated).
           let (managed, migrated) =
                 (if mn_network_key_epoch managed = 0 then (managed\<lparr>mn_network_key_epoch := 1\<rparr>, True)
                  else (managed, migrated));
               (managed, migrated) =
                 (if mn_authorization_epoch managed = 0 then (managed\<lparr>mn_authorization_epoch := 1\<rparr>, True)
                  else (managed, migrated));
               (managed, migrated) =
                 (if mn_policy_epoch managed = 0 then (managed\<lparr>mn_policy_epoch := 1\<rparr>, True) else (managed, migrated));
               (ids, migrated) = bind_missing (new_uuid network_id) (map fst (mn_members managed))
                 (mn_member_certificate_ids managed) migrated
           in Inr ((network_id, managed\<lparr>mn_member_certificate_ids := ids\<rparr>), migrated)))"

definition migrate_and_validate_controller_state ::
  "'x controller_ops_scheme \<Rightarrow> u64 \<Rightarrow> (network_id \<Rightarrow> bytes option) \<Rightarrow> (network_id \<Rightarrow> device_id \<Rightarrow> uuid)
     \<Rightarrow> controller_state \<Rightarrow> state_error + controller_state \<times> bool" where
  "migrate_and_validate_controller_state X now new_key new_uuid st =
     (if cs_schema_version st > CONTROLLER_STATE_SCHEMA_VERSION then Inl SchemaTooNew
      else rbind (try_map (migrate_network (cs_schema_version st) new_key new_uuid) (cs_networks st)) (\<lambda>results.
        let older = cs_schema_version st < CONTROLLER_STATE_SCHEMA_VERSION;
            st = st\<lparr>cs_networks := map fst results,
              cs_schema_version := (if older then CONTROLLER_STATE_SCHEMA_VERSION else cs_schema_version st)\<rparr>
        in rbind (validate_controller_state X now st) (\<lambda>_. Inr (st, list_ex snd results \<or> older))))"

definition public_key_base64 :: "'x controller_ops_scheme \<Rightarrow> controller_state \<Rightarrow> api_error + string" where
  "public_key_base64 X st = rbind (ok_or key_invalid (signing_key st)) (\<lambda>key. Inr (base64_encode X (verifying_key X key)))"

section \<open>What a migration does\<close>

lemma bind_missing_spec:
  assumes "bind_missing f ds ids b = (ids', b')"
  shows "hm_get ids' d = (case hm_get ids d of Some i \<Rightarrow> Some i | None \<Rightarrow> if d \<in> set ds then Some (f d) else None)"
    and "b' \<longleftrightarrow> b \<or> (\<exists>d \<in> set ds. hm_get ids d = None)" and "\<not> b' \<Longrightarrow> ids' = ids"
  using assms
proof (induction f ds ids b arbitrary: ids' b' rule: bind_missing.induct)
  case (2 f x ds ids b)
  {
    case 1
    then show ?case using 2 by (auto split: option.splits if_splits)
  next
    case 2
    then show ?case using "2.IH" by (auto split: option.splits if_splits)
  next
    case 3
    then show ?case using "2.IH" by (auto split: option.splits if_splits)
  }
qed (auto split: option.split)
definition network_current :: "managed_network \<Rightarrow> bool" where
  "network_current m \<longleftrightarrow> length (mn_network_key m) = 32 \<and> 0 < mn_network_key_epoch m \<and> 0 < mn_authorization_epoch m
     \<and> 0 < mn_policy_epoch m
     \<and> list_all (\<lambda>d. hm_get (mn_member_certificate_ids m) d \<noteq> None) (map fst (mn_members m))"

text \<open>What a migration keeps of a network.\<close>

definition network_kept :: "managed_network \<Rightarrow> managed_network \<Rightarrow> bool" where
  "network_kept m m' \<longleftrightarrow> mn_network m' = mn_network m \<and> mn_members m' = mn_members m
     \<and> mn_revoked_certificate_ids m' = mn_revoked_certificate_ids m \<and> mn_policy m' = mn_policy m
     \<and> (length (mn_network_key m) = 32 \<longrightarrow> mn_network_key m' = mn_network_key m)
     \<and> (\<forall>d i. hm_get (mn_member_certificate_ids m) d = Some i \<longrightarrow> hm_get (mn_member_certificate_ids m') d = Some i)"

lemma migrate_network_spec:
  assumes "migrate_network schema new_key new_uuid (n, m) = Inr ((n', m'), b)"
    and "\<And>k. new_key n = Some k \<Longrightarrow> length k = 32"
  shows "n' = n" and "network_current m'" and "network_kept m m'" and "\<not> b \<Longrightarrow> m' = m"
proof -
  obtain m1 b1 where m1: "(if length (mn_network_key m) \<noteq> 32 then
        if schema \<ge> CONTROLLER_STATE_SCHEMA_VERSION then Inl (StateNetworkKeyInvalid (vn_id (mn_network m)))
        else rbind (map_err StateKeyGeneration (network_key_generate (new_key n))) (\<lambda>key.
               Inr (m\<lparr>mn_network_key := key\<rparr>, True))
      else Inr (m, False)) = Inr (m1, b1)"
    using assms(1) by (auto simp: migrate_network_def)
  define m2 where "m2 = m1\<lparr>mn_network_key_epoch := max 1 (mn_network_key_epoch m1),
      mn_authorization_epoch := max 1 (mn_authorization_epoch m1), mn_policy_epoch := max 1 (mn_policy_epoch m1)\<rparr>"
  have one: "max 1 e = (if e = 0 then 1 else e)" for e :: u64
    by (simp add: max_def word_le_nat_alt unat_gt_0 Suc_le_eq)
  obtain ids where ids: "bind_missing (new_uuid n) (map fst (mn_members m1)) (mn_member_certificate_ids m1)
      (b1 \<or> mn_network_key_epoch m1 = 0 \<or> mn_authorization_epoch m1 = 0 \<or> mn_policy_epoch m1 = 0) = (ids, b)"
    and m': "m' = m2\<lparr>mn_member_certificate_ids := ids\<rparr>" and n: "n' = n"
    using assms(1) unfolding migrate_network_def Let_def prod.case m1 rbind.simps
    by (cases "mn_network_key_epoch m1 = 0"; cases "mn_authorization_epoch m1 = 0"; cases "mn_policy_epoch m1 = 0")
      (auto simp: m2_def one split: prod.splits)
  note spec = bind_missing_spec [OF ids]
  have k: "length (mn_network_key m1) = 32" "mn_members m1 = mn_members m" "network_kept m m1" "\<not> b1 \<Longrightarrow> m1 = m"
    "mn_member_certificate_ids m1 = mn_member_certificate_ids m"
    using m1 assms(2) by (auto simp: network_key_generate_def network_kept_def ok_or_Inr_iff split: if_splits)
  show "n' = n" by (rule n)
  show "network_current m'"
    using k(1,2) spec(1) by (auto simp: network_current_def m' m2_def one list_all_iff word_neq_0_conv split: option.split)
  show "network_kept m m'" using k(3,5) spec(1) by (simp add: network_kept_def m' m2_def)
  show "m' = m" if "\<not> b"
    using that k(4) spec(2) spec(3) [OF that] by (simp add: m' m2_def one)
qed

lemma migrate_network_current:
  assumes "network_current m"
  shows "migrate_network schema new_key new_uuid (n, m) = Inr ((n, m), False)"
proof -
  obtain ids b where ids: "bind_missing (new_uuid n) (map fst (mn_members m)) (mn_member_certificate_ids m) False = (ids, b)"
    by force
  have "\<not> b" using assms bind_missing_spec(2) [OF ids] by (auto simp: network_current_def list_all_iff)
  moreover have "mn_network_key_epoch m \<noteq> 0" "mn_authorization_epoch m \<noteq> 0" "mn_policy_epoch m \<noteq> 0"
    "length (mn_network_key m) = 32"
    using assms by (auto simp: network_current_def)
  ultimately show ?thesis using bind_missing_spec(3) [OF ids] ids by (simp add: migrate_network_def)
qed

lemma migrate_networks_spec:
  assumes "try_map (migrate_network schema new_key new_uuid) ns = Inr results"
    and "\<forall>n k. new_key n = Some k \<longrightarrow> length k = 32"
  shows "list_all2 (\<lambda>(n, m) (n', m'). n' = n \<and> network_current m' \<and> network_kept m m') ns (map fst results)"
    and "\<not> list_ex snd results \<Longrightarrow> map fst results = ns"
proof -
  have all: "list_all2 (\<lambda>x y. migrate_network schema new_key new_uuid x = Inr y) ns results"
    using assms(1) by (simp add: try_map_Inr_iff)
  show "list_all2 (\<lambda>(n, m) (n', m'). n' = n \<and> network_current m' \<and> network_kept m m') ns (map fst results)"
    unfolding list.rel_map
  proof (rule list.rel_mono_strong [OF all])
    fix x y
    assume "migrate_network schema new_key new_uuid x = Inr y"
    moreover obtain n m n' m' b where "x = (n, m)" "y = ((n', m'), b)" by (metis surj_pair)
    ultimately show "(\<lambda>(n, m) (n', m'). n' = n \<and> network_current m' \<and> network_kept m m') x (fst y)"
      using migrate_network_spec(1-3) [of schema new_key new_uuid n m n' m' b] assms(2) by simp
  qed
  show "map fst results = ns" if "\<not> list_ex snd results"
    using all that
  proof (induction ns results rule: list_all2_induct)
    case (Cons x xs y ys)
    then show ?case
      using migrate_network_spec(1,4) [of schema new_key new_uuid "fst x" "snd x" "fst (fst y)" "snd (fst y)" "snd y"] assms(2)
      by (auto simp: prod_eq_iff)
  qed simp
qed

lemma migrated_get:
  assumes "list_all2 (\<lambda>(n, m) (n', m'). n' = n \<and> P m m') ns ns'" and "hm_get ns' n = Some m'"
  shows "\<exists>m. hm_get ns n = Some m \<and> P m m'"
  using assms by (induction rule: list_all2_induct) (auto simp: hm_get_def split: if_splits)

lemma migrated_all:
  "list_all2 (\<lambda>(n, m) (n', m'). n' = n \<and> network_current m' \<and> P m m') ns ns' \<Longrightarrow> (n, m') \<in> set ns' \<Longrightarrow> network_current m'"
  by (induction rule: list_all2_induct) auto

lemma migrate_networks_again:
  assumes "\<And>n m. (n, m) \<in> set ns \<Longrightarrow> network_current m"
  shows "try_map (migrate_network schema new_key new_uuid) ns = Inr (map (\<lambda>e. (e, False)) ns)"
  using assms
proof (induction ns)
  case (Cons e ns)
  then show ?case using migrate_network_current [of "snd e" schema new_key new_uuid "fst e"] by (cases e) auto
qed simp

lemma validate_networks_policy:
  "validate_networks X now key ns = Inr () \<Longrightarrow> (n, m) \<in> set ns \<Longrightarrow> \<exists>p. sign_policy X now m key = Inr p"
  by (induction ns) auto

text \<open>
  Opening a state file. If the controller accepts a state, then it has the current schema, a 32-byte signing
  key, a non-empty administrator token, and every network has a 32-byte key, positive epochs, a certificate
  identifier for every member and a policy that can be signed. The migration keeps the credentials, tokens,
  members, policies, valid network keys and existing certificate identifiers; it reports whether it changed anything;
  and opening the result again changes nothing.
\<close>

theorem opened_state_well_formed:
  assumes "migrate_and_validate_controller_state X now new_key new_uuid st = Inr (st', changed)"
    and "\<forall>n k. new_key n = Some k \<longrightarrow> length k = 32"
  shows "cs_schema_version st' = 2 \<and> signing_key st' \<noteq> None \<and> trim (cs_admin_token st') \<noteq> []
    \<and> cs_signing_key st' = cs_signing_key st \<and> cs_admin_token st' = cs_admin_token st
    \<and> cs_enrollment_tokens st' = cs_enrollment_tokens st
    \<and> (\<forall>n m'. hm_get (cs_networks st') n = Some m' \<longrightarrow> network_current m'
         \<and> (\<exists>m. hm_get (cs_networks st) n = Some m \<and> network_kept m m')
         \<and> (\<exists>p. policy_of X (env\<lparr>env_now := now\<rparr>) n st' = Inr p))
    \<and> (\<not> changed \<longrightarrow> st' = st)
    \<and> migrate_and_validate_controller_state X now new_key' new_uuid' st' = Inr (st', False)"
proof -
  obtain results where le: "\<not> cs_schema_version st > 2"
    and res: "try_map (migrate_network (cs_schema_version st) new_key new_uuid) (cs_networks st) = Inr results"
    and eq: "st' = st\<lparr>cs_networks := map fst results,
        cs_schema_version := (if cs_schema_version st < 2 then 2 else cs_schema_version st)\<rparr>"
    and valid: "validate_controller_state X now st' = Inr ()"
    and changed: "changed \<longleftrightarrow> list_ex snd results \<or> cs_schema_version st < 2"
    using assms(1)
    unfolding migrate_and_validate_controller_state_def CONTROLLER_STATE_SCHEMA_VERSION_def Let_def
    by (cases "cs_schema_version st > 2") auto
  have st': "st' = st\<lparr>cs_networks := map fst results, cs_schema_version := 2\<rparr>"
    using le unfolding eq by (cases "cs_schema_version st < 2") simp_all
  note spec = migrate_networks_spec [OF res assms(2)]
  have cur: "network_current m'" "\<exists>m. hm_get (cs_networks st) n = Some m \<and> network_kept m m'"
    if "hm_get (cs_networks st') n = Some m'" for n m'
    using migrated_get [OF spec(1), where n = n and m' = m'] that by (auto simp: st')
  obtain key where key: "signing_key st' = Some key" "trim (cs_admin_token st') \<noteq> []"
    "validate_networks X now key (cs_networks st') = Inr ()"
    using valid by (auto simp: validate_controller_state_def ok_or_Inr_iff split: if_splits)
  have "\<exists>p. policy_of X (env\<lparr>env_now := now\<rparr>) n st' = Inr p" if "hm_get (cs_networks st') n = Some m'" for n m'
    using validate_networks_policy [OF key(3) hm_get_in_set [OF that]] key(1) that by (auto simp: policy_of_def)
  moreover have "st' = st" if "\<not> changed"
  proof -
    have "cs_schema_version st = 2" using le changed that by simp
    then show ?thesis using spec(2) changed that by (simp add: st')
  qed
  moreover have "network_current m" if "(n, m) \<in> set (cs_networks st')" for n m
    using migrated_all [OF spec(1)] that by (simp add: st')
  then have "migrate_and_validate_controller_state X now new_key' new_uuid' st' = Inr (st', False)"
    using migrate_networks_again [of "cs_networks st'" "cs_schema_version st'" new_key' new_uuid'] valid
    by (simp add: migrate_and_validate_controller_state_def CONTROLLER_STATE_SCHEMA_VERSION_def Let_def o_def st'
        list_ex_iff)
  ultimately show ?thesis using cur key(1,2) by (simp add: st')
qed

definition sample_old_state :: controller_state where
  "sample_old_state = (sample_state ((sample_managed [] [] 0)\<lparr>mn_network_key := []\<rparr>) [])\<lparr>cs_schema_version := 1\<rparr>"

theorem opened_state_well_formed_witness:
  "\<exists>st'. migrate_and_validate_controller_state sample_controller 100 (\<lambda>_. Some (replicate 32 7)) (\<lambda>_ d. d) sample_old_state
       = Inr (st', True) \<and> cs_schema_version st' = 2"
proof -
  have t: "trim ''secret'' \<noteq> []" by code_simp
  have two: "\<not> (2 :: u32) \<le> 1" by (simp add: word_le_nat_alt)
  have p: "\<exists>p. sign_policy sample_controller 100 (sample_managed [] [] 1\<lparr>mn_network_key := replicate 32 7\<rparr>) (replicate 32 6) = Inr p"
  proof -
    have "normalize_policy sample_controller [] \<lparr>dns_servers = [], dns_search_domains = []\<rparr>
        = Inr ([], \<lparr>dns_servers = [], dns_search_domains = []\<rparr>)" "normalize_exit_nodes [] = Inr []"
      by (simp_all add: normalize_policy_def normalize_exit_nodes_def validate_normalized_policy_def
          validate_exit_nodes_def Let_def)
    moreover have "\<exists>b. json_policy_v1 sample_controller v = Some b" for v
      by (simp add: sample_controller_def sample_pool_def const_policy_simps pool_ops.defs controller_ops.defs)
    ultimately show ?thesis
      by (simp add: sign_policy_def sample_managed_def empty_network_def policy_sign_with_exit_nodes_def
          encoded_policy_payload_def ok_or_Inr_iff Let_def NETWORK_POLICY_MANIFEST_VERSION_V1_def)
  qed
  have "\<exists>st'. migrate_and_validate_controller_state sample_controller 100 (\<lambda>_. Some (replicate 32 7)) (\<lambda>_ d. d) sample_old_state
       = Inr (st', True)"
    using t p two by (simp add: migrate_and_validate_controller_state_def CONTROLLER_STATE_SCHEMA_VERSION_def sample_old_state_def
      migrate_network_def network_key_generate_def sample_managed_def empty_network_def sample_state_def
      validate_controller_state_def signing_key_def network_key_from_slice_def)
  then obtain st' where st': "migrate_and_validate_controller_state sample_controller 100 (\<lambda>_. Some (replicate 32 7))
      (\<lambda>_ d. d) sample_old_state = Inr (st', True)" by blast
  have "cs_schema_version st' = 2" using opened_state_well_formed [OF st'] by simp
  with st' show ?thesis by blast
qed

end
