(* ===== verification/Data_Plane.thy ===== *)
theory Data_Plane
  imports Address_Pool
begin

text \<open>
  The classification of IP packets by a device agent (\<^verbatim>\<open>crates/meshlaked/src/data_plane/ip.rs\<close>): which virtual network
  and which gateway an outbound packet takes, and which device may act as a gateway for an address. The networks a
  device has joined are those of \<^verbatim>\<open>crates/meshlake-core/src/model.rs\<close>. The wall clock is an argument, \<open>None\<close> for a
  clock before 1970. The theorems show that longest-prefix ties fail closed, that the data plane, which checks no
  signatures, agrees with the verified policy, and that a packet leaves only through a network that owns its
  source address.
\<close>

section \<open>Joined networks\<close>

record exit_node_selection =
  ens_ipv4_gateway :: "device_id option"
  ens_ipv6_gateway :: "device_id option"
  ens_kill_switch :: bool

record network_control_plane =
  ncp_controller_url :: "string option"
  ncp_pinned_controller_public_key :: bytes
  ncp_controller_tls_ca_pem :: "string option"
  ncp_planet_manifest_url :: "string option"
  ncp_planet_manifest_version :: "u8 option"
  ncp_planet_last_issued_at_unix_seconds :: "u64 option"
  ncp_planet_expires_at_unix_seconds :: "u64 option"
  ncp_planet_semantic_digest :: bytes
  ncp_verified_roots :: "planet_root list"
  ncp_verified_relays :: "planet_relay list"
  ncp_verified_tls_relays :: "planet_tls_relay list"
  ncp_verified_turn_servers :: "planet_turn_server list"
  ncp_verified_stun_servers :: "string list"
  ncp_authorization_manifest :: "network_authorization_manifest option"
  ncp_policy_manifest :: "network_policy_manifest option"
  ncp_exit_node_selection :: exit_node_selection

record joined_network =
  jn_network :: virtual_network
  jn_assigned_addresses :: "ip_addr list"
  jn_certificate :: "membership_certificate option"
  jn_network_key :: bytes
  jn_control_plane :: network_control_plane

record outbound_network_route =
  onr_network :: joined_network
  onr_gateway :: "device_id option"

definition exit_selection_is_empty :: "exit_node_selection \<Rightarrow> bool" where
  "exit_selection_is_empty s \<longleftrightarrow> ens_ipv4_gateway s = None \<and> ens_ipv6_gateway s = None \<and> \<not> ens_kill_switch s"

section \<open>Addresses of a packet\<close>

text \<open>The two addresses of an IP header; the high half of the first octet is the IP version.\<close>

definition packet_addresses :: "bytes \<Rightarrow> (ip_addr \<times> ip_addr) option" where
  "packet_addresses packet =
     (case packet of
        [] \<Rightarrow> None
      | first # _ \<Rightarrow>
          if drop_bit 4 first = 4 \<and> length packet \<ge> 20
          then Some (V4 (ipv4_new (packet ! 12) (packet ! 13) (packet ! 14) (packet ! 15)),
                     V4 (ipv4_new (packet ! 16) (packet ! 17) (packet ! 18) (packet ! 19)))
          else if drop_bit 4 first = 6 \<and> length packet \<ge> 40
          then Some (V6 (u128_of_be (slice 8 24 packet)), V6 (u128_of_be (slice 24 40 packet)))
          else None)"

fun destination_prefix_len :: "'x pool_ops_scheme \<Rightarrow> joined_network \<Rightarrow> ip_addr \<Rightarrow> nat option" where
  "destination_prefix_len X n (V4 a) =
     (case parse_ipv4_net X (vn_ipv4_prefix (jn_network n)) of
        None \<Rightarrow> None
      | Some p \<Rightarrow> if net4_contains X p a then Some (n4_prefix_len p) else None)"
| "destination_prefix_len X n (V6 a) =
     (case vn_ipv6_prefix (jn_network n) of
        None \<Rightarrow> None
      | Some text \<Rightarrow>
          (case parse_ipv6_net X text of
             None \<Rightarrow> None
           | Some p \<Rightarrow> if net6_contains X p a then Some (n6_prefix_len p) else None))"

fun address_belongs_to_network :: "'x pool_ops_scheme \<Rightarrow> joined_network \<Rightarrow> ip_addr \<Rightarrow> bool" where
  "address_belongs_to_network X n (V4 a) =
     (case parse_ipv4_net X (vn_ipv4_prefix (jn_network n)) of None \<Rightarrow> False | Some p \<Rightarrow> net4_contains X p a)"
| "address_belongs_to_network X n (V6 a) =
     (case vn_ipv6_prefix (jn_network n) of
        None \<Rightarrow> False
      | Some text \<Rightarrow> (case parse_ipv6_net X text of None \<Rightarrow> False | Some p \<Rightarrow> net6_contains X p a))"

fun is_group_destination :: "'x pool_ops_scheme \<Rightarrow> joined_network \<Rightarrow> ip_addr \<Rightarrow> bool" where
  "is_group_destination X n (V4 a) =
     (a = ipv4_broadcast \<or> ip_is_multicast (V4 a)
      \<or> (case parse_ipv4_net X (vn_ipv4_prefix (jn_network n)) of None \<Rightarrow> False | Some p \<Rightarrow> a = net4_broadcast X p))"
| "is_group_destination X n (V6 a) = ip_is_multicast (V6 a)"

section \<open>Gateways\<close>

text \<open>The checks of both manifests that precede every gateway decision.\<close>

definition manifests_current ::
  "joined_network \<Rightarrow> network_policy_manifest \<Rightarrow> network_authorization_manifest \<Rightarrow> u64 \<Rightarrow> bool" where
  "manifests_current n policy authorization now =
     (let pinned = ncp_pinned_controller_public_key (jn_control_plane n)
      in \<not> (pinned = [] \<or> npm_network_id policy \<noteq> vn_id (jn_network n)
            \<or> npm_controller_public_key policy \<noteq> pinned
            \<or> npm_issued_at_unix_seconds policy > saturating_add now 120
            \<or> now > npm_expires_at_unix_seconds policy
            \<or> nam_network_id authorization \<noteq> vn_id (jn_network n)
            \<or> nam_controller_public_key authorization \<noteq> pinned
            \<or> nam_issued_at_unix_seconds authorization > saturating_add now 120
            \<or> now > nam_expires_at_unix_seconds authorization))"

text \<open>The checks of a gateway's certificate.\<close>

definition gateway_certificate_current ::
  "joined_network \<Rightarrow> network_authorization_manifest \<Rightarrow> u64 \<Rightarrow> membership_certificate \<Rightarrow> bool" where
  "gateway_certificate_current n authorization now c \<longleftrightarrow>
     mc_controller_public_key c = ncp_pinned_controller_public_key (jn_control_plane n)
     \<and> mcl_network_id (mc_claims c) = vn_id (jn_network n)
     \<and> mcl_issued_at_unix_seconds (mc_claims c) \<le> saturating_add now 120
     \<and> \<not> (case mcl_expires_at_unix_seconds (mc_claims c) of None \<Rightarrow> False | Some expiry \<Rightarrow> now > expiry)
     \<and> authorizes authorization c"

definition exit_candidate_is_current :: "u64 option \<Rightarrow> joined_network \<Rightarrow> device_id \<Rightarrow> ip_addr \<Rightarrow> bool" where
  "exit_candidate_is_current clock n device address =
     (case (ncp_policy_manifest (jn_control_plane n), ncp_authorization_manifest (jn_control_plane n), clock) of
        (Some policy, Some authorization, Some now) \<Rightarrow>
          manifests_current n policy authorization now
          \<and> list_ex (\<lambda>e. mcl_device_id (mc_claims (en_gateway_certificate e)) = device
               \<and> gateway_certificate_current n authorization now (en_gateway_certificate e)
               \<and> (case address of V4 _ \<Rightarrow> en_supports_ipv4 e | V6 _ \<Rightarrow> en_supports_ipv6 e)) (npm_exit_nodes policy)
      | _ \<Rightarrow> False)"

definition local_device_is_exit_gateway_for :: "u64 option \<Rightarrow> joined_network \<Rightarrow> device_id \<Rightarrow> ip_addr \<Rightarrow> bool" where
  "local_device_is_exit_gateway_for clock n device address = exit_candidate_is_current clock n device address"

definition selected_exit_gateway :: "u64 option \<Rightarrow> joined_network \<Rightarrow> ip_addr \<Rightarrow> device_id option" where
  "selected_exit_gateway clock n address =
     (let selection = ncp_exit_node_selection (jn_control_plane n)
      in case (case address of V4 _ \<Rightarrow> ens_ipv4_gateway selection | V6 _ \<Rightarrow> ens_ipv6_gateway selection) of
           None \<Rightarrow> None
         | Some selected \<Rightarrow> if exit_candidate_is_current clock n selected address then Some selected else None)"

text \<open>
  The loop that keeps the longest prefix seen so far and whether it is ambiguous. \<open>differs\<close> decides whether a
  second match of the same length makes it ambiguous: the loop over routes compares the gateways, the loop over
  networks counts every second match.
\<close>

fun longest_match :: "('a \<Rightarrow> 'a \<Rightarrow> bool) \<Rightarrow> nat \<times> 'a \<Rightarrow> bool \<Rightarrow> (nat \<times> 'a) list \<Rightarrow> (nat \<times> 'a) option" where
  "longest_match differs best ambiguous [] = (if ambiguous then None else Some best)"
| "longest_match differs best ambiguous (candidate # rest) =
     (if fst candidate > fst best then longest_match differs candidate False rest
      else if fst candidate = fst best \<and> differs (snd candidate) (snd best) then longest_match differs best True rest
      else longest_match differs best ambiguous rest)"

definition route_candidate ::
  "'x pool_ops_scheme \<Rightarrow> joined_network \<Rightarrow> network_authorization_manifest \<Rightarrow> u64 \<Rightarrow> ip_addr \<Rightarrow> policy_route
     \<Rightarrow> (nat \<times> device_id) option" where
  "route_candidate X n authorization now address route =
     (case parse_ip_net X (prt_prefix route) of
        None \<Rightarrow> None
      | Some prefix \<Rightarrow>
          let c = prt_gateway_certificate route
          in if \<not> gateway_certificate_current n authorization now c
                \<or> \<not> list_ex (\<lambda>allowed. prefix_covers X allowed (prt_prefix route)) (mcl_allowed_routes (mc_claims c))
             then None
             else if net_contains X prefix address
             then Some (net_prefix_len prefix, mcl_device_id (mc_claims c)) else None)"

definition policy_gateway ::
  "'x pool_ops_scheme \<Rightarrow> u64 option \<Rightarrow> joined_network \<Rightarrow> ip_addr \<Rightarrow> (nat \<times> device_id) option" where
  "policy_gateway X clock n address =
     (case (ncp_policy_manifest (jn_control_plane n), ncp_authorization_manifest (jn_control_plane n), clock) of
        (Some policy, Some authorization, Some now) \<Rightarrow>
          if \<not> manifests_current n policy authorization now then None
          else (case List.map_filter (route_candidate X n authorization now address) (npm_routes policy) of
                  [] \<Rightarrow> None
                | first # rest \<Rightarrow> longest_match (\<noteq>) first False rest)
      | _ \<Rightarrow> None)"

definition local_device_is_gateway_for ::
  "'x pool_ops_scheme \<Rightarrow> u64 option \<Rightarrow> joined_network \<Rightarrow> device_id \<Rightarrow> ip_addr \<Rightarrow> bool" where
  "local_device_is_gateway_for X clock n local destination \<longleftrightarrow>
     (case policy_gateway X clock n destination of None \<Rightarrow> False | Some (_, gateway) \<Rightarrow> gateway = local)
     \<or> (\<not> address_belongs_to_network X n destination \<and> \<not> is_group_destination X n destination
        \<and> local_device_is_exit_gateway_for clock n local destination)"

definition peer_is_gateway_for_source ::
  "'x pool_ops_scheme \<Rightarrow> u64 option \<Rightarrow> joined_network \<Rightarrow> device_id \<Rightarrow> ip_addr \<Rightarrow> bool" where
  "peer_is_gateway_for_source X clock n peer source \<longleftrightarrow>
     (case policy_gateway X clock n source of None \<Rightarrow> False | Some (_, gateway) \<Rightarrow> gateway = peer)
     \<or> (\<not> address_belongs_to_network X n source \<and> local_device_is_exit_gateway_for clock n peer source)"

section \<open>Outbound packets\<close>

definition direct_route ::
  "'x pool_ops_scheme \<Rightarrow> u64 option \<Rightarrow> joined_network \<Rightarrow> ip_addr \<Rightarrow> outbound_network_route option" where
  "direct_route X clock n destination =
     (if is_group_destination X n destination then Some \<lparr>onr_network = n, onr_gateway = None\<rparr>
      else
        (case (destination_prefix_len X n destination, policy_gateway X clock n destination) of
           (Some _, None) \<Rightarrow> Some \<lparr>onr_network = n, onr_gateway = None\<rparr>
         | (None, Some (_, gateway)) \<Rightarrow> Some \<lparr>onr_network = n, onr_gateway = Some gateway\<rparr>
         | (Some direct, Some (custom, gateway)) \<Rightarrow>
             if custom > direct then Some \<lparr>onr_network = n, onr_gateway = Some gateway\<rparr>
             else if direct > custom then Some \<lparr>onr_network = n, onr_gateway = None\<rparr>
             else None
         | (None, None) \<Rightarrow>
             map_option (\<lambda>gateway. \<lparr>onr_network = n, onr_gateway = Some gateway\<rparr>)
               (selected_exit_gateway clock n destination)))"

definition gateway_return ::
  "'x pool_ops_scheme \<Rightarrow> u64 option \<Rightarrow> device_id \<Rightarrow> ip_addr \<Rightarrow> ip_addr \<Rightarrow> joined_network \<Rightarrow> (nat \<times> joined_network) option" where
  "gateway_return X clock local source destination n =
     (if length (jn_network_key n) \<noteq> 32 \<or> \<not> address_belongs_to_network X n destination then None
      else (case policy_gateway X clock n source of
              Some (prefix_len, gateway) \<Rightarrow> if gateway = local then Some (prefix_len, n) else None
            | None \<Rightarrow> if local_device_is_exit_gateway_for clock n local source then Some (0, n) else None))"

definition outbound_route_for_ip_packet ::
  "'x pool_ops_scheme \<Rightarrow> u64 option \<Rightarrow> joined_network list \<Rightarrow> device_id \<Rightarrow> bytes \<Rightarrow> outbound_network_route option" where
  "outbound_route_for_ip_packet X clock networks local packet =
     (case packet_addresses packet of
        None \<Rightarrow> None
      | Some (source, destination) \<Rightarrow>
          (case filter (\<lambda>n. length (jn_network_key n) = 32 \<and> source \<in> set (jn_assigned_addresses n)) networks of
             n # others \<Rightarrow> if others \<noteq> [] then None else direct_route X clock n destination
           | [] \<Rightarrow>
               (case List.map_filter (gateway_return X clock local source destination) networks of
                  [] \<Rightarrow> None
                | first # rest \<Rightarrow>
                    map_option (\<lambda>best. \<lparr>onr_network = snd best, onr_gateway = None\<rparr>)
                      (longest_match (\<lambda>_ _. True) first False rest))))"

section \<open>The longest match\<close>

lemma longest_match_neq:
  assumes "best \<in> S" and "\<forall>x \<in> S. fst x \<le> fst best"
    and "ambiguous \<longleftrightarrow> (\<exists>x \<in> S. fst x = fst best \<and> snd x \<noteq> snd best)"
  shows "longest_match (\<noteq>) best ambiguous cs = Some b \<longleftrightarrow>
    b \<in> S \<union> set cs \<and> (\<forall>x \<in> S \<union> set cs. fst x < fst b \<or> x = b)"
  using assms
proof (induction cs arbitrary: best ambiguous S)
  case Nil
  have "b = best" if "b \<in> S" "\<forall>x \<in> S. fst x < fst b \<or> x = b" using Nil.prems(1,2) that by fastforce
  moreover have "(\<forall>x \<in> S. fst x < fst best \<or> x = best) \<longleftrightarrow> \<not> ambiguous"
    using Nil.prems(2,3) by (fastforce simp: prod_eq_iff)
  ultimately show ?case using Nil.prems(1) by auto
next
  case (Cons c cs)
  show ?case
  proof (cases "fst c > fst best")
    case True
    have le: "\<forall>x \<in> insert c S. fst x \<le> fst c" using Cons.prems(2) True by force
    have "False \<longleftrightarrow> (\<exists>x \<in> insert c S. fst x = fst c \<and> snd x \<noteq> snd c)" using Cons.prems(2) True by force
    from Cons.IH [OF _ le this] True show ?thesis by simp
  next
    case False
    let ?amb = "if fst c = fst best \<and> snd c \<noteq> snd best then True else ambiguous"
    have le: "\<forall>x \<in> insert c S. fst x \<le> fst best" using Cons.prems(2) False by simp
    have "?amb \<longleftrightarrow> (\<exists>x \<in> insert c S. fst x = fst best \<and> snd x \<noteq> snd best)" using Cons.prems(3) by auto
    from Cons.IH [OF _ le this] Cons.prems(1) False show ?thesis by (cases "fst c = fst best \<and> snd c \<noteq> snd best") auto
  qed
qed

lemma longest_match_neq_iff:
  "longest_match (\<noteq>) c False cs = Some b \<longleftrightarrow> b \<in> set (c # cs) \<and> (\<forall>x \<in> set (c # cs). fst x < fst b \<or> x = b)"
  using longest_match_neq [of c "{c}" False cs b] by simp

lemma longest_match_any:
  assumes "best \<in> set xs" and "\<forall>x \<in> set xs. fst x \<le> fst best"
    and "ambiguous \<longleftrightarrow> length (filter (\<lambda>x. fst x = fst best) xs) \<noteq> 1"
  shows "longest_match (\<lambda>_ _. True) best ambiguous cs = Some b \<longleftrightarrow>
    b \<in> set (xs @ cs) \<and> length (filter (\<lambda>x. fst b \<le> fst x) (xs @ cs)) = 1"
  using assms
proof (induction cs arbitrary: best ambiguous xs)
  case Nil
  have top: "filter (\<lambda>x. fst best \<le> fst x) xs = filter (\<lambda>x. fst x = fst best) xs"
    using Nil.prems(2) by (intro filter_cong) auto
  show ?case
  proof
    assume "longest_match (\<lambda>_ _. True) best ambiguous [] = Some b"
    then show "b \<in> set (xs @ []) \<and> length (filter (\<lambda>x. fst b \<le> fst x) (xs @ [])) = 1"
      using Nil.prems top by (auto split: if_splits)
  next
    assume b: "b \<in> set (xs @ []) \<and> length (filter (\<lambda>x. fst b \<le> fst x) (xs @ [])) = 1"
    then obtain y where y: "filter (\<lambda>x. fst b \<le> fst x) xs = [y]" by (auto simp: length_Suc_conv)
    have "best \<in> set (filter (\<lambda>x. fst b \<le> fst x) xs)" "b \<in> set (filter (\<lambda>x. fst b \<le> fst x) xs)"
      using b Nil.prems(1,2) by auto
    then have "best = b" unfolding y by simp
    then show "longest_match (\<lambda>_ _. True) best ambiguous [] = Some b" using Nil.prems(3) b top by simp
  qed
next
  case (Cons c cs)
  show ?case
  proof (cases "fst c > fst best")
    case True
    have le: "\<forall>x \<in> set (xs @ [c]). fst x \<le> fst c" using Cons.prems(2) True by force
    have "filter (\<lambda>x. fst x = fst c) xs = []" using Cons.prems(2) True by (auto simp: filter_empty_conv)
    then have "False \<longleftrightarrow> length (filter (\<lambda>x. fst x = fst c) (xs @ [c])) \<noteq> 1" by simp
    from Cons.IH [OF _ le this] True show ?thesis by simp
  next
    case False
    have pos: "filter (\<lambda>x. fst x = fst best) xs \<noteq> []" using Cons.prems(1) by (auto simp: filter_empty_conv)
    have le: "\<forall>x \<in> set (xs @ [c]). fst x \<le> fst best" using Cons.prems(2) False by simp
    have "(if fst c = fst best then True else ambiguous) \<longleftrightarrow> length (filter (\<lambda>x. fst x = fst best) (xs @ [c])) \<noteq> 1"
      using Cons.prems(3) pos by simp
    from Cons.IH [OF _ le this] Cons.prems(1) False show ?thesis by (cases "fst c = fst best") auto
  qed
qed

lemma longest_match_any_iff:
  "longest_match (\<lambda>_ _. True) c False cs = Some b \<longleftrightarrow>
     b \<in> set (c # cs) \<and> length (filter (\<lambda>x. fst b \<le> fst x) (c # cs)) = 1"
  using longest_match_any [of c "[c]" False cs b] by simp

section \<open>What the gateway decisions show\<close>

lemma ball_map_filter:
  "(\<forall>y \<in> set (List.map_filter f xs). P y) \<longleftrightarrow> (\<forall>x \<in> set xs. \<forall>y. f x = Some y \<longrightarrow> P y)"
  unfolding Ball_def in_set_map_filter_iff by blast

lemma map_filter_eqI: "(\<And>x. x \<in> set xs \<Longrightarrow> f x = g x) \<Longrightarrow> List.map_filter f xs = List.map_filter g xs"
  by (induction xs) (auto simp: map_filter_simps split: option.split)

lemma policy_gateway_Some_iff:
  "policy_gateway X clock n a = Some b \<longleftrightarrow> (\<exists>policy authorization now. clock = Some now
     \<and> ncp_policy_manifest (jn_control_plane n) = Some policy
     \<and> ncp_authorization_manifest (jn_control_plane n) = Some authorization
     \<and> manifests_current n policy authorization now
     \<and> b \<in> set (List.map_filter (route_candidate X n authorization now a) (npm_routes policy))
     \<and> (\<forall>x \<in> set (List.map_filter (route_candidate X n authorization now a) (npm_routes policy)). fst x < fst b \<or> x = b))"
proof -
  have "(case cs of [] \<Rightarrow> None | c # r \<Rightarrow> longest_match (\<noteq>) c False r) = Some b \<longleftrightarrow>
      b \<in> set cs \<and> (\<forall>x \<in> set cs. fst x < fst b \<or> x = b)" for cs :: "(nat \<times> device_id) list"
    by (cases cs) (simp_all add: longest_match_neq_iff)
  then show ?thesis
    by (cases "ncp_policy_manifest (jn_control_plane n)"; cases "ncp_authorization_manifest (jn_control_plane n)"; cases clock)
      (simp_all add: policy_gateway_def)
qed

text \<open>
  C25: The gateway for an address is the unique longest match. The loop over the routes with its ambiguity flag
  returns a gateway exactly when both manifests are current and a route with a valid gateway certificate matches the
  address such that every other valid matching route is shorter or has the same gateway at the same length.
\<close>

theorem policy_gateway_is_unique_longest:
  "policy_gateway X (Some now) n a = Some (l, g) \<longleftrightarrow> (\<exists>policy authorization.
     ncp_policy_manifest (jn_control_plane n) = Some policy
     \<and> ncp_authorization_manifest (jn_control_plane n) = Some authorization
     \<and> manifests_current n policy authorization now
     \<and> (\<exists>r \<in> set (npm_routes policy). route_candidate X n authorization now a r = Some (l, g))
     \<and> (\<forall>r \<in> set (npm_routes policy). \<forall>l' g'. route_candidate X n authorization now a r = Some (l', g') \<longrightarrow>
          l' < l \<or> (l' = l \<and> g' = g)))"
  unfolding policy_gateway_Some_iff ball_map_filter in_set_map_filter_iff split_paired_All by (simp add: Bex_def)

lemma route_candidate_SomeD:
  assumes "route_candidate X n authorization now a r = Some (l, g)"
  shows "\<exists>p. route_matches X a r p \<and> l = net_prefix_len p \<and> g = mcl_device_id (mc_claims (prt_gateway_certificate r))
    \<and> gateway_certificate_current n authorization now (prt_gateway_certificate r)
    \<and> list_ex (\<lambda>allowed. prefix_covers X allowed (prt_prefix r)) (mcl_allowed_routes (mc_claims (prt_gateway_certificate r)))"
  using assms by (auto simp: route_candidate_def route_matches_def Let_def split: option.splits if_splits)

lemma verified_policy_current:
  assumes "policy_verify_for_network X policy (vn_id (jn_network n)) (ncp_pinned_controller_public_key (jn_control_plane n))
      authorization now prev = Inr ()"
  shows "manifests_current n policy authorization now"
  using assms by (auto simp: policy_verify_Inr_iff authorization_verify_Inr_iff manifests_current_def Let_def not_less)

lemma verified_route_candidate:
  assumes "policy_verify_for_network X policy (vn_id (jn_network n)) (ncp_pinned_controller_public_key (jn_control_plane n))
      authorization now prev = Inr ()" and "r \<in> set (npm_routes policy)"
    and "mcl_issued_at_unix_seconds (mc_claims (prt_gateway_certificate r)) \<le> saturating_add now 120"
  shows "route_candidate X n authorization now a r = (case parse_ip_net X (prt_prefix r) of
      None \<Rightarrow> None
    | Some p \<Rightarrow> if net_contains X p a then Some (net_prefix_len p, mcl_device_id (mc_claims (prt_gateway_certificate r)))
        else None)"
proof -
  have r: "policy_check_route X (vn_id (jn_network n)) (ncp_pinned_controller_public_key (jn_control_plane n))
      authorization now r = Inr ()"
    using assms(1,2) by (auto simp: policy_verify_Inr_iff list_all_iff)
  have "gateway_certificate_current n authorization now (prt_gateway_certificate r)"
    using r assms(3)
    by (auto simp: policy_check_route_Inr_iff certificate_verify_Inr_iff gateway_certificate_current_def not_less
        split: option.splits)
  then show ?thesis using r by (simp add: route_candidate_def Let_def policy_check_route_Inr_iff cong: option.case_cong)
qed

text \<open>
  The data plane agrees with the verified policy. The data plane trusts the manifests it holds and checks no
  signature. If the policy was verified and no gateway certificate is dated more than two minutes ahead, then
  the gateway it chooses is the one the policy selects, and it chooses none only when the policy has none or two
  longest matching routes name different gateways.
\<close>

theorem policy_gateway_agrees_with_verified_policy:
  assumes "ncp_policy_manifest (jn_control_plane n) = Some policy"
    and "ncp_authorization_manifest (jn_control_plane n) = Some authorization"
    and "policy_verify_for_network X policy (vn_id (jn_network n)) (ncp_pinned_controller_public_key (jn_control_plane n))
      authorization now prev = Inr ()"
    and "\<forall>r \<in> set (npm_routes policy).
      mcl_issued_at_unix_seconds (mc_claims (prt_gateway_certificate r)) \<le> saturating_add now 120"
  shows "case policy_gateway X (Some now) n a of
      Some (l, g) \<Rightarrow> gateway_for X policy a = Some g
    | None \<Rightarrow> gateway_for X policy a = None \<or> (\<exists>r \<in> set (npm_routes policy). \<exists>r' \<in> set (npm_routes policy). \<exists>p p'.
        route_matches X a r p \<and> route_matches X a r' p' \<and> net_prefix_len p = net_prefix_len p'
        \<and> mcl_device_id (mc_claims (prt_gateway_certificate r)) \<noteq> mcl_device_id (mc_claims (prt_gateway_certificate r')))"
proof -
  let ?f = "\<lambda>r. case parse_ip_net X (prt_prefix r) of
      None \<Rightarrow> None
    | Some p \<Rightarrow> if net_contains X p a then Some (net_prefix_len p, mcl_device_id (mc_claims (prt_gateway_certificate r)))
        else None"
  define cs where "cs = List.map_filter (route_candidate X n authorization now a) (npm_routes policy)"
  have cs: "cs = List.map_filter ?f (npm_routes policy)"
    unfolding cs_def using verified_route_candidate [OF assms(3)] assms(4) by (intro map_filter_eqI) simp_all
  have gw: "gateway_for X policy a = map_option snd (max_by_key fst cs)" by (simp add: gateway_for_def cs)
  have iff: "policy_gateway X (Some now) n a = Some b \<longleftrightarrow> b \<in> set cs \<and> (\<forall>x \<in> set cs. fst x < fst b \<or> x = b)" for b
    using verified_policy_current [OF assms(3)] assms(1,2) by (auto simp: policy_gateway_Some_iff cs_def)
  show ?thesis
  proof (cases "max_by_key fst cs")
    case None
    then have "cs = []" by (cases cs) (auto split: option.splits if_splits)
    then show ?thesis using iff gw None by (auto split: option.split)
  next
    case (Some m)
    have m: "m \<in> set cs" "\<forall>x \<in> set cs. fst x \<le> fst m" using max_by_key_Some [OF Some] by auto
    show ?thesis
    proof (cases "\<exists>x \<in> set cs. fst x = fst m \<and> x \<noteq> m")
      case False
      then have "policy_gateway X (Some now) n a = Some m" using m by (auto simp: iff order_less_le)
      then show ?thesis using gw Some by (auto split: prod.split)
    next
      case True
      then obtain x where x: "x \<in> set cs" "fst x = fst m" "snd x \<noteq> snd m" by (auto simp: prod_eq_iff)
      have "policy_gateway X (Some now) n a \<noteq> Some b" for b
      proof
        assume "policy_gateway X (Some now) n a = Some b"
        then have b: "b \<in> set cs" "\<forall>x \<in> set cs. fst x < fst b \<or> x = b" by (simp_all add: iff)
        have "m = b" using b m by (metis not_less)
        then show False using b(2) x by auto
      qed
      then have "policy_gateway X (Some now) n a = None" by (cases "policy_gateway X (Some now) n a") auto
      moreover have cand: "y \<in> set cs \<longleftrightarrow> (\<exists>r \<in> set (npm_routes policy). \<exists>p. route_matches X a r p
          \<and> fst y = net_prefix_len p \<and> snd y = mcl_device_id (mc_claims (prt_gateway_certificate r)))" for y
        using gateway_candidates [of "fst y" "snd y" X a "npm_routes policy"] by (simp add: cs)
      obtain r p where r: "r \<in> set (npm_routes policy)" "route_matches X a r p" "fst x = net_prefix_len p"
        "snd x = mcl_device_id (mc_claims (prt_gateway_certificate r))" using x(1) unfolding cand by blast
      obtain r' p' where r': "r' \<in> set (npm_routes policy)" "route_matches X a r' p'" "fst m = net_prefix_len p'"
        "snd m = mcl_device_id (mc_claims (prt_gateway_certificate r'))" using m(1) unfolding cand by blast
      have "net_prefix_len p = net_prefix_len p'" "mcl_device_id (mc_claims (prt_gateway_certificate r))
          \<noteq> mcl_device_id (mc_claims (prt_gateway_certificate r'))" using r r' x(2,3) by simp_all
      ultimately show ?thesis using r(1,2) r'(1,2) by (simp only: option.case) blast
    qed
  qed
qed

section \<open>What an outbound route shows\<close>

lemma destination_prefix_len_iff: "destination_prefix_len X n a \<noteq> None \<longleftrightarrow> address_belongs_to_network X n a"
  by (cases a) (auto split: option.splits if_splits)

lemma direct_route_SomeD:
  assumes "direct_route X clock n d = Some r"
  shows "onr_network r = n \<and> (case onr_gateway r of
      None \<Rightarrow> is_group_destination X n d \<or> address_belongs_to_network X n d
    | Some g \<Rightarrow> \<not> is_group_destination X n d
        \<and> ((\<exists>l. policy_gateway X clock n d = Some (l, g) \<and> (\<forall>k. destination_prefix_len X n d = Some k \<longrightarrow> k < l))
         \<or> (selected_exit_gateway clock n d = Some g \<and> \<not> address_belongs_to_network X n d
            \<and> policy_gateway X clock n d = None)))"
proof (cases "is_group_destination X n d")
  case True
  then show ?thesis using assms by (auto simp: direct_route_def)
next
  case False
  note belongs = destination_prefix_len_iff [of X n d]
  show ?thesis
    using assms False belongs
    by (cases "destination_prefix_len X n d"; cases "policy_gateway X clock n d")
      (auto simp: direct_route_def split: if_splits)
qed

lemma filter_single_in: "filter P xs = [x] \<Longrightarrow> x \<in> set xs \<and> P x"
  using set_filter [of P xs] by auto

lemma filter_single:
  assumes "filter P xs = [x]" and "y \<in> set xs" and "P y"
  shows "y = x"
proof -
  have "y \<in> set (filter P xs)" using assms(2,3) by simp
  then show ?thesis by (simp add: assms(1))
qed

lemma outbound_route_cases:
  assumes "outbound_route_for_ip_packet X clock networks local packet = Some r"
  obtains (own) src dst n where "packet_addresses packet = Some (src, dst)"
      and "filter (\<lambda>n. length (jn_network_key n) = 32 \<and> src \<in> set (jn_assigned_addresses n)) networks = [n]"
      and "direct_route X clock n dst = Some r"
  | (forwarded) src dst n l where "packet_addresses packet = Some (src, dst)"
      and "filter (\<lambda>n. length (jn_network_key n) = 32 \<and> src \<in> set (jn_assigned_addresses n)) networks = []"
      and "n \<in> set networks" and "gateway_return X clock local src dst n = Some (l, n)"
      and "r = \<lparr>onr_network = n, onr_gateway = None\<rparr>"
proof -
  obtain src dst where pkt: "packet_addresses packet = Some (src, dst)"
    using assms by (auto simp: outbound_route_for_ip_packet_def split: option.splits)
  let ?own = "\<lambda>n. length (jn_network_key n) = 32 \<and> src \<in> set (jn_assigned_addresses n)"
  show thesis
  proof (cases "filter ?own networks")
    case (Cons n others)
    then have "others = []" and r: "direct_route X clock n dst = Some r"
      using assms pkt by (auto simp: outbound_route_for_ip_packet_def split: if_splits)
    then show thesis using Cons own [OF pkt _ r] by simp
  next
    case Nil
    then obtain c cs b where c: "List.map_filter (gateway_return X clock local src dst) networks = c # cs"
      and b: "longest_match (\<lambda>_ _. True) c False cs = Some b" "r = \<lparr>onr_network = snd b, onr_gateway = None\<rparr>"
      using assms pkt
      by (cases "List.map_filter (gateway_return X clock local src dst) networks")
        (auto simp: outbound_route_for_ip_packet_def)
    have "b \<in> set (List.map_filter (gateway_return X clock local src dst) networks)"
      using b(1) unfolding c longest_match_any_iff by blast
    then obtain n where n: "n \<in> set networks" "gateway_return X clock local src dst n = Some b"
      unfolding in_set_map_filter_iff by blast
    then have "snd b = n" by (auto simp: gateway_return_def split: if_splits option.splits)
    then show thesis using forwarded [OF pkt Nil n(1), of "fst b"] n(2) b(2) by (metis prod.collapse)
  qed
qed

text \<open>
  A packet leaves only through the network that owns its source address. If an outbound packet is routed, then
  either its source address is assigned to the device on the chosen network and on no other, and the destination
  is in that network, a group address, or behind the gateway of the longest matching route or the
  selected exit; or no network owns the source, the destination is in the chosen network, and the device is the
  gateway of that network for the source. In every case the network has a 32-byte key.
\<close>

theorem outbound_route_owns_source:
  assumes "outbound_route_for_ip_packet X clock networks local packet = Some r"
  shows "\<exists>src dst. packet_addresses packet = Some (src, dst) \<and> onr_network r \<in> set networks
    \<and> length (jn_network_key (onr_network r)) = 32
    \<and> (src \<in> set (jn_assigned_addresses (onr_network r))
       \<and> (\<forall>n \<in> set networks. length (jn_network_key n) = 32 \<longrightarrow> src \<in> set (jn_assigned_addresses n) \<longrightarrow> n = onr_network r)
       \<and> (case onr_gateway r of
            None \<Rightarrow> is_group_destination X (onr_network r) dst \<or> address_belongs_to_network X (onr_network r) dst
          | Some g \<Rightarrow> \<not> is_group_destination X (onr_network r) dst
              \<and> ((\<exists>l. policy_gateway X clock (onr_network r) dst = Some (l, g)
                     \<and> (\<forall>k. destination_prefix_len X (onr_network r) dst = Some k \<longrightarrow> k < l))
               \<or> (selected_exit_gateway clock (onr_network r) dst = Some g
                  \<and> \<not> address_belongs_to_network X (onr_network r) dst
                  \<and> policy_gateway X clock (onr_network r) dst = None)))
     \<or> (\<forall>n \<in> set networks. length (jn_network_key n) = 32 \<longrightarrow> src \<notin> set (jn_assigned_addresses n))
       \<and> onr_gateway r = None \<and> address_belongs_to_network X (onr_network r) dst
       \<and> ((\<exists>l. policy_gateway X clock (onr_network r) src = Some (l, local))
          \<or> local_device_is_exit_gateway_for clock (onr_network r) local src))"
  using assms
proof (cases rule: outbound_route_cases)
  case (own src dst n)
  have n: "n \<in> set networks" "length (jn_network_key n) = 32" "src \<in> set (jn_assigned_addresses n)"
    using filter_single_in [OF own(2)] by blast+
  have uniq: "\<forall>n' \<in> set networks. length (jn_network_key n') = 32 \<longrightarrow> src \<in> set (jn_assigned_addresses n') \<longrightarrow> n' = n"
    using filter_single [OF own(2)] by blast
  have net: "onr_network r = n" using direct_route_SomeD [OF own(3)] by blast
  show ?thesis
    unfolding net
    by (rule exI [of _ src], rule exI [of _ dst]) (use direct_route_SomeD [OF own(3)] n uniq own(1) in blast)
next
  case (forwarded src dst n l)
  have "length (jn_network_key n) = 32" "address_belongs_to_network X n dst"
    "(\<exists>l. policy_gateway X clock n src = Some (l, local)) \<or> local_device_is_exit_gateway_for clock n local src"
    using forwarded(4) by (auto simp: gateway_return_def split: if_splits option.splits)
  moreover have "\<forall>n \<in> set networks. length (jn_network_key n) = 32 \<longrightarrow> src \<notin> set (jn_assigned_addresses n)"
    using forwarded(2) by (auto simp: filter_empty_conv)
  ultimately show ?thesis using forwarded(1,3,5) by (intro exI [of _ src] exI [of _ dst]) simp
qed

section \<open>A sample network\<close>

definition sample_dp :: pool_ops where
  "sample_dp = (policy_ops.extend (const_policy open_prims) (pool_ops.fields (\<lambda>p. n4_addr p + 255)))
     \<lparr>parse_ipv4_net := \<lambda>s. if s = ''100.64.0.0/24'' then Some \<lparr>n4_addr = 0x64400000, n4_prefix_len = 24\<rparr> else None\<rparr>"

lemma sample_dp_policy_ok:
  "policy_verify_for_network sample_dp sample_policy 5 (replicate 32 6) sample_manifest 300 (Some 2) = Inr ()"
proof -
  have cert: "certificate_verify_from_controller sample_dp gateway_certificate (replicate 32 6) now = Inr ()"
    "authorizes sample_manifest gateway_certificate" for now
    by (simp_all add: certificate_verify_Inr_iff certificate_message_def gateway_certificate_def
      sample_certificate_def sample_claims_def authorizes_def sample_manifest_def sample_member_def
      const_policy_simps pool_ops.defs sample_dp_def open_prims_def sample_prims_def)
  have auth: "authorization_verify_from_controller sample_dp sample_manifest (replicate 32 6) 300 = Inr ()"
    by (simp add: authorization_verify_Inr_iff sample_manifest_def AUTHORIZATION_MANIFEST_VERSION_def
      saturating_add_def const_policy_simps pool_ops.defs sample_dp_def open_prims_def sample_prims_def)
  have "prefix_covers sample_dp ''10.0.0.0/8'' ''10.1.0.0/16''"
    by (simp add: prefix_covers_def const_policy_simps sample_parse_net_def pool_ops.defs sample_dp_def drop_bit_eq_div)
  then have route: "policy_check_route sample_dp 5 (replicate 32 6) sample_manifest now sample_route = Inr ()" for now
    using cert
    by (simp add: policy_check_route_Inr_iff sample_route_def)
      (simp add: gateway_certificate_def sample_certificate_def sample_claims_def)
  have valid: "validate_normalized_policy sample_dp [sample_route] no_dns = Inr ()"
    by (simp add: validate_normalized_policy_def parse_route_def sample_route_def no_dns_def MAX_ROUTES_def
      MAX_DNS_SERVERS_def const_policy_simps pool_ops.defs sample_dp_def sample_parse_net_def sample_show_net_def)
  have "encoded_policy_payload sample_dp sample_policy = Inr [21]"
    by (simp add: encoded_policy_payload_def sample_policy_def NETWORK_POLICY_MANIFEST_VERSION_V1_def
        const_policy_simps pool_ops.defs sample_dp_def)
  moreover have "ed_verify sample_dp pk m s" "ed_key_ok sample_dp pk" for pk m s
    by (simp_all add: const_policy_simps pool_ops.defs sample_dp_def open_prims_def sample_prims_def)
  moreover have "nam_network_id sample_manifest = 5" by (simp add: sample_manifest_def)
  ultimately show ?thesis
    unfolding policy_verify_Inr_iff
    by (simp add: auth) (simp add: sample_policy_def valid route
        validate_exit_nodes_def saturating_add_def NETWORK_POLICY_MANIFEST_VERSION_V1_def)
qed

definition sample_control_plane :: network_control_plane where
  "sample_control_plane = \<lparr>ncp_controller_url = None, ncp_pinned_controller_public_key = replicate 32 6,
     ncp_controller_tls_ca_pem = None, ncp_planet_manifest_url = None, ncp_planet_manifest_version = None,
     ncp_planet_last_issued_at_unix_seconds = None, ncp_planet_expires_at_unix_seconds = None,
     ncp_planet_semantic_digest = [], ncp_verified_roots = [], ncp_verified_relays = [], ncp_verified_tls_relays = [],
     ncp_verified_turn_servers = [], ncp_verified_stun_servers = [],
     ncp_authorization_manifest = Some sample_manifest, ncp_policy_manifest = Some sample_policy,
     ncp_exit_node_selection = \<lparr>ens_ipv4_gateway = None, ens_ipv6_gateway = None, ens_kill_switch = False\<rparr>\<rparr>"

definition sample_joined :: joined_network where
  "sample_joined = \<lparr>jn_network = \<lparr>vn_id = 5, vn_name = ''n'', vn_ipv4_prefix = ''100.64.0.0/24'', vn_ipv6_prefix = None,
       vn_relay_policy = Preferred\<rparr>, jn_assigned_addresses = [V4 0x64400003], jn_certificate = None,
     jn_network_key = replicate 32 9, jn_control_plane = sample_control_plane\<rparr>"

definition sample_packet :: bytes where
  "sample_packet = [0x45, 0, 0, 0, 0, 0, 0, 0, 0, 0, 0, 0, 100, 64, 0, 3, 10, 1, 2, 3]"

lemma sample_packet_addresses: "packet_addresses sample_packet = Some (V4 0x64400003, V4 0x0A010203)"
  by (simp add: packet_addresses_def sample_packet_def drop_bit_eq_div ipv4_new_def u32_of_be_def be_to_nat_def)

lemma sample_gateway_for: "gateway_for sample_dp sample_policy (V4 0x0A010203) = Some 1"
  by (simp add: gateway_for_def sample_policy_def sample_route_def gateway_certificate_def
      sample_certificate_def sample_claims_def map_filter_simps const_policy_simps pool_ops.defs sample_dp_def
      sample_parse_net_def drop_bit_eq_div)

lemma sample_joined_verified:
  "policy_verify_for_network sample_dp sample_policy (vn_id (jn_network sample_joined))
     (ncp_pinned_controller_public_key (jn_control_plane sample_joined)) sample_manifest 300 (Some 2) = Inr ()"
  by (simp add: sample_joined_def sample_control_plane_def sample_dp_policy_ok)

lemma sample_policy_gateway: "policy_gateway sample_dp (Some 300) sample_joined (V4 0x0A010203) = Some (16, 1)"
proof -
  have "route_candidate sample_dp sample_joined sample_manifest 300 (V4 0x0A010203) sample_route = Some (16, 1)"
    using verified_route_candidate [OF sample_joined_verified, of sample_route "V4 0x0A010203"]
    by (simp add: sample_policy_def sample_route_def gateway_certificate_def sample_certificate_def sample_claims_def
        saturating_add_def sample_dp_def const_policy_simps pool_ops.defs sample_parse_net_def drop_bit_eq_div)
  then show ?thesis
    using verified_policy_current [OF sample_joined_verified]
    by (simp add: policy_gateway_def sample_joined_def sample_control_plane_def sample_policy_def map_filter_simps)
qed

theorem policy_gateway_agrees_with_verified_policy_witness:
  "policy_gateway sample_dp (Some 300) sample_joined (V4 0x0A010203) = Some (16, 1)
   \<and> gateway_for sample_dp sample_policy (V4 0x0A010203) = Some 1"
proof -
  have "ncp_policy_manifest (jn_control_plane sample_joined) = Some sample_policy"
    "ncp_authorization_manifest (jn_control_plane sample_joined) = Some sample_manifest"
    by (simp_all add: sample_joined_def sample_control_plane_def)
  moreover have "\<forall>r \<in> set (npm_routes sample_policy).
      mcl_issued_at_unix_seconds (mc_claims (prt_gateway_certificate r)) \<le> saturating_add 300 120"
    by (simp add: sample_policy_def sample_route_def gateway_certificate_def sample_certificate_def sample_claims_def
        saturating_add_def)
  ultimately show ?thesis
    using policy_gateway_agrees_with_verified_policy [OF _ _ sample_joined_verified, of "V4 0x0A010203"]
    by (simp add: sample_policy_gateway)
qed

lemma sample_outbound:
  "outbound_route_for_ip_packet sample_dp (Some 300) [sample_joined] 2 sample_packet
     = Some \<lparr>onr_network = sample_joined, onr_gateway = Some 1\<rparr>"
proof -
  have "\<not> is_group_destination sample_dp sample_joined (V4 0x0A010203)"
    "destination_prefix_len sample_dp sample_joined (V4 0x0A010203) = None"
    by (simp_all add: sample_joined_def sample_dp_def const_policy_simps pool_ops.defs ipv4_broadcast_def ipv4_octet_def
        drop_bit_eq_div)
  then show ?thesis
    by (simp add: outbound_route_for_ip_packet_def sample_packet_addresses direct_route_def sample_policy_gateway)
      (simp add: sample_joined_def)
qed

theorem outbound_route_owns_source_witness:
  "\<exists>src. src \<in> set (jn_assigned_addresses sample_joined) \<and> length (jn_network_key sample_joined) = 32"
  using outbound_route_owns_source [OF sample_outbound] by auto

theorem policy_gateway_is_unique_longest_witness:
  "\<exists>r \<in> set (npm_routes sample_policy). route_candidate sample_dp sample_joined sample_manifest 300 (V4 0x0A010203) r
     = Some (16, 1)"
  using sample_policy_gateway unfolding policy_gateway_is_unique_longest
  by (simp add: sample_joined_def sample_control_plane_def)

end
