(* ===== verification/Peer_Directory.thy ===== *)
theory Peer_Directory
  imports Data_Plane Peer_Table Wire_Format
begin

text \<open>
  What a device agent knows of its peers (\<^verbatim>\<open>crates/meshlaked/src/main.rs\<close>): endpoint candidates with their measured
  round-trip times, the directory of certified addresses and keys, the peers a packet is sent to, the check
  of a received packet, and the cache of session handshakes already seen. Instants and durations are in
  nanoseconds. The theorems show the invariant of the directory, that the cache is bounded and refuses repetitions,
  and that a packet routed by one device is accepted by the device it is sent to.
\<close>

section \<open>Candidates\<close>

definition nanoseconds :: nat where "nanoseconds = 1000000000"

definition PEER_DIRECTORY_TTL :: nat where "PEER_DIRECTORY_TTL = 120 * nanoseconds"
definition HANDSHAKE_REPLAY_TTL :: nat where "HANDSHAKE_REPLAY_TTL = 300 * nanoseconds"
definition MAX_HANDSHAKE_REPLAY_ENTRIES :: nat where "MAX_HANDSHAKE_REPLAY_ENTRIES = 16384"

record peer_candidate =
  pcd_endpoint :: socket_addr
  pcd_last_probe_sent :: "nat option"
  pcd_last_seen :: "nat option"
  pcd_smoothed_rtt :: "nat option"
  pcd_consecutive_failures :: u8

record peer_route =
  pro_candidates :: "peer_candidate list"
  pro_assigned_addresses :: "ip_addr list"
  pro_device_public_key :: bytes
  pro_directory_last_seen :: "nat option"

definition peer_candidate_new :: "socket_addr \<Rightarrow> peer_candidate" where
  "peer_candidate_new endpoint = \<lparr>pcd_endpoint = endpoint, pcd_last_probe_sent = None, pcd_last_seen = None,
     pcd_smoothed_rtt = None, pcd_consecutive_failures = 0\<rparr>"

definition candidate_score :: "peer_candidate \<Rightarrow> nat" where
  "candidate_score c =
     (case pcd_smoothed_rtt c of None \<Rightarrow> 500 * 1000000 | Some rtt \<Rightarrow> rtt) div 1000
     + unat (pcd_consecutive_failures c) * 250000"

definition weighted_rtt :: "nat \<Rightarrow> nat \<Rightarrow> nat" where
  "weighted_rtt previous sample =
     (let micros = ((previous div 1000) * 7 + sample div 1000) div 8
      in min micros (2 ^ 64 - 1) * 1000)"

text \<open>\<^verbatim>\<open>iter_mut().find(..)\<close> with an update of the element found.\<close>

fun update_first :: "('a \<Rightarrow> bool) \<Rightarrow> ('a \<Rightarrow> 'a) \<Rightarrow> 'a list \<Rightarrow> 'a list" where
  "update_first P f [] = []"
| "update_first P f (x # xs) = (if P x then f x # xs else x # update_first P f xs)"

text \<open>\<^verbatim>\<open>min_by_key\<close>, the first of the smallest.\<close>

fun min_by_key :: "('a \<Rightarrow> nat) \<Rightarrow> 'a list \<Rightarrow> 'a option" where
  "min_by_key f [] = None"
| "min_by_key f (x # xs) =
     (case min_by_key f xs of None \<Rightarrow> Some x | Some y \<Rightarrow> if f x \<le> f y then Some x else Some y)"

section \<open>Routes\<close>

definition peer_route_empty :: peer_route where
  "peer_route_empty = \<lparr>pro_candidates = [], pro_assigned_addresses = [], pro_device_public_key = [],
     pro_directory_last_seen = None\<rparr>"

definition peer_route_new :: "socket_addr \<Rightarrow> peer_route" where
  "peer_route_new candidate = peer_route_empty\<lparr>pro_candidates := [peer_candidate_new candidate]\<rparr>"

definition add_candidate :: "socket_addr \<Rightarrow> peer_route \<Rightarrow> peer_route" where
  "add_candidate candidate r =
     (if \<not> list_ex (\<lambda>existing. pcd_endpoint existing = candidate) (pro_candidates r) \<and> length (pro_candidates r) < 16
      then r\<lparr>pro_candidates := pro_candidates r @ [peer_candidate_new candidate]\<rparr> else r)"

definition set_assigned_addresses_at :: "ip_addr list \<Rightarrow> nat \<Rightarrow> peer_route \<Rightarrow> peer_route" where
  "set_assigned_addresses_at addresses now r =
     r\<lparr>pro_assigned_addresses := addresses, pro_directory_last_seen := Some now\<rparr>"

definition expire_directory :: "nat \<Rightarrow> peer_route \<Rightarrow> peer_route" where
  "expire_directory now r =
     (if (case pro_directory_last_seen r of None \<Rightarrow> False | Some seen \<Rightarrow> now - seen > PEER_DIRECTORY_TTL)
      then r\<lparr>pro_assigned_addresses := [], pro_device_public_key := [], pro_directory_last_seen := None\<rparr> else r)"

definition route_endpoints :: "peer_route \<Rightarrow> socket_addr list" where
  "route_endpoints r = map pcd_endpoint (pro_candidates r)"

definition mark_probe_sent :: "socket_addr \<Rightarrow> nat \<Rightarrow> peer_route \<Rightarrow> peer_route" where
  "mark_probe_sent endpoint now r =
     r\<lparr>pro_candidates := update_first (\<lambda>c. pcd_endpoint c = endpoint) (\<lambda>c. c\<lparr>pcd_last_probe_sent := Some now\<rparr>)
       (pro_candidates r)\<rparr>"

definition candidate_success :: "nat \<Rightarrow> peer_candidate \<Rightarrow> peer_candidate" where
  "candidate_success now c =
     (let c = (case pcd_last_probe_sent c of
            None \<Rightarrow> c
          | Some sent \<Rightarrow>
              let sample = now - sent
              in c\<lparr>pcd_last_probe_sent := None,
                   pcd_smoothed_rtt := Some (case pcd_smoothed_rtt c of
                     None \<Rightarrow> sample | Some previous \<Rightarrow> weighted_rtt previous sample)\<rparr>)
      in c\<lparr>pcd_last_seen := Some now, pcd_consecutive_failures := 0\<rparr>)"

definition mark_success :: "socket_addr \<Rightarrow> nat \<Rightarrow> peer_route \<Rightarrow> peer_route \<times> bool" where
  "mark_success endpoint now r =
     (if \<not> list_ex (\<lambda>c. pcd_endpoint c = endpoint) (pro_candidates r) then (r, False)
      else (r\<lparr>pro_candidates := update_first (\<lambda>c. pcd_endpoint c = endpoint) (candidate_success now)
              (pro_candidates r)\<rparr>, True))"

definition expire_probe :: "nat \<Rightarrow> peer_candidate \<Rightarrow> peer_candidate" where
  "expire_probe now c =
     (if (case pcd_last_probe_sent c of None \<Rightarrow> False | Some sent \<Rightarrow> now - sent > 3 * nanoseconds)
         \<and> (case (pcd_last_seen c, pcd_last_probe_sent c) of (Some seen, Some sent) \<Rightarrow> seen < sent | _ \<Rightarrow> True)
      then c\<lparr>pcd_last_probe_sent := None, pcd_consecutive_failures := saturating_add (pcd_consecutive_failures c) 1\<rparr>
      else c)"

definition expire_probes :: "nat \<Rightarrow> peer_route \<Rightarrow> peer_route" where
  "expire_probes now r = r\<lparr>pro_candidates := map (expire_probe now) (pro_candidates r)\<rparr>"

definition best_candidate :: "nat \<Rightarrow> peer_route \<Rightarrow> peer_candidate option" where
  "best_candidate now r = min_by_key candidate_score
     (filter (\<lambda>c. case pcd_last_seen c of None \<Rightarrow> False | Some seen \<Rightarrow> now - seen < 45 * nanoseconds) (pro_candidates r))"

definition best_endpoint :: "nat \<Rightarrow> peer_route \<Rightarrow> socket_addr option" where
  "best_endpoint now r = map_option pcd_endpoint (best_candidate now r)"

section \<open>The directory\<close>

type_synonym peer_directory = "(peer_key, peer_route) hash_map"

definition directory_conflict :: "peer_directory \<Rightarrow> peer_key \<Rightarrow> ip_addr list \<Rightarrow> bool" where
  "directory_conflict peers key addresses =
     list_ex (\<lambda>(k, r). k \<noteq> key \<and> fst k = fst key \<and> list_ex (\<lambda>a. a \<in> set addresses) (pro_assigned_addresses r)) peers"

definition update_peer_addresses ::
  "'x pool_ops_scheme \<Rightarrow> nat \<Rightarrow> peer_directory \<Rightarrow> peer_key \<Rightarrow> ip_addr list \<Rightarrow> device_id \<Rightarrow> joined_network list
     \<Rightarrow> peer_directory \<times> bool" where
  "update_peer_addresses X now peers key assigned self networks =
     (if snd key = self \<or> length assigned > RELAY_MAX_ASSIGNED_ADDRESSES then (peers, False)
      else case find (\<lambda>n. vn_id (jn_network n) = fst key) networks of
        None \<Rightarrow> (peers, False)
      | Some n \<Rightarrow>
          let addresses = remdups_adj (sort assigned)
          in if addresses = []
                \<or> list_ex (\<lambda>a. \<not> address_belongs_to_network X n a) addresses
                \<or> list_ex (\<lambda>a. a \<in> set (jn_assigned_addresses n)) addresses
                \<or> directory_conflict peers key addresses
             then (peers, False)
             else
               let r = (case hm_get peers key of None \<Rightarrow> peer_route_empty | Some r \<Rightarrow> r)
               in (hm_insert key (set_assigned_addresses_at addresses now r) peers, True))"

definition update_peer_membership ::
  "'x pool_ops_scheme \<Rightarrow> nat \<Rightarrow> peer_directory \<Rightarrow> membership_certificate \<Rightarrow> device_id \<Rightarrow> joined_network list
     \<Rightarrow> peer_directory \<times> bool option" where
  "update_peer_membership X now peers certificate self networks =
     (let claims = mc_claims certificate;
          key = (mcl_network_id claims, mcl_device_id claims)
      in if length (mcl_device_public_key claims) \<noteq> 32 then (peers, None)
         else
           let previous = (case hm_get peers key of None \<Rightarrow> [] | Some r \<Rightarrow> pro_device_public_key r);
               (peers', updated) = update_peer_addresses X now peers key (mcl_assigned_addresses claims) self networks
           in if \<not> updated then (peers', None)
              else (case hm_get peers' key of
                      None \<Rightarrow> (peers', None)
                    | Some r \<Rightarrow>
                        (hm_insert key (r\<lparr>pro_device_public_key := mcl_device_public_key claims\<rparr>) peers',
                         Some (previous \<noteq> [] \<and> previous \<noteq> mcl_device_public_key claims))))"

definition peer_targets_for_packet ::
  "'x pool_ops_scheme \<Rightarrow> peer_directory \<Rightarrow> joined_network \<Rightarrow> device_id option \<Rightarrow> bytes \<Rightarrow> (device_id \<times> peer_route) list" where
  "peer_targets_for_packet X peers n gateway packet =
     (case packet_addresses packet of
        None \<Rightarrow> []
      | Some (_, destination) \<Rightarrow>
          sort_key fst (List.map_filter (\<lambda>((network_id, device), r).
            if network_id \<noteq> vn_id (jn_network n) \<or> pro_assigned_addresses r = [] then None
            else if gateway = Some device
               \<or> gateway = None \<and> (is_group_destination X n destination \<or> destination \<in> set (pro_assigned_addresses r))
            then Some (device, r) else None) peers))"

definition packet_is_authorized_for_delivery ::
  "'x pool_ops_scheme \<Rightarrow> u64 option \<Rightarrow> joined_network \<Rightarrow> device_id \<Rightarrow> peer_route \<Rightarrow> device_id \<Rightarrow> device_id \<Rightarrow> bytes \<Rightarrow> bool" where
  "packet_is_authorized_for_delivery X clock n source_device source_route outer_destination local packet =
     (if outer_destination \<noteq> uuid_nil \<and> outer_destination \<noteq> local then False
      else case packet_addresses packet of
        None \<Rightarrow> False
      | Some (source, destination) \<Rightarrow>
          if source \<notin> set (pro_assigned_addresses source_route)
             \<and> \<not> peer_is_gateway_for_source X clock n source_device source then False
          else
            let group_destination = is_group_destination X n destination
            in if outer_destination = uuid_nil then group_destination
               else group_destination \<or> destination \<in> set (jn_assigned_addresses n)
                  \<or> local_device_is_gateway_for X clock n local destination)"

section \<open>Handshakes already seen\<close>

type_synonym handshake_cache = "(peer_key \<times> bytes, nat) hash_map"

definition record_session_handshake ::
  "handshake_cache \<Rightarrow> peer_key \<Rightarrow> bytes \<Rightarrow> nat \<Rightarrow> handshake_cache \<times> bool" where
  "record_session_handshake seen peer session_id now =
     (let seen = hm_retain (\<lambda>_ recorded. now - recorded \<le> HANDSHAKE_REPLAY_TTL) seen;
          key = (peer, session_id)
      in if hm_get seen key \<noteq> None then (seen, False)
         else
           let seen = (if length seen \<ge> MAX_HANDSHAKE_REPLAY_ENTRIES
                 then (case max_by_key (\<lambda>(_, recorded). now - recorded) seen of
                         None \<Rightarrow> seen | Some (oldest, _) \<Rightarrow> hm_remove oldest seen)
                 else seen)
           in (hm_insert key now seen, True))"

section \<open>The invariant of the directory\<close>

interpretation agent_table: peer_table pro_assigned_addresses directory_conflict
proof unfold_locales
  fix peers :: peer_directory and key as
  assume "hm_ok peers"
  then show "directory_conflict peers key as \<longleftrightarrow> (\<exists>k p. hm_get peers k = Some p \<and> fst k = fst key \<and> snd k \<noteq> snd key
      \<and> set (pro_assigned_addresses p) \<inter> set as \<noteq> {})"
    unfolding directory_conflict_def list_ex_shared by (simp only: list_ex_hash_map) (metis prod_eq_iff)
qed

definition route_ok :: "peer_route \<Rightarrow> bool" where
  "route_ok r \<longleftrightarrow> length (pro_candidates r) \<le> 16 \<and> distinct (route_endpoints r)
     \<and> (pro_device_public_key r = [] \<or> length (pro_device_public_key r) = 32)"

definition entry_ok :: "'x pool_ops_scheme \<Rightarrow> device_id \<Rightarrow> joined_network list \<Rightarrow> peer_key \<Rightarrow> peer_route \<Rightarrow> bool" where
  "entry_ok X self networks k r \<longleftrightarrow> route_ok r \<and> length (pro_assigned_addresses r) \<le> RELAY_MAX_ASSIGNED_ADDRESSES
     \<and> (pro_assigned_addresses r \<noteq> [] \<longrightarrow> snd k \<noteq> self \<and> (\<exists>n. find (\<lambda>n. vn_id (jn_network n) = fst k) networks = Some n
          \<and> (\<forall>a \<in> set (pro_assigned_addresses r). address_belongs_to_network X n a \<and> a \<notin> set (jn_assigned_addresses n))))"

definition directory_ok :: "'x pool_ops_scheme \<Rightarrow> device_id \<Rightarrow> joined_network list \<Rightarrow> peer_directory \<Rightarrow> bool" where
  "directory_ok X self networks peers \<longleftrightarrow> hm_ok peers \<and> agent_table.disjoint peers
     \<and> (\<forall>k r. hm_get peers k = Some r \<longrightarrow> entry_ok X self networks k r)"

lemma directory_okD:
  assumes "directory_ok X self networks peers"
  shows "hm_ok peers" "agent_table.disjoint peers" "hm_get peers k = Some r \<Longrightarrow> entry_ok X self networks k r"
  using assms unfolding directory_ok_def by blast+

lemma directory_ok_insert:
  assumes "directory_ok X self networks peers" and "agent_table.disjoint (hm_insert k r peers)" and "entry_ok X self networks k r"
  shows "directory_ok X self networks (hm_insert k r peers)"
  using assms by (simp add: directory_ok_def)

text \<open>An update of one route that may forget its addresses but not change them.\<close>

definition route_kept :: "peer_route \<Rightarrow> peer_route \<Rightarrow> bool" where
  "route_kept r r' \<longleftrightarrow> pro_assigned_addresses r' \<in> {[], pro_assigned_addresses r} \<and> (route_ok r \<longrightarrow> route_ok r')"

lemma update_first_map: "(\<And>x. P x \<Longrightarrow> g (f x) = g x) \<Longrightarrow> map g (update_first P f xs) = map g xs"
  by (induction xs) auto

lemma length_update_first [simp]: "length (update_first P f xs) = length xs"
  by (induction xs) auto

lemma candidate_success_endpoint [simp]: "pcd_endpoint (candidate_success now c) = pcd_endpoint c"
  by (simp add: candidate_success_def Let_def split: option.split)

lemma expire_probe_endpoint [simp]: "pcd_endpoint (expire_probe now c) = pcd_endpoint c"
  by (simp add: expire_probe_def)

lemma route_kept_refl [simp]: "route_kept r r"
  by (simp add: route_kept_def)

lemma add_candidate_kept: "route_kept r (add_candidate e r)"
  by (auto simp: add_candidate_def route_kept_def route_ok_def route_endpoints_def peer_candidate_new_def list_ex_iff)

lemma expire_directory_kept: "route_kept r (expire_directory now r)"
  by (simp add: expire_directory_def route_kept_def route_ok_def route_endpoints_def)

lemma mark_probe_sent_kept: "route_kept r (mark_probe_sent e now r)"
  by (simp add: mark_probe_sent_def route_kept_def route_ok_def route_endpoints_def update_first_map)

lemma mark_success_kept: "route_kept r (fst (mark_success e now r))"
  by (simp add: mark_success_def route_kept_def route_ok_def route_endpoints_def update_first_map)

lemma expire_probes_kept: "route_kept r (expire_probes now r)"
  by (simp add: expire_probes_def route_kept_def route_ok_def route_endpoints_def o_def)

lemmas route_updates_kept = add_candidate_kept expire_directory_kept mark_probe_sent_kept mark_success_kept
  expire_probes_kept route_kept_refl

lemma directory_ok_update:
  assumes "directory_ok X self networks peers" and "hm_get peers k = Some r" and "route_kept r r'"
  shows "directory_ok X self networks (hm_insert k r' peers)"
proof -
  note dis = directory_okD(2) [OF assms(1)]
  have sub: "set (pro_assigned_addresses r') \<subseteq> set (pro_assigned_addresses r)" using assms(3) by (auto simp: route_kept_def)
  have "agent_table.disjoint (hm_insert k r' peers)"
    unfolding agent_table.disjoint_def
  proof (intro allI impI)
    fix k1 p1 k2 p2
    assume "hm_get (hm_insert k r' peers) k1 = Some p1" "hm_get (hm_insert k r' peers) k2 = Some p2"
      "fst k1 = fst k2" "k1 \<noteq> k2"
    then show "set (pro_assigned_addresses p1) \<inter> set (pro_assigned_addresses p2) = {}"
      using agent_table.disjointD [OF dis, of k1 _ k2 _] assms(2) sub
      by (cases "k1 = k"; cases "k2 = k"; simp) blast+
  qed
  moreover have "entry_ok X self networks k r'"
    using directory_okD(3) [OF assms(1,2)] assms(3) unfolding entry_ok_def route_kept_def by auto
  ultimately show ?thesis by (rule directory_ok_insert [OF assms(1)])
qed

lemma directory_ok_retain:
  assumes "directory_ok X self networks peers"
  shows "directory_ok X self networks (hm_retain P peers)"
  unfolding directory_ok_def
  using directory_okD [OF assms] agent_table.disjoint_retain [of peers P] by (auto dest!: hm_get_retainD)

lemma directory_ok_new:
  assumes "directory_ok X self networks peers" and "hm_get peers k = None" and "pro_assigned_addresses r = []" and "route_ok r"
  shows "directory_ok X self networks (hm_insert k r peers)"
proof -
  have "\<not> directory_conflict peers k (pro_assigned_addresses r)"
    using agent_table.conflict_iff [OF directory_okD(1) [OF assms(1)], of k "[]"] by (simp add: assms(3))
  then have "agent_table.disjoint (hm_insert k r peers)"
    by (rule agent_table.disjoint_insert [OF directory_okD(1,2) [OF assms(1)]])
  moreover have "entry_ok X self networks k r" using assms(3,4) by (simp add: entry_ok_def)
  ultimately show ?thesis by (rule directory_ok_insert [OF assms(1)])
qed

lemma update_peer_addresses_True:
  assumes "update_peer_addresses X now peers key assigned self networks = (peers', True)"
  obtains n r where "snd key \<noteq> self" and "length assigned \<le> RELAY_MAX_ASSIGNED_ADDRESSES"
    and "find (\<lambda>n. vn_id (jn_network n) = fst key) networks = Some n" and "assigned \<noteq> []"
    and "\<forall>a \<in> set assigned. address_belongs_to_network X n a \<and> a \<notin> set (jn_assigned_addresses n)"
    and "\<not> directory_conflict peers key (remdups_adj (sort assigned))"
    and "r = (case hm_get peers key of None \<Rightarrow> peer_route_empty | Some r \<Rightarrow> r)"
    and "peers' = hm_insert key (set_assigned_addresses_at (remdups_adj (sort assigned)) now r) peers"
proof -
  obtain n where n: "find (\<lambda>n. vn_id (jn_network n) = fst key) networks = Some n"
    using assms by (auto simp: update_peer_addresses_def split: if_splits option.splits)
  show thesis
    using assms n sort_dedup_set [of assigned]
    by (intro that [OF _ _ n _ _ _ refl]) (auto simp: update_peer_addresses_def Let_def list_ex_iff split: if_splits)
qed

lemma update_peer_addresses_False:
  "update_peer_addresses X now peers key assigned self networks = (peers', False) \<Longrightarrow> peers' = peers"
  by (auto simp: update_peer_addresses_def Let_def split: if_splits option.splits)

lemma length_remdups_adj_sort: "length (remdups_adj (sort xs)) \<le> length (xs :: ip_addr list)"
  by (metis length_sort remdups_adj_length)

lemma update_peer_membership_ok:
  assumes "directory_ok X self networks peers"
    and "update_peer_membership X now peers c self networks = (peers', result)"
  shows "directory_ok X self networks peers'"
proof -
  let ?key = "(mcl_network_id (mc_claims c), mcl_device_id (mc_claims c))"
  let ?as = "mcl_assigned_addresses (mc_claims c)"
  obtain mid b where mid: "update_peer_addresses X now peers ?key ?as self networks = (mid, b)" by force
  show ?thesis
  proof (cases "b \<and> length (mcl_device_public_key (mc_claims c)) = 32")
    case False
    then have "peers' = peers"
      using assms(2) mid update_peer_addresses_False [of X now peers ?key ?as self networks mid]
      by (cases b) (auto simp: update_peer_membership_def Let_def split: if_splits)
    then show ?thesis using assms(1) by simp
  next
    case True
    then have len: "length (mcl_device_public_key (mc_claims c)) = 32"
      and upd: "update_peer_addresses X now peers ?key ?as self networks = (mid, True)" using mid by simp_all
    from upd show ?thesis
    proof (rule update_peer_addresses_True)
      fix n r
      let ?addrs = "remdups_adj (sort ?as)"
      let ?r = "set_assigned_addresses_at ?addrs now r\<lparr>pro_device_public_key := mcl_device_public_key (mc_claims c)\<rparr>"
      assume n: "snd ?key \<noteq> self" "length ?as \<le> RELAY_MAX_ASSIGNED_ADDRESSES"
        "find (\<lambda>n. vn_id (jn_network n) = fst ?key) networks = Some n"
        "\<forall>a \<in> set ?as. address_belongs_to_network X n a \<and> a \<notin> set (jn_assigned_addresses n)"
        and free: "\<not> directory_conflict peers ?key ?addrs"
        and r: "r = (case hm_get peers ?key of None \<Rightarrow> peer_route_empty | Some r \<Rightarrow> r)"
        and mid': "mid = hm_insert ?key (set_assigned_addresses_at ?addrs now r) peers"
      have "route_ok r"
        using directory_okD(3) [OF assms(1)] unfolding r
        by (auto simp: entry_ok_def route_ok_def peer_route_empty_def route_endpoints_def split: option.split)
      then have "route_ok ?r" using len by (simp add: route_ok_def route_endpoints_def set_assigned_addresses_at_def)
      moreover have "length ?addrs \<le> RELAY_MAX_ASSIGNED_ADDRESSES"
        using length_remdups_adj_sort [of ?as] n(2) by (rule order_trans)
      ultimately have "entry_ok X self networks ?key ?r"
        using n unfolding entry_ok_def set_assigned_addresses_at_def by simp
      moreover have "agent_table.disjoint (hm_insert ?key ?r peers)"
        by (rule agent_table.disjoint_insert [OF directory_okD(1,2) [OF assms(1)]])
          (use free in \<open>simp add: set_assigned_addresses_at_def\<close>)
      moreover have "peers' = hm_insert ?key ?r peers"
        using assms(2) upd len by (simp add: update_peer_membership_def Let_def mid')
      ultimately show ?thesis using directory_ok_insert [OF assms(1)] by simp
    qed
  qed
qed

text \<open>
  What the agent does to its directory: it installs a verified membership, learns an endpoint, updates a
  route, and drops peers of networks it left.
\<close>

inductive directory_step ::
  "'x pool_ops_scheme \<Rightarrow> device_id \<Rightarrow> joined_network list \<Rightarrow> peer_directory \<Rightarrow> peer_directory \<Rightarrow> bool"
  for X :: "'x pool_ops_scheme" and self :: device_id and networks :: "joined_network list" where
  membership: "directory_step X self networks peers (fst (update_peer_membership X now peers c self networks))"
| learn: "hm_get peers k = None \<Longrightarrow> directory_step X self networks peers (hm_insert k (peer_route_new e) peers)"
| learn_more: "hm_get peers k = Some r \<Longrightarrow> directory_step X self networks peers (hm_insert k (add_candidate e r) peers)"
| expire: "hm_get peers k = Some r \<Longrightarrow> directory_step X self networks peers (hm_insert k (expire_directory now r) peers)"
| probe: "hm_get peers k = Some r \<Longrightarrow> directory_step X self networks peers (hm_insert k (mark_probe_sent e now r) peers)"
| success: "hm_get peers k = Some r \<Longrightarrow> directory_step X self networks peers (hm_insert k (fst (mark_success e now r)) peers)"
| probes: "hm_get peers k = Some r \<Longrightarrow> directory_step X self networks peers (hm_insert k (expire_probes now r) peers)"
| forget: "directory_step X self networks peers (hm_retain P peers)"

inductive directory_reachable ::
  "'x pool_ops_scheme \<Rightarrow> device_id \<Rightarrow> joined_network list \<Rightarrow> peer_directory \<Rightarrow> bool"
  for X :: "'x pool_ops_scheme" and self :: device_id and networks :: "joined_network list" where
  start: "directory_reachable X self networks []"
| step: "directory_reachable X self networks peers \<Longrightarrow> directory_step X self networks peers peers' \<Longrightarrow>
    directory_reachable X self networks peers'"

lemma directory_step_ok:
  assumes "directory_step X self networks peers peers'" and "directory_ok X self networks peers"
  shows "directory_ok X self networks peers'"
  using assms(1)
proof cases
  case (membership now c)
  then show ?thesis using update_peer_membership_ok [OF assms(2)] by (metis prod.collapse)
next
  case (learn k e)
  then show ?thesis
    using directory_ok_new [OF assms(2) learn(2), of "peer_route_new e"]
    by (simp add: peer_route_new_def peer_route_empty_def route_ok_def route_endpoints_def)
qed (simp_all add: directory_ok_update [OF assms(2)] directory_ok_retain [OF assms(2)] route_updates_kept)

lemma directory_reachable_ok: "directory_reachable X self networks peers \<Longrightarrow> directory_ok X self networks peers"
proof (induction rule: directory_reachable.induct)
  case start
  then show ?case by (simp add: directory_ok_def agent_table.disjoint_Nil)
qed (rule directory_step_ok)

text \<open>
  The directory of a device. In every directory the agent can build, the virtual addresses of a peer belong to the
  prefixes of its network, are not the device's own and are not those of another peer of the network; a
  peer has at most 16 addresses and at most 16 endpoint candidates, all different, and a key of 32 bytes if any; and
  the device never lists itself with addresses.
\<close>

theorem peer_directory_addresses_unique:
  assumes "directory_reachable X self networks peers" and "hm_get peers k = Some r"
  shows "length (pro_assigned_addresses r) \<le> 16 \<and> length (pro_candidates r) \<le> 16 \<and> distinct (route_endpoints r)
    \<and> (pro_device_public_key r = [] \<or> length (pro_device_public_key r) = 32)
    \<and> (\<forall>a \<in> set (pro_assigned_addresses r). snd k \<noteq> self
         \<and> (\<exists>n \<in> set networks. vn_id (jn_network n) = fst k \<and> address_belongs_to_network X n a
              \<and> a \<notin> set (jn_assigned_addresses n))
         \<and> (\<forall>k' r'. hm_get peers k' = Some r' \<longrightarrow> fst k' = fst k \<longrightarrow> a \<in> set (pro_assigned_addresses r') \<longrightarrow> k' = k))"
proof -
  note ok = directory_reachable_ok [OF assms(1)]
  have e: "entry_ok X self networks k r" by (rule directory_okD(3) [OF ok assms(2)])
  have "snd k \<noteq> self \<and> (\<exists>n \<in> set networks. vn_id (jn_network n) = fst k \<and> address_belongs_to_network X n a
      \<and> a \<notin> set (jn_assigned_addresses n))" if "a \<in> set (pro_assigned_addresses r)" for a
  proof -
    have "pro_assigned_addresses r \<noteq> []" using that by auto
    then have self: "snd k \<noteq> self" and "\<exists>n. find (\<lambda>n. vn_id (jn_network n) = fst k) networks = Some n
        \<and> (\<forall>a \<in> set (pro_assigned_addresses r). address_belongs_to_network X n a \<and> a \<notin> set (jn_assigned_addresses n))"
      using e by (simp_all add: entry_ok_def)
    then obtain n where n: "find (\<lambda>n. vn_id (jn_network n) = fst k) networks = Some n"
      and addrs: "\<forall>a \<in> set (pro_assigned_addresses r). address_belongs_to_network X n a \<and> a \<notin> set (jn_assigned_addresses n)"
      by blast
    show ?thesis using self find_SomeD [OF n] bspec [OF addrs that] by (intro conjI bexI [of _ n]) simp_all
  qed
  moreover have "k' = k" if "hm_get peers k' = Some r'" "fst k' = fst k" "a \<in> set (pro_assigned_addresses r)"
    "a \<in> set (pro_assigned_addresses r')" for k' r' a
    using agent_table.disjointD [OF directory_okD(2) [OF ok] that(1) assms(2) that(2)] that(3,4) by blast
  ultimately show ?thesis using e by (simp add: entry_ok_def route_ok_def RELAY_MAX_ASSIGNED_ADDRESSES_def)
qed

section \<open>Measured endpoints\<close>

lemma min_by_key_Some: "min_by_key f xs = Some y \<Longrightarrow> y \<in> set xs \<and> (\<forall>x \<in> set xs. f y \<le> f x)"
proof (induction xs arbitrary: y)
  case (Cons a xs)
  show ?case
  proof (cases "min_by_key f xs")
    case None
    then have "xs = []" by (cases xs) (auto split: option.splits if_splits)
    then show ?thesis using Cons.prems by simp
  next
    case (Some z)
    then show ?thesis using Cons.prems Cons.IH [OF Some] by (cases "f a \<le> f z") auto
  qed
qed simp

lemma min_by_key_None: "min_by_key f xs = None \<longleftrightarrow> xs = []"
  by (cases xs) (auto split: option.splits)

lemma weighted_rtt_between:
  assumes "previous < 2 ^ 64 * 1000" and "sample < 2 ^ 64 * 1000"
  shows "min previous sample \<le> weighted_rtt previous sample + 2000 \<and> weighted_rtt previous sample \<le> max previous sample"
proof -
  define p s m where "p = previous div 1000" and "s = sample div 1000" and "m = (p * 7 + s) div 8"
  have p: "p * 1000 \<le> previous" "previous < p * 1000 + 1000" and s: "s * 1000 \<le> sample" "sample < s * 1000 + 1000"
    using dividend_less_div_times [of 1000 previous] dividend_less_div_times [of 1000 sample]
    by (simp_all add: p_def s_def)
  have less: "p < 2 ^ 64" "s < 2 ^ 64" using assms by (simp_all add: p_def s_def less_mult_imp_div_less)
  have between: "a \<le> m" if "8 * a \<le> p * 7 + s" for a using div_le_mono [OF that, of 8] by (simp add: m_def)
  have below: "m \<le> a" if "p * 7 + s \<le> 8 * a" for a using div_le_mono [OF that, of 8] by (simp add: m_def)
  have m: "(p \<le> m \<and> m \<le> s) \<or> (s \<le> m \<and> m \<le> p)"
    using between [of p] between [of s] below [of p] below [of s] by linarith
  then have "m < 2 ^ 64" using less by linarith
  then have "m \<le> 2 ^ 64 - 1" by simp
  then have "weighted_rtt previous sample = m * 1000"
    by (simp add: weighted_rtt_def p_def [symmetric] s_def [symmetric] m_def [symmetric] Let_def min_absorb1)
  then show ?thesis using p s m by linarith
qed

text \<open>
  The endpoint used for direct traffic to a peer is one of its candidates that answered within the last 45
  seconds, with the least score among those; there is one whenever a candidate answered in that time. The
  score's round-trip time is smoothed: a new value lies between the old one and the sample, up to a microsecond.
\<close>

theorem best_endpoint_is_fresh_minimum:
  "(case best_endpoint now r of
      None \<Rightarrow> \<forall>c \<in> set (pro_candidates r). \<forall>seen. pcd_last_seen c = Some seen \<longrightarrow> now - seen \<ge> 45 * nanoseconds
    | Some e \<Rightarrow> \<exists>c \<in> set (pro_candidates r). pcd_endpoint c = e
        \<and> (\<exists>seen. pcd_last_seen c = Some seen \<and> now - seen < 45 * nanoseconds)
        \<and> (\<forall>c' \<in> set (pro_candidates r). \<forall>seen. pcd_last_seen c' = Some seen \<longrightarrow> now - seen < 45 * nanoseconds
             \<longrightarrow> candidate_score c \<le> candidate_score c'))
   \<and> (previous < 2 ^ 64 * 1000 \<longrightarrow> sample < 2 ^ 64 * 1000 \<longrightarrow>
        min previous sample \<le> weighted_rtt previous sample + 2000 \<and> weighted_rtt previous sample \<le> max previous sample)"
proof
  let ?fresh = "\<lambda>c. case pcd_last_seen c of None \<Rightarrow> False | Some seen \<Rightarrow> now - seen < 45 * nanoseconds"
  show "case best_endpoint now r of
      None \<Rightarrow> \<forall>c \<in> set (pro_candidates r). \<forall>seen. pcd_last_seen c = Some seen \<longrightarrow> now - seen \<ge> 45 * nanoseconds
    | Some e \<Rightarrow> \<exists>c \<in> set (pro_candidates r). pcd_endpoint c = e
        \<and> (\<exists>seen. pcd_last_seen c = Some seen \<and> now - seen < 45 * nanoseconds)
        \<and> (\<forall>c' \<in> set (pro_candidates r). \<forall>seen. pcd_last_seen c' = Some seen \<longrightarrow> now - seen < 45 * nanoseconds
             \<longrightarrow> candidate_score c \<le> candidate_score c')"
  proof (cases "min_by_key candidate_score (filter ?fresh (pro_candidates r))")
    case None
    then have "filter ?fresh (pro_candidates r) = []" by (simp add: min_by_key_None)
    then show ?thesis
      using None by (auto simp: best_endpoint_def best_candidate_def filter_empty_conv not_less)
  next
    case (Some c)
    note best = min_by_key_Some [OF Some]
    have "c \<in> set (pro_candidates r)" "?fresh c" using best by auto
    moreover have "candidate_score c \<le> candidate_score c'"
      if "c' \<in> set (pro_candidates r)" "pcd_last_seen c' = Some seen" "now - seen < 45 * nanoseconds" for c' seen
      using best that by auto
    moreover have "best_endpoint now r = Some (pcd_endpoint c)" using Some by (simp add: best_endpoint_def best_candidate_def)
    ultimately show ?thesis by (auto split: option.splits)
  qed
  show "previous < 2 ^ 64 * 1000 \<longrightarrow> sample < 2 ^ 64 * 1000 \<longrightarrow>
      min previous sample \<le> weighted_rtt previous sample + 2000 \<and> weighted_rtt previous sample \<le> max previous sample"
    by (intro impI weighted_rtt_between)
qed

section \<open>Handshakes are seen once\<close>

definition handshake_cache_run :: "(peer_key \<times> bytes \<times> nat) list \<Rightarrow> handshake_cache" where
  "handshake_cache_run events =
     fold (\<lambda>(peer, session_id, now) seen. fst (record_session_handshake seen peer session_id now)) events []"

definition cache_ok :: "handshake_cache \<Rightarrow> bool" where
  "cache_ok seen \<longleftrightarrow> hm_ok seen \<and> length seen \<le> MAX_HANDSHAKE_REPLAY_ENTRIES"

lemma length_hm_remove: "hm_get m k \<noteq> None \<Longrightarrow> length (hm_remove k m) < length m"
proof -
  assume "hm_get m k \<noteq> None"
  then have "k \<in> fst ` set m" by (auto simp: hm_get_def map_of_eq_None_iff)
  then obtain v where "(k, v) \<in> set m" by auto
  then have "length (filter (\<lambda>(k', _). k \<noteq> k') m) < length m" by (rule length_filter_less) simp
  then show ?thesis by (simp add: hm_remove_def AList.delete_eq)
qed

lemma record_cache_ok:
  assumes "cache_ok seen"
  shows "cache_ok (fst (record_session_handshake seen peer session_id now))"
proof -
  let ?kept = "hm_retain (\<lambda>_ recorded. now - recorded \<le> HANDSHAKE_REPLAY_TTL) seen" and ?k = "(peer, session_id)"
  let ?f = "\<lambda>(_, recorded). now - recorded"
  have kept: "hm_ok ?kept" "length ?kept \<le> MAX_HANDSHAKE_REPLAY_ENTRIES"
    using assms length_hm_retain [of _ seen] by (simp_all add: cache_ok_def le_trans [OF length_hm_retain])
  have "cache_ok (hm_insert ?k now ?kept)" if "length ?kept < MAX_HANDSHAKE_REPLAY_ENTRIES"
    using that kept by (simp add: cache_ok_def length_hm_insert)
  moreover have "cache_ok (hm_insert ?k now (hm_remove oldest ?kept))"
    if "max_by_key ?f ?kept = Some (oldest, t)" for oldest t
  proof -
    have "hm_get ?kept oldest \<noteq> None" using max_by_key_Some [OF that] kept(1) by (auto simp: hm_in_set_iff)
    then have "length (hm_remove oldest ?kept) < MAX_HANDSHAKE_REPLAY_ENTRIES" using length_hm_remove kept(2) by fastforce
    then show ?thesis using kept(1) by (simp add: cache_ok_def length_hm_insert)
  qed
  moreover have "?kept \<noteq> []" if "MAX_HANDSHAKE_REPLAY_ENTRIES \<le> length ?kept"
    using that by (auto simp: MAX_HANDSHAKE_REPLAY_ENTRIES_def)
  ultimately show ?thesis
    using kept
    by (auto simp: record_session_handshake_def Let_def max_by_key_None cache_ok_def split: option.split)
qed

lemma handshake_cache_run_ok: "cache_ok (handshake_cache_run events)"
proof -
  have "cache_ok seen \<Longrightarrow> cache_ok (fold (\<lambda>(peer, session_id, now) seen.
      fst (record_session_handshake seen peer session_id now)) events seen)" for seen
    by (induction events arbitrary: seen) (auto simp: record_cache_ok)
  then show ?thesis by (simp add: handshake_cache_run_def cache_ok_def)
qed

text \<open>
  The cache of session handshakes never holds more than 16384 entries. A handshake is let through exactly when
  no entry of the last five minutes names its peer and session, and once recorded it is refused for the next five
  minutes as long as nothing else is recorded.
\<close>

theorem handshake_seen_once:
  assumes "record_session_handshake (handshake_cache_run events) peer session_id now = (seen, accepted)"
  shows "length seen \<le> 16384
    \<and> (accepted \<longleftrightarrow> \<not> (\<exists>t. hm_get (handshake_cache_run events) (peer, session_id) = Some t \<and> now - t \<le> HANDSHAKE_REPLAY_TTL))
    \<and> (accepted \<longrightarrow> later - now \<le> HANDSHAKE_REPLAY_TTL \<longrightarrow> \<not> snd (record_session_handshake seen peer session_id later))"
proof -
  let ?run = "handshake_cache_run events"
  have ok: "hm_ok ?run" using handshake_cache_run_ok by (simp add: cache_ok_def)
  have "cache_ok seen" using record_cache_ok [OF handshake_cache_run_ok [of events], of peer session_id now] assms by simp
  then have seen: "hm_ok seen" "length seen \<le> 16384" by (simp_all add: cache_ok_def MAX_HANDSHAKE_REPLAY_ENTRIES_def)
  have acc: "accepted \<longleftrightarrow> hm_get (hm_retain (\<lambda>_ t. now - t \<le> HANDSHAKE_REPLAY_TTL) ?run) (peer, session_id) = None"
    using assms by (auto simp: record_session_handshake_def Let_def split: if_splits)
  have "hm_get seen (peer, session_id) = Some now" if accepted
    using assms that by (auto simp: record_session_handshake_def Let_def split: if_splits)
  then have "\<not> snd (record_session_handshake seen peer session_id later)" if accepted "later - now \<le> HANDSHAKE_REPLAY_TTL"
    using that seen(1) by (simp add: record_session_handshake_def Let_def hm_get_retain)
  then show ?thesis using seen(2) acc ok by (auto simp: hm_get_retain split: option.splits)
qed

section \<open>From the sender to the receiver\<close>

text \<open>Two devices of one network that hold the same description and the same manifests.\<close>

definition same_control :: "joined_network \<Rightarrow> joined_network \<Rightarrow> bool" where
  "same_control n n' \<longleftrightarrow> jn_network n' = jn_network n
     \<and> ncp_policy_manifest (jn_control_plane n') = ncp_policy_manifest (jn_control_plane n)
     \<and> ncp_authorization_manifest (jn_control_plane n') = ncp_authorization_manifest (jn_control_plane n)
     \<and> ncp_pinned_controller_public_key (jn_control_plane n') = ncp_pinned_controller_public_key (jn_control_plane n)"

lemma same_control_simps:
  assumes "same_control n n'"
  shows "policy_gateway X clock n' a = policy_gateway X clock n a"
    and "exit_candidate_is_current clock n' d a = exit_candidate_is_current clock n d a"
    and "is_group_destination X n' a = is_group_destination X n a"
    and "address_belongs_to_network X n' a = address_belongs_to_network X n a"
proof -
  have m: "manifests_current n' p au now = manifests_current n p au now"
    "gateway_certificate_current n' au now c = gateway_certificate_current n au now c" for p au now c
    using assms by (simp_all add: same_control_def manifests_current_def gateway_certificate_current_def)
  have r: "route_candidate X n' au now a = route_candidate X n au now a" for au now
    by (rule ext) (simp add: route_candidate_def m Let_def cong: option.case_cong)
  show "policy_gateway X clock n' a = policy_gateway X clock n a"
    using assms unfolding policy_gateway_def m r same_control_def by simp
  show "exit_candidate_is_current clock n' d a = exit_candidate_is_current clock n d a"
    using assms unfolding exit_candidate_is_current_def m same_control_def by simp
  show "is_group_destination X n' a = is_group_destination X n a"
    "address_belongs_to_network X n' a = address_belongs_to_network X n a"
    using assms by (cases a; simp add: same_control_def)+
qed

lemma selected_exit_gateway_current:
  "selected_exit_gateway clock n a = Some g \<Longrightarrow> exit_candidate_is_current clock n g a"
  by (auto simp: selected_exit_gateway_def Let_def split: option.splits if_splits)

text \<open>A route chosen for a packet of the device itself, seen by the receiver.\<close>

lemma direct_route_accepted:
  assumes "direct_route X clock n dst = Some r" and "same_control n n'"
    and "case onr_gateway r of None \<Rightarrow> is_group_destination X n dst \<or> dst \<in> set (jn_assigned_addresses n') | Some g \<Rightarrow> g = local"
  shows "is_group_destination X n' dst \<or> dst \<in> set (jn_assigned_addresses n') \<or> local_device_is_gateway_for X clock n' local dst"
proof (cases "onr_gateway r")
  case None
  then show ?thesis using assms(3) same_control_simps(3) [OF assms(2)] by auto
next
  case (Some g)
  have g: "g = local" using assms(3) Some by simp
  have "local_device_is_gateway_for X clock n' local dst"
    using direct_route_SomeD [OF assms(1)] Some
    unfolding local_device_is_gateway_for_def local_device_is_exit_gateway_for_def same_control_simps [OF assms(2)] g
    by (auto dest: selected_exit_gateway_current)
  then show ?thesis by simp
qed

text \<open>
  C26: A packet that a device sends from its own address is accepted by every peer it is sent to. The receiver holds
  the same network description and manifests, has the addresses the sender's directory lists for it, and
  lists the sender with the packet's source address; then the check of received packets lets the packet
  through, whether it was sent directly, to a group address, through a policy gateway or through an exit.
\<close>

theorem routed_packet_is_accepted:
  assumes "outbound_route_for_ip_packet X clock networks local packet = Some r"
    and "packet_addresses packet = Some (src, dst)" and "src \<in> set (jn_assigned_addresses (onr_network r))"
    and "(device, route) \<in> set (peer_targets_for_packet X peers (onr_network r) (onr_gateway r) packet)"
    and "device \<noteq> uuid_nil" and "same_control (onr_network r) n"
    and "set (pro_assigned_addresses route) \<subseteq> set (jn_assigned_addresses n)"
    and "src \<in> set (pro_assigned_addresses source_route)"
  shows "packet_is_authorized_for_delivery X clock n local source_route device device packet"
proof -
  obtain m where m: "direct_route X clock m dst = Some r" "onr_network r = m"
    using assms(1)
  proof (cases rule: outbound_route_cases)
    case (own src' dst' m)
    then show thesis using assms(2) direct_route_SomeD [OF own(3)] that by simp
  next
    case (forwarded src' dst' m l)
    have "length (jn_network_key m) = 32" using forwarded(4) by (auto simp: gateway_return_def split: if_splits)
    then have "m \<in> set (filter (\<lambda>n. length (jn_network_key n) = 32 \<and> src' \<in> set (jn_assigned_addresses n)) networks)"
      using forwarded(1,3,5) assms(2,3) by simp
    then show thesis using forwarded(2) by simp
  qed
  have "case onr_gateway r of
      None \<Rightarrow> is_group_destination X (onr_network r) dst \<or> dst \<in> set (pro_assigned_addresses route) | Some g \<Rightarrow> g = device"
    using assms(2,4)
    by (auto simp: peer_targets_for_packet_def in_set_map_filter_iff split: if_splits option.split)
  then have "case onr_gateway r of
      None \<Rightarrow> is_group_destination X m dst \<or> dst \<in> set (jn_assigned_addresses n) | Some g \<Rightarrow> g = device"
    using assms(7) m(2) by (auto split: option.splits)
  then have "is_group_destination X n dst \<or> dst \<in> set (jn_assigned_addresses n)
      \<or> local_device_is_gateway_for X clock n device dst"
    using assms(6) m by (intro direct_route_accepted) simp_all
  then show ?thesis using assms(2,5,8) by (simp add: packet_is_authorized_for_delivery_def Let_def)
qed

section \<open>A sample directory\<close>

definition sample_peer_certificate :: membership_certificate where
  "sample_peer_certificate = sample_certificate\<lparr>mc_claims := sample_claims\<lparr>mcl_device_id := 1,
     mcl_assigned_addresses := [V4 0x64400002]\<rparr>\<rparr>"

definition sample_directory :: peer_directory where
  "sample_directory = fst (update_peer_membership sample_dp 7 [] sample_peer_certificate 2 [sample_joined])"

definition sample_peer_route :: peer_route where
  "sample_peer_route = \<lparr>pro_candidates = [], pro_assigned_addresses = [V4 0x64400002],
     pro_device_public_key = replicate 32 4, pro_directory_last_seen = Some 7\<rparr>"

lemma sample_directory_entry: "sample_directory = [((5, 1), sample_peer_route)]"
proof -
  have "address_belongs_to_network sample_dp sample_joined (V4 0x64400002)"
    by (simp add: sample_joined_def sample_dp_def const_policy_simps pool_ops.defs drop_bit_eq_div)
  then have "update_peer_addresses sample_dp 7 [] (5, 1) [V4 0x64400002] 2 [sample_joined]
      = ([((5, 1), set_assigned_addresses_at [V4 0x64400002] 7 peer_route_empty)], True)"
    by (simp add: update_peer_addresses_def RELAY_MAX_ASSIGNED_ADDRESSES_def directory_conflict_def hm_insert_def)
      (simp add: sample_joined_def)
  then show ?thesis
    by (simp add: sample_directory_def update_peer_membership_def sample_peer_certificate_def sample_certificate_def
        sample_claims_def hm_insert_def hm_get_def peer_route_empty_def set_assigned_addresses_at_def
        sample_peer_route_def)
qed

theorem peer_directory_addresses_unique_witness:
  "length (pro_assigned_addresses sample_peer_route) \<le> 16 \<and> pro_assigned_addresses sample_peer_route = [V4 0x64400002]"
proof -
  have "directory_reachable sample_dp 2 [sample_joined] sample_directory"
    unfolding sample_directory_def by (rule directory_reachable.step [OF directory_reachable.start directory_step.membership])
  moreover have "hm_get sample_directory (5, 1) = Some sample_peer_route" by (simp add: sample_directory_entry hm_get_def)
  ultimately show ?thesis
    using peer_directory_addresses_unique [of sample_dp 2 "[sample_joined]" sample_directory "(5, 1)" sample_peer_route]
    by (simp add: sample_peer_route_def)
qed

theorem best_endpoint_is_fresh_minimum_witness:
  "best_endpoint 5 (fst (mark_success (SocketV4 9 9) 4 (peer_route_new (SocketV4 9 9)))) = Some (SocketV4 9 9)
   \<and> weighted_rtt 8000 16000 = 9000"
proof -
  let ?r = "fst (mark_success (SocketV4 9 9) 4 (peer_route_new (SocketV4 9 9)))"
  have "weighted_rtt 8000 16000 = 9000" by (simp add: weighted_rtt_def)
  moreover have r: "pro_candidates ?r = [(peer_candidate_new (SocketV4 9 9))\<lparr>pcd_last_seen := Some 4\<rparr>]"
    by (simp add: mark_success_def peer_route_new_def peer_route_empty_def peer_candidate_new_def candidate_success_def)
  have "best_endpoint 5 ?r = Some (SocketV4 9 9)"
    using best_endpoint_is_fresh_minimum [where now = 5 and r = ?r and previous = 8000 and sample = 16000]
    by (auto simp: r peer_candidate_new_def nanoseconds_def split: option.splits)
  ultimately show ?thesis by simp
qed

theorem handshake_seen_once_witness:
  "\<exists>seen. record_session_handshake (handshake_cache_run []) (5, 1) [3] 10 = (seen, True)
     \<and> \<not> snd (record_session_handshake seen (5, 1) [3] 20)"
proof -
  have "record_session_handshake (handshake_cache_run []) (5, 1) [3] 10 = ([(((5, 1), [3]), 10)], True)"
    by (simp add: record_session_handshake_def handshake_cache_run_def hm_retain_def hm_insert_def Let_def
        MAX_HANDSHAKE_REPLAY_ENTRIES_def)
  with handshake_seen_once [OF this, of 20] show ?thesis by (simp add: HANDSHAKE_REPLAY_TTL_def nanoseconds_def)
qed

theorem routed_packet_is_accepted_witness:
  "packet_is_authorized_for_delivery sample_dp (Some 300) (sample_joined\<lparr>jn_assigned_addresses := [V4 0x64400002]\<rparr>) 2
     (peer_route_empty\<lparr>pro_assigned_addresses := [V4 0x64400003]\<rparr>) 1 1 sample_packet"
proof -
  have "outbound_route_for_ip_packet sample_dp (Some 300) [sample_joined] 2 sample_packet
     = Some \<lparr>onr_network = sample_joined, onr_gateway = Some 1\<rparr>" by (rule sample_outbound)
  moreover have "(1, sample_peer_route) \<in> set (peer_targets_for_packet sample_dp sample_directory sample_joined (Some 1) sample_packet)"
    by (simp add: peer_targets_for_packet_def sample_packet_addresses sample_directory_entry map_filter_simps)
      (simp add: sample_joined_def sample_peer_route_def)
  ultimately show ?thesis
    by (intro routed_packet_is_accepted [where route = sample_peer_route and peers = sample_directory])
      (auto simp: sample_packet_addresses same_control_def sample_peer_route_def, simp add: sample_joined_def)
qed

end
