(* ===== verification/Transport_Health.thy ===== *)
theory Transport_Health
  imports Peer_Directory
begin

text \<open>
  Registration schedules and the health of endpoints (\<^verbatim>\<open>crates/meshlaked/src/transport_health.rs\<close>): when a device
  registers again with a root or a relay, which endpoints are alive for which network, and which relay is used.
  Instants and durations are in nanoseconds. The theorems bound the retry delay, show that registrations are at least
  20 seconds apart, and that liveness is kept per network.
\<close>

section \<open>Text of a socket address\<close>

text \<open>
  \<^verbatim>\<open>Display\<close> of the standard library: decimal octets for IPv4; for IPv6 the hexadecimal segments with the first
  longest run of two or more zero segments written as a double colon, and mapped IPv4 addresses in dotted form.
\<close>

fun show_base :: "nat \<Rightarrow> nat \<Rightarrow> string" where
  "show_base b n = (if b < 2 \<or> n < b then [if n < 10 then char_of (48 + n) else char_of (87 + n)]
     else show_base b (n div b) @ [let d = n mod b in if d < 10 then char_of (48 + d) else char_of (87 + d)])"

declare show_base.simps [simp del]

fun join_with :: "string \<Rightarrow> string list \<Rightarrow> string" where
  "join_with sep [] = []"
| "join_with sep [x] = x"
| "join_with sep (x # y # ys) = x @ sep @ join_with sep (y # ys)"

definition show_ipv4 :: "ipv4_addr \<Rightarrow> string" where
  "show_ipv4 a = join_with ''.'' (map (\<lambda>i. show_base 10 (ipv4_octet i a)) [0, 1, 2, 3])"

definition ipv6_segments :: "ipv6_addr \<Rightarrow> nat list" where
  "ipv6_segments a = map (\<lambda>i. (unat a div 65536 ^ (7 - i)) mod 65536) [0..<8]"

text \<open>Start and length of the longest run of zeros: the span found so far, the current one, and the position.\<close>

fun zero_span :: "nat \<times> nat \<Rightarrow> nat \<times> nat \<Rightarrow> nat \<Rightarrow> nat list \<Rightarrow> nat \<times> nat" where
  "zero_span longest current i [] = longest"
| "zero_span longest current i (s # ss) =
     (if s = 0 then
        let current = (if snd current = 0 then i else fst current, Suc (snd current))
        in zero_span (if snd current > snd longest then current else longest) current (Suc i) ss
      else zero_span longest (0, 0) (Suc i) ss)"

definition show_ipv6 :: "ipv6_addr \<Rightarrow> string" where
  "show_ipv6 a =
     (let segments = ipv6_segments a;
          hex = (\<lambda>ss. join_with '':'' (map (show_base 16) ss))
      in if take 6 segments = [0, 0, 0, 0, 0, 65535]
         then ''::ffff:'' @ show_ipv4 (of_nat (unat a mod 2 ^ 32))
         else let (start, len) = zero_span (0, 0) (0, 0) 0 segments
              in if len > 1 then hex (take start segments) @ ''::'' @ hex (drop (start + len) segments)
                 else hex segments)"

fun show_socket_addr :: "socket_addr \<Rightarrow> string" where
  "show_socket_addr (SocketV4 ip port) = show_ipv4 ip @ '':'' @ show_base 10 (unat port)"
| "show_socket_addr (SocketV6 ip port flow scope) =
     ''['' @ show_ipv6 ip @ (if scope = 0 then [] else ''%'' @ show_base 10 (unat scope)) @ '']:''
       @ show_base 10 (unat port)"

section \<open>Retry delays\<close>

definition RELAY_ACKNOWLEDGEMENT_TTL :: nat where "RELAY_ACKNOWLEDGEMENT_TTL = 45 * nanoseconds"
definition ROOT_RESPONSE_TTL :: nat where "ROOT_RESPONSE_TTL = 90 * nanoseconds"
definition REGISTRATION_BASE_DELAY_SECS :: u64 where "REGISTRATION_BASE_DELAY_SECS = 20"
definition REGISTRATION_MAX_DELAY_SECS :: u64 where "REGISTRATION_MAX_DELAY_SECS = 120"

definition saturating_mul :: "u64 \<Rightarrow> u64 \<Rightarrow> u64" where
  "saturating_mul a b = (if unat a * unat b < 2 ^ 64 then a * b else - 1)"

text \<open>One round of the FNV-1a hash.\<close>

definition fnv_step :: "u8 \<Rightarrow> u64 \<Rightarrow> u64" where
  "fnv_step byte hash = (hash XOR of_nat (unat byte)) * 0x100000001b3"

definition registration_retry_delay :: "bytes \<Rightarrow> u8 \<Rightarrow> nat" where
  "registration_retry_delay seed failures =
     (let exponent = min (unat failures) 3;
          base_seconds = min (saturating_mul REGISTRATION_BASE_DELAY_SECS (2 ^ exponent)) REGISTRATION_MAX_DELAY_SECS;
          hash = fold fnv_step seed (0xcbf29ce484222325 XOR of_nat (unat failures));
          jitter_limit = max (base_seconds div 4) 1
      in unat (min (saturating_add base_seconds (hash mod (jitter_limit + 1))) REGISTRATION_MAX_DELAY_SECS) * nanoseconds)"

datatype registration_service_kind = Root | Relay

record registration_target =
  rtg_network_id :: network_id
  rtg_endpoint :: socket_addr
  rtg_kind :: registration_service_kind

record registration_schedule =
  rsc_seed :: bytes
  rsc_consecutive_failures :: u8
  rsc_awaiting_since :: "nat option"
  rsc_next_attempt :: nat
  rsc_last_delay :: nat

definition registration_seed :: "device_id \<Rightarrow> registration_target \<Rightarrow> bytes" where
  "registration_seed device target =
     u64_to_be (fold fnv_step (u128_to_be device @ u128_to_be (rtg_network_id target)
       @ ascii (show_socket_addr (rtg_endpoint target))
       @ [case rtg_kind target of Root \<Rightarrow> 1 | Relay \<Rightarrow> 2]) 0xcbf29ce484222325)"

definition schedule_new :: "device_id \<Rightarrow> registration_target \<Rightarrow> nat \<Rightarrow> registration_schedule" where
  "schedule_new device target now = \<lparr>rsc_seed = registration_seed device target, rsc_consecutive_failures = 0,
     rsc_awaiting_since = None, rsc_next_attempt = now, rsc_last_delay = 0\<rparr>"

definition is_due :: "nat \<Rightarrow> registration_schedule \<Rightarrow> bool" where
  "is_due now s \<longleftrightarrow> rsc_awaiting_since s = None \<and> now \<ge> rsc_next_attempt s"

definition mark_sent :: "nat \<Rightarrow> registration_schedule \<Rightarrow> registration_schedule" where
  "mark_sent now s = s\<lparr>rsc_awaiting_since := Some now\<rparr>"

definition schedule_next :: "nat \<Rightarrow> registration_schedule \<Rightarrow> registration_schedule" where
  "schedule_next now s =
     (let delay = registration_retry_delay (rsc_seed s) (rsc_consecutive_failures s)
      in s\<lparr>rsc_last_delay := delay, rsc_next_attempt := now + delay\<rparr>)"

definition mark_send_failure :: "nat \<Rightarrow> registration_schedule \<Rightarrow> registration_schedule" where
  "mark_send_failure now s = schedule_next now
     (s\<lparr>rsc_awaiting_since := None, rsc_consecutive_failures := saturating_add (rsc_consecutive_failures s) 1\<rparr>)"

definition expire_if_timed_out :: "nat \<Rightarrow> nat \<Rightarrow> registration_schedule \<Rightarrow> registration_schedule \<times> bool" where
  "expire_if_timed_out now timeout s =
     (case rsc_awaiting_since s of
        None \<Rightarrow> (s, False)
      | Some sent \<Rightarrow> if now - sent < timeout then (s, False) else (mark_send_failure now s, True))"

definition registration_success :: "nat \<Rightarrow> registration_schedule \<Rightarrow> registration_schedule" where
  "registration_success now s = schedule_next now (s\<lparr>rsc_awaiting_since := None, rsc_consecutive_failures := 0\<rparr>)"

section \<open>Health of endpoints\<close>

type_synonym network_endpoint = "network_id \<times> socket_addr"

record endpoint_health =
  eh_relay_acknowledgements :: "(network_endpoint, nat) hash_map"
  eh_root_responses :: "(network_endpoint, nat) hash_map"

definition endpoint_health_default :: endpoint_health where
  "endpoint_health_default = \<lparr>eh_relay_acknowledgements = [], eh_root_responses = []\<rparr>"

definition mark_relay_acknowledged :: "network_id \<Rightarrow> socket_addr \<Rightarrow> nat \<Rightarrow> endpoint_health \<Rightarrow> endpoint_health" where
  "mark_relay_acknowledged n e now h =
     h\<lparr>eh_relay_acknowledgements := hm_insert (n, e) now (eh_relay_acknowledgements h)\<rparr>"

definition mark_root_responsive :: "network_id \<Rightarrow> socket_addr \<Rightarrow> nat \<Rightarrow> endpoint_health \<Rightarrow> endpoint_health" where
  "mark_root_responsive n e now h = h\<lparr>eh_root_responses := hm_insert (n, e) now (eh_root_responses h)\<rparr>"

definition relay_is_healthy :: "endpoint_health \<Rightarrow> nat \<Rightarrow> network_id \<Rightarrow> socket_addr \<Rightarrow> bool" where
  "relay_is_healthy h now n e =
     (case hm_get (eh_relay_acknowledgements h) (n, e) of
        None \<Rightarrow> False | Some seen \<Rightarrow> now - seen < RELAY_ACKNOWLEDGEMENT_TTL)"

definition root_is_responsive :: "endpoint_health \<Rightarrow> nat \<Rightarrow> network_id \<Rightarrow> socket_addr \<Rightarrow> bool" where
  "root_is_responsive h now n e =
     (case hm_get (eh_root_responses h) (n, e) of None \<Rightarrow> False | Some seen \<Rightarrow> now - seen < ROOT_RESPONSE_TTL)"

fun endpoint_requirements ::
  "(network_id \<times> socket_addr) list \<Rightarrow> (socket_addr, network_id list) hash_map \<Rightarrow> (socket_addr, network_id list) hash_map" where
  "endpoint_requirements [] reqs = reqs"
| "endpoint_requirements ((n, e) # rest) reqs =
     (let networks = (case hm_get reqs e of None \<Rightarrow> [] | Some ns \<Rightarrow> ns);
          networks = (if n \<in> set networks then networks else networks @ [n])
      in endpoint_requirements rest (hm_insert e networks reqs))"

definition aggregate_configured_endpoints ::
  "(network_id \<times> socket_addr) list \<Rightarrow> (network_id \<Rightarrow> socket_addr \<Rightarrow> bool) \<Rightarrow> socket_addr list" where
  "aggregate_configured_endpoints configured is_healthy =
     map fst (filter (\<lambda>(e, networks). list_all (\<lambda>n. is_healthy n e) networks) (endpoint_requirements configured []))"

definition healthy_relay_endpoints :: "endpoint_health \<Rightarrow> (network_id \<times> socket_addr) list \<Rightarrow> nat \<Rightarrow> socket_addr list" where
  "healthy_relay_endpoints h configured now = aggregate_configured_endpoints configured (relay_is_healthy h now)"

definition responsive_root_endpoints :: "endpoint_health \<Rightarrow> (network_id \<times> socket_addr) list \<Rightarrow> nat \<Rightarrow> socket_addr list" where
  "responsive_root_endpoints h configured now = aggregate_configured_endpoints configured (root_is_responsive h now)"

definition select_relay_endpoint ::
  "network_id \<Rightarrow> socket_addr list \<Rightarrow> endpoint_health \<Rightarrow> nat \<Rightarrow> bool \<Rightarrow> socket_addr option" where
  "select_relay_endpoint n configured h now require_authenticated =
     (case find (\<lambda>e. relay_is_healthy h now n e) configured of
        Some e \<Rightarrow> Some e
      | None \<Rightarrow> if require_authenticated then None else (case configured of [] \<Rightarrow> None | e # _ \<Rightarrow> Some e))"

section \<open>Properties\<close>

lemma saturating_mul_20: "e \<le> 3 \<Longrightarrow> saturating_mul 20 (2 ^ e) = of_nat (20 * 2 ^ e)"
  by (auto simp: saturating_mul_def le_Suc_eq numeral_3_eq_3)
lemma unat_min: "unat (min a b :: u64) = min (unat a) (unat b)"
  by (simp add: min_def word_le_nat_alt)

lemma unat_mod_less: "0 < b \<Longrightarrow> unat (a mod b :: u64) < unat b"
  by (simp add: unat_mod_distrib unat_gt_0 word_neq_0_conv)

lemma delay_value:
  fixes b x :: u64
  assumes "b \<le> 120" and "unat x \<le> j" and "j \<le> 30"
  shows "unat b \<le> unat (min (saturating_add b x) 120)" and "unat (min (saturating_add b x) 120) \<le> min (unat b + j) 120"
proof -
  have b: "unat b \<le> 120" using assms(1) by (simp add: word_le_nat_alt)
  have "unat (saturating_add b x) = unat b + unat x"
    using b assms(2,3) by (simp add: unat_saturating_add min_def)
  then have "unat (min (saturating_add b x) 120) = min (unat b + unat x) 120" by (simp add: unat_min)
  then show "unat b \<le> unat (min (saturating_add b x) 120)" "unat (min (saturating_add b x) 120) \<le> min (unat b + j) 120"
    using b assms(2) by simp_all
qed

definition base_delay :: "u8 \<Rightarrow> nat" where
  "base_delay failures = min (20 * 2 ^ min (unat failures) 3) 120"

lemma retry_delay_between:
  "base_delay failures * nanoseconds \<le> registration_retry_delay seed failures
   \<and> registration_retry_delay seed failures \<le> min (base_delay failures + base_delay failures div 4) 120 * nanoseconds"
proof -
  define e where "e = min (unat failures) 3"
  define base where "base = min (saturating_mul REGISTRATION_BASE_DELAY_SECS (2 ^ e)) REGISTRATION_MAX_DELAY_SECS"
  define hash where "hash = fold fnv_step seed (0xcbf29ce484222325 XOR of_nat (unat failures))"
  have "e = 0 \<or> e = 1 \<or> e = 2 \<or> e = 3" by (auto simp: e_def min_def)
  then have b: "unat base = base_delay failures" "base \<le> 120" and j: "unat (max (base div 4) 1) = base_delay failures div 4"
    "base_delay failures div 4 \<le> 30" "0 < max (base div 4) 1 + 1"
    unfolding base_def base_delay_def e_def [symmetric]
    by (auto simp: saturating_mul_def REGISTRATION_BASE_DELAY_SECS_def REGISTRATION_MAX_DELAY_SECS_def)
  have "unat (max (base div 4) 1 + 1) = base_delay failures div 4 + 1"
    using j by (simp add: unat_word_ariths(1))
  then have "unat (hash mod (max (base div 4) 1 + 1)) \<le> base_delay failures div 4"
    using unat_mod_less [OF j(3), of hash] by linarith
  from delay_value [OF b(2) this j(2)] b(1) have
    "base_delay failures \<le> unat (min (saturating_add base (hash mod (max (base div 4) 1 + 1))) 120)
     \<and> unat (min (saturating_add base (hash mod (max (base div 4) 1 + 1))) 120)
       \<le> min (base_delay failures + base_delay failures div 4) 120" by simp
  moreover have "registration_retry_delay seed failures =
      unat (min (saturating_add base (hash mod (max (base div 4) 1 + 1))) 120) * nanoseconds"
    unfolding registration_retry_delay_def Let_def e_def base_def hash_def REGISTRATION_MAX_DELAY_SECS_def by (rule refl)
  ultimately show ?thesis by (simp add: mult_le_mono1)
qed

text \<open>
  The delay before the next registration doubles from 20 seconds with each failure in a row, up to three, is
  lengthened by at most a quarter, and never exceeds 120 seconds, whatever the seed.
\<close>

theorem registration_delay_bounds:
  "base_delay failures * nanoseconds \<le> registration_retry_delay seed failures
   \<and> registration_retry_delay seed failures \<le> min (base_delay failures + base_delay failures div 4) 120 * nanoseconds
   \<and> 20 \<le> base_delay failures \<and> base_delay failures \<le> 120"
proof -
  have "20 \<le> (20::nat) * 2 ^ n" for n by (simp add: mult_le_mono)
  then show ?thesis using retry_delay_between [of failures seed] by (simp add: base_delay_def)
qed

text \<open>What can happen to a schedule between two registrations.\<close>

datatype schedule_event = Acknowledged nat | SendFailed nat | TimeoutCheck nat nat

fun event_time :: "schedule_event \<Rightarrow> nat" where
  "event_time (Acknowledged t) = t"
| "event_time (SendFailed t) = t"
| "event_time (TimeoutCheck t d) = t"

fun schedule_event_apply :: "schedule_event \<Rightarrow> registration_schedule \<Rightarrow> registration_schedule" where
  "schedule_event_apply (Acknowledged t) s = registration_success t s"
| "schedule_event_apply (SendFailed t) s = mark_send_failure t s"
| "schedule_event_apply (TimeoutCheck t d) s = fst (expire_if_timed_out t d s)"

lemma schedule_next_attempt:
  "rsc_next_attempt (schedule_next now s) \<ge> now + 20 * nanoseconds"
  "rsc_awaiting_since (schedule_next now s) = rsc_awaiting_since s"
proof -
  have "20 * nanoseconds \<le> registration_retry_delay (rsc_seed s) (rsc_consecutive_failures s)"
    using retry_delay_between [of "rsc_consecutive_failures s" "rsc_seed s"]
    by (rule order_trans [rotated, OF conjunct1]) (simp add: base_delay_def)
  then show "rsc_next_attempt (schedule_next now s) \<ge> now + 20 * nanoseconds" by (simp add: schedule_next_def Let_def)
  show "rsc_awaiting_since (schedule_next now s) = rsc_awaiting_since s" by (simp add: schedule_next_def Let_def)
qed

definition spaced :: "nat \<Rightarrow> registration_schedule \<Rightarrow> bool" where
  "spaced t s \<longleftrightarrow> rsc_awaiting_since s \<noteq> None \<or> rsc_next_attempt s \<ge> t + 20 * nanoseconds"

lemma schedule_event_spaced:
  assumes "spaced t s" and "t \<le> event_time ev"
  shows "spaced t (schedule_event_apply ev s)"
proof -
  have next_ok: "spaced t (schedule_next now q)" if "t \<le> now" for now q
    using schedule_next_attempt(1) [of now q] that by (simp add: spaced_def)
  show ?thesis
    using assms next_ok
    by (cases ev) (auto simp: registration_success_def mark_send_failure_def expire_if_timed_out_def split: option.split)
qed

text \<open>
  Two registrations with one service are at least 20 seconds apart: after a registration is sent, whatever
  acknowledgements, failures and timeouts follow, the schedule is not due again for 20 seconds. While an answer is
  awaited it is not due at all.
\<close>

theorem registrations_are_spaced:
  assumes "\<forall>ev \<in> set events. sent \<le> event_time ev"
    and "is_due now (fold schedule_event_apply events (mark_sent sent s))"
  shows "now \<ge> sent + 20 * nanoseconds \<and> \<not> is_due later (mark_sent sent s)"
proof -
  have "spaced sent q \<Longrightarrow> \<forall>ev \<in> set events. sent \<le> event_time ev \<Longrightarrow> spaced sent (fold schedule_event_apply events q)" for q
    by (induction events arbitrary: q) (simp_all add: schedule_event_spaced)
  then have "spaced sent (fold schedule_event_apply events (mark_sent sent s))"
    using assms(1) by (simp add: spaced_def mark_sent_def)
  then show ?thesis using assms(2) by (simp add: spaced_def is_due_def mark_sent_def)
qed

theorem registrations_are_spaced_witness:
  "30 * nanoseconds \<ge> 5 * nanoseconds + 20 * nanoseconds
   \<and> \<not> is_due (500 * nanoseconds)
       (mark_sent (5 * nanoseconds) (schedule_new 1 \<lparr>rtg_network_id = 2, rtg_endpoint = SocketV4 3 4, rtg_kind = Relay\<rparr> 0))"
proof -
  define s where "s = schedule_new 1 \<lparr>rtg_network_id = 2, rtg_endpoint = SocketV4 3 4, rtg_kind = Relay\<rparr> 0"
  have "registration_retry_delay (rsc_seed s) 0 \<le> 25 * nanoseconds"
    using retry_delay_between [of 0 "rsc_seed s"] by (simp add: base_delay_def)
  then have "is_due (30 * nanoseconds) (fold schedule_event_apply [Acknowledged (5 * nanoseconds)] (mark_sent (5 * nanoseconds) s))"
    by (simp add: is_due_def registration_success_def schedule_next_def Let_def mark_sent_def)
  then show ?thesis
    unfolding s_def by (rule registrations_are_spaced [rotated]) simp
qed

section \<open>Health is kept per network\<close>

definition networks_of :: "(socket_addr, network_id list) hash_map \<Rightarrow> socket_addr \<Rightarrow> network_id set" where
  "networks_of m e = (case hm_get m e of None \<Rightarrow> {} | Some ns \<Rightarrow> set ns)"

lemma endpoint_requirements_spec:
  "networks_of (endpoint_requirements configured reqs) e = networks_of reqs e \<union> {n. (n, e) \<in> set configured}"
  "hm_get (endpoint_requirements configured reqs) e \<noteq> None \<longleftrightarrow> hm_get reqs e \<noteq> None \<or> e \<in> snd ` set configured"
  "hm_ok reqs \<Longrightarrow> hm_ok (endpoint_requirements configured reqs)"
proof (induction configured reqs rule: endpoint_requirements.induct)
  case (2 n e' rest reqs)
  { case 1 show ?case using "2.IH"(1) [OF refl refl] by (auto simp: networks_of_def Let_def split: option.splits)
  next case 2 show ?case using "2.IH"(2) [OF refl refl] by (auto simp: Let_def)
  next case 3 then show ?case using "2.IH"(3) [OF refl refl] by (simp add: Let_def) }
qed simp_all

lemma aggregate_configured_iff:
  "e \<in> set (aggregate_configured_endpoints configured healthy) \<longleftrightarrow>
     e \<in> snd ` set configured \<and> (\<forall>n. (n, e) \<in> set configured \<longrightarrow> healthy n e)"
proof -
  define m where "m = endpoint_requirements configured []"
  have ok: "hm_ok m" unfolding m_def by (rule endpoint_requirements_spec(3)) simp
  have "e \<in> set (aggregate_configured_endpoints configured healthy) \<longleftrightarrow>
      (\<exists>ns. hm_get m e = Some ns \<and> (\<forall>n \<in> set ns. healthy n e))"
    unfolding aggregate_configured_endpoints_def m_def [symmetric]
    by (force simp: hm_in_set_iff [OF ok] list_all_iff image_iff)
  also have "\<dots> \<longleftrightarrow> hm_get m e \<noteq> None \<and> (\<forall>n \<in> networks_of m e. healthy n e)"
    by (auto simp: networks_of_def)
  finally show ?thesis
    unfolding m_def endpoint_requirements_spec(1,2) by (simp add: networks_of_def)
qed

lemma find_first_split:
  "find P xs = Some x \<longleftrightarrow> (\<exists>before after. xs = before @ x # after \<and> P x \<and> (\<forall>y \<in> set before. \<not> P y))"
proof (induction xs)
  case (Cons a xs)
  show ?case
  proof (cases "P a")
    case True
    then show ?thesis by (auto simp: Cons_eq_append_conv)
  next
    case False
    then have "(\<exists>before after. a # xs = before @ x # after \<and> P x \<and> (\<forall>y \<in> set before. \<not> P y)) \<longleftrightarrow>
        (\<exists>before after. xs = before @ x # after \<and> P x \<and> (\<forall>y \<in> set before. \<not> P y))"
      by (auto simp: Cons_eq_append_conv) (metis set_ConsD)
    with False Cons.IH show ?thesis by simp
  qed
qed simp

lemma relay_health_of_network:
  "relay_is_healthy (mark_relay_acknowledged n e seen h) now n' e' =
     (if (n', e') = (n, e) then now - seen < RELAY_ACKNOWLEDGEMENT_TTL else relay_is_healthy h now n' e')"
  by (simp add: relay_is_healthy_def mark_relay_acknowledged_def)

text \<open>
  The relay used for a network is the first of its Planet's list that acknowledged a registration for that same
  network within 45 seconds; without one it is the first of the list, or none when an authenticated relay is required.
  The status list names a shared endpoint exactly when it is healthy for every network configured on it, and an
  acknowledgement for one network makes an endpoint healthy for no other network.
\<close>

theorem relay_health_is_per_network:
  "(select_relay_endpoint n configured h now required = Some e \<longleftrightarrow>
      (\<exists>before after. configured = before @ e # after \<and> relay_is_healthy h now n e
         \<and> (\<forall>x \<in> set before. \<not> relay_is_healthy h now n x))
      \<or> (\<not> required \<and> (\<forall>x \<in> set configured. \<not> relay_is_healthy h now n x) \<and> configured \<noteq> [] \<and> hd configured = e))
   \<and> (e \<in> set (healthy_relay_endpoints h all now) \<longleftrightarrow>
        e \<in> snd ` set all \<and> (\<forall>m. (m, e) \<in> set all \<longrightarrow> relay_is_healthy h now m e))
   \<and> (n \<noteq> m \<longrightarrow> relay_is_healthy (mark_relay_acknowledged m x seen h) now n e = relay_is_healthy h now n e)"
proof (intro conjI impI)
  show "select_relay_endpoint n configured h now required = Some e \<longleftrightarrow>
      (\<exists>before after. configured = before @ e # after \<and> relay_is_healthy h now n e
         \<and> (\<forall>x \<in> set before. \<not> relay_is_healthy h now n x))
      \<or> (\<not> required \<and> (\<forall>x \<in> set configured. \<not> relay_is_healthy h now n x) \<and> configured \<noteq> [] \<and> hd configured = e)"
  proof (cases "find (relay_is_healthy h now n) configured")
    case None
    moreover from None have "\<forall>x \<in> set configured. \<not> relay_is_healthy h now n x" by (auto simp: find_None_iff)
    ultimately show ?thesis
      by (auto simp: select_relay_endpoint_def neq_Nil_conv split: list.split)
  next
    case (Some e')
    then show ?thesis
      using find_first_split [of "relay_is_healthy h now n" configured e]
        find_first_split [of "relay_is_healthy h now n" configured e']
      by (auto simp: select_relay_endpoint_def)
  qed
qed (simp_all add: healthy_relay_endpoints_def aggregate_configured_iff relay_health_of_network)

theorem relay_health_is_per_network_witness:
  "select_relay_endpoint 1 [SocketV4 10 1, SocketV4 20 1, SocketV4 30 1]
      (mark_relay_acknowledged 2 (SocketV4 10 1) 5 (mark_relay_acknowledged 1 (SocketV4 20 1) 5 endpoint_health_default)) 6 True
     = Some (SocketV4 20 1)
   \<and> SocketV4 10 1 \<notin> set (healthy_relay_endpoints
       (mark_relay_acknowledged 2 (SocketV4 10 1) 5 (mark_relay_acknowledged 1 (SocketV4 20 1) 5 endpoint_health_default))
       [(1, SocketV4 10 1), (2, SocketV4 10 1)] 6)"
proof -
  define h where "h = mark_relay_acknowledged 2 (SocketV4 10 1) 5
    (mark_relay_acknowledged 1 (SocketV4 20 1) 5 endpoint_health_default)"
  have healthy: "relay_is_healthy h 6 1 (SocketV4 20 1)" "\<not> relay_is_healthy h 6 1 (SocketV4 10 1)"
    by (simp_all add: h_def relay_is_healthy_def mark_relay_acknowledged_def endpoint_health_default_def
        RELAY_ACKNOWLEDGEMENT_TTL_def nanoseconds_def)
  note per = relay_health_is_per_network [where h = h and now = 6 and n = 1]
  have "select_relay_endpoint 1 [SocketV4 10 1, SocketV4 20 1, SocketV4 30 1] h 6 True = Some (SocketV4 20 1)"
    using per [where configured = "[SocketV4 10 1, SocketV4 20 1, SocketV4 30 1]" and e = "SocketV4 20 1" and required = True]
      healthy by (metis append_Cons append_Nil empty_iff list.set(1) set_ConsD)
  moreover have "SocketV4 10 1 \<notin> set (healthy_relay_endpoints h [(1, SocketV4 10 1), (2, SocketV4 10 1)] 6)"
    using per [where all = "[(1, SocketV4 10 1), (2, SocketV4 10 1)]" and e = "SocketV4 10 1"] healthy by auto
  ultimately show ?thesis by (simp add: h_def)
qed

end
