(* ===== verification/Session_Observability.thy ===== *)
theory Session_Observability
  imports Peer_Directory "HOL-Library.Multiset"
begin

text \<open>
  The registry of session observations that the local API shows (\<^verbatim>\<open>crates/meshlaked/src/session_observability.rs\<close>,
  \<^verbatim>\<open>crates/meshlake-core/src/session_observation.rs\<close>): what is recorded of live sessions, the bounded list of expired
  ones, and the snapshot. Instants are in nanoseconds; a poisoned lock, which aborts the process, is not modelled.
\<close>

section \<open>Data\<close>

definition SESSION_API_SCHEMA_VERSION :: u32 where "SESSION_API_SCHEMA_VERSION = 1"
definition EXPIRED_OBSERVATION_TTL :: nat where "EXPIRED_OBSERVATION_TTL = 300 * nanoseconds"
definition MAX_EXPIRED_OBSERVATIONS :: nat where "MAX_EXPIRED_OBSERVATIONS = 256"

datatype session_state = Pending | Established | Expired

datatype session_path = Unknown | Direct | RelayPath | Turn | TlsRelay

record session_queue_counters =
  sqc_queued_packets :: u64
  sqc_queue_capacity :: u64
  sqc_dropped_packets :: u64

record session_security_counters =
  ssc_handshake_attempts :: u64
  ssc_handshake_retries :: u64
  ssc_encrypted_packets_sent :: u64
  ssc_authenticated_packets_received :: u64
  ssc_rejected_packets_received :: u64

record session_telemetry =
  stm_state :: session_state
  stm_path :: session_path
  stm_started_at :: nat
  stm_queue :: session_queue_counters
  stm_security :: session_security_counters

record stored_observation =
  sto_telemetry :: session_telemetry
  sto_recorded_at :: nat

type_synonym observation_key = "network_id \<times> device_id"

record observation_state =
  obs_transport_revision :: u64
  obs_active :: "(observation_key, stored_observation) hash_map"
  obs_expired :: "(observation_key, stored_observation) hash_map"

record session_observation =
  sob_network_id :: network_id
  sob_peer_device_id :: device_id
  sob_state :: session_state
  sob_path :: session_path
  sob_age_ms :: u64
  sob_queue :: session_queue_counters
  sob_security :: session_security_counters

record session_list =
  sl_schema_version :: u32
  sl_generated_at_unix_ms :: u64
  sl_transport_revision :: u64
  sl_sessions :: "session_observation list"

definition observation_default :: observation_state where
  "observation_default = \<lparr>obs_transport_revision = 0, obs_active = [], obs_expired = []\<rparr>"

section \<open>Operations\<close>

definition obs_reset :: "u64 \<Rightarrow> observation_state \<Rightarrow> observation_state" where
  "obs_reset revision s = s\<lparr>obs_transport_revision := revision, obs_active := [], obs_expired := []\<rparr>"

definition obs_clear_if_revision :: "u64 \<Rightarrow> observation_state \<Rightarrow> observation_state" where
  "obs_clear_if_revision revision s =
     (if obs_transport_revision s = revision then s\<lparr>obs_active := [], obs_expired := []\<rparr> else s)"

definition obs_publish ::
  "u64 \<Rightarrow> observation_key \<Rightarrow> session_telemetry \<Rightarrow> nat \<Rightarrow> observation_state \<Rightarrow> observation_state" where
  "obs_publish revision key telemetry now s =
     (if obs_transport_revision s \<noteq> revision then s
      else s\<lparr>obs_expired := hm_remove key (obs_expired s),
             obs_active := hm_insert key \<lparr>sto_telemetry = telemetry, sto_recorded_at = now\<rparr> (obs_active s)\<rparr>)"

text \<open>The loop of \<^verbatim>\<open>trim_expired\<close>: the oldest entries go until at most 256 are left.\<close>

function trim_expired ::
  "nat \<Rightarrow> (observation_key, stored_observation) hash_map \<Rightarrow> (observation_key, stored_observation) hash_map" where
  "trim_expired now expired =
     (if length expired > MAX_EXPIRED_OBSERVATIONS
      then (case max_by_key (\<lambda>(_, observation). now - sto_recorded_at observation) expired of
              None \<Rightarrow> expired
            | Some (oldest, _) \<Rightarrow> trim_expired now (hm_remove oldest expired))
      else expired)"
  by pat_completeness auto

lemma oldest_removed_shorter:
  assumes "max_by_key f m = Some (k, v)"
  shows "length (hm_remove k m) < length m"
proof -
  have "(k, v) \<in> set m" using max_by_key_Some [OF assms] by simp
  then have "k \<in> fst ` set m" by force
  then have "hm_get m k \<noteq> None" by (simp add: hm_get_def map_of_eq_None_iff)
  then show ?thesis by (rule length_hm_remove)
qed

termination trim_expired
proof (relation "measure (\<lambda>(now, expired). length expired)")
  fix now and expired :: "(observation_key, stored_observation) hash_map" and x2 x y
  assume "max_by_key (\<lambda>(_, observation). now - sto_recorded_at observation) expired = Some x2" and "(x, y) = x2"
  then have "max_by_key (\<lambda>(_, observation). now - sto_recorded_at observation) expired = Some (x, y)" by simp
  then show "((now, hm_remove x expired), now, expired) \<in> measure (\<lambda>(now, expired). length expired)"
    by (simp add: oldest_removed_shorter)
qed simp

declare trim_expired.simps [simp del]

definition obs_expire :: "u64 \<Rightarrow> observation_key \<Rightarrow> nat \<Rightarrow> observation_state \<Rightarrow> observation_state" where
  "obs_expire revision key now s =
     (if obs_transport_revision s \<noteq> revision then s
      else case hm_get (obs_active s) key of
        None \<Rightarrow> s
      | Some observation \<Rightarrow>
          let telemetry = sto_telemetry observation;
              telemetry = telemetry\<lparr>stm_state := Expired, stm_queue := (stm_queue telemetry)\<lparr>sqc_queued_packets := 0\<rparr>\<rparr>;
              expired = hm_insert key \<lparr>sto_telemetry = telemetry, sto_recorded_at = now\<rparr> (obs_expired s)
          in s\<lparr>obs_active := hm_remove key (obs_active s), obs_expired := trim_expired now expired\<rparr>)"

definition obs_remove :: "u64 \<Rightarrow> observation_key \<Rightarrow> observation_state \<Rightarrow> observation_state" where
  "obs_remove revision key s =
     (if obs_transport_revision s \<noteq> revision then s
      else s\<lparr>obs_active := hm_remove key (obs_active s), obs_expired := hm_remove key (obs_expired s)\<rparr>)"

definition session_observation_of :: "nat \<Rightarrow> observation_key \<times> stored_observation \<Rightarrow> session_observation" where
  "session_observation_of now entry =
     (case entry of ((network_id, peer_device_id), observation) \<Rightarrow>
        \<lparr>sob_network_id = network_id, sob_peer_device_id = peer_device_id,
         sob_state = stm_state (sto_telemetry observation), sob_path = stm_path (sto_telemetry observation),
         sob_age_ms = of_nat (min ((now - stm_started_at (sto_telemetry observation)) div 1000000) (2 ^ 64 - 1)),
         sob_queue = stm_queue (sto_telemetry observation), sob_security = stm_security (sto_telemetry observation)\<rparr>)"

text \<open>\<^verbatim>\<open>snapshot\<close> also drops expired observations older than five minutes.\<close>

definition obs_snapshot :: "nat \<Rightarrow> nat \<Rightarrow> observation_state \<Rightarrow> observation_state \<times> session_list" where
  "obs_snapshot unix_ms now s =
     (let s = s\<lparr>obs_expired := hm_retain (\<lambda>_ observation. now - sto_recorded_at observation \<le> EXPIRED_OBSERVATION_TTL)
            (obs_expired s)\<rparr>;
          sessions = map (session_observation_of now) (obs_active s @ obs_expired s)
      in (s, \<lparr>sl_schema_version = SESSION_API_SCHEMA_VERSION, sl_generated_at_unix_ms = of_nat (min unix_ms (2 ^ 64 - 1)),
              sl_transport_revision = obs_transport_revision s,
              sl_sessions = sort_key (\<lambda>x. (sob_network_id x, sob_peer_device_id x)) sessions\<rparr>))"

section \<open>The registry stays bounded and consistent\<close>

lemma trim_expired_spec:
  "length (trim_expired now m) \<le> max MAX_EXPIRED_OBSERVATIONS 0
   \<and> (hm_ok m \<longrightarrow> hm_ok (trim_expired now m))
   \<and> (\<forall>k v. hm_get (trim_expired now m) k = Some v \<longrightarrow> hm_get m k = Some v)
   \<and> (length m \<le> MAX_EXPIRED_OBSERVATIONS \<longrightarrow> trim_expired now m = m)"
proof (induction now m rule: trim_expired.induct)
  case (1 now m)
  show ?case
  proof (cases "length m > MAX_EXPIRED_OBSERVATIONS")
    case False
    then show ?thesis by (simp add: trim_expired.simps [of now m])
  next
    case True
    then obtain k v where kv: "max_by_key (\<lambda>(_, observation). now - sto_recorded_at observation) m = Some (k, v)"
      by (cases "max_by_key (\<lambda>(_, observation). now - sto_recorded_at observation) m") (auto simp: max_by_key_None)
    have eq: "trim_expired now m = trim_expired now (hm_remove k m)"
      using True kv by (subst trim_expired.simps) simp
    note IH = "1.IH" [OF True kv refl]
    have "hm_get m k' = Some x" if "hm_get (hm_remove k m) k' = Some x" for k' x
      using that by (simp split: if_splits)
    with IH True show ?thesis
      unfolding eq by (intro conjI impI allI; (elim conjE)?) (simp_all del: split_paired_All)
  qed
qed

definition observation_ok :: "observation_state \<Rightarrow> bool" where
  "observation_ok s \<longleftrightarrow> hm_ok (obs_active s) \<and> hm_ok (obs_expired s)
     \<and> (\<forall>k. hm_get (obs_active s) k \<noteq> None \<longrightarrow> hm_get (obs_expired s) k = None)
     \<and> length (obs_expired s) \<le> MAX_EXPIRED_OBSERVATIONS
     \<and> (\<forall>k v. hm_get (obs_expired s) k = Some v \<longrightarrow> stm_state (sto_telemetry v) = Expired
          \<and> sqc_queued_packets (stm_queue (sto_telemetry v)) = 0)"

text \<open>What the agent does with the registry.\<close>

datatype observation_event =
    Reset u64
  | Clear u64
  | Publish u64 observation_key session_telemetry nat
  | Expire u64 observation_key nat
  | Remove u64 observation_key
  | Snapshot nat nat

fun observation_apply :: "observation_event \<Rightarrow> observation_state \<Rightarrow> observation_state" where
  "observation_apply (Reset revision) s = obs_reset revision s"
| "observation_apply (Clear revision) s = obs_clear_if_revision revision s"
| "observation_apply (Publish revision key telemetry now) s = obs_publish revision key telemetry now s"
| "observation_apply (Expire revision key now) s = obs_expire revision key now s"
| "observation_apply (Remove revision key) s = obs_remove revision key s"
| "observation_apply (Snapshot unix_ms now) s = fst (obs_snapshot unix_ms now s)"

lemma length_hm_remove_le: "length (hm_remove k m) \<le> length m"
  by (simp add: hm_remove_def length_delete_le)

lemma obs_expire_ok: "observation_ok s \<Longrightarrow> observation_ok (obs_expire revision key now s)"
proof -
  assume ok: "observation_ok s"
  show ?thesis
  proof (cases "obs_transport_revision s \<noteq> revision \<or> hm_get (obs_active s) key = None")
    case True
    then show ?thesis using ok by (auto simp: obs_expire_def)
  next
    case False
    then obtain v where v: "hm_get (obs_active s) key = Some v" and r: "obs_transport_revision s = revision" by auto
    define w where "w = \<lparr>sto_telemetry = (sto_telemetry v)\<lparr>stm_state := Expired,
      stm_queue := (stm_queue (sto_telemetry v))\<lparr>sqc_queued_packets := 0\<rparr>\<rparr>, sto_recorded_at = now\<rparr>"
    define m where "m = hm_insert key w (obs_expired s)"
    have eq: "obs_expire revision key now s =
        s\<lparr>obs_active := hm_remove key (obs_active s), obs_expired := trim_expired now m\<rparr>"
      by (simp add: obs_expire_def v r w_def m_def Let_def)
    have m: "hm_get m k = Some x \<Longrightarrow> k = key \<and> x = w \<or> k \<noteq> key \<and> hm_get (obs_expired s) k = Some x" for k x
      by (auto simp: m_def split: if_splits)
    have trimmed: "hm_get (trim_expired now m) k = Some x \<Longrightarrow> hm_get m k = Some x" for k x
      using trim_expired_spec [of now m] by blast
    have "hm_ok m" using ok by (simp add: m_def observation_ok_def)
    then have bounds: "hm_ok (trim_expired now m)" "length (trim_expired now m) \<le> MAX_EXPIRED_OBSERVATIONS"
      using trim_expired_spec [of now m] \<open>hm_ok m\<close> by simp_all
    have other: "hm_get (trim_expired now m) k = None"
      if "hm_get (hm_remove key (obs_active s)) k \<noteq> None" for k
    proof (rule ccontr)
      assume "hm_get (trim_expired now m) k \<noteq> None"
      then obtain x where "hm_get (trim_expired now m) k = Some x" by blast
      then have "k = key \<or> hm_get (obs_expired s) k = Some x" using trimmed m by blast
      with that ok show False
        by (auto simp: observation_ok_def simp del: split_paired_All not_None_eq split: if_splits)
    qed
    have gone: "stm_state (sto_telemetry x) = Expired \<and> sqc_queued_packets (stm_queue (sto_telemetry x)) = 0"
      if "hm_get (trim_expired now m) k = Some x" for k x
    proof -
      have "x = w \<or> hm_get (obs_expired s) k = Some x" using trimmed [OF that] m by blast
      then show ?thesis using ok by (auto simp: observation_ok_def w_def simp del: split_paired_All)
    qed
    have "hm_ok (obs_active s)" using ok by (simp add: observation_ok_def)
    with bounds other gone show ?thesis unfolding eq observation_ok_def by simp
  qed
qed

lemma observation_apply_ok:
  assumes "observation_ok s"
  shows "observation_ok (observation_apply ev s)"
proof (cases ev)
  case (Publish revision key telemetry now)
  then show ?thesis using assms order_trans [OF length_hm_remove_le, of "obs_expired s" MAX_EXPIRED_OBSERVATIONS key]
    by (auto simp: obs_publish_def observation_ok_def)
next
  case (Remove revision key)
  then show ?thesis using assms order_trans [OF length_hm_remove_le, of "obs_expired s" MAX_EXPIRED_OBSERVATIONS key]
    by (auto simp: obs_remove_def observation_ok_def)
next
  case (Snapshot unix_ms now)
  then show ?thesis using assms order_trans [OF length_hm_retain, of "obs_expired s" MAX_EXPIRED_OBSERVATIONS]
    by (auto simp: obs_snapshot_def Let_def observation_ok_def hm_get_retain split: option.splits if_splits)
next
  case (Expire revision key now)
  then show ?thesis using assms by (simp add: obs_expire_ok)
qed (use assms in \<open>auto simp: obs_reset_def obs_clear_if_revision_def observation_ok_def\<close>)

definition observation_run :: "observation_event list \<Rightarrow> observation_state" where
  "observation_run events = fold observation_apply events observation_default"

lemma observation_run_ok: "observation_ok (observation_run events)"
proof -
  have "observation_ok s \<Longrightarrow> observation_ok (fold observation_apply events s)" for s
    by (induction events arbitrary: s) (simp_all add: observation_apply_ok)
  moreover have "observation_ok observation_default" by (simp add: observation_ok_def observation_default_def)
  ultimately show ?thesis by (simp add: observation_run_def)
qed

abbreviation key_of :: "session_observation \<Rightarrow> observation_key" where
  "key_of x \<equiv> (sob_network_id x, sob_peer_device_id x)"

lemma snapshot_keys:
  assumes "observation_ok s"
  shows "distinct (map key_of (sl_sessions (snd (obs_snapshot unix_ms now s))))"
proof -
  have keys: "map key_of (map (session_observation_of now) xs) = map fst xs" for xs
    by (auto simp: session_observation_of_def)
  define e where "e = hm_retain (\<lambda>_ observation. now - sto_recorded_at observation \<le> EXPIRED_OBSERVATION_TTL) (obs_expired s)"
  have "distinct (map fst (obs_active s @ e))"
  proof -
    have "fst ` set e \<subseteq> fst ` set (obs_expired s)" by (auto simp: e_def hm_retain_def)
    moreover have "fst ` set (obs_active s) \<inter> fst ` set (obs_expired s) = {}"
      using assms by (auto simp: observation_ok_def hm_get_def map_of_eq_None_iff simp del: split_paired_All not_None_eq)
    moreover have "distinct (map fst (obs_active s))" "distinct (map fst e)"
      using assms hm_ok_retain by (simp_all add: observation_ok_def e_def flip: hm_ok_def)
    ultimately show ?thesis by auto
  qed
  then have "distinct (map key_of (map (session_observation_of now) (obs_active s @ e)))"
    by (simp only: keys)
  moreover have same: "mset (map key_of (sl_sessions (snd (obs_snapshot unix_ms now s))))
      = mset (map key_of (map (session_observation_of now) (obs_active s @ e)))"
    by (simp add: obs_snapshot_def Let_def e_def [symmetric] multiset.map_comp)
  ultimately show ?thesis
    by (simp only: mset_eq_imp_distinct_iff [OF same])
qed

text \<open>
  C28: The registry of sessions is bounded and consistent. Whatever the agent does with it, at most 256 expired
  sessions are kept, no peer is listed both as live and as expired, an expired session reports an empty queue, and a
  snapshot lists each peer once, ordered by network and device. An update for a superseded transport revision changes
  nothing.
\<close>

theorem observations_bounded:
  "length (obs_expired (observation_run events)) \<le> 256
   \<and> (\<forall>k. hm_get (obs_active (observation_run events)) k = None \<or> hm_get (obs_expired (observation_run events)) k = None)
   \<and> sorted (map key_of
       (sl_sessions (snd (obs_snapshot unix_ms now (observation_run events)))))
   \<and> distinct (map key_of
       (sl_sessions (snd (obs_snapshot unix_ms now (observation_run events)))))
   \<and> (revision = obs_transport_revision (observation_run events)
      \<or> obs_publish revision key telemetry now (observation_run events) = observation_run events
        \<and> obs_expire revision key now (observation_run events) = observation_run events
        \<and> obs_remove revision key (observation_run events) = observation_run events)"
proof -
  note ok = observation_run_ok [of events]
  have "sorted (map key_of
       (sl_sessions (snd (obs_snapshot unix_ms now (observation_run events)))))"
    by (simp add: obs_snapshot_def Let_def)
  moreover have "length (obs_expired (observation_run events)) \<le> 256"
    using ok by (simp add: observation_ok_def MAX_EXPIRED_OBSERVATIONS_def)
  moreover have "hm_get (obs_active (observation_run events)) k = None \<or> hm_get (obs_expired (observation_run events)) k = None" for k
    using ok unfolding observation_ok_def by metis
  ultimately show ?thesis
    using snapshot_keys [OF ok, of unix_ms now] by (simp add: obs_publish_def obs_expire_def obs_remove_def)
qed

end
