(* ===== verification/Agent_Config.thy ===== *)
theory Agent_Config
  imports Controller_State Transport_Health Session_Observability
begin

text \<open>
  The persisted state of the agent and what is computed from it (\<^verbatim>\<open>crates/meshlaked/src/main.rs\<close>,
  \<^verbatim>\<open>exit_gateway.rs\<close>, \<^verbatim>\<open>adapter/kill_switch.rs\<close>): URLs, the validation of Planet updates, the current authorization, exit
  selections and the plans handed to the platform adapters. \<open>agent_ops\<close> adds the operations of the \<^verbatim>\<open>url\<close>, \<^verbatim>\<open>base64\<close>
  and \<^verbatim>\<open>reqwest\<close> crates and the text parser of socket addresses.
\<close>

section \<open>Errors and operations\<close>

text \<open>
  What an error is made of: a message, the error of another component, or the message of a library. The text that a
  message interpolates is left out. Functions with an \<^verbatim>\<open>anyhow\<close> result fail with a reason; the handlers turn it into
  an \<^verbatim>\<open>ApiError\<close>.
\<close>

datatype agent_reason =
    Message string
  | FromCrypto crypto_error
  | FromPolicy policy_error
  | FromModel model_error
  | FromLibrary

datatype agent_error =
    ABadRequest agent_reason
  | AConflict agent_reason
  | ANotFound agent_reason
  | AInternal agent_reason

record url =
  url_scheme :: string
  url_host :: "string option"
  url_username :: string
  url_password :: "string option"
  url_query :: "string option"
  url_fragment :: "string option"
  url_path :: string
  url_port_or_default :: "u16 option"

record agent_ops = controller_ops +
  url_parse :: "string \<Rightarrow> url option"
  url_set_path :: "string \<Rightarrow> url \<Rightarrow> url"
  url_show :: "url \<Rightarrow> string"
  base64_decode :: "string \<Rightarrow> bytes option"
  pem_certificates :: "string \<Rightarrow> nat option"
  parse_socket_addr :: "string \<Rightarrow> socket_addr option"

abbreviation bad_request :: "string \<Rightarrow> agent_error + 'a" where
  "bad_request m \<equiv> Inl (ABadRequest (Message m))"

abbreviation api_bad_request :: "agent_reason + 'a \<Rightarrow> agent_error + 'a" where
  "api_bad_request \<equiv> map_err ABadRequest"

abbreviation api_internal :: "agent_reason + 'a \<Rightarrow> agent_error + 'a" where
  "api_internal \<equiv> map_err AInternal"

section \<open>URLs and certificates\<close>

fun split_once :: "string \<Rightarrow> string \<Rightarrow> (string \<times> string) option" where
  "split_once sep [] = (if sep = [] then Some ([], []) else None)"
| "split_once sep (c # cs) =
     (if take (length sep) (c # cs) = sep then Some ([], drop (length sep) (c # cs))
      else map_option (\<lambda>(a, b). (c # a, b)) (split_once sep cs))"

definition starts_with :: "string \<Rightarrow> string \<Rightarrow> bool" where
  "starts_with prefix s \<longleftrightarrow> take (length prefix) s = prefix"

definition normalize_http_url :: "'x agent_ops_scheme \<Rightarrow> string \<Rightarrow> string \<Rightarrow> agent_error + string" where
  "normalize_http_url X value description =
     (let value = trim value
      in case split_once ''://'' value of
        None \<Rightarrow> bad_request (description @ '' must start with https:// or http://'')
      | Some (raw_scheme, authority_and_path) \<Rightarrow>
          let raw_authority = takeWhile (\<lambda>c. c \<notin> set ''/?#'') authority_and_path
          in if map to_ascii_lowercase raw_scheme \<notin> {''https'', ''http''} \<or> authority_and_path = []
                \<or> starts_with ''/'' authority_and_path \<or> CHR 0x5C \<in> set value \<or> CHR ''@'' \<in> set raw_authority
             then bad_request (description @ '' must include a valid HTTP authority'')
             else case url_parse X value of
               None \<Rightarrow> Inl (ABadRequest FromLibrary)
             | Some url \<Rightarrow>
                 if url_scheme url \<notin> {''https'', ''http''}
                 then bad_request (description @ '' must start with https:// or http://'')
                 else if url_host url = None then bad_request (description @ '' must include a host'')
                 else if url_username url \<noteq> [] \<or> url_password url \<noteq> None
                 then bad_request (description @ '' must not contain credentials'')
                 else if url_query url \<noteq> None \<or> url_fragment url \<noteq> None
                 then bad_request (description @ '' must not contain a query or fragment'')
                 else
                   let url = (if url_path url \<noteq> [] \<and> last (url_path url) = CHR ''/'' \<and> url_path url \<noteq> ''/''
                         then url_set_path X (trim_end_matches CHR ''/'' (url_path url)) url else url);
                       url = (if url_path url = ''/'' then url_set_path X [] url else url)
                   in Inr (trim_end_matches CHR ''/'' (url_show X url)))"

definition normalize_tls_ca_pem :: "'x agent_ops_scheme \<Rightarrow> string option \<Rightarrow> agent_error + string option" where
  "normalize_tls_ca_pem X value =
     (case value of
        None \<Rightarrow> Inr None
      | Some value \<Rightarrow>
          let value = trim value
          in if value = [] then Inr None
             else if length value > 64 * 1024 then bad_request ''controller TLS CA PEM exceeds the 64 KiB limit''
             else case pem_certificates X value of
               None \<Rightarrow> Inl (ABadRequest FromLibrary)
             | Some certificates \<Rightarrow>
                 if certificates = 0 then bad_request ''controller TLS CA PEM contains no certificates''
                 else Inr (Some (trim value @ [CHR 0x0A])))"

section \<open>State\<close>

definition AGENT_STATE_SCHEMA_VERSION :: u32 where "AGENT_STATE_SCHEMA_VERSION = 4"
definition CERTIFICATE_REFRESH_MARGIN_SECONDS :: u64 where "CERTIFICATE_REFRESH_MARGIN_SECONDS = 300"

record exit_gateway_config =
  egc_network_id :: network_id
  egc_egress_interface :: string
  egc_enable_ipv4 :: bool
  egc_enable_ipv6 :: bool

record persisted_planet =
  ppl_manifest_url :: string
  ppl_controller_url :: string
  ppl_controller_public_key_base64 :: string
  ppl_controller_tls_ca_pem :: "string option"

record persisted_state =
  ps_schema_version :: u32
  ps_device_id :: device_id
  ps_identity_secret_key :: bytes
  ps_networks :: "joined_network list"
  ps_relay_endpoint :: "socket_addr option"
  ps_relay_endpoints :: "socket_addr list"
  ps_upnp_enabled :: bool
  ps_stun_servers :: "string list"
  ps_root_servers :: "planet_root list"
  ps_authorizations :: "(network_id, network_authorization_manifest) hash_map"
  ps_planet :: "persisted_planet option"
  ps_exit_gateways :: "exit_gateway_config list"

definition persisted_state_new :: "device_id \<Rightarrow> bytes \<Rightarrow> persisted_state" where
  "persisted_state_new device secret = \<lparr>ps_schema_version = AGENT_STATE_SCHEMA_VERSION, ps_device_id = device,
     ps_identity_secret_key = secret, ps_networks = [], ps_relay_endpoint = None, ps_relay_endpoints = [],
     ps_upnp_enabled = True, ps_stun_servers = [], ps_root_servers = [], ps_authorizations = [], ps_planet = None,
     ps_exit_gateways = []\<rparr>"

definition identity_signing_key :: "persisted_state \<Rightarrow> bytes option" where
  "identity_signing_key st =
     (if length (ps_identity_secret_key st) = 32 then Some (ps_identity_secret_key st) else None)"

definition no_exit_selection :: exit_node_selection where
  "no_exit_selection = \<lparr>ens_ipv4_gateway = None, ens_ipv6_gateway = None, ens_kill_switch = False\<rparr>"

definition control_plane_default :: network_control_plane where
  "control_plane_default = \<lparr>ncp_controller_url = None, ncp_pinned_controller_public_key = [],
     ncp_controller_tls_ca_pem = None, ncp_planet_manifest_url = None, ncp_planet_manifest_version = None,
     ncp_planet_last_issued_at_unix_seconds = None, ncp_planet_expires_at_unix_seconds = None,
     ncp_planet_semantic_digest = [], ncp_verified_roots = [], ncp_verified_relays = [], ncp_verified_tls_relays = [],
     ncp_verified_turn_servers = [], ncp_verified_stun_servers = [], ncp_authorization_manifest = None,
     ncp_policy_manifest = None, ncp_exit_node_selection = no_exit_selection\<rparr>"

section \<open>Current authorization\<close>

definition pinned_controller_key :: "joined_network \<Rightarrow> bytes" where
  "pinned_controller_key n =
     (if ncp_pinned_controller_public_key (jn_control_plane n) \<noteq> []
      then ncp_pinned_controller_public_key (jn_control_plane n)
      else case jn_certificate n of None \<Rightarrow> [] | Some c \<Rightarrow> mc_controller_public_key c)"

definition verified_authorization_manifest ::
  "'x authz_ops_scheme \<Rightarrow> joined_network \<Rightarrow> u64 \<Rightarrow> network_authorization_manifest option" where
  "verified_authorization_manifest X n now =
     (case ncp_authorization_manifest (jn_control_plane n) of
        None \<Rightarrow> None
      | Some authorization \<Rightarrow>
          if is_ok (authorization_verify_from_controller X authorization (pinned_controller_key n) now)
          then Some authorization else None)"

definition peer_certificate_is_authorized ::
  "'x authz_ops_scheme \<Rightarrow> joined_network \<Rightarrow> membership_certificate \<Rightarrow> u64 \<Rightarrow> bool" where
  "peer_certificate_is_authorized X n certificate now =
     (case verified_authorization_manifest X n now of
        None \<Rightarrow> False | Some authorization \<Rightarrow> authorizes authorization certificate)"

definition local_network_is_authorized :: "'x authz_ops_scheme \<Rightarrow> joined_network \<Rightarrow> u64 \<Rightarrow> bool" where
  "local_network_is_authorized X n now =
     (case jn_certificate n of
        None \<Rightarrow> False
      | Some certificate \<Rightarrow>
          (case verified_authorization_manifest X n now of
             None \<Rightarrow> False | Some authorization \<Rightarrow> authorizes authorization certificate))"

text \<open>\<^verbatim>\<open>validate_turn_credential\<close>.\<close>

definition validate_turn_credential :: "u64 \<Rightarrow> turn_credential \<Rightarrow> agent_error + unit" where
  "validate_turn_credential now c =
     (if tc_version c \<noteq> 1 \<or> tc_username c = [] \<or> length (tc_username c) > 512 \<or> tc_password c = []
         \<or> length (tc_password c) > 1024 \<or> list_ex is_ascii_control (tc_username c @ tc_password c)
      then bad_request ''TURN credential is malformed''
      else if tc_expires_at_unix_seconds c \<le> saturating_add now 30
      then bad_request ''TURN credential is expired or too close to expiry''
      else Inr ())"

section \<open>Planet updates\<close>

record verified_planet_update =
  vpu_version :: u8
  vpu_issued_at_unix_seconds :: u64
  vpu_expires_at_unix_seconds :: "u64 option"
  vpu_semantic_digest :: bytes
  vpu_controller_url :: string
  vpu_roots :: "planet_root list"
  vpu_relays :: "planet_relay list"
  vpu_tls_relays :: "planet_tls_relay list"
  vpu_turn_servers :: "planet_turn_server list"
  vpu_stun_servers :: "string list"

definition validate_planet_acceptance_metadata ::
  "network_control_plane \<Rightarrow> u8 option \<Rightarrow> u64 option \<Rightarrow> bytes \<Rightarrow> agent_error + unit" where
  "validate_planet_acceptance_metadata current candidate_version candidate_issued_at candidate_semantic_digest =
     (if ncp_planet_semantic_digest current \<noteq> [] \<and> length (ncp_planet_semantic_digest current) \<noteq> 32
      then bad_request ''persisted Planet semantic digest has an invalid length''
      else case ncp_planet_manifest_version current of
        None \<Rightarrow> Inr ()
      | Some previous_version \<Rightarrow>
          (case candidate_version of
             None \<Rightarrow> bad_request ''Planet manifest version rollback was rejected''
           | Some candidate_version \<Rightarrow>
               if length candidate_semantic_digest \<noteq> 32
               then bad_request ''candidate Planet semantic digest has an invalid length''
               else if candidate_version < previous_version
               then bad_request ''Planet manifest version rollback was rejected''
               else case ncp_planet_last_issued_at_unix_seconds current of
                 None \<Rightarrow> Inr ()
               | Some previous_issued_at \<Rightarrow>
                   (case candidate_issued_at of
                      None \<Rightarrow> bad_request ''Planet manifest issued_at rollback was rejected''
                    | Some candidate_issued_at \<Rightarrow>
                        if candidate_issued_at < previous_issued_at
                        then bad_request ''Planet manifest issued_at rollback was rejected''
                        else if candidate_version = previous_version \<and> candidate_issued_at = previous_issued_at
                                \<and> ncp_planet_semantic_digest current \<noteq> []
                                \<and> ncp_planet_semantic_digest current \<noteq> candidate_semantic_digest
                        then bad_request ''Planet manifest changed semantics without advancing issued_at''
                        else Inr ())))"

definition turn_server_key :: "planet_turn_server \<Rightarrow> u16 \<times> socket_addr \<times> u8" where
  "turn_server_key s = (pts_priority s, pts_endpoint s, turn_transport_u8 (pts_transport s))"

text \<open>Trimmed, nonempty and at most eight STUN servers, as three handlers collect them.\<close>

definition trimmed_servers :: "string list \<Rightarrow> string list" where
  "trimmed_servers servers = take 8 (filter (\<lambda>s. s \<noteq> []) (map trim servers))"

definition validate_planet_update ::
  "'x agent_ops_scheme \<Rightarrow> network_control_plane \<Rightarrow> planet_manifest \<Rightarrow> bytes \<Rightarrow> string option \<Rightarrow> u64
     \<Rightarrow> agent_error + verified_planet_update" where
  "validate_planet_update X current manifest pinned_key expected_controller_url now =
     rbind (map_err (\<lambda>e. ABadRequest (FromCrypto e)) (planet_verify_from_controller X manifest pinned_key now)) (\<lambda>_.
     rbind (normalize_http_url X (pm_controller_url manifest) ''Planet controller URL'') (\<lambda>controller_url.
     rbind (case expected_controller_url of
              None \<Rightarrow> Inr ()
            | Some expected \<Rightarrow>
                rbind (normalize_http_url X expected ''network controller URL'') (\<lambda>expected.
                  if controller_url \<noteq> expected
                  then bad_request ''Planet controller URL does not match the enrolled controller URL''
                  else Inr ())) (\<lambda>_.
     rbind (map_err (\<lambda>e. ABadRequest (FromCrypto e)) (semantic_digest X manifest)) (\<lambda>digest.
     rbind (validate_planet_acceptance_metadata current (Some (pm_version manifest))
              (Some (pm_issued_at_unix_seconds manifest)) digest) (\<lambda>_.
       let relays = sort_key prl_priority (pm_relays manifest);
           relays = (if relays = []
             then [\<lparr>prl_endpoint = pm_relay_endpoint manifest, prl_priority = 0, prl_identity = None\<rparr>] else relays)
       in Inr \<lparr>vpu_version = pm_version manifest, vpu_issued_at_unix_seconds = pm_issued_at_unix_seconds manifest,
            vpu_expires_at_unix_seconds = pm_expires_at_unix_seconds manifest, vpu_semantic_digest = digest,
            vpu_controller_url = controller_url, vpu_roots = sort_key pr_priority (pm_roots manifest),
            vpu_relays = relays, vpu_tls_relays = sort_key ptr_priority (pm_tls_relays manifest),
            vpu_turn_servers = sort_key turn_server_key (pm_turn_servers manifest),
            vpu_stun_servers = remdups_adj (sort (trimmed_servers (pm_stun_servers manifest)))\<rparr>)))))"

definition updated_control_plane ::
  "network_control_plane \<Rightarrow> string option \<Rightarrow> verified_planet_update \<Rightarrow> network_control_plane" where
  "updated_control_plane cp manifest_url update = cp\<lparr>
     ncp_planet_manifest_url := manifest_url, ncp_planet_manifest_version := Some (vpu_version update),
     ncp_planet_last_issued_at_unix_seconds := Some (vpu_issued_at_unix_seconds update),
     ncp_planet_expires_at_unix_seconds := vpu_expires_at_unix_seconds update,
     ncp_planet_semantic_digest := vpu_semantic_digest update, ncp_controller_url := Some (vpu_controller_url update),
     ncp_verified_roots := vpu_roots update, ncp_verified_relays := vpu_relays update,
     ncp_verified_tls_relays := vpu_tls_relays update, ncp_verified_turn_servers := vpu_turn_servers update,
     ncp_verified_stun_servers := vpu_stun_servers update\<rparr>"

text \<open>The control plane after an update, and whether any of the fields that it writes changed.\<close>

definition apply_planet_update ::
  "network_control_plane \<Rightarrow> string option \<Rightarrow> verified_planet_update \<Rightarrow> network_control_plane \<times> bool" where
  "apply_planet_update cp manifest_url update =
     (let changed = (ncp_planet_manifest_url cp \<noteq> manifest_url
            \<or> ncp_planet_manifest_version cp \<noteq> Some (vpu_version update)
            \<or> ncp_planet_last_issued_at_unix_seconds cp \<noteq> Some (vpu_issued_at_unix_seconds update)
            \<or> ncp_planet_expires_at_unix_seconds cp \<noteq> vpu_expires_at_unix_seconds update
            \<or> ncp_planet_semantic_digest cp \<noteq> vpu_semantic_digest update
            \<or> ncp_controller_url cp \<noteq> Some (vpu_controller_url update)
            \<or> ncp_verified_roots cp \<noteq> vpu_roots update
            \<or> ncp_verified_relays cp \<noteq> vpu_relays update
            \<or> ncp_verified_tls_relays cp \<noteq> vpu_tls_relays update
            \<or> ncp_verified_turn_servers cp \<noteq> vpu_turn_servers update
            \<or> ncp_verified_stun_servers cp \<noteq> vpu_stun_servers update)
      in (updated_control_plane cp manifest_url update, changed))"

definition apply_configured_planet_update ::
  "network_control_plane \<Rightarrow> string \<Rightarrow> string option \<Rightarrow> verified_planet_update \<Rightarrow> network_control_plane \<times> bool" where
  "apply_configured_planet_update cp manifest_url tls_ca_pem update =
     (let ca_changed = (ncp_controller_tls_ca_pem cp \<noteq> tls_ca_pem);
          (cp', manifest_changed) =
            apply_planet_update (cp\<lparr>ncp_controller_tls_ca_pem := tls_ca_pem\<rparr>) (Some manifest_url) update
      in (cp', ca_changed \<or> manifest_changed))"

section \<open>Sample operations\<close>

text \<open>The operations on which the witnesses about the agent evaluate.\<close>

definition sample_url :: url where
  "sample_url = \<lparr>url_scheme = ''https'', url_host = Some ''c'', url_username = [], url_password = None, url_query = None,
     url_fragment = None, url_path = ''/'', url_port_or_default = Some 443\<rparr>"

definition sample_agent_ops :: agent_ops where
  "sample_agent_ops = controller_ops.extend (pool_ops.extend sample_dp (controller_ops.fields
       (\<lambda>s. Some (of_nat (length s))) (\<lambda>u. replicate (unat u) CHR ''a'') (\<lambda>_. ''b'') (\<lambda>_ _. Some []) (\<lambda>base _. base)))
     (agent_ops.fields (\<lambda>s. if s = ''https://c'' then Some sample_url else None) (\<lambda>p u. u\<lparr>url_path := p\<rparr>)
       (\<lambda>u. ''https://c'' @ url_path u) (\<lambda>s. if s = ''k'' then Some (replicate 32 6) else None) (\<lambda>_. Some 1) (\<lambda>_. None))"

lemmas sample_agent_simps = sample_agent_ops_def sample_dp_def const_policy_simps pool_ops.defs controller_ops.defs
  agent_ops.defs

definition visible :: "char \<Rightarrow> bool" where
  "visible c \<longleftrightarrow> 33 \<le> (of_char c :: nat) \<and> (of_char c :: nat) \<le> 126"

lemma whitespace_invisible: "w \<in> set whitespace \<Longrightarrow> w \<noteq> [] \<and> \<not> visible (hd w) \<and> \<not> visible (last w)"
  by (auto simp: whitespace_def visible_def)

lemma strip_all_unmatched: "(\<And>w. w \<in> set ws \<Longrightarrow> take (length w) s \<noteq> w) \<Longrightarrow> strip_all ws s = s"
  by (subst strip_all.simps) (auto simp: find_None_iff split: option.split dest: find_SomeD)

lemma trim_visible:
  assumes "s \<noteq> []" "visible (hd s)" "visible (last s)"
  shows "trim s = s"
proof -
  have "take (length w) s \<noteq> w" if "w \<in> set whitespace" for w
    using whitespace_invisible [OF that] assms(1,2) by (metis hd_append2 append_take_drop_id)
  moreover have "take (length w) (rev s) \<noteq> w" if "w \<in> set (map rev whitespace)" for w
  proof -
    have "w \<noteq> []" "\<not> visible (hd w)" using that whitespace_invisible by (auto simp: hd_rev)
    moreover have "visible (hd (rev s))" using assms by (simp add: hd_rev)
    ultimately show ?thesis by (metis hd_append2 append_take_drop_id)
  qed
  ultimately have "strip_all whitespace s = s" "strip_all (map rev whitespace) (rev s) = rev s"
    by (blast intro: strip_all_unmatched)+
  then show ?thesis by (simp add: trim_def)
qed

lemma sample_normalize: "normalize_http_url sample_agent_ops ''https://c'' d = Inr ''https://c''"
proof -
  have "trim ''https://c'' = ''https://c''" by (rule trim_visible) (simp_all add: visible_def)
  then show ?thesis
    by (simp add: normalize_http_url_def sample_agent_simps sample_url_def starts_with_def Let_def to_ascii_lowercase_def
        trim_end_matches_def)
qed

end
