(* ===== verification/Agent_Exits.thy ===== *)
theory Agent_Exits
  imports Agent_Config
begin

text \<open>
  Exit nodes, the transport configuration and the kill switch of the agent (\<^verbatim>\<open>crates/meshlaked/src/main.rs\<close>,
  \<^verbatim>\<open>exit_gateway.rs\<close>, \<^verbatim>\<open>adapter/kill_switch.rs\<close>), all computed from its persisted state, and the migration of a
  persisted state at startup. Name resolution is an argument. The two hash maps whose iteration order is observable
  (the TLS relays and the TURN routes of all networks) are visited in the order in which their keys were inserted.
\<close>

section \<open>Exit selections\<close>

text \<open>The two documentation addresses that stand for all IPv4 and all IPv6 destinations.\<close>

definition ipv4_probe :: ip_addr where "ipv4_probe = V4 (ipv4_new 192 0 2 1)"
definition ipv6_probe :: ip_addr where "ipv6_probe = V6 0x20010DB8000000000000000000000001"

definition same_policy_semantics :: "network_policy_manifest \<Rightarrow> network_policy_manifest \<Rightarrow> bool" where
  "same_policy_semantics left right \<longleftrightarrow>
     npm_network_id left = npm_network_id right
     \<and> npm_policy_epoch left = npm_policy_epoch right
     \<and> npm_dns left = npm_dns right
     \<and> length (npm_routes left) = length (npm_routes right)
     \<and> list_all (\<lambda>(l, r). prt_prefix l = prt_prefix r
          \<and> mcl_device_id (mc_claims (prt_gateway_certificate l)) = mcl_device_id (mc_claims (prt_gateway_certificate r)))
        (zip (npm_routes left) (npm_routes right))
     \<and> length (npm_exit_nodes left) = length (npm_exit_nodes right)
     \<and> list_all (\<lambda>(l, r).
          mcl_device_id (mc_claims (en_gateway_certificate l)) = mcl_device_id (mc_claims (en_gateway_certificate r))
          \<and> en_supports_ipv4 l = en_supports_ipv4 r \<and> en_supports_ipv6 l = en_supports_ipv6 r)
        (zip (npm_exit_nodes left) (npm_exit_nodes right))"

definition validate_exit_selection ::
  "'x policy_ops_scheme \<Rightarrow> u64 \<Rightarrow> joined_network \<Rightarrow> exit_node_selection \<Rightarrow> agent_error + unit" where
  "validate_exit_selection X now joined selection =
     (if ens_kill_switch selection \<and> ens_ipv4_gateway selection = None \<and> ens_ipv6_gateway selection = None
      then bad_request ''an exit kill switch requires an IPv4 or IPv6 exit gateway selection''
      else if exit_selection_is_empty selection then Inr ()
      else
        rbind (ok_or (ABadRequest (Message ''fetch a signed network policy before selecting an exit''))
                 (ncp_policy_manifest (jn_control_plane joined))) (\<lambda>policy.
        rbind (ok_or (ABadRequest (Message ''fetch current member authorization before selecting an exit''))
                 (ncp_authorization_manifest (jn_control_plane joined))) (\<lambda>authorization.
        rbind (map_err (\<lambda>_. ABadRequest (Message ''the signed exit policy is invalid, expired, or no longer authorized''))
                 (policy_verify_for_network X policy (vn_id (jn_network joined))
                    (ncp_pinned_controller_public_key (jn_control_plane joined)) authorization now None)) (\<lambda>_.
          for_each (\<lambda>(gateway, probe).
            (case gateway of
               None \<Rightarrow> Inr ()
             | Some gateway \<Rightarrow>
                 if \<not> exit_node_supports policy gateway probe
                 then bad_request ''the selected device is not an authorized exit gateway for this address family''
                 else Inr ()))
            [(ens_ipv4_gateway selection, ipv4_probe), (ens_ipv6_gateway selection, ipv6_probe)]))))"

text \<open>The selection after the cleanup, and whether it changed.\<close>

definition cleared_selection ::
  "network_policy_manifest \<Rightarrow> exit_node_selection \<Rightarrow> exit_node_selection \<times> bool" where
  "cleared_selection policy s0 =
     (let drop4 = (case ens_ipv4_gateway s0 of None \<Rightarrow> False | Some g \<Rightarrow> \<not> exit_node_supports policy g ipv4_probe);
          s1 = (if drop4 then s0\<lparr>ens_ipv4_gateway := None\<rparr> else s0);
          drop6 = (case ens_ipv6_gateway s1 of None \<Rightarrow> False | Some g \<Rightarrow> \<not> exit_node_supports policy g ipv6_probe);
          s2 = (if drop6 then s1\<lparr>ens_ipv6_gateway := None\<rparr> else s1);
          drop_switch = (ens_ipv4_gateway s2 = None \<and> ens_ipv6_gateway s2 = None \<and> ens_kill_switch s2);
          s3 = (if drop_switch then s2\<lparr>ens_kill_switch := False\<rparr> else s2)
      in (s3, drop4 \<or> drop6 \<or> drop_switch))"

definition with_exit_selection :: "exit_node_selection \<Rightarrow> joined_network \<Rightarrow> joined_network" where
  "with_exit_selection s n = n\<lparr>jn_control_plane := (jn_control_plane n)\<lparr>ncp_exit_node_selection := s\<rparr>\<rparr>"

definition clear_unusable_exit_selection :: "joined_network \<Rightarrow> joined_network \<times> bool" where
  "clear_unusable_exit_selection joined =
     (let selection = ncp_exit_node_selection (jn_control_plane joined)
      in case ncp_policy_manifest (jn_control_plane joined) of
           None \<Rightarrow> (with_exit_selection no_exit_selection joined, \<not> exit_selection_is_empty selection)
         | Some policy \<Rightarrow>
             (let (s, changed) = cleared_selection policy selection in (with_exit_selection s joined, changed)))"

section \<open>Exit gateways\<close>

record gateway_route =
  gr_network_id :: network_id
  gr_prefix :: string
  gr_egress_interface :: string
  gr_ipv6 :: bool

type_synonym exit_gateway_plan = "gateway_route list"

definition validate_egress_interface :: "string \<Rightarrow> agent_reason + unit" where
  "validate_egress_interface value =
     (if value = [] \<or> length value > 128 \<or> list_ex is_ascii_control value
      then Inl (Message ''egress interface must contain 1 to 128 non-control characters'') else Inr ())"

definition find_network :: "network_id \<Rightarrow> joined_network list \<Rightarrow> joined_network option" where
  "find_network i ns = find (\<lambda>n. vn_id (jn_network n) = i) ns"

definition gateway_routes_v4 ::
  "'x policy_ops_scheme \<Rightarrow> exit_gateway_config \<Rightarrow> joined_network \<Rightarrow> agent_reason + gateway_route list" where
  "gateway_routes_v4 X config joined =
     (if \<not> egc_enable_ipv4 config then Inr []
      else case parse_ip_net X (vn_ipv4_prefix (jn_network joined)) of
        None \<Rightarrow> Inl (Message ''exit gateway network has an invalid IPv4 prefix'')
      | Some (Net6 _) \<Rightarrow> Inl (Message ''exit gateway network has a non-IPv4 IPv4 prefix'')
      | Some (Net4 p) \<Rightarrow> Inr [\<lparr>gr_network_id = egc_network_id config, gr_prefix = show_ip_net X (Net4 p),
          gr_egress_interface = egc_egress_interface config, gr_ipv6 = False\<rparr>])"

definition gateway_routes_v6 ::
  "'x policy_ops_scheme \<Rightarrow> exit_gateway_config \<Rightarrow> joined_network \<Rightarrow> agent_reason + gateway_route list" where
  "gateway_routes_v6 X config joined =
     (if \<not> egc_enable_ipv6 config then Inr []
      else case vn_ipv6_prefix (jn_network joined) of
        None \<Rightarrow> Inl (Message ''IPv6 exit gateway requires an IPv6 virtual-network prefix'')
      | Some text \<Rightarrow>
          (case parse_ip_net X text of
             None \<Rightarrow> Inl (Message ''exit gateway network has an invalid IPv6 prefix'')
           | Some (Net4 _) \<Rightarrow> Inl (Message ''exit gateway network has a non-IPv6 IPv6 prefix'')
           | Some (Net6 p) \<Rightarrow> Inr [\<lparr>gr_network_id = egc_network_id config, gr_prefix = show_ip_net X (Net6 p),
               gr_egress_interface = egc_egress_interface config, gr_ipv6 = True\<rparr>]))"

text \<open>The loop of \<^verbatim>\<open>from_configs\<close>: the networks configured so far and the routes still to add.\<close>

fun gateway_plan_loop ::
  "'x policy_ops_scheme \<Rightarrow> joined_network list \<Rightarrow> network_id list \<Rightarrow> exit_gateway_config list
     \<Rightarrow> agent_reason + gateway_route list" where
  "gateway_plan_loop X networks configured [] = Inr []"
| "gateway_plan_loop X networks configured (config # rest) =
     rbind (validate_egress_interface (egc_egress_interface config)) (\<lambda>_.
       if \<not> egc_enable_ipv4 config \<and> \<not> egc_enable_ipv6 config
       then Inl (Message ''exit gateway for network enables neither IPv4 nor IPv6'')
       else if egc_network_id config \<in> set configured
       then Inl (Message ''network has more than one local exit-gateway configuration'')
       else
         rbind (ok_or (Message ''exit gateway references unknown local network'')
                  (find_network (egc_network_id config) networks)) (\<lambda>joined.
         rbind (gateway_routes_v4 X config joined) (\<lambda>r4.
         rbind (gateway_routes_v6 X config joined) (\<lambda>r6.
         rbind (gateway_plan_loop X networks (egc_network_id config # configured) rest) (\<lambda>routes.
           Inr (r4 @ r6 @ routes))))))"

definition gateway_plan_from_configs ::
  "'x policy_ops_scheme \<Rightarrow> exit_gateway_config list \<Rightarrow> joined_network list \<Rightarrow> agent_reason + exit_gateway_plan" where
  "gateway_plan_from_configs X configs networks =
     rbind (gateway_plan_loop X networks [] configs) (\<lambda>routes.
       Inr (sort_key (\<lambda>r. (gr_network_id r, gr_ipv6 r, gr_prefix r)) routes))"

definition validate_local_exit_gateway ::
  "'x policy_ops_scheme \<Rightarrow> u64 \<Rightarrow> joined_network \<Rightarrow> device_id \<Rightarrow> exit_gateway_config \<Rightarrow> agent_error + unit" where
  "validate_local_exit_gateway X now joined local_device config =
     (if egc_network_id config \<noteq> vn_id (jn_network joined)
      then bad_request ''exit gateway configuration belongs to another network''
      else
        rbind (api_bad_request (gateway_plan_from_configs X [config] [joined])) (\<lambda>plan.
          if plan = [] then bad_request ''exit gateway configuration enables neither IPv4 nor IPv6''
          else
            rbind (ok_or (ABadRequest (Message ''fetch a signed network policy before enabling an exit gateway''))
                     (ncp_policy_manifest (jn_control_plane joined))) (\<lambda>policy.
            rbind (ok_or (ABadRequest (Message ''fetch current member authorization before enabling an exit gateway''))
                     (ncp_authorization_manifest (jn_control_plane joined))) (\<lambda>authorization.
            rbind (map_err (\<lambda>_. ABadRequest (Message ''the local exit-gateway policy is invalid, expired, or unauthorized''))
                     (policy_verify_for_network X policy (vn_id (jn_network joined))
                        (ncp_pinned_controller_public_key (jn_control_plane joined)) authorization now None)) (\<lambda>_.
              if egc_enable_ipv4 config \<and> \<not> exit_node_supports policy local_device ipv4_probe
              then bad_request ''this device is not authorized as an IPv4 exit gateway for the network''
              else if egc_enable_ipv6 config \<and> \<not> exit_node_supports policy local_device ipv6_probe
              then bad_request ''this device is not authorized as an IPv6 exit gateway for the network''
              else Inr ())))))"

definition gateway_is_usable :: "joined_network list \<Rightarrow> device_id \<Rightarrow> exit_gateway_config \<Rightarrow> bool" where
  "gateway_is_usable networks local_device gateway =
     (case find_network (egc_network_id gateway) networks of
        None \<Rightarrow> False
      | Some joined \<Rightarrow>
          (case ncp_policy_manifest (jn_control_plane joined) of
             None \<Rightarrow> False
           | Some policy \<Rightarrow>
               (\<not> egc_enable_ipv4 gateway \<or> exit_node_supports policy local_device ipv4_probe)
               \<and> (\<not> egc_enable_ipv6 gateway \<or> exit_node_supports policy local_device ipv6_probe)))"

definition clear_unusable_exit_gateways ::
  "exit_gateway_config list \<Rightarrow> joined_network list \<Rightarrow> device_id \<Rightarrow> exit_gateway_config list \<times> bool" where
  "clear_unusable_exit_gateways gateways networks local_device =
     (let kept = filter (gateway_is_usable networks local_device) gateways
      in (kept, length kept \<noteq> length gateways))"

section \<open>Transport configuration\<close>

record tls_relay_route =
  trr_relay :: planet_tls_relay
  trr_relay_endpoint :: socket_addr

record turn_udp_route =
  tur_network_id :: network_id
  tur_server :: planet_turn_server
  tur_credential :: turn_credential

record network_transport_configuration =
  ntc_relay_endpoints :: "socket_addr list"
  ntc_relay_identities :: "(socket_addr, service_identity_policy) hash_map"
  ntc_tls_relays :: "tls_relay_route list"
  ntc_turn_servers :: "planet_turn_server list"
  ntc_planet_manifest_version :: "u8 option"
  ntc_planet_expires_at_unix_seconds :: "u64 option"
  ntc_root_servers :: "planet_root list"

record transport_config =
  tcf_networks :: "(network_id, network_transport_configuration) hash_map"
  tcf_relay_endpoints :: "socket_addr list"
  tcf_root_servers :: "planet_root list"
  tcf_stun_servers :: "string list"
  tcf_upnp_enabled :: bool
  tcf_turn_routes :: "turn_udp_route list"

definition transport_is_empty :: "transport_config \<Rightarrow> bool" where
  "transport_is_empty c \<longleftrightarrow> tcf_relay_endpoints c = [] \<and> tcf_root_servers c = []"

definition relay_endpoints_for :: "transport_config \<Rightarrow> network_id \<Rightarrow> socket_addr list" where
  "relay_endpoints_for c i = (case hm_get (tcf_networks c) i of None \<Rightarrow> [] | Some n \<Rightarrow> ntc_relay_endpoints n)"

definition root_servers_for :: "transport_config \<Rightarrow> network_id \<Rightarrow> planet_root list" where
  "root_servers_for c i = (case hm_get (tcf_networks c) i of None \<Rightarrow> [] | Some n \<Rightarrow> ntc_root_servers n)"

definition relay_identity_for :: "transport_config \<Rightarrow> network_id \<Rightarrow> socket_addr \<Rightarrow> service_identity_policy option" where
  "relay_identity_for c i endpoint =
     (case hm_get (tcf_networks c) i of None \<Rightarrow> None | Some n \<Rightarrow> hm_get (ntc_relay_identities n) endpoint)"

definition tls_relays_for :: "transport_config \<Rightarrow> network_id \<Rightarrow> tls_relay_route list" where
  "tls_relays_for c i = (case hm_get (tcf_networks c) i of None \<Rightarrow> [] | Some n \<Rightarrow> ntc_tls_relays n)"

text \<open>\<^verbatim>\<open>Vec::dedup_by_key\<close>: of adjacent elements with the same key the first is kept.\<close>

fun dedup_by_key :: "('a \<Rightarrow> 'b) \<Rightarrow> 'a list \<Rightarrow> 'a list" where
  "dedup_by_key f [] = []"
| "dedup_by_key f [x] = [x]"
| "dedup_by_key f (x # y # zs) = (if f x = f y then dedup_by_key f (x # zs) else x # dedup_by_key f (y # zs))"

definition all_tls_relays :: "transport_config \<Rightarrow> tls_relay_route list" where
  "all_tls_relays c = dedup_by_key trr_relay_endpoint
     (sort_key (\<lambda>r. (ptr_priority (trr_relay r), trr_relay_endpoint r))
        (concat (map (\<lambda>(_, n). ntc_tls_relays n) (tcf_networks c))))"

definition planet_manifest_version_for :: "transport_config \<Rightarrow> network_id \<Rightarrow> u8 option" where
  "planet_manifest_version_for c i =
     (case hm_get (tcf_networks c) i of None \<Rightarrow> None | Some n \<Rightarrow> ntc_planet_manifest_version n)"

definition has_expired_planet :: "transport_config \<Rightarrow> u64 \<Rightarrow> bool" where
  "has_expired_planet c now = list_ex (\<lambda>(_, n).
     (case ntc_planet_expires_at_unix_seconds n of None \<Rightarrow> False | Some expiry \<Rightarrow> now > expiry)) (tcf_networks c)"

text \<open>Relays configured before Planet manifests existed.\<close>

definition legacy_relays :: "persisted_state \<Rightarrow> socket_addr list" where
  "legacy_relays st = remdups_adj
     (if ps_relay_endpoints st = [] then (case ps_relay_endpoint st of None \<Rightarrow> [] | Some e \<Rightarrow> [e])
      else ps_relay_endpoints st)"

definition planet_expired :: "u64 \<Rightarrow> network_control_plane \<Rightarrow> bool" where
  "planet_expired now cp \<longleftrightarrow>
     (case ncp_planet_expires_at_unix_seconds cp of None \<Rightarrow> False | Some expiry \<Rightarrow> now > expiry)"

definition tls_route :: "planet_relay list \<Rightarrow> planet_tls_relay \<Rightarrow> tls_relay_route option" where
  "tls_route relays r = map_option (\<lambda>candidate. \<lparr>trr_relay = r, trr_relay_endpoint = prl_endpoint candidate\<rparr>)
     (find (\<lambda>candidate. case prl_identity candidate of
        None \<Rightarrow> False | Some identity \<Rightarrow> sid_service_id identity = ptr_relay_id r) relays)"

definition network_transport ::
  "persisted_state \<Rightarrow> u64 \<Rightarrow> joined_network \<Rightarrow> network_transport_configuration" where
  "network_transport st now joined =
     (let cp = jn_control_plane joined;
          expired = planet_expired now cp;
          planet_was_accepted = (ncp_planet_manifest_version cp \<noteq> None);
          relays = sort_key prl_priority (if expired then [] else ncp_verified_relays cp);
          identities = fold (\<lambda>r m. case prl_identity r of None \<Rightarrow> m | Some i \<Rightarrow> hm_insert (prl_endpoint r) i m) relays [];
          tls = List.map_filter (tls_route relays) (sort_key ptr_priority (if expired then [] else ncp_verified_tls_relays cp));
          turns = sort_key turn_server_key (if expired then [] else ncp_verified_turn_servers cp);
          endpoints = map prl_endpoint relays;
          endpoints = (if endpoints = [] \<and> \<not> planet_was_accepted then legacy_relays st else endpoints);
          roots = sort_key pr_priority (if expired then [] else ncp_verified_roots cp);
          roots = (if roots = [] \<and> \<not> planet_was_accepted then sort_key pr_priority (ps_root_servers st) else roots)
      in \<lparr>ntc_relay_endpoints = remdups_adj endpoints, ntc_relay_identities = identities, ntc_tls_relays = tls,
          ntc_turn_servers = turns, ntc_planet_manifest_version = ncp_planet_manifest_version cp,
          ntc_planet_expires_at_unix_seconds = (if expired then None else ncp_planet_expires_at_unix_seconds cp),
          ntc_root_servers = roots\<rparr>)"

definition push_new :: "'a \<Rightarrow> 'a list \<Rightarrow> 'a list" where
  "push_new x xs = (if x \<in> set xs then xs else xs @ [x])"

definition push_stun :: "string \<Rightarrow> string list \<Rightarrow> string list" where
  "push_stun server servers = (if trim server \<noteq> [] then push_new (trim server) servers else servers)"

text \<open>One round of the loop over the joined networks.\<close>

definition add_network_transport ::
  "persisted_state \<Rightarrow> u64 \<Rightarrow> joined_network \<Rightarrow> transport_config \<Rightarrow> transport_config" where
  "add_network_transport st now joined c =
     (let nt = network_transport st now joined;
          cp = jn_control_plane joined;
          stun = (if planet_expired now cp then [] else ncp_verified_stun_servers cp)
      in c\<lparr>tcf_relay_endpoints := fold push_new (ntc_relay_endpoints nt) (tcf_relay_endpoints c),
           tcf_root_servers := fold push_new (ntc_root_servers nt) (tcf_root_servers c),
           tcf_stun_servers := fold push_stun stun (tcf_stun_servers c),
           tcf_networks := hm_insert (vn_id (jn_network joined)) nt (tcf_networks c)\<rparr>)"

definition transport_configuration_from_state :: "u64 \<Rightarrow> persisted_state \<Rightarrow> transport_config" where
  "transport_configuration_from_state now st =
     (let c0 = \<lparr>tcf_networks = [], tcf_relay_endpoints = [], tcf_root_servers = [],
            tcf_stun_servers = filter (\<lambda>s. s \<noteq> []) (map trim (ps_stun_servers st)),
            tcf_upnp_enabled = ps_upnp_enabled st, tcf_turn_routes = []\<rparr>;
          c1 = fold (add_network_transport st now) (ps_networks st) c0;
          c2 = (if ps_networks st = []
            then c1\<lparr>tcf_relay_endpoints := legacy_relays st, tcf_root_servers := sort_key pr_priority (ps_root_servers st)\<rparr>
            else c1)
      in c2\<lparr>tcf_stun_servers := remdups_adj (sort (tcf_stun_servers c2))\<rparr>)"

text \<open>With the TURN credentials that live in memory only.\<close>

definition transport_configuration ::
  "u64 \<Rightarrow> persisted_state \<Rightarrow> (network_id, turn_credential) hash_map \<Rightarrow> transport_config" where
  "transport_configuration now st credentials =
     (let c = transport_configuration_from_state now st
      in c\<lparr>tcf_turn_routes := tcf_turn_routes c @ concat (map (\<lambda>(i, n).
           (case hm_get credentials i of
              None \<Rightarrow> []
            | Some credential \<Rightarrow>
                if tc_expires_at_unix_seconds credential \<le> saturating_add now 30 then []
                else map (\<lambda>server. \<lparr>tur_network_id = i, tur_server = server, tur_credential = credential\<rparr>)
                       (filter (\<lambda>server. pts_transport server \<in> {Udp, Tls}) (ntc_turn_servers n)))) (tcf_networks c))\<rparr>)"

section \<open>Kill switch\<close>

datatype bootstrap_transport = BootTcp | BootUdp

fun bootstrap_transport_rank :: "bootstrap_transport \<Rightarrow> nat" where
  "bootstrap_transport_rank BootTcp = 0"
| "bootstrap_transport_rank BootUdp = 1"

record bootstrap_endpoint =
  be_endpoint :: socket_addr
  be_transport :: bootstrap_transport

record kill_switch_plan =
  ksp_enabled :: bool
  ksp_bootstrap_endpoints :: "bootstrap_endpoint list"

definition kill_switch_off :: kill_switch_plan where
  "kill_switch_off = \<lparr>ksp_enabled = False, ksp_bootstrap_endpoints = []\<rparr>"

definition bootstrap_key :: "bootstrap_endpoint \<Rightarrow> socket_addr \<times> nat" where
  "bootstrap_key e = (be_endpoint e, bootstrap_transport_rank (be_transport e))"

definition bootstrap_address_ok :: "bootstrap_endpoint \<Rightarrow> bool" where
  "bootstrap_address_ok e \<longleftrightarrow>
     (let a = sock_ip (be_endpoint e) in \<not> (ip_is_unspecified a \<or> ip_is_multicast a \<or> ip_is_loopback a))"

definition kill_switch_plan_new :: "bool \<Rightarrow> bootstrap_endpoint list \<Rightarrow> agent_reason + kill_switch_plan" where
  "kill_switch_plan_new enabled endpoints =
     (if \<not> enabled then Inr kill_switch_off
      else
        rbind (for_each (\<lambda>e. if \<not> bootstrap_address_ok e
                 then Inl (Message ''kill-switch bootstrap endpoint must be a concrete non-local unicast address'')
                 else Inr ()) endpoints) (\<lambda>_.
          let unique = remdups_adj (sort_key bootstrap_key endpoints)
          in if unique = []
             then Inl (Message ''an exit kill switch requires at least one resolved controller, root, relay, or STUN endpoint'')
             else Inr \<lparr>ksp_enabled = enabled, ksp_bootstrap_endpoints = unique\<rparr>))"

type_synonym resolver = "string \<Rightarrow> u16 \<Rightarrow> socket_addr list option"

definition resolve_kill_switch_url ::
  "'x agent_ops_scheme \<Rightarrow> resolver \<Rightarrow> string \<Rightarrow> agent_reason + bootstrap_endpoint list" where
  "resolve_kill_switch_url X resolve u =
     rbind (ok_or (Message ''invalid kill-switch service URL'') (url_parse X u)) (\<lambda>parsed.
     rbind (ok_or (Message ''kill-switch service URL is missing a host'') (url_host parsed)) (\<lambda>host.
     rbind (ok_or (Message ''kill-switch service URL has no known port'') (url_port_or_default parsed)) (\<lambda>port.
     rbind (ok_or (Message ''cannot resolve kill-switch service host'') (resolve host port)) (\<lambda>addresses.
       if addresses = [] then Inl (Message ''kill-switch service host resolved to no addresses'')
       else Inr (map (\<lambda>e. \<lparr>be_endpoint = e, be_transport = BootTcp\<rparr>) addresses)))))"

definition udp_bootstrap :: "socket_addr \<Rightarrow> bootstrap_endpoint" where
  "udp_bootstrap e = \<lparr>be_endpoint = e, be_transport = BootUdp\<rparr>"

definition tcp_bootstrap :: "socket_addr \<Rightarrow> bootstrap_endpoint" where
  "tcp_bootstrap e = \<lparr>be_endpoint = e, be_transport = BootTcp\<rparr>"

definition service_urls :: "joined_network \<Rightarrow> string list" where
  "service_urls n = List.map_filter id
     [ncp_controller_url (jn_control_plane n), ncp_planet_manifest_url (jn_control_plane n)]"

definition configured_bootstrap :: "'x agent_ops_scheme \<Rightarrow> transport_config \<Rightarrow> bootstrap_endpoint list" where
  "configured_bootstrap X c = map udp_bootstrap (tcf_relay_endpoints c)
     @ map (\<lambda>r. tcp_bootstrap (ptr_endpoint (trr_relay r))) (all_tls_relays c)
     @ map udp_bootstrap (concat (map pr_endpoints (tcf_root_servers c)))
     @ map udp_bootstrap (List.map_filter (parse_socket_addr X) (tcf_stun_servers c))"

definition kill_switch_plan_from_state ::
  "'x agent_ops_scheme \<Rightarrow> resolver \<Rightarrow> u64 \<Rightarrow> persisted_state \<Rightarrow> agent_reason + kill_switch_plan" where
  "kill_switch_plan_from_state X resolve now st =
     (if \<not> list_ex (\<lambda>n. ens_kill_switch (ncp_exit_node_selection (jn_control_plane n))) (ps_networks st)
      then Inr kill_switch_off
      else
        rbind (try_map (resolve_kill_switch_url X resolve) (concat (map service_urls (ps_networks st)))) (\<lambda>resolved.
          kill_switch_plan_new True
            (configured_bootstrap X (transport_configuration_from_state now st) @ concat resolved)))"

section \<open>Selections and the data plane\<close>

text \<open>A selection that the policy of the network supports.\<close>

definition selection_is_usable :: "joined_network \<Rightarrow> bool" where
  "selection_is_usable n \<longleftrightarrow>
     (let s = ncp_exit_node_selection (jn_control_plane n)
      in case ncp_policy_manifest (jn_control_plane n) of
           None \<Rightarrow> exit_selection_is_empty s
         | Some policy \<Rightarrow>
             (case ens_ipv4_gateway s of None \<Rightarrow> True | Some g \<Rightarrow> exit_node_supports policy g ipv4_probe)
             \<and> (case ens_ipv6_gateway s of None \<Rightarrow> True | Some g \<Rightarrow> exit_node_supports policy g ipv6_probe)
             \<and> (ens_kill_switch s \<longrightarrow> ens_ipv4_gateway s \<noteq> None \<or> ens_ipv6_gateway s \<noteq> None))"

lemma no_selection_iff: "exit_selection_is_empty s \<longleftrightarrow> s = no_exit_selection"
  by (cases s) (auto simp: exit_selection_is_empty_def no_exit_selection_def)

lemma validate_exit_selection_iff:
  "validate_exit_selection X now joined selection = Inr () \<longleftrightarrow> exit_selection_is_empty selection
     \<or> (\<exists>policy authorization. ncp_policy_manifest (jn_control_plane joined) = Some policy
          \<and> ncp_authorization_manifest (jn_control_plane joined) = Some authorization
          \<and> policy_verify_for_network X policy (vn_id (jn_network joined))
              (ncp_pinned_controller_public_key (jn_control_plane joined)) authorization now None = Inr ()
          \<and> selection_is_usable (with_exit_selection selection joined))"
  by (auto simp: validate_exit_selection_def selection_is_usable_def with_exit_selection_def exit_selection_is_empty_def
      Let_def split: option.splits if_splits)

lemma verified_exit_candidate:
  assumes "ncp_policy_manifest (jn_control_plane n) = Some policy"
    and "ncp_authorization_manifest (jn_control_plane n) = Some authorization"
    and "policy_verify_for_network X policy (vn_id (jn_network n)) (ncp_pinned_controller_public_key (jn_control_plane n))
      authorization now prev = Inr ()"
    and "\<forall>e \<in> set (npm_exit_nodes policy).
      mcl_issued_at_unix_seconds (mc_claims (en_gateway_certificate e)) \<le> saturating_add now 120"
  shows "exit_candidate_is_current (Some now) n device a = exit_node_supports policy device a"
proof -
  have e: "gateway_certificate_current n authorization now (en_gateway_certificate e)"
    if "e \<in> set (npm_exit_nodes policy)" for e
  proof -
    have "policy_check_exit_node X (vn_id (jn_network n)) (ncp_pinned_controller_public_key (jn_control_plane n))
        authorization now e = Inr ()"
      using assms(3) that by (auto simp: policy_verify_Inr_iff list_all_iff)
    then show ?thesis
      using assms(4) that
      by (auto simp: policy_check_exit_node_Inr_iff certificate_verify_Inr_iff gateway_certificate_current_def not_less
          split: option.splits)
  qed
  have "manifests_current n policy authorization now" using assms(3) by (rule verified_policy_current)
  then show ?thesis
    using assms(1,2) e by (auto simp: exit_candidate_is_current_def exit_node_supports_def list_ex_iff split: ip_addr.splits)
qed

text \<open>
  An exit selection that the agent accepts is one that the data plane follows. If the selection is accepted, and no
  certificate in the policy is dated more than two minutes ahead, then the data plane sends the traffic of an address
  family through the gateway selected for it; the selection survives the cleanup that follows every policy
  update, and a kill switch is never accepted without a gateway.
\<close>

theorem accepted_selection_takes_effect:
  assumes "validate_exit_selection X now joined selection = Inr ()"
    and "\<forall>policy e. ncp_policy_manifest (jn_control_plane joined) = Some policy \<longrightarrow> e \<in> set (npm_exit_nodes policy) \<longrightarrow>
      mcl_issued_at_unix_seconds (mc_claims (en_gateway_certificate e)) \<le> saturating_add now 120"
  defines "joined' \<equiv> with_exit_selection selection joined"
  shows "selected_exit_gateway (Some now) joined' (V4 a) = ens_ipv4_gateway selection
    \<and> selected_exit_gateway (Some now) joined' (V6 b) = ens_ipv6_gateway selection
    \<and> (ens_kill_switch selection \<longrightarrow> ens_ipv4_gateway selection \<noteq> None \<or> ens_ipv6_gateway selection \<noteq> None)
    \<and> selection_is_usable joined'"
proof (cases "exit_selection_is_empty selection")
  case True
  then show ?thesis
    by (auto simp: joined'_def exit_selection_is_empty_def selected_exit_gateway_def with_exit_selection_def
        selection_is_usable_def Let_def split: option.splits)
next
  case False
  then obtain policy authorization where p: "ncp_policy_manifest (jn_control_plane joined) = Some policy"
      "ncp_authorization_manifest (jn_control_plane joined) = Some authorization"
      "policy_verify_for_network X policy (vn_id (jn_network joined))
         (ncp_pinned_controller_public_key (jn_control_plane joined)) authorization now None = Inr ()"
      "selection_is_usable joined'"
    using assms(1) unfolding validate_exit_selection_iff joined'_def by blast
  have current: "exit_candidate_is_current (Some now) joined' device x = exit_node_supports policy device x" for device x
    by (rule verified_exit_candidate [where X = X and authorization = authorization and prev = None])
      (use p(1-3) assms(2) in \<open>simp_all add: joined'_def with_exit_selection_def\<close>)
  have probe: "exit_node_supports policy device (V4 x) = exit_node_supports policy device ipv4_probe"
      "exit_node_supports policy device (V6 y) = exit_node_supports policy device ipv6_probe" for device x y
    by (simp_all add: exit_node_supports_def ipv4_probe_def ipv6_probe_def)
  have s: "ncp_exit_node_selection (jn_control_plane joined') = selection" "ncp_policy_manifest (jn_control_plane joined') = Some policy"
    using p(1) by (simp_all add: joined'_def with_exit_selection_def)
  show ?thesis
    using p(4) by (auto simp: selected_exit_gateway_def selection_is_usable_def s current probe Let_def split: option.splits)
qed

section \<open>What the transport configuration offers\<close>

lemma set_fold_push_new [simp]: "set (fold push_new xs ys) = set xs \<union> set ys"
  by (induction xs arbitrary: ys) (auto simp: push_new_def)

lemma fold_networks:
  "tcf_relay_endpoints (fold (add_network_transport st now) ns c)
   = fold (\<lambda>n. fold push_new (ntc_relay_endpoints (network_transport st now n))) ns (tcf_relay_endpoints c)"
  "tcf_root_servers (fold (add_network_transport st now) ns c)
   = fold (\<lambda>n. fold push_new (ntc_root_servers (network_transport st now n))) ns (tcf_root_servers c)"
  "tcf_networks (fold (add_network_transport st now) ns c)
   = fold (\<lambda>n. hm_insert (vn_id (jn_network n)) (network_transport st now n)) ns (tcf_networks c)"
  by (induction ns arbitrary: c) (simp_all add: add_network_transport_def Let_def)

lemma set_fold_concat: "set (fold (\<lambda>n. fold push_new (f n)) ns ys) = (\<Union>n \<in> set ns. set (f n)) \<union> set ys"
  by (induction ns arbitrary: ys) auto

lemma fold_hm_insert_get:
  assumes "distinct (map k ns)"
  shows "hm_get (fold (\<lambda>n. hm_insert (k n) (f n)) ns m) i
    = (case find (\<lambda>n. k n = i) ns of Some n \<Rightarrow> Some (f n) | None \<Rightarrow> hm_get m i)"
  using assms
proof (induction ns arbitrary: m)
  case (Cons a ns)
  show ?case
  proof (cases "k a = i")
    case True
    then have "i \<notin> k ` set ns" using Cons.prems by simp
    then have "find (\<lambda>n. k n = i) ns = None" unfolding find_None_iff by blast
    then show ?thesis using True Cons by simp
  next
    case False
    then show ?thesis using Cons by (simp split: option.split)
  qed
qed simp

lemma transport_fields:
  "tcf_networks (transport_configuration_from_state now st)
   = fold (\<lambda>n. hm_insert (vn_id (jn_network n)) (network_transport st now n)) (ps_networks st) []"
  "ps_networks st \<noteq> [] \<Longrightarrow> set (tcf_relay_endpoints (transport_configuration_from_state now st))
     = (\<Union>n \<in> set (ps_networks st). set (ntc_relay_endpoints (network_transport st now n)))"
  "ps_networks st \<noteq> [] \<Longrightarrow> set (tcf_root_servers (transport_configuration_from_state now st))
     = (\<Union>n \<in> set (ps_networks st). set (ntc_root_servers (network_transport st now n)))"
  by (simp_all add: transport_configuration_from_state_def Let_def fold_networks set_fold_concat)

lemma sort_key_Nil_iff [simp]: "sort_key f xs = [] \<longleftrightarrow> xs = []"
  by (metis length_0_conv length_sort)

lemma network_transport_sets:
  "set (ntc_relay_endpoints (network_transport st now n)) =
     (let cp = jn_control_plane n
      in if \<not> planet_expired now cp \<and> ncp_verified_relays cp \<noteq> [] then prl_endpoint ` set (ncp_verified_relays cp)
         else if ncp_planet_manifest_version cp = None then set (legacy_relays st) else {})"
  "set (ntc_root_servers (network_transport st now n)) =
     (let cp = jn_control_plane n
      in if \<not> planet_expired now cp \<and> ncp_verified_roots cp \<noteq> [] then set (ncp_verified_roots cp)
         else if ncp_planet_manifest_version cp = None then set (ps_root_servers st) else {})"
  by (simp_all add: network_transport_def Let_def)

lemma find_distinct: "distinct (map k xs) \<Longrightarrow> x \<in> set xs \<Longrightarrow> find (\<lambda>y. k y = k x) xs = Some x"
  by (induction xs) (auto simp: image_iff)

lemma transport_network:
  assumes "distinct (map (vn_id \<circ> jn_network) (ps_networks st))" and "n \<in> set (ps_networks st)"
  shows "hm_get (tcf_networks (transport_configuration_from_state now st)) (vn_id (jn_network n)) = Some (network_transport st now n)"
  using assms find_distinct [of "\<lambda>n. vn_id (jn_network n)" "ps_networks st" n]
  by (simp add: transport_fields fold_hm_insert_get [where k = "\<lambda>n. vn_id (jn_network n)"] comp_def)

text \<open>
  C30: Once a network has accepted a Planet manifest, the agent contacts relays and roots for it only as this manifest
  names them. While the manifest is valid these are exactly its relays and roots; after it has expired there are
  none, TLS relays and TURN servers included, and the addresses configured before Planets existed do not come
  back. The relays the agent contacts at all are those of the joined networks.
\<close>

theorem transport_follows_the_planet:
  assumes "distinct (map (vn_id \<circ> jn_network) (ps_networks st))" and "n \<in> set (ps_networks st)"
    and "ncp_planet_manifest_version (jn_control_plane n) \<noteq> None"
  shows "let c = transport_configuration_from_state now st; cp = jn_control_plane n; i = vn_id (jn_network n) in
    set (relay_endpoints_for c i) = (if planet_expired now cp then {} else prl_endpoint ` set (ncp_verified_relays cp))
    \<and> set (root_servers_for c i) = (if planet_expired now cp then {} else set (ncp_verified_roots cp))
    \<and> set (map trr_relay (tls_relays_for c i)) \<subseteq> (if planet_expired now cp then {} else set (ncp_verified_tls_relays cp))
    \<and> set (tcf_relay_endpoints c) = (\<Union>m \<in> set (ps_networks st). set (relay_endpoints_for c (vn_id (jn_network m))))"
proof -
  define c where "c = transport_configuration_from_state now st"
  note get = transport_network [OF assms(1), of _ now, folded c_def]
  have "set (relay_endpoints_for c (vn_id (jn_network n)))
      = (if planet_expired now (jn_control_plane n) then {} else prl_endpoint ` set (ncp_verified_relays (jn_control_plane n)))"
    using assms(3) by (auto simp: relay_endpoints_for_def get [OF assms(2)] network_transport_sets Let_def)
  moreover have "set (root_servers_for c (vn_id (jn_network n)))
      = (if planet_expired now (jn_control_plane n) then {} else set (ncp_verified_roots (jn_control_plane n)))"
    using assms(3) by (auto simp: root_servers_for_def get [OF assms(2)] network_transport_sets Let_def)
  moreover have "set (map trr_relay (tls_relays_for c (vn_id (jn_network n))))
      \<subseteq> (if planet_expired now (jn_control_plane n) then {} else set (ncp_verified_tls_relays (jn_control_plane n)))"
    by (auto simp: tls_relays_for_def get [OF assms(2)] network_transport_def Let_def in_set_map_filter_iff
        tls_route_def split: if_splits)
  moreover have "set (tcf_relay_endpoints c) = (\<Union>m \<in> set (ps_networks st). set (relay_endpoints_for c (vn_id (jn_network m))))"
  proof -
    have "ps_networks st \<noteq> []" using assms(2) by auto
    then show ?thesis using get by (auto simp: c_def transport_fields(2) relay_endpoints_for_def)
  qed
  ultimately show ?thesis by (simp add: c_def [symmetric] Let_def)
qed

section \<open>What the kill switch lets through\<close>

lemma bootstrap_key_inject [simp]: "bootstrap_key a = bootstrap_key b \<longleftrightarrow> a = b"
  by (cases a; cases b; cases "be_transport a"; cases "be_transport b") (auto simp: bootstrap_key_def)

lemma kill_switch_plan_new_iff:
  "kill_switch_plan_new True es = Inr plan \<longleftrightarrow>
     es \<noteq> [] \<and> (\<forall>e \<in> set es. bootstrap_address_ok e)
     \<and> plan = \<lparr>ksp_enabled = True, ksp_bootstrap_endpoints = remdups_adj (sort_key bootstrap_key es)\<rparr>"
proof -
  have "remdups_adj (sort_key bootstrap_key es) = [] \<longleftrightarrow> es = []"
    by (metis remdups_adj_set set_empty set_sort)
  then show ?thesis by (auto simp: kill_switch_plan_new_def Let_def split: if_splits)
qed

lemma resolve_kill_switch_url_tcp:
  "resolve_kill_switch_url X resolve u = Inr es \<Longrightarrow> \<exists>addresses host port parsed. url_parse X u = Some parsed
     \<and> url_host parsed = Some host \<and> url_port_or_default parsed = Some port \<and> resolve host port = Some addresses
     \<and> addresses \<noteq> [] \<and> es = map tcp_bootstrap addresses"
  by (auto simp: resolve_kill_switch_url_def tcp_bootstrap_def [abs_def] split: if_splits)

text \<open>The addresses to which the service URLs of the joined networks resolve.\<close>

definition service_addresses :: "'x agent_ops_scheme \<Rightarrow> resolver \<Rightarrow> persisted_state \<Rightarrow> socket_addr set" where
  "service_addresses X resolve st = {a. \<exists>n \<in> set (ps_networks st). \<exists>u \<in> set (service_urls n). \<exists>parsed host port addresses.
     url_parse X u = Some parsed \<and> url_host parsed = Some host \<and> url_port_or_default parsed = Some port
     \<and> resolve host port = Some addresses \<and> a \<in> set addresses}"

lemma try_map_set: "try_map f xs = Inr ys \<Longrightarrow> f ` set xs = Inr ` set ys"
proof -
  assume "try_map f xs = Inr ys"
  then have "list_all2 (\<lambda>x y. f x = Inr y) xs ys" by (simp only: try_map_Inr_iff)
  then have "map f xs = map Inr ys" by (induction rule: list_all2_induct) auto
  then show "f ` set xs = Inr ` set ys" by (metis list.set_map)
qed

lemma resolved_services:
  assumes "try_map (resolve_kill_switch_url X resolve) (concat (map service_urls (ps_networks st))) = Inr resolved"
  shows "set (concat resolved) = tcp_bootstrap ` service_addresses X resolve st"
    and "\<forall>n \<in> set (ps_networks st). \<forall>u \<in> set (service_urls n). is_ok (resolve_kill_switch_url X resolve u)"
proof -
  let ?us = "concat (map service_urls (ps_networks st))"
  have eq: "resolve_kill_switch_url X resolve ` set ?us = Inr ` set resolved"
    using assms by (rule try_map_set)
  have mem: "\<exists>u \<in> set ?us. resolve_kill_switch_url X resolve u = Inr es" if "es \<in> set resolved" for es
  proof -
    have "Inr es \<in> resolve_kill_switch_url X resolve ` set ?us" unfolding eq using that by (rule imageI)
    then show ?thesis by (metis imageE)
  qed
  have ok: "\<exists>es \<in> set resolved. resolve_kill_switch_url X resolve u = Inr es" if "u \<in> set ?us" for u
  proof -
    have "resolve_kill_switch_url X resolve u \<in> Inr ` set resolved" unfolding eq [symmetric] using that by (rule imageI)
    then show ?thesis by auto
  qed
  then show "\<forall>n \<in> set (ps_networks st). \<forall>u \<in> set (service_urls n). is_ok (resolve_kill_switch_url X resolve u)"
    by (fastforce simp: is_ok_iff)
  show "set (concat resolved) = tcp_bootstrap ` service_addresses X resolve st"
  proof
    show "set (concat resolved) \<subseteq> tcp_bootstrap ` service_addresses X resolve st"
    proof
      fix e assume "e \<in> set (concat resolved)"
      then obtain es where es: "es \<in> set resolved" "e \<in> set es" by auto
      from mem [OF es(1)] obtain u where "u \<in> set ?us" "resolve_kill_switch_url X resolve u = Inr es" by blast
      with es(2) show "e \<in> tcp_bootstrap ` service_addresses X resolve st"
        by (force simp: service_addresses_def dest!: resolve_kill_switch_url_tcp)
    qed
    show "tcp_bootstrap ` service_addresses X resolve st \<subseteq> set (concat resolved)"
    proof
      fix e assume "e \<in> tcp_bootstrap ` service_addresses X resolve st"
      then obtain n u parsed host port addresses a where a: "n \<in> set (ps_networks st)" "u \<in> set (service_urls n)"
          "url_parse X u = Some parsed" "url_host parsed = Some host" "url_port_or_default parsed = Some port"
          "resolve host port = Some addresses" "a \<in> set addresses" "e = tcp_bootstrap a"
        by (auto simp: service_addresses_def)
      then have u: "u \<in> set ?us" by auto
      then obtain es where es: "es \<in> set resolved" "resolve_kill_switch_url X resolve u = Inr es" using ok by blast
      then have "e \<in> set es" using a(3-8) by (auto dest!: resolve_kill_switch_url_tcp)
      then show "e \<in> set (concat resolved)" using es(1) by auto
    qed
  qed
qed

lemma remdups_adj_sort_key_distinct:
  assumes "inj key"
  shows "distinct (remdups_adj (sort_key key xs))"
proof -
  have "distinct (remdups_adj (map key (sort_key key xs)))"
    using remdups_adj_sorted [of "map key (sort_key key xs)"] by simp
  then show ?thesis by (simp add: remdups_adj_map_injective assms distinct_map)
qed


section \<open>A sample exit\<close>

definition sample_exit_cp :: network_control_plane where
  "sample_exit_cp = sample_control_plane\<lparr>ncp_controller_url := Some ''https://c'',
     ncp_planet_manifest_version := Some 2, ncp_planet_expires_at_unix_seconds := Some 50,
     ncp_exit_node_selection := \<lparr>ens_ipv4_gateway = Some 1, ens_ipv6_gateway = None, ens_kill_switch = True\<rparr>,
     ncp_verified_relays := [\<lparr>prl_endpoint = SocketV4 0x08080808 9000, prl_priority = 0, prl_identity = None\<rparr>]\<rparr>"

definition sample_exit_state :: persisted_state where
  "sample_exit_state = (persisted_state_new 9 (replicate 32 7))\<lparr>
     ps_networks := [sample_joined\<lparr>jn_control_plane := sample_exit_cp\<rparr>],
     ps_relay_endpoints := [SocketV4 0x08080404 9000]\<rparr>"

lemma sample_exit_transport:
  "transport_configuration_from_state now sample_exit_state = \<lparr>
     tcf_networks = [(5, network_transport sample_exit_state now (sample_joined\<lparr>jn_control_plane := sample_exit_cp\<rparr>))],
     tcf_relay_endpoints = (if now > 50 then [] else [SocketV4 0x08080808 9000]), tcf_root_servers = [],
     tcf_stun_servers = [], tcf_upnp_enabled = True, tcf_turn_routes = []\<rparr>"
  by (simp add: transport_configuration_from_state_def add_network_transport_def sample_exit_state_def
      persisted_state_new_def network_transport_def sample_exit_cp_def sample_control_plane_def planet_expired_def
      sample_joined_def push_new_def hm_insert_def Let_def)

theorem transport_follows_the_planet_witness:
  "relay_endpoints_for (transport_configuration_from_state 51 sample_exit_state) 5 = []
   \<and> set (relay_endpoints_for (transport_configuration_from_state 50 sample_exit_state) 5) = {SocketV4 0x08080808 9000}"
  using transport_follows_the_planet [of sample_exit_state "sample_joined\<lparr>jn_control_plane := sample_exit_cp\<rparr>" 51]
    transport_follows_the_planet [of sample_exit_state "sample_joined\<lparr>jn_control_plane := sample_exit_cp\<rparr>" 50]
  by (simp add: sample_exit_state_def sample_exit_cp_def planet_expired_def sample_joined_def sample_control_plane_def Let_def)

definition sample_resolver :: resolver where
  "sample_resolver host port = (if host = ''c'' \<and> port = 443 then Some [SocketV4 0x01010101 443] else None)"

lemma sample_configured:
  "configured_bootstrap sample_agent_ops (transport_configuration_from_state 50 sample_exit_state)
   = [udp_bootstrap (SocketV4 0x08080808 9000)]"
proof -
  have "all_tls_relays (transport_configuration_from_state 50 sample_exit_state) = []"
    by (simp add: sample_exit_transport all_tls_relays_def network_transport_def sample_exit_cp_def sample_joined_def
        sample_control_plane_def planet_expired_def Let_def map_filter_simps)
  then show ?thesis by (simp add: configured_bootstrap_def sample_exit_transport map_filter_simps)
qed

lemma sample_kill_switch_plan:
  "kill_switch_plan_from_state sample_agent_ops sample_resolver 50 sample_exit_state = Inr
     \<lparr>ksp_enabled = True, ksp_bootstrap_endpoints = [tcp_bootstrap (SocketV4 0x01010101 443), udp_bootstrap (SocketV4 0x08080808 9000)]\<rparr>"
proof -
  have u: "concat (map service_urls (ps_networks sample_exit_state)) = [''https://c'']"
    by (simp add: sample_exit_state_def service_urls_def sample_exit_cp_def sample_control_plane_def map_filter_simps)
  have r: "resolve_kill_switch_url sample_agent_ops sample_resolver ''https://c'' = Inr [tcp_bootstrap (SocketV4 0x01010101 443)]"
    by (simp add: resolve_kill_switch_url_def sample_agent_simps sample_url_def sample_resolver_def tcp_bootstrap_def)
  have "list_ex (\<lambda>n. ens_kill_switch (ncp_exit_node_selection (jn_control_plane n))) (ps_networks sample_exit_state)"
    by (simp add: sample_exit_state_def sample_exit_cp_def)
  then show ?thesis
    by (simp add: kill_switch_plan_from_state_def sample_configured u r kill_switch_plan_new_iff)
      (simp add: bootstrap_address_ok_def bootstrap_key_def udp_bootstrap_def tcp_bootstrap_def ipv4_octet_def
        less_eq_socket_addr_def less_socket_addr_def)
qed


definition sample_exit_policy :: network_policy_manifest where
  "sample_exit_policy = sample_policy\<lparr>npm_version := 2,
     npm_exit_nodes := [\<lparr>en_gateway_certificate = gateway_certificate, en_supports_ipv4 = True, en_supports_ipv6 = False\<rparr>]\<rparr>"

definition sample_exit_joined :: joined_network where
  "sample_exit_joined = sample_joined\<lparr>jn_control_plane := sample_control_plane\<lparr>ncp_policy_manifest := Some sample_exit_policy\<rparr>\<rparr>"

definition sample_selection :: exit_node_selection where
  "sample_selection = \<lparr>ens_ipv4_gateway = Some 1, ens_ipv6_gateway = None, ens_kill_switch = True\<rparr>"

lemma sample_exit_policy_ok:
  "policy_verify_for_network sample_dp sample_exit_policy 5 (replicate 32 6) sample_manifest 300 None = Inr ()"
proof -
  note ok = sample_dp_policy_ok [unfolded policy_verify_Inr_iff]
  have cert: "policy_check_exit_node sample_dp 5 (replicate 32 6) sample_manifest 300
      \<lparr>en_gateway_certificate = gateway_certificate, en_supports_ipv4 = True, en_supports_ipv6 = False\<rparr> = Inr ()"
    using ok by (simp add: sample_policy_def policy_check_route_Inr_iff policy_check_exit_node_Inr_iff sample_route_def)
  have enc: "\<exists>e. encoded_policy_payload sample_dp sample_exit_policy = Inr e"
    by (simp add: encoded_policy_payload_def sample_exit_policy_def sample_policy_def NETWORK_POLICY_MANIFEST_VERSION_V1_def
        NETWORK_POLICY_MANIFEST_VERSION_def const_policy_simps pool_ops.defs sample_dp_def)
  have "ed_verify sample_dp pk m s" for pk m s
    by (simp add: const_policy_simps pool_ops.defs sample_dp_def open_prims_def sample_prims_def)
  then show ?thesis
    unfolding policy_verify_Inr_iff using ok cert enc
    by (simp add: sample_exit_policy_def sample_policy_def validate_exit_nodes_def MAX_EXIT_NODES_def
        NETWORK_POLICY_MANIFEST_VERSION_V1_def NETWORK_POLICY_MANIFEST_VERSION_def gateway_certificate_def
        sample_certificate_def sample_claims_def)
qed

theorem accepted_selection_takes_effect_witness:
  "selected_exit_gateway (Some 300) (with_exit_selection sample_selection sample_exit_joined) (V4 0x08080808) = Some 1"
proof -
  have "validate_exit_selection sample_dp 300 sample_exit_joined sample_selection = Inr ()"
    unfolding validate_exit_selection_iff
    using sample_exit_policy_ok
    by (simp add: sample_exit_joined_def sample_joined_def sample_control_plane_def selection_is_usable_def
        with_exit_selection_def sample_selection_def exit_node_supports_def sample_exit_policy_def ipv4_probe_def
        gateway_certificate_def sample_certificate_def sample_claims_def)
  from accepted_selection_takes_effect [OF this, of "0x08080808" 0] show ?thesis
    by (simp add: sample_exit_joined_def sample_exit_policy_def gateway_certificate_def sample_certificate_def
        sample_claims_def sample_selection_def saturating_add_def)
qed

end
