(* ===== verification/Policy_Plan.thy ===== *)
theory Policy_Plan
  imports Agent_Exits
begin

text \<open>
  The plan of routes and DNS settings that the agent hands to the operating system, and the transactions that
  replace one plan by another (\<^verbatim>\<open>crates/meshlaked/src/adapter/policy.rs\<close>). The four steps of a transaction are
  functions on the state of the operating system that report whether they succeeded. The theorems show that a plan
  never mixes networks and never sends exit traffic without verified policy and DNS, and that a transaction
  that reports a rollback has run the restoring step last and successfully.
\<close>

section \<open>Planning\<close>

record planned_route =
  plr_prefix :: string
  plr_network_id :: network_id
  plr_gateway_device_id :: device_id

record policy_plan =
  pp_routes :: "planned_route list"
  pp_exit_routes :: "planned_route list"
  pp_exit_kill_switch :: bool
  pp_dns_servers :: "ip_addr list"
  pp_search_domains :: "string list"

definition policy_plan_default :: policy_plan where
  "policy_plan_default = \<lparr>pp_routes = [], pp_exit_routes = [], pp_exit_kill_switch = False, pp_dns_servers = [],
     pp_search_domains = []\<rparr>"

fun nets_overlap :: "'x policy_ops_scheme \<Rightarrow> ip_net \<Rightarrow> ip_net \<Rightarrow> bool" where
  "nets_overlap X (Net4 l) (Net4 r) \<longleftrightarrow> net4_contains X l (net4_network X r) \<or> net4_contains X r (net4_network X l)"
| "nets_overlap X (Net6 l) (Net6 r) \<longleftrightarrow> net6_contains X l (net6_network X r) \<or> net6_contains X r (net6_network X l)"
| "nets_overlap X _ _ \<longleftrightarrow> False"

definition overlaps_virtual_prefix ::
  "'x policy_ops_scheme \<Rightarrow> joined_network \<Rightarrow> ip_net \<Rightarrow> agent_reason + bool" where
  "overlaps_virtual_prefix X joined route =
     rbind (ok_or (Message ''invalid joined-network IPv4 prefix'') (parse_ip_net X (vn_ipv4_prefix (jn_network joined)))) (\<lambda>ipv4.
     rbind (case vn_ipv6_prefix (jn_network joined) of
              None \<Rightarrow> Inr None
            | Some text \<Rightarrow>
                (case parse_ip_net X text of
                   None \<Rightarrow> Inl (Message ''invalid joined-network IPv6 prefix'') | Some p \<Rightarrow> Inr (Some p))) (\<lambda>ipv6.
       Inr (nets_overlap X route ipv4 \<or> (case ipv6 of None \<Rightarrow> False | Some p \<Rightarrow> nets_overlap X route p))))"

text \<open>The variables of the loop over the networks; the two maps are ordered by their keys.\<close>

record plan_builder =
  pb_routes :: "(string, planned_route) hash_map"
  pb_exit_routes :: "(string, planned_route) hash_map"
  pb_exit_kill_switch :: bool
  pb_dns_servers :: "ip_addr list"
  pb_search_domains :: "string list"
  pb_dns_owner :: "network_id option"

text \<open>A loop whose body may return early with an error.\<close>

fun fold_result :: "('a \<Rightarrow> 's \<Rightarrow> 'e + 's) \<Rightarrow> 'a list \<Rightarrow> 's \<Rightarrow> 'e + 's" where
  "fold_result f [] s = Inr s"
| "fold_result f (x # xs) s = rbind (f x s) (fold_result f xs)"

text \<open>Insertion into a map of planned routes; a different route under the same prefix is refused.\<close>

definition insert_planned ::
  "string \<Rightarrow> planned_route \<Rightarrow> (string, planned_route) hash_map \<Rightarrow> agent_reason + (string, planned_route) hash_map" where
  "insert_planned message planned m =
     (case hm_get m (plr_prefix planned) of
        None \<Rightarrow> Inr (hm_insert (plr_prefix planned) planned m)
      | Some previous \<Rightarrow>
          if plr_network_id previous \<noteq> plr_network_id planned
             \<or> plr_gateway_device_id previous \<noteq> plr_gateway_device_id planned
          then Inl (Message message)
          else Inr (hm_insert (plr_prefix planned) planned m))"

definition plan_route ::
  "'x policy_ops_scheme \<Rightarrow> joined_network \<Rightarrow> policy_route \<Rightarrow> plan_builder \<Rightarrow> agent_reason + plan_builder" where
  "plan_route X joined route b =
     rbind (ok_or (Message ''invalid policy route'') (parse_ip_net X (prt_prefix route))) (\<lambda>parsed.
       if mcl_network_id (mc_claims (prt_gateway_certificate route)) \<noteq> vn_id (jn_network joined)
       then Inl (Message ''policy route uses a gateway from another network'')
       else rbind (overlaps_virtual_prefix X joined parsed) (\<lambda>overlaps.
         if overlaps then Inl (Message ''policy route overlaps network virtual address space'')
         else rbind (insert_planned ''policy route is ambiguous across networks or gateways''
                \<lparr>plr_prefix = show_ip_net X parsed, plr_network_id = vn_id (jn_network joined),
                 plr_gateway_device_id = mcl_device_id (mc_claims (prt_gateway_certificate route))\<rparr> (pb_routes b)) (\<lambda>m.
           Inr (b\<lparr>pb_routes := m\<rparr>))))"

definition plan_exit ::
  "'x policy_ops_scheme \<Rightarrow> u64 \<Rightarrow> joined_network \<Rightarrow> network_policy_manifest
     \<Rightarrow> device_id option \<times> string \<times> ip_addr \<Rightarrow> plan_builder \<Rightarrow> agent_reason + plan_builder" where
  "plan_exit X now joined policy = (\<lambda>(gateway, prefix, probe) b.
     (case gateway of
        None \<Rightarrow> Inr b
      | Some gateway_device_id \<Rightarrow>
          rbind (ok_or (Message ''exit selection requires controller authorization'')
                   (ncp_authorization_manifest (jn_control_plane joined))) (\<lambda>authorization.
          rbind (map_err (\<lambda>_. Message ''exit selection has no current verified policy'')
                   (policy_verify_for_network X policy (vn_id (jn_network joined))
                      (ncp_pinned_controller_public_key (jn_control_plane joined)) authorization now None)) (\<lambda>_.
            if \<not> exit_node_supports policy gateway_device_id probe
            then Inl (Message ''selected gateway is not authorized for exit route'')
            else rbind (insert_planned ''exit route is ambiguous across networks or gateways''
                   \<lparr>plr_prefix = prefix, plr_network_id = vn_id (jn_network joined),
                    plr_gateway_device_id = gateway_device_id\<rparr> (pb_exit_routes b)) (\<lambda>m.
              Inr (b\<lparr>pb_exit_routes := m, pb_exit_kill_switch := (pb_exit_kill_switch b
                \<or> ens_kill_switch (ncp_exit_node_selection (jn_control_plane joined)))\<rparr>))))))"

definition plan_dns :: "joined_network \<Rightarrow> dns_policy \<Rightarrow> plan_builder \<Rightarrow> agent_reason + plan_builder" where
  "plan_dns joined dns b =
     (if dns_servers dns \<noteq> [] \<or> dns_search_domains dns \<noteq> [] then
        (case pb_dns_owner b of
           Some _ \<Rightarrow> Inl (Message ''DNS policy is present on both networks; refusing cross-network DNS mixing'')
         | None \<Rightarrow> Inr (b\<lparr>pb_dns_owner := Some (vn_id (jn_network joined)), pb_dns_servers := pb_dns_servers b @ dns_servers dns,
             pb_search_domains := pb_search_domains b @ dns_search_domains dns\<rparr>))
      else Inr b)"

definition plan_network ::
  "'x policy_ops_scheme \<Rightarrow> u64 \<Rightarrow> joined_network \<Rightarrow> plan_builder \<Rightarrow> agent_reason + plan_builder" where
  "plan_network X now joined b =
     (case ncp_policy_manifest (jn_control_plane joined) of
        None \<Rightarrow> Inr b
      | Some policy \<Rightarrow>
          if npm_network_id policy \<noteq> vn_id (jn_network joined) \<or> now > npm_expires_at_unix_seconds policy
          then Inl (Message ''network contains a stale or cross-network policy'')
          else rbind (fold_result (plan_route X joined) (npm_routes policy) b) (\<lambda>b.
            let selection = ncp_exit_node_selection (jn_control_plane joined)
            in if ens_kill_switch selection \<and> ens_ipv4_gateway selection = None \<and> ens_ipv6_gateway selection = None
               then Inl (Message ''network enables an exit kill switch without selecting an exit gateway'')
               else rbind (fold_result (plan_exit X now joined policy)
                      [(ens_ipv4_gateway selection, ''0.0.0.0/0'', ipv4_probe),
                       (ens_ipv6_gateway selection, ''::/0'', ipv6_probe)] b) (\<lambda>b.
                 plan_dns joined (npm_dns policy) b)))"

definition plan_builder_empty :: plan_builder where
  "plan_builder_empty = \<lparr>pb_routes = [], pb_exit_routes = [], pb_exit_kill_switch = False, pb_dns_servers = [],
     pb_search_domains = [], pb_dns_owner = None\<rparr>"

definition ordered_values :: "(string, 'v) hash_map \<Rightarrow> 'v list" where
  "ordered_values m = map snd (sort_key fst m)"

definition policy_plan_from_networks ::
  "'x policy_ops_scheme \<Rightarrow> joined_network list \<Rightarrow> u64 \<Rightarrow> agent_reason + policy_plan" where
  "policy_plan_from_networks X networks now =
     rbind (fold_result (plan_network X now) networks plan_builder_empty) (\<lambda>b.
       let servers = remdups_adj (sort (pb_dns_servers b));
           domains = remdups_adj (sort (pb_search_domains b))
       in if domains \<noteq> [] \<and> servers = [] then Inl (Message ''search domains require at least one policy DNS server'')
          else if pb_exit_routes b \<noteq> [] \<and> servers = []
          then Inl (Message ''an exit selection requires at least one controller-signed DNS server to prevent physical-network DNS leakage'')
          else Inr \<lparr>pp_routes = ordered_values (pb_routes b), pp_exit_routes = ordered_values (pb_exit_routes b),
                 pp_exit_kill_switch = pb_exit_kill_switch b, pp_dns_servers = servers, pp_search_domains = domains\<rparr>)"

section \<open>Transactions\<close>

datatype policy_transaction_error = RolledBack string | FailClosed string "string list"

fun is_fail_closed :: "policy_transaction_error \<Rightarrow> bool" where
  "is_fail_closed (FailClosed _ _) = True"
| "is_fail_closed (RolledBack _) = False"

type_synonym 'w os_step = "'w \<Rightarrow> 'w \<times> bool"

definition recover_policy_transaction ::
  "string \<Rightarrow> 'w os_step \<Rightarrow> 'w os_step \<Rightarrow> 'w os_step \<Rightarrow> 'w \<Rightarrow> 'w \<times> (policy_transaction_error + unit)" where
  "recover_policy_transaction stage remove_desired remove_previous restore_previous w =
     (let (w1, ok1) = remove_desired w;
          (w2, ok2) = remove_previous w1;
          (w3, ok3) = restore_previous w2;
          failures = (if ok1 then [] else [''desired-policy cleanup'']) @ (if ok2 then [] else [''previous-policy cleanup''])
            @ (if ok3 then [] else [''previous-policy restore''])
      in (w3, Inl (if failures = [] then RolledBack stage else FailClosed stage failures)))"

definition apply_policy_transaction ::
  "'w os_step \<Rightarrow> 'w os_step \<Rightarrow> 'w os_step \<Rightarrow> 'w os_step \<Rightarrow> 'w \<Rightarrow> 'w \<times> (policy_transaction_error + unit)" where
  "apply_policy_transaction remove_previous apply_desired remove_desired restore_previous w =
     (let (w1, ok1) = remove_previous w
      in if \<not> ok1 then recover_policy_transaction ''removing the previous policy'' remove_desired remove_previous restore_previous w1
         else let (w2, ok2) = apply_desired w1
              in if \<not> ok2
                 then recover_policy_transaction ''applying the desired policy'' remove_desired remove_previous restore_previous w2
                 else (w2, Inr ()))"

definition finalize_policy_transaction ::
  "policy_plan \<Rightarrow> policy_plan \<Rightarrow> policy_transaction_error + unit \<Rightarrow> policy_plan \<times> (policy_transaction_error + unit)" where
  "finalize_policy_transaction current desired result =
     (case result of
        Inr _ \<Rightarrow> (desired, Inr ())
      | Inl e \<Rightarrow> (if is_fail_closed e then policy_plan_default else current, Inl e))"

section \<open>What a plan contains\<close>

lemma fold_result_inv:
  assumes "fold_result f xs s = Inr s'" and "P s" and "\<And>x s s'. x \<in> set xs \<Longrightarrow> P s \<Longrightarrow> f x s = Inr s' \<Longrightarrow> P s'"
  shows "P s'"
  using assms
proof (induction xs arbitrary: s)
  case (Cons x xs)
  then obtain s1 where "f x s = Inr s1" "fold_result f xs s1 = Inr s'" by auto
  then show ?case using Cons.IH [of s1] Cons.prems by auto
qed simp

text \<open>A route that the policy of a joined network grants to one of its members, outside the addresses of the network.\<close>

definition route_granted :: "'x policy_ops_scheme \<Rightarrow> u64 \<Rightarrow> joined_network list \<Rightarrow> planned_route \<Rightarrow> bool" where
  "route_granted X now networks r \<longleftrightarrow> (\<exists>n policy route parsed. n \<in> set networks
     \<and> ncp_policy_manifest (jn_control_plane n) = Some policy
     \<and> npm_network_id policy = vn_id (jn_network n) \<and> now \<le> npm_expires_at_unix_seconds policy
     \<and> route \<in> set (npm_routes policy) \<and> parse_ip_net X (prt_prefix route) = Some parsed
     \<and> mcl_network_id (mc_claims (prt_gateway_certificate route)) = vn_id (jn_network n)
     \<and> overlaps_virtual_prefix X n parsed = Inr False
     \<and> r = \<lparr>plr_prefix = show_ip_net X parsed, plr_network_id = vn_id (jn_network n),
            plr_gateway_device_id = mcl_device_id (mc_claims (prt_gateway_certificate route))\<rparr>)"

text \<open>A default route that a joined network selects and that its verified policy supports.\<close>

definition exit_granted :: "'x policy_ops_scheme \<Rightarrow> u64 \<Rightarrow> joined_network list \<Rightarrow> planned_route \<Rightarrow> bool" where
  "exit_granted X now networks r \<longleftrightarrow> (\<exists>n policy authorization. n \<in> set networks
     \<and> ncp_policy_manifest (jn_control_plane n) = Some policy
     \<and> ncp_authorization_manifest (jn_control_plane n) = Some authorization
     \<and> policy_verify_for_network X policy (vn_id (jn_network n)) (ncp_pinned_controller_public_key (jn_control_plane n))
         authorization now None = Inr ()
     \<and> plr_network_id r = vn_id (jn_network n)
     \<and> ((plr_prefix r = ''0.0.0.0/0'' \<and> exit_node_supports policy (plr_gateway_device_id r) ipv4_probe
          \<and> ens_ipv4_gateway (ncp_exit_node_selection (jn_control_plane n)) = Some (plr_gateway_device_id r))
        \<or> (plr_prefix r = ''::/0'' \<and> exit_node_supports policy (plr_gateway_device_id r) ipv6_probe
          \<and> ens_ipv6_gateway (ncp_exit_node_selection (jn_control_plane n)) = Some (plr_gateway_device_id r))))"

definition planned_ok :: "(planned_route \<Rightarrow> bool) \<Rightarrow> (string, planned_route) hash_map \<Rightarrow> bool" where
  "planned_ok granted m \<longleftrightarrow> hm_ok m \<and> (\<forall>(k, r) \<in> set m. k = plr_prefix r \<and> granted r)"

definition dns_ok :: "joined_network list \<Rightarrow> plan_builder \<Rightarrow> bool" where
  "dns_ok networks b \<longleftrightarrow>
     (case pb_dns_owner b of
        None \<Rightarrow> pb_dns_servers b = [] \<and> pb_search_domains b = []
      | Some i \<Rightarrow> \<exists>n policy. n \<in> set networks \<and> vn_id (jn_network n) = i
          \<and> ncp_policy_manifest (jn_control_plane n) = Some policy
          \<and> pb_dns_servers b = dns_servers (npm_dns policy) \<and> pb_search_domains b = dns_search_domains (npm_dns policy))"

definition builder_ok :: "'x policy_ops_scheme \<Rightarrow> u64 \<Rightarrow> joined_network list \<Rightarrow> plan_builder \<Rightarrow> bool" where
  "builder_ok X now networks b \<longleftrightarrow> planned_ok (route_granted X now networks) (pb_routes b)
     \<and> planned_ok (exit_granted X now networks) (pb_exit_routes b)
     \<and> (pb_exit_kill_switch b \<longrightarrow> pb_exit_routes b \<noteq> []) \<and> dns_ok networks b"

lemma insert_planned_ok:
  "insert_planned message r m = Inr m' \<Longrightarrow> planned_ok granted m \<Longrightarrow> granted r \<Longrightarrow> planned_ok granted m' \<and> m' \<noteq> []"
proof -
  assume i: "insert_planned message r m = Inr m'" and ok: "planned_ok granted m" and r: "granted r"
  have m': "m' = hm_insert (plr_prefix r) r m" using i by (auto simp: insert_planned_def split: option.splits if_splits)
  have "hm_get m' (plr_prefix r) = Some r" by (simp add: m')
  then have "m' \<noteq> []" by auto
  moreover have "hm_ok m'" using ok by (simp add: m' planned_ok_def)
  moreover have "k = plr_prefix x \<and> granted x" if "(k, x) \<in> set m'" for k x
  proof -
    have "hm_get m' k = Some x" using that \<open>hm_ok m'\<close> by (simp add: hm_in_set_iff)
    then show ?thesis using ok r hm_get_in_set [of m k x] by (auto simp: m' planned_ok_def split: if_splits)
  qed
  ultimately show "planned_ok granted m' \<and> m' \<noteq> []" by (auto simp: planned_ok_def)
qed

lemma plan_route_ok:
  assumes "plan_route X n route b = Inr b'" "builder_ok X now networks b" "n \<in> set networks"
    "ncp_policy_manifest (jn_control_plane n) = Some policy" "npm_network_id policy = vn_id (jn_network n)"
    "now \<le> npm_expires_at_unix_seconds policy" "route \<in> set (npm_routes policy)"
  shows "builder_ok X now networks b'"
proof -
  obtain parsed m where p: "parse_ip_net X (prt_prefix route) = Some parsed"
      "mcl_network_id (mc_claims (prt_gateway_certificate route)) = vn_id (jn_network n)"
      "overlaps_virtual_prefix X n parsed = Inr False"
      "insert_planned ''policy route is ambiguous across networks or gateways''
         \<lparr>plr_prefix = show_ip_net X parsed, plr_network_id = vn_id (jn_network n),
          plr_gateway_device_id = mcl_device_id (mc_claims (prt_gateway_certificate route))\<rparr> (pb_routes b) = Inr m"
      "b' = b\<lparr>pb_routes := m\<rparr>"
    using assms(1) by (auto simp: plan_route_def split: if_splits)
  have "route_granted X now networks \<lparr>plr_prefix = show_ip_net X parsed, plr_network_id = vn_id (jn_network n),
      plr_gateway_device_id = mcl_device_id (mc_claims (prt_gateway_certificate route))\<rparr>"
    unfolding route_granted_def using assms(3-7) p(1-3) by blast
  then have "planned_ok (route_granted X now networks) m"
    using insert_planned_ok [OF p(4)] assms(2) by (simp add: builder_ok_def)
  then show ?thesis using assms(2) by (simp add: builder_ok_def p(5) dns_ok_def cong: option.case_cong)
qed

lemma plan_exit_ok:
  assumes "plan_exit X now n policy (gateway, prefix, probe) b = Inr b'" "builder_ok X now networks b" "n \<in> set networks"
    "ncp_policy_manifest (jn_control_plane n) = Some policy"
    "(gateway, prefix, probe) \<in> {(ens_ipv4_gateway (ncp_exit_node_selection (jn_control_plane n)), ''0.0.0.0/0'', ipv4_probe),
       (ens_ipv6_gateway (ncp_exit_node_selection (jn_control_plane n)), ''::/0'', ipv6_probe)}"
  shows "builder_ok X now networks b'"
proof (cases gateway)
  case None
  then show ?thesis using assms(1,2) by (simp add: plan_exit_def)
next
  case (Some g)
  then obtain authorization m where p: "ncp_authorization_manifest (jn_control_plane n) = Some authorization"
      "policy_verify_for_network X policy (vn_id (jn_network n)) (ncp_pinned_controller_public_key (jn_control_plane n))
         authorization now None = Inr ()"
      "exit_node_supports policy g probe"
      "insert_planned ''exit route is ambiguous across networks or gateways''
         \<lparr>plr_prefix = prefix, plr_network_id = vn_id (jn_network n), plr_gateway_device_id = g\<rparr> (pb_exit_routes b) = Inr m"
      "b' = b\<lparr>pb_exit_routes := m, pb_exit_kill_switch := (pb_exit_kill_switch b
         \<or> ens_kill_switch (ncp_exit_node_selection (jn_control_plane n)))\<rparr>"
    using assms(1) by (auto simp: plan_exit_def split: if_splits)
  have "exit_granted X now networks \<lparr>plr_prefix = prefix, plr_network_id = vn_id (jn_network n), plr_gateway_device_id = g\<rparr>"
    unfolding exit_granted_def using assms(3-5) p(1-3) Some by fastforce
  then have "planned_ok (exit_granted X now networks) m \<and> m \<noteq> []"
    using insert_planned_ok [OF p(4)] assms(2) unfolding builder_ok_def by blast
  then show ?thesis using assms(2) by (simp add: builder_ok_def p(5) dns_ok_def cong: option.case_cong)
qed

lemma plan_dns_ok:
  assumes "plan_dns n (npm_dns policy) b = Inr b'" "builder_ok X now networks b" "n \<in> set networks"
    "ncp_policy_manifest (jn_control_plane n) = Some policy"
  shows "builder_ok X now networks b'"
  using assms by (auto simp: plan_dns_def builder_ok_def dns_ok_def split: if_splits option.splits)

lemma plan_network_ok:
  assumes "plan_network X now n b = Inr b'" "builder_ok X now networks b" "n \<in> set networks"
  shows "builder_ok X now networks b'"
proof (cases "ncp_policy_manifest (jn_control_plane n)")
  case None
  then show ?thesis using assms by (simp add: plan_network_def)
next
  case (Some policy)
  let ?s = "ncp_exit_node_selection (jn_control_plane n)"
  obtain b1 b2 where p: "npm_network_id policy = vn_id (jn_network n)" "now \<le> npm_expires_at_unix_seconds policy"
      "fold_result (plan_route X n) (npm_routes policy) b = Inr b1"
      "fold_result (plan_exit X now n policy) [(ens_ipv4_gateway ?s, ''0.0.0.0/0'', ipv4_probe),
         (ens_ipv6_gateway ?s, ''::/0'', ipv6_probe)] b1 = Inr b2"
      "plan_dns n (npm_dns policy) b2 = Inr b'"
    using assms(1) Some by (auto simp: plan_network_def Let_def not_less simp del: fold_result.simps split: if_splits)
  have b1: "builder_ok X now networks b1"
    using p(3) assms(2) by (rule fold_result_inv [where P = "builder_ok X now networks"]) (rule plan_route_ok [OF _ _ assms(3) Some p(1,2)])
  have "builder_ok X now networks b2"
  proof (rule fold_result_inv [OF p(4), where P = "builder_ok X now networks"], fact b1)
    fix x s s' assume x: "x \<in> set [(ens_ipv4_gateway ?s, ''0.0.0.0/0'', ipv4_probe), (ens_ipv6_gateway ?s, ''::/0'', ipv6_probe)]"
      and s: "builder_ok X now networks s" "plan_exit X now n policy x s = Inr s'"
    obtain g prefix probe where "x = (g, prefix, probe)" by (cases x)
    with x s show "builder_ok X now networks s'"
      by (intro plan_exit_ok [OF _ s(1) assms(3) Some, where gateway = g and prefix = prefix and probe = probe]) simp_all
  qed
  then show ?thesis using plan_dns_ok [OF p(5) _ assms(3) Some] by blast
qed

lemma ordered_values_ok:
  assumes "planned_ok granted m"
  shows "distinct (map plr_prefix (ordered_values m))" and "r \<in> set (ordered_values m) \<Longrightarrow> granted r"
    and "ordered_values m = [] \<longleftrightarrow> m = []"
proof -
  have "map plr_prefix (ordered_values m) = map fst (sort_key fst m)"
    using assms by (auto simp: ordered_values_def planned_ok_def)
  moreover have "distinct (map fst (sort_key fst m))"
    using assms by (simp add: planned_ok_def hm_ok_def distinct_map)
  ultimately show "distinct (map plr_prefix (ordered_values m))" by simp
  show "r \<in> set (ordered_values m) \<Longrightarrow> granted r" using assms by (auto simp: ordered_values_def planned_ok_def)
  show "ordered_values m = [] \<longleftrightarrow> m = []" by (simp add: ordered_values_def)
qed

lemma policy_plan_builder:
  assumes "policy_plan_from_networks X networks now = Inr plan"
  obtains b where "builder_ok X now networks b" and "pb_exit_routes b = [] \<or> remdups_adj (sort (pb_dns_servers b)) \<noteq> []"
    and "plan = \<lparr>pp_routes = ordered_values (pb_routes b), pp_exit_routes = ordered_values (pb_exit_routes b),
         pp_exit_kill_switch = pb_exit_kill_switch b, pp_dns_servers = remdups_adj (sort (pb_dns_servers b)),
         pp_search_domains = remdups_adj (sort (pb_search_domains b))\<rparr>"
proof -
  obtain b where b: "fold_result (plan_network X now) networks plan_builder_empty = Inr b"
      "pb_exit_routes b = [] \<or> remdups_adj (sort (pb_dns_servers b)) \<noteq> []"
      "plan = \<lparr>pp_routes = ordered_values (pb_routes b), pp_exit_routes = ordered_values (pb_exit_routes b),
         pp_exit_kill_switch = pb_exit_kill_switch b, pp_dns_servers = remdups_adj (sort (pb_dns_servers b)),
         pp_search_domains = remdups_adj (sort (pb_search_domains b))\<rparr>"
    using assms by (auto simp: policy_plan_from_networks_def Let_def split: if_splits)
  have "builder_ok X now networks plan_builder_empty"
    by (simp add: builder_ok_def planned_ok_def dns_ok_def plan_builder_empty_def)
  then have "builder_ok X now networks b"
    using plan_network_ok [of X now _ _ _ networks] by (rule fold_result_inv [OF b(1), where P = "builder_ok X now networks"])
  then show ?thesis using that b(2,3) by blast
qed

text \<open>Every route of a plan belongs to one of the networks it was made for.\<close>

lemma planned_networks:
  assumes "policy_plan_from_networks X networks now = Inr plan" and "r \<in> set (pp_routes plan @ pp_exit_routes plan)"
  shows "plr_network_id r \<in> (\<lambda>n. vn_id (jn_network n)) ` set networks"
proof -
  obtain b where b: "builder_ok X now networks b" "plan = \<lparr>pp_routes = ordered_values (pb_routes b),
         pp_exit_routes = ordered_values (pb_exit_routes b), pp_exit_kill_switch = pb_exit_kill_switch b,
         pp_dns_servers = remdups_adj (sort (pb_dns_servers b)), pp_search_domains = remdups_adj (sort (pb_search_domains b))\<rparr>"
    using assms(1) by (rule policy_plan_builder)
  have "route_granted X now networks r \<or> exit_granted X now networks r"
    using assms(2) b(1) ordered_values_ok(2) [of _ _ r] by (auto simp: b(2) builder_ok_def)
  then show ?thesis by (auto simp: route_granted_def exit_granted_def)
qed

text \<open>
  C33: A plan never mixes networks and never leaks exit traffic. Every route of a plan is granted by the current policy of a
  joined network to a gateway of this network and lies outside the network's own addresses, and no prefix is
  planned twice. A default route is planned only for a gateway that its network selects and that a verified policy
  supports for this address family, and then there are DNS servers. All DNS settings come from the policy of one network.
\<close>

theorem policy_plan_is_granted:
  assumes "policy_plan_from_networks X networks now = Inr plan"
  shows "distinct (map plr_prefix (pp_routes plan)) \<and> list_all (route_granted X now networks) (pp_routes plan)
    \<and> distinct (map plr_prefix (pp_exit_routes plan)) \<and> list_all (exit_granted X now networks) (pp_exit_routes plan)
    \<and> (pp_exit_routes plan = [] \<or> pp_dns_servers plan \<noteq> [])
    \<and> (\<not> pp_exit_kill_switch plan \<or> pp_exit_routes plan \<noteq> [])
    \<and> (pp_dns_servers plan = [] \<and> pp_search_domains plan = []
       \<or> (\<exists>n policy. n \<in> set networks \<and> ncp_policy_manifest (jn_control_plane n) = Some policy
            \<and> set (pp_dns_servers plan) = set (dns_servers (npm_dns policy))
            \<and> set (pp_search_domains plan) = set (dns_search_domains (npm_dns policy))))"
proof -
  obtain b where ok: "builder_ok X now networks b" and b: "pb_exit_routes b = [] \<or> remdups_adj (sort (pb_dns_servers b)) \<noteq> []"
      "plan = \<lparr>pp_routes = ordered_values (pb_routes b), pp_exit_routes = ordered_values (pb_exit_routes b),
         pp_exit_kill_switch = pb_exit_kill_switch b, pp_dns_servers = remdups_adj (sort (pb_dns_servers b)),
         pp_search_domains = remdups_adj (sort (pb_search_domains b))\<rparr>"
    using assms by (rule policy_plan_builder)
  note routes = ordered_values_ok [of "route_granted X now networks" "pb_routes b"]
    and exits = ordered_values_ok [of "exit_granted X now networks" "pb_exit_routes b"]
  have "dns_ok networks b" using ok by (simp add: builder_ok_def)
  then have dns: "pb_dns_servers b = [] \<and> pb_search_domains b = [] \<or> (\<exists>n policy. n \<in> set networks
      \<and> ncp_policy_manifest (jn_control_plane n) = Some policy \<and> pb_dns_servers b = dns_servers (npm_dns policy)
      \<and> pb_search_domains b = dns_search_domains (npm_dns policy))"
    unfolding dns_ok_def by (cases "pb_dns_owner b") auto
  show ?thesis
    using ok routes exits b(1) dns unfolding builder_ok_def b(2) list_all_iff by auto
qed

section \<open>What a transaction reports\<close>

text \<open>
  A transaction is honest about its outcome. If it succeeds, the desired plan was applied after the previous one had
  been removed. If it reports a rollback, the step that restores the previous plan ran last and succeeded, and the
  recorded plan stays. Otherwise some recovering step failed, the adapter must close, and no plan is recorded.
\<close>

theorem policy_transaction_outcome:
  assumes "apply_policy_transaction remove_previous apply_desired remove_desired restore_previous w = (w', result)"
    and "finalize_policy_transaction current desired result = (recorded, result')"
  shows "result' = result \<and> (case result of
      Inr _ \<Rightarrow> recorded = desired \<and> (\<exists>w1. remove_previous w = (w1, True) \<and> apply_desired w1 = (w', True))
    | Inl (RolledBack _) \<Rightarrow> recorded = current
        \<and> (\<exists>w1 w2. snd (remove_desired w1) \<and> remove_previous (fst (remove_desired w1)) = (w2, True) \<and> restore_previous w2 = (w', True))
    | Inl (FailClosed _ failures) \<Rightarrow> recorded = policy_plan_default \<and> failures \<noteq> []
        \<and> (\<exists>w1. \<not> (snd (remove_desired w1) \<and> snd (remove_previous (fst (remove_desired w1)))
             \<and> snd (restore_previous (fst (remove_previous (fst (remove_desired w1))))))))"
proof -
  have rec: "case snd (recover_policy_transaction stage remove_desired remove_previous restore_previous w1) of
      Inr _ \<Rightarrow> False
    | Inl (RolledBack _) \<Rightarrow> (\<exists>w2. snd (remove_desired w1) \<and> remove_previous (fst (remove_desired w1)) = (w2, True)
        \<and> restore_previous w2 = (fst (recover_policy_transaction stage remove_desired remove_previous restore_previous w1), True))
    | Inl (FailClosed _ failures) \<Rightarrow> failures \<noteq> [] \<and> \<not> (snd (remove_desired w1)
        \<and> snd (remove_previous (fst (remove_desired w1)))
        \<and> snd (restore_previous (fst (remove_previous (fst (remove_desired w1))))))" for stage w1
    by (auto simp: recover_policy_transaction_def Let_def case_prod_beta prod_eq_iff)
  have *: "result = Inr () \<and> (\<exists>w1. remove_previous w = (w1, True) \<and> apply_desired w1 = (w', True))
      \<or> (\<exists>stage w1. (w', result) = recover_policy_transaction stage remove_desired remove_previous restore_previous w1)"
    using assms(1) by (auto simp: apply_policy_transaction_def Let_def case_prod_beta prod_eq_iff split: if_splits)
  then show ?thesis
  proof (elim disjE exE)
    fix stage w1
    assume r: "(w', result) = recover_policy_transaction stage remove_desired remove_previous restore_previous w1"
    have "case result of
        Inr _ \<Rightarrow> False
      | Inl (RolledBack _) \<Rightarrow> (\<exists>w2. snd (remove_desired w1) \<and> remove_previous (fst (remove_desired w1)) = (w2, True)
          \<and> restore_previous w2 = (w', True))
      | Inl (FailClosed _ failures) \<Rightarrow> failures \<noteq> [] \<and> \<not> (snd (remove_desired w1)
          \<and> snd (remove_previous (fst (remove_desired w1)))
          \<and> snd (restore_previous (fst (remove_previous (fst (remove_desired w1))))))"
      using rec [where stage = stage and ?w1.0 = w1, folded r] by (simp only: fst_conv snd_conv)
    then show ?thesis
      using assms(2)
      by (cases result) (auto simp: finalize_policy_transaction_def split: policy_transaction_error.splits, blast)
  next
    assume "result = Inr () \<and> (\<exists>w1. remove_previous w = (w1, True) \<and> apply_desired w1 = (w', True))"
    moreover from this have "recorded = desired" "result' = result"
      using assms(2) by (simp_all add: finalize_policy_transaction_def)
    ultimately show ?thesis by simp
  qed
qed

section \<open>A sample plan\<close>

definition sample_dns_policy :: network_policy_manifest where
  "sample_dns_policy = sample_exit_policy\<lparr>npm_routes := [],
     npm_dns := \<lparr>dns_servers = [V4 0x0A000001], dns_search_domains = []\<rparr>\<rparr>"

definition sample_exit_network :: joined_network where
  "sample_exit_network = with_exit_selection sample_selection
     (sample_joined\<lparr>jn_control_plane := sample_control_plane\<lparr>ncp_policy_manifest := Some sample_dns_policy\<rparr>\<rparr>)"

lemma sample_dns_policy_ok:
  "policy_verify_for_network sample_dp sample_dns_policy 5 (replicate 32 6) sample_manifest 300 None = Inr ()"
proof -
  note ok = sample_exit_policy_ok [unfolded policy_verify_Inr_iff]
  have valid: "validate_normalized_policy sample_dp [] \<lparr>dns_servers = [V4 0x0A000001], dns_search_domains = []\<rparr> = Inr ()"
    by (simp add: validate_normalized_policy_def MAX_ROUTES_def MAX_DNS_SERVERS_def ipv4_broadcast_def ipv4_octet_def)
  have enc: "\<exists>e. encoded_policy_payload sample_dp sample_dns_policy = Inr e"
    by (simp add: encoded_policy_payload_def sample_dns_policy_def sample_exit_policy_def sample_policy_def
        NETWORK_POLICY_MANIFEST_VERSION_V1_def NETWORK_POLICY_MANIFEST_VERSION_def const_policy_simps pool_ops.defs sample_dp_def)
  have "ed_verify sample_dp pk m s" for pk m s
    by (simp add: const_policy_simps pool_ops.defs sample_dp_def open_prims_def sample_prims_def)
  then show ?thesis
    unfolding policy_verify_Inr_iff using ok enc valid by (simp add: sample_dns_policy_def)
qed

lemma sample_plan:
  "policy_plan_from_networks sample_dp [sample_exit_network] 300 = Inr
     \<lparr>pp_routes = [], pp_exit_routes = [\<lparr>plr_prefix = ''0.0.0.0/0'', plr_network_id = 5, plr_gateway_device_id = 1\<rparr>],
      pp_exit_kill_switch = True, pp_dns_servers = [V4 0x0A000001], pp_search_domains = []\<rparr>"
proof -
  have s: "exit_node_supports sample_dns_policy 1 ipv4_probe"
    by (simp add: exit_node_supports_def sample_dns_policy_def sample_exit_policy_def ipv4_probe_def gateway_certificate_def
        sample_certificate_def sample_claims_def)
  have n: "vn_id (jn_network sample_exit_network) = 5"
      "ncp_pinned_controller_public_key (jn_control_plane sample_exit_network) = replicate 32 6"
      "ncp_authorization_manifest (jn_control_plane sample_exit_network) = Some sample_manifest"
      "ncp_policy_manifest (jn_control_plane sample_exit_network) = Some sample_dns_policy"
      "ncp_exit_node_selection (jn_control_plane sample_exit_network) = sample_selection"
    by (simp_all add: sample_exit_network_def with_exit_selection_def sample_joined_def sample_control_plane_def)
  have p: "npm_routes sample_dns_policy = []" "npm_network_id sample_dns_policy = 5"
      "npm_expires_at_unix_seconds sample_dns_policy = 400"
      "npm_dns sample_dns_policy = \<lparr>dns_servers = [V4 0x0A000001], dns_search_domains = []\<rparr>"
    by (simp_all add: sample_dns_policy_def sample_exit_policy_def sample_policy_def)
  show ?thesis
    by (simp add: policy_plan_from_networks_def plan_network_def n p sample_selection_def plan_exit_def sample_dns_policy_ok s
        insert_planned_def plan_builder_empty_def plan_dns_def ordered_values_def hm_insert_def)
qed

theorem policy_plan_is_granted_witness:
  "exit_granted sample_dp 300 [sample_exit_network] \<lparr>plr_prefix = ''0.0.0.0/0'', plr_network_id = 5, plr_gateway_device_id = 1\<rparr>"
  using policy_plan_is_granted [OF sample_plan] by simp

text \<open>Steps that keep count of the plans installed; the second application fails and the first plan is restored.\<close>

theorem policy_transaction_outcome_witness:
  "apply_policy_transaction (\<lambda>w. (w - 1, True)) (\<lambda>w. (w, False)) (\<lambda>w. (w, True)) (\<lambda>w. (w + 1, True)) (1::nat)
     = (1, Inl (RolledBack ''applying the desired policy''))
   \<and> fst (finalize_policy_transaction policy_plan_default (policy_plan_default\<lparr>pp_dns_servers := [V4 1]\<rparr>)
       (Inl (RolledBack ''applying the desired policy''))) = policy_plan_default"
proof -
  have *: "apply_policy_transaction (\<lambda>w. (w - 1, True)) (\<lambda>w. (w, False)) (\<lambda>w. (w, True)) (\<lambda>w. (w + 1, True)) (1::nat)
     = (1, Inl (RolledBack ''applying the desired policy''))"
    by (simp add: apply_policy_transaction_def recover_policy_transaction_def)
  show ?thesis
    using policy_transaction_outcome [OF *, of policy_plan_default "policy_plan_default\<lparr>pp_dns_servers := [V4 1]\<rparr>"
        "fst (finalize_policy_transaction policy_plan_default (policy_plan_default\<lparr>pp_dns_servers := [V4 1]\<rparr>)
           (Inl (RolledBack ''applying the desired policy'')))"
        "snd (finalize_policy_transaction policy_plan_default (policy_plan_default\<lparr>pp_dns_servers := [V4 1]\<rparr>)
           (Inl (RolledBack ''applying the desired policy'')))"] * by simp
qed

end
