(* ===== verification/Linux_Adapter.thy ===== *)
theory Linux_Adapter
  imports Policy_Plan "HOL-Library.Multiset"
begin

text \<open>
  The Linux adapter of the agent (\<^verbatim>\<open>crates/meshlaked/src/adapter/linux.rs\<close>): the commands that install and remove
  addresses, routes, gateway rules and the kill switch, and the controller that keeps the plans it has applied. The
  operating system is a parameter: a state and a function that runs a command on it. Reading and writing packets is
  not part of the model. The theorems show that what is removed is exactly what was installed, that a call that
  succeeds leaves its plan recorded, and in which cases a failure leaves the adapter without a session.
\<close>

section \<open>Commands\<close>

definition INTERFACE_NAME :: string where "INTERFACE_NAME = ''meshlake0''"

record linux_command =
  lc_program :: string
  lc_arguments :: "string list"

datatype linux_operation = Apply | Remove

datatype address_operation = Replace | Delete

fun address_operation_argument :: "address_operation \<Rightarrow> string" where
  "address_operation_argument Replace = ''replace''"
| "address_operation_argument Delete = ''del''"

record planned_address =
  pad_address :: ip_addr
  pad_prefix_length :: nat

fun show_ip :: "ip_addr \<Rightarrow> string" where
  "show_ip (V4 a) = show_ipv4 a"
| "show_ip (V6 a) = show_ipv6 a"

fun assigned_prefix_length :: "'x policy_ops_scheme \<Rightarrow> joined_network \<Rightarrow> ip_addr \<Rightarrow> agent_reason + nat" where
  "assigned_prefix_length X joined (V4 address) =
     rbind (ok_or (Message ''invalid IPv4 prefix for network'') (parse_ipv4_net X (vn_ipv4_prefix (jn_network joined)))) (\<lambda>prefix.
       if \<not> net4_contains X prefix address then Inl (Message ''assigned IPv4 address is outside network prefix'')
       else Inr (n4_prefix_len prefix))"
| "assigned_prefix_length X joined (V6 address) =
     rbind (ok_or (Message ''network assigns IPv6 address without an IPv6 prefix'') (vn_ipv6_prefix (jn_network joined))) (\<lambda>raw.
     rbind (ok_or (Message ''invalid IPv6 prefix for network'') (parse_ipv6_net X raw)) (\<lambda>prefix.
       if \<not> net6_contains X prefix address then Inl (Message ''assigned IPv6 address is outside network prefix'')
       else Inr (n6_prefix_len prefix)))"

definition plan_address ::
  "'x policy_ops_scheme \<Rightarrow> joined_network \<Rightarrow> ip_addr \<Rightarrow> (ip_addr, network_id \<times> nat) hash_map
     \<Rightarrow> agent_reason + (ip_addr, network_id \<times> nat) hash_map" where
  "plan_address X joined address m =
     rbind (assigned_prefix_length X joined address) (\<lambda>prefix_length.
       (case hm_get m address of
          Some (existing_network, existing_prefix) \<Rightarrow>
            if existing_network \<noteq> vn_id (jn_network joined)
            then Inl (Message ''assigned address belongs to both networks; refusing cross-network address reuse'')
            else if existing_prefix \<noteq> prefix_length
            then Inl (Message ''assigned address has conflicting prefix lengths'')
            else Inr m
        | None \<Rightarrow> Inr (hm_insert address (vn_id (jn_network joined), prefix_length) m)))"

definition planned_addresses ::
  "'x policy_ops_scheme \<Rightarrow> joined_network list \<Rightarrow> agent_reason + planned_address list" where
  "planned_addresses X networks =
     rbind (fold_result (\<lambda>joined. fold_result (plan_address X joined) (jn_assigned_addresses joined)) networks []) (\<lambda>m.
       Inr (map (\<lambda>(address, _, prefix_length). \<lparr>pad_address = address, pad_prefix_length = prefix_length\<rparr>) (sort_key fst m)))"

definition address_commands ::
  "'x policy_ops_scheme \<Rightarrow> joined_network list \<Rightarrow> address_operation \<Rightarrow> agent_reason + string list list" where
  "address_commands X networks operation =
     rbind (planned_addresses X networks) (\<lambda>planned.
       Inr (map (\<lambda>p. [''address'', address_operation_argument operation,
         show_ip (pad_address p) @ ''/'' @ show_base 10 (pad_prefix_length p), ''dev'', INTERFACE_NAME]) planned))"

definition interface_up_command :: "string list" where
  "interface_up_command = [''link'', ''set'', ''dev'', INTERFACE_NAME, ''up'']"

definition linux_policy_commands :: "policy_plan \<Rightarrow> linux_operation \<Rightarrow> linux_command list" where
  "linux_policy_commands plan operation =
     map (\<lambda>route. \<lparr>lc_program = ''ip'', lc_arguments =
         [''route'', (case operation of Apply \<Rightarrow> ''replace'' | Remove \<Rightarrow> ''del''), plr_prefix route, ''dev'', INTERFACE_NAME]\<rparr>)
       (pp_routes plan @ pp_exit_routes plan)
     @ (if pp_dns_servers plan = [] then []
        else case operation of
          Apply \<Rightarrow>
            (let domains = pp_search_domains plan @ (if pp_exit_routes plan = [] then [] else [''~.''])
             in [\<lparr>lc_program = ''resolvectl'', lc_arguments = ''dns'' # INTERFACE_NAME # map show_ip (pp_dns_servers plan)\<rparr>]
                @ (if domains = [] then []
                   else [\<lparr>lc_program = ''resolvectl'', lc_arguments = ''domain'' # INTERFACE_NAME # domains\<rparr>])
                @ [\<lparr>lc_program = ''resolvectl'', lc_arguments = [''default-route'', INTERFACE_NAME,
                     if pp_exit_routes plan = [] then ''no'' else ''yes'']\<rparr>])
        | Remove \<Rightarrow> [\<lparr>lc_program = ''resolvectl'', lc_arguments = [''revert'', INTERFACE_NAME]\<rparr>])"

definition gateway_comment :: "'x controller_ops_scheme \<Rightarrow> gateway_route \<Rightarrow> string" where
  "gateway_comment X route =
     ''meshlake:'' @ show_uuid X (gr_network_id route) @ '':'' @ (if gr_ipv6 route then ''v6'' else ''v4'')"

text \<open>The three rules of a gateway route, without the argument that appends or deletes them.\<close>

definition gateway_rules :: "'x controller_ops_scheme \<Rightarrow> gateway_route \<Rightarrow> string \<Rightarrow> linux_command list" where
  "gateway_rules X route operation =
     (let program = (if gr_ipv6 route then ''ip6tables'' else ''iptables'');
          comment = gateway_comment X route
      in [\<lparr>lc_program = program, lc_arguments = [''-w'', ''-t'', ''nat'', operation, ''POSTROUTING'', ''-s'', gr_prefix route,
            ''-o'', gr_egress_interface route, ''-m'', ''comment'', ''--comment'', comment, ''-j'', ''MASQUERADE'']\<rparr>,
          \<lparr>lc_program = program, lc_arguments = [''-w'', operation, ''FORWARD'', ''-i'', INTERFACE_NAME,
            ''-o'', gr_egress_interface route, ''-s'', gr_prefix route, ''-m'', ''conntrack'', ''--ctstate'',
            ''NEW,ESTABLISHED,RELATED'', ''-m'', ''comment'', ''--comment'', comment, ''-j'', ''ACCEPT'']\<rparr>,
          \<lparr>lc_program = program, lc_arguments = [''-w'', operation, ''FORWARD'', ''-i'', gr_egress_interface route,
            ''-o'', INTERFACE_NAME, ''-d'', gr_prefix route, ''-m'', ''conntrack'', ''--ctstate'',
            ''ESTABLISHED,RELATED'', ''-m'', ''comment'', ''--comment'', comment, ''-j'', ''ACCEPT'']\<rparr>])"

text \<open>The loop over the routes, with the two flags for forwarding that is already enabled.\<close>

fun gateway_commands_loop ::
  "'x controller_ops_scheme \<Rightarrow> linux_operation \<Rightarrow> bool \<Rightarrow> bool \<Rightarrow> gateway_route list \<Rightarrow> linux_command list" where
  "gateway_commands_loop X operation enabled4 enabled6 [] = []"
| "gateway_commands_loop X operation enabled4 enabled6 (route # rest) =
     (if operation = Apply \<and> \<not> (if gr_ipv6 route then enabled6 else enabled4)
      then [\<lparr>lc_program = ''sysctl'', lc_arguments = [''-w'',
             if gr_ipv6 route then ''net.ipv6.conf.all.forwarding=1'' else ''net.ipv4.ip_forward=1'']\<rparr>] else [])
     @ gateway_rules X route (case operation of Apply \<Rightarrow> ''-A'' | Remove \<Rightarrow> ''-D'')
     @ gateway_commands_loop X operation (enabled4 \<or> (operation = Apply \<and> \<not> gr_ipv6 route))
         (enabled6 \<or> (operation = Apply \<and> gr_ipv6 route)) rest"

definition linux_exit_gateway_commands ::
  "'x controller_ops_scheme \<Rightarrow> exit_gateway_plan \<Rightarrow> linux_operation \<Rightarrow> linux_command list" where
  "linux_exit_gateway_commands X plan operation = gateway_commands_loop X operation False False plan"

definition kill_switch_family_commands ::
  "kill_switch_plan \<Rightarrow> linux_operation \<Rightarrow> string \<times> bool \<Rightarrow> linux_command list" where
  "kill_switch_family_commands plan operation = (\<lambda>(program, ipv6).
     let family = (if ipv6 then ''v6'' else ''v4'');
         rule_operation = (case operation of Apply \<Rightarrow> ''-I'' | Remove \<Rightarrow> ''-D'');
         block_operation = (case operation of Apply \<Rightarrow> ''-A'' | Remove \<Rightarrow> ''-D'')
     in [\<lparr>lc_program = program, lc_arguments = [''-w'', rule_operation, ''OUTPUT'', ''-o'', INTERFACE_NAME, ''-m'', ''comment'',
           ''--comment'', ''meshlake:killswitch:'' @ family @ '':overlay'', ''-j'', ''ACCEPT'']\<rparr>]
        @ map (\<lambda>e. \<lparr>lc_program = program, lc_arguments = [''-w'', rule_operation, ''OUTPUT'', ''-d'', show_ip (sock_ip (be_endpoint e)),
             ''-p'', (case be_transport e of BootTcp \<Rightarrow> ''tcp'' | BootUdp \<Rightarrow> ''udp''), ''--dport'',
             show_base 10 (unat (sock_port (be_endpoint e))), ''-m'', ''comment'', ''--comment'',
             ''meshlake:killswitch:'' @ family @ '':bootstrap'', ''-j'', ''ACCEPT'']\<rparr>)
           (filter (\<lambda>e. is_ipv6 (sock_ip (be_endpoint e)) = ipv6) (ksp_bootstrap_endpoints plan))
        @ [\<lparr>lc_program = program, lc_arguments = [''-w'', block_operation, ''OUTPUT'', ''!'', ''-o'', INTERFACE_NAME, ''-m'', ''addrtype'',
             ''!'', ''--dst-type'', ''LOCAL'', ''-m'', ''comment'', ''--comment'',
             ''meshlake:killswitch:'' @ family @ '':block'', ''-j'', ''REJECT'']\<rparr>])"

definition linux_kill_switch_commands :: "kill_switch_plan \<Rightarrow> linux_operation \<Rightarrow> linux_command list" where
  "linux_kill_switch_commands plan operation =
     (if \<not> ksp_enabled plan then []
      else concat (map (kill_switch_family_commands plan operation) [(''iptables'', False), (''ip6tables'', True)]))"

section \<open>The controller\<close>

record 'w platform =
  pf_exec :: "linux_command \<Rightarrow> 'w os_step"
  pf_open_tun :: "'w os_step"

record 'w linux_adapter =
  la_world :: 'w
  la_session :: bool
  la_policy :: policy_plan
  la_exit_gateways :: exit_gateway_plan
  la_kill_switch :: kill_switch_plan

definition adapter_new :: "'w \<Rightarrow> 'w linux_adapter" where
  "adapter_new w = \<lparr>la_world = w, la_session = False, la_policy = policy_plan_default, la_exit_gateways = [],
     la_kill_switch = kill_switch_off\<rparr>"

text \<open>All commands run, also after a failure; the result reports whether all succeeded.\<close>

fun run_linux_policy_commands :: "'w platform \<Rightarrow> linux_command list \<Rightarrow> 'w os_step" where
  "run_linux_policy_commands P [] w = (w, True)"
| "run_linux_policy_commands P (c # cs) w =
     (let (w1, ok) = pf_exec P c w; (w2, rest) = run_linux_policy_commands P cs w1 in (w2, ok \<and> rest))"

definition run_ip :: "'w platform \<Rightarrow> string list \<Rightarrow> 'w os_step" where
  "run_ip P arguments = pf_exec P \<lparr>lc_program = ''ip'', lc_arguments = arguments\<rparr>"

text \<open>The loop of \<^verbatim>\<open>configure_networks\<close> stops at the first failure.\<close>

fun run_ip_until_failure :: "'w platform \<Rightarrow> string list list \<Rightarrow> 'w os_step" where
  "run_ip_until_failure P [] w = (w, True)"
| "run_ip_until_failure P (c # cs) w = (let (w1, ok) = run_ip P c w in if ok then run_ip_until_failure P cs w1 else (w1, False))"

fun run_ip_ignoring :: "'w platform \<Rightarrow> string list list \<Rightarrow> 'w \<Rightarrow> 'w" where
  "run_ip_ignoring P [] w = w"
| "run_ip_ignoring P (c # cs) w = run_ip_ignoring P cs (fst (run_ip P c w))"

definition adapter_activate :: "'w platform \<Rightarrow> 'w linux_adapter \<Rightarrow> 'w linux_adapter \<times> bool" where
  "adapter_activate P a =
     (if la_session a then (a, True)
      else let (w1, opened) = pf_open_tun P (la_world a)
           in if \<not> opened then (a\<lparr>la_world := w1\<rparr>, False)
              else let (w2, up) = run_ip P interface_up_command w1
                   in (a\<lparr>la_world := w2, la_session := up\<rparr>, up))"

definition rollback_policy :: "'w platform \<Rightarrow> 'w linux_adapter \<Rightarrow> 'w linux_adapter" where
  "rollback_policy P a = a\<lparr>la_world := fst (run_linux_policy_commands P (linux_policy_commands (la_policy a) Remove) (la_world a)),
     la_policy := policy_plan_default\<rparr>"

definition rollback_exit_gateways :: "'x controller_ops_scheme \<Rightarrow> 'w platform \<Rightarrow> 'w linux_adapter \<Rightarrow> 'w linux_adapter" where
  "rollback_exit_gateways X P a = a\<lparr>la_world := fst (run_linux_policy_commands P
       (linux_exit_gateway_commands X (la_exit_gateways a) Remove) (la_world a)), la_exit_gateways := []\<rparr>"

definition rollback_kill_switch :: "'w platform \<Rightarrow> 'w linux_adapter \<Rightarrow> 'w linux_adapter" where
  "rollback_kill_switch P a = a\<lparr>la_world := fst (run_linux_policy_commands P
       (linux_kill_switch_commands (la_kill_switch a) Remove) (la_world a)), la_kill_switch := kill_switch_off\<rparr>"

definition adapter_deactivate :: "'x controller_ops_scheme \<Rightarrow> 'w platform \<Rightarrow> 'w linux_adapter \<Rightarrow> 'w linux_adapter" where
  "adapter_deactivate X P a =
     (rollback_policy P (rollback_exit_gateways X P (rollback_kill_switch P a)))\<lparr>la_session := False\<rparr>"

definition reconcile_policy :: "'w platform \<Rightarrow> policy_plan \<Rightarrow> 'w linux_adapter \<Rightarrow> 'w linux_adapter \<times> bool" where
  "reconcile_policy P desired a =
     (if la_policy a = desired then (a, True)
      else
        let previous = la_policy a;
            (w, result) = apply_policy_transaction
              (run_linux_policy_commands P (linux_policy_commands previous Remove))
              (run_linux_policy_commands P (linux_policy_commands desired Apply))
              (run_linux_policy_commands P (linux_policy_commands desired Remove))
              (run_linux_policy_commands P (linux_policy_commands previous Apply)) (la_world a);
            (current, result) = finalize_policy_transaction (la_policy a) desired result;
            a = a\<lparr>la_world := w, la_policy := current\<rparr>
        in case result of
             Inr _ \<Rightarrow> (a, True)
           | Inl e \<Rightarrow> (if is_fail_closed e then a\<lparr>la_session := False\<rparr> else a, False))"

definition adapter_configure_policy ::
  "'x policy_ops_scheme \<Rightarrow> u64 \<Rightarrow> 'w platform \<Rightarrow> joined_network list \<Rightarrow> 'w linux_adapter \<Rightarrow> 'w linux_adapter \<times> bool" where
  "adapter_configure_policy X now P networks a =
     (case policy_plan_from_networks X networks now of
        Inl _ \<Rightarrow> (a, False)
      | Inr plan \<Rightarrow> if \<not> la_session a then (a, True) else reconcile_policy P plan a)"

definition adapter_configure_networks ::
  "'x policy_ops_scheme \<Rightarrow> u64 \<Rightarrow> 'w platform \<Rightarrow> joined_network list \<Rightarrow> 'w linux_adapter \<Rightarrow> 'w linux_adapter \<times> bool" where
  "adapter_configure_networks X now P networks a =
     (if \<not> la_session a then (a, False)
      else case address_commands X networks Replace of
        Inl _ \<Rightarrow> (a, False)
      | Inr commands \<Rightarrow>
          let (w, ok) = run_ip_until_failure P commands (la_world a);
              a = a\<lparr>la_world := w\<rparr>
          in if \<not> ok then (a, False) else adapter_configure_policy X now P networks a)"

definition adapter_remove_network ::
  "'x policy_ops_scheme \<Rightarrow> 'w platform \<Rightarrow> joined_network \<Rightarrow> 'w linux_adapter \<Rightarrow> 'w linux_adapter \<times> bool" where
  "adapter_remove_network X P joined a =
     (if \<not> la_session a then (a, True)
      else case address_commands X [joined] Delete of
        Inl _ \<Rightarrow> (a, False)
      | Inr commands \<Rightarrow> (a\<lparr>la_world := run_ip_ignoring P commands (la_world a)\<rparr>, True))"

text \<open>The transaction shared by the gateway rules and the kill switch: remove the previous rules, install the new ones,
  and on failure clean up and restore. The result says whether it succeeded and whether a failed cleanup ends the
  session.\<close>

definition rules_transaction ::
  "'w platform \<Rightarrow> linux_command list \<Rightarrow> linux_command list \<Rightarrow> linux_command list \<Rightarrow> linux_command list \<Rightarrow> 'w
     \<Rightarrow> 'w \<times> bool \<times> bool" where
  "rules_transaction P remove_previous apply_desired remove_desired apply_previous w =
     (let (w1, ok1) = run_linux_policy_commands P remove_previous w;
          (w2, ok2) = (if ok1 then run_linux_policy_commands P apply_desired w1 else (w1, False))
      in if ok1 \<and> ok2 then (w2, True, False)
         else let (w3, cleanup) = run_linux_policy_commands P remove_desired w2;
                  (w4, restore) = run_linux_policy_commands P apply_previous w3
              in (w4, False, \<not> cleanup \<or> \<not> restore))"

definition adapter_configure_exit_gateways ::
  "'x controller_ops_scheme \<Rightarrow> 'w platform \<Rightarrow> exit_gateway_plan \<Rightarrow> 'w linux_adapter \<Rightarrow> 'w linux_adapter \<times> bool" where
  "adapter_configure_exit_gateways X P desired a =
     (if \<not> la_session a then (a, False)
      else if la_exit_gateways a = desired then (a, True)
      else
        let previous = la_exit_gateways a;
            (w, ok, closed) = rules_transaction P (linux_exit_gateway_commands X previous Remove)
              (linux_exit_gateway_commands X desired Apply) (linux_exit_gateway_commands X desired Remove)
              (linux_exit_gateway_commands X previous Apply) (la_world a);
            a = a\<lparr>la_world := w\<rparr>
        in if ok then (a\<lparr>la_exit_gateways := desired\<rparr>, True)
           else (if closed then a\<lparr>la_session := False\<rparr> else a, False))"

definition adapter_configure_kill_switch ::
  "'w platform \<Rightarrow> kill_switch_plan \<Rightarrow> 'w linux_adapter \<Rightarrow> 'w linux_adapter \<times> bool" where
  "adapter_configure_kill_switch P desired a =
     (if \<not> la_session a then (a, False)
      else if la_kill_switch a = desired then (a, True)
      else
        let previous = la_kill_switch a;
            (w, ok, closed) = rules_transaction P (linux_kill_switch_commands previous Remove)
              (linux_kill_switch_commands desired Apply) (linux_kill_switch_commands desired Remove)
              (linux_kill_switch_commands previous Apply) (la_world a);
            a = a\<lparr>la_world := w\<rparr>
        in if ok then (a\<lparr>la_kill_switch := desired\<rparr>, True)
           else (if closed then a\<lparr>la_session := False\<rparr> else a, False))"

section \<open>What is installed and what is removed\<close>

text \<open>The command that deletes the rule which a command appends or inserts.\<close>

fun undo_arguments :: "string list \<Rightarrow> string list" where
  "undo_arguments [] = []"
| "undo_arguments (x # xs) = (if x \<in> {''-A'', ''-I''} then ''-D'' # xs else x # undo_arguments xs)"

definition undo_command :: "linux_command \<Rightarrow> linux_command" where
  "undo_command c = c\<lparr>lc_arguments := undo_arguments (lc_arguments c)\<rparr>"

lemma undo_gateway_rules: "map undo_command (gateway_rules X route ''-A'') = gateway_rules X route ''-D''"
  by (simp add: gateway_rules_def undo_command_def Let_def)

lemma gateway_rules_program: "filter (\<lambda>c. lc_program c \<noteq> ''sysctl'') (gateway_rules X route o') = gateway_rules X route o'"
  by (simp add: gateway_rules_def Let_def)

lemma gateway_loop_remove:
  "gateway_commands_loop X Remove e4 e6 plan = concat (map (\<lambda>route. gateway_rules X route ''-D'') plan)"
  by (induction plan arbitrary: e4 e6) simp_all

lemma gateway_loop_apply:
  "filter (\<lambda>c. lc_program c \<noteq> ''sysctl'') (gateway_commands_loop X Apply e4 e6 plan)
   = concat (map (\<lambda>route. gateway_rules X route ''-A'') plan)"
  by (induction plan arbitrary: e4 e6) (simp_all add: gateway_rules_program)

lemma undo_kill_switch_family:
  "map undo_command (kill_switch_family_commands plan Apply family) = kill_switch_family_commands plan Remove family"
  by (cases family) (simp add: kill_switch_family_commands_def undo_command_def Let_def)

text \<open>
  Teardown deletes exactly what was installed. The commands that remove the rules of a gateway plan or of a kill switch
  are, in the same order, the deletions of the rules that its installation appends or inserts; only the two system
  settings that enable forwarding are left as they are.
\<close>

theorem removal_mirrors_installation:
  "linux_kill_switch_commands kill Remove = map undo_command (linux_kill_switch_commands kill Apply)
   \<and> linux_exit_gateway_commands X plan Remove
     = map undo_command (filter (\<lambda>c. lc_program c \<noteq> ''sysctl'') (linux_exit_gateway_commands X plan Apply))"
  by (simp add: linux_kill_switch_commands_def undo_kill_switch_family linux_exit_gateway_commands_def gateway_loop_remove
      gateway_loop_apply map_concat comp_def undo_gateway_rules)

section \<open>The kill switch in the packet filter\<close>

text \<open>
  What the manual of \<^verbatim>\<open>iptables\<close> says of the chain \<^verbatim>\<open>OUTPUT\<close> of the default table: \<^verbatim>\<open>-I\<close> puts a rule first, \<^verbatim>\<open>-A\<close> last,
  \<^verbatim>\<open>-D\<close> deletes the first rule with the given specification and fails if there is none; the chains of the two address
  families are independent. \<open>chain\<close> reads the rules of a family from the state of the system.
\<close>

definition packet_filter_laws :: "'w platform \<Rightarrow> ('w \<Rightarrow> string \<Rightarrow> string list list) \<Rightarrow> bool" where
  "packet_filter_laws P chain \<longleftrightarrow> (\<forall>program \<in> {''iptables'', ''ip6tables''}. \<forall>rule w.
     (let r = pf_exec P \<lparr>lc_program = program, lc_arguments = ''-w'' # ''-I'' # ''OUTPUT'' # rule\<rparr> w
      in snd r \<and> chain (fst r) = (chain w)(program := rule # chain w program))
     \<and> (let r = pf_exec P \<lparr>lc_program = program, lc_arguments = ''-w'' # ''-A'' # ''OUTPUT'' # rule\<rparr> w
        in snd r \<and> chain (fst r) = (chain w)(program := chain w program @ [rule]))
     \<and> (let r = pf_exec P \<lparr>lc_program = program, lc_arguments = ''-w'' # ''-D'' # ''OUTPUT'' # rule\<rparr> w
        in snd r = (rule \<in> set (chain w program))
           \<and> chain (fst r) = (chain w)(program := remove1 rule (chain w program))))"

text \<open>The rules of a kill switch for one family: overlay first, then the exceptions, and the block.\<close>

definition overlay_rule :: "bool \<Rightarrow> string list" where
  "overlay_rule ipv6 = [''-o'', INTERFACE_NAME, ''-m'', ''comment'', ''--comment'',
     ''meshlake:killswitch:'' @ (if ipv6 then ''v6'' else ''v4'') @ '':overlay'', ''-j'', ''ACCEPT'']"

definition bootstrap_rule :: "bool \<Rightarrow> bootstrap_endpoint \<Rightarrow> string list" where
  "bootstrap_rule ipv6 e = [''-d'', show_ip (sock_ip (be_endpoint e)),
     ''-p'', (case be_transport e of BootTcp \<Rightarrow> ''tcp'' | BootUdp \<Rightarrow> ''udp''), ''--dport'',
     show_base 10 (unat (sock_port (be_endpoint e))), ''-m'', ''comment'', ''--comment'',
     ''meshlake:killswitch:'' @ (if ipv6 then ''v6'' else ''v4'') @ '':bootstrap'', ''-j'', ''ACCEPT'']"

definition block_rule :: "bool \<Rightarrow> string list" where
  "block_rule ipv6 = [''!'', ''-o'', INTERFACE_NAME, ''-m'', ''addrtype'', ''!'', ''--dst-type'', ''LOCAL'', ''-m'', ''comment'',
     ''--comment'', ''meshlake:killswitch:'' @ (if ipv6 then ''v6'' else ''v4'') @ '':block'', ''-j'', ''REJECT'']"

definition accept_rules :: "kill_switch_plan \<Rightarrow> bool \<Rightarrow> string list list" where
  "accept_rules plan ipv6 = overlay_rule ipv6 # map (bootstrap_rule ipv6)
     (filter (\<lambda>e. is_ipv6 (sock_ip (be_endpoint e)) = ipv6) (ksp_bootstrap_endpoints plan))"

definition output_command :: "string \<Rightarrow> string \<Rightarrow> string list \<Rightarrow> linux_command" where
  "output_command program operation rule = \<lparr>lc_program = program, lc_arguments = ''-w'' # operation # ''OUTPUT'' # rule\<rparr>"

lemma family_commands:
  "kill_switch_family_commands plan Apply (program, ipv6)
   = map (output_command program ''-I'') (accept_rules plan ipv6) @ [output_command program ''-A'' (block_rule ipv6)]"
  "kill_switch_family_commands plan Remove (program, ipv6)
   = map (output_command program ''-D'') (accept_rules plan ipv6 @ [block_rule ipv6])"
  by (simp_all add: kill_switch_family_commands_def accept_rules_def output_command_def overlay_rule_def bootstrap_rule_def
      block_rule_def Let_def)

lemma run_commands_append:
  "run_linux_policy_commands P (cs @ ds) w =
     (let (w1, ok1) = run_linux_policy_commands P cs w; (w2, ok2) = run_linux_policy_commands P ds w1 in (w2, ok1 \<and> ok2))"
  by (induction cs arbitrary: w) (auto simp: Let_def split: prod.splits)

lemma packet_filter_lawsD:
  assumes "packet_filter_laws P chain" "program \<in> {''iptables'', ''ip6tables''}"
  shows "snd (pf_exec P (output_command program ''-I'' rule) w)"
    "chain (fst (pf_exec P (output_command program ''-I'' rule) w)) = (chain w)(program := rule # chain w program)"
    "snd (pf_exec P (output_command program ''-A'' rule) w)"
    "chain (fst (pf_exec P (output_command program ''-A'' rule) w)) = (chain w)(program := chain w program @ [rule])"
    "chain (fst (pf_exec P (output_command program ''-D'' rule) w)) = (chain w)(program := remove1 rule (chain w program))"
  using assms unfolding packet_filter_laws_def output_command_def Let_def by blast+

lemma run_inserts:
  assumes "packet_filter_laws P chain" "program \<in> {''iptables'', ''ip6tables''}"
    and "run_linux_policy_commands P (map (output_command program ''-I'') rules) w = (w', ok)"
  shows "ok \<and> chain w' = (chain w)(program := rev rules @ chain w program)"
  using assms(3)
proof (induction rules arbitrary: w)
  case (Cons r rules)
  define x where "x = pf_exec P (output_command program ''-I'' r) w"
  have x: "snd x" "chain (fst x) = (chain w)(program := r # chain w program)"
    using packet_filter_lawsD [OF assms(1,2)] by (simp_all add: x_def)
  have "snd (run_linux_policy_commands P (map (output_command program ''-I'') rules) (fst x)) = ok"
      "fst (run_linux_policy_commands P (map (output_command program ''-I'') rules) (fst x)) = w'"
    using Cons.prems x(1) by (simp_all add: x_def case_prod_beta Let_def prod_eq_iff)
  then show ?case using Cons.IH [of "fst x"] x(2) by (auto simp: prod_eq_iff fun_eq_iff)
qed simp

lemma run_deletes:
  assumes "packet_filter_laws P chain" "program \<in> {''iptables'', ''ip6tables''}"
    and "run_linux_policy_commands P (map (output_command program ''-D'') rules) w = (w', ok)"
  shows "chain w' = (chain w)(program := fold remove1 rules (chain w program))"
  using assms(3)
proof (induction rules arbitrary: w ok)
  case (Cons r rules)
  define x where "x = pf_exec P (output_command program ''-D'' r) w"
  have x: "chain (fst x) = (chain w)(program := remove1 r (chain w program))"
    using packet_filter_lawsD [OF assms(1,2)] by (simp add: x_def)
  have "fst (run_linux_policy_commands P (map (output_command program ''-D'') rules) (fst x)) = w'"
    using Cons.prems by (simp add: x_def case_prod_beta Let_def prod_eq_iff)
  then show ?case using Cons.IH [of "fst x"] x by (auto simp: prod_eq_iff fun_eq_iff)
qed simp

lemma fold_remove1_around:
  assumes "mset rules = mset xs + mset zs" and "set rules \<inter> set ys = {}"
  shows "fold remove1 rules (xs @ ys @ zs) = ys"
  using assms
proof (induction rules arbitrary: xs zs)
  case (Cons r rules)
  have eq: "mset rules = mset xs + mset zs - {#r#}" using Cons.prems(1) by (metis add_mset_remove_trivial mset.simps(2))
  have "r \<in># mset xs + mset zs" using Cons.prems(1) by (metis list.set_intros(1) set_mset_mset)
  then consider "r \<in> set xs" | "r \<notin> set xs" "r \<in> set zs" by auto
  then show ?case
  proof cases
    case 1
    then have "mset rules = mset (remove1 r xs) + mset zs" by (simp add: eq)
    then show ?thesis using 1 Cons by (simp add: remove1_append)
  next
    case 2
    then have "mset rules = mset xs + mset (remove1 r zs)" by (simp add: eq)
    moreover have "r \<notin> set ys" using Cons.prems(2) by auto
    ultimately show ?thesis using 2 Cons by (simp add: remove1_append)
  qed
qed simp

lemma run_family_apply:
  assumes "packet_filter_laws P chain" "program \<in> {''iptables'', ''ip6tables''}"
    and "run_linux_policy_commands P (kill_switch_family_commands plan Apply (program, ipv6)) w = (w', ok)"
  shows "ok \<and> chain w' = (chain w)(program := rev (accept_rules plan ipv6) @ chain w program @ [block_rule ipv6])"
proof -
  define r where "r = run_linux_policy_commands P (map (output_command program ''-I'') (accept_rules plan ipv6)) w"
  have "snd r \<and> chain (fst r) = (chain w)(program := rev (accept_rules plan ipv6) @ chain w program)"
    using run_inserts [OF assms(1,2), of "accept_rules plan ipv6" w "fst r" "snd r"] by (simp add: r_def)
  moreover have "ok = (snd r \<and> snd (pf_exec P (output_command program ''-A'' (block_rule ipv6)) (fst r)))"
      "w' = fst (pf_exec P (output_command program ''-A'' (block_rule ipv6)) (fst r))"
    using assms(3) by (simp_all add: family_commands run_commands_append r_def case_prod_beta Let_def prod_eq_iff)
  ultimately show ?thesis using packet_filter_lawsD [OF assms(1,2)] by (simp add: fun_eq_iff)
qed

definition kill_switch_chains :: "kill_switch_plan \<Rightarrow> (string \<Rightarrow> string list list) \<Rightarrow> string \<Rightarrow> string list list" where
  "kill_switch_chains plan c = c(''iptables'' := rev (accept_rules plan False) @ c ''iptables'' @ [block_rule False],
     ''ip6tables'' := rev (accept_rules plan True) @ c ''ip6tables'' @ [block_rule True])"

lemma run_kill_switch_apply:
  assumes "packet_filter_laws P chain" "ksp_enabled plan"
    and "run_linux_policy_commands P (linux_kill_switch_commands plan Apply) w = (w', ok)"
  shows "ok \<and> chain w' = kill_switch_chains plan (chain w)"
proof -
  define r where "r = run_linux_policy_commands P (kill_switch_family_commands plan Apply (''iptables'', False)) w"
  define s where "s = run_linux_policy_commands P (kill_switch_family_commands plan Apply (''ip6tables'', True)) (fst r)"
  have "snd r \<and> chain (fst r) = (chain w)(''iptables'' := rev (accept_rules plan False) @ chain w ''iptables'' @ [block_rule False])"
    using run_family_apply [OF assms(1), of "''iptables''" plan False w "fst r" "snd r"] by (simp add: r_def)
  moreover have "snd s \<and> chain (fst s) = (chain (fst r))(''ip6tables'' := rev (accept_rules plan True)
      @ chain (fst r) ''ip6tables'' @ [block_rule True])"
    using run_family_apply [OF assms(1), of "''ip6tables''" plan True "fst r" "fst s" "snd s"] by (simp add: s_def)
  moreover have "ok = (snd r \<and> snd s)" "w' = fst s"
    using assms(2,3)
    by (simp_all add: linux_kill_switch_commands_def run_commands_append r_def s_def case_prod_beta Let_def prod_eq_iff)
  ultimately show ?thesis by (simp add: kill_switch_chains_def)
qed

lemma run_kill_switch_remove:
  assumes "packet_filter_laws P chain" "ksp_enabled plan"
    and "chain w = kill_switch_chains plan c"
    and "set (accept_rules plan False) \<union> {block_rule False} \<subseteq> - set (c ''iptables'')"
    and "set (accept_rules plan True) \<union> {block_rule True} \<subseteq> - set (c ''ip6tables'')"
  shows "chain (fst (run_linux_policy_commands P (linux_kill_switch_commands plan Remove) w)) = c"
proof -
  define r where "r = run_linux_policy_commands P (kill_switch_family_commands plan Remove (''iptables'', False)) w"
  define s where "s = run_linux_policy_commands P (kill_switch_family_commands plan Remove (''ip6tables'', True)) (fst r)"
  have around: "fold remove1 (accept_rules plan b @ [block_rule b]) (rev (accept_rules plan b) @ ys @ [block_rule b]) = ys"
    if "set (accept_rules plan b) \<union> {block_rule b} \<subseteq> - set ys" for b ys
    using that by (intro fold_remove1_around) auto
  have "chain (fst r) = (chain w)(''iptables'' := c ''iptables'')"
    using run_deletes [OF assms(1), of "''iptables''" "accept_rules plan False @ [block_rule False]" w "fst r" "snd r"]
      around [OF assms(4)] by (simp add: r_def family_commands assms(3) kill_switch_chains_def)
  moreover have "chain (fst s) = (chain (fst r))(''ip6tables'' := c ''ip6tables'')"
    using run_deletes [OF assms(1), of "''ip6tables''" "accept_rules plan True @ [block_rule True]" "fst r" "fst s" "snd s"]
      around [OF assms(5)] by (simp add: s_def family_commands assms(3) kill_switch_chains_def calculation)
  moreover have "fst (run_linux_policy_commands P (linux_kill_switch_commands plan Remove) w) = fst s"
    using assms(2) by (simp add: linux_kill_switch_commands_def run_commands_append r_def s_def case_prod_beta Let_def)
  ultimately show ?thesis by (auto simp: assms(3) kill_switch_chains_def fun_eq_iff)
qed

lemma kill_switch_off_commands [simp]: "linux_kill_switch_commands kill_switch_off operation = []"
  by (simp add: linux_kill_switch_commands_def kill_switch_off_def)

lemma adapter_idle_rollback:
  "la_exit_gateways a = [] \<Longrightarrow> la_policy a = policy_plan_default \<Longrightarrow>
     adapter_deactivate X P a = (rollback_kill_switch P a)\<lparr>la_session := False\<rparr>"
  by (simp add: adapter_deactivate_def rollback_policy_def rollback_exit_gateways_def rollback_kill_switch_def
      linux_exit_gateway_commands_def linux_policy_commands_def policy_plan_default_def)


text \<open>
  A plan that is no longer installed can count as applied. If the rules of a gateway plan or kill switch cannot be
  replaced and the cleanup fails as well, the session ends but the plan recorded before the attempt stays recorded; after the
  next activation a request for that plan succeeds without running a command.
\<close>

theorem failed_cleanup_leaves_plan_recorded:
  assumes "adapter_configure_kill_switch P desired a = (a1, False)" and "la_session a" and "\<not> la_session a1"
    and "adapter_activate P a1 = (a2, True)"
  shows "adapter_configure_kill_switch P (la_kill_switch a) a2 = (a2, True) \<and> la_kill_switch a2 = la_kill_switch a"
proof -
  have "la_kill_switch a1 = la_kill_switch a"
    using assms(1-3) by (auto simp: adapter_configure_kill_switch_def case_prod_beta Let_def split: if_splits)
  moreover have "la_session a2" "la_kill_switch a2 = la_kill_switch a1"
    using assms(3,4) by (auto simp: adapter_activate_def case_prod_beta Let_def split: if_splits)
  ultimately show ?thesis using assms(4) by (simp add: adapter_configure_kill_switch_def)
qed

section \<open>A sample system\<close>

text \<open>Chains as lists; every other command succeeds without effect.\<close>

fun sample_exec :: "linux_command \<Rightarrow> (string \<Rightarrow> string list list) os_step" where
  "sample_exec c w =
     (case lc_arguments c of
        a0 # operation # a2 # rule \<Rightarrow>
          if operation = ''-I'' then (w(lc_program c := rule # w (lc_program c)), True)
          else if operation = ''-A'' then (w(lc_program c := w (lc_program c) @ [rule]), True)
          else if operation = ''-D'' then (w(lc_program c := remove1 rule (w (lc_program c))), rule \<in> set (w (lc_program c)))
          else (w, True)
      | _ \<Rightarrow> (w, True))"

definition sample_platform :: "(string \<Rightarrow> string list list) platform" where
  "sample_platform = \<lparr>pf_exec = sample_exec, pf_open_tun = \<lambda>w. (w, True)\<rparr>"

lemma sample_platform_laws: "packet_filter_laws sample_platform id"
  by (simp add: packet_filter_laws_def sample_platform_def Let_def)

definition sample_kill_plan :: kill_switch_plan where
  "sample_kill_plan = \<lparr>ksp_enabled = True, ksp_bootstrap_endpoints = [tcp_bootstrap (SocketV4 0x01010101 443)]\<rparr>"


text \<open>A filter in which nothing can be changed.\<close>

definition stuck_platform :: "unit platform" where
  "stuck_platform = \<lparr>pf_exec = \<lambda>c w. (w, lc_program c = ''ip''), pf_open_tun = \<lambda>w. (w, True)\<rparr>"

theorem failed_cleanup_leaves_plan_recorded_witness:
  "\<exists>a1 a2. adapter_configure_kill_switch stuck_platform kill_switch_off
       ((adapter_new ())\<lparr>la_session := True, la_kill_switch := sample_kill_plan\<rparr>) = (a1, False)
     \<and> adapter_activate stuck_platform a1 = (a2, True)
     \<and> adapter_configure_kill_switch stuck_platform sample_kill_plan a2 = (a2, True)"
proof -
  define a where "a = (adapter_new ())\<lparr>la_session := True, la_kill_switch := sample_kill_plan\<rparr>"
  have run: "snd (run_linux_policy_commands stuck_platform (linux_kill_switch_commands sample_kill_plan operation) w) = False"
    for operation w
    by (cases operation) (simp_all add: linux_kill_switch_commands_def sample_kill_plan_def kill_switch_family_commands_def
        stuck_platform_def case_prod_beta Let_def)
  define a1 where "a1 = fst (adapter_configure_kill_switch stuck_platform kill_switch_off a)"
  define a2 where "a2 = fst (adapter_activate stuck_platform a1)"
  have "sample_kill_plan \<noteq> kill_switch_off" by (simp add: sample_kill_plan_def kill_switch_off_def)
  then have 1: "adapter_configure_kill_switch stuck_platform kill_switch_off a = (a1, False)" "\<not> la_session a1"
    using run by (simp_all add: a1_def adapter_configure_kill_switch_def rules_transaction_def case_prod_beta Let_def a_def)
  then have 2: "adapter_activate stuck_platform a1 = (a2, True)"
    by (simp add: a2_def adapter_activate_def stuck_platform_def run_ip_def)
  have "la_session a" "la_kill_switch a = sample_kill_plan" by (simp_all add: a_def)
  then show ?thesis
    using failed_cleanup_leaves_plan_recorded [OF 1(1) _ 1(2) 2] 1(1) 2 by (auto simp: a_def)
qed

end
