(* ===== verification/Agent_Core.thy ===== *)
theory Agent_Core
  imports Linux_Adapter
begin

text \<open>
  The agent and the handlers of its local API (\<^verbatim>\<open>crates/meshlaked/src/main.rs\<close>). A handler is an action on the agent that
  ends with a value or an error, the changes made before an error being kept. The platform adapter is a record of
  operations; \<open>Agent_Contract\<close> states what the agent relies on. A handler reads
  the clock once and resolves names in the environment; the \<open>k\<close>-th write of the state file may fail, before or after
  the file was replaced. Handlers run one after the other; where a handler waits for the network before it takes the locks, the
  part before and the part after are separate definitions.
\<close>

section \<open>Actions\<close>

type_synonym ('w, 'e, 'r) action = "'w \<Rightarrow> 'w \<times> ('e + 'r)"

definition abind :: "('w, 'e, 'r) action \<Rightarrow> ('r \<Rightarrow> ('w, 'e, 's) action) \<Rightarrow> ('w, 'e, 's) action" where
  "abind m k = (\<lambda>w. case m w of (w1, Inl e) \<Rightarrow> (w1, Inl e) | (w1, Inr x) \<Rightarrow> k x w1)"

definition areturn :: "'r \<Rightarrow> ('w, 'e, 'r) action" where "areturn x = (\<lambda>w. (w, Inr x))"

definition araise :: "'e \<Rightarrow> ('w, 'e, 'r) action" where "araise e = (\<lambda>w. (w, Inl e))"

definition alift :: "'e + 'r \<Rightarrow> ('w, 'e, 'r) action" where "alift r = (\<lambda>w. (w, r))"

definition amap_err :: "('e \<Rightarrow> 'f) \<Rightarrow> ('w, 'e, 'r) action \<Rightarrow> ('w, 'f, 'r) action" where
  "amap_err f m = (\<lambda>w. case m w of (w1, r) \<Rightarrow> (w1, map_err f r))"

lemmas action_defs = abind_def areturn_def araise_def alift_def amap_err_def

section \<open>The adapter\<close>

record 'a adapter_ops =
  ado_is_active :: "'a \<Rightarrow> bool"
  ado_activate :: "'a \<Rightarrow> 'a \<times> bool"
  ado_deactivate :: "'a \<Rightarrow> 'a"
  ado_configure_networks :: "joined_network list \<Rightarrow> 'a \<Rightarrow> 'a \<times> bool"
  ado_remove_network :: "joined_network \<Rightarrow> 'a \<Rightarrow> 'a \<times> bool"
  ado_configure_policy :: "joined_network list \<Rightarrow> 'a \<Rightarrow> 'a \<times> bool"
  ado_configure_exit_gateways :: "exit_gateway_plan \<Rightarrow> 'a \<Rightarrow> 'a \<times> bool"
  ado_configure_kill_switch :: "kill_switch_plan \<Rightarrow> 'a \<Rightarrow> 'a \<times> bool"

definition linux_adapter_ops :: "'x controller_ops_scheme \<Rightarrow> u64 \<Rightarrow> 'w platform \<Rightarrow> 'w linux_adapter adapter_ops" where
  "linux_adapter_ops X now P = \<lparr>ado_is_active = la_session, ado_activate = adapter_activate P,
     ado_deactivate = adapter_deactivate X P, ado_configure_networks = adapter_configure_networks X now P,
     ado_remove_network = adapter_remove_network X P, ado_configure_policy = adapter_configure_policy X now P,
     ado_configure_exit_gateways = adapter_configure_exit_gateways X P,
     ado_configure_kill_switch = adapter_configure_kill_switch P\<rparr>"

section \<open>The agent\<close>

datatype write_outcome = Written | NotWritten | WrittenNotSynced

record agent_env =
  ae_now :: u64
  ae_resolve :: resolver
  ae_write :: "nat \<Rightarrow> write_outcome"

record 'a agent =
  ag_state :: persisted_state
  ag_file :: persisted_state
  ag_adapter :: 'a
  ag_turn_credentials :: "(network_id, turn_credential) hash_map"
  ag_transport_revision :: u64
  ag_observations :: observation_state
  ag_transport_reload :: bool
  ag_authorization_refresh :: bool
  ag_shutting_down :: bool

definition get_state :: "('a agent, 'e, persisted_state) action" where
  "get_state = (\<lambda>w. (w, Inr (ag_state w)))"

definition modify_state :: "(persisted_state \<Rightarrow> persisted_state) \<Rightarrow> ('a agent, 'e, unit) action" where
  "modify_state f = (\<lambda>w. (w\<lparr>ag_state := f (ag_state w)\<rparr>, Inr ()))"

text \<open>\<^verbatim>\<open>write_state_with_protection\<close>: the file is replaced by a rename, after which synchronising the directory may
  still fail.\<close>

definition write_state :: "agent_env \<Rightarrow> nat \<Rightarrow> ('a agent, agent_reason, unit) action" where
  "write_state E k = (\<lambda>w.
     (case ae_write E k of
        Written \<Rightarrow> (w\<lparr>ag_file := ag_state w\<rparr>, Inr ())
      | NotWritten \<Rightarrow> (w, Inl FromLibrary)
      | WrittenNotSynced \<Rightarrow> (w\<lparr>ag_file := ag_state w\<rparr>, Inl FromLibrary)))"

text \<open>\<^verbatim>\<open>persist_state_candidate\<close>: the live state changes only if the candidate was written.\<close>

definition persist_state_candidate :: "agent_env \<Rightarrow> nat \<Rightarrow> persisted_state \<Rightarrow> ('a agent, agent_reason, unit) action" where
  "persist_state_candidate E k candidate = (\<lambda>w.
     (case ae_write E k of
        Written \<Rightarrow> (w\<lparr>ag_file := candidate, ag_state := candidate\<rparr>, Inr ())
      | NotWritten \<Rightarrow> (w, Inl FromLibrary)
      | WrittenNotSynced \<Rightarrow> (w\<lparr>ag_file := candidate\<rparr>, Inl FromLibrary)))"

text \<open>The atomic counter of the revision wraps around.\<close>

definition request_transport_reload :: "('a agent, 'e, unit) action" where
  "request_transport_reload = (\<lambda>w.
     let revision = ag_transport_revision w + 1
     in (w\<lparr>ag_transport_revision := revision, ag_observations := obs_reset revision (ag_observations w),
           ag_transport_reload := True\<rparr>, Inr ()))"

definition set_turn_credential :: "network_id \<Rightarrow> turn_credential option \<Rightarrow> ('a agent, 'e, unit) action" where
  "set_turn_credential i credential = (\<lambda>w. (w\<lparr>ag_turn_credentials :=
     (case credential of
        Some c \<Rightarrow> hm_insert i c (ag_turn_credentials w)
      | None \<Rightarrow> hm_remove i (ag_turn_credentials w))\<rparr>, Inr ()))"

text \<open>Calls of the adapter: one that reports whether it succeeded, and one that fails with the action.\<close>

definition adapter_active :: "'a adapter_ops \<Rightarrow> ('a agent, 'e, bool) action" where
  "adapter_active A = (\<lambda>w. (w, Inr (ado_is_active A (ag_adapter w))))"

definition adapter_call :: "('a \<Rightarrow> 'a \<times> bool) \<Rightarrow> ('a agent, 'e, bool) action" where
  "adapter_call f = (\<lambda>w. case f (ag_adapter w) of (a, ok) \<Rightarrow> (w\<lparr>ag_adapter := a\<rparr>, Inr ok))"

definition adapter_try :: "'e \<Rightarrow> ('a \<Rightarrow> 'a \<times> bool) \<Rightarrow> ('a agent, 'e, unit) action" where
  "adapter_try e f = abind (adapter_call f) (\<lambda>ok. if ok then areturn () else araise e)"

definition adapter_disable :: "'a adapter_ops \<Rightarrow> ('a agent, 'e, unit) action" where
  "adapter_disable A = (\<lambda>w. (w\<lparr>ag_adapter := ado_deactivate A (ag_adapter w)\<rparr>, Inr ()))"

text \<open>\<open>self.adapter.deactivate()\<close> followed by an error.\<close>

definition fail_closed :: "'a adapter_ops \<Rightarrow> 'e \<Rightarrow> ('a agent, 'e, 'r) action" where
  "fail_closed A e = abind (adapter_disable A) (\<lambda>_. araise e)"

lemmas agent_action_defs = get_state_def modify_state_def write_state_def persist_state_candidate_def
  request_transport_reload_def set_turn_credential_def adapter_active_def adapter_call_def adapter_try_def adapter_disable_def
  fail_closed_def

text \<open>The first network with an identifier, as \<^verbatim>\<open>position\<close> and \<^verbatim>\<open>iter_mut().find\<close> reach it.\<close>

fun update_network :: "network_id \<Rightarrow> (joined_network \<Rightarrow> joined_network) \<Rightarrow> joined_network list \<Rightarrow> joined_network list" where
  "update_network i f [] = []"
| "update_network i f (n # ns) = (if vn_id (jn_network n) = i then f n # ns else n # update_network i f ns)"

fun remove_first_network :: "network_id \<Rightarrow> joined_network list \<Rightarrow> joined_network list" where
  "remove_first_network i [] = []"
| "remove_first_network i (n # ns) = (if vn_id (jn_network n) = i then ns else n # remove_first_network i ns)"

definition update_networks :: "(joined_network list \<Rightarrow> joined_network list) \<Rightarrow> persisted_state \<Rightarrow> persisted_state" where
  "update_networks f st = st\<lparr>ps_networks := f (ps_networks st)\<rparr>"

definition kill_switch_of :: "'x agent_ops_scheme \<Rightarrow> agent_env \<Rightarrow> persisted_state \<Rightarrow> agent_reason + kill_switch_plan" where
  "kill_switch_of X E st = kill_switch_plan_from_state X (ae_resolve E) (ae_now E) st"

definition gateways_of :: "'x policy_ops_scheme \<Rightarrow> persisted_state \<Rightarrow> agent_reason + exit_gateway_plan" where
  "gateways_of X st = gateway_plan_from_configs X (ps_exit_gateways st) (ps_networks st)"

section \<open>Relays, exits and gateways\<close>

record relay_config =
  rlc_endpoint :: socket_addr
  rlc_enable_upnp :: bool
  rlc_stun_servers :: "string list"

definition with_relay :: "relay_config \<Rightarrow> persisted_state \<Rightarrow> persisted_state" where
  "with_relay config st = st\<lparr>ps_relay_endpoint := Some (rlc_endpoint config), ps_relay_endpoints := [rlc_endpoint config],
     ps_upnp_enabled := rlc_enable_upnp config, ps_stun_servers := trimmed_servers (rlc_stun_servers config)\<rparr>"

definition configure_relay ::
  "'x agent_ops_scheme \<Rightarrow> 'a adapter_ops \<Rightarrow> agent_env \<Rightarrow> relay_config \<Rightarrow> ('a agent, agent_error, unit) action" where
  "configure_relay X A E config =
     abind get_state (\<lambda>previous.
     abind (modify_state (with_relay config)) (\<lambda>_.
     abind (alift (api_bad_request (kill_switch_of X E (with_relay config previous)))) (\<lambda>plan.
     abind (amap_err AInternal (write_state E 0)) (\<lambda>_.
     abind (adapter_active A) (\<lambda>active.
       if \<not> active then request_transport_reload
       else abind (adapter_call (ado_configure_kill_switch A plan)) (\<lambda>ok.
         if ok then request_transport_reload
         else
           abind (modify_state (\<lambda>_. previous)) (\<lambda>_.
           abind (amap_err AInternal (write_state E 1)) (\<lambda>_.
             fail_closed A (AInternal (Message ''relay bootstrap update could not reconcile the exit kill switch''))))))))))"

definition select_exit :: "network_id \<Rightarrow> exit_node_selection \<Rightarrow> persisted_state \<Rightarrow> persisted_state" where
  "select_exit i selection = update_networks (update_network i (with_exit_selection selection))"

text \<open>The way back when the platform refuses the routes, and when it refuses the kill switch.\<close>

definition restore_selection ::
  "'a adapter_ops \<Rightarrow> agent_env \<Rightarrow> network_id \<Rightarrow> exit_node_selection \<Rightarrow> ('a agent, agent_error, unit) action" where
  "restore_selection A E i previous =
     abind (modify_state (select_exit i previous)) (\<lambda>_.
     abind (amap_err AInternal (write_state E 1)) (\<lambda>_.
     abind get_state (\<lambda>st.
     abind (adapter_call (ado_configure_policy A (ps_networks st))) (\<lambda>ok.
       if \<not> ok then fail_closed A (AInternal (Message ''exit selection was rejected by the platform; policy rollback also failed''))
       else araise (ABadRequest (Message ''exit selection was rejected by the platform and the previous policy was restored''))))))"

definition restore_kill_switch ::
  "'x agent_ops_scheme \<Rightarrow> 'a adapter_ops \<Rightarrow> agent_env \<Rightarrow> network_id \<Rightarrow> exit_node_selection
     \<Rightarrow> ('a agent, agent_error, unit) action" where
  "restore_kill_switch X A E i previous =
     abind (modify_state (select_exit i previous)) (\<lambda>_.
     abind get_state (\<lambda>st.
     abind (alift (api_internal (kill_switch_of X E st))) (\<lambda>plan.
     abind (amap_err AInternal (write_state E 1)) (\<lambda>_.
     abind (adapter_call (ado_configure_policy A (ps_networks st))) (\<lambda>ok1.
     abind (adapter_call (ado_configure_kill_switch A plan)) (\<lambda>ok2.
       if \<not> ok1 \<or> \<not> ok2
       then fail_closed A (AInternal (Message ''exit kill-switch configuration failed; rollback failed''))
       else araise (ABadRequest
              (Message ''exit kill-switch configuration failed and the previous exit selection was restored''))))))))"

definition configure_exit_selection ::
  "'x agent_ops_scheme \<Rightarrow> 'a adapter_ops \<Rightarrow> agent_env \<Rightarrow> network_id \<Rightarrow> exit_node_selection
     \<Rightarrow> ('a agent, agent_error, unit) action" where
  "configure_exit_selection X A E i selection =
     abind get_state (\<lambda>st.
     abind (alift (ok_or (ANotFound (Message ''network does not exist'')) (find_network i (ps_networks st)))) (\<lambda>joined.
     abind (alift (validate_exit_selection X (ae_now E) joined selection)) (\<lambda>_.
       let previous = ncp_exit_node_selection (jn_control_plane joined)
       in if previous = selection then areturn ()
          else
            abind (modify_state (select_exit i selection)) (\<lambda>_.
            abind (alift (api_bad_request (kill_switch_of X E (select_exit i selection st)))) (\<lambda>plan.
            abind (amap_err AInternal (write_state E 0)) (\<lambda>_.
            abind (adapter_call (ado_configure_policy A (ps_networks (select_exit i selection st)))) (\<lambda>ok.
              if \<not> ok then restore_selection A E i previous
              else abind (adapter_call (ado_configure_kill_switch A plan)) (\<lambda>ok.
                if \<not> ok then restore_kill_switch X A E i previous else areturn ()))))))))"

definition with_gateway :: "exit_gateway_config \<Rightarrow> persisted_state \<Rightarrow> persisted_state" where
  "with_gateway config st = st\<lparr>ps_exit_gateways :=
     filter (\<lambda>g. egc_network_id g \<noteq> egc_network_id config) (ps_exit_gateways st) @ [config]\<rparr>"

definition without_gateway :: "network_id \<Rightarrow> persisted_state \<Rightarrow> persisted_state" where
  "without_gateway i st = st\<lparr>ps_exit_gateways := filter (\<lambda>g. egc_network_id g \<noteq> i) (ps_exit_gateways st)\<rparr>"

text \<open>The end that \<^verbatim>\<open>configure_exit_gateway\<close> and \<^verbatim>\<open>remove_exit_gateway\<close> have in common: write, install the rules, and on
  failure restore the previous configuration and rules.\<close>

definition install_gateways ::
  "'x agent_ops_scheme \<Rightarrow> 'a adapter_ops \<Rightarrow> agent_env \<Rightarrow> exit_gateway_config list \<Rightarrow> exit_gateway_plan
     \<Rightarrow> agent_error \<Rightarrow> ('a agent, agent_error, unit) action" where
  "install_gateways X A E previous plan restored =
     abind (amap_err AInternal (write_state E 0)) (\<lambda>_.
     abind (adapter_call (ado_configure_exit_gateways A plan)) (\<lambda>ok.
       if ok then areturn ()
       else
         abind (modify_state (\<lambda>st. st\<lparr>ps_exit_gateways := previous\<rparr>)) (\<lambda>_.
         abind get_state (\<lambda>st.
         abind (alift (api_internal (gateways_of X st))) (\<lambda>rollback.
         abind (amap_err AInternal (write_state E 1)) (\<lambda>_.
         abind (adapter_call (ado_configure_exit_gateways A rollback)) (\<lambda>ok.
           if \<not> ok then fail_closed A (AInternal (Message ''exit gateway configuration failed; rollback also failed''))
           else araise restored)))))))"

definition configure_exit_gateway ::
  "'x agent_ops_scheme \<Rightarrow> 'a adapter_ops \<Rightarrow> agent_env \<Rightarrow> exit_gateway_config \<Rightarrow> ('a agent, agent_error, unit) action" where
  "configure_exit_gateway X A E config =
     abind get_state (\<lambda>st.
     abind (alift (ok_or (ANotFound (Message ''network does not exist''))
              (find_network (egc_network_id config) (ps_networks st)))) (\<lambda>joined.
     abind (alift (validate_local_exit_gateway X (ae_now E) joined (ps_device_id st) config)) (\<lambda>_.
     abind (modify_state (with_gateway config)) (\<lambda>_.
     abind (alift (api_bad_request (gateways_of X (with_gateway config st)))) (\<lambda>plan.
       install_gateways X A E (ps_exit_gateways st) plan (ABadRequest
         (Message ''exit gateway configuration failed and the previous gateway rules were restored'')))))))"

definition remove_exit_gateway ::
  "'x agent_ops_scheme \<Rightarrow> 'a adapter_ops \<Rightarrow> agent_env \<Rightarrow> network_id \<Rightarrow> ('a agent, agent_error, unit) action" where
  "remove_exit_gateway X A E i =
     abind get_state (\<lambda>st.
     abind (modify_state (without_gateway i)) (\<lambda>_.
       if ps_exit_gateways (without_gateway i st) = ps_exit_gateways st then areturn ()
       else
         abind (alift (api_internal (gateways_of X (without_gateway i st)))) (\<lambda>plan.
           install_gateways X A E (ps_exit_gateways st) plan (AInternal
             (Message ''exit gateway removal failed and the previous rules were restored'')))))"

section \<open>Networks and the adapter\<close>

definition add_network ::
  "'x agent_ops_scheme \<Rightarrow> agent_env \<Rightarrow> network_id \<Rightarrow> bytes option \<Rightarrow> upsert_network_request
     \<Rightarrow> ('a agent, agent_error, joined_network) action" where
  "add_network X E new_id random request =
     abind (alift (map_err (\<lambda>e. ABadRequest (FromModel e)) (upsert_network_request_validate X request))) (\<lambda>_.
     abind get_state (\<lambda>st.
       let i = (case unr_id request of Some i \<Rightarrow> i | None \<Rightarrow> new_id)
       in if list_ex (\<lambda>n. vn_id (jn_network n) = i) (ps_networks st)
          then araise (AConflict (Message ''this device already belongs to that network''))
          else
            abind (alift (map_err (\<lambda>e. AInternal (FromCrypto e)) (network_key_generate random))) (\<lambda>key.
              let joined = \<lparr>jn_network = \<lparr>vn_id = i, vn_name = unr_name request, vn_ipv4_prefix = unr_ipv4_prefix request,
                      vn_ipv6_prefix = unr_ipv6_prefix request, vn_relay_policy = unr_relay_policy request\<rparr>,
                    jn_assigned_addresses = [], jn_certificate = None, jn_network_key = key,
                    jn_control_plane = control_plane_default\<rparr>
              in abind (modify_state (update_networks (\<lambda>ns. ns @ [joined]))) (\<lambda>_.
                 abind (amap_err AInternal (write_state E 0)) (\<lambda>_. areturn joined)))))"

definition without_network :: "network_id \<Rightarrow> persisted_state \<Rightarrow> persisted_state" where
  "without_network i st = st\<lparr>ps_networks := filter (\<lambda>n. vn_id (jn_network n) \<noteq> i) (ps_networks st),
     ps_authorizations := hm_remove i (ps_authorizations st),
     ps_exit_gateways := filter (\<lambda>g. egc_network_id g \<noteq> i) (ps_exit_gateways st)\<rparr>"

definition remove_network ::
  "'x agent_ops_scheme \<Rightarrow> 'a adapter_ops \<Rightarrow> agent_env \<Rightarrow> network_id \<Rightarrow> ('a agent, agent_error, unit) action" where
  "remove_network X A E i =
     abind get_state (\<lambda>st.
     abind (alift (ok_or (ANotFound (Message ''network is not enrolled on this device'')) (find_network i (ps_networks st)))) (\<lambda>joined.
     abind (adapter_try (AInternal FromLibrary) (ado_remove_network A joined)) (\<lambda>_.
     abind (modify_state (without_network i)) (\<lambda>_.
     abind (amap_err AInternal (write_state E 0)) (\<lambda>_.
     abind (alift (api_internal (gateways_of X (without_network i st)))) (\<lambda>gateways.
     abind (alift (api_internal (kill_switch_of X E (without_network i st)))) (\<lambda>plan.
     abind (adapter_try (AInternal FromLibrary) (ado_configure_policy A (ps_networks (without_network i st)))) (\<lambda>_.
     abind (adapter_active A) (\<lambda>active.
       if \<not> active then request_transport_reload
       else
         abind (adapter_try (AInternal FromLibrary) (ado_configure_exit_gateways A gateways)) (\<lambda>_.
         abind (adapter_try (AInternal FromLibrary) (ado_configure_kill_switch A plan)) (\<lambda>_.
           request_transport_reload)))))))))))"

definition ensure_adapter_activation_allowed :: "bool \<Rightarrow> agent_error + unit" where
  "ensure_adapter_activation_allowed shutting_down =
     (if shutting_down then Inl (AConflict (Message ''MeshLake agent is shutting down'')) else Inr ())"

definition activate_adapter_transaction ::
  "bool \<Rightarrow> ('w, 'e, unit) action \<Rightarrow> ('w, 'e, unit) action \<Rightarrow> ('w \<Rightarrow> 'w) \<Rightarrow> ('w, 'e, unit) action" where
  "activate_adapter_transaction was_active activate configure rollback =
     abind activate (\<lambda>_ w.
       (case configure w of
          (w1, Inl e) \<Rightarrow> (if was_active then w1 else rollback w1, Inl e)
        | (w1, Inr _) \<Rightarrow> (w1, Inr ())))"

definition activate_adapter ::
  "'x agent_ops_scheme \<Rightarrow> 'a adapter_ops \<Rightarrow> agent_env \<Rightarrow> ('a agent, agent_error, unit) action" where
  "activate_adapter X A E = (\<lambda>w.
     abind (alift (ensure_adapter_activation_allowed (ag_shutting_down w))) (\<lambda>_.
     abind get_state (\<lambda>st.
     abind (alift (api_bad_request (gateways_of X st))) (\<lambda>gateways.
     abind (alift (api_bad_request (kill_switch_of X E st))) (\<lambda>plan.
     abind (adapter_active A) (\<lambda>was_active.
       activate_adapter_transaction was_active
         (adapter_try (AInternal FromLibrary) (ado_activate A))
         (abind (adapter_try (AInternal FromLibrary) (ado_configure_networks A (ps_networks st))) (\<lambda>_.
          abind (adapter_try (AInternal FromLibrary) (ado_configure_exit_gateways A gateways)) (\<lambda>_.
            adapter_try (AInternal FromLibrary) (ado_configure_kill_switch A plan))))
         (\<lambda>w. w\<lparr>ag_adapter := ado_deactivate A (ag_adapter w)\<rparr>)))))) w)"

definition deactivate_adapter :: "'a adapter_ops \<Rightarrow> 'a agent \<Rightarrow> 'a agent" where
  "deactivate_adapter A w = w\<lparr>ag_adapter := ado_deactivate A (ag_adapter w)\<rparr>"

end
