(* ===== verification/Agent_Refresh.thy ===== *)
theory Agent_Refresh
  imports Agent_Core
begin

text \<open>
  What the agent does with the documents of the controller (\<^verbatim>\<open>crates/meshlaked/src/main.rs\<close>): Planet manifests,
  authorizations, policies and enrollments, fetched over HTTP and applied to the state, the adapter and the transport.
  The HTTP exchanges are a record of functions from the URL (and the pinned certificate authority) to the decoded
  answer, \<open>None\<close> standing for every failure to obtain one.
\<close>

section \<open>HTTP\<close>

record agent_http =
  http_client :: bool
  http_planet :: "string option \<Rightarrow> string \<Rightarrow> planet_manifest option"
  http_authorization :: "string option \<Rightarrow> string \<Rightarrow> network_authorization_manifest option"
  http_refresh :: "string option \<Rightarrow> string \<Rightarrow> membership_refresh_request \<Rightarrow> membership_refresh_response option"
  http_policy :: "string option \<Rightarrow> string \<Rightarrow> network_policy_manifest option"

definition controller_http_client :: "'x agent_ops_scheme \<Rightarrow> agent_http \<Rightarrow> string option \<Rightarrow> agent_reason + unit" where
  "controller_http_client X H tls_ca_pem =
     rbind (case tls_ca_pem of
              None \<Rightarrow> Inr ()
            | Some pem \<Rightarrow>
                (case pem_certificates X pem of
                   None \<Rightarrow> Inl (Message ''controller TLS CA PEM bundle is invalid'')
                 | Some certificates \<Rightarrow>
                     if certificates = 0 then Inl (Message ''controller TLS CA PEM bundle contains no certificates'')
                     else Inr ())) (\<lambda>_.
       if http_client H then Inr () else Inl (Message ''cannot construct controller HTTPS client''))"

definition fetch_planet_manifest :: "agent_http \<Rightarrow> string option \<Rightarrow> string \<Rightarrow> agent_reason + planet_manifest" where
  "fetch_planet_manifest H tls_ca_pem u = ok_or (Message ''cannot fetch Planet manifest'') (http_planet H tls_ca_pem u)"

section \<open>Planet\<close>

record planet_config =
  pcf_manifest_url :: string
  pcf_controller_public_key_base64 :: string
  pcf_tls_ca_certificate_pem :: "string option"

definition pem_requested :: "string option \<Rightarrow> bool" where
  "pem_requested pem \<longleftrightarrow> (case pem of None \<Rightarrow> False | Some value \<Rightarrow> trim value \<noteq> [])"

text \<open>The updates of the networks of the same controller, validated before any is applied.\<close>

definition planet_update_for ::
  "'x agent_ops_scheme \<Rightarrow> u64 \<Rightarrow> planet_manifest \<Rightarrow> bytes \<Rightarrow> string \<Rightarrow> string option \<Rightarrow> joined_network
     \<Rightarrow> agent_error + joined_network" where
  "planet_update_for X now manifest pinned_key manifest_url tls_ca_pem n =
     (let cp = jn_control_plane n
      in if ncp_pinned_controller_public_key cp \<noteq> pinned_key then Inr n
         else rbind (validate_planet_update X cp manifest pinned_key (ncp_controller_url cp) now) (\<lambda>update.
                Inr (n\<lparr>jn_control_plane := fst (apply_configured_planet_update cp manifest_url tls_ca_pem update)\<rparr>)))"

definition planet_candidate ::
  "planet_manifest \<Rightarrow> planet_config \<Rightarrow> string \<Rightarrow> string option \<Rightarrow> verified_planet_update \<Rightarrow> joined_network list
     \<Rightarrow> persisted_state \<Rightarrow> persisted_state" where
  "planet_candidate manifest config manifest_url tls_ca_pem update networks st =
     (let relays = map prl_endpoint (vpu_relays update);
          relays = (if relays = [] then [pm_relay_endpoint manifest] else relays)
      in st\<lparr>ps_relay_endpoints := relays, ps_relay_endpoint := Some (hd relays), ps_root_servers := vpu_roots update,
            ps_stun_servers := vpu_stun_servers update,
            ps_planet := Some \<lparr>ppl_manifest_url = manifest_url, ppl_controller_url = vpu_controller_url update,
              ppl_controller_public_key_base64 = trim (pcf_controller_public_key_base64 config),
              ppl_controller_tls_ca_pem = tls_ca_pem\<rparr>,
            ps_networks := networks\<rparr>)"

text \<open>What \<^verbatim>\<open>configure_planet\<close> checks and fetches before it takes the lock.\<close>

definition prepare_planet ::
  "'x agent_ops_scheme \<Rightarrow> agent_http \<Rightarrow> u64 \<Rightarrow> planet_config
     \<Rightarrow> agent_error + (string \<times> string option \<times> bytes \<times> planet_manifest \<times> verified_planet_update)" where
  "prepare_planet X H now config =
     rbind (normalize_http_url X (pcf_manifest_url config) ''Planet manifest URL'') (\<lambda>manifest_url.
       if pem_requested (pcf_tls_ca_certificate_pem config) \<and> \<not> starts_with ''https://'' manifest_url
       then bad_request ''a pinned TLS CA requires an https:// Planet manifest URL''
       else
         rbind (normalize_tls_ca_pem X (pcf_tls_ca_certificate_pem config)) (\<lambda>tls_ca_pem.
         rbind (ok_or (ABadRequest FromLibrary) (base64_decode X (trim (pcf_controller_public_key_base64 config)))) (\<lambda>pinned_key.
           if length pinned_key \<noteq> 32 then bad_request ''Planet controller public key must contain exactly 32 bytes''
           else
             rbind (api_internal (controller_http_client X H tls_ca_pem)) (\<lambda>_.
             rbind (api_bad_request (fetch_planet_manifest H tls_ca_pem manifest_url)) (\<lambda>manifest.
             rbind (validate_planet_update X control_plane_default manifest pinned_key None now) (\<lambda>update.
               if tls_ca_pem \<noteq> None \<and> \<not> starts_with ''https://'' (vpu_controller_url update)
               then bad_request ''a pinned TLS CA requires an https:// Planet controller URL''
               else Inr (manifest_url, tls_ca_pem, pinned_key, manifest, update)))))))"

definition configure_planet ::
  "'x agent_ops_scheme \<Rightarrow> agent_http \<Rightarrow> agent_env \<Rightarrow> planet_config \<Rightarrow> ('a agent, agent_error, unit) action" where
  "configure_planet X H E config =
     abind (alift (prepare_planet X H (ae_now E) config)) (\<lambda>(manifest_url, tls_ca_pem, pinned_key, manifest, update).
     abind get_state (\<lambda>st.
     abind (alift (try_map (planet_update_for X (ae_now E) manifest pinned_key manifest_url tls_ca_pem) (ps_networks st))) (\<lambda>networks.
     abind (amap_err AInternal (persist_state_candidate E 0
              (planet_candidate manifest config manifest_url tls_ca_pem update networks st))) (\<lambda>_.
       request_transport_reload))))"

record planet_refresh_target =
  plt_network_id :: network_id
  plt_manifest_url :: string
  plt_controller_url :: string
  plt_controller_tls_ca_pem :: "string option"
  plt_pinned_controller_public_key :: bytes

definition planet_refresh_target_of :: "joined_network \<Rightarrow> planet_refresh_target option" where
  "planet_refresh_target_of n =
     (let cp = jn_control_plane n
      in case (ncp_planet_manifest_url cp, ncp_controller_url cp) of
           (Some manifest_url, Some controller_url) \<Rightarrow>
             if ncp_pinned_controller_public_key cp = [] then None
             else Some \<lparr>plt_network_id = vn_id (jn_network n), plt_manifest_url = manifest_url,
                    plt_controller_url = controller_url, plt_controller_tls_ca_pem = ncp_controller_tls_ca_pem cp,
                    plt_pinned_controller_public_key = ncp_pinned_controller_public_key cp\<rparr>
         | _ \<Rightarrow> None)"

definition planet_refresh_targets :: "persisted_state \<Rightarrow> planet_refresh_target list" where
  "planet_refresh_targets st = List.map_filter planet_refresh_target_of (ps_networks st)"

definition target_is_current :: "planet_refresh_target \<Rightarrow> network_control_plane \<Rightarrow> bool" where
  "target_is_current target cp \<longleftrightarrow>
     ncp_planet_manifest_url cp = Some (plt_manifest_url target)
     \<and> ncp_controller_url cp = Some (plt_controller_url target)
     \<and> ncp_controller_tls_ca_pem cp = plt_controller_tls_ca_pem target
     \<and> ncp_pinned_controller_public_key cp = plt_pinned_controller_public_key target"

definition error_reason :: "agent_error \<Rightarrow> agent_reason" where
  "error_reason e = (case e of ABadRequest r \<Rightarrow> r | AConflict r \<Rightarrow> r | ANotFound r \<Rightarrow> r | AInternal r \<Rightarrow> r)"

text \<open>\<^verbatim>\<open>refresh_one_planet\<close> once the manifest is there.\<close>

definition apply_planet_refresh ::
  "'x agent_ops_scheme \<Rightarrow> agent_env \<Rightarrow> planet_refresh_target \<Rightarrow> planet_manifest \<Rightarrow> ('a agent, agent_reason, unit) action" where
  "apply_planet_refresh X E target manifest =
     abind get_state (\<lambda>st.
       (case find_network (plt_network_id target) (ps_networks st) of
          None \<Rightarrow> areturn ()
        | Some n \<Rightarrow>
            if \<not> target_is_current target (jn_control_plane n) then areturn ()
            else
              abind (alift (map_err error_reason (validate_planet_update X (jn_control_plane n) manifest
                       (plt_pinned_controller_public_key target) (Some (plt_controller_url target)) (ae_now E)))) (\<lambda>update.
                let (cp, changed) = apply_planet_update (jn_control_plane n) (Some (plt_manifest_url target)) update
                in if \<not> changed then areturn ()
                   else
                     abind (persist_state_candidate E 0 (update_networks
                              (update_network (plt_network_id target) (\<lambda>n. n\<lparr>jn_control_plane := cp\<rparr>)) st)) (\<lambda>_.
                       request_transport_reload))))"

definition refresh_one_planet ::
  "'x agent_ops_scheme \<Rightarrow> agent_http \<Rightarrow> agent_env \<Rightarrow> planet_refresh_target \<Rightarrow> ('a agent, agent_reason, unit) action" where
  "refresh_one_planet X H E target =
     abind (alift (case plt_controller_tls_ca_pem target of
                     None \<Rightarrow> Inr () | Some pem \<Rightarrow> controller_http_client X H (Some pem))) (\<lambda>_.
     abind (alift (fetch_planet_manifest H (plt_controller_tls_ca_pem target) (plt_manifest_url target))) (\<lambda>manifest.
       apply_planet_refresh X E target manifest))"

text \<open>Errors of one network are reported and the loop goes on.\<close>

definition ignore_error :: "('w, 'e, 'r) action \<Rightarrow> 'w \<Rightarrow> 'w" where "ignore_error m w = fst (m w)"

definition refresh_planets_once ::
  "'x agent_ops_scheme \<Rightarrow> agent_http \<Rightarrow> agent_env \<Rightarrow> 'a agent \<Rightarrow> 'a agent" where
  "refresh_planets_once X H E w =
     fold (\<lambda>target. ignore_error (refresh_one_planet X H E target)) (planet_refresh_targets (ag_state w)) w"

section \<open>Authorizations\<close>

definition consider_authorization_hint ::
  "'x authz_ops_scheme \<Rightarrow> u64 \<Rightarrow> authorization_epoch_hint \<Rightarrow> 'a agent \<Rightarrow> 'a agent \<times> bool" where
  "consider_authorization_hint X now hint w =
     (case find_network (aeh_network_id hint) (ps_networks (ag_state w)) of
        None \<Rightarrow> (w, False)
      | Some n \<Rightarrow>
          if \<not> is_ok (hint_verify_from_controller X hint (pinned_controller_key n) now) then (w, False)
          else if aeh_authorization_epoch hint \<le> (case ncp_authorization_manifest (jn_control_plane n) of
                    None \<Rightarrow> 0 | Some a \<Rightarrow> nam_authorization_epoch a) then (w, False)
          else (w\<lparr>ag_authorization_refresh := True\<rparr>, True))"

definition root_registration_material ::
  "'x authz_ops_scheme \<Rightarrow> u64 \<Rightarrow> persisted_state
     \<Rightarrow> (device_id \<times> bytes \<times> (membership_certificate \<times> network_authorization_manifest) list) option" where
  "root_registration_material X now st =
     (case identity_signing_key st of
        None \<Rightarrow> None
      | Some key \<Rightarrow> Some (ps_device_id st, key, List.map_filter (\<lambda>n.
          (case (jn_certificate n, verified_authorization_manifest X n now) of
             (Some certificate, Some authorization) \<Rightarrow>
               if authorizes authorization certificate then Some (certificate, authorization) else None
           | _ \<Rightarrow> None)) (ps_networks st)))"

record authorization_refresh_target =
  art_network_id :: network_id
  art_controller_url :: string
  art_controller_tls_ca_pem :: "string option"
  art_pinned_controller_public_key :: bytes
  art_certificate :: membership_certificate
  art_authorization_epoch :: "u64 option"
  art_turn_credential_refresh_required :: bool

definition turn_refresh_required ::
  "u64 \<Rightarrow> (network_id, turn_credential) hash_map \<Rightarrow> joined_network \<Rightarrow> bool" where
  "turn_refresh_required now credentials n \<longleftrightarrow>
     ncp_verified_turn_servers (jn_control_plane n) \<noteq> []
     \<and> (case hm_get credentials (vn_id (jn_network n)) of
          None \<Rightarrow> True
        | Some c \<Rightarrow> tc_expires_at_unix_seconds c \<le> saturating_add now CERTIFICATE_REFRESH_MARGIN_SECONDS)"

definition authorization_target_of ::
  "u64 \<Rightarrow> (network_id, turn_credential) hash_map \<Rightarrow> joined_network \<Rightarrow> authorization_refresh_target option" where
  "authorization_target_of now credentials n =
     (let cp = jn_control_plane n
      in case (ncp_controller_url cp, jn_certificate n) of
           (Some controller_url, Some certificate) \<Rightarrow>
             if ncp_pinned_controller_public_key cp = [] then None
             else Some \<lparr>art_network_id = vn_id (jn_network n), art_controller_url = controller_url,
                    art_controller_tls_ca_pem = ncp_controller_tls_ca_pem cp,
                    art_pinned_controller_public_key = ncp_pinned_controller_public_key cp, art_certificate = certificate,
                    art_authorization_epoch = map_option nam_authorization_epoch (ncp_authorization_manifest cp),
                    art_turn_credential_refresh_required = turn_refresh_required now credentials n\<rparr>
         | _ \<Rightarrow> None)"

definition authorization_refresh_material ::
  "u64 \<Rightarrow> 'a agent \<Rightarrow> (device_id \<times> bytes \<times> authorization_refresh_target list) option" where
  "authorization_refresh_material now w =
     (case identity_signing_key (ag_state w) of
        None \<Rightarrow> None
      | Some key \<Rightarrow> Some (ps_device_id (ag_state w), key,
          List.map_filter (authorization_target_of now (ag_turn_credentials w)) (ps_networks (ag_state w))))"

datatype authorization_refresh_action =
    UpdateManifest network_authorization_manifest
  | Update membership_certificate bytes network_authorization_manifest "turn_credential option"
  | Revoke

abbreviation fetch_failed :: "string \<Rightarrow> agent_reason + 'a" where "fetch_failed m \<equiv> Inl (Message m)"

text \<open>The second half of \<^verbatim>\<open>fetch_authorization_action\<close>: the answer of the controller to a refresh request.\<close>

definition check_refresh_response ::
  "'x authz_ops_scheme \<Rightarrow> u64 \<Rightarrow> device_id \<Rightarrow> bytes \<Rightarrow> authorization_refresh_target \<Rightarrow> network_authorization_manifest
     \<Rightarrow> membership_refresh_response \<Rightarrow> agent_reason + authorization_refresh_action" where
  "check_refresh_response X now device identity target authorization response =
     rbind (map_err FromCrypto (authorization_verify_from_controller X (mrs_authorization response)
              (art_pinned_controller_public_key target) now)) (\<lambda>_.
       if nam_network_id (mrs_authorization response) \<noteq> art_network_id target
       then fetch_failed ''refreshed authorization belongs to another network''
       else if nam_authorization_epoch (mrs_authorization response) < nam_authorization_epoch authorization
       then fetch_failed ''membership refresh returned an older authorization epoch''
       else if mrs_revoked response then
         (if \<not> list_ex (\<lambda>member. am_device_id member = device
               \<and> am_certificate_id member = mc_certificate_id (art_certificate target)
               \<and> am_device_public_key member = verifying_key X identity) (nam_active_members (mrs_authorization response))
          then Inr Revoke
          else fetch_failed ''membership refresh revocation is not supported by the signed authorization'')
       else
         rbind (ok_or (Message ''controller refresh response contains no certificate'') (mrs_certificate response)) (\<lambda>certificate.
         rbind (map_err FromCrypto (certificate_verify_from_controller X certificate
                  (art_pinned_controller_public_key target) now)) (\<lambda>_.
           if mcl_network_id (mc_claims certificate) \<noteq> art_network_id target
              \<or> mcl_device_id (mc_claims certificate) \<noteq> device
              \<or> mcl_device_public_key (mc_claims certificate) \<noteq> verifying_key X identity
              \<or> mc_certificate_id certificate \<noteq> mc_certificate_id (art_certificate target)
              \<or> \<not> authorizes (mrs_authorization response) certificate
           then fetch_failed ''controller refresh response does not authorize this device''
           else
             rbind (map_err FromCrypto (network_key_from_slice (mrs_network_key response))) (\<lambda>_.
               if art_turn_credential_refresh_required target \<and> mrs_turn_credential response = None
               then fetch_failed ''controller did not return the required TURN credential''
               else Inr (Update certificate (mrs_network_key response) (mrs_authorization response)
                      (mrs_turn_credential response))))))"

definition expires_soon :: "u64 \<Rightarrow> membership_certificate \<Rightarrow> bool" where
  "expires_soon now certificate \<longleftrightarrow> (case mcl_expires_at_unix_seconds (mc_claims certificate) of
     None \<Rightarrow> False | Some expiry \<Rightarrow> expiry \<le> saturating_add now CERTIFICATE_REFRESH_MARGIN_SECONDS)"

text \<open>The first half: what the current authorization of the network says; \<open>None\<close> asks for a refresh.\<close>

definition check_authorization ::
  "'x authz_ops_scheme \<Rightarrow> u64 \<Rightarrow> device_id \<Rightarrow> bytes \<Rightarrow> authorization_refresh_target \<Rightarrow> network_authorization_manifest
     \<Rightarrow> agent_reason + authorization_refresh_action option" where
  "check_authorization X now device identity target authorization =
     rbind (map_err FromCrypto (authorization_verify_from_controller X authorization
              (art_pinned_controller_public_key target) now)) (\<lambda>_.
       if nam_network_id authorization \<noteq> art_network_id target
       then fetch_failed ''controller returned authorization for another network''
       else if (case art_authorization_epoch target of
                  None \<Rightarrow> False | Some current \<Rightarrow> nam_authorization_epoch authorization < current)
       then fetch_failed ''controller returned an older authorization epoch''
       else case find (\<lambda>member. am_device_id member = device) (nam_active_members authorization) of
         None \<Rightarrow> Inr (Some Revoke)
       | Some member \<Rightarrow>
           if am_device_public_key member \<noteq> verifying_key X identity
              \<or> am_certificate_id member \<noteq> mc_certificate_id (art_certificate target)
           then Inr (Some Revoke)
           else if authorizes authorization (art_certificate target) \<and> \<not> expires_soon now (art_certificate target)
                   \<and> \<not> art_turn_credential_refresh_required target
           then Inr (Some (UpdateManifest authorization))
           else Inr None)"

definition fetch_authorization_action ::
  "'x agent_ops_scheme \<Rightarrow> agent_http \<Rightarrow> u64 \<Rightarrow> bytes \<Rightarrow> device_id \<Rightarrow> bytes \<Rightarrow> authorization_refresh_target
     \<Rightarrow> agent_reason + authorization_refresh_action" where
  "fetch_authorization_action X H now nonce device identity target =
     (let base = trim_end_matches CHR ''/'' (art_controller_url target)
      in rbind (ok_or (Message ''cannot contact controller'') (http_authorization H (art_controller_tls_ca_pem target)
                  (base @ ''/v1/networks/'' @ show_uuid X (art_network_id target) @ ''/authorization''))) (\<lambda>authorization.
         rbind (check_authorization X now device identity target authorization) (\<lambda>decided.
           (case decided of
              Some action \<Rightarrow> Inr action
            | None \<Rightarrow>
                rbind (map_err FromCrypto (refresh_sign X (art_network_id target) device
                         (mc_certificate_id (art_certificate target)) now nonce identity)) (\<lambda>request.
                rbind (ok_or (Message ''cannot refresh membership'')
                         (http_refresh H (art_controller_tls_ca_pem target) (base @ ''/v1/membership/refresh'') request)) (\<lambda>response.
                  check_refresh_response X now device identity target authorization response))))))"

section \<open>Applying authorizations\<close>

definition with_control_plane :: "(network_control_plane \<Rightarrow> network_control_plane) \<Rightarrow> joined_network \<Rightarrow> joined_network" where
  "with_control_plane f n = n\<lparr>jn_control_plane := f (jn_control_plane n)\<rparr>"

text \<open>The network after an action, whether the transport must be reloaded, and the new TURN credential if there is to be
  one; \<open>None\<close> for the network means that it is removed.\<close>

definition act_on_network ::
  "u64 \<Rightarrow> authorization_refresh_action \<Rightarrow> joined_network
     \<Rightarrow> agent_error + (joined_network option \<times> bool \<times> turn_credential option option)" where
  "act_on_network now action n =
     (case action of
        UpdateManifest authorization \<Rightarrow>
          Inr (Some (with_control_plane (\<lambda>cp. cp\<lparr>ncp_authorization_manifest := Some authorization\<rparr>) n),
               (case ncp_authorization_manifest (jn_control_plane n) of
                  None \<Rightarrow> True
                | Some previous \<Rightarrow> nam_authorization_epoch previous \<noteq> nam_authorization_epoch authorization
                    \<or> nam_network_key_epoch previous \<noteq> nam_network_key_epoch authorization), None)
      | Update certificate network_key authorization turn_credential \<Rightarrow>
          rbind (case turn_credential of None \<Rightarrow> Inr () | Some c \<Rightarrow> validate_turn_credential now c) (\<lambda>_.
            Inr (Some (with_control_plane (\<lambda>cp. cp\<lparr>ncp_authorization_manifest := Some authorization\<rparr>)
                   (n\<lparr>jn_assigned_addresses := mcl_assigned_addresses (mc_claims certificate), jn_certificate := Some certificate,
                      jn_network_key := network_key\<rparr>)), True, Some turn_credential))
      | Revoke \<Rightarrow> Inr (None, True, Some None))"

text \<open>A policy that the new authorization no longer supports is dropped.\<close>

definition drop_unsupported_policy :: "'x policy_ops_scheme \<Rightarrow> u64 \<Rightarrow> joined_network \<Rightarrow> joined_network" where
  "drop_unsupported_policy X now n =
     (let cp = jn_control_plane n
      in case (ncp_policy_manifest cp, ncp_authorization_manifest cp) of
           (Some policy, Some authorization) \<Rightarrow>
             if is_ok (policy_verify_for_network X policy (vn_id (jn_network n)) (ncp_pinned_controller_public_key cp)
                  authorization now None) then n
             else with_control_plane (\<lambda>cp. cp\<lparr>ncp_policy_manifest := None\<rparr>) n
         | _ \<Rightarrow> n)"

definition clear_gateways :: "persisted_state \<Rightarrow> persisted_state \<times> bool" where
  "clear_gateways st =
     (let (kept, cleared) = clear_unusable_exit_gateways (ps_exit_gateways st) (ps_networks st) (ps_device_id st)
      in (st\<lparr>ps_exit_gateways := kept\<rparr>, cleared))"

text \<open>The state after an action on the network \<open>n\<close>, and whether an exit selection or a gateway was withdrawn.\<close>

definition authorized_state ::
  "'x policy_ops_scheme \<Rightarrow> u64 \<Rightarrow> network_id \<Rightarrow> joined_network option \<Rightarrow> persisted_state \<Rightarrow> persisted_state \<times> bool \<times> bool" where
  "authorized_state X now i acted st =
     (case acted of
        None \<Rightarrow>
          (let (st1, gateways_cleared) = clear_gateways (update_networks (remove_first_network i) st)
           in (st1, False, gateways_cleared))
      | Some n \<Rightarrow>
          (let (n1, selection_cleared) = clear_unusable_exit_selection (drop_unsupported_policy X now n);
               (st1, gateways_cleared) = clear_gateways (update_networks (update_network i (\<lambda>_. n1)) st)
           in (st1, selection_cleared, gateways_cleared)))"

text \<open>The last part: gateway rules and kill switch of an active adapter.\<close>

definition reconcile_exits ::
  "'a adapter_ops \<Rightarrow> agent_env \<Rightarrow> bool \<Rightarrow> exit_gateway_config list option \<Rightarrow> exit_gateway_plan \<Rightarrow> kill_switch_plan
     \<Rightarrow> ('a agent, agent_reason, unit) action" where
  "reconcile_exits A E gateways_cleared previous_gateways gateways plan =
     abind (adapter_active A) (\<lambda>active.
       if \<not> active then areturn ()
       else
         abind (adapter_call (ado_configure_exit_gateways A gateways)) (\<lambda>ok.
           if \<not> ok then
             (if gateways_cleared then fail_closed A (Message ''gateway-rule cleanup failed; adapter was disabled fail closed'')
              else
                (case previous_gateways of
                   None \<Rightarrow> araise (Message ''could not apply local exit-gateway rules'')
                 | Some previous \<Rightarrow>
                     abind (modify_state (\<lambda>st. st\<lparr>ps_exit_gateways := previous\<rparr>)) (\<lambda>_.
                     abind (write_state E 1) (\<lambda>_.
                       araise (Message ''could not apply local exit-gateway rules; persisted gateway configuration was restored'')))))
           else
             abind (adapter_call (ado_configure_kill_switch A plan)) (\<lambda>ok.
               if \<not> ok then fail_closed A (Message ''could not reconcile the exit kill switch; adapter was disabled fail closed'')
               else areturn ())))"

text \<open>The adapter after a network was removed or changed.\<close>

definition adapt_networks ::
  "'a adapter_ops \<Rightarrow> joined_network option \<Rightarrow> bool \<Rightarrow> bool \<Rightarrow> joined_network list \<Rightarrow> ('a agent, agent_reason, unit) action" where
  "adapt_networks A removed reload withdrawn networks =
     (case removed of
        Some n \<Rightarrow>
          abind (adapter_call (ado_remove_network A n)) (\<lambda>ok.
            if \<not> ok then fail_closed A (Message ''controller revoked network but adapter address cleanup failed'')
            else
              abind (adapter_call (ado_configure_policy A networks)) (\<lambda>ok.
                if \<not> ok then fail_closed A (Message ''controller revoked network but policy cleanup failed'')
                else areturn ()))
      | None \<Rightarrow>
          abind (adapter_active A) (\<lambda>active.
            if reload \<and> active then
              abind (adapter_call (ado_configure_networks A networks)) (\<lambda>ok.
                if ok then areturn ()
                else if withdrawn then fail_closed A (Message ''authorization update withdrew exit privileges but platform policy cleanup failed'')
                else araise FromLibrary)
            else areturn ()))"

text \<open>What follows once the action is known to be valid: the state, the file, the credential, the transport, the adapter.\<close>

definition apply_acted ::
  "'x agent_ops_scheme \<Rightarrow> 'a adapter_ops \<Rightarrow> agent_env \<Rightarrow> network_id \<Rightarrow> joined_network
     \<Rightarrow> joined_network option \<times> bool \<times> turn_credential option option \<Rightarrow> ('a agent, agent_reason, unit) action" where
  "apply_acted X A E i n = (\<lambda>(acted, reload, credential).
     abind get_state (\<lambda>st.
       let (st1, selection_cleared, gateways_cleared) = authorized_state X (ae_now E) i acted st
       in abind (modify_state (\<lambda>_. st1)) (\<lambda>_.
          abind (alift (gateways_of X st1)) (\<lambda>gateways.
          abind (alift (kill_switch_of X E st1)) (\<lambda>plan.
          abind (write_state E 0) (\<lambda>_.
          abind (case credential of None \<Rightarrow> areturn () | Some c \<Rightarrow> set_turn_credential i c) (\<lambda>_.
          abind (if reload then request_transport_reload else areturn ()) (\<lambda>_.
          abind (adapt_networks A (if acted = None then Some n else None) reload
                   (selection_cleared \<or> gateways_cleared) (ps_networks st1)) (\<lambda>_.
            reconcile_exits A E gateways_cleared (Some (ps_exit_gateways st)) gateways plan)))))))))"

definition apply_authorization_action ::
  "'x agent_ops_scheme \<Rightarrow> 'a adapter_ops \<Rightarrow> agent_env \<Rightarrow> authorization_refresh_target \<Rightarrow> authorization_refresh_action
     \<Rightarrow> ('a agent, agent_reason, unit) action" where
  "apply_authorization_action X A E target action =
     abind get_state (\<lambda>st.
       (case find_network (art_network_id target) (ps_networks st) of
          None \<Rightarrow> areturn ()
        | Some n \<Rightarrow>
            if map_option mc_certificate_id (jn_certificate n) \<noteq> Some (mc_certificate_id (art_certificate target)) then areturn ()
            else abind (alift (map_err error_reason (act_on_network (ae_now E) action n)))
                   (apply_acted X A E (art_network_id target) n)))"

section \<open>Policies\<close>

definition restored_policy ::
  "network_policy_manifest option \<Rightarrow> exit_node_selection \<Rightarrow> joined_network \<Rightarrow> joined_network" where
  "restored_policy policy selection =
     with_control_plane (\<lambda>cp. cp\<lparr>ncp_policy_manifest := policy, ncp_exit_node_selection := selection\<rparr>)"

definition policy_rolled_back :: "network_policy_manifest option \<Rightarrow> network_policy_manifest \<Rightarrow> bool" where
  "policy_rolled_back previous policy \<longleftrightarrow>
     (case previous of
        None \<Rightarrow> False
      | Some previous \<Rightarrow>
          npm_policy_epoch policy < npm_policy_epoch previous
          \<or> (npm_policy_epoch policy = npm_policy_epoch previous
             \<and> (\<not> same_policy_semantics policy previous
                \<or> npm_issued_at_unix_seconds policy < npm_issued_at_unix_seconds previous)))"

definition checked_policy ::
  "'x policy_ops_scheme \<Rightarrow> u64 \<Rightarrow> network_id \<Rightarrow> joined_network \<Rightarrow> network_policy_manifest \<Rightarrow> agent_reason + unit" where
  "checked_policy X now i n policy =
     (let cp = jn_control_plane n; previous = ncp_policy_manifest cp
      in rbind (ok_or (Message ''network has no current authorization manifest'') (ncp_authorization_manifest cp)) (\<lambda>authorization.
         rbind (map_err FromCrypto (authorization_verify_from_controller X authorization
                  (ncp_pinned_controller_public_key cp) now)) (\<lambda>_.
           if policy_rolled_back previous policy
           then Inl (Message ''controller attempted a policy rollback or same-epoch mutation'')
           else map_err FromPolicy (policy_verify_for_network X policy i (ncp_pinned_controller_public_key cp) authorization now
                  (case previous of
                     None \<Rightarrow> None
                   | Some p \<Rightarrow> if npm_policy_epoch p \<noteq> npm_policy_epoch policy then Some (npm_policy_epoch p) else None)))))"

definition stored_policy_state ::
  "network_id \<Rightarrow> network_policy_manifest \<Rightarrow> joined_network \<Rightarrow> persisted_state \<Rightarrow> persisted_state \<times> bool \<times> bool" where
  "stored_policy_state i policy n st =
     (let (n1, selection_cleared) = clear_unusable_exit_selection
            (with_control_plane (\<lambda>cp. cp\<lparr>ncp_policy_manifest := Some policy\<rparr>) n);
          (st1, gateways_cleared) = clear_gateways (update_networks (update_network i (\<lambda>_. n1)) st)
      in (st1, selection_cleared, gateways_cleared))"

text \<open>The way back when the platform refuses the new policy.\<close>

definition restore_policy ::
  "'a adapter_ops \<Rightarrow> agent_env \<Rightarrow> network_id \<Rightarrow> joined_network \<Rightarrow> exit_gateway_config list \<Rightarrow> ('a agent, agent_reason, unit) action" where
  "restore_policy A E i n previous_gateways =
     abind (modify_state (\<lambda>st. (update_networks (update_network i (restored_policy (ncp_policy_manifest (jn_control_plane n))
              (ncp_exit_node_selection (jn_control_plane n)))) st)\<lparr>ps_exit_gateways := previous_gateways\<rparr>)) (\<lambda>_.
     abind (write_state E 1) (\<lambda>_.
     abind get_state (\<lambda>st.
     abind (adapter_call (ado_configure_policy A (ps_networks st))) (\<lambda>ok.
       if \<not> ok then fail_closed A (Message ''policy application failed; adapter rollback also failed'')
       else araise (Message ''policy application failed; persisted policy was restored'')))))"

definition apply_policy_manifest ::
  "'x agent_ops_scheme \<Rightarrow> 'a adapter_ops \<Rightarrow> agent_env \<Rightarrow> network_id \<Rightarrow> network_policy_manifest
     \<Rightarrow> ('a agent, agent_reason, unit) action" where
  "apply_policy_manifest X A E i policy =
     abind get_state (\<lambda>st.
     abind (alift (ok_or (Message ''network was removed while policy was being fetched'') (find_network i (ps_networks st)))) (\<lambda>n.
     abind (alift (checked_policy X (ae_now E) i n policy)) (\<lambda>_.
       if ncp_policy_manifest (jn_control_plane n) = Some policy then areturn ()
       else
         let (st1, selection_cleared, gateways_cleared) = stored_policy_state i policy n st
         in abind (modify_state (\<lambda>_. st1)) (\<lambda>_.
            abind (alift (gateways_of X st1)) (\<lambda>gateways.
            abind (alift (kill_switch_of X E st1)) (\<lambda>plan.
            abind (write_state E 0) (\<lambda>_.
            abind (adapter_call (ado_configure_policy A (ps_networks st1))) (\<lambda>ok.
              if \<not> ok then
                (if selection_cleared \<or> gateways_cleared
                 then fail_closed A (Message ''policy withdrew a selected exit gateway but platform policy application failed'')
                 else restore_policy A E i n (ps_exit_gateways st))
              else
                abind (reconcile_exits A E gateways_cleared None gateways plan) (\<lambda>_.
                  request_transport_reload))))))))) "

definition refresh_policy ::
  "'x agent_ops_scheme \<Rightarrow> agent_http \<Rightarrow> 'a adapter_ops \<Rightarrow> agent_env \<Rightarrow> authorization_refresh_target
     \<Rightarrow> ('a agent, agent_reason, unit) action" where
  "refresh_policy X H A E target =
     abind (alift (case art_controller_tls_ca_pem target of
                     None \<Rightarrow> Inr () | Some pem \<Rightarrow> controller_http_client X H (Some pem))) (\<lambda>_.
     abind (alift (ok_or (Message ''cannot fetch network policy'') (http_policy H (art_controller_tls_ca_pem target)
              (trim_end_matches CHR ''/'' (art_controller_url target) @ ''/v1/networks/''
               @ show_uuid X (art_network_id target) @ ''/policy'')))) (\<lambda>policy.
       apply_policy_manifest X A E (art_network_id target) policy))"

definition expire_policy :: "u64 \<Rightarrow> joined_network \<Rightarrow> joined_network \<times> bool" where
  "expire_policy now n =
     (case ncp_policy_manifest (jn_control_plane n) of
        None \<Rightarrow> (n, False)
      | Some policy \<Rightarrow>
          if now > npm_expires_at_unix_seconds policy
          then (fst (clear_unusable_exit_selection (with_control_plane (\<lambda>cp. cp\<lparr>ncp_policy_manifest := None\<rparr>) n)), True)
          else (n, False))"

definition expire_stale_policies ::
  "'x agent_ops_scheme \<Rightarrow> 'a adapter_ops \<Rightarrow> agent_env \<Rightarrow> ('a agent, agent_reason, unit) action" where
  "expire_stale_policies X A E =
     abind get_state (\<lambda>st.
       let expired = map (expire_policy (ae_now E)) (ps_networks st);
           (st1, gateways_cleared) = clear_gateways (st\<lparr>ps_networks := map fst expired\<rparr>)
       in abind (modify_state (\<lambda>_. st1)) (\<lambda>_.
            if \<not> list_ex snd expired \<and> \<not> gateways_cleared then areturn ()
            else
              abind (write_state E 0) (\<lambda>_.
              abind (alift (gateways_of X st1)) (\<lambda>gateways.
              abind (alift (kill_switch_of X E st1)) (\<lambda>plan.
              abind (adapter_try FromLibrary (ado_configure_policy A (ps_networks st1))) (\<lambda>_.
              abind (reconcile_exits A E gateways_cleared None gateways plan) (\<lambda>_.
                request_transport_reload)))))))"

text \<open>One round of the authorization supervisor; \<open>nonces\<close> are the fresh nonces of the requests.\<close>

definition refresh_target ::
  "'x agent_ops_scheme \<Rightarrow> agent_http \<Rightarrow> 'a adapter_ops \<Rightarrow> agent_env \<Rightarrow> device_id \<Rightarrow> bytes \<Rightarrow> bytes
     \<Rightarrow> authorization_refresh_target \<Rightarrow> ('a agent, agent_reason, unit) action" where
  "refresh_target X H A E device identity nonce target =
     abind (alift (case art_controller_tls_ca_pem target of
                     None \<Rightarrow> Inr () | Some pem \<Rightarrow> controller_http_client X H (Some pem))) (\<lambda>_.
     abind (alift (fetch_authorization_action X H (ae_now E) nonce device identity target)) (\<lambda>action.
     abind (apply_authorization_action X A E target action) (\<lambda>_.
       refresh_policy X H A E target)))"

definition refresh_authorizations_once ::
  "'x agent_ops_scheme \<Rightarrow> agent_http \<Rightarrow> 'a adapter_ops \<Rightarrow> agent_env \<Rightarrow> (network_id \<Rightarrow> bytes) \<Rightarrow> ('a agent, agent_reason, unit) action" where
  "refresh_authorizations_once X H A E nonces =
     abind (expire_stale_policies X A E) (\<lambda>_ w.
       (case authorization_refresh_material (ae_now E) w of
          None \<Rightarrow> (w, Inl (Message ''node identity secret key is invalid''))
        | Some (device, identity, targets) \<Rightarrow>
            (fold (\<lambda>target. ignore_error (refresh_target X H A E device identity (nonces (art_network_id target)) target)) targets w,
             Inr ())))"

end
