(* ===== verification/Agent_Migration.thy ===== *)
theory Agent_Migration
  imports Agent_Exits
begin

text \<open>
  The migration and validation of a persisted agent state at startup (\<^verbatim>\<open>migrate_and_validate_agent_state\<close> of
  \<^verbatim>\<open>crates/meshlaked/src/main.rs\<close>). Loops that change networks in place and remember whether they changed
  anything return the new network and a flag; \<open>map_changed\<close> runs such a step over a list. The theorems show that
  whatever is loaded satisfies the invariant of the running agent, that a second migration changes nothing, and that
  an identity is never replaced once the schema is current.
\<close>

section \<open>Migration of Planet settings\<close>

fun map_changed :: "('a \<Rightarrow> 'a \<times> bool) \<Rightarrow> 'a list \<Rightarrow> 'a list \<times> bool" where
  "map_changed f [] = ([], False)"
| "map_changed f (x # xs) = (let (y, c) = f x; (ys, d) = map_changed f xs in (y # ys, c \<or> d))"

definition result_ok :: "'e + 'a \<Rightarrow> 'a option" where
  "result_ok r = (case r of Inl _ \<Rightarrow> None | Inr x \<Rightarrow> Some x)"

text \<open>Steps in sequence: the flags accumulate.\<close>

fun run_steps :: "('a \<Rightarrow> 'a \<times> bool) list \<Rightarrow> 'a \<Rightarrow> 'a \<times> bool" where
  "run_steps [] x = (x, False)"
| "run_steps (f # fs) x = (let (y, c) = f x; (z, d) = run_steps fs y in (z, c \<or> d))"

definition inferred_version :: "network_control_plane \<Rightarrow> u8" where
  "inferred_version cp =
     (if list_all (\<lambda>r. prl_identity r \<noteq> None) (ncp_verified_relays cp)
         \<and> list_all (\<lambda>r. pr_identity r \<noteq> None) (ncp_verified_roots cp) then 3 else 2)"

text \<open>The manifest whose digest stands for a control plane that was accepted before digests were kept.\<close>

definition inferred_manifest :: "network_control_plane \<Rightarrow> planet_manifest" where
  "inferred_manifest cp =
     (let relays = sort_key prl_priority (ncp_verified_relays cp)
      in \<lparr>pm_version = (case ncp_planet_manifest_version cp of None \<Rightarrow> inferred_version cp | Some v \<Rightarrow> v),
          pm_controller_url = (case ncp_controller_url cp of None \<Rightarrow> [] | Some u \<Rightarrow> u),
          pm_relay_endpoint = prl_endpoint (hd relays), pm_roots = sort_key pr_priority (ncp_verified_roots cp),
          pm_relays = relays, pm_tls_relays = [], pm_turn_servers = [],
          pm_stun_servers = remdups_adj (sort (ncp_verified_stun_servers cp)), pm_issued_at_unix_seconds = 0,
          pm_expires_at_unix_seconds = None, pm_controller_public_key = ncp_pinned_controller_public_key cp,
          pm_signature = []\<rparr>)"

definition infer_version :: "network_control_plane \<Rightarrow> network_control_plane \<times> bool" where
  "infer_version cp =
     (if ncp_planet_manifest_version cp = None
      then (cp\<lparr>ncp_planet_manifest_version := Some (inferred_version cp)\<rparr>, True) else (cp, False))"

definition infer_issued_at :: "network_control_plane \<Rightarrow> network_control_plane \<times> bool" where
  "infer_issued_at cp =
     (if ncp_planet_last_issued_at_unix_seconds cp = None
      then (cp\<lparr>ncp_planet_last_issued_at_unix_seconds := Some 0\<rparr>, True) else (cp, False))"

definition infer_digest :: "'x planet_ops_scheme \<Rightarrow> network_control_plane \<Rightarrow> network_control_plane \<times> bool" where
  "infer_digest X cp =
     (if ncp_planet_semantic_digest cp = []
      then (case semantic_digest X (inferred_manifest cp) of
              Inl _ \<Rightarrow> (cp, False) | Inr digest \<Rightarrow> (cp\<lparr>ncp_planet_semantic_digest := digest\<rparr>, True))
      else (cp, False))"

definition migrate_planet_acceptance_metadata ::
  "'x planet_ops_scheme \<Rightarrow> network_control_plane \<Rightarrow> network_control_plane \<times> bool" where
  "migrate_planet_acceptance_metadata X cp =
     (if ncp_verified_relays cp = [] \<or> ncp_controller_url cp = None
         \<or> length (ncp_pinned_controller_public_key cp) \<noteq> 32
      then (cp, False)
      else run_steps [infer_version, infer_issued_at, infer_digest X] cp)"

text \<open>What the loop over the networks reads of the settings of a single Planet.\<close>

record legacy_planet =
  lp_controller_url :: "string option"
  lp_manifest_url :: "string option"
  lp_controller_key :: "bytes option"
  lp_tls_ca_pem :: "string option"
  lp_tls_urls_are_https :: bool
  lp_relays :: "planet_relay list"

definition filter_option :: "('a \<Rightarrow> bool) \<Rightarrow> 'a option \<Rightarrow> 'a option" where
  "filter_option P x = (case x of None \<Rightarrow> None | Some v \<Rightarrow> if P v then Some v else None)"

definition legacy_planet_of :: "'x agent_ops_scheme \<Rightarrow> persisted_state \<Rightarrow> legacy_planet" where
  "legacy_planet_of X st =
     (let controller_url = Option.bind (ps_planet st)
            (\<lambda>p. result_ok (normalize_http_url X (ppl_controller_url p) ''legacy Planet controller URL''));
          manifest_url = Option.bind (ps_planet st)
            (\<lambda>p. result_ok (normalize_http_url X (ppl_manifest_url p) ''legacy Planet manifest URL''));
          is_https = (\<lambda>u. case u of None \<Rightarrow> False | Some u \<Rightarrow> starts_with ''https://'' u)
      in \<lparr>lp_controller_url = controller_url, lp_manifest_url = manifest_url,
          lp_controller_key = filter_option (\<lambda>key. length key = 32)
            (Option.bind (ps_planet st) (\<lambda>p. base64_decode X (trim (ppl_controller_public_key_base64 p)))),
          lp_tls_ca_pem = filter_option (\<lambda>value. trim value \<noteq> [])
            (Option.bind (ps_planet st) ppl_controller_tls_ca_pem),
          lp_tls_urls_are_https = (is_https controller_url \<and> is_https manifest_url),
          lp_relays = map (\<lambda>(i, e). \<lparr>prl_endpoint = e, prl_priority = of_nat (min i 65535), prl_identity = None\<rparr>)
            (List.enumerate 0 (ps_relay_endpoints st))\<rparr>)"

definition legacy_binding_is_safe ::
  "'x agent_ops_scheme \<Rightarrow> legacy_planet \<Rightarrow> joined_network \<Rightarrow> bool" where
  "legacy_binding_is_safe X lp joined \<longleftrightarrow>
     (let cp = jn_control_plane joined;
          configured_key = (if ncp_pinned_controller_public_key cp \<noteq> [] then Some (ncp_pinned_controller_public_key cp)
            else None);
          certificate_key = map_option mc_controller_public_key (jn_certificate joined);
          normalized = Option.bind (ncp_controller_url cp)
            (\<lambda>u. result_ok (normalize_http_url X u ''network controller URL''));
          compatible = (case ncp_controller_url cp of None \<Rightarrow> True | Some _ \<Rightarrow> normalized = lp_controller_url lp)
      in compatible \<and> lp_controller_url lp \<noteq> None
         \<and> (case lp_controller_key lp of
              None \<Rightarrow> False
            | Some legacy_key \<Rightarrow>
                list_all (\<lambda>key. length key = 32 \<and> key = legacy_key) (List.map_filter id [configured_key, certificate_key])))"

text \<open>The steps of one round of the loop, each on the control plane of the network.\<close>

definition bind_controller_url :: "legacy_planet \<Rightarrow> bool \<Rightarrow> network_control_plane \<Rightarrow> network_control_plane \<times> bool" where
  "bind_controller_url lp safe cp =
     (case lp_controller_url lp of
        Some u \<Rightarrow> if ncp_controller_url cp = None \<and> safe then (cp\<lparr>ncp_controller_url := Some u\<rparr>, True) else (cp, False)
      | None \<Rightarrow> (cp, False))"

definition bind_controller_key ::
  "legacy_planet \<Rightarrow> bool \<Rightarrow> bytes option \<Rightarrow> network_control_plane \<Rightarrow> network_control_plane \<times> bool" where
  "bind_controller_key lp safe certificate_key cp =
     (if ncp_pinned_controller_public_key cp = [] \<and> safe then
        (case (case filter_option (\<lambda>key. length key = 32) certificate_key of
                 Some key \<Rightarrow> Some key | None \<Rightarrow> lp_controller_key lp) of
           None \<Rightarrow> (cp, False)
         | Some key \<Rightarrow> (cp\<lparr>ncp_pinned_controller_public_key := key\<rparr>, True))
      else (cp, False))"

definition uses_legacy_controller ::
  "'x agent_ops_scheme \<Rightarrow> legacy_planet \<Rightarrow> bool \<Rightarrow> network_control_plane \<Rightarrow> bool" where
  "uses_legacy_controller X lp safe cp \<longleftrightarrow> safe
     \<and> (case (Option.bind (ncp_controller_url cp)
                (\<lambda>u. result_ok (normalize_http_url X u ''network controller URL'')), lp_controller_url lp) of
          (Some network, Some legacy) \<Rightarrow> network = legacy | _ \<Rightarrow> False)
     \<and> (case lp_controller_key lp of None \<Rightarrow> False | Some key \<Rightarrow> ncp_pinned_controller_public_key cp = key)"

definition fill_tls_ca :: "legacy_planet \<Rightarrow> network_control_plane \<Rightarrow> network_control_plane \<times> bool" where
  "fill_tls_ca lp cp =
     (if ncp_controller_tls_ca_pem cp = None \<and> (lp_tls_ca_pem lp = None \<or> lp_tls_urls_are_https lp)
      then (case lp_tls_ca_pem lp of
              None \<Rightarrow> (cp, False) | Some pem \<Rightarrow> (cp\<lparr>ncp_controller_tls_ca_pem := Some pem\<rparr>, True))
      else (cp, False))"

definition fill_manifest_url :: "legacy_planet \<Rightarrow> network_control_plane \<Rightarrow> network_control_plane \<times> bool" where
  "fill_manifest_url lp cp =
     (if ncp_planet_manifest_url cp = None
      then (case lp_manifest_url lp of
              None \<Rightarrow> (cp, False) | Some u \<Rightarrow> (cp\<lparr>ncp_planet_manifest_url := Some u\<rparr>, True))
      else (cp, False))"

definition fill_roots :: "persisted_state \<Rightarrow> network_control_plane \<Rightarrow> network_control_plane \<times> bool" where
  "fill_roots st cp =
     (if ncp_verified_roots cp = [] \<and> ps_root_servers st \<noteq> []
      then (cp\<lparr>ncp_verified_roots := ps_root_servers st\<rparr>, True) else (cp, False))"

definition fill_relays :: "legacy_planet \<Rightarrow> network_control_plane \<Rightarrow> network_control_plane \<times> bool" where
  "fill_relays lp cp =
     (if ncp_verified_relays cp = [] \<and> lp_relays lp \<noteq> []
      then (cp\<lparr>ncp_verified_relays := lp_relays lp\<rparr>, True) else (cp, False))"

definition fill_stun :: "persisted_state \<Rightarrow> network_control_plane \<Rightarrow> network_control_plane \<times> bool" where
  "fill_stun st cp =
     (if ncp_verified_stun_servers cp = [] \<and> ps_stun_servers st \<noteq> []
      then (cp\<lparr>ncp_verified_stun_servers := ps_stun_servers st\<rparr>, True) else (cp, False))"

definition fill_authorization ::
  "persisted_state \<Rightarrow> network_id \<Rightarrow> network_control_plane \<Rightarrow> network_control_plane \<times> bool" where
  "fill_authorization st i cp =
     (if ncp_authorization_manifest cp = None
      then (case hm_get (ps_authorizations st) i of
              None \<Rightarrow> (cp, False) | Some a \<Rightarrow> (cp\<lparr>ncp_authorization_manifest := Some a\<rparr>, True))
      else (cp, False))"

definition fill_from_legacy ::
  "'x agent_ops_scheme \<Rightarrow> persisted_state \<Rightarrow> legacy_planet \<Rightarrow> bool \<Rightarrow> network_control_plane
     \<Rightarrow> network_control_plane \<times> bool" where
  "fill_from_legacy X st lp safe cp =
     (if uses_legacy_controller X lp safe cp
      then run_steps [fill_tls_ca lp, fill_manifest_url lp, fill_roots st, fill_relays lp, fill_stun st] cp
      else (cp, False))"

definition migrate_legacy_network ::
  "'x agent_ops_scheme \<Rightarrow> persisted_state \<Rightarrow> legacy_planet \<Rightarrow> joined_network \<Rightarrow> joined_network \<times> bool" where
  "migrate_legacy_network X st lp joined =
     (let safe = legacy_binding_is_safe X lp joined;
          (cp, changed) = run_steps
            [bind_controller_url lp safe,
             bind_controller_key lp safe (map_option mc_controller_public_key (jn_certificate joined)),
             fill_from_legacy X st lp safe,
             fill_authorization st (vn_id (jn_network joined)),
             migrate_planet_acceptance_metadata X] (jn_control_plane joined)
      in (joined\<lparr>jn_control_plane := cp\<rparr>, changed))"

definition migrate_legacy_network_control_planes ::
  "'x agent_ops_scheme \<Rightarrow> persisted_state \<Rightarrow> persisted_state \<times> bool" where
  "migrate_legacy_network_control_planes X st =
     (let (networks, changed) = map_changed (migrate_legacy_network X st (legacy_planet_of X st)) (ps_networks st);
          clear = (ps_authorizations st \<noteq> [] \<and> list_all (\<lambda>joined.
            hm_get (ps_authorizations st) (vn_id (jn_network joined)) = None
            \<or> ncp_authorization_manifest (jn_control_plane joined) \<noteq> None) networks)
      in (st\<lparr>ps_networks := networks, ps_authorizations := (if clear then [] else ps_authorizations st)\<rparr>,
          changed \<or> clear))"

section \<open>Validation at startup\<close>

definition policy_is_valid :: "'x policy_ops_scheme \<Rightarrow> u64 \<Rightarrow> joined_network \<Rightarrow> network_policy_manifest \<Rightarrow> bool" where
  "policy_is_valid X now joined policy =
     (case ncp_authorization_manifest (jn_control_plane joined) of
        None \<Rightarrow> False
      | Some authorization \<Rightarrow>
          is_ok (authorization_verify_from_controller X authorization
            (ncp_pinned_controller_public_key (jn_control_plane joined)) now)
          \<and> is_ok (policy_verify_for_network X policy (vn_id (jn_network joined))
              (ncp_pinned_controller_public_key (jn_control_plane joined)) authorization now None))"

definition without_policy :: "joined_network \<Rightarrow> joined_network" where
  "without_policy n = n\<lparr>jn_control_plane := (jn_control_plane n)\<lparr>ncp_policy_manifest := None\<rparr>\<rparr>"

definition discard_invalid_policy :: "'x policy_ops_scheme \<Rightarrow> u64 \<Rightarrow> joined_network \<Rightarrow> joined_network \<times> bool" where
  "discard_invalid_policy X now joined =
     (case ncp_policy_manifest (jn_control_plane joined) of
        None \<Rightarrow> (joined, False)
      | Some policy \<Rightarrow> if policy_is_valid X now joined policy then (joined, False) else (without_policy joined, True))"

definition discard_invalid_persisted_policies ::
  "'x policy_ops_scheme \<Rightarrow> u64 \<Rightarrow> persisted_state \<Rightarrow> persisted_state \<times> bool" where
  "discard_invalid_persisted_policies X now st =
     (let (networks, changed) = map_changed (discard_invalid_policy X now) (ps_networks st)
      in (st\<lparr>ps_networks := networks\<rparr>, changed))"

definition migrate_identity :: "bytes option \<Rightarrow> persisted_state \<Rightarrow> agent_reason + persisted_state \<times> bool" where
  "migrate_identity random st =
     (if length (ps_identity_secret_key st) = 32 then Inr (st, False)
      else if ps_schema_version st \<ge> AGENT_STATE_SCHEMA_VERSION
      then Inl (Message ''agent state contains an invalid node identity key; refusing automatic identity rotation'')
      else case random of
        None \<Rightarrow> Inl (Message ''cannot generate node identity'')
      | Some key \<Rightarrow> Inr (st\<lparr>ps_identity_secret_key := key\<rparr>, True))"

definition migrate_relay_endpoint :: "persisted_state \<Rightarrow> persisted_state \<times> bool" where
  "migrate_relay_endpoint st =
     (case (ps_relay_endpoints st, ps_relay_endpoint st) of
        ([], Some endpoint) \<Rightarrow> (st\<lparr>ps_relay_endpoints := [endpoint]\<rparr>, True) | _ \<Rightarrow> (st, False))"

definition clear_unusable_selections :: "persisted_state \<Rightarrow> persisted_state \<times> bool" where
  "clear_unusable_selections st =
     (let (networks, changed) = map_changed clear_unusable_exit_selection (ps_networks st)
      in (st\<lparr>ps_networks := networks\<rparr>, changed))"

definition clear_unusable_gateways :: "persisted_state \<Rightarrow> persisted_state \<times> bool" where
  "clear_unusable_gateways st =
     (let (gateways, changed) = clear_unusable_exit_gateways (ps_exit_gateways st) (ps_networks st) (ps_device_id st)
      in (st\<lparr>ps_exit_gateways := gateways\<rparr>, changed))"

definition upgrade_schema :: "persisted_state \<Rightarrow> persisted_state \<times> bool" where
  "upgrade_schema st =
     (if ps_schema_version st < AGENT_STATE_SCHEMA_VERSION
      then (st\<lparr>ps_schema_version := AGENT_STATE_SCHEMA_VERSION\<rparr>, True) else (st, False))"

text \<open>\<open>random\<close> is what the system generator returns, 32 octets or a failure.\<close>

definition migrate_and_validate_agent_state ::
  "'x agent_ops_scheme \<Rightarrow> bytes option \<Rightarrow> u64 \<Rightarrow> persisted_state \<Rightarrow> agent_reason + persisted_state \<times> bool" where
  "migrate_and_validate_agent_state X random now st =
     (if ps_schema_version st > AGENT_STATE_SCHEMA_VERSION
      then Inl (Message ''agent state schema is newer than supported schema'')
      else
        rbind (migrate_identity random st) (\<lambda>(st1, c1).
        rbind (for_each (\<lambda>n. if length (jn_network_key n) \<noteq> 32
                 then Inl (Message ''agent network contains an invalid network key'') else Inr ()) (ps_networks st1)) (\<lambda>_.
          let (st2, c2) = run_steps [migrate_relay_endpoint, migrate_legacy_network_control_planes X,
                discard_invalid_persisted_policies X now, clear_unusable_selections, clear_unusable_gateways] st1
          in rbind (gateway_plan_from_configs X (ps_exit_gateways st2) (ps_networks st2)) (\<lambda>_.
               let (st3, c3) = upgrade_schema st2 in Inr (st3, c1 \<or> c2 \<or> c3)))))"

section \<open>Steps that settle\<close>

text \<open>
  A step is settled at a value that it leaves as it is, reporting no change. A list of steps is settling when each
  step is settled where it has just run and no later step undoes this; then one run of the list settles all of it.
\<close>

definition settled :: "('a \<Rightarrow> 'a \<times> bool) \<Rightarrow> 'a \<Rightarrow> bool" where
  "settled f x \<longleftrightarrow> f x = (x, False)"

primrec settling :: "('a \<Rightarrow> 'a \<times> bool) list \<Rightarrow> bool" where
  "settling [] \<longleftrightarrow> True"
| "settling (f # fs) \<longleftrightarrow> (\<forall>x. settled f (fst (f x)))
     \<and> (\<forall>g \<in> set fs. \<forall>x. settled f x \<longrightarrow> settled f (fst (g x))) \<and> settling fs"

lemma run_steps_Cons: "fst (run_steps (f # fs) x) = fst (run_steps fs (fst (f x)))"
  by (simp add: case_prod_beta Let_def)

lemma run_steps_settled:
  assumes "list_all (\<lambda>f. settled f x) fs"
  shows "settled (run_steps fs) x"
  using assms by (induction fs) (simp_all add: settled_def)

lemma run_steps_preserves:
  assumes "\<And>g y. g \<in> set fs \<Longrightarrow> P y \<Longrightarrow> P (fst (g y))" and "P x"
  shows "P (fst (run_steps fs x))"
  using assms
proof (induction fs arbitrary: x)
  case (Cons g fs)
  have "P (fst (g x))" using Cons.prems by simp
  then have "P (fst (run_steps fs (fst (g x))))" using Cons.prems(1) by (intro Cons.IH) auto
  then show ?case by (simp only: run_steps_Cons)
qed simp

lemma run_steps_settles:
  assumes "settling fs"
  shows "list_all (\<lambda>f. settled f (fst (run_steps fs x))) fs"
  using assms
proof (induction fs arbitrary: x)
  case (Cons g fs)
  have "settled g (fst (run_steps fs (fst (g x))))"
    using Cons.prems by (intro run_steps_preserves [where P = "settled g"]) auto
  moreover have "list_all (\<lambda>f. settled f (fst (run_steps fs (fst (g x))))) fs"
    using Cons.prems by (intro Cons.IH) simp
  ultimately show ?case by (simp only: run_steps_Cons list.pred_inject)
qed simp

lemma settling_idempotent: "settling fs \<Longrightarrow> settled (run_steps fs) (fst (run_steps fs x))"
  by (intro run_steps_settled run_steps_settles)

lemma map_changed_fst [simp]: "fst (map_changed f xs) = map (fst \<circ> f) xs"
  by (induction xs) (simp_all add: case_prod_beta Let_def)

lemma map_changed_settled: "settled (map_changed f) xs \<longleftrightarrow> (\<forall>x \<in> set xs. settled f x)"
  by (induction xs) (auto simp: settled_def Let_def prod_eq_iff case_prod_beta)

section \<open>The steps of the migration settle\<close>

lemmas fill_steps = fill_tls_ca_def fill_manifest_url_def fill_roots_def fill_relays_def fill_stun_def

lemma settled_fills:
  "settled (fill_tls_ca lp) cp \<longleftrightarrow>
     ncp_controller_tls_ca_pem cp \<noteq> None \<or> lp_tls_ca_pem lp = None \<or> \<not> lp_tls_urls_are_https lp"
  "settled (fill_manifest_url lp) cp \<longleftrightarrow> ncp_planet_manifest_url cp \<noteq> None \<or> lp_manifest_url lp = None"
  "settled (fill_roots st) cp \<longleftrightarrow> ncp_verified_roots cp \<noteq> [] \<or> ps_root_servers st = []"
  "settled (fill_relays lp) cp \<longleftrightarrow> ncp_verified_relays cp \<noteq> [] \<or> lp_relays lp = []"
  "settled (fill_stun st) cp \<longleftrightarrow> ncp_verified_stun_servers cp \<noteq> [] \<or> ps_stun_servers st = []"
  by (auto simp: settled_def fill_steps split: option.splits)

text \<open>A step that changes one field of the control plane.\<close>

lemma fill_fields:
  "ncp_controller_tls_ca_pem (fst (fill_manifest_url lp cp)) = ncp_controller_tls_ca_pem cp"
  "ncp_controller_tls_ca_pem (fst (fill_roots st cp)) = ncp_controller_tls_ca_pem cp"
  "ncp_controller_tls_ca_pem (fst (fill_relays lp cp)) = ncp_controller_tls_ca_pem cp"
  "ncp_controller_tls_ca_pem (fst (fill_stun st cp)) = ncp_controller_tls_ca_pem cp"
  "ncp_planet_manifest_url (fst (fill_roots st cp)) = ncp_planet_manifest_url cp"
  "ncp_planet_manifest_url (fst (fill_relays lp cp)) = ncp_planet_manifest_url cp"
  "ncp_planet_manifest_url (fst (fill_stun st cp)) = ncp_planet_manifest_url cp"
  "ncp_verified_roots (fst (fill_relays lp cp)) = ncp_verified_roots cp"
  "ncp_verified_roots (fst (fill_stun st cp)) = ncp_verified_roots cp"
  "ncp_verified_relays (fst (fill_stun st cp)) = ncp_verified_relays cp"
  by (simp_all add: fill_steps split: option.splits)

lemma fill_settles:
  "settled (fill_tls_ca lp) (fst (fill_tls_ca lp cp))" "settled (fill_manifest_url lp) (fst (fill_manifest_url lp cp))"
  "settled (fill_roots st) (fst (fill_roots st cp))" "settled (fill_relays lp) (fst (fill_relays lp cp))"
  "settled (fill_stun st) (fst (fill_stun st cp))"
  unfolding settled_fills by (simp_all add: fill_steps split: option.splits)

lemma fills_settling: "settling [fill_tls_ca lp, fill_manifest_url lp, fill_roots st, fill_relays lp, fill_stun st]"
  unfolding settling.simps by (simp add: fill_settles, simp add: settled_fills fill_fields)

text \<open>The five steps on the control plane of one network.\<close>

definition fills :: "persisted_state \<Rightarrow> legacy_planet \<Rightarrow> (network_control_plane \<Rightarrow> network_control_plane \<times> bool) list" where
  "fills st lp = [fill_tls_ca lp, fill_manifest_url lp, fill_roots st, fill_relays lp, fill_stun st]"

text \<open>The fields that the fills leave alone.\<close>

definition trust_fields ::
  "network_control_plane \<Rightarrow> string option \<times> bytes \<times> network_authorization_manifest option
     \<times> network_policy_manifest option \<times> exit_node_selection" where
  "trust_fields cp = (ncp_controller_url cp, ncp_pinned_controller_public_key cp, ncp_authorization_manifest cp,
     ncp_policy_manifest cp, ncp_exit_node_selection cp)"

lemma fills_keep_trust: "f \<in> set (fills st lp) \<Longrightarrow> trust_fields (fst (f cp)) = trust_fields cp"
  by (auto simp: fills_def fill_steps trust_fields_def split: option.splits)

lemma run_fills_keep_trust: "trust_fields (fst (run_steps (fills st lp) cp)) = trust_fields cp"
  by (rule run_steps_preserves [where P = "\<lambda>c. trust_fields c = trust_fields cp"]) (simp_all add: fills_keep_trust)

lemma fill_from_legacy_fst:
  "fst (fill_from_legacy X st lp safe cp)
   = (if uses_legacy_controller X lp safe cp then fst (run_steps (fills st lp) cp) else cp)"
  by (simp add: fill_from_legacy_def fills_def)

lemma fill_from_legacy_keeps_trust: "trust_fields (fst (fill_from_legacy X st lp safe cp)) = trust_fields cp"
  by (simp add: fill_from_legacy_fst run_fills_keep_trust)

lemma uses_legacy_trust:
  "trust_fields cp = trust_fields cp' \<Longrightarrow> uses_legacy_controller X lp safe cp = uses_legacy_controller X lp safe cp'"
  by (simp add: uses_legacy_controller_def trust_fields_def cong: option.case_cong)

lemma settled_fill_from_legacy:
  "settled (fill_from_legacy X st lp safe) cp \<longleftrightarrow>
     (uses_legacy_controller X lp safe cp \<longrightarrow> settled (run_steps (fills st lp)) cp)"
  by (simp add: settled_def fill_from_legacy_def fills_def)

lemma fill_from_legacy_settles: "settled (fill_from_legacy X st lp safe) (fst (fill_from_legacy X st lp safe cp))"
  using settling_idempotent [OF fills_settling [of lp st]]
    uses_legacy_trust [OF fill_from_legacy_keeps_trust [of X st lp safe cp], of X lp safe]
  by (auto simp: settled_fill_from_legacy fill_from_legacy_fst fills_def)

definition legacy_key_ok :: "legacy_planet \<Rightarrow> bool" where
  "legacy_key_ok lp \<longleftrightarrow> (\<forall>k. lp_controller_key lp = Some k \<longrightarrow> length k = 32)"

lemma settled_binds:
  "settled (bind_controller_url lp safe) cp \<longleftrightarrow> ncp_controller_url cp \<noteq> None \<or> \<not> safe \<or> lp_controller_url lp = None"
  "legacy_key_ok lp \<Longrightarrow> settled (bind_controller_key lp safe ck) cp \<longleftrightarrow>
     ncp_pinned_controller_public_key cp \<noteq> [] \<or> \<not> safe
     \<or> (filter_option (\<lambda>k. length k = 32) ck = None \<and> lp_controller_key lp = None)"
  "settled (fill_authorization st i) cp \<longleftrightarrow>
     ncp_authorization_manifest cp \<noteq> None \<or> hm_get (ps_authorizations st) i = None"
  by (auto simp: settled_def bind_controller_url_def bind_controller_key_def fill_authorization_def filter_option_def legacy_key_ok_def
      split: option.splits if_splits)

text \<open>The fields that the digest of a migrated control plane depends on.\<close>

definition planet_fields where
  "planet_fields cp = (ncp_verified_relays cp, ncp_verified_roots cp, ncp_verified_stun_servers cp,
     ncp_controller_tls_ca_pem cp, ncp_planet_manifest_url cp)"

lemma infers_keep:
  assumes "f \<in> set [infer_version, infer_issued_at, infer_digest X]"
  shows "planet_fields (fst (f cp)) = planet_fields cp" "trust_fields (fst (f cp)) = trust_fields cp"
  using assms by (auto simp: infer_version_def infer_issued_at_def infer_digest_def planet_fields_def trust_fields_def
      split: sum.splits)

lemma metadata_keeps:
  "planet_fields (fst (migrate_planet_acceptance_metadata X cp)) = planet_fields cp"
  "trust_fields (fst (migrate_planet_acceptance_metadata X cp)) = trust_fields cp"
proof -
  have "planet_fields (fst (run_steps [infer_version, infer_issued_at, infer_digest X] cp)) = planet_fields cp
      \<and> trust_fields (fst (run_steps [infer_version, infer_issued_at, infer_digest X] cp)) = trust_fields cp"
    by (rule run_steps_preserves [where P = "\<lambda>c. planet_fields c = planet_fields cp \<and> trust_fields c = trust_fields cp"])
      (simp_all only: infers_keep)
  then show "planet_fields (fst (migrate_planet_acceptance_metadata X cp)) = planet_fields cp"
    and "trust_fields (fst (migrate_planet_acceptance_metadata X cp)) = trust_fields cp"
    by (simp_all only: migrate_planet_acceptance_metadata_def split: if_split) simp_all
qed

lemma later_steps_keep:
  "planet_fields (fst (fill_authorization st i cp)) = planet_fields cp"
  "ncp_controller_url (fst (fill_authorization st i cp)) = ncp_controller_url cp"
  "ncp_pinned_controller_public_key (fst (fill_authorization st i cp)) = ncp_pinned_controller_public_key cp"
  "ncp_controller_url (fst (bind_controller_key lp safe ck cp)) = ncp_controller_url cp"
  by (simp_all add: fill_authorization_def bind_controller_key_def planet_fields_def split: option.splits)

lemma planet_fields_settled:
  "planet_fields cp = planet_fields cp' \<Longrightarrow> settled (run_steps (fills st lp)) cp \<Longrightarrow> settled (run_steps (fills st lp)) cp'"
proof -
  assume eq: "planet_fields cp = planet_fields cp'" and s: "settled (run_steps (fills st lp)) cp"
  have "list_all (\<lambda>f. settled f (fst (run_steps (fills st lp) cp))) (fills st lp)"
    using run_steps_settles [OF fills_settling] by (simp add: fills_def)
  then have "list_all (\<lambda>f. settled f cp) (fills st lp)" using s by (simp add: settled_def)
  then have "list_all (\<lambda>f. settled f cp') (fills st lp)"
    using eq by (simp add: fills_def settled_fills planet_fields_def)
  then show ?thesis by (rule run_steps_settled)
qed

lemma fill_from_legacy_settled_later:
  assumes "planet_fields cp' = planet_fields cp" "ncp_controller_url cp' = ncp_controller_url cp"
    "ncp_pinned_controller_public_key cp' = ncp_pinned_controller_public_key cp"
    and "settled (fill_from_legacy X st lp safe) cp"
  shows "settled (fill_from_legacy X st lp safe) cp'"
proof -
  have "uses_legacy_controller X lp safe cp' = uses_legacy_controller X lp safe cp"
    using assms(2,3) by (simp add: uses_legacy_controller_def cong: option.case_cong)
  then show ?thesis
    using assms(4) planet_fields_settled [OF assms(1) [symmetric]] by (simp add: settled_fill_from_legacy)
qed

text \<open>\<^verbatim>\<open>Sha256\<close> returns 32 octets.\<close>

definition sha256_law :: "'x planet_ops_scheme \<Rightarrow> bool" where
  "sha256_law X \<longleftrightarrow> (\<forall>m. length (sha256 X m) = 32)"

lemma semantic_digest_length: "sha256_law X \<Longrightarrow> semantic_digest X m = Inr d \<Longrightarrow> length d = 32"
  by (auto simp: semantic_digest_def sha256_law_def)

lemma settled_infers:
  "settled infer_version cp \<longleftrightarrow> ncp_planet_manifest_version cp \<noteq> None"
  "settled infer_issued_at cp \<longleftrightarrow> ncp_planet_last_issued_at_unix_seconds cp \<noteq> None"
  "sha256_law X \<Longrightarrow> settled (infer_digest X) cp \<longleftrightarrow>
     ncp_planet_semantic_digest cp \<noteq> [] \<or> (\<exists>e. semantic_digest X (inferred_manifest cp) = Inl e)"
  by (auto simp: settled_def infer_version_def infer_issued_at_def infer_digest_def split: sum.splits)

lemma infers_settling:
  assumes "sha256_law X"
  shows "settling [infer_version, infer_issued_at, infer_digest X]"
proof -
  have "settled (infer_digest X) (fst (infer_digest X cp))" for cp
    unfolding settled_infers(3) [OF assms]
    by (auto simp: infer_digest_def split: sum.splits dest: semantic_digest_length [OF assms])
  moreover have "settled infer_version (fst (infer_version cp))" "settled infer_issued_at (fst (infer_issued_at cp))" for cp
    unfolding settled_infers by (simp_all add: infer_version_def infer_issued_at_def)
  moreover have "settled infer_version cp \<Longrightarrow> settled infer_version (fst (infer_issued_at cp))"
    "settled infer_version cp \<Longrightarrow> settled infer_version (fst (infer_digest X cp))"
    "settled infer_issued_at cp \<Longrightarrow> settled infer_issued_at (fst (infer_digest X cp))" for cp
    unfolding settled_infers by (simp_all add: infer_issued_at_def infer_digest_def split: sum.splits)
  ultimately show ?thesis by simp
qed

lemma metadata_settles:
  assumes "sha256_law X"
  shows "settled (migrate_planet_acceptance_metadata X) (fst (migrate_planet_acceptance_metadata X cp))"
proof -
  have "settled (run_steps [infer_version, infer_issued_at, infer_digest X])
      (fst (run_steps [infer_version, infer_issued_at, infer_digest X] cp))"
    by (rule settling_idempotent [OF infers_settling [OF assms]])
  then show ?thesis
    using metadata_keeps [of X cp]
    unfolding settled_def migrate_planet_acceptance_metadata_def planet_fields_def trust_fields_def
    by (simp del: run_steps.simps)
qed

definition network_steps where
  "network_steps X st lp safe ck i =
     [bind_controller_url lp safe, bind_controller_key lp safe ck, fill_from_legacy X st lp safe,
      fill_authorization st i, migrate_planet_acceptance_metadata X]"

lemma legacy_planet_key_ok [simp]: "legacy_key_ok (legacy_planet_of X st)"
  by (auto simp: legacy_key_ok_def legacy_planet_of_def Let_def filter_option_def split: option.splits if_splits)

lemma network_steps_settling:
  assumes "sha256_law X" and "legacy_key_ok lp"
  shows "settling (network_steps X st lp safe ck i)"
proof -
  note key = settled_binds(2) [OF assms(2)]
  note trust = fill_from_legacy_keeps_trust [of X st lp] metadata_keeps(2) [of X]
  have t: "ncp_controller_url (fst (fill_from_legacy X st lp s cp)) = ncp_controller_url cp"
    "ncp_pinned_controller_public_key (fst (fill_from_legacy X st lp s cp)) = ncp_pinned_controller_public_key cp"
    "ncp_controller_url (fst (migrate_planet_acceptance_metadata X cp)) = ncp_controller_url cp"
    "ncp_pinned_controller_public_key (fst (migrate_planet_acceptance_metadata X cp)) = ncp_pinned_controller_public_key cp"
    "ncp_authorization_manifest (fst (migrate_planet_acceptance_metadata X cp)) = ncp_authorization_manifest cp" for cp s
    using trust(1) [of s cp] trust(2) [of cp] by (simp_all add: trust_fields_def)
  have s1: "settled (bind_controller_url lp safe) (fst (bind_controller_url lp safe cp))" for cp
    unfolding settled_binds by (auto simp: bind_controller_url_def split: option.splits)
  have s2: "settled (bind_controller_key lp safe ck) (fst (bind_controller_key lp safe ck cp))" for cp
    unfolding key using assms(2)
    by (auto simp: bind_controller_key_def filter_option_def legacy_key_ok_def split: option.splits)
  have s4: "settled (fill_authorization st i) (fst (fill_authorization st i cp))" for cp
    unfolding settled_binds by (auto simp: fill_authorization_def split: option.splits)
  have p1: "settled (bind_controller_url lp safe) cp \<Longrightarrow> settled (bind_controller_url lp safe) (fst (g cp))"
    if "g \<in> set [bind_controller_key lp safe ck, fill_from_legacy X st lp safe, fill_authorization st i,
      migrate_planet_acceptance_metadata X]" for g cp
    unfolding settled_binds using that by (auto simp: t later_steps_keep)
  have p2: "settled (bind_controller_key lp safe ck) cp \<Longrightarrow> settled (bind_controller_key lp safe ck) (fst (g cp))"
    if "g \<in> set [fill_from_legacy X st lp safe, fill_authorization st i, migrate_planet_acceptance_metadata X]" for g cp
    unfolding key using that by (auto simp: t later_steps_keep)
  have p3: "settled (fill_from_legacy X st lp safe) cp \<Longrightarrow> settled (fill_from_legacy X st lp safe) (fst (g cp))"
    if "g \<in> set [fill_authorization st i, migrate_planet_acceptance_metadata X]" for g cp
    using that by (auto simp: t later_steps_keep metadata_keeps intro: fill_from_legacy_settled_later)
  have p4: "settled (fill_authorization st i) cp
      \<Longrightarrow> settled (fill_authorization st i) (fst (migrate_planet_acceptance_metadata X cp))" for cp
    unfolding settled_binds by (simp add: t)
  show ?thesis
    unfolding network_steps_def settling.simps using s1 s2 s4 fill_from_legacy_settles [of X] metadata_settles [OF assms(1)]
      p1 p2 p3 p4 by simp
qed

lemma migrate_legacy_network_eq:
  "migrate_legacy_network X st lp n =
     (let r = run_steps (network_steps X st lp (legacy_binding_is_safe X lp n)
            (map_option mc_controller_public_key (jn_certificate n)) (vn_id (jn_network n))) (jn_control_plane n)
      in (n\<lparr>jn_control_plane := fst r\<rparr>, snd r))"
  by (simp only: migrate_legacy_network_def network_steps_def Let_def case_prod_beta)

lemma unsafe_steps_keep:
  "ncp_controller_url (fst (run_steps (network_steps X st lp False ck i) cp)) = ncp_controller_url cp
   \<and> ncp_pinned_controller_public_key (fst (run_steps (network_steps X st lp False ck i) cp))
     = ncp_pinned_controller_public_key cp"
proof (rule run_steps_preserves [where P = "\<lambda>c. ncp_controller_url c = ncp_controller_url cp
    \<and> ncp_pinned_controller_public_key c = ncp_pinned_controller_public_key cp"])
  fix g and y :: network_control_plane assume "g \<in> set (network_steps X st lp False ck i)"
    and "ncp_controller_url y = ncp_controller_url cp
      \<and> ncp_pinned_controller_public_key y = ncp_pinned_controller_public_key cp"
  then show "ncp_controller_url (fst (g y)) = ncp_controller_url cp
      \<and> ncp_pinned_controller_public_key (fst (g y)) = ncp_pinned_controller_public_key cp"
    using metadata_keeps(2) [of X y]
    by (auto simp: network_steps_def later_steps_keep bind_controller_url_def bind_controller_key_def trust_fields_def
        fill_from_legacy_def uses_legacy_controller_def split: option.splits)
qed simp

lemma unsafe_steps_settled:
  assumes "list_all (\<lambda>f. settled f cp) (network_steps X st lp safe ck i)"
  shows "list_all (\<lambda>f. settled f cp) (network_steps X st lp False ck i)"
  using assms by (simp add: network_steps_def) (simp add: settled_def bind_controller_url_def bind_controller_key_def
      fill_from_legacy_def uses_legacy_controller_def split: option.splits)

lemma binding_safe_cong:
  "jn_certificate n = jn_certificate n' \<Longrightarrow> ncp_controller_url (jn_control_plane n) = ncp_controller_url (jn_control_plane n')
   \<Longrightarrow> ncp_pinned_controller_public_key (jn_control_plane n) = ncp_pinned_controller_public_key (jn_control_plane n')
   \<Longrightarrow> legacy_binding_is_safe X lp n = legacy_binding_is_safe X lp n'"
  by (simp add: legacy_binding_is_safe_def Let_def cong: option.case_cong)

lemma migrate_legacy_network_settles:
  assumes "sha256_law X" and "legacy_key_ok lp" and n': "n' = fst (migrate_legacy_network X st lp n)"
  shows "list_all (\<lambda>f. settled f (jn_control_plane n')) (network_steps X st lp (legacy_binding_is_safe X lp n')
    (map_option mc_controller_public_key (jn_certificate n')) (vn_id (jn_network n')))"
proof -
  define safe ck i where "safe = legacy_binding_is_safe X lp n"
    and "ck = map_option mc_controller_public_key (jn_certificate n)" and "i = vn_id (jn_network n)"
  define c where "c = fst (run_steps (network_steps X st lp safe ck i) (jn_control_plane n))"
  have n': "n' = n\<lparr>jn_control_plane := c\<rparr>"
    by (simp add: n' migrate_legacy_network_eq Let_def c_def safe_def ck_def i_def)
  have s: "list_all (\<lambda>f. settled f c) (network_steps X st lp safe ck i)"
    unfolding c_def by (rule run_steps_settles [OF network_steps_settling [OF assms(1,2)]])
  have "list_all (\<lambda>f. settled f c) (network_steps X st lp (legacy_binding_is_safe X lp n') ck i)"
  proof (cases safe)
    case True
    then show ?thesis using s unsafe_steps_settled [OF s] by (cases "legacy_binding_is_safe X lp n'") simp_all
  next
    case False
    then have "legacy_binding_is_safe X lp n' = legacy_binding_is_safe X lp n"
      using unsafe_steps_keep [of X st lp ck i "jn_control_plane n"] by (intro binding_safe_cong) (simp_all add: n' c_def)
    then show ?thesis using s by (simp add: safe_def)
  qed
  then show ?thesis by (simp add: n' ck_def i_def)
qed

lemma network_steps_settledI:
  "list_all (\<lambda>f. settled f (jn_control_plane n)) (network_steps X st lp (legacy_binding_is_safe X lp n)
    (map_option mc_controller_public_key (jn_certificate n)) (vn_id (jn_network n))) \<Longrightarrow> settled (migrate_legacy_network X st lp) n"
  by (drule run_steps_settled) (simp add: settled_def migrate_legacy_network_eq Let_def)

section \<open>Policies and selections do not disturb the migration\<close>

definition with_policy :: "network_policy_manifest option \<Rightarrow> exit_node_selection \<Rightarrow> network_control_plane \<Rightarrow> network_control_plane" where
  "with_policy p s cp = cp\<lparr>ncp_policy_manifest := p, ncp_exit_node_selection := s\<rparr>"

lemma run_steps_commute:
  assumes "\<And>f x. f \<in> set fs \<Longrightarrow> f (u x) = map_prod u id (f x)"
  shows "run_steps fs (u x) = map_prod u id (run_steps fs x)"
  using assms by (induction fs arbitrary: x) (simp_all add: case_prod_beta Let_def prod_eq_iff)

lemma with_policy_fields [simp]:
  "ncp_controller_url (with_policy p s cp) = ncp_controller_url cp"
  "ncp_pinned_controller_public_key (with_policy p s cp) = ncp_pinned_controller_public_key cp"
  "ncp_authorization_manifest (with_policy p s cp) = ncp_authorization_manifest cp"
  "ncp_policy_manifest (with_policy p s cp) = p"
  "ncp_exit_node_selection (with_policy p s cp) = s"
  by (simp_all add: with_policy_def)

lemma fills_commute: "f \<in> set (fills st lp) \<Longrightarrow> f (with_policy p s cp) = map_prod (with_policy p s) id (f cp)"
  by (auto simp: fills_def fill_steps with_policy_def split: option.splits)

lemma infers_commute:
  "f \<in> set [infer_version, infer_issued_at, infer_digest X] \<Longrightarrow> f (with_policy p s cp) = map_prod (with_policy p s) id (f cp)"
proof -
  have "inferred_manifest (with_policy p s cp) = inferred_manifest cp" "inferred_version (with_policy p s cp) = inferred_version cp"
    by (simp_all add: inferred_manifest_def inferred_version_def with_policy_def Let_def split: option.split)
  then show ?thesis if "f \<in> set [infer_version, infer_issued_at, infer_digest X]"
    using that by (auto simp: infer_version_def infer_issued_at_def infer_digest_def with_policy_def split: sum.splits)
qed

lemma network_steps_commute:
  assumes "f \<in> set (network_steps X st lp safe ck i)"
  shows "f (with_policy p s cp) = map_prod (with_policy p s) id (f cp)"
proof -
  have "run_steps (fills st lp) (with_policy p s cp) = map_prod (with_policy p s) id (run_steps (fills st lp) cp)"
    by (rule run_steps_commute) (rule fills_commute)
  then have fl: "fill_from_legacy X st lp safe (with_policy p s cp)
      = map_prod (with_policy p s) id (fill_from_legacy X st lp safe cp)"
    by (simp add: fill_from_legacy_def uses_legacy_controller_def fills_def [symmetric] cong: option.case_cong)
  have "run_steps [infer_version, infer_issued_at, infer_digest X] (with_policy p s cp)
      = map_prod (with_policy p s) id (run_steps [infer_version, infer_issued_at, infer_digest X] cp)"
    by (rule run_steps_commute) (rule infers_commute)
  then have md: "migrate_planet_acceptance_metadata X (with_policy p s cp)
      = map_prod (with_policy p s) id (migrate_planet_acceptance_metadata X cp)"
    by (simp add: migrate_planet_acceptance_metadata_def with_policy_def del: run_steps.simps)
  show ?thesis
    using assms fl md
    by (auto simp: network_steps_def bind_controller_url_def bind_controller_key_def fill_authorization_def with_policy_def
        split: option.splits)
qed

definition network_with_policy :: "network_policy_manifest option \<Rightarrow> exit_node_selection \<Rightarrow> joined_network \<Rightarrow> joined_network" where
  "network_with_policy p s n = n\<lparr>jn_control_plane := with_policy p s (jn_control_plane n)\<rparr>"

lemma migrate_legacy_network_commute:
  "migrate_legacy_network X st lp (network_with_policy p s n)
   = map_prod (network_with_policy p s) id (migrate_legacy_network X st lp n)"
proof -
  have "legacy_binding_is_safe X lp (network_with_policy p s n) = legacy_binding_is_safe X lp n"
    by (rule binding_safe_cong) (simp_all add: network_with_policy_def)
  then show ?thesis
    unfolding migrate_legacy_network_eq Let_def
    by (simp add: network_with_policy_def run_steps_commute [OF network_steps_commute])
qed

lemma discard_invalid_policy_shape:
  "\<exists>p s. fst (discard_invalid_policy X now n) = network_with_policy p s n"
proof (cases "fst (discard_invalid_policy X now n) = n")
  case True
  then have "fst (discard_invalid_policy X now n) = network_with_policy (ncp_policy_manifest (jn_control_plane n))
      (ncp_exit_node_selection (jn_control_plane n)) n"
    by (simp add: network_with_policy_def with_policy_def)
  then show ?thesis by blast
next
  case False
  then have "fst (discard_invalid_policy X now n)
      = network_with_policy None (ncp_exit_node_selection (jn_control_plane n)) n"
    by (auto simp: discard_invalid_policy_def without_policy_def network_with_policy_def with_policy_def split: option.splits)
  then show ?thesis by blast
qed

lemma clear_selection_shape: "\<exists>p s. fst (clear_unusable_exit_selection n) = network_with_policy p s n"
proof -
  have "with_exit_selection s n = network_with_policy (ncp_policy_manifest (jn_control_plane n)) s n" for s
    by (simp add: with_exit_selection_def network_with_policy_def with_policy_def)
  then show ?thesis
    by (auto simp: clear_unusable_exit_selection_def Let_def case_prod_beta split: option.splits)
qed

section \<open>The migration of the whole state settles\<close>

definition clears_authorizations :: "persisted_state \<Rightarrow> joined_network list \<Rightarrow> bool" where
  "clears_authorizations st networks \<longleftrightarrow> ps_authorizations st \<noteq> [] \<and> list_all (\<lambda>joined.
     hm_get (ps_authorizations st) (vn_id (jn_network joined)) = None
     \<or> ncp_authorization_manifest (jn_control_plane joined) \<noteq> None) networks"

lemma migrate_legacy_eq:
  "migrate_legacy_network_control_planes X st =
     (let r = map_changed (migrate_legacy_network X st (legacy_planet_of X st)) (ps_networks st);
          clear = clears_authorizations st (fst r)
      in (st\<lparr>ps_networks := fst r, ps_authorizations := (if clear then [] else ps_authorizations st)\<rparr>, snd r \<or> clear))"
  by (simp only: migrate_legacy_network_control_planes_def clears_authorizations_def case_prod_beta Let_def)

lemma settled_migrate_legacy:
  "settled (migrate_legacy_network_control_planes X) st \<longleftrightarrow>
     (\<forall>n \<in> set (ps_networks st). settled (migrate_legacy_network X st (legacy_planet_of X st)) n)
     \<and> \<not> clears_authorizations st (ps_networks st)"
  (is "?l \<longleftrightarrow> ?r")
proof
  assume ?l
  then have "map_changed (migrate_legacy_network X st (legacy_planet_of X st)) (ps_networks st) = (ps_networks st, False)"
    and "\<not> clears_authorizations st (ps_networks st)"
    by (auto simp: settled_def migrate_legacy_eq Let_def prod_eq_iff dest: arg_cong [where f = ps_networks] simp del: map_changed_fst)
  then show ?r unfolding map_changed_settled [symmetric] by (simp add: settled_def)
next
  assume r: ?r
  then have "map_changed (migrate_legacy_network X st (legacy_planet_of X st)) (ps_networks st) = (ps_networks st, False)"
    unfolding map_changed_settled [symmetric] by (simp add: settled_def)
  then show ?l using r by (simp add: settled_def migrate_legacy_eq Let_def)
qed

lemma network_steps_state:
  assumes "ps_root_servers st' = ps_root_servers st" "ps_stun_servers st' = ps_stun_servers st"
    and "ps_authorizations st' = ps_authorizations st \<or> ps_authorizations st' = []"
    and "list_all (\<lambda>f. settled f cp) (network_steps X st lp safe ck i)"
  shows "list_all (\<lambda>f. settled f cp) (network_steps X st' lp safe ck i)"
proof -
  have "fill_roots st' = fill_roots st" "fill_stun st' = fill_stun st"
    using assms(1,2) by (simp_all add: fill_roots_def fill_stun_def fun_eq_iff)
  then have "fill_from_legacy X st' lp safe = fill_from_legacy X st lp safe"
    by (simp add: fill_from_legacy_def fun_eq_iff)
  moreover have "settled (fill_authorization st i) cp \<Longrightarrow> settled (fill_authorization st' i) cp"
    unfolding settled_binds using assms(3) by auto
  ultimately show ?thesis using assms(4) by (simp add: network_steps_def)
qed

lemma legacy_planet_cong:
  "ps_planet st = ps_planet st' \<Longrightarrow> ps_relay_endpoints st = ps_relay_endpoints st'
   \<Longrightarrow> legacy_planet_of X st = legacy_planet_of X st'"
  by (simp add: legacy_planet_of_def Let_def)

lemma migrate_legacy_settles:
  assumes "sha256_law X"
  shows "settled (migrate_legacy_network_control_planes X) (fst (migrate_legacy_network_control_planes X st))"
proof -
  define lp where "lp = legacy_planet_of X st"
  define ns where "ns = map (fst \<circ> migrate_legacy_network X st lp) (ps_networks st)"
  define st' where "st' = fst (migrate_legacy_network_control_planes X st)"
  have st': "st' = st\<lparr>ps_networks := ns, ps_authorizations := (if clears_authorizations st ns then [] else ps_authorizations st)\<rparr>"
    by (simp add: st'_def migrate_legacy_eq Let_def ns_def lp_def)
  have lp: "legacy_planet_of X st' = lp" "legacy_key_ok lp"
    by (auto simp: lp_def st' intro: legacy_planet_cong)
  let ?steps = "\<lambda>st n. network_steps X st lp (legacy_binding_is_safe X lp n)
      (map_option mc_controller_public_key (jn_certificate n)) (vn_id (jn_network n))"
  have old: "list_all (\<lambda>f. settled f (jn_control_plane n)) (?steps st n)" if "n \<in> set ns" for n
    using that migrate_legacy_network_settles [OF assms lp(2)] by (auto simp: ns_def)
  then have auth: "hm_get (ps_authorizations st) (vn_id (jn_network n)) = None
      \<or> ncp_authorization_manifest (jn_control_plane n) \<noteq> None" if "n \<in> set ns" for n
    using that by (auto simp: network_steps_def settled_binds(3))
  have "settled (migrate_legacy_network X st' lp) n" if "n \<in> set ns" for n
    using network_steps_state [OF _ _ _ old [OF that], of st']
    by (intro network_steps_settledI) (simp add: st')
  moreover have "\<not> clears_authorizations st' ns"
    using auth by (auto simp: clears_authorizations_def st' list_all_iff)
  ultimately show ?thesis
    unfolding st'_def [symmetric] settled_migrate_legacy lp(1) by (simp add: st')
qed

lemma migrate_legacy_network_cong:
  assumes "ps_root_servers st' = ps_root_servers st" "ps_stun_servers st' = ps_stun_servers st"
    "ps_authorizations st' = ps_authorizations st"
  shows "migrate_legacy_network X st' lp = migrate_legacy_network X st lp"
proof -
  have "fill_roots st' = fill_roots st" "fill_stun st' = fill_stun st" "fill_authorization st' i = fill_authorization st i" for i
    using assms by (simp_all add: fill_roots_def fill_stun_def fill_authorization_def fun_eq_iff split: option.split)
  moreover from this have "fill_from_legacy X st' lp = fill_from_legacy X st lp"
    by (simp add: fill_from_legacy_def fun_eq_iff)
  ultimately show ?thesis by (intro ext) (simp only: migrate_legacy_network_def)
qed

lemma migrate_legacy_settled_later:
  assumes "settled (migrate_legacy_network_control_planes X) st"
    and "\<And>n. \<exists>p s. g n = network_with_policy p s n"
    and "st' = st\<lparr>ps_networks := map g (ps_networks st), ps_exit_gateways := gs\<rparr>"
  shows "settled (migrate_legacy_network_control_planes X) st'"
proof -
  have lp: "legacy_planet_of X st' = legacy_planet_of X st"
    by (rule legacy_planet_cong) (simp_all add: assms(3))
  have m: "migrate_legacy_network X st' lp = migrate_legacy_network X st lp" for lp
    by (rule migrate_legacy_network_cong) (simp_all add: assms(3))
  have "settled (migrate_legacy_network X st (legacy_planet_of X st)) (g n)" if "n \<in> set (ps_networks st)" for n
  proof -
    obtain p s where "g n = network_with_policy p s n" using assms(2) by blast
    moreover have "settled (migrate_legacy_network X st (legacy_planet_of X st)) n"
      using assms(1) that unfolding settled_migrate_legacy by blast
    ultimately show ?thesis by (simp add: settled_def migrate_legacy_network_commute)
  qed
  moreover have "\<not> clears_authorizations st' (ps_networks st')"
  proof -
    have "vn_id (jn_network (g n)) = vn_id (jn_network n)
        \<and> ncp_authorization_manifest (jn_control_plane (g n)) = ncp_authorization_manifest (jn_control_plane n)" for n
      using assms(2) [of n] by (auto simp: network_with_policy_def)
    then show ?thesis
      using assms(1) by (auto simp: settled_migrate_legacy clears_authorizations_def assms(3) list_all_iff)
  qed
  moreover have "migrate_legacy_network X st' (legacy_planet_of X st') = migrate_legacy_network X st (legacy_planet_of X st)"
    by (simp only: lp m)
  moreover have "ps_networks st' = map g (ps_networks st)" by (simp add: assms(3))
  ultimately show ?thesis unfolding settled_migrate_legacy by simp
qed

lemma state_steps_fst:
  "fst (discard_invalid_persisted_policies X now st) = st\<lparr>ps_networks := map (fst \<circ> discard_invalid_policy X now) (ps_networks st)\<rparr>"
  "fst (clear_unusable_selections st) = st\<lparr>ps_networks := map (fst \<circ> clear_unusable_exit_selection) (ps_networks st)\<rparr>"
  "fst (clear_unusable_gateways st)
   = st\<lparr>ps_exit_gateways := filter (gateway_is_usable (ps_networks st) (ps_device_id st)) (ps_exit_gateways st)\<rparr>"
  by (simp_all add: discard_invalid_persisted_policies_def clear_unusable_selections_def clear_unusable_gateways_def
      clear_unusable_exit_gateways_def case_prod_beta Let_def)

lemma networks_update_id: "st\<lparr>ps_networks := ns\<rparr> = st \<longleftrightarrow> ns = ps_networks st"
  by (cases st) auto

lemma gateways_update_id: "st\<lparr>ps_exit_gateways := gs\<rparr> = st \<longleftrightarrow> gs = ps_exit_gateways st"
  by (cases st) auto

lemma settled_state_steps:
  "settled (discard_invalid_persisted_policies X now) st \<longleftrightarrow> (\<forall>n \<in> set (ps_networks st). settled (discard_invalid_policy X now) n)"
  "settled clear_unusable_selections st \<longleftrightarrow> (\<forall>n \<in> set (ps_networks st). settled clear_unusable_exit_selection n)"
  "settled clear_unusable_gateways st \<longleftrightarrow>
     (\<forall>g \<in> set (ps_exit_gateways st). gateway_is_usable (ps_networks st) (ps_device_id st) g)"
  "settled migrate_relay_endpoint st \<longleftrightarrow> ps_relay_endpoints st \<noteq> [] \<or> ps_relay_endpoint st = None"
proof -
  have m: "settled (\<lambda>st. let (ns, c) = map_changed f (ps_networks st) in (st\<lparr>ps_networks := ns\<rparr>, c)) st
      \<longleftrightarrow> (\<forall>n \<in> set (ps_networks st). settled f n)" for f
    unfolding map_changed_settled [symmetric]
    by (simp add: settled_def case_prod_beta networks_update_id prod_eq_iff del: map_changed_fst)
  show "settled (discard_invalid_persisted_policies X now) st \<longleftrightarrow> (\<forall>n \<in> set (ps_networks st). settled (discard_invalid_policy X now) n)"
    using m [of "discard_invalid_policy X now"] by (simp add: discard_invalid_persisted_policies_def [abs_def])
  show "settled clear_unusable_selections st \<longleftrightarrow> (\<forall>n \<in> set (ps_networks st). settled clear_unusable_exit_selection n)"
    using m [of clear_unusable_exit_selection] by (simp add: clear_unusable_selections_def [abs_def])
  show "settled clear_unusable_gateways st \<longleftrightarrow>
      (\<forall>g \<in> set (ps_exit_gateways st). gateway_is_usable (ps_networks st) (ps_device_id st) g)"
    by (auto simp: settled_def clear_unusable_gateways_def clear_unusable_exit_gateways_def gateways_update_id
        filter_id_conv Let_def)
  show "settled migrate_relay_endpoint st \<longleftrightarrow> ps_relay_endpoints st \<noteq> [] \<or> ps_relay_endpoint st = None"
    by (auto simp: settled_def migrate_relay_endpoint_def split: list.splits option.splits)
qed

lemma settled_discard:
  "settled (discard_invalid_policy X now) n \<longleftrightarrow>
     (\<forall>policy. ncp_policy_manifest (jn_control_plane n) = Some policy \<longrightarrow> policy_is_valid X now n policy)"
  by (auto simp: settled_def discard_invalid_policy_def split: option.splits)

lemma with_exit_selection_id [simp]: "with_exit_selection (ncp_exit_node_selection (jn_control_plane n)) n = n"
  by (simp add: with_exit_selection_def)

lemma cleared_selection_settled:
  "snd (cleared_selection policy s) = False \<longleftrightarrow>
     (case ens_ipv4_gateway s of None \<Rightarrow> True | Some g \<Rightarrow> exit_node_supports policy g ipv4_probe)
     \<and> (case ens_ipv6_gateway s of None \<Rightarrow> True | Some g \<Rightarrow> exit_node_supports policy g ipv6_probe)
     \<and> (ens_kill_switch s \<longrightarrow> ens_ipv4_gateway s \<noteq> None \<or> ens_ipv6_gateway s \<noteq> None)"
  by (auto simp: cleared_selection_def Let_def split: option.splits)

lemma cleared_selection_unchanged: "snd (cleared_selection policy s) = False \<Longrightarrow> fst (cleared_selection policy s) = s"
  by (auto simp: cleared_selection_def Let_def split: option.splits)

lemma cleared_selection_again: "snd (cleared_selection policy (fst (cleared_selection policy s))) = False"
  unfolding cleared_selection_settled by (auto simp: cleared_selection_def Let_def split: option.splits if_splits)

lemma settled_clear_selection: "settled clear_unusable_exit_selection n \<longleftrightarrow> selection_is_usable n"
proof (cases "ncp_policy_manifest (jn_control_plane n)")
  case None
  then show ?thesis
    by (auto simp: settled_def clear_unusable_exit_selection_def selection_is_usable_def Let_def no_selection_iff)
      (metis with_exit_selection_id)
next
  case (Some policy)
  then have "selection_is_usable n \<longleftrightarrow> snd (cleared_selection policy (ncp_exit_node_selection (jn_control_plane n))) = False"
    unfolding cleared_selection_settled by (simp add: selection_is_usable_def Let_def)
  then show ?thesis
    using Some cleared_selection_unchanged [of policy "ncp_exit_node_selection (jn_control_plane n)"]
    by (auto simp: settled_def clear_unusable_exit_selection_def Let_def case_prod_beta)
qed

lemma clear_selection_usable: "selection_is_usable (fst (clear_unusable_exit_selection n))"
proof (cases "ncp_policy_manifest (jn_control_plane n)")
  case None
  then show ?thesis
    by (simp add: clear_unusable_exit_selection_def selection_is_usable_def with_exit_selection_def Let_def no_selection_iff)
next
  case (Some policy)
  then show ?thesis
    using cleared_selection_again [of policy "ncp_exit_node_selection (jn_control_plane n)"]
    unfolding cleared_selection_settled
    by (simp add: clear_unusable_exit_selection_def selection_is_usable_def with_exit_selection_def case_prod_beta Let_def)
qed

definition state_steps where
  "state_steps X now = [migrate_relay_endpoint, migrate_legacy_network_control_planes X,
     discard_invalid_persisted_policies X now, clear_unusable_selections, clear_unusable_gateways]"

lemma policy_is_valid_selection: "policy_is_valid X now (with_exit_selection s n) policy = policy_is_valid X now n policy"
  by (simp add: policy_is_valid_def with_exit_selection_def cong: option.case_cong)

lemma clear_selection_keeps_validity:
  "settled (discard_invalid_policy X now) n \<Longrightarrow> settled (discard_invalid_policy X now) (fst (clear_unusable_exit_selection n))"
  unfolding settled_discard
  by (auto simp: clear_unusable_exit_selection_def Let_def case_prod_beta policy_is_valid_selection split: option.splits)
    (simp_all add: with_exit_selection_def)

lemma state_steps_settling:
  assumes "sha256_law X"
  shows "settling (state_steps X now)"
proof -
  let ?L = "migrate_legacy_network_control_planes X" and ?D = "discard_invalid_persisted_policies X now"
  have L: "ps_relay_endpoints (fst (?L st)) = ps_relay_endpoints st" "ps_relay_endpoint (fst (?L st)) = ps_relay_endpoint st" for st
    by (simp_all add: migrate_legacy_eq Let_def)
  have s1: "settled migrate_relay_endpoint (fst (migrate_relay_endpoint st))" for st
    unfolding settled_state_steps by (auto simp: migrate_relay_endpoint_def split: list.splits option.splits)
  have s3: "settled ?D (fst (?D st))" for st
    unfolding settled_state_steps settled_discard
    by (auto simp: state_steps_fst discard_invalid_policy_def without_policy_def split: option.splits if_splits)
  have s4: "settled clear_unusable_selections (fst (clear_unusable_selections st))" for st
    unfolding settled_state_steps settled_clear_selection by (auto simp: state_steps_fst clear_selection_usable)
  have s5: "settled clear_unusable_gateways (fst (clear_unusable_gateways st))" for st
    unfolding settled_state_steps by (auto simp: state_steps_fst)
  have p1: "settled migrate_relay_endpoint st \<Longrightarrow> settled migrate_relay_endpoint (fst (g st))"
    if "g \<in> set [?L, ?D, clear_unusable_selections, clear_unusable_gateways]" for g st
    unfolding settled_state_steps using that by (auto simp: L state_steps_fst)
  have p2: "settled ?L st \<Longrightarrow> settled ?L (fst (g st))"
    if "g \<in> set [?D, clear_unusable_selections, clear_unusable_gateways]" for g st
  proof -
    assume l: "settled ?L st"
    have id: "\<exists>p s. n = network_with_policy p s n" for n
      by (rule exI [where x = "ncp_policy_manifest (jn_control_plane n)"],
          rule exI [where x = "ncp_exit_node_selection (jn_control_plane n)"])
        (simp add: network_with_policy_def with_policy_def)
    show ?thesis
      using that
        migrate_legacy_settled_later [OF l, of "fst \<circ> discard_invalid_policy X now" "fst (?D st)" "ps_exit_gateways st"]
        migrate_legacy_settled_later [OF l, of "fst \<circ> clear_unusable_exit_selection" "fst (clear_unusable_selections st)" "ps_exit_gateways st"]
        migrate_legacy_settled_later [OF l id, of "fst (clear_unusable_gateways st)"]
        discard_invalid_policy_shape [of X now] clear_selection_shape
      by (auto simp: state_steps_fst)
  qed
  have p3: "settled ?D st \<Longrightarrow> settled ?D (fst (g st))" if "g \<in> set [clear_unusable_selections, clear_unusable_gateways]" for g st
    unfolding settled_state_steps using that by (auto simp: state_steps_fst clear_selection_keeps_validity)
  have p4: "settled clear_unusable_selections st \<Longrightarrow> settled clear_unusable_selections (fst (clear_unusable_gateways st))" for st
    unfolding settled_state_steps by (simp add: state_steps_fst)
  show ?thesis
    unfolding state_steps_def settling.simps
    using s1 migrate_legacy_settles [OF assms] s3 s4 s5 p1 p2 p3 p4 by simp
qed

section \<open>What is loaded\<close>

text \<open>The invariant of a loaded state.\<close>

definition agent_state_ok :: "'x agent_ops_scheme \<Rightarrow> u64 \<Rightarrow> persisted_state \<Rightarrow> bool" where
  "agent_state_ok X now st \<longleftrightarrow>
     ps_schema_version st = AGENT_STATE_SCHEMA_VERSION \<and> length (ps_identity_secret_key st) = 32
     \<and> (\<forall>n \<in> set (ps_networks st). length (jn_network_key n) = 32 \<and> selection_is_usable n
          \<and> (\<forall>policy. ncp_policy_manifest (jn_control_plane n) = Some policy \<longrightarrow> policy_is_valid X now n policy))
     \<and> (\<forall>g \<in> set (ps_exit_gateways st). gateway_is_usable (ps_networks st) (ps_device_id st) g)
     \<and> is_ok (gateway_plan_from_configs X (ps_exit_gateways st) (ps_networks st))"

lemma migrate_Inr_iff:
  "migrate_and_validate_agent_state X random now st = Inr (st', changed) \<longleftrightarrow>
     ps_schema_version st \<le> AGENT_STATE_SCHEMA_VERSION
     \<and> (\<exists>st1 c1. migrate_identity random st = Inr (st1, c1) \<and> (\<forall>n \<in> set (ps_networks st1). length (jn_network_key n) = 32)
          \<and> is_ok (gateway_plan_from_configs X (ps_exit_gateways (fst (run_steps (state_steps X now) st1)))
              (ps_networks (fst (run_steps (state_steps X now) st1))))
          \<and> st' = fst (upgrade_schema (fst (run_steps (state_steps X now) st1)))
          \<and> changed = (c1 \<or> snd (run_steps (state_steps X now) st1)
              \<or> snd (upgrade_schema (fst (run_steps (state_steps X now) st1)))))"
  unfolding migrate_and_validate_agent_state_def state_steps_def [symmetric] is_ok_iff
  by (auto simp: case_prod_beta Let_def simp del: run_steps.simps)

lemma settled_schema:
  assumes "f \<in> set (state_steps X now)" and "settled f st"
  shows "settled f (st\<lparr>ps_schema_version := v\<rparr>)"
proof -
  have "legacy_planet_of X (st\<lparr>ps_schema_version := v\<rparr>) = legacy_planet_of X st"
    by (rule legacy_planet_cong) simp_all
  moreover have "migrate_legacy_network X (st\<lparr>ps_schema_version := v\<rparr>) lp = migrate_legacy_network X st lp" for lp
    by (rule migrate_legacy_network_cong) simp_all
  ultimately show ?thesis
    using assms by (auto simp: state_steps_def settled_state_steps settled_migrate_legacy clears_authorizations_def)
qed

lemma migration_keeps_keys:
  "map jn_network_key (ps_networks (fst (run_steps (state_steps X now) st))) = map jn_network_key (ps_networks st)
   \<and> ps_identity_secret_key (fst (run_steps (state_steps X now) st)) = ps_identity_secret_key st
   \<and> ps_device_id (fst (run_steps (state_steps X now) st)) = ps_device_id st
   \<and> ps_schema_version (fst (run_steps (state_steps X now) st)) = ps_schema_version st"
proof (rule run_steps_preserves [where P = "\<lambda>s. map jn_network_key (ps_networks s) = map jn_network_key (ps_networks st)
    \<and> ps_identity_secret_key s = ps_identity_secret_key st \<and> ps_device_id s = ps_device_id st
    \<and> ps_schema_version s = ps_schema_version st"])
  have d: "jn_network_key (fst (discard_invalid_policy X now n)) = jn_network_key n" for n
    using discard_invalid_policy_shape [of X now n] by (auto simp: network_with_policy_def)
  have c: "jn_network_key (fst (clear_unusable_exit_selection n)) = jn_network_key n" for n
    using clear_selection_shape [of n] by (auto simp: network_with_policy_def)
  have m: "jn_network_key (fst (migrate_legacy_network X s lp n)) = jn_network_key n" for s lp n
    by (simp add: migrate_legacy_network_eq Let_def)
  have r: "fst (migrate_relay_endpoint s) = s \<or> (\<exists>e. fst (migrate_relay_endpoint s) = s\<lparr>ps_relay_endpoints := e\<rparr>)" for s
    by (auto simp: migrate_relay_endpoint_def split: list.splits option.splits)
  fix g and s :: persisted_state
  assume "g \<in> set (state_steps X now)" and "map jn_network_key (ps_networks s) = map jn_network_key (ps_networks st)
      \<and> ps_identity_secret_key s = ps_identity_secret_key st \<and> ps_device_id s = ps_device_id st
      \<and> ps_schema_version s = ps_schema_version st"
  then show "map jn_network_key (ps_networks (fst (g s))) = map jn_network_key (ps_networks st)
      \<and> ps_identity_secret_key (fst (g s)) = ps_identity_secret_key st \<and> ps_device_id (fst (g s)) = ps_device_id st
      \<and> ps_schema_version (fst (g s)) = ps_schema_version st"
    using r [of s] by (auto simp: state_steps_def state_steps_fst migrate_legacy_eq Let_def d c m comp_def)
qed simp

lemma migrated_state:
  assumes "sha256_law X" and "\<And>k. random = Some k \<Longrightarrow> length k = 32"
    and "migrate_and_validate_agent_state X random now st = Inr (st', changed)"
  shows "list_all (\<lambda>f. settled f st') (state_steps X now)" "agent_state_ok X now st'"
proof -
  obtain st1 c1 where m: "ps_schema_version st \<le> AGENT_STATE_SCHEMA_VERSION" "migrate_identity random st = Inr (st1, c1)"
      "\<forall>n \<in> set (ps_networks st1). length (jn_network_key n) = 32"
      "is_ok (gateway_plan_from_configs X (ps_exit_gateways (fst (run_steps (state_steps X now) st1)))
         (ps_networks (fst (run_steps (state_steps X now) st1))))"
      "st' = fst (upgrade_schema (fst (run_steps (state_steps X now) st1)))"
    using assms(3) unfolding migrate_Inr_iff by blast
  define st2 where "st2 = fst (run_steps (state_steps X now) st1)"
  have st': "st' = st2\<lparr>ps_schema_version := ps_schema_version st'\<rparr>"
    using m(5) by (auto simp: st2_def upgrade_schema_def split: if_splits)
  have k: "map jn_network_key (ps_networks st2) = map jn_network_key (ps_networks st1)"
      "ps_identity_secret_key st2 = ps_identity_secret_key st1" "ps_schema_version st2 = ps_schema_version st1"
    using migration_keeps_keys [of X now st1] by (simp_all add: st2_def)
  have "ps_schema_version st1 \<le> AGENT_STATE_SCHEMA_VERSION"
    using m(1,2) by (auto simp: migrate_identity_def split: if_splits option.splits)
  then have v: "ps_schema_version st' = AGENT_STATE_SCHEMA_VERSION"
    using m(5) k(3) by (auto simp: st2_def upgrade_schema_def split: if_splits)
  have s: "list_all (\<lambda>f. settled f st2) (state_steps X now)"
    unfolding st2_def by (rule run_steps_settles [OF state_steps_settling [OF assms(1)]])
  then show s': "list_all (\<lambda>f. settled f st') (state_steps X now)"
    by (subst st') (simp add: list_all_iff settled_schema)
  have "length (ps_identity_secret_key st') = 32"
    using m(2) assms(2) k(2) by (subst st') (auto simp: migrate_identity_def split: if_splits option.splits)
  moreover have "\<forall>n \<in> set (ps_networks st'). length (jn_network_key n) = 32"
  proof -
    have "set (map jn_network_key (ps_networks st')) = set (map jn_network_key (ps_networks st1))"
      using k(1) by (subst st') simp
    then show ?thesis using m(3) by (auto simp: image_iff set_eq_iff) (metis imageI image_iff)
  qed
  moreover have "is_ok (gateway_plan_from_configs X (ps_exit_gateways st') (ps_networks st'))"
    using m(4) by (subst (1 2) st') (simp add: st2_def)
  ultimately show "agent_state_ok X now st'"
    using s' v by (auto simp: agent_state_ok_def state_steps_def settled_state_steps settled_discard settled_clear_selection)
qed

text \<open>What a network keeps through a migration. A controller key is pinned only if none was.\<close>

definition network_trust_kept :: "joined_network \<Rightarrow> joined_network \<Rightarrow> bool" where
  "network_trust_kept n n' \<longleftrightarrow>
     jn_network n' = jn_network n \<and> jn_assigned_addresses n' = jn_assigned_addresses n
     \<and> jn_certificate n' = jn_certificate n \<and> jn_network_key n' = jn_network_key n
     \<and> (let key = ncp_pinned_controller_public_key (jn_control_plane n);
            key' = ncp_pinned_controller_public_key (jn_control_plane n')
        in key' = key \<or> (key = [] \<and> length key' = 32
             \<and> (\<forall>c. jn_certificate n = Some c \<longrightarrow> mc_controller_public_key c = key')))"

lemma network_trust_kept_policy: "network_trust_kept n n' \<Longrightarrow> network_trust_kept n (network_with_policy p s n')"
  by (simp add: network_trust_kept_def network_with_policy_def)

lemma binding_safe_certificate:
  assumes "legacy_binding_is_safe X lp n" "lp_controller_key lp = Some k" "jn_certificate n = Some c"
  shows "mc_controller_public_key c = k" "length k = 32"
  using assms by (auto simp: legacy_binding_is_safe_def Let_def map_filter_simps split: if_splits)

lemma run_network_steps_pinned:
  "ncp_pinned_controller_public_key (fst (run_steps (network_steps X st lp safe ck i) cp))
   = ncp_pinned_controller_public_key (fst (bind_controller_key lp safe ck cp))"
proof -
  have k: "ncp_pinned_controller_public_key (fst (fill_from_legacy X st lp safe c)) = ncp_pinned_controller_public_key c"
    "ncp_pinned_controller_public_key (fst (migrate_planet_acceptance_metadata X c)) = ncp_pinned_controller_public_key c" for c
    using fill_from_legacy_keeps_trust [of X st lp safe c] metadata_keeps(2) [of X c] by (simp_all add: trust_fields_def)
  have "ncp_pinned_controller_public_key (fst (bind_controller_key lp safe ck (fst (bind_controller_url lp safe cp))))
      = ncp_pinned_controller_public_key (fst (bind_controller_key lp safe ck cp))"
    by (auto simp: bind_controller_key_def bind_controller_url_def split: option.splits)
  then show ?thesis
    unfolding network_steps_def run_steps_Cons by (simp add: k later_steps_keep)
qed

lemma migrate_legacy_network_trust:
  assumes "legacy_key_ok lp"
  shows "network_trust_kept n (fst (migrate_legacy_network X st lp n))"
proof -
  define safe ck where "safe = legacy_binding_is_safe X lp n"
    and "ck = map_option mc_controller_public_key (jn_certificate n)"
  let ?k = "ncp_pinned_controller_public_key (jn_control_plane n)"
  let ?k' = "ncp_pinned_controller_public_key (fst (bind_controller_key lp safe ck (jn_control_plane n)))"
  have "?k' = ?k \<or> (?k = [] \<and> length ?k' = 32 \<and> (\<forall>c. jn_certificate n = Some c \<longrightarrow> mc_controller_public_key c = ?k'))"
  proof (cases "?k = [] \<and> safe")
    case True
    then obtain k where k: "lp_controller_key lp = Some k" "length k = 32"
      using assms by (auto simp: safe_def legacy_binding_is_safe_def legacy_key_ok_def Let_def split: option.splits)
    then have "mc_controller_public_key c = k" if "jn_certificate n = Some c" for c
      using True that binding_safe_certificate [of X lp n k c] by (simp add: safe_def)
    then show ?thesis
      using True k by (auto simp: bind_controller_key_def ck_def filter_option_def split: option.splits)
  qed (auto simp: bind_controller_key_def)
  then show ?thesis
    by (simp add: network_trust_kept_def migrate_legacy_network_eq Let_def run_network_steps_pinned safe_def ck_def)
qed

lemma migration_trust:
  "list_all2 network_trust_kept (ps_networks st) (ps_networks (fst (run_steps (state_steps X now) st)))"
proof -
  define st1 where "st1 = fst (migrate_relay_endpoint st)"
  have "ps_networks st1 = ps_networks st"
    by (simp add: st1_def migrate_relay_endpoint_def split: list.split option.split)
  then have "ps_networks (fst (run_steps (state_steps X now) st)) = map (fst \<circ> clear_unusable_exit_selection
      \<circ> (fst \<circ> discard_invalid_policy X now) \<circ> (fst \<circ> migrate_legacy_network X st1 (legacy_planet_of X st1))) (ps_networks st)"
    unfolding state_steps_def run_steps_Cons st1_def [symmetric]
    by (simp add: state_steps_fst migrate_legacy_eq Let_def comp_def)
  moreover have "network_trust_kept n (fst (clear_unusable_exit_selection (fst (discard_invalid_policy X now
      (fst (migrate_legacy_network X st1 (legacy_planet_of X st1) n))))))" for n
    using migrate_legacy_network_trust [OF legacy_planet_key_ok, of n X st1 X st1] discard_invalid_policy_shape clear_selection_shape
    by (metis network_trust_kept_policy)
  ultimately show ?thesis by (simp add: list_all2_map2 list_all2_same)
qed

section \<open>Properties\<close>

text \<open>
  C31: What the agent loads satisfies its invariant. If the migration of a persisted state succeeds then the schema is the
  current one, the identity and every network key have 32 octets, every policy kept was verified against the
  authorization and the pinned key kept beside it, every exit selection and every local exit gateway is one that
  this policy supports, and the plan for the local gateways can be built.
\<close>

theorem migrated_agent_state_ok:
  assumes "sha256_law X" and "\<And>k. random = Some k \<Longrightarrow> length k = 32"
    and "migrate_and_validate_agent_state X random now st = Inr (st', changed)"
  shows "agent_state_ok X now st'"
  using assms by (rule migrated_state(2))

text \<open>
  C32: The migration is idempotent: a second run on its result, at the same time and whatever the generator would return,
  succeeds, changes nothing and reports no change, so a second start writes nothing.
\<close>

theorem migration_idempotent:
  assumes "sha256_law X" and "\<And>k. random = Some k \<Longrightarrow> length k = 32"
    and "migrate_and_validate_agent_state X random now st = Inr (st', changed)"
  shows "migrate_and_validate_agent_state X random' now st' = Inr (st', False)"
proof -
  note ok = migrated_state [OF assms]
  have "run_steps (state_steps X now) st' = (st', False)"
    using run_steps_settled [OF ok(1)] by (simp add: settled_def)
  moreover have "migrate_identity random' st' = Inr (st', False)" "upgrade_schema st' = (st', False)"
    using ok(2) by (simp_all add: agent_state_ok_def migrate_identity_def upgrade_schema_def)
  ultimately show ?thesis
    using ok(2) unfolding migrate_Inr_iff by (auto simp: agent_state_ok_def)
qed

text \<open>
  A migration never widens trust. The device keeps its identifier, and its identity key if it has one of 32 octets; a
  state with the current schema whose identity key is damaged is refused instead of being given a new identity. Every
  network keeps its certificate, key and addresses, and a pinned controller key is never replaced: a key is pinned
  only where none was, and then it is the key that signed the certificate of the device, if it holds one.
\<close>

theorem migration_keeps_trust:
  assumes "migrate_and_validate_agent_state X random now st = Inr (st', changed)"
  shows "ps_device_id st' = ps_device_id st
    \<and> (ps_identity_secret_key st' = ps_identity_secret_key st
       \<or> (length (ps_identity_secret_key st) \<noteq> 32 \<and> ps_schema_version st < AGENT_STATE_SCHEMA_VERSION))
    \<and> list_all2 network_trust_kept (ps_networks st) (ps_networks st')"
proof -
  obtain st1 c1 where m: "migrate_identity random st = Inr (st1, c1)"
      "st' = fst (upgrade_schema (fst (run_steps (state_steps X now) st1)))"
    using assms unfolding migrate_Inr_iff by blast
  have st': "ps_device_id st' = ps_device_id st1" "ps_identity_secret_key st' = ps_identity_secret_key st1"
      "ps_networks st' = ps_networks (fst (run_steps (state_steps X now) st1))"
    using m(2) migration_keeps_keys [of X now st1] by (auto simp: upgrade_schema_def)
  have "ps_device_id st1 = ps_device_id st" "ps_networks st1 = ps_networks st"
      "ps_identity_secret_key st1 = ps_identity_secret_key st
       \<or> (length (ps_identity_secret_key st) \<noteq> 32 \<and> ps_schema_version st < AGENT_STATE_SCHEMA_VERSION)"
    using m(1) by (auto simp: migrate_identity_def not_le split: if_splits option.splits)
  then show ?thesis using migration_trust [of st1 X now] by (simp add: st')
qed

section \<open>A sample migration\<close>

definition sample_old_control_plane :: network_control_plane where
  "sample_old_control_plane = control_plane_default\<lparr>
     ncp_exit_node_selection := \<lparr>ens_ipv4_gateway = Some 1, ens_ipv6_gateway = None, ens_kill_switch = True\<rparr>\<rparr>"

definition sample_old_agent :: persisted_state where
  "sample_old_agent = (persisted_state_new 9 [])\<lparr>ps_schema_version := 3,
     ps_networks := [sample_joined\<lparr>jn_control_plane := sample_old_control_plane,
       jn_certificate := Some (sample_certificate\<lparr>mc_controller_public_key := replicate 32 6\<rparr>)\<rparr>],
     ps_relay_endpoint := Some (SocketV4 0x08080808 9000),
     ps_planet := Some \<lparr>ppl_manifest_url = ''https://c'', ppl_controller_url = ''https://c'',
       ppl_controller_public_key_base64 = ''k'', ppl_controller_tls_ca_pem = None\<rparr>\<rparr>"

definition sample_new_agent :: persisted_state where
  "sample_new_agent = sample_old_agent\<lparr>ps_schema_version := 4, ps_identity_secret_key := replicate 32 7,
     ps_relay_endpoints := [SocketV4 0x08080808 9000],
     ps_networks := [sample_joined\<lparr>jn_control_plane := control_plane_default\<lparr>ncp_controller_url := Some ''https://c'',
         ncp_pinned_controller_public_key := replicate 32 6, ncp_planet_manifest_url := Some ''https://c'',
         ncp_planet_manifest_version := Some 2, ncp_planet_last_issued_at_unix_seconds := Some 0,
         ncp_planet_semantic_digest := replicate 32 0,
         ncp_verified_relays := [\<lparr>prl_endpoint = SocketV4 0x08080808 9000, prl_priority = 0, prl_identity = None\<rparr>]\<rparr>,
       jn_certificate := Some (sample_certificate\<lparr>mc_controller_public_key := replicate 32 6\<rparr>)\<rparr>]\<rparr>"

lemma sample_legacy_planet:
  "ps_planet st = ps_planet sample_old_agent \<Longrightarrow> ps_relay_endpoints st = [e] \<Longrightarrow> legacy_planet_of sample_agent_ops st =
     \<lparr>lp_controller_url = Some ''https://c'', lp_manifest_url = Some ''https://c'',
      lp_controller_key = Some (replicate 32 6), lp_tls_ca_pem = None, lp_tls_urls_are_https = True,
      lp_relays = [\<lparr>prl_endpoint = e, prl_priority = 0, prl_identity = None\<rparr>]\<rparr>"
proof -
  assume "ps_planet st = ps_planet sample_old_agent" "ps_relay_endpoints st = [e]"
  moreover have "trim ''k'' = ''k''" by (rule trim_visible) (simp_all add: visible_def)
  moreover have "base64_decode sample_agent_ops ''k'' = Some (replicate 32 6)" by (simp add: sample_agent_simps)
  ultimately show ?thesis
    by (simp add: legacy_planet_of_def Let_def sample_old_agent_def sample_normalize result_ok_def filter_option_def
        starts_with_def)
qed

definition sample_planet :: legacy_planet where
  "sample_planet = \<lparr>lp_controller_url = Some ''https://c'', lp_manifest_url = Some ''https://c'',
     lp_controller_key = Some (replicate 32 6), lp_tls_ca_pem = None, lp_tls_urls_are_https = True,
     lp_relays = [\<lparr>prl_endpoint = SocketV4 0x08080808 9000, prl_priority = 0, prl_identity = None\<rparr>]\<rparr>"

lemma sample_migrate_network:
  assumes "ps_root_servers st = []" "ps_stun_servers st = []" "ps_authorizations st = []"
  shows "migrate_legacy_network sample_agent_ops st sample_planet (hd (ps_networks sample_old_agent))
   = ((hd (ps_networks sample_new_agent))\<lparr>jn_control_plane := (jn_control_plane (hd (ps_networks sample_new_agent)))
        \<lparr>ncp_exit_node_selection := ncp_exit_node_selection sample_old_control_plane\<rparr>\<rparr>, True)"
proof -
  let ?n = "hd (ps_networks sample_old_agent)"
  have safe: "legacy_binding_is_safe sample_agent_ops sample_planet ?n"
    by (simp add: legacy_binding_is_safe_def sample_planet_def sample_old_agent_def sample_joined_def
        sample_old_control_plane_def control_plane_default_def map_filter_simps)
  have digest: "semantic_digest sample_agent_ops m = Inr (replicate 32 0)" for m
    by (simp add: semantic_digest_def sample_agent_simps)
  show ?thesis
    unfolding migrate_legacy_network_def Let_def eqTrueI [OF safe]
    by (simp add: assms digest bind_controller_url_def bind_controller_key_def fill_from_legacy_def
        uses_legacy_controller_def fill_steps fill_authorization_def migrate_planet_acceptance_metadata_def
        infer_version_def infer_issued_at_def infer_digest_def inferred_version_def sample_normalize result_ok_def
        filter_option_def sample_planet_def sample_old_agent_def sample_new_agent_def sample_old_control_plane_def
        control_plane_default_def)
qed

lemma sample_migration:
  "migrate_and_validate_agent_state sample_agent_ops (Some (replicate 32 7)) 100 sample_old_agent
   = Inr (sample_new_agent, True)"
proof -
  define st where "st = sample_old_agent\<lparr>ps_identity_secret_key := replicate 32 7, ps_relay_endpoints := [SocketV4 0x08080808 9000]\<rparr>"
  have st: "ps_networks st = [hd (ps_networks sample_old_agent)]" "ps_authorizations st = []" "ps_root_servers st = []"
      "ps_stun_servers st = []"
    by (simp_all add: st_def sample_old_agent_def persisted_state_new_def)
  have lp: "legacy_planet_of sample_agent_ops st = sample_planet"
    unfolding sample_planet_def by (rule sample_legacy_planet) (simp_all add: st_def)
  have l: "migrate_legacy_network_control_planes sample_agent_ops st = (st\<lparr>ps_networks :=
      [(hd (ps_networks sample_new_agent))\<lparr>jn_control_plane := (jn_control_plane (hd (ps_networks sample_new_agent)))
        \<lparr>ncp_exit_node_selection := ncp_exit_node_selection sample_old_control_plane\<rparr>\<rparr>]\<rparr>, True)"
    by (simp add: migrate_legacy_network_control_planes_def lp st sample_migrate_network)
  have id: "migrate_identity (Some (replicate 32 7)) sample_old_agent
      = Inr (sample_old_agent\<lparr>ps_identity_secret_key := replicate 32 7\<rparr>, True)"
    by (simp add: migrate_identity_def sample_old_agent_def persisted_state_new_def AGENT_STATE_SCHEMA_VERSION_def)
  have relay: "migrate_relay_endpoint (sample_old_agent\<lparr>ps_identity_secret_key := replicate 32 7\<rparr>) = (st, True)"
    by (simp add: migrate_relay_endpoint_def st_def sample_old_agent_def persisted_state_new_def)
  show ?thesis
    by (simp add: migrate_and_validate_agent_state_def id relay l)
      (simp add: discard_invalid_persisted_policies_def clear_unusable_selections_def clear_unusable_gateways_def
        clear_unusable_exit_gateways_def gateway_plan_from_configs_def upgrade_schema_def st_def sample_old_agent_def
        sample_new_agent_def discard_invalid_policy_def clear_unusable_exit_selection_def with_exit_selection_def
        control_plane_default_def persisted_state_new_def AGENT_STATE_SCHEMA_VERSION_def sample_joined_def
        sample_old_control_plane_def no_exit_selection_def exit_selection_is_empty_def)
qed

text \<open>An old state whose network is bound to its Planet, and whose unusable exit selection is dropped.\<close>

lemma sample_sha256: "sha256_law sample_agent_ops"
  by (simp add: sha256_law_def sample_agent_simps)

theorem migrated_agent_state_ok_witness: "agent_state_ok sample_agent_ops 100 sample_new_agent"
  by (rule migrated_agent_state_ok [OF sample_sha256 _ sample_migration]) simp

theorem migration_idempotent_witness:
  "migrate_and_validate_agent_state sample_agent_ops None 100 sample_new_agent = Inr (sample_new_agent, False)"
  by (rule migration_idempotent [OF sample_sha256 _ sample_migration]) simp

theorem migration_keeps_trust_witness:
  "ps_device_id sample_new_agent = 9 \<and> list_all2 network_trust_kept (ps_networks sample_old_agent) (ps_networks sample_new_agent)
   \<and> map (ncp_pinned_controller_public_key \<circ> jn_control_plane) (ps_networks sample_new_agent) = [replicate 32 6]"
  using migration_keeps_trust [OF sample_migration]
  by (simp add: sample_old_agent_def sample_new_agent_def persisted_state_new_def)

end
