(* ===== verification/Agent_Invariants.thy ===== *)
theory Agent_Invariants
  imports Agent_Enrollment Agent_Migration
begin

text \<open>
  What the handlers of the agent do to its state, and what holds in every state they reach.
\<close>

section \<open>Outcomes of the handlers\<close>

text \<open>Actions that change neither the state in memory nor what it is made of.\<close>

lemma abind_run:
  "abind m k w = (case snd (m w) of Inl e \<Rightarrow> (fst (m w), Inl e) | Inr x \<Rightarrow> k x (fst (m w)))"
  by (simp add: abind_def split: prod.split sum.split)

lemma run_simps [simp]:
  "areturn x w = (w, Inr x)" "araise e w = (w, Inl e)" "alift r w = (w, r)"
  "get_state a = (a, Inr (ag_state a))" "modify_state f a = (a\<lparr>ag_state := f (ag_state a)\<rparr>, Inr ())"
  "adapter_active A a = (a, Inr (ado_is_active A (ag_adapter a)))"
  "adapter_call g a = (a\<lparr>ag_adapter := fst (g (ag_adapter a))\<rparr>, Inr (snd (g (ag_adapter a))))"
  "adapter_disable A a = (a\<lparr>ag_adapter := ado_deactivate A (ag_adapter a)\<rparr>, Inr ())"
  "set_turn_credential i c a = (a\<lparr>ag_turn_credentials := (case c of Some c \<Rightarrow> hm_insert i c (ag_turn_credentials a)
     | None \<Rightarrow> hm_remove i (ag_turn_credentials a))\<rparr>, Inr ())"
  "fst (amap_err h m w) = fst (m w)" "snd (amap_err h m w) = map_err h (snd (m w))"
  by (simp_all add: action_defs agent_action_defs split: prod.split)

lemma write_state_keeps [simp]:
  "ag_state (fst (write_state E k w)) = ag_state w" "ag_adapter (fst (write_state E k w)) = ag_adapter w"
  "ag_turn_credentials (fst (write_state E k w)) = ag_turn_credentials w"
  by (simp_all add: write_state_def split: write_outcome.split)

lemma reload_keeps [simp]:
  "ag_state (fst (request_transport_reload w)) = ag_state w" "ag_adapter (fst (request_transport_reload w)) = ag_adapter w"
  "snd (request_transport_reload w) = Inr ()"
  by (simp_all add: request_transport_reload_def Let_def)

lemma fail_closed_keeps [simp]: "ag_state (fst (fail_closed A e w)) = ag_state w" "snd (fail_closed A e w) = Inl e"
  by (simp_all add: fail_closed_def abind_run)

lemma adapter_try_keeps [simp]: "ag_state (fst (adapter_try e f w)) = ag_state w"
  by (simp add: adapter_try_def abind_run)

lemma abind_state:
  assumes "\<And>e. snd (m w) = Inl e \<Longrightarrow> P (ag_state (fst (m w)))"
    and "\<And>x. snd (m w) = Inr x \<Longrightarrow> P (ag_state (fst (k x (fst (m w)))))"
  shows "P (ag_state (fst (abind m k w)))"
  using assms by (simp add: abind_run split: sum.split)

lemma configure_relay_outcome:
  assumes "P (ag_state w)" "P (with_relay config (ag_state w))"
  shows "P (ag_state (fst (configure_relay X A E config w)))"
  unfolding configure_relay_def by (intro abind_state [where P = P]) (auto simp: assms intro!: abind_state [where P = P] split: if_splits)

lemma configure_exit_selection_outcome:
  assumes "P (ag_state w)"
    and "\<And>n. find_network i (ps_networks (ag_state w)) = Some n \<Longrightarrow> is_ok (validate_exit_selection X (ae_now E) n selection) \<Longrightarrow>
      P (select_exit i selection (ag_state w))
      \<and> P (select_exit i (ncp_exit_node_selection (jn_control_plane n)) (select_exit i selection (ag_state w)))"
  shows "P (ag_state (fst (configure_exit_selection X A E i selection w)))"
  unfolding configure_exit_selection_def restore_selection_def restore_kill_switch_def Let_def
  by (intro abind_state [where P = P]) (auto simp: ok_or_def assms is_ok_def intro!: abind_state [where P = P] split: if_splits option.splits)

lemma install_gateways_outcome:
  assumes "P (ag_state w)" "P ((ag_state w)\<lparr>ps_exit_gateways := previous\<rparr>)"
  shows "P (ag_state (fst (install_gateways X A E previous plan e w)))"
  unfolding install_gateways_def
  by (intro abind_state [where P = P]) (auto simp: assms intro!: abind_state [where P = P] split: if_splits)

lemma gateways_restored [simp]:
  "(with_gateway config st)\<lparr>ps_exit_gateways := ps_exit_gateways st\<rparr> = st"
  "(without_gateway i st)\<lparr>ps_exit_gateways := ps_exit_gateways st\<rparr> = st"
  by (simp_all add: with_gateway_def without_gateway_def)

lemma configure_exit_gateway_outcome:
  assumes "P (ag_state w)"
    and "\<And>n. find_network (egc_network_id config) (ps_networks (ag_state w)) = Some n \<Longrightarrow>
      is_ok (validate_local_exit_gateway X (ae_now E) n (ps_device_id (ag_state w)) config) \<Longrightarrow>
      P (with_gateway config (ag_state w))"
  shows "P (ag_state (fst (configure_exit_gateway X A E config w)))"
  unfolding configure_exit_gateway_def
  by (intro abind_state [where P = P])
    (auto simp: ok_or_def assms is_ok_def intro!: abind_state [where P = P] install_gateways_outcome [where P = P]
      split: if_splits option.splits)

lemma remove_exit_gateway_outcome:
  assumes "P (ag_state w)" "P (without_gateway i (ag_state w))"
  shows "P (ag_state (fst (remove_exit_gateway X A E i w)))"
  unfolding remove_exit_gateway_def
  by (intro abind_state [where P = P])
    (auto simp: assms intro!: abind_state [where P = P] install_gateways_outcome [where P = P] split: if_splits)

lemma add_network_outcome:
  assumes "P (ag_state w)"
    and "\<And>n. \<not> list_ex (\<lambda>m. vn_id (jn_network m) = vn_id (jn_network n)) (ps_networks (ag_state w)) \<Longrightarrow>
      jn_control_plane n = control_plane_default \<Longrightarrow> P (update_networks (\<lambda>ns. ns @ [n]) (ag_state w))"
  shows "P (ag_state (fst (add_network X E new_id random request w)))"
  unfolding add_network_def Let_def
  by (intro abind_state [where P = P])
    (auto simp: assms(1) intro!: assms(2) abind_state [where P = P] split: if_splits)

lemma remove_network_outcome:
  assumes "P (ag_state w)" "P (without_network i (ag_state w))"
  shows "P (ag_state (fst (remove_network X A E i w)))"
  unfolding remove_network_def
  by (intro abind_state [where P = P]) (auto simp: assms intro!: abind_state [where P = P] split: if_splits)

lemma activate_adapter_outcome: "ag_state (fst (activate_adapter X A E w)) = ag_state w"
proof -
  have "(\<lambda>st. st = ag_state w) (ag_state (fst (activate_adapter X A E w)))"
    unfolding activate_adapter_def activate_adapter_transaction_def
    by (intro abind_state [where P = "\<lambda>st. st = ag_state w"])
      (auto intro!: abind_state [where P = "\<lambda>st. st = ag_state w"] split: prod.split sum.split simp: abind_run adapter_try_def split: if_splits)
  then show ?thesis .
qed

lemma persist_outcome:
  "P (ag_state w) \<Longrightarrow> P candidate \<Longrightarrow> P (ag_state (fst (persist_state_candidate E k candidate w)))"
  by (simp add: persist_state_candidate_def split: write_outcome.split)

lemma configure_planet_outcome:
  assumes "P (ag_state w)"
    and "\<And>manifest_url tls_ca_pem pinned_key manifest update networks.
      try_map (planet_update_for X (ae_now E) manifest pinned_key manifest_url tls_ca_pem) (ps_networks (ag_state w)) = Inr networks \<Longrightarrow>
      P (planet_candidate manifest config manifest_url tls_ca_pem update networks (ag_state w))"
  shows "P (ag_state (fst (configure_planet X H E config w)))"
  unfolding configure_planet_def
  by (intro abind_state [where P = P])
    (auto simp: assms split: prod.splits intro!: abind_state [where P = P] persist_outcome [where P = P])

lemma apply_planet_refresh_outcome:
  assumes "P (ag_state w)"
    and "\<And>n update. find_network (plt_network_id target) (ps_networks (ag_state w)) = Some n \<Longrightarrow>
      validate_planet_update X (jn_control_plane n) manifest (plt_pinned_controller_public_key target)
        (Some (plt_controller_url target)) (ae_now E) = Inr update \<Longrightarrow>
      P (update_networks (update_network (plt_network_id target)
          (\<lambda>n'. n'\<lparr>jn_control_plane := updated_control_plane (jn_control_plane n) (Some (plt_manifest_url target)) update\<rparr>)) (ag_state w))"
  shows "P (ag_state (fst (apply_planet_refresh X E target manifest w)))"
  unfolding apply_planet_refresh_def apply_planet_update_def Let_def
  by (intro abind_state [where P = P])
    (auto simp: assms split: prod.splits option.split intro!: abind_state [where P = P] persist_outcome [where P = P])

lemma refresh_one_planet_outcome:
  assumes "P (ag_state w)" and "\<And>manifest. P (ag_state (fst (apply_planet_refresh X E target manifest w)))"
  shows "P (ag_state (fst (refresh_one_planet X H E target w)))"
  unfolding refresh_one_planet_def
  by (intro abind_state [where P = P]) (auto simp: assms intro!: abind_state [where P = P])

lemma reconcile_exits_outcome:
  assumes "P (ag_state w)" and "\<And>g. previous = Some g \<Longrightarrow> \<not> cleared \<Longrightarrow> P ((ag_state w)\<lparr>ps_exit_gateways := g\<rparr>)"
  shows "P (ag_state (fst (reconcile_exits A E cleared previous gateways plan w)))"
  unfolding reconcile_exits_def
  by (intro abind_state [where P = P])
    (auto simp: assms split: if_splits option.split intro!: abind_state [where P = P])

lemma adapt_networks_keeps [simp]: "ag_state (fst (adapt_networks A removed reload withdrawn networks w)) = ag_state w"
  by (auto simp: adapt_networks_def abind_run split: option.split if_splits)

lemma credential_reload_keep [simp]:
  "ag_state (fst ((case c of None \<Rightarrow> areturn () | Some c \<Rightarrow> set_turn_credential i c) w)) = ag_state w"
  "ag_state (fst ((if b then request_transport_reload else areturn ()) w)) = ag_state w"
  by (simp_all split: option.split)

lemma apply_acted_outcome:
  assumes "P (ag_state w)"
    and "\<And>st selection_cleared gateways_cleared.
      authorized_state X (ae_now E) i (fst a) (ag_state w) = (st, selection_cleared, gateways_cleared) \<Longrightarrow>
      P st \<and> (\<not> gateways_cleared \<longrightarrow> P (st\<lparr>ps_exit_gateways := ps_exit_gateways (ag_state w)\<rparr>))"
  shows "P (ag_state (fst (apply_acted X A E i n a w)))"
proof -
  obtain acted reload credential where a: "a = (acted, reload, credential)" by (cases a)
  obtain st s g where st: "authorized_state X (ae_now E) i acted (ag_state w) = (st, s, g)" by (metis prod_cases3)
  then have P: "P st" "\<not> g \<Longrightarrow> P (st\<lparr>ps_exit_gateways := ps_exit_gateways (ag_state w)\<rparr>)" using assms(2) a by auto
  show ?thesis unfolding apply_acted_def a prod.case
    by (intro abind_state [where P = P]) (auto simp: assms(1) st P intro!: abind_state [where P = P] reconcile_exits_outcome [where P = P])
qed

lemma apply_authorization_action_outcome:
  assumes "P (ag_state w)"
    and "\<And>n acted st selection_cleared gateways_cleared.
      find_network (art_network_id target) (ps_networks (ag_state w)) = Some n \<Longrightarrow>
      act_on_network (ae_now E) action n = Inr acted \<Longrightarrow>
      authorized_state X (ae_now E) (art_network_id target) (fst acted) (ag_state w) = (st, selection_cleared, gateways_cleared) \<Longrightarrow>
      P st \<and> (\<not> gateways_cleared \<longrightarrow> P (st\<lparr>ps_exit_gateways := ps_exit_gateways (ag_state w)\<rparr>))"
  shows "P (ag_state (fst (apply_authorization_action X A E target action w)))"
  unfolding apply_authorization_action_def
  by (intro abind_state [where P = P])
    (auto simp: assms split: option.split intro!: abind_state [where P = P] apply_acted_outcome [where P = P])

lemma restore_policy_outcome:
  assumes "P (ag_state w)"
    and "P ((update_networks (update_network i (restored_policy (ncp_policy_manifest (jn_control_plane n))
              (ncp_exit_node_selection (jn_control_plane n)))) (ag_state w))\<lparr>ps_exit_gateways := g\<rparr>)"
  shows "P (ag_state (fst (restore_policy A E i n g w)))"
  unfolding restore_policy_def
  by (intro abind_state [where P = P]) (auto simp: assms intro!: abind_state [where P = P])

lemma apply_policy_manifest_outcome:
  assumes "P (ag_state w)"
    and "\<And>n st selection_cleared gateways_cleared. find_network i (ps_networks (ag_state w)) = Some n \<Longrightarrow>
      checked_policy X (ae_now E) i n policy = Inr () \<Longrightarrow>
      stored_policy_state i policy n (ag_state w) = (st, selection_cleared, gateways_cleared) \<Longrightarrow>
      P st \<and> P ((update_networks (update_network i (restored_policy (ncp_policy_manifest (jn_control_plane n))
              (ncp_exit_node_selection (jn_control_plane n)))) st)\<lparr>ps_exit_gateways := ps_exit_gateways (ag_state w)\<rparr>)"
  shows "P (ag_state (fst (apply_policy_manifest X A E i policy w)))"
proof (cases "find_network i (ps_networks (ag_state w))")
  case None
  then show ?thesis by (simp add: apply_policy_manifest_def abind_run ok_or_def assms(1))
next
  case (Some n)
  obtain st s g where st: "stored_policy_state i policy n (ag_state w) = (st, s, g)" by (metis prod_cases3)
  show ?thesis unfolding apply_policy_manifest_def
    by (intro abind_state [where P = P]) (auto simp: assms Some ok_or_def st intro!: abind_state [where P = P]
        reconcile_exits_outcome [where P = P] restore_policy_outcome [where P = P] dest: assms(2) [OF Some _ st])
qed

lemma expire_stale_policies_outcome:
  assumes "P (ag_state w)"
    and "P (fst (clear_gateways ((ag_state w)\<lparr>ps_networks := map (\<lambda>n. fst (expire_policy (ae_now E) n)) (ps_networks (ag_state w))\<rparr>)))"
  shows "P (ag_state (fst (expire_stale_policies X A E w)))"
  unfolding expire_stale_policies_def
  by (intro abind_state [where P = P]) (use assms in \<open>auto simp: Let_def case_prod_beta comp_def
      intro!: abind_state [where P = P] reconcile_exits_outcome [where P = P]\<close>)

lemma commit_enrollment_outcome:
  assumes "P (ag_state w)"
    and "find_network (vn_id (ers_network (ten_enrollment te))) (ps_networks (ag_state w)) = None \<Longrightarrow>
      P (update_networks (\<lambda>ns. ns @ [enrolled_network te cp]) (ag_state w))"
    and "\<And>n. find_network (vn_id (ers_network (ten_enrollment te))) (ps_networks (ag_state w)) = Some n \<Longrightarrow>
      check_replacement (ten_controller_public_key te) n cp = Inr () \<Longrightarrow>
      P (update_networks (update_network (vn_id (ers_network (ten_enrollment te))) (\<lambda>_. enrolled_network te cp)) (ag_state w))"
  shows "P (ag_state (fst (commit_enrollment A E te cp w)))"
proof -
  have id: "vn_id (jn_network (enrolled_network te cp)) = vn_id (ers_network (ten_enrollment te))"
    by (simp add: enrolled_network_def Let_def)
  show ?thesis unfolding commit_enrollment_def Let_def id
    by (intro abind_state [where P = P]) (auto simp: assms split: option.splits if_splits intro!: abind_state [where P = P])
qed

section \<open>Steps and reachable states\<close>

text \<open>
  A step is one handler with any arguments, environment and adapter. The last part of an enrollment uses a control plane that was
  prepared on some earlier state of the agent.
\<close>

inductive agent_step :: "'x agent_ops_scheme \<Rightarrow> 'a agent \<Rightarrow> 'a agent \<Rightarrow> bool" for X where
  relay: "agent_step X w (fst (configure_relay X A E config w))"
| exit_selection: "agent_step X w (fst (configure_exit_selection X A E i selection w))"
| exit_gateway: "agent_step X w (fst (configure_exit_gateway X A E gateway w))"
| no_exit_gateway: "agent_step X w (fst (remove_exit_gateway X A E i w))"
| planet: "agent_step X w (fst (configure_planet X H E planet w))"
| planet_refresh: "agent_step X w (fst (refresh_one_planet X H E target w))"
| authorization: "agent_step X w (fst (apply_authorization_action X A E authorization action w))"
| policy: "agent_step X w (fst (apply_policy_manifest X A E i policy w))"
| expiry: "agent_step X w (fst (expire_stale_policies X A E w))"
| new_network: "agent_step X w (fst (add_network X E new_id random request w))"
| gone_network: "agent_step X w (fst (remove_network X A E i w))"
| activate: "agent_step X w (fst (activate_adapter X A E w))"
| deactivate: "agent_step X w (deactivate_adapter A w)"
| hint: "agent_step X w (fst (consider_authorization_hint X now h w))"

inductive agent_reachable :: "'x agent_ops_scheme \<Rightarrow> 'a agent \<Rightarrow> 'a agent \<Rightarrow> bool" for X w0 where
  start: "agent_reachable X w0 w0"
| step: "agent_reachable X w0 w \<Longrightarrow> agent_step X w w' \<Longrightarrow> agent_reachable X w0 w'"
| enroll: "agent_reachable X w0 w \<Longrightarrow> agent_reachable X w0 earlier \<Longrightarrow>
    prepare_enrollment X H now te (ag_state earlier) = Inr cp \<Longrightarrow>
    agent_reachable X w0 (fst (commit_enrollment A E te cp w))"

text \<open>A predicate on states that every handler preserves, by the outcomes of the handlers.\<close>

abbreviation network_id_of :: "joined_network \<Rightarrow> network_id" where "network_id_of n \<equiv> vn_id (jn_network n)"

lemma find_network_Some:
  "find_network i ns = Some n \<Longrightarrow> n \<in> set ns \<and> network_id_of n = i"
  by (auto simp: find_network_def find_Some_iff)

lemma find_network_None: "find_network i ns = None \<longleftrightarrow> i \<notin> network_id_of ` set ns"
  by (auto simp: find_network_def find_None_iff)

lemma set_update_network:
  assumes "n \<in> set (update_network i f ns)"
  shows "n \<in> set ns \<or> (\<exists>m. find_network i ns = Some m \<and> n = f m)"
  using assms by (induction ns) (auto simp: find_network_def split: if_splits)

lemma update_network_ids:
  "(\<And>n. find_network i ns = Some n \<Longrightarrow> network_id_of (f n) = i) \<Longrightarrow>
     map network_id_of (update_network i f ns) = map network_id_of ns"
  by (induction ns) (auto simp: find_network_def)

lemma remove_first_network_subseq: "set (remove_first_network i ns) \<subseteq> set ns"
  by (induction ns) auto

lemma remove_first_network_ids:
  "distinct (map network_id_of ns) \<Longrightarrow> remove_first_network i ns = filter (\<lambda>n. network_id_of n \<noteq> i) ns"
proof (induction ns)
  case (Cons n ns)
  show ?case
  proof (cases "network_id_of n = i")
    case True
    then have "filter (\<lambda>n. network_id_of n \<noteq> i) ns = ns" using Cons.prems by (simp add: image_iff) (metis (mono_tags, lifting) filter_True)
    then show ?thesis using True by simp
  qed (use Cons in simp)
qed simp

section \<open>Trust anchors\<close>

text \<open>A Planet that replaces another: the version and the time of issue do not go back, and with both unchanged
  neither does the meaning.\<close>

definition planet_not_older :: "network_control_plane \<Rightarrow> network_control_plane \<Rightarrow> bool" where
  "planet_not_older cp cp' \<longleftrightarrow> (\<forall>v. ncp_planet_manifest_version cp = Some v \<longrightarrow>
     (\<exists>v'. ncp_planet_manifest_version cp' = Some v' \<and> v \<le> v'
        \<and> (\<forall>t. ncp_planet_last_issued_at_unix_seconds cp = Some t \<longrightarrow>
             (\<exists>t'. ncp_planet_last_issued_at_unix_seconds cp' = Some t' \<and> t \<le> t'
                \<and> (v' = v \<and> t' = t \<and> ncp_planet_semantic_digest cp \<noteq> [] \<longrightarrow>
                     ncp_planet_semantic_digest cp' = ncp_planet_semantic_digest cp)))))"

definition trust_kept :: "joined_network \<Rightarrow> joined_network \<Rightarrow> bool" where
  "trust_kept n n' \<longleftrightarrow>
     (ncp_pinned_controller_public_key (jn_control_plane n) \<noteq> [] \<longrightarrow>
        ncp_pinned_controller_public_key (jn_control_plane n') = ncp_pinned_controller_public_key (jn_control_plane n))
     \<and> planet_not_older (jn_control_plane n) (jn_control_plane n')"

definition same_anchor :: "joined_network \<Rightarrow> joined_network \<Rightarrow> bool" where
  "same_anchor n n' \<longleftrightarrow> network_id_of n' = network_id_of n
     \<and> ncp_pinned_controller_public_key (jn_control_plane n') = ncp_pinned_controller_public_key (jn_control_plane n)
     \<and> ncp_planet_manifest_version (jn_control_plane n') = ncp_planet_manifest_version (jn_control_plane n)
     \<and> ncp_planet_last_issued_at_unix_seconds (jn_control_plane n') = ncp_planet_last_issued_at_unix_seconds (jn_control_plane n)
     \<and> ncp_planet_semantic_digest (jn_control_plane n') = ncp_planet_semantic_digest (jn_control_plane n)"

lemma same_anchor_trust: "same_anchor n n' \<Longrightarrow> trust_kept n n'"
  by (auto simp: same_anchor_def trust_kept_def planet_not_older_def)

lemma same_anchor_refl [simp]: "same_anchor n n" by (simp add: same_anchor_def)

lemma same_anchor_trans: "same_anchor a b \<Longrightarrow> same_anchor b c \<Longrightarrow> same_anchor a c"
  by (simp add: same_anchor_def)

lemma accepted_metadata_not_older:
  "validate_planet_acceptance_metadata cp (ncp_planet_manifest_version cp') (ncp_planet_last_issued_at_unix_seconds cp')
     (ncp_planet_semantic_digest cp') = Inr () \<Longrightarrow> planet_not_older cp cp'"
  by (auto simp: validate_planet_acceptance_metadata_def planet_not_older_def split: if_splits option.splits)

lemma validated_update_not_older:
  assumes "validate_planet_update X cp manifest key u now = Inr update"
  shows "planet_not_older cp (updated_control_plane cp' url update)"
  using assms by (intro accepted_metadata_not_older)
    (auto simp: validate_planet_update_def updated_control_plane_def Let_def split: if_splits)

text \<open>Networks of the second state are new, unchanged in their anchors, or replaced by a trusted successor.\<close>

definition trust_step :: "persisted_state \<Rightarrow> persisted_state \<Rightarrow> bool" where
  "trust_step st st' \<longleftrightarrow> (\<forall>n \<in> set (ps_networks st). \<forall>n' \<in> set (ps_networks st'). network_id_of n = network_id_of n' \<longrightarrow> trust_kept n n')"

definition distinct_networks :: "persisted_state \<Rightarrow> bool" where
  "distinct_networks st \<longleftrightarrow> distinct (map network_id_of (ps_networks st))"

lemma trust_stepI:
  assumes "distinct_networks st"
    and "\<And>n'. n' \<in> set (ps_networks st') \<Longrightarrow> network_id_of n' \<notin> network_id_of ` set (ps_networks st)
      \<or> (\<exists>n \<in> set (ps_networks st). network_id_of n = network_id_of n' \<and> trust_kept n n')"
  shows "trust_step st st'"
proof -
  have "n = m" if "n \<in> set (ps_networks st)" "m \<in> set (ps_networks st)" "network_id_of n = network_id_of m" for n m
    using assms(1) that by (simp add: distinct_networks_def distinct_map inj_on_def)
  then show ?thesis unfolding trust_step_def using assms(2) by (metis image_eqI)
qed

lemma trust_step_same:
  assumes "distinct_networks st" and "\<And>n'. n' \<in> set (ps_networks st') \<Longrightarrow> \<exists>n \<in> set (ps_networks st). same_anchor n n'"
  shows "trust_step st st'"
  by (rule trust_stepI [OF assms(1)]) (metis assms(2) same_anchor_def same_anchor_trust)

lemma trust_step_update:
  assumes "distinct_networks st" and "ps_networks st' = update_network i f (ps_networks st)"
    and "\<And>n. find_network i (ps_networks st) = Some n \<Longrightarrow> network_id_of (f n) = i \<and> trust_kept n (f n)"
  shows "trust_step st st'"
proof (rule trust_stepI [OF assms(1)])
  fix n' assume "n' \<in> set (ps_networks st')"
  then consider "n' \<in> set (ps_networks st)" | m where "find_network i (ps_networks st) = Some m" "n' = f m"
    using set_update_network unfolding assms(2) by blast
  then show "network_id_of n' \<notin> network_id_of ` set (ps_networks st)
      \<or> (\<exists>n \<in> set (ps_networks st). network_id_of n = network_id_of n' \<and> trust_kept n n')"
  proof cases
    case 1
    then show ?thesis using same_anchor_trust [OF same_anchor_refl] by blast
  next
    case 2
    then show ?thesis using assms(3) find_network_Some by metis
  qed
qed

lemma expire_policy_anchor: "same_anchor n (fst (expire_policy now n))"
  by (auto simp: expire_policy_def clear_unusable_exit_selection_def with_exit_selection_def with_control_plane_def
      same_anchor_def Let_def case_prod_beta split: option.split)

lemma cleared_anchor: "same_anchor m n \<Longrightarrow> same_anchor m (fst (clear_unusable_exit_selection n))"
  by (auto simp: clear_unusable_exit_selection_def with_exit_selection_def same_anchor_def Let_def case_prod_beta split: option.split)

lemma dropped_anchor: "same_anchor m n \<Longrightarrow> same_anchor m (drop_unsupported_policy X now n)"
  by (auto simp: drop_unsupported_policy_def with_control_plane_def same_anchor_def Let_def split: option.split)

lemma acted_anchor:
  "act_on_network now action n = Inr (Some n', reload, credential) \<Longrightarrow> same_anchor n n'"
  by (auto simp: act_on_network_def with_control_plane_def same_anchor_def split: authorization_refresh_action.splits)

lemma clear_gateways_networks [simp]: "ps_networks (fst (clear_gateways st)) = ps_networks st"
  by (simp add: clear_gateways_def case_prod_beta Let_def)

lemma authorized_state_networks:
  "ps_networks (fst (authorized_state X now i None st)) = remove_first_network i (ps_networks st)"
  "ps_networks (fst (authorized_state X now i (Some n) st)) = update_network i (\<lambda>_.
     fst (clear_unusable_exit_selection (drop_unsupported_policy X now n))) (ps_networks st)"
  by (simp_all add: authorized_state_def case_prod_beta Let_def update_networks_def)

lemma stored_policy_networks:
  "ps_networks (fst (stored_policy_state i policy n st)) = update_network i (\<lambda>_. fst (clear_unusable_exit_selection
     (with_control_plane (\<lambda>cp. cp\<lparr>ncp_policy_manifest := Some policy\<rparr>) n))) (ps_networks st)"
  by (simp add: stored_policy_state_def case_prod_beta Let_def update_networks_def)

lemma update_network_twice:
  "(\<And>n. n \<in> set ns \<Longrightarrow> network_id_of n = i \<Longrightarrow> network_id_of (f n) = i) \<Longrightarrow>
     update_network i g (update_network i f ns) = update_network i (g \<circ> f) ns"
  by (induction ns) auto

lemma try_map_source: "try_map f xs = Inr ys \<Longrightarrow> y \<in> set ys \<Longrightarrow> \<exists>x \<in> set xs. f x = Inr y"
  by (induction xs arbitrary: ys) auto

lemma try_map_planet:
  assumes "try_map (planet_update_for X now manifest key url ca) ns = Inr ns'" and "n' \<in> set ns'"
  shows "\<exists>n \<in> set ns. network_id_of n' = network_id_of n \<and> trust_kept n n'
    \<and> ncp_policy_manifest (jn_control_plane n') = ncp_policy_manifest (jn_control_plane n)
    \<and> ncp_exit_node_selection (jn_control_plane n') = ncp_exit_node_selection (jn_control_plane n)"
proof -
  obtain n where n: "n \<in> set ns" "planet_update_for X now manifest key url ca n = Inr n'"
    using try_map_source [OF assms] by blast
  show ?thesis
  proof (cases "ncp_pinned_controller_public_key (jn_control_plane n) = key")
    case False
    then have "n' = n" using n(2) by (simp add: planet_update_for_def Let_def)
    then show ?thesis using n(1) same_anchor_trust [OF same_anchor_refl] by blast
  next
    case True
    define cp where "cp = (jn_control_plane n)\<lparr>ncp_controller_tls_ca_pem := ca\<rparr>"
    obtain update where u: "validate_planet_update X (jn_control_plane n) manifest key (ncp_controller_url (jn_control_plane n)) now = Inr update"
        "n' = n\<lparr>jn_control_plane := updated_control_plane cp (Some url) update\<rparr>"
      using n(2) True
      by (auto simp only: planet_update_for_def apply_configured_planet_update_def apply_planet_update_def Let_def cp_def
          rbind_Inr_iff sum.inject prod.case fst_conv if_False simp_thms)
    have "trust_kept n n'"
      using validated_update_not_older [OF u(1)] by (simp add: trust_kept_def u(2)) (simp add: updated_control_plane_def cp_def)
    then show ?thesis using n(1) by (intro bexI [of _ n]) (simp_all add: u(2) updated_control_plane_def cp_def)
  qed
qed

section \<open>The invariant\<close>

text \<open>Networks have distinct identifiers, each policy belongs to its network and supports the exits selected there, and there
  is at most one gateway configuration for a network.\<close>

definition joined_ok :: "joined_network \<Rightarrow> bool" where
  "joined_ok n \<longleftrightarrow> selection_is_usable n
     \<and> (\<forall>policy. ncp_policy_manifest (jn_control_plane n) = Some policy \<longrightarrow> npm_network_id policy = network_id_of n)"

definition agent_ok :: "persisted_state \<Rightarrow> bool" where
  "agent_ok st \<longleftrightarrow> distinct_networks st \<and> (\<forall>n \<in> set (ps_networks st). joined_ok n)
     \<and> distinct (map egc_network_id (ps_exit_gateways st))"

lemma joined_ok_cong:
  assumes "joined_ok n" "network_id_of n' = network_id_of n"
    "ncp_policy_manifest (jn_control_plane n') = ncp_policy_manifest (jn_control_plane n)"
    "ncp_exit_node_selection (jn_control_plane n') = ncp_exit_node_selection (jn_control_plane n)"
  shows "joined_ok n'"
  using assms by (simp add: joined_ok_def selection_is_usable_def)

lemma joined_ok_default: "jn_control_plane n = control_plane_default \<Longrightarrow> joined_ok n"
  by (simp add: joined_ok_def selection_is_usable_def control_plane_default_def exit_selection_is_empty_def no_exit_selection_def)

lemma joined_ok_cleared:
  assumes "\<And>policy. ncp_policy_manifest (jn_control_plane n) = Some policy \<Longrightarrow> npm_network_id policy = network_id_of n"
  shows "joined_ok (fst (clear_unusable_exit_selection n))"
proof -
  have "ncp_policy_manifest (jn_control_plane (fst (clear_unusable_exit_selection n))) = ncp_policy_manifest (jn_control_plane n)"
    "network_id_of (fst (clear_unusable_exit_selection n)) = network_id_of n"
    by (auto simp: clear_unusable_exit_selection_def with_exit_selection_def Let_def case_prod_beta split: option.split)
  then show ?thesis using assms clear_selection_usable [of n] by (simp add: joined_ok_def)
qed

lemma agent_ok_networks:
  assumes "agent_ok st" "ps_exit_gateways st' = ps_exit_gateways st"
    and "distinct (map network_id_of (ps_networks st'))" "\<And>n. n \<in> set (ps_networks st') \<Longrightarrow> joined_ok n"
  shows "agent_ok st'"
  using assms by (simp add: agent_ok_def distinct_networks_def)

lemma agent_ok_update:
  assumes "agent_ok st" "\<And>n. find_network i (ps_networks st) = Some n \<Longrightarrow> network_id_of (f n) = i \<and> joined_ok (f n)"
  shows "agent_ok (update_networks (update_network i f) st)"
  using assms
proof (intro agent_ok_networks [OF assms(1)])
  show "distinct (map network_id_of (ps_networks (update_networks (update_network i f) st)))"
    using assms by (simp add: update_networks_def update_network_ids agent_ok_def distinct_networks_def)
  show "joined_ok n" if "n \<in> set (ps_networks (update_networks (update_network i f) st))" for n
    using set_update_network [of n i f "ps_networks st"] that assms by (auto simp: update_networks_def agent_ok_def)
qed (simp add: update_networks_def)

lemma agent_ok_gateways:
  "agent_ok st \<Longrightarrow> distinct (map egc_network_id gateways) \<Longrightarrow> agent_ok (st\<lparr>ps_exit_gateways := gateways\<rparr>)"
  by (simp add: agent_ok_def distinct_networks_def)

lemma agent_ok_clear_gateways: "agent_ok st \<Longrightarrow> agent_ok (fst (clear_gateways st))"
  by (simp add: clear_gateways_def case_prod_beta Let_def clear_unusable_exit_gateways_def agent_ok_def distinct_networks_def
      distinct_map_filter)

lemma agent_ok_subset:
  "agent_ok st \<Longrightarrow> agent_ok (st\<lparr>ps_networks := filter p (ps_networks st)\<rparr>)"
  by (auto simp: agent_ok_def distinct_networks_def distinct_map_filter)

lemma agent_ok_select:
  assumes "agent_ok st" "find_network i (ps_networks st) = Some n" "joined_ok (with_exit_selection selection n)"
  shows "agent_ok (select_exit i selection st)"
  unfolding select_exit_def
  by (rule agent_ok_update [OF assms(1)]) (use assms find_network_Some [OF assms(2)] in \<open>auto simp: with_exit_selection_def\<close>)

text \<open>A state that may follow \<open>st\<close>: it satisfies the invariant and keeps the trust in the networks they share.\<close>

definition good_next :: "persisted_state \<Rightarrow> persisted_state \<Rightarrow> bool" where
  "good_next st st' \<longleftrightarrow> agent_ok st' \<and> trust_step st st'"

lemma agent_okD: "agent_ok st \<Longrightarrow> distinct_networks st" "agent_ok st \<Longrightarrow> find_network i (ps_networks st) = Some n \<Longrightarrow> joined_ok n"
  using find_network_Some by (auto simp: agent_ok_def)

lemma good_next_same: "agent_ok st' \<Longrightarrow> distinct_networks st \<Longrightarrow> ps_networks st' = ps_networks st \<Longrightarrow> good_next st st'"
  unfolding good_next_def by (simp add: trust_step_same) (metis same_anchor_refl trust_step_same)

lemma good_next_refl: "agent_ok st \<Longrightarrow> good_next st st"
  by (rule good_next_same) (simp_all add: agent_okD)

lemma good_next_update:
  assumes "agent_ok st" "find_network i (ps_networks st) = Some n" "same_anchor n n'" "joined_ok n'"
    and "ps_networks st' = update_network i (\<lambda>_. n') (ps_networks st)" "distinct (map egc_network_id (ps_exit_gateways st'))"
  shows "good_next st st'"
proof -
  have id: "network_id_of n' = i" using assms(2,3) find_network_Some by (auto simp: same_anchor_def)
  have "agent_ok (update_networks (update_network i (\<lambda>_. n')) st)"
    by (rule agent_ok_update [OF assms(1)]) (simp add: id assms(4))
  then have "agent_ok st'" using assms(5,6) by (simp add: agent_ok_def distinct_networks_def update_networks_def)
  moreover have "trust_step st st'"
    by (rule trust_step_update [OF _ assms(5)]) (use assms id same_anchor_trust agent_okD in auto)
  ultimately show ?thesis by (simp add: good_next_def)
qed

lemma update_network_const:
  "find_network i ns = Some n \<Longrightarrow> update_network i f ns = update_network i (\<lambda>_. f n) ns"
  by (induction ns) (auto simp: find_network_def)

lemma good_next_relay: "agent_ok (ag_state w) \<Longrightarrow> good_next (ag_state w) (ag_state (fst (configure_relay X A E config w)))"
  by (rule configure_relay_outcome, erule good_next_refl, rule good_next_same)
    (simp_all add: with_relay_def agent_ok_def distinct_networks_def)

lemma select_back:
  assumes "find_network i ns = Some n"
  shows "update_network i (with_exit_selection (ncp_exit_node_selection (jn_control_plane n))) (update_network i (with_exit_selection s) ns) = ns"
  using assms by (induction ns) (auto simp: find_network_def with_exit_selection_def)

lemma validated_selection_ok:
  assumes "joined_ok n" "validate_exit_selection X now n selection = Inr ()"
  shows "joined_ok (with_exit_selection selection n)"
proof -
  have "selection_is_usable (with_exit_selection selection n)"
  proof (cases "exit_selection_is_empty selection")
    case True
    then show ?thesis
      by (simp add: selection_is_usable_def with_exit_selection_def no_selection_iff no_exit_selection_def split: option.split)
  next
    case False
    then show ?thesis using assms(2) unfolding validate_exit_selection_iff by blast
  qed
  then show ?thesis using assms(1) by (simp add: joined_ok_def) (simp add: with_exit_selection_def)
qed

lemma good_next_exit_selection:
  assumes "agent_ok (ag_state w)"
  shows "good_next (ag_state w) (ag_state (fst (configure_exit_selection X A E i selection w)))"
proof (rule configure_exit_selection_outcome [where P = "good_next (ag_state w)", OF good_next_refl [OF assms]], rule conjI)
  fix n assume n: "find_network i (ps_networks (ag_state w)) = Some n"
    and "is_ok (validate_exit_selection X (ae_now E) n selection)"
  then have v: "validate_exit_selection X (ae_now E) n selection = Inr ()"
    by (cases "validate_exit_selection X (ae_now E) n selection") auto
  have "joined_ok (with_exit_selection selection n)" using validated_selection_ok [OF agent_okD(2) [OF assms n] v] .
  moreover have "same_anchor n (with_exit_selection selection n)" by (simp add: same_anchor_def with_exit_selection_def)
  moreover have "ps_networks (select_exit i selection (ag_state w))
      = update_network i (\<lambda>_. with_exit_selection selection n) (ps_networks (ag_state w))"
    unfolding select_exit_def update_networks_def by (simp add: update_network_const [OF n, of "with_exit_selection selection"])
  moreover have "distinct (map egc_network_id (ps_exit_gateways (select_exit i selection (ag_state w))))"
    using assms by (simp add: select_exit_def update_networks_def agent_ok_def)
  ultimately show "good_next (ag_state w) (select_exit i selection (ag_state w))"
    by (intro good_next_update [OF assms n])
  have "select_exit i (ncp_exit_node_selection (jn_control_plane n)) (select_exit i selection (ag_state w)) = ag_state w"
    by (simp add: select_exit_def update_networks_def select_back [OF n])
  then show "good_next (ag_state w) (select_exit i (ncp_exit_node_selection (jn_control_plane n)) (select_exit i selection (ag_state w)))"
    using good_next_refl [OF assms] by simp
qed

lemma good_next_gateway:
  assumes "agent_ok (ag_state w)"
  shows "good_next (ag_state w) (ag_state (fst (configure_exit_gateway X A E config w)))"
    "good_next (ag_state w) (ag_state (fst (remove_exit_gateway X A E i w)))"
proof -
  have "good_next (ag_state w) (with_gateway config (ag_state w))" "good_next (ag_state w) (without_gateway i (ag_state w))"
    by (rule good_next_same; use assms in \<open>auto simp: with_gateway_def without_gateway_def agent_ok_def distinct_networks_def
        distinct_map_filter\<close>)+
  then show "good_next (ag_state w) (ag_state (fst (configure_exit_gateway X A E config w)))"
    "good_next (ag_state w) (ag_state (fst (remove_exit_gateway X A E i w)))"
    by (auto intro: configure_exit_gateway_outcome remove_exit_gateway_outcome good_next_refl assms)
qed

lemma try_map_ids:
  "try_map (planet_update_for X now manifest key url ca) ns = Inr ns' \<Longrightarrow> map network_id_of ns' = map network_id_of ns"
proof (induction ns arbitrary: ns')
  case (Cons n ns)
  then obtain m ms where m: "planet_update_for X now manifest key url ca n = Inr m"
      "try_map (planet_update_for X now manifest key url ca) ns = Inr ms" "ns' = m # ms" by auto
  have "try_map (planet_update_for X now manifest key url ca) [n] = Inr [m]" using m(1) by simp
  from try_map_planet [OF this, of m] show ?case using Cons.IH [OF m(2)] m(3) by simp
qed simp

lemma good_next_planet:
  assumes "agent_ok (ag_state w)"
  shows "good_next (ag_state w) (ag_state (fst (configure_planet X H E config w)))"
proof (rule configure_planet_outcome [where P = "good_next (ag_state w)", OF good_next_refl [OF assms]])
  fix url ca key manifest update networks
  assume t: "try_map (planet_update_for X (ae_now E) manifest key url ca) (ps_networks (ag_state w)) = Inr networks"
  let ?st = "planet_candidate manifest config url ca update networks (ag_state w)"
  have n: "ps_networks ?st = networks" "ps_exit_gateways ?st = ps_exit_gateways (ag_state w)"
    by (simp_all add: planet_candidate_def Let_def)
  have "agent_ok ?st"
  proof (rule agent_ok_networks [OF assms n(2)])
    show "distinct (map network_id_of (ps_networks ?st))"
      using assms try_map_ids [OF t] by (simp add: n agent_ok_def distinct_networks_def)
    show "joined_ok m" if "m \<in> set (ps_networks ?st)" for m
      using try_map_planet [OF t] that assms joined_ok_cong unfolding n agent_ok_def by metis
  qed
  moreover have "trust_step (ag_state w) ?st"
    by (rule trust_stepI [OF agent_okD(1) [OF assms]]) (use try_map_planet [OF t] in \<open>metis n(1)\<close>)
  ultimately show "good_next (ag_state w) ?st" by (simp add: good_next_def)
qed

lemma good_next_planet_refresh:
  assumes "agent_ok (ag_state w)"
  shows "good_next (ag_state w) (ag_state (fst (refresh_one_planet X H E target w)))"
proof (rule refresh_one_planet_outcome [where P = "good_next (ag_state w)", OF good_next_refl [OF assms]],
    rule apply_planet_refresh_outcome [where P = "good_next (ag_state w)", OF good_next_refl [OF assms]])
  fix manifest n update
  assume n: "find_network (plt_network_id target) (ps_networks (ag_state w)) = Some n"
    and u: "validate_planet_update X (jn_control_plane n) manifest (plt_pinned_controller_public_key target)
      (Some (plt_controller_url target)) (ae_now E) = Inr update"
  define cp where "cp = updated_control_plane (jn_control_plane n) (Some (plt_manifest_url target)) update"
  let ?f = "\<lambda>m. m\<lparr>jn_control_plane := cp\<rparr>"
  let ?st = "update_networks (update_network (plt_network_id target) ?f) (ag_state w)"
  have "joined_ok (?f n)"
    by (rule joined_ok_cong [OF agent_okD(2) [OF assms n]]) (simp_all add: cp_def updated_control_plane_def)
  then have "agent_ok ?st" using n find_network_Some [OF n] by (intro agent_ok_update [OF assms]) auto
  moreover have "trust_kept n (?f n)"
    using validated_update_not_older [OF u] by (simp add: trust_kept_def cp_def) (simp add: updated_control_plane_def)
  then have "trust_step (ag_state w) ?st"
    using find_network_Some [OF n]
    by (intro trust_step_update [OF agent_okD(1) [OF assms], of _ "plt_network_id target" ?f]) (simp_all add: update_networks_def n)
  ultimately show "good_next (ag_state w) (update_networks (update_network (plt_network_id target)
      (\<lambda>m. m\<lparr>jn_control_plane := updated_control_plane (jn_control_plane n) (Some (plt_manifest_url target)) update\<rparr>)) (ag_state w))"
    by (simp add: good_next_def cp_def)
qed

lemma authorized_gateways:
  "distinct (map egc_network_id (ps_exit_gateways st)) \<Longrightarrow>
     distinct (map egc_network_id (ps_exit_gateways (fst (authorized_state X now i acted st))))"
  "distinct (map egc_network_id (ps_exit_gateways st)) \<Longrightarrow>
     distinct (map egc_network_id (ps_exit_gateways (fst (stored_policy_state i policy n st))))"
  by (auto simp: authorized_state_def stored_policy_state_def clear_gateways_def clear_unusable_exit_gateways_def update_networks_def
      case_prod_beta Let_def distinct_map_filter split: option.split)

lemma dropped_policy:
  "ncp_policy_manifest (jn_control_plane (drop_unsupported_policy X now n)) = Some policy \<Longrightarrow>
     ncp_policy_manifest (jn_control_plane n) = Some policy"
  "network_id_of (drop_unsupported_policy X now n) = network_id_of n"
  by (auto simp: drop_unsupported_policy_def with_control_plane_def Let_def split: option.splits if_splits)

lemma acted_policy:
  "act_on_network now action n = Inr (Some n', reload, credential) \<Longrightarrow>
     ncp_policy_manifest (jn_control_plane n') = ncp_policy_manifest (jn_control_plane n)"
  by (auto simp: act_on_network_def with_control_plane_def split: authorization_refresh_action.splits)

lemma good_next_removed:
  assumes "agent_ok st" "ps_networks st' = filter p (ps_networks st)" "distinct (map egc_network_id (ps_exit_gateways st'))"
  shows "good_next st st'"
proof -
  have "agent_ok st'" using assms by (auto simp: agent_ok_def distinct_networks_def distinct_map_filter)
  moreover have "trust_step st st'"
    by (rule trust_step_same [OF agent_okD(1) [OF assms(1)]]) (use assms(2) in \<open>auto intro: same_anchor_refl\<close>)
  ultimately show ?thesis by (simp add: good_next_def)
qed

lemma good_next_authorization:
  assumes "agent_ok (ag_state w)"
  shows "good_next (ag_state w) (ag_state (fst (apply_authorization_action X A E target action w)))"
proof (rule apply_authorization_action_outcome [where P = "good_next (ag_state w)", OF good_next_refl [OF assms]])
  fix n acted st s g
  assume n: "find_network (art_network_id target) (ps_networks (ag_state w)) = Some n"
    and a: "act_on_network (ae_now E) action n = Inr acted"
    and "authorized_state X (ae_now E) (art_network_id target) (fst acted) (ag_state w) = (st, s, g)"
  then have st: "st = fst (authorized_state X (ae_now E) (art_network_id target) (fst acted) (ag_state w))" by simp
  have dist: "distinct (map egc_network_id (ps_exit_gateways (ag_state w)))" using assms by (simp add: agent_ok_def)
  have "good_next (ag_state w) st'" if "ps_networks st' = ps_networks st" "distinct (map egc_network_id (ps_exit_gateways st'))" for st'
  proof (cases "fst acted")
    case None
    then have "ps_networks st' = filter (\<lambda>m. network_id_of m \<noteq> art_network_id target) (ps_networks (ag_state w))"
      using that(1) agent_okD(1) [OF assms]
      by (simp add: st authorized_state_networks distinct_networks_def remove_first_network_ids)
    then show ?thesis using good_next_removed [OF assms] that(2) by blast
  next
    case (Some m)
    then obtain r c where act: "act_on_network (ae_now E) action n = Inr (Some m, r, c)" using a by (cases acted) auto
    let ?m = "drop_unsupported_policy X (ae_now E) m"
    have "same_anchor n (fst (clear_unusable_exit_selection ?m))"
      by (intro cleared_anchor dropped_anchor acted_anchor [OF act])
    moreover have "joined_ok (fst (clear_unusable_exit_selection ?m))"
      using agent_okD(2) [OF assms n] acted_policy [OF act] acted_anchor [OF act]
      by (intro joined_ok_cleared) (auto simp: joined_ok_def same_anchor_def dropped_policy(2) dest!: dropped_policy(1))
    ultimately show ?thesis
      using that by (intro good_next_update [OF assms n]) (simp_all add: st Some authorized_state_networks)
  qed
  moreover have "distinct (map egc_network_id (ps_exit_gateways st))" using authorized_gateways(1) [OF dist] by (simp add: st)
  ultimately show "good_next (ag_state w) st \<and> (\<not> g \<longrightarrow> good_next (ag_state w) (st\<lparr>ps_exit_gateways := ps_exit_gateways (ag_state w)\<rparr>))"
    using dist by simp
qed

lemma restored_policy_back:
  assumes "find_network i ns = Some n"
    and "network_id_of n' = i" "jn_network n' = jn_network n" "n'\<lparr>jn_control_plane := jn_control_plane n\<rparr> = n"
    and "(jn_control_plane n')\<lparr>ncp_policy_manifest := ncp_policy_manifest (jn_control_plane n),
      ncp_exit_node_selection := ncp_exit_node_selection (jn_control_plane n)\<rparr> = jn_control_plane n"
  shows "update_network i (restored_policy (ncp_policy_manifest (jn_control_plane n)) (ncp_exit_node_selection (jn_control_plane n)))
      (update_network i (\<lambda>_. n') ns) = ns"
  using assms by (induction ns) (auto simp: find_network_def restored_policy_def with_control_plane_def)

lemma good_next_policy:
  assumes "agent_ok (ag_state w)"
  shows "good_next (ag_state w) (ag_state (fst (apply_policy_manifest X A E i policy w)))"
proof (rule apply_policy_manifest_outcome [where P = "good_next (ag_state w)", OF good_next_refl [OF assms]])
  fix n st s g
  assume n: "find_network i (ps_networks (ag_state w)) = Some n" and c: "checked_policy X (ae_now E) i n policy = Inr ()"
    and "stored_policy_state i policy n (ag_state w) = (st, s, g)"
  then have st: "st = fst (stored_policy_state i policy n (ag_state w))" by simp
  let ?n = "with_control_plane (\<lambda>cp. cp\<lparr>ncp_policy_manifest := Some policy\<rparr>) n"
  let ?m = "fst (clear_unusable_exit_selection ?n)"
  have dist: "distinct (map egc_network_id (ps_exit_gateways (ag_state w)))" using assms by (simp add: agent_ok_def)
  have "npm_network_id policy = i"
    using c by (auto simp: checked_policy_def policy_verify_Inr_iff Let_def split: if_splits)
  then have "joined_ok ?m"
    using find_network_Some [OF n] by (intro joined_ok_cleared) (auto simp: with_control_plane_def)
  moreover have "same_anchor n ?m" by (rule cleared_anchor) (simp add: same_anchor_def with_control_plane_def)
  moreover have "distinct (map egc_network_id (ps_exit_gateways st))" using authorized_gateways(2) [OF dist] by (simp add: st)
  ultimately have 1: "good_next (ag_state w) st"
    by (intro good_next_update [OF assms n]) (simp_all add: st stored_policy_networks)
  have "jn_network ?m = jn_network n" "?m\<lparr>jn_control_plane := jn_control_plane n\<rparr> = n"
      "(jn_control_plane ?m)\<lparr>ncp_policy_manifest := ncp_policy_manifest (jn_control_plane n),
         ncp_exit_node_selection := ncp_exit_node_selection (jn_control_plane n)\<rparr> = jn_control_plane n"
    by (simp_all add: clear_unusable_exit_selection_def with_exit_selection_def with_control_plane_def Let_def case_prod_beta)
  then have "update_network i (restored_policy (ncp_policy_manifest (jn_control_plane n)) (ncp_exit_node_selection (jn_control_plane n)))
      (ps_networks st) = ps_networks (ag_state w)"
    using find_network_Some [OF n] unfolding st stored_policy_networks by (intro restored_policy_back [OF n]) simp_all
  then have "good_next (ag_state w) ((update_networks (update_network i (restored_policy (ncp_policy_manifest (jn_control_plane n))
      (ncp_exit_node_selection (jn_control_plane n)))) st)\<lparr>ps_exit_gateways := ps_exit_gateways (ag_state w)\<rparr>)"
    using assms by (intro good_next_same) (simp_all add: update_networks_def agent_ok_def distinct_networks_def)
  with 1 show "good_next (ag_state w) st \<and> good_next (ag_state w) ((update_networks (update_network i
      (restored_policy (ncp_policy_manifest (jn_control_plane n)) (ncp_exit_node_selection (jn_control_plane n)))) st)
      \<lparr>ps_exit_gateways := ps_exit_gateways (ag_state w)\<rparr>)" ..
qed

lemma expired_ok: "joined_ok n \<Longrightarrow> joined_ok (fst (expire_policy now n))"
  by (auto simp: expire_policy_def with_control_plane_def intro!: joined_ok_cleared split: option.split)

lemma good_next_expiry:
  assumes "agent_ok (ag_state w)"
  shows "good_next (ag_state w) (ag_state (fst (expire_stale_policies X A E w)))"
proof (rule expire_stale_policies_outcome [where P = "good_next (ag_state w)", OF good_next_refl [OF assms]])
  let ?st = "(ag_state w)\<lparr>ps_networks := map (\<lambda>n. fst (expire_policy (ae_now E) n)) (ps_networks (ag_state w))\<rparr>"
  have "network_id_of (fst (expire_policy (ae_now E) n)) = network_id_of n" for n
    using expire_policy_anchor by (simp add: same_anchor_def)
  then have "agent_ok ?st" using assms by (auto simp: agent_ok_def distinct_networks_def comp_def intro: expired_ok)
  moreover have "trust_step (ag_state w) (fst (clear_gateways ?st))"
    by (rule trust_step_same [OF agent_okD(1) [OF assms]]) (auto intro: expire_policy_anchor)
  ultimately show "good_next (ag_state w) (fst (clear_gateways ?st))" by (simp add: good_next_def agent_ok_clear_gateways)
qed

lemma good_next_append:
  assumes "agent_ok st" "network_id_of n \<notin> network_id_of ` set (ps_networks st)" "joined_ok n"
  shows "good_next st (update_networks (\<lambda>ns. ns @ [n]) st)"
proof -
  have "agent_ok (update_networks (\<lambda>ns. ns @ [n]) st)"
    using assms by (auto simp: agent_ok_def distinct_networks_def update_networks_def)
  moreover have "trust_step st (update_networks (\<lambda>ns. ns @ [n]) st)"
    by (rule trust_stepI [OF agent_okD(1) [OF assms(1)]])
      (use assms(2) same_anchor_trust [OF same_anchor_refl] in \<open>auto simp: update_networks_def\<close>)
  ultimately show ?thesis by (simp add: good_next_def)
qed

lemma good_next_new_network:
  assumes "agent_ok (ag_state w)"
  shows "good_next (ag_state w) (ag_state (fst (add_network X E new_id random request w)))"
  by (rule add_network_outcome [where P = "good_next (ag_state w)", OF good_next_refl [OF assms]])
    (auto simp: list_ex_iff intro!: good_next_append [OF assms] joined_ok_default)

lemma good_next_gone_network:
  assumes "agent_ok (ag_state w)"
  shows "good_next (ag_state w) (ag_state (fst (remove_network X A E i w)))"
  by (rule remove_network_outcome [where P = "good_next (ag_state w)", OF good_next_refl [OF assms]],
      rule good_next_removed [OF assms]) (use assms in \<open>simp_all add: without_network_def agent_ok_def distinct_map_filter\<close>)

lemma good_next_step:
  assumes "agent_step X w w'" "agent_ok (ag_state w)"
  shows "good_next (ag_state w) (ag_state w')"
  using assms(1)
proof cases
  case (hint now h)
  then have "ag_state w' = ag_state w" by (auto simp: consider_authorization_hint_def split: option.split)
  then show ?thesis using good_next_refl assms(2) by simp
qed (simp_all add: assms(2) good_next_relay good_next_exit_selection good_next_gateway good_next_planet good_next_planet_refresh
    good_next_authorization good_next_policy good_next_expiry good_next_new_network good_next_gone_network activate_adapter_outcome
    deactivate_adapter_def good_next_refl)

section \<open>Enrollment and the invariant\<close>

lemma resolved_control_plane:
  assumes "resolve_enrollment_control_plane X H now configured key authorization current = Inr cp"
  defines "base \<equiv> (case current of None \<Rightarrow> control_plane_default | Some cp \<Rightarrow> cp)"
  shows "ncp_pinned_controller_public_key cp = key \<and> ncp_authorization_manifest cp = Some authorization
    \<and> ncp_policy_manifest cp = ncp_policy_manifest base \<and> ncp_exit_node_selection cp = ncp_exit_node_selection base"
  using assms(1) unfolding base_def[symmetric] resolve_enrollment_control_plane_def
  by (auto simp: Let_def base_def apply_planet_update_def updated_control_plane_def split: if_splits option.splits)

lemma prepared_ok:
  assumes "prepare_enrollment X H now te st = Inr cp" "agent_ok st"
  shows "joined_ok (enrolled_network te cp) \<and> ncp_pinned_controller_public_key cp = ten_controller_public_key te"
proof -
  define existing where "existing = map_option jn_control_plane (find_network (vn_id (ers_network (ten_enrollment te))) (ps_networks st))"
  have r: "resolve_enrollment_control_plane X H now (ten_control_plane te) (ten_controller_public_key te)
      (ers_authorization (ten_enrollment te)) existing = Inr cp"
    using assms(1) by (auto simp: prepare_enrollment_def Let_def existing_def split: if_splits option.splits)
  show ?thesis
  proof (cases "find_network (vn_id (ers_network (ten_enrollment te))) (ps_networks st)")
    case None
    then have "joined_ok (enrolled_network te cp)"
      using resolved_control_plane [OF r]
      by (intro joined_ok_cong [OF joined_ok_default, of "(enrolled_network te cp)\<lparr>jn_control_plane := control_plane_default\<rparr>"])
        (simp_all add: enrolled_network_def existing_def Let_def)
    then show ?thesis using resolved_control_plane [OF r] by simp
  next
    case (Some n)
    then have "joined_ok (enrolled_network te cp)"
      using resolved_control_plane [OF r] find_network_Some [OF Some]
      by (intro joined_ok_cong [OF agent_okD(2) [OF assms(2) Some]]) (simp_all add: enrolled_network_def existing_def Let_def)
    then show ?thesis using resolved_control_plane [OF r] by simp
  qed
qed

lemma good_next_enrollment:
  assumes "agent_ok (ag_state w)" "joined_ok (enrolled_network te cp)"
    and "ncp_pinned_controller_public_key cp = ten_controller_public_key te"
  shows "good_next (ag_state w) (ag_state (fst (commit_enrollment A E te cp w)))"
proof (rule commit_enrollment_outcome [where P = "good_next (ag_state w)", OF good_next_refl [OF assms(1)]])
  let ?n = "enrolled_network te cp"
  let ?i = "vn_id (ers_network (ten_enrollment te))"
  have id: "network_id_of ?n = ?i" "jn_control_plane ?n = cp" by (simp_all add: enrolled_network_def Let_def)
  show "good_next (ag_state w) (update_networks (\<lambda>ns. ns @ [?n]) (ag_state w))" if "find_network ?i (ps_networks (ag_state w)) = None"
    using that by (intro good_next_append [OF assms(1) _ assms(2)]) (simp add: find_network_None id)
  fix n
  assume n: "find_network ?i (ps_networks (ag_state w)) = Some n" and c: "check_replacement (ten_controller_public_key te) n cp = Inr ()"
  have "planet_not_older (jn_control_plane n) cp"
    using c by (intro accepted_metadata_not_older) (auto simp: check_replacement_def split: if_splits)
  moreover have "ncp_pinned_controller_public_key (jn_control_plane n) \<noteq> [] \<longrightarrow>
      ncp_pinned_controller_public_key cp = ncp_pinned_controller_public_key (jn_control_plane n)"
    using c assms(3) by (auto simp: check_replacement_def pinned_controller_key_def split: if_splits)
  ultimately have "trust_kept n ?n" by (simp add: trust_kept_def id)
  then have "trust_step (ag_state w) (update_networks (update_network ?i (\<lambda>_. ?n)) (ag_state w))"
    by (intro trust_step_update [OF agent_okD(1) [OF assms(1)], of _ ?i "\<lambda>_. ?n"]) (simp_all add: update_networks_def id n)
  moreover have "agent_ok (update_networks (update_network ?i (\<lambda>_. ?n)) (ag_state w))"
    by (rule agent_ok_update [OF assms(1)]) (simp add: id assms(2))
  ultimately show "good_next (ag_state w) (update_networks (update_network ?i (\<lambda>_. ?n)) (ag_state w))"
    by (simp add: good_next_def)
qed

lemma agent_reachable_ok:
  assumes "agent_reachable X w0 w" "agent_ok (ag_state w0)"
  shows "agent_ok (ag_state w)"
  using assms
proof induction
  case (step w w')
  then show ?case using good_next_step by (auto simp: good_next_def)
next
  case (enroll w earlier H now te cp A E)
  then show ?case using good_next_enrollment [of w te cp A E] prepared_ok [of X H now te "ag_state earlier" cp]
    by (auto simp: good_next_def)
qed

text \<open>
  C35: In every state that the agent reaches from a valid one, through any handlers with any arguments, any failures of the
  file system and of the platform, and any interleaving of enrollments, the networks have distinct identifiers, every
  policy belongs to the network that holds it, every selected exit is an exit node of that policy for its address family, a
  kill switch is never armed without a gateway, and no network has two gateway configurations.
\<close>

theorem agent_state_stays_valid:
  assumes "agent_reachable X w0 w" and "agent_ok (ag_state w0)"
  shows "distinct (map (\<lambda>n. vn_id (jn_network n)) (ps_networks (ag_state w)))
    \<and> (\<forall>n \<in> set (ps_networks (ag_state w)). selection_is_usable n
        \<and> (\<forall>policy. ncp_policy_manifest (jn_control_plane n) = Some policy \<longrightarrow> npm_network_id policy = vn_id (jn_network n)))
    \<and> distinct (map egc_network_id (ps_exit_gateways (ag_state w)))"
  using agent_reachable_ok [OF assms] by (simp add: agent_ok_def joined_ok_def distinct_networks_def)


end
