(* ===== verification/Agent_Revocation.thy ===== *)
theory Agent_Revocation
  imports Agent_Invariants
begin

text \<open>
  What a change of membership at the controller does to the agent, and what the handlers leave behind when they fail: revocation, the
  effect of an enrollment on the policy of the adapter, and a selection that is refused but kept.
\<close>

section \<open>Revocation\<close>

lemma write_state_other [simp]:
  "ag_transport_revision (fst (write_state E k w)) = ag_transport_revision w"
  "ag_observations (fst (write_state E k w)) = ag_observations w" "ag_transport_reload (fst (write_state E k w)) = ag_transport_reload w"
  by (simp_all add: write_state_def split: write_outcome.split)

lemma fail_closed_other [simp]:
  "ag_turn_credentials (fst (fail_closed A e w)) = ag_turn_credentials w" "ag_file (fst (fail_closed A e w)) = ag_file w"
  "ag_transport_revision (fst (fail_closed A e w)) = ag_transport_revision w"
  "ag_observations (fst (fail_closed A e w)) = ag_observations w" "ag_transport_reload (fst (fail_closed A e w)) = ag_transport_reload w"
  by (simp_all add: fail_closed_def abind_run)

text \<open>The parts of the agent that only a reload of the transport and a refresh of the credential change.\<close>

definition session_part :: "'a agent \<Rightarrow> (network_id, turn_credential) hash_map \<times> u64 \<times> observation_state \<times> bool" where
  "session_part w = (ag_turn_credentials w, ag_transport_revision w, ag_observations w, ag_transport_reload w)"

lemma adapt_networks_session [simp]:
  "session_part (fst (adapt_networks A removed reload withdrawn networks w)) = session_part w"
  "ag_file (fst (adapt_networks A removed reload withdrawn networks w)) = ag_file w"
  by (auto simp: session_part_def adapt_networks_def abind_run split: option.split)

lemma reconcile_exits_session [simp]:
  "session_part (fst (reconcile_exits A E cleared previous gateways plan w)) = session_part w"
  by (auto simp: session_part_def reconcile_exits_def abind_run split: option.split sum.split)

lemma reconcile_exits_file:
  "ps_networks (ag_file (fst (reconcile_exits A E cleared previous gateways plan w)))
     \<in> {ps_networks (ag_file w), ps_networks (ag_state w)}"
  by (auto simp: reconcile_exits_def abind_run write_state_def split: option.split sum.split write_outcome.split)

lemma cleared_gateways_exist:
  "g \<in> set (ps_exit_gateways (fst (clear_gateways st))) \<Longrightarrow> find_network (egc_network_id g) (ps_networks st) \<noteq> None"
  by (auto simp: clear_gateways_def clear_unusable_exit_gateways_def gateway_is_usable_def Let_def case_prod_beta split: option.splits)

lemma uncleared_gateways: "\<not> snd (clear_gateways st) \<Longrightarrow> ps_exit_gateways (fst (clear_gateways st)) = ps_exit_gateways st"
  by (auto simp: clear_gateways_def clear_unusable_exit_gateways_def Let_def case_prod_beta filter_id_conv)
    (metis (no_types, lifting) filter_True length_filter_less less_irrefl)

lemma revoked_state:
  assumes "distinct_networks st" "authorized_state X now i None st = (st1, s, g)"
  shows "ps_networks st1 = filter (\<lambda>n. vn_id (jn_network n) \<noteq> i) (ps_networks st)"
    "x \<in> set (ps_exit_gateways st1) \<Longrightarrow> egc_network_id x \<noteq> i" "\<not> g \<Longrightarrow> ps_exit_gateways st1 = ps_exit_gateways st"
proof -
  let ?st = "update_networks (remove_first_network i) st"
  have st1: "st1 = fst (clear_gateways ?st)" "g = snd (clear_gateways ?st)"
    using assms(2) by (auto simp: authorized_state_def Let_def case_prod_beta)
  have n: "ps_networks ?st = filter (\<lambda>n. vn_id (jn_network n) \<noteq> i) (ps_networks st)"
    using assms(1) by (simp add: update_networks_def distinct_networks_def remove_first_network_ids)
  then show "ps_networks st1 = filter (\<lambda>n. vn_id (jn_network n) \<noteq> i) (ps_networks st)" by (simp add: st1)
  show "egc_network_id x \<noteq> i" if "x \<in> set (ps_exit_gateways st1)"
    using cleared_gateways_exist [of x ?st] that unfolding st1(1) n by (auto simp: find_network_None image_iff)
  show "ps_exit_gateways st1 = ps_exit_gateways st" if "\<not> g"
    using uncleared_gateways [of ?st] that by (simp add: st1 update_networks_def)
qed

lemma apply_revoke:
  assumes "find_network (art_network_id target) (ps_networks (ag_state w)) = Some n"
    and "map_option mc_certificate_id (jn_certificate n) = Some (mc_certificate_id (art_certificate target))"
  shows "apply_authorization_action X A E target Revoke w = apply_acted X A E (art_network_id target) n (None, True, Some None) w"
  using assms by (simp add: apply_authorization_action_def abind_run act_on_network_def)

lemma revoked_memory:
  assumes "distinct_networks (ag_state w)"
  shows "(\<forall>m \<in> set (ps_networks (ag_state (fst (apply_acted X A E i n (None, True, Some None) w)))). vn_id (jn_network m) \<noteq> i)
    \<and> (\<forall>g \<in> set (ps_exit_gateways (ag_state (fst (apply_acted X A E i n (None, True, Some None) w)))). egc_network_id g \<noteq> i)"
proof -
  obtain st s g where st: "authorized_state X (ae_now E) i None (ag_state w) = (st, s, g)" by (metis prod_cases3)
  define P where "P st' \<longleftrightarrow> (\<forall>m \<in> set (ps_networks st'). vn_id (jn_network m) \<noteq> i) \<and> (\<forall>g \<in> set (ps_exit_gateways st'). egc_network_id g \<noteq> i)" for st' :: persisted_state
  have P: "P st" using revoked_state(1,2) [OF assms st] by (auto simp: P_def)
  have "P (st\<lparr>ps_exit_gateways := ps_exit_gateways (ag_state w)\<rparr>)" if "\<not> g"
    using P revoked_state(3) [OF assms st that] by (simp add: P_def)
  then have "P (ag_state (fst (apply_acted X A E i n (None, True, Some None) w)))"
    unfolding apply_acted_def prod.case
    by (simp add: abind_run st P case_prod_beta Let_def split: sum.split) (auto intro!: reconcile_exits_outcome [where P = P] simp: P)
  then show ?thesis by (simp add: P_def)
qed

lemma revoked_elsewhere:
  fixes w :: "'a agent" and A :: "'a adapter_ops" and n :: joined_network
  assumes "distinct_networks (ag_state w)" and "ae_write E 0 = Written"
    and "gateways_of X (fst (authorized_state X (ae_now E) i None (ag_state w))) = Inr gateways"
    and "kill_switch_of X E (fst (authorized_state X (ae_now E) i None (ag_state w))) = Inr plan"
  defines "w' \<equiv> fst (apply_acted X A E i n (None, True, Some None) w)"
  shows "(\<forall>m \<in> set (ps_networks (ag_file w')). vn_id (jn_network m) \<noteq> i)
    \<and> session_part w' = (hm_remove i (ag_turn_credentials w), ag_transport_revision w + 1,
        obs_reset (ag_transport_revision w + 1) (ag_observations w), True)"
proof -
  obtain st s g where st: "authorized_state X (ae_now E) i None (ag_state w) = (st, s, g)" by (metis prod_cases3)
  define w1 where "w1 = w\<lparr>ag_state := st, ag_file := st, ag_turn_credentials := hm_remove i (ag_turn_credentials w),
    ag_transport_revision := ag_transport_revision w + 1,
    ag_observations := obs_reset (ag_transport_revision w + 1) (ag_observations w), ag_transport_reload := True\<rparr>"
  define r where "r = adapt_networks A (Some n) True (s \<or> g) (ps_networks st) w1"
  have w1: "ag_file w1 = st" "ag_state w1 = st" "session_part w1 = (hm_remove i (ag_turn_credentials w), ag_transport_revision w + 1,
        obs_reset (ag_transport_revision w + 1) (ag_observations w), True)"
    by (simp_all add: w1_def session_part_def)
  have w': "w' = (case snd r of Inl e \<Rightarrow> fst r
     | Inr _ \<Rightarrow> fst (reconcile_exits A E g (Some (ps_exit_gateways (ag_state w))) gateways plan (fst r)))"
    using assms(2-4)
    by (cases "snd r") (simp_all add: w'_def apply_acted_def abind_run st write_state_def r_def w1_def request_transport_reload_def Let_def)
  have r: "ag_file (fst r) = st" "ag_state (fst r) = st" "session_part (fst r) = session_part w1"
    by (simp_all add: r_def w1)
  have "ps_networks (ag_file w') = ps_networks st"
    using reconcile_exits_file [of A E g "Some (ps_exit_gateways (ag_state w))" gateways plan "fst r"] r
    by (auto simp: w' split: sum.split)
  moreover have "session_part w' = session_part w1" using r by (simp add: w' split: sum.split)
  ultimately show ?thesis using revoked_state(1) [OF assms(1) st] w1(3) by auto
qed

text \<open>
  C38: A revocation takes effect whatever the platform does. When the controller no longer lists the device, the network and its gateway configuration
  leave the memory of the agent; and if the remaining state can be written and its exits planned, they also leave the file, the
  TURN credential is forgotten, and the transport is told to start over with no session observed, even if the
  adapter then fails to clean up.
\<close>

theorem revoked_network_is_gone:
  fixes w :: "'a agent" and A :: "'a adapter_ops" and X :: "'x agent_ops_scheme" and E :: agent_env
  assumes "find_network (art_network_id target) (ps_networks (ag_state w)) = Some n" and "distinct_networks (ag_state w)"
    and "map_option mc_certificate_id (jn_certificate n) = Some (mc_certificate_id (art_certificate target))"
  defines "w' \<equiv> fst (apply_authorization_action X A E target Revoke w)"
    and "remaining \<equiv> fst (authorized_state X (ae_now E) (art_network_id target) None (ag_state w))"
  shows "find_network (art_network_id target) (ps_networks (ag_state w')) = None
    \<and> (\<forall>g \<in> set (ps_exit_gateways (ag_state w')). egc_network_id g \<noteq> art_network_id target)
    \<and> (ae_write E 0 = Written \<and> is_ok (gateways_of X remaining) \<and> is_ok (kill_switch_of X E remaining) \<longrightarrow>
        find_network (art_network_id target) (ps_networks (ag_file w')) = None
        \<and> hm_get (ag_turn_credentials w') (art_network_id target) = None
        \<and> ag_transport_revision w' = ag_transport_revision w + 1 \<and> ag_transport_reload w'
        \<and> obs_active (ag_observations w') = [])"
proof -
  have w': "w' = fst (apply_acted X A E (art_network_id target) n (None, True, Some None) w)"
    unfolding w'_def apply_revoke [OF assms(1,3)] ..
  have "find_network (art_network_id target) (ps_networks (ag_file w')) = None
      \<and> session_part w' = (hm_remove (art_network_id target) (ag_turn_credentials w), ag_transport_revision w + 1,
          obs_reset (ag_transport_revision w + 1) (ag_observations w), True)"
    if ok: "ae_write E 0 = Written" "is_ok (gateways_of X remaining)" "is_ok (kill_switch_of X E remaining)"
  proof -
    obtain gateways plan where "gateways_of X remaining = Inr gateways" "kill_switch_of X E remaining = Inr plan"
      using ok(2,3) by (auto simp: is_ok_def split: sum.splits)
    then show ?thesis
      using revoked_elsewhere [OF assms(2) ok(1), of X "art_network_id target" gateways plan A n]
      by (auto simp: w' remaining_def find_network_None)
  qed
  moreover have "find_network (art_network_id target) (ps_networks (ag_state w')) = None
      \<and> (\<forall>g \<in> set (ps_exit_gateways (ag_state w')). egc_network_id g \<noteq> art_network_id target)"
    using revoked_memory [OF assms(2), of X A E "art_network_id target" n] by (auto simp: w' find_network_None)
  ultimately show ?thesis by (auto simp: session_part_def obs_reset_def)
qed

section \<open>From the controller to the agent\<close>

lemma removed_not_listed:
  assumes "remove_member env h n d st = (st1, Inr ())" and "controller_ok st" and "authorization_of X env' n st1 = Inr a"
  shows "find (\<lambda>m. am_device_id m = d) (nam_active_members a) = None"
proof -
  obtain m m1 where m: "hm_get (cs_networks st) n = Some m" "st1 = put_network st n m1" "mn_members m1 = hm_remove d (mn_members m)"
    using assms(1) by (rule remove_member_InrE)
  have "hm_ok (mn_members m)" using assms(2) m(1) by (simp add: controller_ok_def network_ok_def)
  then have absent: "(d, claims) \<notin> set (mn_members m1)" for claims by (simp add: m(3) hm_in_set_iff [symmetric] hm_ok_remove hm_in_set_iff)
  obtain key where "sign_authorization X (env_now env') m1 key = Inr a"
    using assms(3) m(2) by (auto simp: authorization_of_def ok_or_Inr_iff put_network_def)
  then have "set (nam_active_members a) = set (List.map_filter (\<lambda>(device, claims).
      map_option (\<lambda>certificate_id. \<lparr>am_device_id = device, am_certificate_id = certificate_id,
          am_device_public_key = mcl_device_public_key claims, am_network_key_epoch = mn_network_key_epoch m1\<rparr>)
        (hm_get (mn_member_certificate_ids m1) device)) (mn_members m1))"
    unfolding sign_authorization_def by (elim authorization_signE) simp
  then show ?thesis using absent by (auto simp: find_None_iff map_filter_def)
qed

lemma find_network_distinct:
  "distinct (map network_id_of ns) \<Longrightarrow> m \<in> set ns \<Longrightarrow> find_network (network_id_of m) ns = Some m"
  by (induction ns) (auto simp: find_network_def)

lemma refresh_target_is_joined:
  assumes "authorization_refresh_material now w = Some (d, identity, targets)" "target \<in> set targets" "distinct_networks (ag_state w)"
  obtains m where "find_network (art_network_id target) (ps_networks (ag_state w)) = Some m"
    and "jn_certificate m = Some (art_certificate target)"
proof -
  obtain m where m: "m \<in> set (ps_networks (ag_state w))" "authorization_target_of now (ag_turn_credentials w) m = Some target"
    using assms(1,2) by (auto simp: authorization_refresh_material_def map_filter_def split: option.splits)
  then have "art_network_id target = network_id_of m" "jn_certificate m = Some (art_certificate target)"
    by (auto simp: authorization_target_of_def Let_def split: option.splits if_splits)
  then show ?thesis using that find_network_distinct m(1) assms(3) by (simp add: distinct_networks_def)
qed

lemma policy_for_missing_network:
  "find_network i (ps_networks (ag_state w)) = None \<Longrightarrow> ag_state (fst (apply_policy_manifest X A E i policy w)) = ag_state w"
  by (simp add: apply_policy_manifest_def abind_run ok_or_def)

text \<open>
  C37: The removal of a member reaches the device. After the controller, in a state with the invariant that all its reachable states
  have, has removed a member, and as long as its answer is current by
  the clock of the agent, not older than what the agent has, and pinned to the same key, the next round of the
  agent's refresh decides that the membership is revoked, and the network is gone from the agent afterwards, whatever else the
  controller answers and whatever the platform and the file system do.
\<close>

theorem removal_reaches_the_agent:
  assumes "ed_correct X" and "controller_ok st" and "remove_member env h n d st = (st1, Inr ())"
    and "signing_key st1 = Some key" and "authorization_of X env' n st1 = Inr a"
    and "authorization_refresh_material (ae_now E) w = Some (d, identity, targets)" and "target \<in> set targets"
    and "distinct_networks (ag_state w)"
    and "art_network_id target = n" and "art_pinned_controller_public_key target = verifying_key X key"
    and "\<forall>current. art_authorization_epoch target = Some current \<longrightarrow> current \<le> nam_authorization_epoch a"
    and "ae_now E \<le> env_now env' + 90" and "env_now env' \<le> saturating_add (ae_now E) 120"
    and "\<forall>ca u. http_authorization H ca u = Some a" and "art_controller_tls_ca_pem target = None"
  shows "fetch_authorization_action X H (ae_now E) nonce d identity target = Inr Revoke
    \<and> find_network n (ps_networks (ag_state (fst (refresh_target X H A E d identity nonce target w)))) = None"
proof -
  note ok = assms(2)
  obtain m1 where m1: "sign_authorization X (env_now env') m1 key = Inr a" "vn_id (mn_network m1) = n"
  proof -
    obtain m1 where "sign_authorization X (env_now env') m1 key = Inr a" "hm_get (cs_networks st1) n = Some m1"
      using assms(4,5) by (auto simp: authorization_of_def ok_or_Inr_iff)
    moreover have "vn_id (mn_network m1) = n" if "hm_get (cs_networks st1) n = Some m1" for m1
      using assms(3) by (rule remove_member_InrE) (use ok that in \<open>auto simp: put_network_def controller_ok_def network_ok_def\<close>)
    ultimately show ?thesis using that by blast
  qed
  have len: "length key = 32" using assms(4) by (simp add: signing_key_def split: if_splits)
  have v: "authorization_verify_from_controller X a (verifying_key X key) (ae_now E) = Inr ()"
    by (rule authorization_signed_verifies [OF assms(1) len m1(1) [unfolded sign_authorization_def] assms(12,13)])
  have id: "nam_network_id a = n" using m1 unfolding sign_authorization_def by (elim authorization_signE) simp
  have "check_authorization X (ae_now E) d identity target a = Inr (Some Revoke)"
    using v id removed_not_listed [OF assms(3) ok assms(5)] assms(9-11)
    by (auto simp: check_authorization_def split: option.split)
  then have f: "fetch_authorization_action X H (ae_now E) nonce d identity target = Inr Revoke"
    using assms(14) by (simp add: fetch_authorization_action_def Let_def ok_or_def)
  obtain m where m: "find_network n (ps_networks (ag_state w)) = Some m" "jn_certificate m = Some (art_certificate target)"
    using refresh_target_is_joined [OF assms(6,7,8)] assms(9) by metis
  define r where "r = apply_authorization_action X A E target Revoke w"
  have "r = apply_acted X A E n m (None, True, Some None) w"
    using apply_revoke [of target w m X A E] m assms(9) by (simp add: r_def)
  then have gone: "find_network n (ps_networks (ag_state (fst r))) = None"
    using revoked_memory [OF assms(8), of X A E n m] by (auto simp: find_network_None)
  have "ag_state (fst (refresh_policy X H A E target (fst r))) = ag_state (fst r)"
    using gone assms(9,15) by (simp add: refresh_policy_def abind_run ok_or_def policy_for_missing_network split: option.split)
  then have "ag_state (fst (refresh_target X H A E d identity nonce target w)) = ag_state (fst r)"
    using f assms(15) by (cases "snd r") (simp_all add: refresh_target_def abind_run r_def)
  then show ?thesis using f gone by simp
qed

section \<open>What a failed or partial handler leaves behind\<close>

text \<open>
  C40: A refused exit selection stays in force. If the exceptions of the kill switch cannot be computed (a host of the control plane does
  not resolve), the request is answered with an error and nothing is written or configured, but the selection is already in the
  state that the data plane reads; and the same request again, with a resolver that works, is answered with success
  without configuring anything.
\<close>

theorem refused_selection_stays:
  assumes "find_network i (ps_networks (ag_state w)) = Some n" and "validate_exit_selection X (ae_now E) n selection = Inr ()"
    and "ncp_exit_node_selection (jn_control_plane n) \<noteq> selection"
    and "kill_switch_of X E (select_exit i selection (ag_state w)) = Inl e" and "ae_now E' = ae_now E"
  defines "w' \<equiv> w\<lparr>ag_state := select_exit i selection (ag_state w)\<rparr>"
  shows "configure_exit_selection X A E i selection w = (w', Inl (ABadRequest e))
    \<and> configure_exit_selection X A E' i selection w' = (w', Inr ())"
proof
  show "configure_exit_selection X A E i selection w = (w', Inl (ABadRequest e))"
    using assms(1-4) by (simp add: configure_exit_selection_def abind_run ok_or_def Let_def w'_def)
  have find: "find_network i (ps_networks (ag_state w')) = Some (with_exit_selection selection n)"
  proof -
    have "find_network i (update_network i (with_exit_selection selection) ns) = Some (with_exit_selection selection n)"
      if "find_network i ns = Some n" for ns
      using that by (induction ns) (auto simp: find_network_def with_exit_selection_def)
    then show ?thesis using assms(1) by (simp add: w'_def select_exit_def update_networks_def)
  qed
  have "validate_exit_selection X (ae_now E') (with_exit_selection selection n) selection
      = validate_exit_selection X (ae_now E') n selection"
    by (simp add: validate_exit_selection_def with_exit_selection_def)
  then have "validate_exit_selection X (ae_now E') (with_exit_selection selection n) selection = Inr ()"
    using assms(2,5) by simp
  then show "configure_exit_selection X A E' i selection w' = (w', Inr ())"
    using find by (simp add: configure_exit_selection_def abind_run ok_or_def Let_def with_exit_selection_def)
qed

lemma linux_remove_keeps:
  "la_session (fst (adapter_remove_network X P n a)) = la_session a" "la_policy (fst (adapter_remove_network X P n a)) = la_policy a"
  by (auto simp: adapter_remove_network_def split: sum.split)

lemma reconciled_policy:
  "snd (reconcile_policy P plan a) \<Longrightarrow> la_policy (fst (reconcile_policy P plan a)) = plan"
  by (auto simp: reconcile_policy_def finalize_policy_transaction_def case_prod_beta Let_def split: sum.splits if_splits)

lemma configured_policy:
  assumes "la_session a" "snd (adapter_configure_networks X now P networks a)"
  shows "policy_plan_from_networks X networks now = Inr (la_policy (fst (adapter_configure_networks X now P networks a)))"
  using assms reconciled_policy [of P]
  by (auto simp: adapter_configure_networks_def adapter_configure_policy_def case_prod_beta Let_def split: sum.splits if_splits)

text \<open>
  Enrolling in one network takes away the routes of the others. When the device enrolls while the Linux adapter is active, the adapter is
  configured with the new network alone, and since it keeps one plan for all networks, the plan that it has applied afterwards is that of the new
  network: no route, exit route or DNS server of another network is left, although those networks stay joined.
\<close>

theorem enrollment_replaces_the_policy_plan:
  assumes "commit_enrollment (linux_adapter_ops X now P) E te cp w = (w', Inr joined)" and "la_session (ag_adapter w)"
  shows "policy_plan_from_networks X [joined] now = Inr (la_policy (ag_adapter w'))
    \<and> (\<forall>r \<in> set (pp_routes (la_policy (ag_adapter w')) @ pp_exit_routes (la_policy (ag_adapter w'))).
        plr_network_id r = vn_id (jn_network joined))"
proof -
  define A where "A = linux_adapter_ops X now P"
  have A: "ado_is_active A = la_session" "ado_remove_network A = adapter_remove_network X P"
      "ado_configure_networks A = adapter_configure_networks X now P" by (simp_all add: A_def linux_adapter_ops_def)
  define a where "a = (case find_network (vn_id (jn_network (enrolled_network te cp))) (ps_networks (ag_state w)) of
      None \<Rightarrow> ag_adapter w | Some n \<Rightarrow> fst (adapter_remove_network X P n (ag_adapter w)))"
  have "joined = enrolled_network te cp \<and> snd (adapter_configure_networks X now P [joined] a)
      \<and> ag_adapter w' = fst (adapter_configure_networks X now P [joined] a)"
    using assms unfolding A_def [symmetric] a_def
    by (auto simp: commit_enrollment_def abind_run adapter_try_def A write_state_def request_transport_reload_def Let_def
        split: sum.splits if_splits option.splits write_outcome.splits)
  moreover have "la_session a" using assms(2) by (simp add: a_def linux_remove_keeps split: option.split)
  ultimately have plan: "policy_plan_from_networks X [joined] now = Inr (la_policy (ag_adapter w'))" using configured_policy [of a X now P "[joined]"] by metis
  then show ?thesis using planned_networks [OF plan] by auto
qed

section \<open>Sample agents\<close>

definition sample_env_agent :: "u64 \<Rightarrow> resolver \<Rightarrow> agent_env" where
  "sample_env_agent now resolve = \<lparr>ae_now = now, ae_resolve = resolve, ae_write = (\<lambda>_. Written)\<rparr>"

definition sample_agent :: "'a \<Rightarrow> persisted_state \<Rightarrow> 'a agent" where
  "sample_agent a st = \<lparr>ag_state = st, ag_file = st, ag_adapter = a, ag_turn_credentials = [], ag_transport_revision = 0,
     ag_observations = observation_default, ag_transport_reload = False, ag_authorization_refresh = False, ag_shutting_down = False\<rparr>"

lemma sample_agent_sel [simp]:
  "ag_state (sample_agent a st) = st" "ag_adapter (sample_agent a st) = a" "ag_turn_credentials (sample_agent a st) = []"
  "ag_transport_revision (sample_agent a st) = 0"
  by (simp_all add: sample_agent_def)

text \<open>A device with one network that has selected an exit.\<close>

definition sample_exit_agent_state :: persisted_state where
  "sample_exit_agent_state = (persisted_state_new 9 (replicate 32 7))\<lparr>ps_networks := [sample_exit_network]\<rparr>"

lemma sample_exit_network_sel:
  "vn_id (jn_network sample_exit_network) = 5" "ncp_policy_manifest (jn_control_plane sample_exit_network) = Some sample_dns_policy"
  "ncp_exit_node_selection (jn_control_plane sample_exit_network) = sample_selection"
  "ncp_pinned_controller_public_key (jn_control_plane sample_exit_network) = replicate 32 6"
  "npm_network_id sample_dns_policy = 5" "exit_node_supports sample_dns_policy 1 ipv4_probe"
  by (simp_all add: sample_exit_network_def with_exit_selection_def sample_joined_def sample_control_plane_def sample_dns_policy_def
      sample_exit_policy_def sample_policy_def exit_node_supports_def ipv4_probe_def gateway_certificate_def sample_certificate_def
      sample_claims_def)

lemma sample_exit_agent_ok: "agent_ok sample_exit_agent_state"
  by (simp add: agent_ok_def distinct_networks_def joined_ok_def sample_exit_agent_state_def persisted_state_new_def
      selection_is_usable_def sample_exit_network_sel) (simp add: sample_selection_def sample_exit_network_sel)

definition sample_relay_config :: relay_config where
  "sample_relay_config = \<lparr>rlc_endpoint = SocketV4 0x08080808 9000, rlc_enable_upnp = False, rlc_stun_servers = []\<rparr>"

definition sample_agent_start :: "(string \<Rightarrow> string list list) linux_adapter agent" where
  "sample_agent_start = sample_agent (adapter_new (\<lambda>_. [])) sample_exit_agent_state"

definition sample_agent_next :: "(string \<Rightarrow> string list list) linux_adapter agent" where
  "sample_agent_next = fst (expire_stale_policies sample_agent_ops (linux_adapter_ops sample_agent_ops (-1) sample_platform)
     (sample_env_agent (-1) sample_resolver) sample_agent_start)"

lemma sample_agent_next_step: "agent_step sample_agent_ops sample_agent_start sample_agent_next"
  unfolding sample_agent_next_def by (rule agent_step.expiry)

lemma sample_agent_next_networks:
  "map (\<lambda>n. vn_id (jn_network n)) (ps_networks (ag_state sample_agent_next)) = [5]"
proof -
  have "map (\<lambda>n. vn_id (jn_network n)) (ps_networks (ag_state sample_agent_start)) = [5]"
    by (simp add: sample_agent_start_def sample_exit_agent_state_def sample_exit_network_sel)
  moreover have "network_id_of (fst (expire_policy now n)) = network_id_of n" for now n
    using expire_policy_anchor by (simp add: same_anchor_def)
  ultimately show ?thesis
    unfolding sample_agent_next_def
    by (intro expire_stale_policies_outcome [where P = "\<lambda>st. map network_id_of (ps_networks st) = [5]"]) (simp_all add: comp_def)
qed

theorem agent_state_stays_valid_witness:
  "\<exists>n. ps_networks (ag_state sample_agent_next) = [n] \<and> selection_is_usable n"
proof -
  have "agent_reachable sample_agent_ops sample_agent_start sample_agent_next"
    by (rule agent_reachable.step [OF agent_reachable.start sample_agent_next_step])
  from agent_state_stays_valid [OF this] have "\<forall>n \<in> set (ps_networks (ag_state sample_agent_next)). selection_is_usable n"
    using sample_exit_agent_ok by (auto simp: sample_agent_start_def)
  then show ?thesis using sample_agent_next_networks by (cases "ps_networks (ag_state sample_agent_next)") auto
qed


definition sample_refresh_target :: authorization_refresh_target where
  "sample_refresh_target = \<lparr>art_network_id = 5, art_controller_url = ''https://c'', art_controller_tls_ca_pem = None,
     art_pinned_controller_public_key = replicate 32 6, art_certificate = gateway_certificate, art_authorization_epoch = None,
     art_turn_credential_refresh_required = False\<rparr>"

theorem revoked_network_is_gone_witness:
  "find_network 5 (ps_networks (ag_file (fst (apply_authorization_action sample_agent_ops
       (linux_adapter_ops sample_agent_ops 300 stuck_platform) (sample_env_agent 300 sample_resolver) sample_refresh_target Revoke
       (sample_agent (adapter_new ()) ((persisted_state_new 9 (replicate 32 7))\<lparr>ps_networks :=
          [sample_exit_network\<lparr>jn_certificate := Some gateway_certificate\<rparr>]\<rparr>)))))) = None"
proof -
  define n where "n = sample_exit_network\<lparr>jn_certificate := Some gateway_certificate\<rparr>"
  define st where "st = (persisted_state_new 9 (replicate 32 7))\<lparr>ps_networks := [n]\<rparr>"
  define w where "w = sample_agent (adapter_new ()) st"
  have find: "find_network (art_network_id sample_refresh_target) (ps_networks (ag_state w)) = Some n"
    by (simp add: w_def st_def n_def find_network_def sample_refresh_target_def sample_exit_network_sel)
  have remaining: "fst (authorized_state sample_agent_ops 300 5 None st) = persisted_state_new 9 (replicate 32 7)"
    by (simp add: authorized_state_def st_def n_def update_networks_def sample_exit_network_sel clear_gateways_def persisted_state_new_def
        clear_unusable_exit_gateways_def Let_def)
  show ?thesis
    using revoked_network_is_gone [OF find, of sample_agent_ops "linux_adapter_ops sample_agent_ops 300 stuck_platform"
        "sample_env_agent 300 sample_resolver"] remaining
    unfolding n_def [symmetric] st_def [symmetric] w_def [symmetric]
    by (simp add: w_def st_def distinct_networks_def n_def sample_refresh_target_def sample_env_agent_def gateways_of_def
        kill_switch_of_def kill_switch_plan_from_state_def gateway_plan_from_configs_def persisted_state_new_def)
qed

text \<open>A second network with an armed kill switch, whose controller has no valid URL.\<close>

definition unresolvable_network :: joined_network where
  "unresolvable_network = sample_exit_network\<lparr>jn_network := (jn_network sample_exit_network)\<lparr>vn_id := 6\<rparr>,
     jn_control_plane := (jn_control_plane sample_exit_network)\<lparr>ncp_controller_url := Some ''x'', ncp_planet_manifest_url := None\<rparr>\<rparr>"

theorem refused_selection_stays_witness:
  "\<exists>w' e. configure_exit_selection sample_agent_ops (linux_adapter_ops sample_agent_ops 300 sample_platform)
       (sample_env_agent 300 sample_resolver) 5 no_exit_selection
       (sample_agent (adapter_new (\<lambda>_. [])) ((persisted_state_new 9 (replicate 32 7))\<lparr>ps_networks :=
          [sample_exit_network, unresolvable_network]\<rparr>)) = (w', Inl e)
     \<and> ag_state w' \<noteq> ag_file w'"
proof -
  define st where "st = (persisted_state_new 9 (replicate 32 7))\<lparr>ps_networks := [sample_exit_network, unresolvable_network]\<rparr>"
  define w :: "(string \<Rightarrow> string list list) linux_adapter agent" where "w = sample_agent (adapter_new (\<lambda>_. [])) st"
  define E where "E = sample_env_agent 300 sample_resolver"
  have find: "find_network 5 (ps_networks (ag_state w)) = Some sample_exit_network"
    by (simp add: w_def st_def find_network_def sample_exit_network_sel)
  have sel: "ps_networks (select_exit 5 no_exit_selection (ag_state w))
      = [with_exit_selection no_exit_selection sample_exit_network, unresolvable_network]"
    by (simp add: w_def st_def select_exit_def update_networks_def sample_exit_network_sel)
  have urls: "service_urls (with_exit_selection no_exit_selection sample_exit_network) = []" "service_urls unresolvable_network = [''x'']"
    by (simp_all add: service_urls_def unresolvable_network_def with_exit_selection_def sample_exit_network_def sample_joined_def
        sample_control_plane_def map_filter_simps)
  have parse: "url_parse sample_agent_ops ''x'' = None" by (simp add: sample_agent_simps)
  have armed: "ens_kill_switch (ncp_exit_node_selection (jn_control_plane unresolvable_network))"
    by (simp add: unresolvable_network_def sample_exit_network_sel sample_selection_def)
  have kill: "kill_switch_of sample_agent_ops E (select_exit 5 no_exit_selection (ag_state w))
      = Inl (Message ''invalid kill-switch service URL'')"
    using parse armed by (simp add: kill_switch_of_def kill_switch_plan_from_state_def sel urls resolve_kill_switch_url_def ok_or_def)
  have valid: "validate_exit_selection sample_agent_ops (ae_now E) sample_exit_network no_exit_selection = Inr ()"
    by (simp add: validate_exit_selection_iff no_selection_iff)
  have ne: "ncp_exit_node_selection (jn_control_plane sample_exit_network) \<noteq> no_exit_selection"
    by (simp add: sample_exit_network_sel sample_selection_def no_exit_selection_def)
  have "select_exit 5 no_exit_selection st \<noteq> st"
  proof
    assume "select_exit 5 no_exit_selection st = st"
    then have "with_exit_selection no_exit_selection sample_exit_network = sample_exit_network"
      using sel by (simp add: w_def) (simp add: st_def)
    then show False using ne by (metis joined_network.select_convs(5) joined_network.surjective joined_network.update_convs(5)
        network_control_plane.select_convs(16) network_control_plane.surjective network_control_plane.update_convs(16) with_exit_selection_def)
  qed
  then show ?thesis
    using refused_selection_stays [OF find valid ne kill refl, of "linux_adapter_ops sample_agent_ops 300 sample_platform"]
    by (auto simp: w_def st_def E_def sample_agent_def)
qed

definition sample_trusted_enrollment :: trusted_enrollment where
  "sample_trusted_enrollment = \<lparr>ten_enrollment = \<lparr>ers_network = (jn_network sample_exit_network)\<lparr>vn_id := 6\<rparr>,
       ers_certificate = gateway_certificate\<lparr>mc_claims := (mc_claims gateway_certificate)\<lparr>mcl_assigned_addresses := []\<rparr>\<rparr>,
       ers_network_key = replicate 32 1, ers_authorization = sample_manifest, ers_turn_credential = None\<rparr>,
     ten_controller_public_key = replicate 32 6, ten_control_plane = None\<rparr>"

definition sample_routed_adapter :: "(string \<Rightarrow> string list list) linux_adapter" where
  "sample_routed_adapter = (adapter_new (\<lambda>_. []))\<lparr>la_session := True, la_policy := policy_plan_default\<lparr>
     pp_routes := [\<lparr>plr_prefix = ''10.9.0.0/16'', plr_network_id = 5, plr_gateway_device_id = 1\<rparr>]\<rparr>\<rparr>"

theorem enrollment_replaces_the_policy_plan_witness:
  "\<exists>w' joined. commit_enrollment (linux_adapter_ops sample_agent_ops 300 sample_platform) (sample_env_agent 300 sample_resolver)
       sample_trusted_enrollment control_plane_default (sample_agent sample_routed_adapter sample_exit_agent_state) = (w', Inr joined)
     \<and> find_network 5 (ps_networks (ag_state w')) = Some sample_exit_network
     \<and> 5 \<notin> plr_network_id ` set (pp_routes (la_policy (ag_adapter w')))"
proof -
  define n where "n = enrolled_network sample_trusted_enrollment control_plane_default"
  define w where "w = sample_agent sample_routed_adapter sample_exit_agent_state"
  define r where "r = commit_enrollment (linux_adapter_ops sample_agent_ops 300 sample_platform) (sample_env_agent 300 sample_resolver)
       sample_trusted_enrollment control_plane_default w"
  have n: "vn_id (jn_network n) = 6" "jn_assigned_addresses n = []" "jn_control_plane n = control_plane_default"
    by (simp_all add: n_def enrolled_network_def sample_trusted_enrollment_def Let_def)
  have none: "find_network 6 (ps_networks sample_exit_agent_state) = None"
    by (simp add: find_network_def sample_exit_agent_state_def sample_exit_network_sel)
  have "address_commands sample_agent_ops [n] Replace = Inr []"
    by (simp add: address_commands_def planned_addresses_def n)
  moreover have "policy_plan_from_networks sample_agent_ops [n] 300 = Inr policy_plan_default"
    by (simp add: policy_plan_from_networks_def plan_network_def n control_plane_default_def plan_builder_empty_def ordered_values_def
        policy_plan_default_def)
  moreover have "snd (reconcile_policy sample_platform policy_plan_default sample_routed_adapter)"
    by (simp add: reconcile_policy_def sample_routed_adapter_def apply_policy_transaction_def finalize_policy_transaction_def
        linux_policy_commands_def policy_plan_default_def sample_platform_def adapter_new_def case_prod_beta)
  ultimately have conf: "snd (adapter_configure_networks sample_agent_ops 300 sample_platform [n] sample_routed_adapter)"
    by (simp add: adapter_configure_networks_def adapter_configure_policy_def case_prod_beta Let_def sample_routed_adapter_def)
  have r: "r = (fst r, Inr n)" "ag_state (fst r) = update_networks (\<lambda>ns. ns @ [n]) sample_exit_agent_state"
    using conf none
    by (simp_all add: r_def commit_enrollment_def abind_run n_def [symmetric] n w_def Let_def adapter_try_def linux_adapter_ops_def
        write_state_def sample_env_agent_def prod_eq_iff)
  have "la_session (ag_adapter w)" by (simp add: w_def sample_routed_adapter_def)
  from enrollment_replaces_the_policy_plan [OF r(1) [unfolded r_def] this]
  have "5 \<notin> plr_network_id ` set (pp_routes (la_policy (ag_adapter (fst r))))" using n(1) by (auto simp: r_def)
  moreover have "find_network 5 (ps_networks (ag_state (fst r))) = Some sample_exit_network"
    by (simp add: r(2) update_networks_def find_network_def sample_exit_agent_state_def sample_exit_network_sel)
  ultimately show ?thesis using r(1) unfolding w_def [symmetric] r_def [symmetric] by blast
qed

text \<open>The operations of the sample controller, extended to those of an agent.\<close>

definition sample_both :: agent_ops where
  "sample_both = controller_ops.extend sample_controller (agent_ops.fields (\<lambda>_. None) (\<lambda>_ u. u) (\<lambda>_. []) (\<lambda>_. None) (\<lambda>_. None) (\<lambda>_. None))"

definition sample_member_state :: persisted_state where
  "sample_member_state = (persisted_state_new 1 (replicate 32 4))\<lparr>ps_networks := [\<lparr>jn_network = jn_network sample_exit_network,
     jn_assigned_addresses = [], jn_certificate = Some gateway_certificate, jn_network_key = replicate 32 3,
     jn_control_plane = control_plane_default\<lparr>ncp_controller_url := Some ''c'',
       ncp_pinned_controller_public_key := verifying_key sample_both (replicate 32 6)\<rparr>\<rparr>]\<rparr>"

definition sample_http :: "network_authorization_manifest \<Rightarrow> agent_http" where
  "sample_http a = \<lparr>http_client = True, http_planet = (\<lambda>_ _. None), http_authorization = (\<lambda>_ _. Some a),
     http_refresh = (\<lambda>_ _ _. None), http_policy = (\<lambda>_ _. None)\<rparr>"

lemma sample_both_sel:
  "ed_correct sample_both" "json_manifest_payload sample_both = (\<lambda>_. Some [4])" "json_hint_payload sample_both = (\<lambda>_. Some [3])"
  "verifying_key sample_both (replicate 32 6) \<noteq> []"
  by (simp_all add: sample_both_def sample_controller_def sample_pool_def const_policy_simps pool_ops.defs controller_ops.defs
      agent_ops.defs ed_correct_def sample_prims_def sample_sign_def sample_verify_def)

lemma sample_removed_key: "signing_key sample_removed = Some (replicate 32 6)"
proof (rule sample_enrolled_state)
  fix c
  assume eq: "sample_enrolled = sample_state (sample_managed [(1, c)] [(1, 9)] 2) [(7, sample_token (Some 1)), (8, sample_token None)]"
  show ?thesis
  proof (rule remove_member_InrE [OF sample_remove])
    fix m'
    assume "sample_removed = put_network sample_enrolled 5 m'"
    then have "cs_signing_key sample_removed = cs_signing_key (put_network sample_enrolled 5 m')" by (rule arg_cong)
    then show ?thesis by (simp add: eq put_network_def sample_state_def signing_key_def)
  qed
qed

theorem removal_reaches_the_agent_witness:
  "\<exists>a target. authorization_of sample_both (sample_env 11) 5 sample_removed = Inr a
     \<and> fetch_authorization_action sample_both (sample_http a) 100 [] 1 (replicate 32 4) target = Inr Revoke"
proof -
  obtain m where m: "hm_get (cs_networks sample_removed) 5 = Some m" by (rule sample_removed_network)
  obtain a where a: "authorization_of sample_both (sample_env 11) 5 sample_removed = Inr a"
    using m sample_removed_key
    by (simp add: sample_both_sel(2,3) authorization_of_def ok_or_def sign_authorization_def authorization_sign_def hint_sign_def Let_def)
  define E where "E = sample_env_agent 100 sample_resolver"
  define w where "w = sample_agent () sample_member_state"
  obtain target where t: "authorization_refresh_material (ae_now E) w = Some (1, replicate 32 4, [target])" "art_network_id target = 5"
      "art_pinned_controller_public_key target = verifying_key sample_both (replicate 32 6)" "art_authorization_epoch target = None"
      "art_controller_tls_ca_pem target = None"
    using sample_both_sel(4)
    by (auto simp: authorization_refresh_material_def w_def sample_member_state_def persisted_state_new_def identity_signing_key_def
        authorization_target_of_def control_plane_default_def map_filter_simps sample_exit_network_sel)
  have "fetch_authorization_action sample_both (sample_http a) (ae_now E) [] 1 (replicate 32 4) target = Inr Revoke"
    using removal_reaches_the_agent [OF sample_both_sel(1) controller_reachable_ok [OF sample_enrolled_reachable] sample_remove
        sample_removed_key a t(1) _ _ t(2,3), of "sample_http a" "[]"] t(4,5)
    by (auto simp: distinct_networks_def w_def sample_member_state_def E_def sample_env_agent_def sample_env_def saturating_add_def
        sample_http_def)
  then show ?thesis using a by (auto simp: E_def sample_env_agent_def)
qed

end
