(* ===== verification/Agent_Contract.thy ===== *)
theory Agent_Contract
  imports Agent_Revocation
begin

text \<open>
  What the agent relies on of a platform adapter, as a locale: only its activation opens the virtual interface, and its deactivation
  closes it. The handlers inherit from it that none of them but \<open>activate_adapter\<close> opens the interface. The
  Linux adapter provides the contract.
\<close>

locale adapter_contract =
  fixes A :: "'a adapter_ops"
  assumes deactivate_closes: "\<not> ado_is_active A (ado_deactivate A a)"
    and networks_stay_closed: "\<not> ado_is_active A a \<Longrightarrow> \<not> ado_is_active A (fst (ado_configure_networks A ns a))"
    and removal_stays_closed: "\<not> ado_is_active A a \<Longrightarrow> \<not> ado_is_active A (fst (ado_remove_network A n a))"
    and policy_stays_closed: "\<not> ado_is_active A a \<Longrightarrow> \<not> ado_is_active A (fst (ado_configure_policy A ns a))"
    and gateways_stay_closed: "\<not> ado_is_active A a \<Longrightarrow> \<not> ado_is_active A (fst (ado_configure_exit_gateways A g a))"
    and kill_switch_stays_closed: "\<not> ado_is_active A a \<Longrightarrow> \<not> ado_is_active A (fst (ado_configure_kill_switch A k a))"
begin

definition closed :: "'a agent \<Rightarrow> bool" where "closed w \<longleftrightarrow> \<not> ado_is_active A (ag_adapter w)"

definition stays_closed :: "('a agent, 'e, 'r) action \<Rightarrow> bool" where
  "stays_closed m \<longleftrightarrow> (\<forall>w. closed w \<longrightarrow> closed (fst (m w)))"

lemma stays_closed_abind: "stays_closed m \<Longrightarrow> (\<And>x. stays_closed (k x)) \<Longrightarrow> stays_closed (abind m k)"
  by (simp add: stays_closed_def abind_run split: sum.split)

lemma stays_closed_basic:
  "stays_closed (areturn x)" "stays_closed (araise e)" "stays_closed (alift r)" "stays_closed get_state" "stays_closed (modify_state f)"
  "stays_closed (adapter_active A)" "stays_closed (write_state E k)" "stays_closed request_transport_reload"
  "stays_closed (set_turn_credential i c)" "stays_closed (persist_state_candidate E k candidate)" "stays_closed (fail_closed A e)"
  by (simp_all add: stays_closed_def closed_def request_transport_reload_def persist_state_candidate_def fail_closed_def abind_run
      deactivate_closes Let_def split: write_outcome.split)

lemma stays_closed_map_err: "stays_closed m \<Longrightarrow> stays_closed (amap_err f m)"
  by (simp add: stays_closed_def)

lemma stays_closed_calls:
  "stays_closed (adapter_call (ado_configure_networks A ns))" "stays_closed (adapter_call (ado_remove_network A n))"
  "stays_closed (adapter_call (ado_configure_policy A ns))" "stays_closed (adapter_call (ado_configure_exit_gateways A g))"
  "stays_closed (adapter_call (ado_configure_kill_switch A k))"
  by (simp_all add: stays_closed_def closed_def networks_stay_closed removal_stays_closed policy_stays_closed gateways_stay_closed
      kill_switch_stays_closed)

lemma stays_closed_try:
  fixes e :: 'e
  assumes "stays_closed (adapter_call f :: ('a agent, 'e, bool) action)"
  shows "stays_closed (adapter_try e f)"
  unfolding adapter_try_def by (rule stays_closed_abind [OF assms]) (simp add: stays_closed_basic)

lemma stays_closed_if: "stays_closed m \<Longrightarrow> stays_closed n \<Longrightarrow> stays_closed (if b then m else n)"
  by simp

lemma stays_closed_option: "stays_closed m \<Longrightarrow> (\<And>x. stays_closed (k x)) \<Longrightarrow> stays_closed (case z of None \<Rightarrow> m | Some x \<Rightarrow> k x)"
  by (simp split: option.split)

lemma stays_closed_prod: "(\<And>x y. stays_closed (k x y)) \<Longrightarrow> stays_closed (case z of (x, y) \<Rightarrow> k x y)"
  by (simp split: prod.split)

lemmas stays_closed_rules = stays_closed_abind stays_closed_basic stays_closed_map_err stays_closed_calls stays_closed_try stays_closed_if
  stays_closed_option stays_closed_prod

lemma local_handlers_stay_closed:
  "stays_closed (configure_relay X A E config)" "stays_closed (configure_exit_selection X A E i selection)"
  "stays_closed (configure_exit_gateway X A E gateway)" "stays_closed (remove_exit_gateway X A E i)"
  "stays_closed (add_network X E new_id random request)" "stays_closed (remove_network X A E i)"
  by (unfold configure_relay_def configure_exit_selection_def restore_selection_def restore_kill_switch_def configure_exit_gateway_def
      remove_exit_gateway_def install_gateways_def add_network_def remove_network_def Let_def; intro stays_closed_rules)+

lemma controller_handlers_stay_closed:
  "stays_closed (configure_planet X H E planet)" "stays_closed (refresh_one_planet X H E target)"
  "stays_closed (apply_authorization_action X A E authorization action)" "stays_closed (apply_policy_manifest X A E i policy)"
  "stays_closed (expire_stale_policies X A E)" "stays_closed (commit_enrollment A E te cp)"
  by (unfold configure_planet_def refresh_one_planet_def apply_planet_refresh_def apply_authorization_action_def apply_acted_def
      apply_policy_manifest_def restore_policy_def reconcile_exits_def adapt_networks_def expire_stale_policies_def
      commit_enrollment_def Let_def; intro stays_closed_rules)+

lemma shutdown_refuses_activation:
  "ag_shutting_down w \<Longrightarrow> activate_adapter X A E w = (w, Inl (AConflict (Message ''MeshLake agent is shutting down'')))"
  by (simp add: activate_adapter_def abind_run ensure_adapter_activation_allowed_def)

end

interpretation linux: adapter_contract "linux_adapter_ops X now P"
  by unfold_locales (simp_all add: linux_adapter_ops_def adapter_deactivate_def adapter_configure_networks_def adapter_remove_network_def
      adapter_configure_policy_def adapter_configure_exit_gateways_def adapter_configure_kill_switch_def
      split: sum.split)

lemma linux_closed:
  assumes "adapter_contract.stays_closed (linux_adapter_ops X now P) m" "\<not> la_session (ag_adapter w)"
  shows "\<not> la_session (ag_adapter (fst (m w)))"
proof -
  have active: "ado_is_active (linux_adapter_ops X now P) = la_session" by (simp add: linux_adapter_ops_def)
  show ?thesis using assms unfolding linux.stays_closed_def linux.closed_def active by blast
qed

text \<open>
  C39: Only an activation opens the interface. While the Linux adapter is inactive, none of the handlers that configure relays, exits, gateways,
  networks or Planets, and none that applies what the controller sends, opens the virtual interface, whether it succeeds or fails; and
  once the agent is shutting down, activating is refused and changes nothing.
\<close>

theorem only_activation_opens_the_interface:
  assumes "\<not> la_session (ag_adapter w)"
  shows "(let A = linux_adapter_ops X now P; closed = (\<lambda>w. \<not> la_session (ag_adapter w)) in
      closed (fst (configure_relay X A E config w)) \<and> closed (fst (configure_exit_selection X A E i selection w))
    \<and> closed (fst (configure_exit_gateway X A E gateway w)) \<and> closed (fst (remove_exit_gateway X A E i w))
    \<and> closed (fst (add_network X E new_id random request w)) \<and> closed (fst (remove_network X A E i w))
    \<and> closed (fst (configure_planet X H E planet w)) \<and> closed (fst (refresh_one_planet X H E target w))
    \<and> closed (fst (apply_authorization_action X A E authorization action w)) \<and> closed (fst (apply_policy_manifest X A E i policy w))
    \<and> closed (fst (expire_stale_policies X A E w)) \<and> closed (fst (commit_enrollment A E te cp w))
    \<and> (ag_shutting_down w \<longrightarrow> fst (activate_adapter X A E w) = w))"
  unfolding Let_def
  by (intro conjI impI linux_closed [where X = X and now = now and P = P, OF _ assms] linux.local_handlers_stay_closed [of X now P]
      linux.controller_handlers_stay_closed [of X now P])
    (simp add: linux.shutdown_refuses_activation)

theorem only_activation_opens_the_interface_witness:
  "\<not> la_session (ag_adapter (fst (configure_relay sample_agent_ops (linux_adapter_ops sample_agent_ops 300 sample_platform)
     (sample_env_agent 300 sample_resolver) sample_relay_config sample_agent_start)))"
proof -
  have "\<not> la_session (ag_adapter sample_agent_start)" by (simp add: sample_agent_start_def adapter_new_def)
  then show ?thesis by (rule only_activation_opens_the_interface [unfolded Let_def, THEN conjunct1])
qed

end
