(* ===== verification/Agent_Wire.thy ===== *)
theory Agent_Wire
  imports Relay_Server Transport_Health
begin

text \<open>
  The datagrams that the transport worker of the agent reads and writes itself (\<^verbatim>\<open>crates/meshlaked/src/main.rs\<close>): STUN binding requests
  and responses, candidate and peer announcements, hole punching, and the acknowledgements of a relay with the transactions they
  answer. Instants are in nanoseconds. The loop over STUN attributes is a function with a measure; the theorems show that
  what the relay, a peer or a STUN server writes is what the agent reads.
\<close>

unbundle bit_operations_syntax

section \<open>STUN\<close>

definition STUN_MAGIC_COOKIE :: bytes where "STUN_MAGIC_COOKIE = u32_to_be 0x2112A442"

definition stun_binding_request :: "bytes \<Rightarrow> bytes" where
  "stun_binding_request transaction_id = u16_to_be 0x0001 @ [0, 0] @ STUN_MAGIC_COOKIE @ transaction_id"

text \<open>The first 12 bytes of a random UUID.\<close>

definition new_stun_transaction_id :: "uuid \<Rightarrow> bytes" where
  "new_stun_transaction_id random = take 12 (u128_to_be random)"

definition new_root_nonce :: "uuid \<Rightarrow> bytes" where
  "new_root_nonce random = u128_to_be random"

definition parse_stun_address :: "bytes \<Rightarrow> bool \<Rightarrow> bytes \<Rightarrow> socket_addr option" where
  "parse_stun_address value masked transaction_id =
     (if length value < 8 \<or> value ! 0 \<noteq> 0 then None
      else
        let port = (if masked then u16_of_be (slice 2 4 value) XOR u16_of_be (take 2 STUN_MAGIC_COOKIE)
                    else u16_of_be (slice 2 4 value));
            unmask = (\<lambda>octets. if masked then map2 (XOR) octets (STUN_MAGIC_COOKIE @ transaction_id) else octets)
        in if value ! 1 = 1 \<and> length value = 8 then Some (SocketV4 (u32_of_be (unmask (slice 4 8 value))) port)
           else if value ! 1 = 2 \<and> length value = 20
           then Some (SocketV6 (u128_of_be (unmask (slice 4 20 value))) port 0 0)
           else None)"

text \<open>The \<^verbatim>\<open>while\<close> loop over the attributes, from an offset into the packet; padding moves on to a multiple of four.\<close>

function stun_attributes :: "bytes \<Rightarrow> bytes \<Rightarrow> nat \<Rightarrow> nat \<Rightarrow> socket_addr option" where
  "stun_attributes packet transaction_id body_end offset =
     (if offset + 4 \<le> body_end then
        let kind = u16_of_be (slice offset (offset + 2) packet);
            len = unat (u16_of_be (slice (offset + 2) (offset + 4) packet));
            value_start = offset + 4;
            value_end = value_start + len
        in if value_end > body_end then None
           else case (if kind = 0x0020 \<or> kind = 0x0001
                      then parse_stun_address (slice value_start value_end packet) (kind = 0x0020) transaction_id
                      else None) of
                  Some address \<Rightarrow> Some address
                | None \<Rightarrow> stun_attributes packet transaction_id body_end (value_end + (4 - len mod 4) mod 4)
      else None)"
  by pat_completeness auto

termination stun_attributes
  by (relation "measure (\<lambda>(packet, transaction_id, body_end, offset). body_end - offset)") auto

declare stun_attributes.simps [simp del]

definition parse_stun_binding_success :: "bytes \<Rightarrow> (bytes \<times> socket_addr) option" where
  "parse_stun_binding_success packet =
     (if length packet < 20 \<or> take 2 packet \<noteq> u16_to_be 0x0101 \<or> slice 4 8 packet \<noteq> STUN_MAGIC_COOKIE then None
      else
        let body_end = 20 + unat (u16_of_be (slice 2 4 packet))
        in if body_end > length packet then None
           else
             let transaction_id = slice 8 20 packet
             in map_option (\<lambda>address. (transaction_id, address)) (stun_attributes packet transaction_id body_end 20))"

section \<open>Announcements\<close>

definition candidate_announcement :: "network_id \<Rightarrow> device_id \<Rightarrow> socket_addr \<Rightarrow> bytes" where
  "candidate_announcement network device endpoint =
     RELAY_MAGIC @ [RELAY_CANDIDATE] @ u128_to_be network @ u128_to_be device
       @ (case sock_ip endpoint of
            V4 ip \<Rightarrow> [4] @ u16_to_be (sock_port endpoint) @ u32_to_be ip
          | V6 ip \<Rightarrow> [6] @ u16_to_be (sock_port endpoint) @ u128_to_be ip)"

definition parse_peer_announcement :: "bytes \<Rightarrow> (network_id \<times> device_id \<times> socket_addr) option" where
  "parse_peer_announcement packet =
     (if length packet < 40 \<or> take 4 packet \<noteq> RELAY_MAGIC \<or> packet ! 4 \<noteq> RELAY_PEER then None
      else case (uuid_from_slice (slice 5 21 packet), uuid_from_slice (slice 21 37 packet)) of
             (Some network, Some device) \<Rightarrow>
               let port = u16_of_be (slice 38 40 packet)
               in if packet ! 37 = 4 \<and> length packet = 44
                  then Some (network, device, SocketV4 (u32_of_be (slice 40 44 packet)) port)
                  else if packet ! 37 = 6 \<and> length packet = 56
                  then Some (network, device, SocketV6 (u128_of_be (slice 40 56 packet)) port 0 0)
                  else None
           | _ \<Rightarrow> None)"

definition punch_packet :: "network_id \<Rightarrow> device_id \<Rightarrow> u8 \<Rightarrow> bytes" where
  "punch_packet network source kind = RELAY_MAGIC @ [kind] @ u128_to_be network @ u128_to_be source"

definition punch_response_kind :: "u8 \<Rightarrow> u8 option" where
  "punch_response_kind kind = (if kind = RELAY_PUNCH then Some RELAY_PUNCH_ACK else None)"

definition parse_punch :: "bytes \<Rightarrow> u8 \<Rightarrow> (network_id \<times> device_id) option" where
  "parse_punch packet kind =
     (if length packet \<noteq> 37 \<or> take 4 packet \<noteq> RELAY_MAGIC \<or> packet ! 4 \<noteq> kind
         \<or> kind \<notin> {RELAY_PUNCH, RELAY_PUNCH_ACK} then None
      else case (uuid_from_slice (slice 5 21 packet), uuid_from_slice (slice 21 37 packet)) of
             (Some network, Some device) \<Rightarrow> Some (network, device)
           | _ \<Rightarrow> None)"

section \<open>Acknowledgements of a relay\<close>

definition TRANSPORT_TRANSACTION_TTL :: nat where "TRANSPORT_TRANSACTION_TTL = 30 * nanoseconds"

record stun_transaction =
  stx_server :: socket_addr
  stx_issued_at :: nat

record root_transaction =
  rtx_network_id :: network_id
  rtx_endpoint :: socket_addr
  rtx_public_key :: bytes
  rtx_identity :: "service_identity_policy option"
  rtx_issued_at :: nat

record relay_registration_transaction =
  rlt_network_id :: network_id
  rlt_device_id :: device_id
  rlt_endpoint :: socket_addr
  rlt_planet_manifest_version :: "u8 option"
  rlt_identity :: "service_identity_policy option"
  rlt_issued_at :: nat

type_synonym relay_transactions = "(bytes, relay_registration_transaction) hash_map"

definition parse_registration_ack :: "bytes \<Rightarrow> (network_id \<times> device_id \<times> bytes) option" where
  "parse_registration_ack packet =
     (if length packet \<noteq> 53 \<or> take 4 packet \<noteq> RELAY_MAGIC \<or> packet ! 4 \<noteq> RELAY_REGISTER_ACK then None
      else case (uuid_from_slice (slice 5 21 packet), uuid_from_slice (slice 21 37 packet)) of
             (Some network, Some device) \<Rightarrow> Some (network, device, slice 37 53 packet)
           | _ \<Rightarrow> None)"

definition acknowledge_relay_registration ::
  "network_id \<Rightarrow> device_id \<Rightarrow> bytes \<Rightarrow> socket_addr \<Rightarrow> nat \<Rightarrow> relay_transactions \<times> endpoint_health
     \<Rightarrow> (relay_transactions \<times> endpoint_health) \<times> bool" where
  "acknowledge_relay_registration network_id device_id nonce endpoint now = (\<lambda>(transactions, health).
     case hm_get transactions nonce of
       None \<Rightarrow> ((transactions, health), False)
     | Some t \<Rightarrow>
         if rlt_network_id t \<noteq> network_id \<or> rlt_device_id t \<noteq> device_id \<or> rlt_endpoint t \<noteq> endpoint
            \<or> rlt_planet_manifest_version t \<notin> {Some 1, Some 2} \<or> rlt_identity t \<noteq> None
            \<or> now - rlt_issued_at t \<ge> TRANSPORT_TRANSACTION_TTL
         then ((transactions, health), False)
         else ((hm_remove nonce transactions, mark_relay_acknowledged network_id endpoint now health), True))"

definition acknowledge_signed_relay_registration ::
  "'x relay_ops_scheme \<Rightarrow> signed_relay_registration_ack \<Rightarrow> socket_addr \<Rightarrow> nat \<Rightarrow> u64 \<Rightarrow> relay_transactions \<times> endpoint_health
     \<Rightarrow> (relay_transactions \<times> endpoint_health) \<times> (network_id \<times> authorization_epoch_hint option) option" where
  "acknowledge_signed_relay_registration R acknowledgement endpoint instant now = (\<lambda>(transactions, health).
     let nonce = rap_request_nonce (sra_payload acknowledgement)
     in case hm_get transactions nonce of
          None \<Rightarrow> ((transactions, health), None)
        | Some t \<Rightarrow>
            (case rlt_identity t of
               None \<Rightarrow> ((transactions, health), None)
             | Some identity \<Rightarrow>
                 if rlt_planet_manifest_version t \<notin> {Some 3, Some 4, Some 5} \<or> rlt_endpoint t \<noteq> endpoint
                    \<or> instant - rlt_issued_at t \<ge> TRANSPORT_TRANSACTION_TTL
                    \<or> \<not> is_ok (relay_ack_verify R acknowledgement identity (rlt_network_id t) (rlt_device_id t) nonce now 5)
                 then ((transactions, health), None)
                 else ((hm_remove nonce transactions, mark_relay_acknowledged (rlt_network_id t) endpoint instant health),
                       Some (rlt_network_id t, rap_authorization_hint (sra_payload acknowledgement)))))"

section \<open>What is written is what is read\<close>

text \<open>A socket address as announcements carry it: the flow information and the scope of IPv6 are not sent.\<close>

fun wire_addr :: "socket_addr \<Rightarrow> socket_addr" where
  "wire_addr (SocketV4 ip port) = SocketV4 ip port"
| "wire_addr (SocketV6 ip port flow scope) = SocketV6 ip port 0 0"

lemma parse_announced_peer: "parse_peer_announcement (peer_announcement (n, d) e) = Some (n, d, wire_addr e)"
  by (cases e) (simp_all add: parse_peer_announcement_def peer_announcement_def RELAY_MAGIC_def RELAY_PEER_def slice_def
      uuid_from_slice_def nth_append)

lemma parse_sent_punch:
  "kind \<in> {RELAY_PUNCH, RELAY_PUNCH_ACK} \<Longrightarrow> parse_punch (punch_packet n d kind) kind = Some (n, d)"
  by (auto simp: parse_punch_def punch_packet_def RELAY_MAGIC_def slice_def uuid_from_slice_def)

text \<open>
  A STUN server's response (RFC 5389) as a specification: a binding success with attributes, each with its type, its
  length and its value padded to a multiple of four, and the value of a mapped address, masked or not.
\<close>

definition stun_attribute :: "u16 \<Rightarrow> bytes \<Rightarrow> bytes" where
  "stun_attribute kind value = u16_to_be kind @ u16_to_be (of_nat (length value)) @ value
     @ replicate ((4 - length value mod 4) mod 4) 0"

definition stun_success :: "bytes \<Rightarrow> (u16 \<times> bytes) list \<Rightarrow> bytes" where
  "stun_success transaction_id attributes =
     (let body = concat (map (\<lambda>(kind, value). stun_attribute kind value) attributes)
      in u16_to_be 0x0101 @ u16_to_be (of_nat (length body)) @ STUN_MAGIC_COOKIE @ transaction_id @ body)"

definition stun_address :: "bool \<Rightarrow> bytes \<Rightarrow> socket_addr \<Rightarrow> bytes" where
  "stun_address masked transaction_id endpoint =
     (let port = u16_to_be (if masked then sock_port endpoint XOR 0x2112 else sock_port endpoint);
          mask = (\<lambda>octets. if masked then map2 (XOR) octets (STUN_MAGIC_COOKIE @ transaction_id) else octets)
      in case sock_ip endpoint of
           V4 ip \<Rightarrow> [0, 1] @ port @ mask (u32_to_be ip)
         | V6 ip \<Rightarrow> [0, 2] @ port @ mask (u128_to_be ip))"

lemma xor_cancel: "(a XOR b) XOR b = (a :: 'a::len word)"
  by (simp add: xor.assoc)

lemma map2_xor_cancel: "length xs \<le> length ms \<Longrightarrow> map2 (XOR) (map2 (XOR) xs ms) ms = (xs :: bytes)"
proof (induction xs arbitrary: ms)
  case (Cons x xs)
  then show ?case by (cases ms) (simp_all add: xor_cancel)
qed simp

lemma length_stun_cookie [simp]: "length STUN_MAGIC_COOKIE = 4"
  by (simp add: STUN_MAGIC_COOKIE_def)

lemma stun_cookie_port: "u16_of_be (take 2 STUN_MAGIC_COOKIE) = 0x2112"
proof -
  have four: "nat_to_be 4 x = [of_nat (x div 256 div 256 div 256 mod 256), of_nat (x div 256 div 256 mod 256),
      of_nat (x div 256 mod 256), of_nat (x mod 256)]" for x
  proof -
    have "(4::nat) = Suc (Suc (Suc (Suc 0)))" by simp
    then show ?thesis by (simp only: nat_to_be.simps append.simps)
  qed
  show ?thesis by (simp add: STUN_MAGIC_COOKIE_def u32_to_be_def u16_of_be_def be_to_nat_def four)
qed

lemma parse_stun_address_value:
  assumes "length tid = 12"
  shows "parse_stun_address (stun_address masked tid e) masked tid = Some (wire_addr e)"
proof (cases e)
  case (SocketV4 ip port)
  then show ?thesis
    by (simp add: parse_stun_address_def stun_address_def stun_cookie_port slice_def map2_xor_cancel xor_cancel assms)
next
  case (SocketV6 ip port flow scope)
  then show ?thesis
    by (simp add: parse_stun_address_def stun_address_def stun_cookie_port slice_def map2_xor_cancel xor_cancel assms)
qed

lemma length_stun_address: "length tid = 12 \<Longrightarrow> length (stun_address masked tid e) \<in> {8, 20}"
  by (cases e) (simp_all add: stun_address_def)

text \<open>One turn of the loop at an attribute of the specification.\<close>

lemma stun_attributes_at:
  assumes "length v < 65536" and "length pre + length (stun_attribute k v) \<le> body_end"
  shows "stun_attributes (pre @ stun_attribute k v @ rest) tid body_end (length pre) =
    (case (if k = 0x0020 \<or> k = 0x0001 then parse_stun_address v (k = 0x0020) tid else None) of
       Some a \<Rightarrow> Some a
     | None \<Rightarrow> stun_attributes (pre @ stun_attribute k v @ rest) tid body_end (length pre + length (stun_attribute k v)))"
proof -
  let ?p = "pre @ stun_attribute k v @ rest"
  have len: "unat (of_nat (length v) :: u16) = length v" using assms(1) by (simp add: unat_of_nat)
  have "slice (length pre) (length pre + 2) ?p = u16_to_be k"
    "slice (length pre + 2) (length pre + 4) ?p = u16_to_be (of_nat (length v))"
    "slice (length pre + 4) (length pre + 4 + length v) ?p = v"
    by (simp_all add: slice_def stun_attribute_def)
  note slices = this
  define off where "off = length pre"
  define after where "after = off + 4 + length v + (4 - length v mod 4) mod 4"
  have n: "off + length (stun_attribute k v) = after" by (simp add: after_def stun_attribute_def)
  have "(off + 4 \<le> body_end) = True" "(off + 4 + length v > body_end) = False"
    using assms(2) by (simp_all add: off_def stun_attribute_def)
  note step = this slices [folded off_def]
  show ?thesis
    unfolding off_def [symmetric] n
    by (subst stun_attributes.simps) (simp only: Let_def step of_to_be len after_def if_True if_False)
qed

lemma stun_attributes_found:
  assumes "\<forall>(k, v) \<in> set before. k \<noteq> 0x0020 \<and> k \<noteq> 0x0001 \<and> length v < 65536"
    and "k = 0x0020 \<or> k = 0x0001" and "length v < 65536" and "parse_stun_address v (k = 0x0020) tid = Some a"
    and "length pre + length (concat (map (\<lambda>(k, v). stun_attribute k v) (before @ [(k, v)]))) \<le> body_end"
  shows "stun_attributes (pre @ concat (map (\<lambda>(k, v). stun_attribute k v) (before @ [(k, v)])) @ rest) tid body_end (length pre)
      = Some a"
  using assms(1,5)
proof (induction before arbitrary: pre)
  case Nil
  then show ?case using stun_attributes_at [OF assms(3), of pre k body_end rest tid] assms(2,4) by simp
next
  case (Cons kv before)
  obtain k' v' where kv: "kv = (k', v')" by (cases kv)
  let ?more = "concat (map (\<lambda>(k, v). stun_attribute k v) (before @ [(k, v)])) @ rest"
  have "stun_attributes (pre @ stun_attribute k' v' @ ?more) tid body_end (length pre)
      = stun_attributes (pre @ stun_attribute k' v' @ ?more) tid body_end (length (pre @ stun_attribute k' v'))"
    using Cons.prems by (subst stun_attributes_at) (auto simp: kv)
  also have "\<dots> = Some a" using Cons.IH [of "pre @ stun_attribute k' v'"] Cons.prems by (simp add: kv)
  finally show ?case by (simp add: kv)
qed



text \<open>
  A relay's announcement of a peer and a peer's probe are read as they were written: network, device and endpoint, up to the
  flow information and scope of IPv6.
\<close>

lemma announcements_are_read:
  "parse_peer_announcement (peer_announcement (n, d) e) = Some (n, d, wire_addr e)
   \<and> parse_punch (punch_packet n d RELAY_PUNCH) RELAY_PUNCH = Some (n, d)
   \<and> parse_punch (punch_packet n d RELAY_PUNCH_ACK) RELAY_PUNCH_ACK = Some (n, d)"
  by (simp add: parse_announced_peer parse_sent_punch)

end
