(* ===== verification/Session_Engine.thy ===== *)
theory Session_Engine
  imports Agent_Enrollment Pairwise_Session Agent_Wire
begin

text \<open>
  The session engine of the transport worker (\<^verbatim>\<open>crates/meshlaked/src/main.rs\<close>): the table of pairwise sessions, the packets that are
  queued while a handshake is under way, the choice of the path of a packet, and the handlers of the three session
  frames. The worker is a record of its tables, of the parts of the agent it touches, of the datagrams that were sent and of the packets
  that were written to the virtual interface. A handler is an action on it; an error ends the worker. Each handler reads the clocks
  once; random values and whether a datagram could be sent are arguments. The TLS relay and TURN transports accept or refuse
  a packet.
\<close>

section \<open>Sessions\<close>

definition PAIRWISE_SESSION_TTL :: nat where "PAIRWISE_SESSION_TTL = 3600 * nanoseconds"
definition HANDSHAKE_TTL :: nat where "HANDSHAKE_TTL = 10 * nanoseconds"
definition HANDSHAKE_RETRY :: nat where "HANDSHAKE_RETRY = 1 * nanoseconds"
definition HANDSHAKE_CLOCK_SKEW_SECONDS :: u64 where "HANDSHAKE_CLOCK_SKEW_SECONDS = 120"
definition SESSION_QUEUE_CAPACITY :: nat where "SESSION_QUEUE_CAPACITY = 8"

record pending_session =
  pds_handshake :: initiator_handshake
  pds_init_packet :: bytes
  pds_peer_public_key :: bytes
  pds_created_at :: nat
  pds_last_sent :: nat
  pds_queued_packets :: "bytes list"
  pds_path :: session_path
  pds_dropped_packets :: u64
  pds_handshake_attempts :: u64
  pds_handshake_retries :: u64
  pds_rejected_packets_received :: u64

record established_session =
  eds_keys :: pairwise_session_keys
  eds_peer_public_key :: bytes
  eds_next_sequence :: u64
  eds_replay_window :: replay_window
  eds_established_at :: nat
  eds_cached_response :: "bytes option"
  eds_path :: session_path
  eds_dropped_packets :: u64
  eds_handshake_attempts :: u64
  eds_handshake_retries :: u64
  eds_encrypted_packets_sent :: u64
  eds_authenticated_packets_received :: u64
  eds_rejected_packets_received :: u64

datatype peer_session_state = PendingSession pending_session | EstablishedSession established_session

type_synonym session_table = "(peer_key, peer_session_state) hash_map"

fun peer_public_key :: "peer_session_state \<Rightarrow> bytes" where
  "peer_public_key (PendingSession p) = pds_peer_public_key p"
| "peer_public_key (EstablishedSession e) = eds_peer_public_key e"

fun session_is_expired :: "nat \<Rightarrow> peer_session_state \<Rightarrow> bool" where
  "session_is_expired now (PendingSession p) \<longleftrightarrow> now - pds_created_at p > HANDSHAKE_TTL"
| "session_is_expired now (EstablishedSession e) \<longleftrightarrow> now - eds_established_at e > PAIRWISE_SESSION_TTL"

fun set_path :: "session_path \<Rightarrow> peer_session_state \<Rightarrow> peer_session_state" where
  "set_path path (PendingSession p) = PendingSession (p\<lparr>pds_path := path\<rparr>)"
| "set_path path (EstablishedSession e) = EstablishedSession (e\<lparr>eds_path := path\<rparr>)"

fun record_rejected_packet :: "peer_session_state \<Rightarrow> peer_session_state" where
  "record_rejected_packet (PendingSession p) =
     PendingSession (p\<lparr>pds_rejected_packets_received := saturating_add (pds_rejected_packets_received p) 1\<rparr>)"
| "record_rejected_packet (EstablishedSession e) =
     EstablishedSession (e\<lparr>eds_rejected_packets_received := saturating_add (eds_rejected_packets_received e) 1\<rparr>)"

fun record_authenticated_packet :: "peer_session_state \<Rightarrow> peer_session_state" where
  "record_authenticated_packet (PendingSession p) = PendingSession p"
| "record_authenticated_packet (EstablishedSession e) =
     EstablishedSession (e\<lparr>eds_authenticated_packets_received := saturating_add (eds_authenticated_packets_received e) 1\<rparr>)"

fun record_encrypted_send_results :: "bool list \<Rightarrow> peer_session_state \<Rightarrow> peer_session_state" where
  "record_encrypted_send_results results (PendingSession p) = PendingSession p"
| "record_encrypted_send_results results (EstablishedSession e) =
     EstablishedSession (e\<lparr>eds_encrypted_packets_sent :=
       fold (\<lambda>sent n. if sent then saturating_add n 1 else n) results (eds_encrypted_packets_sent e)\<rparr>)"

fun telemetry :: "peer_session_state \<Rightarrow> session_telemetry" where
  "telemetry (PendingSession p) = \<lparr>stm_state = Pending, stm_path = pds_path p, stm_started_at = pds_created_at p,
     stm_queue = \<lparr>sqc_queued_packets = of_nat (length (pds_queued_packets p)), sqc_queue_capacity = of_nat SESSION_QUEUE_CAPACITY,
       sqc_dropped_packets = pds_dropped_packets p\<rparr>,
     stm_security = \<lparr>ssc_handshake_attempts = pds_handshake_attempts p, ssc_handshake_retries = pds_handshake_retries p,
       ssc_encrypted_packets_sent = 0, ssc_authenticated_packets_received = 0,
       ssc_rejected_packets_received = pds_rejected_packets_received p\<rparr>\<rparr>"
| "telemetry (EstablishedSession e) = \<lparr>stm_state = Established, stm_path = eds_path e, stm_started_at = eds_established_at e,
     stm_queue = \<lparr>sqc_queued_packets = 0, sqc_queue_capacity = of_nat SESSION_QUEUE_CAPACITY,
       sqc_dropped_packets = eds_dropped_packets e\<rparr>,
     stm_security = \<lparr>ssc_handshake_attempts = eds_handshake_attempts e, ssc_handshake_retries = eds_handshake_retries e,
       ssc_encrypted_packets_sent = eds_encrypted_packets_sent e,
       ssc_authenticated_packets_received = eds_authenticated_packets_received e,
       ssc_rejected_packets_received = eds_rejected_packets_received e\<rparr>\<rparr>"

section \<open>Outbound packets\<close>

datatype prepared_peer_packet = PreparedHandshake bytes | PreparedData bytes

text \<open>The loop of \<^verbatim>\<open>seal_queued_packets\<close> from a sequence number.\<close>

fun seal_queued_from ::
  "'s prims_scheme \<Rightarrow> pairwise_session_keys \<Rightarrow> network_id \<Rightarrow> device_id \<Rightarrow> device_id \<Rightarrow> u64 \<Rightarrow> bytes list
     \<Rightarrow> crypto_error + (u64 \<times> bytes list)" where
  "seal_queued_from S keys n source peer sequence [] = Inr (sequence, [])"
| "seal_queued_from S keys n source peer sequence (queued # rest) =
     rbind (session_seal S keys n source peer sequence queued) (\<lambda>packet.
     rbind (seal_queued_from S keys n source peer (sequence + 1) rest) (\<lambda>(next, packets). Inr (next, packet # packets)))"

definition seal_queued_packets ::
  "'s prims_scheme \<Rightarrow> pairwise_session_keys \<Rightarrow> network_id \<Rightarrow> device_id \<Rightarrow> device_id \<Rightarrow> bytes list
     \<Rightarrow> crypto_error + (u64 \<times> bytes list)" where
  "seal_queued_packets S keys n source peer queued = seal_queued_from S keys n source peer 0 queued"

definition must_discard :: "nat \<Rightarrow> bytes \<Rightarrow> peer_session_state \<Rightarrow> bool" where
  "must_discard now key session \<longleftrightarrow> session_is_expired now session \<or> peer_public_key session \<noteq> key
     \<or> (case session of EstablishedSession e \<Rightarrow> eds_next_sequence e = - 1 | PendingSession _ \<Rightarrow> False)"

definition retry_due :: "nat \<Rightarrow> pending_session \<Rightarrow> bool" where
  "retry_due now p \<longleftrightarrow> now - pds_last_sent p \<ge> HANDSHAKE_RETRY"

definition retried :: "nat \<Rightarrow> pending_session \<Rightarrow> pending_session" where
  "retried now p = p\<lparr>pds_last_sent := now, pds_handshake_attempts := saturating_add (pds_handshake_attempts p) 1,
     pds_handshake_retries := saturating_add (pds_handshake_retries p) 1\<rparr>"

definition queue_packet :: "bytes \<Rightarrow> pending_session \<Rightarrow> pending_session" where
  "queue_packet plaintext p =
     (if length (pds_queued_packets p) < SESSION_QUEUE_CAPACITY
      then p\<lparr>pds_queued_packets := pds_queued_packets p @ [plaintext]\<rparr>
      else p\<lparr>pds_dropped_packets := saturating_add (pds_dropped_packets p) 1\<rparr>)"

text \<open>The table after the sessions that may not be used any more are gone.\<close>

definition usable_sessions :: "nat \<Rightarrow> bytes \<Rightarrow> peer_key \<Rightarrow> session_table \<Rightarrow> session_table" where
  "usable_sessions now public_key key sessions =
     (case hm_get sessions key of
        Some session \<Rightarrow> if must_discard now public_key session then hm_remove key sessions else sessions
      | None \<Rightarrow> sessions)"

text \<open>\<open>random\<close> are the session identifier and the secret that a new handshake draws.\<close>

definition prepare_outbound_peer_packet ::
  "'s session_ops_scheme \<Rightarrow> nat \<Rightarrow> u64 \<Rightarrow> bytes option \<times> bytes option \<Rightarrow> network_id \<Rightarrow> device_id \<Rightarrow> device_id \<Rightarrow> bytes \<Rightarrow> bytes
     \<Rightarrow> bytes \<Rightarrow> session_table \<Rightarrow> session_table \<times> (crypto_error + prepared_peer_packet option)" where
  "prepare_outbound_peer_packet S instant now random n source peer public_key identity plaintext sessions =
     (if length public_key \<noteq> 32 then (sessions, Inr None)
      else
        let key = (n, peer);
            sessions = usable_sessions instant public_key key sessions
        in case hm_get sessions key of
             Some (PendingSession p) \<Rightarrow>
               let p = queue_packet plaintext p
               in if retry_due instant p
                  then (hm_insert key (PendingSession (retried instant p)) sessions, Inr (Some (PreparedHandshake (pds_init_packet p))))
                  else (hm_insert key (PendingSession p) sessions, Inr None)
           | Some (EstablishedSession e) \<Rightarrow>
               (hm_insert key (EstablishedSession (e\<lparr>eds_next_sequence := saturating_add (eds_next_sequence e) 1\<rparr>)) sessions,
                rbind (session_seal S (eds_keys e) n source peer (eds_next_sequence e) plaintext) (\<lambda>packet.
                  Inr (Some (PreparedData packet))))
           | None \<Rightarrow>
               (case initiator_start S (fst random) (snd random) n source peer identity now of
                  Inl error \<Rightarrow> (sessions, Inl error)
                | Inr (handshake, init_packet) \<Rightarrow>
                    (hm_insert key (PendingSession \<lparr>pds_handshake = handshake, pds_init_packet = init_packet,
                        pds_peer_public_key = public_key, pds_created_at = instant, pds_last_sent = instant,
                        pds_queued_packets = [plaintext], pds_path = Unknown, pds_dropped_packets = 0,
                        pds_handshake_attempts = 1, pds_handshake_retries = 0, pds_rejected_packets_received = 0\<rparr>) sessions,
                     Inr (Some (PreparedHandshake init_packet)))))"

section \<open>The transport\<close>

datatype channel = UdpSocket | TlsRelayStream | TurnUdp | TurnTls

text \<open>
  Whether a datagram goes out: there is always an IPv4 socket, an IPv6 socket perhaps, and the system and the other transports may
  refuse a packet.
\<close>

record transport_sockets =
  tso_ipv6 :: bool
  tso_accepts :: "channel \<Rightarrow> socket_addr \<Rightarrow> bytes \<Rightarrow> bool"

definition supports :: "transport_sockets \<Rightarrow> socket_addr \<Rightarrow> bool" where
  "supports N endpoint \<longleftrightarrow> is_ipv4 (sock_ip endpoint) \<or> tso_ipv6 N"

record peer_path_status =
  pps_network_id :: network_id
  pps_device_id :: device_id
  pps_endpoint :: socket_addr
  pps_smoothed_rtt_ms :: "u64 option"
  pps_consecutive_failures :: u8

record 'a transport =
  tp_agent :: "'a agent"
  tp_endpoints :: endpoint_health
  tp_peer_paths :: "peer_path_status list"
  tp_relay_confirmations_accepted :: u64
  tp_relay_confirmations_rejected :: u64
  tp_authorization_hint_refreshes :: u64
  tp_registration_backoff_seconds :: u64
  tp_peers :: peer_directory
  tp_sessions :: session_table
  tp_seen_handshakes :: handshake_cache
  tp_stun_transactions :: "(bytes, stun_transaction) hash_map"
  tp_root_transactions :: "(bytes, root_transaction) hash_map"
  tp_relay_transactions :: relay_transactions
  tp_advertised_candidates :: "socket_addr list"
  tp_endpoint_health :: endpoint_health
  tp_registration_schedules :: "(registration_target, registration_schedule) hash_map"
  tp_sent :: "(channel \<times> socket_addr \<times> bytes) list"
  tp_written :: "bytes list"
  tp_sealed :: "(bytes \<times> bytes) list"

datatype worker_error = SessionFailed crypto_error | RegistrationFailed root_protocol_error | EncodingFailed
  | IdentityUnavailable | AdapterFailed

text \<open>
  \<open>tp_sealed\<close> is a ghost that no handler reads: the key and the nonce of every encryption, in order. \<open>seals\<close> are those of
  a run of packets from a sequence number.
\<close>

definition seals :: "pairwise_session_keys \<Rightarrow> u64 \<Rightarrow> nat \<Rightarrow> (bytes \<times> bytes) list" where
  "seals keys start n = map (\<lambda>k. (psk_send_key keys, session_nonce (psk_session_id keys) (start + of_nat k))) [0..<n]"

text \<open>What is fixed while a worker runs, and what a handler reads of the outside.\<close>

record worker_config =
  wc_configuration :: transport_config
  wc_revision :: u64
  wc_identity :: bytes

record worker_env =
  we_instant :: nat
  we_now :: u64
  we_sockets :: transport_sockets
  we_adapter_writes :: bool

record inbound =
  in_remote :: socket_addr
  in_packet :: bytes
  in_via_tls_relay :: bool
  in_via_turn :: bool
  in_via_tls_turn :: bool

definition transmit :: "worker_env \<Rightarrow> channel \<Rightarrow> socket_addr \<Rightarrow> bytes \<Rightarrow> 'a transport \<Rightarrow> 'a transport \<times> bool" where
  "transmit E channel endpoint packet t =
     (if (channel = UdpSocket \<longrightarrow> supports (we_sockets E) endpoint) \<and> tso_accepts (we_sockets E) channel endpoint packet
      then (t\<lparr>tp_sent := tp_sent t @ [(channel, endpoint, packet)]\<rparr>, True) else (t, False))"

definition relay_snapshot :: "'a transport \<Rightarrow> device_id \<times> joined_network list" where
  "relay_snapshot t = (ps_device_id (ag_state (tp_agent t)), ps_networks (ag_state (tp_agent t)))"

definition observe :: "(observation_state \<Rightarrow> observation_state) \<Rightarrow> 'a transport \<Rightarrow> 'a transport" where
  "observe f t = t\<lparr>tp_agent := (tp_agent t)\<lparr>ag_observations := f (ag_observations (tp_agent t))\<rparr>\<rparr>"

definition publish_session ::
  "worker_config \<Rightarrow> worker_env \<Rightarrow> peer_key \<Rightarrow> peer_session_state \<Rightarrow> 'a transport \<Rightarrow> 'a transport" where
  "publish_session C E key session t = observe (obs_publish (wc_revision C) key (telemetry session) (we_instant E)) t"

text \<open>A change of the session of a peer, if there is one, which is then published.\<close>

definition update_session ::
  "worker_config \<Rightarrow> worker_env \<Rightarrow> peer_key \<Rightarrow> (peer_session_state \<Rightarrow> peer_session_state) \<Rightarrow> 'a transport \<Rightarrow> 'a transport" where
  "update_session C E key f t =
     (case hm_get (tp_sessions t) key of
        None \<Rightarrow> t
      | Some session \<Rightarrow> publish_session C E key (f session) (t\<lparr>tp_sessions := hm_insert key (f session) (tp_sessions t)\<rparr>))"

section \<open>Paths\<close>

text \<open>The TLS relays in order until one takes the packet.\<close>

fun send_to_tls_relays :: "worker_env \<Rightarrow> bytes \<Rightarrow> tls_relay_route list \<Rightarrow> 'a transport \<Rightarrow> 'a transport \<times> session_path option" where
  "send_to_tls_relays E packet [] t = (t, None)"
| "send_to_tls_relays E packet (route # routes) t =
     (case transmit E TlsRelayStream (trr_relay_endpoint route) packet t of
        (t, True) \<Rightarrow> (t, Some TlsRelay)
      | (t, False) \<Rightarrow> send_to_tls_relays E packet routes t)"

definition send_through_turn ::
  "worker_env \<Rightarrow> socket_addr list \<Rightarrow> bytes \<Rightarrow> 'a transport \<Rightarrow> 'a transport \<times> session_path option" where
  "send_through_turn E relays packet t =
     (case relays of
        [] \<Rightarrow> (t, None)
      | relay # _ \<Rightarrow>
          (case transmit E TurnUdp relay packet t of
             (t, True) \<Rightarrow> (t, Some Turn)
           | (t, False) \<Rightarrow>
               (case transmit E TurnTls relay packet t of (t, ok) \<Rightarrow> (t, if ok then Some Turn else None))))"

definition send_through_relay ::
  "worker_env \<Rightarrow> joined_network \<Rightarrow> socket_addr list \<Rightarrow> bytes \<Rightarrow> 'a transport \<Rightarrow> 'a transport \<times> session_path option" where
  "send_through_relay E network relays packet t =
     (case select_relay_endpoint (vn_id (jn_network network)) relays (tp_endpoint_health t) (we_instant E)
             (case ncp_planet_manifest_version (jn_control_plane network) of None \<Rightarrow> False | Some version \<Rightarrow> version \<ge> 3) of
        None \<Rightarrow> (t, None)
      | Some relay \<Rightarrow> (case transmit E UdpSocket relay packet t of (t, ok) \<Rightarrow> (t, if ok then Some RelayPath else None)))"

definition send_directly ::
  "worker_env \<Rightarrow> joined_network \<Rightarrow> peer_route \<Rightarrow> bytes \<Rightarrow> 'a transport \<Rightarrow> 'a transport \<times> session_path option" where
  "send_directly E network route packet t =
     (if vn_relay_policy (jn_network network) = Required then (t, None)
      else case best_endpoint (we_instant E) route of
        None \<Rightarrow> (t, None)
      | Some endpoint \<Rightarrow> (case transmit E UdpSocket endpoint packet t of (t, ok) \<Rightarrow> (t, if ok then Some Direct else None)))"

text \<open>\<open>or_else\<close> tries the next way when the first has failed.\<close>

definition or_else ::
  "('t \<Rightarrow> 't \<times> 'p option) \<Rightarrow> ('t \<Rightarrow> 't \<times> 'p option) \<Rightarrow> 't \<Rightarrow> 't \<times> 'p option" where
  "or_else f g t = (case f t of (t, Some p) \<Rightarrow> (t, Some p) | (t, None) \<Rightarrow> g t)"

definition send_peer_routed_packet ::
  "worker_config \<Rightarrow> worker_env \<Rightarrow> joined_network \<Rightarrow> peer_route \<Rightarrow> bytes \<Rightarrow> 'a transport \<Rightarrow> 'a transport \<times> session_path option" where
  "send_peer_routed_packet C E network route packet =
     (let i = vn_id (jn_network network); relays = relay_endpoints_for (wc_configuration C) i
      in or_else (send_directly E network route packet)
          (if vn_relay_policy (jn_network network) = Disabled then (\<lambda>t. (t, None))
           else or_else (send_through_turn E relays packet)
                (or_else (send_through_relay E network relays packet)
                   (send_to_tls_relays E packet (tls_relays_for (wc_configuration C) i)))))"

definition session_path_for :: "socket_addr \<Rightarrow> socket_addr list \<Rightarrow> bool \<Rightarrow> bool \<Rightarrow> session_path" where
  "session_path_for remote relays via_tls_relay via_turn =
     (if via_tls_relay \<and> remote \<in> set relays then TlsRelay
      else if via_turn \<and> remote \<in> set relays then Turn
      else if remote \<in> set relays then RelayPath
      else Direct)"

definition inbound_path :: "worker_config \<Rightarrow> inbound \<Rightarrow> session_path" where
  "inbound_path C i = session_path_for (in_remote i) (tcf_relay_endpoints (wc_configuration C)) (in_via_tls_relay i)
     (in_via_turn i \<or> in_via_tls_turn i)"

definition send_to_inbound_path :: "worker_env \<Rightarrow> inbound \<Rightarrow> bytes \<Rightarrow> 'a transport \<Rightarrow> 'a transport \<times> bool" where
  "send_to_inbound_path E i packet =
     transmit E (if in_via_tls_relay i then TlsRelayStream else if in_via_tls_turn i then TurnTls
                 else if in_via_turn i then TurnUdp else UdpSocket) (in_remote i) packet"

fun send_all_to_inbound_path :: "worker_env \<Rightarrow> inbound \<Rightarrow> bytes list \<Rightarrow> 'a transport \<Rightarrow> 'a transport \<times> bool list" where
  "send_all_to_inbound_path E i [] t = (t, [])"
| "send_all_to_inbound_path E i (packet # packets) t =
     (case send_to_inbound_path E i packet t of (t, ok) \<Rightarrow>
        (case send_all_to_inbound_path E i packets t of (t, oks) \<Rightarrow> (t, ok # oks)))"

section \<open>Session frames\<close>

text \<open>An initiation that is addressed to this device, for an authorized network, from a peer whose key is known.\<close>

definition admit_session_init ::
  "'s session_ops_scheme \<Rightarrow> 'x authz_ops_scheme \<Rightarrow> u64 \<Rightarrow> bytes \<Rightarrow> 'a transport \<Rightarrow> (peer_key \<times> joined_network \<times> bytes \<times> bytes) option" where
  "admit_session_init S X now packet t =
     (case parse_session_routing_header packet RELAY_SESSION_INIT of
        Inl _ \<Rightarrow> None
      | Inr (n, source, destination) \<Rightarrow>
          let (device, networks) = relay_snapshot t
          in if destination \<noteq> device \<or> source = device then None
             else case find_network n networks of
               None \<Rightarrow> None
             | Some network \<Rightarrow>
                 if \<not> local_network_is_authorized X network now then None
                 else case hm_get (tp_peers t) (n, source) of
                   None \<Rightarrow> None
                 | Some route \<Rightarrow>
                     if length (pro_device_public_key route) \<noteq> 32 then None
                     else case session_handshake_id S packet RELAY_SESSION_INIT of
                       Inl _ \<Rightarrow> None
                     | Inr session_id \<Rightarrow> Some ((n, source), network, pro_device_public_key route, session_id))"

definition cached_response_for :: "peer_session_state option \<Rightarrow> bytes \<Rightarrow> bytes option" where
  "cached_response_for session session_id =
     (case session of
        Some (EstablishedSession e) \<Rightarrow> if psk_session_id (eds_keys e) = session_id then eds_cached_response e else None
      | _ \<Rightarrow> None)"

definition is_pending :: "peer_session_state option \<Rightarrow> bool" where
  "is_pending session = (case session of Some (PendingSession _) \<Rightarrow> True | _ \<Rightarrow> False)"

text \<open>What a new session takes over: queued packets, and the counts of dropped packets, attempts, retries and rejected packets.\<close>

definition taken_over :: "peer_session_state option \<Rightarrow> bytes list \<times> u64 \<times> u64 \<times> u64 \<times> u64" where
  "taken_over session =
     (case session of
        Some (PendingSession p) \<Rightarrow> (pds_queued_packets p, pds_dropped_packets p, pds_handshake_attempts p,
          pds_handshake_retries p, pds_rejected_packets_received p)
      | _ \<Rightarrow> ([], 0, 1, 0, 0))"

definition new_established ::
  "pairwise_session_keys \<Rightarrow> bytes \<Rightarrow> u64 \<Rightarrow> nat \<Rightarrow> bytes option \<Rightarrow> session_path \<Rightarrow> u64 \<times> u64 \<times> u64 \<times> u64 \<Rightarrow> established_session" where
  "new_established keys public_key next instant cached path = (\<lambda>(dropped, attempts, retries, rejected).
     \<lparr>eds_keys = keys, eds_peer_public_key = public_key, eds_next_sequence = next, eds_replay_window = replay_window_default,
      eds_established_at = instant, eds_cached_response = cached, eds_path = path, eds_dropped_packets = dropped,
      eds_handshake_attempts = attempts, eds_handshake_retries = retries, eds_encrypted_packets_sent = 0,
      eds_authenticated_packets_received = 0, eds_rejected_packets_received = rejected\<rparr>)"

text \<open>
  The end of both handshakes: the packets queued so far are sealed from sequence number 0, the session replaces the one in the table,
  and the response, if there is one, and the packets are sent back the way the peer's packet came.
\<close>

definition install_session ::
  "'s prims_scheme \<Rightarrow> worker_config \<Rightarrow> worker_env \<Rightarrow> inbound \<Rightarrow> peer_key \<Rightarrow> pairwise_session_keys \<Rightarrow> bytes \<Rightarrow> bytes option
     \<Rightarrow> ('a transport, worker_error, unit) action" where
  "install_session S C E i key keys public_key response t =
     (let (queued, counters) = taken_over (hm_get (tp_sessions t) key)
      in case seal_queued_packets S keys (fst key) (fst (relay_snapshot t)) (snd key) queued of
           Inl error \<Rightarrow> (t, Inl (SessionFailed error))
         | Inr (next, packets) \<Rightarrow>
             let session = EstablishedSession
                   (new_established keys public_key next (we_instant E) response (inbound_path C i) counters);
                 t = t\<lparr>tp_sessions := hm_insert key session (tp_sessions t),
                       tp_sealed := tp_sealed t @ seals keys 0 (length queued)\<rparr>;
                 t = (case response of None \<Rightarrow> t | Some r \<Rightarrow> fst (send_to_inbound_path E i r t));
                 (t, results) = send_all_to_inbound_path E i packets t
             in (update_session C E key (record_encrypted_send_results results) t, Inr ()))"

definition receive_session_init ::
  "'s session_ops_scheme \<Rightarrow> 'x authz_ops_scheme \<Rightarrow> worker_config \<Rightarrow> worker_env \<Rightarrow> bytes option \<Rightarrow> inbound
     \<Rightarrow> ('a transport, worker_error, unit) action" where
  "receive_session_init S X C E secret i t =
     (case admit_session_init S X (we_now E) (in_packet i) t of
        None \<Rightarrow> (t, Inr ())
      | Some (key, network, public_key, session_id) \<Rightarrow>
          let session = hm_get (tp_sessions t) key
          in case cached_response_for session session_id of
               Some response \<Rightarrow>
                 (fst (send_to_inbound_path E i response (update_session C E key (set_path (inbound_path C i)) t)), Inr ())
             | None \<Rightarrow>
                 if is_pending session \<and> fst (relay_snapshot t) < snd key then (t, Inr ())
                 else case network_key_from_slice (jn_network_key network) of
                   Inl _ \<Rightarrow> (t, Inr ())
                 | Inr network_key \<Rightarrow>
                     (case accept_pairwise_handshake S secret (in_packet i) public_key (wc_identity C) network_key (we_now E)
                             HANDSHAKE_CLOCK_SKEW_SECONDS of
                        Inl _ \<Rightarrow> (update_session C E key record_rejected_packet t, Inr ())
                      | Inr (keys, response) \<Rightarrow>
                          (case record_session_handshake (tp_seen_handshakes t) key session_id (we_instant E) of
                             (seen, False) \<Rightarrow>
                               (update_session C E key record_rejected_packet (t\<lparr>tp_seen_handshakes := seen\<rparr>), Inr ())
                           | (seen, True) \<Rightarrow>
                               install_session S C E i key keys public_key (Some response) (t\<lparr>tp_seen_handshakes := seen\<rparr>))))"

text \<open>A response to a handshake of ours, from a peer whose key is still the one the handshake was started with.\<close>

definition admit_session_response ::
  "'x authz_ops_scheme \<Rightarrow> u64 \<Rightarrow> bytes \<Rightarrow> 'a transport \<Rightarrow> (peer_key \<times> bytes \<times> pending_session) option" where
  "admit_session_response X now packet t =
     (case parse_session_routing_header packet RELAY_SESSION_RESPONSE of
        Inl _ \<Rightarrow> None
      | Inr (n, source, destination) \<Rightarrow>
          let (device, networks) = relay_snapshot t
          in if destination \<noteq> device \<or> source = device then None
             else case (hm_get (tp_peers t) (n, source), find_network n networks) of
               (Some route, Some network) \<Rightarrow>
                 if \<not> local_network_is_authorized X network now then None
                 else (case (network_key_from_slice (jn_network_key network), hm_get (tp_sessions t) (n, source)) of
                         (Inr network_key, Some (PendingSession p)) \<Rightarrow>
                           if pds_peer_public_key p = pro_device_public_key route then Some ((n, source), network_key, p) else None
                       | _ \<Rightarrow> None)
             | _ \<Rightarrow> None)"

definition receive_session_response ::
  "'s session_ops_scheme \<Rightarrow> 'x authz_ops_scheme \<Rightarrow> worker_config \<Rightarrow> worker_env \<Rightarrow> inbound
     \<Rightarrow> ('a transport, worker_error, unit) action" where
  "receive_session_response S X C E i t =
     (case admit_session_response X (we_now E) (in_packet i) t of
        None \<Rightarrow> (t, Inr ())
      | Some (key, network_key, p) \<Rightarrow>
          (case initiator_complete S (pds_handshake p) (in_packet i) (pds_peer_public_key p) network_key (we_now E)
                  HANDSHAKE_CLOCK_SKEW_SECONDS of
             Inl _ \<Rightarrow> (update_session C E key record_rejected_packet t, Inr ())
           | Inr keys \<Rightarrow> install_session S C E i key keys (pds_peer_public_key p) None t))"

text \<open>The packet that an established session opens, and the session with its window moved on.\<close>

definition open_session_data ::
  "'s prims_scheme \<Rightarrow> bytes \<Rightarrow> 'a transport \<Rightarrow> (peer_key \<times> device_id \<times> established_session \<times> session_packet option) option" where
  "open_session_data S packet t =
     (case parse_session_routing_header packet RELAY_SESSION_DATA of
        Inl _ \<Rightarrow> None
      | Inr (n, source, destination) \<Rightarrow>
          let device = fst (relay_snapshot t)
          in if destination \<noteq> device \<or> source = device then None
             else case hm_get (tp_sessions t) (n, source) of
               Some (EstablishedSession e) \<Rightarrow>
                 (case session_open S (eds_keys e) (eds_replay_window e) packet of
                    (window, opened) \<Rightarrow> Some ((n, source), destination, e\<lparr>eds_replay_window := window\<rparr>,
                      (case opened of Inl _ \<Rightarrow> None | Inr p \<Rightarrow> Some p)))
             | _ \<Rightarrow> None)"

text \<open>Whether an opened packet may be written to the interface, by the network and the directory.\<close>

definition may_deliver ::
  "'x pool_ops_scheme \<Rightarrow> u64 \<Rightarrow> peer_key \<Rightarrow> device_id \<Rightarrow> session_packet \<Rightarrow> 'a transport \<Rightarrow> bool" where
  "may_deliver X now key destination opened t \<longleftrightarrow>
     sp_network_id opened = fst key \<and> sp_source opened = snd key \<and> sp_destination opened = destination
     \<and> (case (find_network (fst key) (snd (relay_snapshot t)), hm_get (tp_peers t) key) of
          (Some network, Some route) \<Rightarrow> local_network_is_authorized X network now
            \<and> packet_is_authorized_for_delivery X (Some now) network (snd key) route destination (fst (relay_snapshot t))
                (sp_plaintext opened)
        | _ \<Rightarrow> False)"

definition learn_direct_endpoint :: "worker_config \<Rightarrow> worker_env \<Rightarrow> peer_key \<Rightarrow> socket_addr \<Rightarrow> 'a transport \<Rightarrow> 'a transport" where
  "learn_direct_endpoint C E key remote t =
     (if remote \<in> set (tcf_relay_endpoints (wc_configuration C)) then t
      else case hm_get (tp_peers t) key of
        None \<Rightarrow> t
      | Some route \<Rightarrow> t\<lparr>tp_peers := hm_insert key (fst (mark_success remote (we_instant E) (add_candidate remote route))) (tp_peers t)\<rparr>)"

definition receive_session_data ::
  "'s prims_scheme \<Rightarrow> 'x pool_ops_scheme \<Rightarrow> 'a adapter_ops \<Rightarrow> worker_config \<Rightarrow> worker_env \<Rightarrow> inbound
     \<Rightarrow> ('a transport, worker_error, unit) action" where
  "receive_session_data S X A C E i t =
     (case open_session_data S (in_packet i) t of
        None \<Rightarrow> (t, Inr ())
      | Some (key, destination, e, opened) \<Rightarrow>
          let t = t\<lparr>tp_sessions := hm_insert key (EstablishedSession e) (tp_sessions t)\<rparr>
          in case opened of
               None \<Rightarrow> (update_session C E key record_rejected_packet t, Inr ())
             | Some p \<Rightarrow>
                 let t = update_session C E key (set_path (inbound_path C i) \<circ> record_authenticated_packet) t
                 in if \<not> may_deliver X (we_now E) key destination p t then (t, Inr ())
                    else
                      let t = learn_direct_endpoint C E key (in_remote i) t
                      in if \<not> ado_is_active A (ag_adapter (tp_agent t)) then (t, Inr ())
                         else if we_adapter_writes E then (t\<lparr>tp_written := tp_written t @ [sp_plaintext p]\<rparr>, Inr ())
                         else (t, Inl AdapterFailed))"

end
