(* ===== verification/Transport_Worker.thy ===== *)
theory Transport_Worker
  imports Session_Engine
begin

text \<open>
  The transport worker (\<^verbatim>\<open>crates/meshlaked/src/main.rs\<close>): what it does with a datagram, whichever way it came, and with a tick of
  its timer: forgetting networks that are no longer authorized, repeating handshakes, probing peers, registering with relays and
  roots, asking STUN servers, and forwarding the packets of the virtual interface. Parsing and encoding of JSON, random
  values, what the sockets accept, the renewal of the port mapping and the packets read from the interface are arguments.
\<close>

record worker_ops = relay_ops +
  wo_parse_root_response :: "bytes \<Rightarrow> signed_root_response option"
  wo_parse_ack :: "bytes \<Rightarrow> signed_relay_registration_ack option"
  wo_json_registration :: "root_registration \<Rightarrow> bytes option"

text \<open>A \<open>for\<close> loop whose body may end the worker.\<close>

fun afor :: "('x \<Rightarrow> ('w, 'e, unit) action) \<Rightarrow> 'x list \<Rightarrow> ('w, 'e, unit) action" where
  "afor f [] = areturn ()"
| "afor f (x # xs) = abind (f x) (\<lambda>_. afor f xs)"

text \<open>Datagrams whose fate is ignored.\<close>

definition send_datagrams :: "worker_env \<Rightarrow> (socket_addr \<times> bytes) list \<Rightarrow> 'a transport \<Rightarrow> 'a transport" where
  "send_datagrams E datagrams t = fold (\<lambda>(endpoint, packet) t. fst (transmit E UdpSocket endpoint packet t)) datagrams t"

section \<open>STUN responses\<close>

definition MAX_ADVERTISED_CANDIDATES :: nat where "MAX_ADVERTISED_CANDIDATES = 16"

definition push_candidate :: "socket_addr \<Rightarrow> socket_addr list \<Rightarrow> socket_addr list" where
  "push_candidate candidate candidates =
     (if candidate \<notin> set candidates \<and> length candidates < MAX_ADVERTISED_CANDIDATES then candidates @ [candidate] else candidates)"

definition candidate_announcements ::
  "worker_config \<Rightarrow> device_id \<Rightarrow> joined_network list \<Rightarrow> socket_addr \<Rightarrow> (socket_addr \<times> bytes) list" where
  "candidate_announcements C device networks candidate =
     concat (map (\<lambda>network. if jn_certificate network = None then []
       else map (\<lambda>relay. (relay, candidate_announcement (vn_id (jn_network network)) device candidate))
              (relay_endpoints_for (wc_configuration C) (vn_id (jn_network network)))) networks)"

definition receive_stun_success ::
  "worker_config \<Rightarrow> worker_env \<Rightarrow> socket_addr \<Rightarrow> bytes \<Rightarrow> socket_addr \<Rightarrow> 'a transport \<Rightarrow> 'a transport" where
  "receive_stun_success C E remote transaction_id candidate t =
     (case hm_get (tp_stun_transactions t) transaction_id of
        None \<Rightarrow> t
      | Some transaction \<Rightarrow>
          let t = t\<lparr>tp_stun_transactions := hm_remove transaction_id (tp_stun_transactions t)\<rparr>
          in if stx_server transaction = remote \<and> we_instant E - stx_issued_at transaction < 30 * nanoseconds
             then let (device, networks) = relay_snapshot t
                  in send_datagrams E (candidate_announcements C device networks candidate)
                       (t\<lparr>tp_advertised_candidates := push_candidate candidate (tp_advertised_candidates t)\<rparr>)
             else t)"

section \<open>Root responses\<close>

text \<open>The session with a peer whose identity key has changed is dropped.\<close>

definition drop_session :: "worker_config \<Rightarrow> peer_key \<Rightarrow> 'a transport \<Rightarrow> 'a transport" where
  "drop_session C key t = observe (obs_remove (wc_revision C) key) (t\<lparr>tp_sessions := hm_remove key (tp_sessions t)\<rparr>)"

text \<open>\<^verbatim>\<open>update_peer_membership\<close> and what follows from it; the flag says whether the entry was accepted.\<close>

definition install_peer_membership ::
  "'x pool_ops_scheme \<Rightarrow> worker_config \<Rightarrow> worker_env \<Rightarrow> membership_certificate \<Rightarrow> 'a transport \<Rightarrow> 'a transport \<times> bool" where
  "install_peer_membership X C E certificate t =
     (let (device, networks) = relay_snapshot t;
          key = (mcl_network_id (mc_claims certificate), mcl_device_id (mc_claims certificate))
      in case update_peer_membership X (we_instant E) (tp_peers t) certificate device networks of
           (peers, None) \<Rightarrow> (t\<lparr>tp_peers := peers\<rparr>, False)
         | (peers, Some changed) \<Rightarrow>
             let t = t\<lparr>tp_peers := peers\<rparr> in (if changed then drop_session C key t else t, True))"

text \<open>An endpoint learned for a peer is probed three times at once.\<close>

definition learn_candidate :: "worker_env \<Rightarrow> peer_key \<Rightarrow> socket_addr \<Rightarrow> 'a transport \<Rightarrow> 'a transport" where
  "learn_candidate E key candidate t =
     (let route = (case hm_get (tp_peers t) key of
            None \<Rightarrow> peer_route_new candidate | Some route \<Rightarrow> add_candidate candidate route);
          punch = punch_packet (fst key) (fst (relay_snapshot t)) RELAY_PUNCH
      in send_datagrams E (replicate 3 (candidate, punch))
           (t\<lparr>tp_peers := hm_insert key (mark_probe_sent candidate (we_instant E) route) (tp_peers t)\<rparr>))"

definition certificate_is_trusted :: "'x authz_ops_scheme \<Rightarrow> joined_network \<Rightarrow> membership_certificate \<Rightarrow> u64 \<Rightarrow> bool" where
  "certificate_is_trusted X network certificate now \<longleftrightarrow>
     is_ok (certificate_verify_from_controller X certificate (pinned_controller_key network) now)
     \<and> local_network_is_authorized X network now \<and> peer_certificate_is_authorized X network certificate now"

definition discovered_peer ::
  "'x pool_ops_scheme \<Rightarrow> worker_config \<Rightarrow> worker_env \<Rightarrow> network_id \<Rightarrow> root_peer \<Rightarrow> 'a transport \<Rightarrow> 'a transport" where
  "discovered_peer X C E network_id peer t =
     (let (device, networks) = relay_snapshot t
      in if rp_network_id peer \<noteq> network_id \<or> rp_device_id peer = device then t
         else case (rp_certificate peer, find_network (rp_network_id peer) networks) of
           (Some certificate, Some network) \<Rightarrow>
             let claims = mc_claims certificate
             in if mcl_network_id claims \<noteq> rp_network_id peer \<or> mcl_device_id claims \<noteq> rp_device_id peer
                   \<or> mcl_assigned_addresses claims \<noteq> rp_assigned_addresses peer
                   \<or> \<not> certificate_is_trusted X network certificate (we_now E)
                then t
                else (case install_peer_membership X C E certificate t of
                        (t, False) \<Rightarrow> t
                      | (t, True) \<Rightarrow> fold (learn_candidate E (rp_network_id peer, rp_device_id peer))
                          (filter (\<lambda>c. supports (we_sockets E) c \<and> sock_port c \<noteq> 0 \<and> \<not> ip_is_unspecified (sock_ip c))
                             (rp_candidates peer)) t)
         | _ \<Rightarrow> t)"

definition mark_registered ::
  "worker_env \<Rightarrow> network_id \<Rightarrow> socket_addr \<Rightarrow> registration_service_kind \<Rightarrow> 'a transport \<Rightarrow> 'a transport" where
  "mark_registered E network_id endpoint kind t =
     (let target = \<lparr>rtg_network_id = network_id, rtg_endpoint = endpoint, rtg_kind = kind\<rparr>
      in case hm_get (tp_registration_schedules t) target of
           None \<Rightarrow> t
         | Some schedule \<Rightarrow> t\<lparr>tp_registration_schedules :=
             hm_insert target (registration_success (we_instant E) schedule) (tp_registration_schedules t)\<rparr>)"

definition consider_hint :: "'x authz_ops_scheme \<Rightarrow> worker_env \<Rightarrow> authorization_epoch_hint \<Rightarrow> 'a transport \<Rightarrow> 'a transport \<times> bool" where
  "consider_hint X E hint t =
     (case consider_authorization_hint X (we_now E) hint (tp_agent t) of (agent, considered) \<Rightarrow> (t\<lparr>tp_agent := agent\<rparr>, considered))"

definition apply_root_response ::
  "'x pool_ops_scheme \<Rightarrow> worker_config \<Rightarrow> worker_env \<Rightarrow> network_id \<Rightarrow> socket_addr \<Rightarrow> root_response \<Rightarrow> 'a transport \<Rightarrow> 'a transport" where
  "apply_root_response X C E network_id remote response t =
     (case response of
        RootError message \<Rightarrow> t
      | Registered observed discovered refresh hints \<Rightarrow>
          let t = mark_registered E network_id remote Root t;
              t = t\<lparr>tp_endpoints := mark_root_responsive network_id remote (we_instant E) (tp_endpoints t)\<rparr>;
              t = fold (\<lambda>hint t. if aeh_network_id hint = network_id then fst (consider_hint X E hint t) else t) hints t
          in fold (discovered_peer X C E network_id) discovered t)"

definition root_response_is_verified ::
  "'r root_ops_scheme \<Rightarrow> worker_config \<Rightarrow> worker_env \<Rightarrow> socket_addr \<Rightarrow> signed_root_response \<Rightarrow> root_transaction \<Rightarrow> bool" where
  "root_response_is_verified R C E remote response transaction \<longleftrightarrow>
     rtx_endpoint transaction = remote \<and> we_instant E - rtx_issued_at transaction < TRANSPORT_TRANSACTION_TTL
     \<and> (case find (\<lambda>root. pr_public_key root = rtx_public_key transaction \<and> remote \<in> set (pr_endpoints root)
                \<and> pr_identity root = rtx_identity transaction)
              (root_servers_for (wc_configuration C) (rtx_network_id transaction)) of
          None \<Rightarrow> False
        | Some root \<Rightarrow>
            (case pr_identity root of
               Some identity \<Rightarrow> is_ok (root_response_verify_identity R response identity (we_now E))
             | None \<Rightarrow> is_ok (root_response_verify R response (pr_public_key root))))"

definition handle_root_response ::
  "'r worker_ops_scheme \<Rightarrow> 'x pool_ops_scheme \<Rightarrow> worker_config \<Rightarrow> worker_env \<Rightarrow> inbound \<Rightarrow> 'a transport \<Rightarrow> 'a transport \<times> bool" where
  "handle_root_response R X C E i t =
     (case wo_parse_root_response R (in_packet i) of
        None \<Rightarrow> (t, False)
      | Some response \<Rightarrow>
          (case hm_get (tp_root_transactions t) (srr_request_nonce response) of
             None \<Rightarrow> (t, True)
           | Some transaction \<Rightarrow>
               if root_response_is_verified R C E (in_remote i) response transaction
               then (apply_root_response X C E (rtx_network_id transaction) (in_remote i) (srr_response response)
                       (t\<lparr>tp_root_transactions := hm_remove (srr_request_nonce response) (tp_root_transactions t)\<rparr>), True)
               else (t, True)))"

section \<open>Relay frames\<close>

definition confirm_registration :: "worker_env \<Rightarrow> network_id \<Rightarrow> socket_addr \<Rightarrow> 'a transport \<Rightarrow> 'a transport" where
  "confirm_registration E network remote t =
     (let t = mark_registered E network remote Relay
            (t\<lparr>tp_relay_confirmations_accepted := tp_relay_confirmations_accepted t + 1\<rparr>)
      in t\<lparr>tp_endpoints := mark_relay_acknowledged network remote (we_instant E) (tp_endpoints t)\<rparr>)"

definition reject_confirmation :: "'a transport \<Rightarrow> 'a transport" where
  "reject_confirmation t = t\<lparr>tp_relay_confirmations_rejected := tp_relay_confirmations_rejected t + 1\<rparr>"

definition receive_signed_ack ::
  "'r worker_ops_scheme \<Rightarrow> 'x authz_ops_scheme \<Rightarrow> worker_env \<Rightarrow> inbound \<Rightarrow> 'a transport \<Rightarrow> 'a transport" where
  "receive_signed_ack R X E i t =
     (case wo_parse_ack R (drop 5 (in_packet i)) of
        None \<Rightarrow> reject_confirmation t
      | Some acknowledgement \<Rightarrow>
          (case acknowledge_signed_relay_registration R acknowledgement (in_remote i) (we_instant E) (we_now E)
                  (tp_relay_transactions t, tp_endpoint_health t) of
             (_, None) \<Rightarrow> reject_confirmation t
           | ((transactions, health), Some (network, hint)) \<Rightarrow>
               let t = confirm_registration E network (in_remote i)
                     (t\<lparr>tp_relay_transactions := transactions, tp_endpoint_health := health\<rparr>)
               in case hint of
                    None \<Rightarrow> t
                  | Some hint \<Rightarrow>
                      (case consider_hint X E hint t of
                         (t, True) \<Rightarrow> t\<lparr>tp_authorization_hint_refreshes := tp_authorization_hint_refreshes t + 1\<rparr>
                       | (t, False) \<Rightarrow> t)))"

definition receive_ack :: "worker_config \<Rightarrow> worker_env \<Rightarrow> inbound \<Rightarrow> 'a transport \<Rightarrow> 'a transport" where
  "receive_ack C E i t =
     (case parse_registration_ack (in_packet i) of
        None \<Rightarrow> t
      | Some (network, device, nonce) \<Rightarrow>
          let (self, networks) = relay_snapshot t
          in if in_remote i \<notin> set (relay_endpoints_for (wc_configuration C) network) \<or> device \<noteq> self
                \<or> find_network network networks = None then t
             else (case acknowledge_relay_registration network device nonce (in_remote i) (we_instant E)
                          (tp_relay_transactions t, tp_endpoint_health t) of
                     (_, False) \<Rightarrow> reject_confirmation t
                   | ((transactions, health), True) \<Rightarrow>
                       confirm_registration E network (in_remote i)
                         (t\<lparr>tp_relay_transactions := transactions, tp_endpoint_health := health\<rparr>)))"

definition receive_peer_identity ::
  "'r relay_ops_scheme \<Rightarrow> 'x pool_ops_scheme \<Rightarrow> worker_config \<Rightarrow> worker_env \<Rightarrow> inbound \<Rightarrow> 'a transport \<Rightarrow> 'a transport" where
  "receive_peer_identity R X C E i t =
     (case parse_peer_identity R (in_packet i) of
        None \<Rightarrow> t
      | Some certificate \<Rightarrow>
          (case find_network (mcl_network_id (mc_claims certificate)) (snd (relay_snapshot t)) of
             None \<Rightarrow> t
           | Some network \<Rightarrow>
               if length (mcl_device_public_key (mc_claims certificate)) \<noteq> 32 \<or> \<not> certificate_is_trusted X network certificate (we_now E)
               then t
               else fst (install_peer_membership X C E certificate t)))"

definition receive_peer :: "'x authz_ops_scheme \<Rightarrow> worker_env \<Rightarrow> inbound \<Rightarrow> 'a transport \<Rightarrow> 'a transport" where
  "receive_peer X E i t =
     (case parse_peer_announcement (in_packet i) of
        None \<Rightarrow> t
      | Some (n, device, endpoint) \<Rightarrow>
          let (self, networks) = relay_snapshot t
          in case find_network n networks of
               None \<Rightarrow> t
             | Some network \<Rightarrow>
                 if device = self \<or> \<not> local_network_is_authorized X network (we_now E) \<or> \<not> supports (we_sockets E) endpoint then t
                 else learn_candidate E (n, device) endpoint t)"

definition receive_punch :: "'x authz_ops_scheme \<Rightarrow> worker_env \<Rightarrow> inbound \<Rightarrow> 'a transport \<Rightarrow> 'a transport" where
  "receive_punch X E i t =
     (let kind = in_packet i ! 4
      in case parse_punch (in_packet i) kind of
           None \<Rightarrow> t
         | Some (n, device) \<Rightarrow>
             let (self, networks) = relay_snapshot t
             in case (find_network n networks, hm_get (tp_peers t) (n, device)) of
                  (Some network, Some route) \<Rightarrow>
                    if device = self \<or> \<not> local_network_is_authorized X network (we_now E)
                       \<or> in_remote i \<notin> set (route_endpoints route) then t
                    else
                      let t = t\<lparr>tp_peers := hm_insert (n, device) (fst (mark_success (in_remote i) (we_instant E) route)) (tp_peers t)\<rparr>
                      in (case punch_response_kind kind of
                            None \<Rightarrow> t
                          | Some response \<Rightarrow> send_datagrams E [(in_remote i, punch_packet n self response)] t)
                | _ \<Rightarrow> t)"

section \<open>One datagram\<close>

definition receive_relay_frame ::
  "'s session_ops_scheme \<Rightarrow> 'r worker_ops_scheme \<Rightarrow> 'x pool_ops_scheme \<Rightarrow> 'a adapter_ops \<Rightarrow> worker_config \<Rightarrow> worker_env \<Rightarrow> bytes option
     \<Rightarrow> inbound \<Rightarrow> ('a transport, worker_error, unit) action" where
  "receive_relay_frame S R X A C E secret i t =
     (let kind = in_packet i ! 4;
          from_relay = (in_remote i \<in> set (tcf_relay_endpoints (wc_configuration C)))
      in if kind = RELAY_REGISTER_ACK_SIGNED \<and> from_relay then (receive_signed_ack R X E i t, Inr ())
         else if kind = RELAY_REGISTER_ACK \<and> from_relay then (receive_ack C E i t, Inr ())
         else if kind = RELAY_PEER_IDENTITY \<and> from_relay then (receive_peer_identity R X C E i t, Inr ())
         else if kind = RELAY_PEER \<and> from_relay then (receive_peer X E i t, Inr ())
         else if kind = RELAY_PUNCH \<or> kind = RELAY_PUNCH_ACK then (receive_punch X E i t, Inr ())
         else if kind = RELAY_SESSION_INIT then receive_session_init S X C E secret i t
         else if kind = RELAY_SESSION_RESPONSE then receive_session_response S X C E i t
         else if kind = RELAY_SESSION_DATA then receive_session_data S X A C E i t
         else (t, Inr ()))"

definition receive_udp_packet ::
  "'s session_ops_scheme \<Rightarrow> 'r worker_ops_scheme \<Rightarrow> 'x pool_ops_scheme \<Rightarrow> 'a adapter_ops \<Rightarrow> worker_config \<Rightarrow> worker_env \<Rightarrow> bytes option
     \<Rightarrow> inbound \<Rightarrow> ('a transport, worker_error, unit) action" where
  "receive_udp_packet S R X A C E secret i t =
     (case parse_stun_binding_success (in_packet i) of
        Some (transaction_id, candidate) \<Rightarrow> (receive_stun_success C E (in_remote i) transaction_id candidate t, Inr ())
      | None \<Rightarrow>
          (case handle_root_response R X C E i t of
             (t, True) \<Rightarrow> (t, Inr ())
           | (t, False) \<Rightarrow>
               if length (in_packet i) < 5 \<or> take 4 (in_packet i) \<noteq> RELAY_MAGIC then (t, Inr ())
               else receive_relay_frame S R X A C E secret i t))"

end
