(* ===== verification/Transport_Tick.thy ===== *)
theory Transport_Tick
  imports Transport_Worker
begin

text \<open>
  The tick of the transport worker and its run (\<^verbatim>\<open>crates/meshlaked/src/main.rs\<close>, \<^verbatim>\<open>run_relay_worker\<close> and \<^verbatim>\<open>start_relay_worker\<close>). The
  timers are a record of their own; a tick reads the clock once. The worker stops when the configuration has changed, a Planet has
  expired or a handler fails, and its tables go with it.
\<close>

record worker_timers =
  wt_registration_scan :: nat
  wt_stun_refresh :: nat
  wt_port_mapping_refresh :: nat
  wt_peer_probe :: nat
  wt_handshake_retry :: nat

abbreviation milliseconds :: nat where "milliseconds \<equiv> 1000000"

text \<open>What a tick reads of the outside: the renewed port mapping, the random values and the packets of the interface, an error ending the list.\<close>

record tick_input =
  ti_port_mapping :: "socket_addr option"
  ti_relay_nonce :: "network_id \<Rightarrow> socket_addr \<Rightarrow> uuid"
  ti_root_nonce :: "network_id \<Rightarrow> socket_addr \<Rightarrow> uuid"
  ti_stun_random :: "nat \<Rightarrow> uuid"
  ti_handshake :: "nat \<Rightarrow> device_id \<Rightarrow> bytes option \<times> bytes option"
  ti_stun_servers :: "socket_addr list"
  ti_packets :: "(unit + bytes) list"

section \<open>Port mapping\<close>

text \<open>A renewed mapping takes the place of the previous one among the candidates; \<open>previous\<close> is the mapping so far.\<close>

definition renew_port_mapping :: "socket_addr option \<Rightarrow> socket_addr \<Rightarrow> 'a transport \<Rightarrow> 'a transport" where
  "renew_port_mapping previous external t =
     (let kept = (case previous of None \<Rightarrow> tp_advertised_candidates t
                  | Some p \<Rightarrow> filter (\<lambda>c. c \<noteq> p) (tp_advertised_candidates t))
      in t\<lparr>tp_advertised_candidates := push_candidate external kept\<rparr>)"

section \<open>Networks that are not authorized any more\<close>

definition network_is_usable :: "'x authz_ops_scheme \<Rightarrow> u64 \<Rightarrow> joined_network list \<Rightarrow> network_id \<Rightarrow> bool" where
  "network_is_usable X now networks i =
     list_ex (\<lambda>network. vn_id (jn_network network) = i \<and> local_network_is_authorized X network now) networks"

definition forget_unauthorized ::
  "'x authz_ops_scheme \<Rightarrow> worker_config \<Rightarrow> worker_env \<Rightarrow> 'a transport \<Rightarrow> 'a transport" where
  "forget_unauthorized X C E t =
     (let usable = network_is_usable X (we_now E) (snd (relay_snapshot t));
          t = t\<lparr>tp_peers := hm_retain (\<lambda>(i, _) _. usable i) (tp_peers t)\<rparr>
      in fold (drop_session C) (filter (\<lambda>(i, _). \<not> usable i) (map fst (tp_sessions t))) t)"

section \<open>Handshakes that are repeated\<close>

fun retry_packet :: "nat \<Rightarrow> peer_session_state \<Rightarrow> bytes option" where
  "retry_packet now (PendingSession p) = (if retry_due now p then Some (pds_init_packet p) else None)"
| "retry_packet now (EstablishedSession e) = None"

fun mark_retry :: "nat \<Rightarrow> peer_session_state \<Rightarrow> peer_session_state" where
  "mark_retry now (PendingSession p) = PendingSession (if retry_due now p then retried now p else p)"
| "mark_retry now (EstablishedSession e) = EstablishedSession e"

text \<open>The path of the packet, if it was sent, is noted, and the session published.\<close>

definition note_path ::
  "worker_config \<Rightarrow> worker_env \<Rightarrow> peer_key \<Rightarrow> bool \<Rightarrow> 'a transport \<times> session_path option \<Rightarrow> 'a transport" where
  "note_path C E key is_data = (\<lambda>(t, path).
     update_session C E key (\<lambda>session.
       (case path of
          None \<Rightarrow> session
        | Some path \<Rightarrow> (if is_data then record_encrypted_send_results [True] else id) (set_path path session))) t)"

definition retry_handshake ::
  "'x authz_ops_scheme \<Rightarrow> worker_config \<Rightarrow> worker_env \<Rightarrow> peer_key \<times> bytes \<Rightarrow> 'a transport \<Rightarrow> 'a transport" where
  "retry_handshake X C E = (\<lambda>(key, packet) t.
     (case (find (\<lambda>network. vn_id (jn_network network) = fst key \<and> local_network_is_authorized X network (we_now E))
              (snd (relay_snapshot t)), hm_get (tp_peers t) key) of
        (Some network, Some route) \<Rightarrow> note_path C E key False (send_peer_routed_packet C E network route packet t)
      | _ \<Rightarrow> t))"

definition retry_handshakes :: "'x authz_ops_scheme \<Rightarrow> worker_config \<Rightarrow> worker_env \<Rightarrow> 'a transport \<Rightarrow> 'a transport" where
  "retry_handshakes X C E t =
     (let retries = List.map_filter (\<lambda>(key, session). map_option (Pair key) (retry_packet (we_instant E) session)) (tp_sessions t)
      in fold (retry_handshake X C E) retries
           (t\<lparr>tp_sessions := map (\<lambda>(key, session). (key, mark_retry (we_instant E) session)) (tp_sessions t)\<rparr>))"

section \<open>Probing peers\<close>

definition probed_route :: "nat \<Rightarrow> peer_route \<Rightarrow> peer_route" where
  "probed_route now route =
     (let route = expire_probes now (expire_directory now route)
      in fold (\<lambda>endpoint. mark_probe_sent endpoint now) (route_endpoints route) route)"

definition identity_is_valid :: "peer_directory \<Rightarrow> peer_key \<Rightarrow> peer_session_state \<Rightarrow> bool" where
  "identity_is_valid peers key session =
     (case hm_get peers key of
        None \<Rightarrow> False
      | Some route \<Rightarrow> pro_device_public_key route \<noteq> [] \<and> pro_device_public_key route = peer_public_key session)"

definition expire_session :: "worker_config \<Rightarrow> worker_env \<Rightarrow> peer_key \<times> bool \<Rightarrow> 'a transport \<Rightarrow> 'a transport" where
  "expire_session C E = (\<lambda>(key, naturally_expired) t.
     (let t = observe (if naturally_expired then obs_expire (wc_revision C) key (we_instant E)
                       else obs_remove (wc_revision C) key) t
      in t\<lparr>tp_sessions := hm_remove key (tp_sessions t)\<rparr>))"

definition peer_path :: "nat \<Rightarrow> peer_key \<times> peer_route \<Rightarrow> peer_path_status option" where
  "peer_path now = (\<lambda>((network_id, device_id), route).
     map_option (\<lambda>candidate. \<lparr>pps_network_id = network_id, pps_device_id = device_id, pps_endpoint = pcd_endpoint candidate,
       pps_smoothed_rtt_ms = map_option (\<lambda>rtt. of_nat (min (rtt div milliseconds) (2 ^ 64 - 1))) (pcd_smoothed_rtt candidate),
       pps_consecutive_failures = pcd_consecutive_failures candidate\<rparr>) (best_candidate now route))"

definition update_peer_paths :: "nat \<Rightarrow> 'a transport \<Rightarrow> 'a transport" where
  "update_peer_paths now t = t\<lparr>tp_peer_paths := sort_key (\<lambda>path. (pps_network_id path, pps_device_id path))
     (List.map_filter (peer_path now) (tp_peers t))\<rparr>"

definition probe_peers :: "worker_config \<Rightarrow> worker_env \<Rightarrow> 'a transport \<Rightarrow> 'a transport" where
  "probe_peers C E t =
     (let device = fst (relay_snapshot t);
          peers = map (\<lambda>(key, route). (key, probed_route (we_instant E) route)) (tp_peers t);
          probes = concat (map (\<lambda>((i, _), route). map (\<lambda>endpoint. (endpoint, punch_packet i device RELAY_PUNCH)) (route_endpoints route)) peers);
          stale = List.map_filter (\<lambda>(key, session).
            if \<not> identity_is_valid peers key session \<or> session_is_expired (we_instant E) session
            then Some (key, session_is_expired (we_instant E) session) else None) (tp_sessions t)
      in update_peer_paths (we_instant E) (send_datagrams E probes (fold (expire_session C E) stale (t\<lparr>tp_peers := peers\<rparr>))))"

section \<open>Registrations\<close>

definition sign_registration_for_planet_service ::
  "'r root_ops_scheme \<Rightarrow> u8 option \<Rightarrow> root_registration_service_kind \<Rightarrow> service_identity_policy option \<Rightarrow> device_id
     \<Rightarrow> membership_certificate \<times> network_authorization_manifest \<Rightarrow> socket_addr list \<Rightarrow> u64 \<Rightarrow> bytes \<Rightarrow> bytes
     \<Rightarrow> root_protocol_error + root_registration option" where
  "sign_registration_for_planet_service R version kind identity device = (\<lambda>(certificate, authorization) candidates issued_at nonce key.
     (case version of
        None \<Rightarrow> rbind (registration_sign_authorized R device [certificate] [authorization] candidates issued_at nonce key) (Inr \<circ> Some)
      | Some v \<Rightarrow>
          if v = 3 \<or> v = 4 \<or> v = 5 then
            (case identity of
               None \<Rightarrow> Inr None
             | Some identity \<Rightarrow>
                 rbind (registration_sign_authorized_for_service R device [certificate] [authorization] candidates issued_at nonce
                          kind (sid_service_id identity) key) (Inr \<circ> Some))
          else if v = 1 \<or> v = 2 then
            rbind (registration_sign_authorized R device [certificate] [authorization] candidates issued_at nonce key) (Inr \<circ> Some)
          else Inr None))"

text \<open>The schedule of a target, made on first use, after a registration that was not answered in time has been counted as failed.\<close>

definition schedule_of :: "worker_env \<Rightarrow> device_id \<Rightarrow> registration_target \<Rightarrow> 'a transport \<Rightarrow> registration_schedule" where
  "schedule_of E device target t =
     fst (expire_if_timed_out (we_instant E) TRANSPORT_TRANSACTION_TTL
       (case hm_get (tp_registration_schedules t) target of
          None \<Rightarrow> schedule_new device target (we_instant E) | Some schedule \<Rightarrow> schedule))"

definition set_schedule :: "registration_target \<Rightarrow> registration_schedule \<Rightarrow> 'a transport \<Rightarrow> 'a transport" where
  "set_schedule target schedule t =
     t\<lparr>tp_registration_schedules := hm_insert target schedule (tp_registration_schedules t)\<rparr>"

definition send_relay_registration ::
  "worker_config \<Rightarrow> worker_env \<Rightarrow> network_id \<Rightarrow> socket_addr \<Rightarrow> bytes \<Rightarrow> 'a transport \<Rightarrow> 'a transport \<times> bool" where
  "send_relay_registration C E network_id endpoint packet t =
     (let (t, udp_sent) = transmit E UdpSocket endpoint packet t;
          (t, turn_sent) = transmit E TurnUdp endpoint packet t;
          (t, tls_path) = send_to_tls_relays E packet
            (filter (\<lambda>route. trr_relay_endpoint route = endpoint) (tls_relays_for (wc_configuration C) network_id)) t
      in (t, udp_sent \<or> turn_sent \<or> tls_path \<noteq> None))"

definition register_with_relay ::
  "'r worker_ops_scheme \<Rightarrow> worker_config \<Rightarrow> worker_env \<Rightarrow> uuid \<Rightarrow> device_id \<Rightarrow> bytes
     \<Rightarrow> membership_certificate \<times> network_authorization_manifest \<Rightarrow> socket_addr \<Rightarrow> ('a transport, worker_error, unit) action" where
  "register_with_relay R C E random device identity membership endpoint t =
     (let network_id = mcl_network_id (mc_claims (fst membership));
          target = \<lparr>rtg_network_id = network_id, rtg_endpoint = endpoint, rtg_kind = Relay\<rparr>;
          schedule = schedule_of E device target t;
          t = set_schedule target schedule t
      in if \<not> is_due (we_instant E) schedule then (t, Inr ())
         else
           let t = t\<lparr>tp_relay_transactions := hm_retain (\<lambda>_ transaction.
                 (rlt_network_id transaction, rlt_endpoint transaction) \<noteq> (network_id, endpoint)) (tp_relay_transactions t)\<rparr>;
               nonce = new_root_nonce random;
               version = planet_manifest_version_for (wc_configuration C) network_id;
               relay_identity = relay_identity_for (wc_configuration C) network_id endpoint
           in case sign_registration_for_planet_service R version RelayService relay_identity device membership
                     (tp_advertised_candidates t) (we_now E) nonce identity of
                Inl error \<Rightarrow> (t, Inl (RegistrationFailed error))
              | Inr None \<Rightarrow> (t, Inr ())
              | Inr (Some registration) \<Rightarrow>
                  (case wo_json_registration R registration of
                     None \<Rightarrow> (t, Inl EncodingFailed)
                   | Some encoded \<Rightarrow>
                       (case send_relay_registration C E network_id endpoint (RELAY_MAGIC @ [RELAY_REGISTER_SIGNED] @ encoded) t of
                          (t, True) \<Rightarrow>
                            (set_schedule target (mark_sent (we_instant E) schedule)
                               (t\<lparr>tp_relay_transactions := hm_insert nonce
                                   \<lparr>rlt_network_id = network_id, rlt_device_id = device, rlt_endpoint = endpoint,
                                    rlt_planet_manifest_version = version, rlt_identity = relay_identity,
                                    rlt_issued_at = we_instant E\<rparr> (tp_relay_transactions t)\<rparr>), Inr ())
                        | (t, False) \<Rightarrow> (set_schedule target (mark_send_failure (we_instant E) schedule) t, Inr ()))))"

definition register_with_root ::
  "'r worker_ops_scheme \<Rightarrow> worker_config \<Rightarrow> worker_env \<Rightarrow> uuid \<Rightarrow> device_id \<Rightarrow> bytes
     \<Rightarrow> membership_certificate \<times> network_authorization_manifest \<Rightarrow> planet_root \<Rightarrow> socket_addr \<Rightarrow> ('a transport, worker_error, unit) action" where
  "register_with_root R C E random device identity membership root endpoint t =
     (let network_id = mcl_network_id (mc_claims (fst membership));
          target = \<lparr>rtg_network_id = network_id, rtg_endpoint = endpoint, rtg_kind = Root\<rparr>;
          schedule = schedule_of E device target t;
          t = set_schedule target schedule t
      in if \<not> is_due (we_instant E) schedule then (t, Inr ())
         else
           let t = t\<lparr>tp_root_transactions := hm_retain (\<lambda>_ transaction.
                 rtx_network_id transaction \<noteq> network_id \<or> rtx_endpoint transaction \<noteq> endpoint) (tp_root_transactions t)\<rparr>;
               nonce = new_root_nonce random;
               version = planet_manifest_version_for (wc_configuration C) network_id
           in case sign_registration_for_planet_service R version RootService (pr_identity root) device membership
                     (tp_advertised_candidates t) (we_now E) nonce identity of
                Inl error \<Rightarrow> (t, Inl (RegistrationFailed error))
              | Inr None \<Rightarrow> (t, Inr ())
              | Inr (Some registration) \<Rightarrow>
                  (case wo_json_registration R registration of
                     None \<Rightarrow> (t, Inl EncodingFailed)
                   | Some encoded \<Rightarrow>
                       (case transmit E UdpSocket endpoint encoded t of
                          (t, True) \<Rightarrow>
                            (set_schedule target (mark_sent (we_instant E) schedule)
                               (t\<lparr>tp_root_transactions := hm_insert nonce
                                   \<lparr>rtx_network_id = network_id, rtx_endpoint = endpoint, rtx_public_key = pr_public_key root,
                                    rtx_identity = pr_identity root, rtx_issued_at = we_instant E\<rparr> (tp_root_transactions t)\<rparr>), Inr ())
                        | (t, False) \<Rightarrow> (set_schedule target (mark_send_failure (we_instant E) schedule) t, Inr ()))))"

definition register_membership ::
  "'r worker_ops_scheme \<Rightarrow> worker_config \<Rightarrow> worker_env \<Rightarrow> tick_input \<Rightarrow> device_id \<Rightarrow> bytes
     \<Rightarrow> membership_certificate \<times> network_authorization_manifest \<Rightarrow> ('a transport, worker_error, unit) action" where
  "register_membership R C E I device identity membership =
     (let network_id = mcl_network_id (mc_claims (fst membership))
      in abind (afor (\<lambda>endpoint. register_with_relay R C E (ti_relay_nonce I network_id endpoint) device identity membership endpoint)
                  (relay_endpoints_for (wc_configuration C) network_id)) (\<lambda>_.
         afor (\<lambda>root. afor (\<lambda>endpoint.
                 register_with_root R C E (ti_root_nonce I network_id endpoint) device identity membership root endpoint)
               (pr_endpoints root)) (root_servers_for (wc_configuration C) network_id)))"

definition active_targets ::
  "worker_config \<Rightarrow> (membership_certificate \<times> network_authorization_manifest) list \<Rightarrow> registration_target list" where
  "active_targets C memberships = concat (map (\<lambda>(certificate, _).
     let network_id = mcl_network_id (mc_claims certificate)
     in map (\<lambda>e. \<lparr>rtg_network_id = network_id, rtg_endpoint = e, rtg_kind = Relay\<rparr>) (relay_endpoints_for (wc_configuration C) network_id)
        @ concat (map (\<lambda>root. map (\<lambda>e. \<lparr>rtg_network_id = network_id, rtg_endpoint = e, rtg_kind = Root\<rparr>) (pr_endpoints root))
            (root_servers_for (wc_configuration C) network_id))) memberships)"

text \<open>A request to every STUN server, the \<open>k\<close>-th with the \<open>k\<close>-th random transaction.\<close>

definition send_stun_request :: "worker_env \<Rightarrow> uuid \<Rightarrow> socket_addr \<Rightarrow> 'a transport \<Rightarrow> 'a transport" where
  "send_stun_request E random server t =
     (let transaction_id = new_stun_transaction_id random
      in case transmit E UdpSocket server (stun_binding_request transaction_id) t of
           (t, True) \<Rightarrow> t\<lparr>tp_stun_transactions := hm_insert transaction_id
             \<lparr>stx_server = server, stx_issued_at = we_instant E\<rparr> (tp_stun_transactions t)\<rparr>
         | (t, False) \<Rightarrow> t)"

definition send_stun_requests :: "worker_env \<Rightarrow> tick_input \<Rightarrow> 'a transport \<Rightarrow> 'a transport" where
  "send_stun_requests E I t =
     fold (\<lambda>(k, server). send_stun_request E (ti_stun_random I k) server) (enumerate 0 (ti_stun_servers I)) t"

definition expire_transactions :: "worker_env \<Rightarrow> 'a transport \<Rightarrow> 'a transport" where
  "expire_transactions E t =
     t\<lparr>tp_stun_transactions := hm_retain (\<lambda>_ x. we_instant E - stx_issued_at x < 30 * nanoseconds) (tp_stun_transactions t),
       tp_root_transactions := hm_retain (\<lambda>_ x. we_instant E - rtx_issued_at x < TRANSPORT_TRANSACTION_TTL) (tp_root_transactions t),
       tp_relay_transactions := hm_retain (\<lambda>_ x. we_instant E - rlt_issued_at x < TRANSPORT_TRANSACTION_TTL) (tp_relay_transactions t)\<rparr>"

definition scan_registrations ::
  "'r worker_ops_scheme \<Rightarrow> 'x authz_ops_scheme \<Rightarrow> worker_config \<Rightarrow> worker_env \<Rightarrow> tick_input \<Rightarrow> bool
     \<Rightarrow> ('a transport, worker_error, unit) action" where
  "scan_registrations R X C E I stun_due t =
     (case root_registration_material X (we_now E) (ag_state (tp_agent t)) of
        None \<Rightarrow> (t, Inl IdentityUnavailable)
      | Some (device, identity, memberships) \<Rightarrow>
          abind (afor (register_membership R C E I device identity) memberships) (\<lambda>_ t.
            let t = t\<lparr>tp_registration_schedules := hm_retain (\<lambda>target _. target \<in> set (active_targets C memberships))
                  (tp_registration_schedules t)\<rparr>;
                t = expire_transactions E (if stun_due then send_stun_requests E I t else t)
            in (t\<lparr>tp_registration_backoff_seconds :=
                  of_nat (fold max (map (\<lambda>(_, s). rsc_last_delay s) (tp_registration_schedules t)) 0 div nanoseconds)\<rparr>, Inr ())) t)"

section \<open>Packets of the interface\<close>

text \<open>The ghost record of the packet that is sealed when the session is established.\<close>

definition sealed_for :: "peer_session_state option \<Rightarrow> (bytes \<times> bytes) list" where
  "sealed_for session =
     (case session of Some (EstablishedSession e) \<Rightarrow> seals (eds_keys e) (eds_next_sequence e) 1 | _ \<Rightarrow> [])"

definition forward_to_target ::
  "'s session_ops_scheme \<Rightarrow> worker_config \<Rightarrow> worker_env \<Rightarrow> bytes option \<times> bytes option \<Rightarrow> joined_network \<Rightarrow> bytes \<Rightarrow> device_id \<times> peer_route
     \<Rightarrow> ('a transport, worker_error, unit) action" where
  "forward_to_target S C E random network packet = (\<lambda>(target, route) t.
     (let key = (vn_id (jn_network network), target)
      in case prepare_outbound_peer_packet S (we_instant E) (we_now E) random (fst key) (fst (relay_snapshot t)) target
                (pro_device_public_key route) (wc_identity C) packet (tp_sessions t) of
           (sessions, prepared) \<Rightarrow>
             let t = t\<lparr>tp_sessions := sessions, tp_sealed := tp_sealed t
                   @ (if length (pro_device_public_key route) \<noteq> 32 then []
                      else sealed_for (hm_get (usable_sessions (we_instant E) (pro_device_public_key route) key (tp_sessions t)) key))\<rparr>
             in case prepared of
                  Inl error \<Rightarrow> (t, Inl (SessionFailed error))
                | Inr None \<Rightarrow> (t, Inr ())
                | Inr (Some (PreparedHandshake bytes)) \<Rightarrow> (note_path C E key False (send_peer_routed_packet C E network route bytes t), Inr ())
                | Inr (Some (PreparedData bytes)) \<Rightarrow> (note_path C E key True (send_peer_routed_packet C E network route bytes t), Inr ())))"

definition forward_packet ::
  "'s session_ops_scheme \<Rightarrow> 'x pool_ops_scheme \<Rightarrow> worker_config \<Rightarrow> worker_env \<Rightarrow> (device_id \<Rightarrow> bytes option \<times> bytes option) \<Rightarrow> bytes
     \<Rightarrow> ('a transport, worker_error, unit) action" where
  "forward_packet S X C E random packet t =
     (let (device, networks) = relay_snapshot t
      in case outbound_route_for_ip_packet X (Some (we_now E)) networks device packet of
           None \<Rightarrow> (t, Inr ())
         | Some route \<Rightarrow>
             if \<not> local_network_is_authorized X (onr_network route) (we_now E) then (t, Inr ())
             else afor (\<lambda>target. forward_to_target S C E (random (fst target)) (onr_network route) packet target)
                    (peer_targets_for_packet X (tp_peers t) (onr_network route) (onr_gateway route) packet) t)"

text \<open>At most 32 packets are read in one tick.\<close>

definition forward_packets ::
  "'s session_ops_scheme \<Rightarrow> 'x pool_ops_scheme \<Rightarrow> worker_config \<Rightarrow> worker_env \<Rightarrow> tick_input \<Rightarrow> ('a transport, worker_error, unit) action" where
  "forward_packets S X C E I =
     afor (\<lambda>(k, read). (case read of Inl _ \<Rightarrow> araise AdapterFailed | Inr packet \<Rightarrow> forward_packet S X C E (ti_handshake I k) packet))
       (enumerate 0 (take 32 (ti_packets I)))"

section \<open>The tick\<close>

text \<open>
  The result says whether the worker goes on. \<open>mapping\<close> is the mapped endpoint so far; it is renewed every half hour.
\<close>

definition maintain ::
  "'x pool_ops_scheme \<Rightarrow> worker_config \<Rightarrow> worker_env \<Rightarrow> tick_input \<Rightarrow> worker_timers \<times> socket_addr option \<times> 'a transport
     \<Rightarrow> worker_timers \<times> socket_addr option \<times> 'a transport" where
  "maintain X C E I = (\<lambda>(timers, mapping, t).
     let now = we_instant E;
         (mapping, t) = (if now \<ge> wt_port_mapping_refresh timers
            then (case ti_port_mapping I of
                    None \<Rightarrow> (mapping, t) | Some external \<Rightarrow> (Some external, renew_port_mapping mapping external t))
            else (mapping, t));
         timers = (if now \<ge> wt_port_mapping_refresh timers
            then timers\<lparr>wt_port_mapping_refresh := now + 1800 * nanoseconds\<rparr> else timers);
         t = forget_unauthorized X C E t;
         t = (if now \<ge> wt_handshake_retry timers then retry_handshakes X C E t else t);
         timers = (if now \<ge> wt_handshake_retry timers
            then timers\<lparr>wt_handshake_retry := now + 250 * milliseconds\<rparr> else timers);
         t = (if now \<ge> wt_peer_probe timers then probe_peers C E t else t);
         timers = (if now \<ge> wt_peer_probe timers then timers\<lparr>wt_peer_probe := now + 5 * nanoseconds\<rparr> else timers)
     in (timers, mapping, t))"

definition worker_tick ::
  "'s session_ops_scheme \<Rightarrow> 'r worker_ops_scheme \<Rightarrow> 'x pool_ops_scheme \<Rightarrow> 'a adapter_ops \<Rightarrow> worker_config \<Rightarrow> worker_env \<Rightarrow> tick_input
     \<Rightarrow> worker_timers \<times> socket_addr option \<times> 'a transport \<Rightarrow> (worker_timers \<times> socket_addr option \<times> 'a transport) \<times> (worker_error + bool)" where
  "worker_tick S R X A C E I = (\<lambda>(timers, mapping, t).
     if ag_transport_revision (tp_agent t) \<noteq> wc_revision C \<or> has_expired_planet (wc_configuration C) (we_now E)
     then ((timers, mapping, t), Inr False)
     else
       let (timers, mapping, t) = maintain X C E I (timers, mapping, t);
           scan = (we_instant E \<ge> wt_registration_scan timers);
           stun = (we_instant E \<ge> wt_stun_refresh timers)
       in case (if scan then scan_registrations R X C E I stun t else (t, Inr ())) of
            (t, Inl error) \<Rightarrow> ((timers\<lparr>wt_registration_scan := we_instant E + 250 * milliseconds\<rparr>, mapping, t), Inl error)
          | (t, Inr _) \<Rightarrow>
              let timers = (if scan then timers\<lparr>wt_registration_scan := we_instant E + 250 * milliseconds,
                     wt_stun_refresh := (if stun then we_instant E + 20 * nanoseconds else wt_stun_refresh timers)\<rparr> else timers)
              in if \<not> ado_is_active A (ag_adapter (tp_agent t)) then ((timers, mapping, t), Inr True)
                 else (case forward_packets S X C E I t of
                         (t, Inl error) \<Rightarrow> ((timers, mapping, t), Inl error)
                       | (t, Inr _) \<Rightarrow> ((timers, mapping, t), Inr True)))"

section \<open>The start of a worker\<close>

text \<open>Relay endpoints that no socket can reach are left out of the configuration.\<close>

definition usable_configuration :: "transport_sockets \<Rightarrow> transport_config \<Rightarrow> transport_config" where
  "usable_configuration N c = c\<lparr>tcf_relay_endpoints := filter (supports N) (tcf_relay_endpoints c),
     tcf_networks := map (\<lambda>(i, n). (i, n\<lparr>ntc_relay_endpoints := filter (supports N) (ntc_relay_endpoints n)\<rparr>)) (tcf_networks c)\<rparr>"

definition port_mapping_probe :: "transport_config \<Rightarrow> socket_addr option" where
  "port_mapping_probe c =
     (case find (\<lambda>e. is_ipv4 (sock_ip e)) (tcf_relay_endpoints c) of
        Some endpoint \<Rightarrow> Some endpoint
      | None \<Rightarrow> find (\<lambda>e. is_ipv4 (sock_ip e)) (concat (map pr_endpoints (tcf_root_servers c))))"

text \<open>\<open>establish\<close> asks the gateway for a mapping. What is kept of \<open>t\<close> belongs to the agent; the tables of the worker are new.\<close>

definition worker_start ::
  "transport_config \<Rightarrow> nat \<Rightarrow> (socket_addr \<Rightarrow> socket_addr option) \<Rightarrow> 'a transport \<Rightarrow> worker_timers \<times> socket_addr option \<times> 'a transport" where
  "worker_start c now establish t =
     (let mapping = (if tcf_upnp_enabled c then Option.bind (port_mapping_probe c) establish else None)
      in (\<lparr>wt_registration_scan = now, wt_stun_refresh = now, wt_port_mapping_refresh = now + 1800 * nanoseconds,
           wt_peer_probe = now, wt_handshake_retry = now\<rparr>, mapping,
          t\<lparr>tp_advertised_candidates := (case mapping of None \<Rightarrow> [] | Some external \<Rightarrow> [external]),
            tp_peers := [], tp_sessions := [], tp_seen_handshakes := [], tp_stun_transactions := [], tp_root_transactions := [],
            tp_relay_transactions := [], tp_registration_schedules := [], tp_endpoint_health := endpoint_health_default,
            tp_sent := [], tp_written := [], tp_sealed := []\<rparr>))"

end
