(* ===== verification/Session_Safety.thy ===== *)
theory Session_Safety
  imports Transport_Tick
begin

text \<open>
  The invariant of the transport worker. \<open>engine_ok\<close> speaks of the directory of peers, the sessions and the ghost record of
  encryptions; each way in which the handlers change these is shown to keep it, then each handler, then every run of a worker,
  whatever arrives, whatever can be sent and whatever the handlers of the agent do in between.
\<close>

section \<open>What the sends leave alone\<close>

text \<open>The parts of the worker that the invariant and the deliveries depend on.\<close>

definition tables where
  "tables t = (tp_peers t, tp_sessions t, tp_seen_handshakes t, tp_sealed t, tp_written t, ag_state (tp_agent t), ag_adapter (tp_agent t),
     ag_transport_revision (tp_agent t))"

lemma tables_eqD:
  assumes "tables t = tables t'"
  shows "tp_peers t = tp_peers t'" "tp_sessions t = tp_sessions t'" "tp_seen_handshakes t = tp_seen_handshakes t'"
    "tp_sealed t = tp_sealed t'" "tp_written t = tp_written t'" "ag_state (tp_agent t) = ag_state (tp_agent t')"
    "ag_adapter (tp_agent t) = ag_adapter (tp_agent t')" "relay_snapshot t = relay_snapshot t'"
    "ag_transport_revision (tp_agent t) = ag_transport_revision (tp_agent t')"
  using assms by (simp_all add: tables_def relay_snapshot_def)

lemma transmit_tables: "tables (fst (transmit E c e p t)) = tables t"
  by (simp add: transmit_def tables_def)

lemma observe_tables: "tables (observe f t) = tables t"
  by (simp add: observe_def tables_def)

lemma publish_tables: "tables (publish_session C E k s t) = tables t"
  by (simp add: publish_session_def observe_tables)

lemma send_datagrams_tables: "tables (send_datagrams E ds t) = tables t"
proof -
  have "tables (fold (\<lambda>(endpoint, packet) t. fst (transmit E UdpSocket endpoint packet t)) ds t) = tables t"
    by (induction ds arbitrary: t) (auto simp: transmit_tables)
  then show ?thesis by (simp add: send_datagrams_def)
qed

lemma send_to_inbound_path_tables: "tables (fst (send_to_inbound_path E i p t)) = tables t"
  by (simp add: send_to_inbound_path_def transmit_tables)

lemma send_all_to_inbound_path_tables: "tables (fst (send_all_to_inbound_path E i ps t)) = tables t"
proof (induction ps arbitrary: t)
  case (Cons p ps)
  then show ?case using send_to_inbound_path_tables [of E i p t] by (simp add: case_prod_beta)
qed simp

lemma send_to_tls_relays_tables: "tables (fst (send_to_tls_relays E p rs t)) = tables t"
proof (induction rs arbitrary: t)
  case (Cons r rs)
  then show ?case
    using transmit_tables [of E TlsRelayStream "trr_relay_endpoint r" p t]
    by (cases "transmit E TlsRelayStream (trr_relay_endpoint r) p t") (simp split: bool.split)
qed simp

lemma or_else_tables:
  assumes "\<And>t. tables (fst (f t)) = tables t" and "\<And>t. tables (fst (g t)) = tables t"
  shows "tables (fst (or_else f g t)) = tables t"
  using assms(1) [of t] assms(2) by (cases "f t") (simp add: or_else_def split: option.split)

lemma send_through_turn_tables: "tables (fst (send_through_turn E rs p t)) = tables t"
proof (cases rs)
  case (Cons r rest)
  show ?thesis
    using transmit_tables [of E TurnUdp r p t] transmit_tables [of E TurnTls r p "fst (transmit E TurnUdp r p t)"]
    by (cases "transmit E TurnUdp r p t") (simp add: send_through_turn_def Cons case_prod_beta split: bool.split)
qed (simp add: send_through_turn_def)

lemma send_peer_routed_packet_tables: "tables (fst (send_peer_routed_packet C E n r p t)) = tables t"
proof -
  have "tables (fst (send_directly E n r p t)) = tables t" for t :: "'a transport"
    by (simp add: send_directly_def case_prod_beta transmit_tables split: option.split)
  moreover have "tables (fst (send_through_relay E n rs p t)) = tables t" for rs and t :: "'a transport"
    by (simp add: send_through_relay_def case_prod_beta transmit_tables split: option.split)
  ultimately show ?thesis
    by (simp add: send_peer_routed_packet_def Let_def or_else_tables send_through_turn_tables send_to_tls_relays_tables)
qed

lemmas sends_keep_tables = transmit_tables observe_tables publish_tables send_datagrams_tables send_to_inbound_path_tables
  send_all_to_inbound_path_tables send_to_tls_relays_tables send_peer_routed_packet_tables

lemmas sent_fields [simp] = tables_eqD [OF transmit_tables] tables_eqD [OF observe_tables] tables_eqD [OF publish_tables]
  tables_eqD [OF send_datagrams_tables] tables_eqD [OF send_to_inbound_path_tables] tables_eqD [OF send_all_to_inbound_path_tables]
  tables_eqD [OF send_to_tls_relays_tables] tables_eqD [OF send_peer_routed_packet_tables]

section \<open>The invariant\<close>

definition directory_good :: "peer_directory \<Rightarrow> bool" where
  "directory_good peers \<longleftrightarrow> hm_ok peers \<and> agent_table.disjoint peers \<and> (\<forall>k r. hm_get peers k = Some r \<longrightarrow> route_ok r)"

fun session_good :: "peer_session_state \<Rightarrow> bool" where
  "session_good (PendingSession p) \<longleftrightarrow> length (pds_queued_packets p) \<le> SESSION_QUEUE_CAPACITY"
| "session_good (EstablishedSession e) \<longleftrightarrow> True"

text \<open>Every nonce used so far under the key of a session has a smaller sequence number than its next one.\<close>

definition nonces_below :: "(bytes \<times> bytes) list \<Rightarrow> established_session \<Rightarrow> bool" where
  "nonces_below sealed e \<longleftrightarrow> (\<forall>nonce. (psk_send_key (eds_keys e), nonce) \<in> set sealed \<longrightarrow>
     (\<exists>s < eds_next_sequence e. nonce = session_nonce (psk_session_id (eds_keys e)) s))"

definition established :: "session_table \<Rightarrow> peer_key \<Rightarrow> established_session \<Rightarrow> bool" where
  "established sessions k e \<longleftrightarrow> hm_get sessions k = Some (EstablishedSession e)"

definition used_keys :: "session_table \<Rightarrow> (bytes \<times> bytes) list \<Rightarrow> bytes set" where
  "used_keys sessions sealed = fst ` set sealed \<union> {psk_send_key (eds_keys e) | k e. established sessions k e}"

definition nonces_ok :: "session_table \<Rightarrow> (bytes \<times> bytes) list \<Rightarrow> bool" where
  "nonces_ok sessions sealed \<longleftrightarrow> distinct sealed
     \<and> (\<forall>k e. established sessions k e \<longrightarrow> nonces_below sealed e)
     \<and> (\<forall>k k' e e'. established sessions k e \<longrightarrow> established sessions k' e' \<longrightarrow>
          psk_send_key (eds_keys e) = psk_send_key (eds_keys e') \<longrightarrow> k = k')"

definition sessions_ok :: "peer_directory \<Rightarrow> session_table \<Rightarrow> bool" where
  "sessions_ok peers sessions \<longleftrightarrow> hm_ok sessions
     \<and> (\<forall>k s. hm_get sessions k = Some s \<longrightarrow> identity_is_valid peers k s \<and> session_good s)"

definition engine_ok :: "'a transport \<Rightarrow> bool" where
  "engine_ok t \<longleftrightarrow> directory_good (tp_peers t) \<and> sessions_ok (tp_peers t) (tp_sessions t) \<and> nonces_ok (tp_sessions t) (tp_sealed t)"

lemma engine_ok_tables: "tables t = tables t' \<Longrightarrow> engine_ok t = engine_ok t'"
  using tables_eqD [of t t'] by (simp add: engine_ok_def)

lemmas engine_ok_sends [simp] = engine_ok_tables [OF transmit_tables] engine_ok_tables [OF observe_tables]
  engine_ok_tables [OF publish_tables] engine_ok_tables [OF send_datagrams_tables] engine_ok_tables [OF send_to_inbound_path_tables]
  engine_ok_tables [OF send_all_to_inbound_path_tables] engine_ok_tables [OF send_to_tls_relays_tables]
  engine_ok_tables [OF send_peer_routed_packet_tables]

section \<open>Changes that keep it\<close>

text \<open>A session that keeps its peer, its keys and its sequence number.\<close>

fun same_session :: "peer_session_state \<Rightarrow> peer_session_state \<Rightarrow> bool" where
  "same_session (PendingSession p) (PendingSession p') \<longleftrightarrow> pds_peer_public_key p' = pds_peer_public_key p
     \<and> (length (pds_queued_packets p) \<le> SESSION_QUEUE_CAPACITY \<longrightarrow> length (pds_queued_packets p') \<le> SESSION_QUEUE_CAPACITY)"
| "same_session (EstablishedSession e) (EstablishedSession e') \<longleftrightarrow> eds_peer_public_key e' = eds_peer_public_key e
     \<and> eds_keys e' = eds_keys e \<and> eds_next_sequence e' = eds_next_sequence e"
| "same_session _ _ \<longleftrightarrow> False"

lemma same_session_refl [simp]: "same_session s s"
  by (cases s) simp_all

lemma same_session_trans: "same_session s s' \<Longrightarrow> same_session s' s'' \<Longrightarrow> same_session s s''"
  by (cases s; cases s'; cases s'') auto

lemma same_session_updates [simp]:
  "same_session s (set_path path s)" "same_session s (record_rejected_packet s)" "same_session s (record_authenticated_packet s)"
  "same_session s (record_encrypted_send_results results s)" "same_session s (mark_retry now s)"
  by (cases s; simp add: retried_def)+

lemma same_session_key: "same_session s s' \<Longrightarrow> peer_public_key s' = peer_public_key s"
  by (cases s; cases s') auto

lemma same_session_good: "same_session s s' \<Longrightarrow> session_good s \<Longrightarrow> session_good s'"
  by (cases s; cases s') auto

lemma same_session_established:
  "same_session s (EstablishedSession e) \<Longrightarrow> \<exists>e0. s = EstablishedSession e0 \<and> eds_keys e0 = eds_keys e
     \<and> eds_next_sequence e0 = eds_next_sequence e"
  by (cases s) auto

text \<open>A table in which every session is one of another table, perhaps touched.\<close>

definition touched :: "session_table \<Rightarrow> session_table \<Rightarrow> bool" where
  "touched sessions sessions' \<longleftrightarrow> hm_ok sessions'
     \<and> (\<forall>k s'. hm_get sessions' k = Some s' \<longrightarrow> (\<exists>s. hm_get sessions k = Some s \<and> same_session s s'))"

lemma nonces_ok_touched:
  assumes "nonces_ok sessions sealed" and "touched sessions sessions'"
  shows "nonces_ok sessions' sealed"
proof -
  have e: "\<exists>e0. established sessions k e0 \<and> eds_keys e0 = eds_keys e \<and> eds_next_sequence e0 = eds_next_sequence e"
    if "established sessions' k e" for k e
    using assms(2) that same_session_established unfolding touched_def established_def by blast
  have "nonces_below sealed e" if "established sessions' k e" for k e
  proof -
    from e [OF that]
    obtain e0 where "established sessions k e0" "eds_keys e0 = eds_keys e" "eds_next_sequence e0 = eds_next_sequence e" by blast
    then show ?thesis using assms(1) unfolding nonces_ok_def nonces_below_def by metis
  qed
  moreover have "k = k'" if "established sessions' k e1" "established sessions' k' e2"
    "psk_send_key (eds_keys e1) = psk_send_key (eds_keys e2)" for k k' e1 e2
    using e [OF that(1)] e [OF that(2)] that(3) assms(1) unfolding nonces_ok_def by metis
  ultimately show ?thesis using assms(1) unfolding nonces_ok_def by blast
qed

lemma engine_okD:
  assumes "engine_ok t"
  shows "directory_good (tp_peers t)" "hm_ok (tp_sessions t)" "nonces_ok (tp_sessions t) (tp_sealed t)"
    "hm_get (tp_sessions t) k = Some s \<Longrightarrow> identity_is_valid (tp_peers t) k s \<and> session_good s"
  using assms unfolding engine_ok_def sessions_ok_def by blast+

text \<open>A change of the directory and of the sessions in which no session loses its peer.\<close>

lemma engine_ok_adjust:
  assumes "engine_ok t" and "directory_good (tp_peers t')" and "touched (tp_sessions t) (tp_sessions t')"
    and "\<And>k s s'. hm_get (tp_sessions t) k = Some s \<Longrightarrow> hm_get (tp_sessions t') k = Some s' \<Longrightarrow> identity_is_valid (tp_peers t) k s
      \<Longrightarrow> same_session s s' \<Longrightarrow> identity_is_valid (tp_peers t') k s'"
    and "tp_sealed t' = tp_sealed t"
  shows "engine_ok t'"
proof -
  have "sessions_ok (tp_peers t') (tp_sessions t')"
    unfolding sessions_ok_def
  proof (intro conjI allI impI)
    show "hm_ok (tp_sessions t')" using assms(3) by (simp add: touched_def)
    fix k s'
    assume s': "hm_get (tp_sessions t') k = Some s'"
    then obtain s where s: "hm_get (tp_sessions t) k = Some s" "same_session s s'" using assms(3) unfolding touched_def by blast
    then have "identity_is_valid (tp_peers t) k s" "session_good s" using engine_okD(4) [OF assms(1)] by blast+
    then show "identity_is_valid (tp_peers t') k s'" "session_good s'"
      using assms(4) [OF s(1) s' _ s(2)] same_session_good [OF s(2)] by blast+
  qed
  then show ?thesis using assms(1,2,5) nonces_ok_touched [OF _ assms(3)] by (simp add: engine_ok_def)
qed

lemma identity_touched: "identity_is_valid peers k s \<Longrightarrow> same_session s s' \<Longrightarrow> identity_is_valid peers k s'"
  by (auto simp: identity_is_valid_def same_session_key split: option.splits)

lemma touched_insert:
  assumes "hm_ok sessions" and "hm_get sessions k = Some s" and "same_session s s'"
  shows "touched sessions (hm_insert k s' sessions)"
  using assms by (auto simp: touched_def)

lemma touched_refl: "hm_ok sessions \<Longrightarrow> touched sessions sessions"
  by (auto simp: touched_def intro: same_session_refl)

lemma touched_remove: "hm_ok sessions \<Longrightarrow> touched sessions (hm_remove k sessions)"
  by (auto simp: touched_def)

lemma update_session_fields [simp]:
  "tp_peers (update_session C E k f t) = tp_peers t" "tp_sealed (update_session C E k f t) = tp_sealed t"
  "tp_written (update_session C E k f t) = tp_written t" "ag_state (tp_agent (update_session C E k f t)) = ag_state (tp_agent t)"
  "ag_adapter (tp_agent (update_session C E k f t)) = ag_adapter (tp_agent t)"
  "relay_snapshot (update_session C E k f t) = relay_snapshot t"
  "tp_seen_handshakes (update_session C E k f t) = tp_seen_handshakes t"
  "ag_transport_revision (tp_agent (update_session C E k f t)) = ag_transport_revision (tp_agent t)"
  by (simp_all add: update_session_def relay_snapshot_def split: option.split)

lemma update_session_sessions:
  "tp_sessions (update_session C E k f t) =
     (case hm_get (tp_sessions t) k of None \<Rightarrow> tp_sessions t | Some s \<Rightarrow> hm_insert k (f s) (tp_sessions t))"
  by (simp add: update_session_def split: option.split)

lemma engine_ok_update_session:
  assumes "engine_ok t" and "\<And>s. same_session s (f s)"
  shows "engine_ok (update_session C E k f t)"
proof (rule engine_ok_adjust [OF assms(1)])
  show "touched (tp_sessions t) (tp_sessions (update_session C E k f t))"
    using engine_okD(2) [OF assms(1)] assms(2)
    by (auto simp: update_session_sessions intro: touched_refl touched_insert split: option.split)
qed (use engine_okD(1) [OF assms(1)] in \<open>simp_all add: identity_touched\<close>)

section \<open>The directory\<close>

lemma directory_goodD:
  assumes "directory_good peers"
  shows "hm_ok peers" "agent_table.disjoint peers" "hm_get peers k = Some r \<Longrightarrow> route_ok r"
  using assms unfolding directory_good_def by blast+

lemma directory_good_insert:
  assumes "directory_good peers" and "agent_table.disjoint (hm_insert k r peers)" and "route_ok r"
  shows "directory_good (hm_insert k r peers)"
  using assms by (simp add: directory_good_def)

lemma disjoint_shrink:
  assumes "agent_table.disjoint peers" and "hm_get peers k = Some r" and "set (pro_assigned_addresses r') \<subseteq> set (pro_assigned_addresses r)"
  shows "agent_table.disjoint (hm_insert k r' peers)"
  unfolding agent_table.disjoint_def
proof (intro allI impI)
  fix k1 p1 k2 p2
  assume "hm_get (hm_insert k r' peers) k1 = Some p1" "hm_get (hm_insert k r' peers) k2 = Some p2" "fst k1 = fst k2" "k1 \<noteq> k2"
  then show "set (pro_assigned_addresses p1) \<inter> set (pro_assigned_addresses p2) = {}"
    using agent_table.disjointD [OF assms(1), of k1 _ k2 _] assms(2,3) by (cases "k1 = k"; cases "k2 = k"; simp) blast+
qed

lemma directory_good_update:
  assumes "directory_good peers" and "hm_get peers k = Some r" and "route_kept r r'"
  shows "directory_good (hm_insert k r' peers)"
proof (rule directory_good_insert [OF assms(1)])
  have "set (pro_assigned_addresses r') \<subseteq> set (pro_assigned_addresses r)" using assms(3) by (auto simp: route_kept_def)
  then show "agent_table.disjoint (hm_insert k r' peers)" by (rule disjoint_shrink [OF directory_goodD(2) [OF assms(1)] assms(2)])
  show "route_ok r'" using directory_goodD(3) [OF assms(1,2)] assms(3) by (simp add: route_kept_def)
qed

lemma directory_good_unclaimed:
  assumes "directory_good peers" and "pro_assigned_addresses r = []" and "route_ok r"
  shows "directory_good (hm_insert k r peers)"
proof (rule directory_good_insert [OF assms(1)])
  note ok = directory_goodD(1,2) [OF assms(1)]
  have "\<not> directory_conflict peers k (pro_assigned_addresses r)"
    using agent_table.conflict_iff [OF ok(1), of k "[]"] by (simp add: assms(2))
  then show "agent_table.disjoint (hm_insert k r peers)" by (rule agent_table.disjoint_insert [OF ok])
qed (rule assms(3))

lemma directory_good_retain: "directory_good peers \<Longrightarrow> directory_good (hm_retain P peers)"
  unfolding directory_good_def using agent_table.disjoint_retain [of peers P] by (auto dest!: hm_get_retainD)

lemma route_kept_trans: "route_kept a b \<Longrightarrow> route_kept b c \<Longrightarrow> route_kept a c"
  by (auto simp: route_kept_def)

lemma hm_get_map_values: "hm_get (map (\<lambda>(k, v). (k, f v)) m) k = map_option f (hm_get m k)"
  by (induction m) (auto simp: hm_get_def)

lemma hm_ok_map_values: "hm_ok (map (\<lambda>(k, v). (k, f v)) m) = hm_ok m"
  by (simp add: hm_ok_def case_prod_beta comp_def)

lemma directory_good_map:
  assumes "directory_good peers" and "\<And>r. route_kept r (f r)"
  shows "directory_good (map (\<lambda>(k, r). (k, f r)) peers)"
proof -
  have sub: "set (pro_assigned_addresses (f r)) \<subseteq> set (pro_assigned_addresses r)" for r
    using assms(2) [of r] by (auto simp: route_kept_def)
  have "agent_table.disjoint (map (\<lambda>(k, r). (k, f r)) peers)"
    unfolding agent_table.disjoint_def
  proof (intro allI impI)
    fix k1 p1 k2 p2
    assume "hm_get (map (\<lambda>(k, r). (k, f r)) peers) k1 = Some p1" "hm_get (map (\<lambda>(k, r). (k, f r)) peers) k2 = Some p2"
      "fst k1 = fst k2" "k1 \<noteq> k2"
    then obtain r1 r2 where r: "hm_get peers k1 = Some r1" "hm_get peers k2 = Some r2" and p: "p1 = f r1" "p2 = f r2"
      by (auto simp: hm_get_map_values)
    have "set (pro_assigned_addresses r1) \<inter> set (pro_assigned_addresses r2) = {}"
      by (rule agent_table.disjointD [OF directory_goodD(2) [OF assms(1)] r]) fact+
    then show "set (pro_assigned_addresses p1) \<inter> set (pro_assigned_addresses p2) = {}" using sub [of r1] sub [of r2] p by blast
  qed
  moreover have "route_ok r'" if "hm_get (map (\<lambda>(k, r). (k, f r)) peers) k = Some r'" for k r'
  proof -
    from that obtain r where "hm_get peers k = Some r" "r' = f r" unfolding hm_get_map_values by blast
    then show ?thesis using directory_goodD(3) [OF assms(1)] assms(2) [of r] by (simp add: route_kept_def)
  qed
  ultimately show ?thesis using directory_goodD(1) [OF assms(1)] by (simp add: directory_good_def hm_ok_map_values)
qed

lemma route_key_kept [simp]:
  "pro_device_public_key (add_candidate e r) = pro_device_public_key r"
  "pro_device_public_key (mark_probe_sent e now r) = pro_device_public_key r"
  "pro_device_public_key (fst (mark_success e now r)) = pro_device_public_key r"
  by (simp_all add: add_candidate_def mark_probe_sent_def mark_success_def)

lemma engine_ok_peers:
  assumes "engine_ok t" and "directory_good peers"
    and "\<And>k s. hm_get (tp_sessions t) k = Some s \<Longrightarrow> identity_is_valid (tp_peers t) k s \<Longrightarrow> identity_is_valid peers k s"
  shows "engine_ok (t\<lparr>tp_peers := peers\<rparr>)"
  using assms unfolding engine_ok_def sessions_ok_def by simp

lemma engine_ok_route:
  assumes "engine_ok t" and "hm_get (tp_peers t) k = Some r" and "route_kept r r'"
    and "pro_device_public_key r' = pro_device_public_key r"
  shows "engine_ok (t\<lparr>tp_peers := hm_insert k r' (tp_peers t)\<rparr>)"
proof (rule engine_ok_peers [OF assms(1)])
  show "directory_good (hm_insert k r' (tp_peers t))" by (rule directory_good_update [OF engine_okD(1) [OF assms(1)] assms(2,3)])
qed (use assms(2,4) in \<open>auto simp: identity_is_valid_def split: option.splits\<close>)

lemma engine_ok_new_route:
  assumes "engine_ok t" and "hm_get (tp_peers t) k = None" and "pro_assigned_addresses r = []" and "route_ok r"
  shows "engine_ok (t\<lparr>tp_peers := hm_insert k r (tp_peers t)\<rparr>)"
proof (rule engine_ok_peers [OF assms(1)])
  show "directory_good (hm_insert k r (tp_peers t))" by (rule directory_good_unclaimed [OF engine_okD(1) [OF assms(1)] assms(3,4)])
qed (use assms(2) in \<open>auto simp: identity_is_valid_def split: option.splits\<close>)

lemma engine_ok_learn_candidate:
  assumes "engine_ok t"
  shows "engine_ok (learn_candidate E k c t)"
proof (cases "hm_get (tp_peers t) k")
  case None
  have "route_ok (mark_probe_sent c (we_instant E) (peer_route_new c))"
    using mark_probe_sent_kept [of "peer_route_new c" c "we_instant E"]
    by (simp add: route_kept_def) (simp add: route_ok_def peer_route_new_def peer_route_empty_def route_endpoints_def)
  moreover have "pro_assigned_addresses (mark_probe_sent c (we_instant E) (peer_route_new c)) = []"
    by (simp add: mark_probe_sent_def peer_route_new_def peer_route_empty_def)
  ultimately show ?thesis using engine_ok_new_route [OF assms None] by (simp add: learn_candidate_def None Let_def)
next
  case (Some r)
  have "route_kept r (mark_probe_sent c (we_instant E) (add_candidate c r))"
    using add_candidate_kept mark_probe_sent_kept by (rule route_kept_trans)
  then show ?thesis using engine_ok_route [OF assms Some] by (simp add: learn_candidate_def Some Let_def)
qed

lemma update_peer_membership_result:
  assumes "update_peer_membership X now peers c self networks = (peers', result)" and "directory_good peers"
  defines "key \<equiv> (mcl_network_id (mc_claims c), mcl_device_id (mc_claims c))"
    and "pk \<equiv> mcl_device_public_key (mc_claims c)"
  shows "directory_good peers'"
    "result = None \<Longrightarrow> peers' = peers"
    "result = Some changed \<Longrightarrow> length pk = 32 \<and> (\<exists>r. peers' = hm_insert key r peers \<and> pro_device_public_key r = pk)
       \<and> (changed \<longleftrightarrow> (case hm_get peers key of None \<Rightarrow> False
            | Some r0 \<Rightarrow> pro_device_public_key r0 \<noteq> [] \<and> pro_device_public_key r0 \<noteq> pk))"
proof -
  let ?as = "mcl_assigned_addresses (mc_claims c)"
  obtain mid b where mid: "update_peer_addresses X now peers key ?as self networks = (mid, b)" by force
  have all: "directory_good peers' \<and> (result = None \<longrightarrow> peers' = peers)
    \<and> (result = Some changed \<longrightarrow> length pk = 32 \<and> (\<exists>r. peers' = hm_insert key r peers \<and> pro_device_public_key r = pk)
       \<and> (changed \<longleftrightarrow> (case hm_get peers key of None \<Rightarrow> False
            | Some r0 \<Rightarrow> pro_device_public_key r0 \<noteq> [] \<and> pro_device_public_key r0 \<noteq> pk)))" for changed
  proof (cases "b \<and> length pk = 32")
    case False
    then have "peers' = peers \<and> result = None"
      using assms(1) mid update_peer_addresses_False [of X now peers key ?as self networks mid]
      by (cases b) (auto simp: update_peer_membership_def Let_def key_def pk_def split: if_splits)
    then show ?thesis using assms(2) by simp
  next
    case True
    then have upd: "update_peer_addresses X now peers key ?as self networks = (mid, True)" and len: "length pk = 32"
      using mid by simp_all
    from upd show ?thesis
    proof (rule update_peer_addresses_True)
      fix n r
      let ?addrs = "remdups_adj (sort ?as)"
      let ?r = "set_assigned_addresses_at ?addrs now r\<lparr>pro_device_public_key := pk\<rparr>"
      assume free: "\<not> directory_conflict peers key ?addrs"
        and r: "r = (case hm_get peers key of None \<Rightarrow> peer_route_empty | Some r \<Rightarrow> r)"
        and mid': "mid = hm_insert key (set_assigned_addresses_at ?addrs now r) peers"
      have "route_ok r"
        using directory_goodD(3) [OF assms(2)] unfolding r
        by (auto simp: route_ok_def peer_route_empty_def route_endpoints_def split: option.split)
      then have ok: "route_ok ?r" using len by (simp add: route_ok_def route_endpoints_def set_assigned_addresses_at_def)
      have dis: "agent_table.disjoint (hm_insert key ?r peers)"
        by (rule agent_table.disjoint_insert [OF directory_goodD(1,2) [OF assms(2)]])
          (use free in \<open>simp add: set_assigned_addresses_at_def\<close>)
      have "peers' = hm_insert key ?r peers \<and> result = Some ((case hm_get peers key of None \<Rightarrow> [] | Some r \<Rightarrow> pro_device_public_key r) \<noteq> []
          \<and> (case hm_get peers key of None \<Rightarrow> [] | Some r \<Rightarrow> pro_device_public_key r) \<noteq> pk)"
        using assms(1) upd len by (simp add: update_peer_membership_def Let_def mid' key_def pk_def)
      then show ?thesis using directory_good_insert [OF assms(2) dis ok] len by (auto split: option.split)
    qed
  qed
  show "directory_good peers'" "result = None \<Longrightarrow> peers' = peers"
    "result = Some changed \<Longrightarrow> length pk = 32 \<and> (\<exists>r. peers' = hm_insert key r peers \<and> pro_device_public_key r = pk)
       \<and> (changed \<longleftrightarrow> (case hm_get peers key of None \<Rightarrow> False
            | Some r0 \<Rightarrow> pro_device_public_key r0 \<noteq> [] \<and> pro_device_public_key r0 \<noteq> pk))"
    using all by blast+
qed

lemma engine_ok_drop:
  assumes "engine_ok t"
  shows "engine_ok (t\<lparr>tp_sessions := hm_remove k (tp_sessions t)\<rparr>)"
proof (rule engine_ok_adjust [OF assms])
  show "touched (tp_sessions t) (tp_sessions (t\<lparr>tp_sessions := hm_remove k (tp_sessions t)\<rparr>))"
    using engine_okD(2) [OF assms] by (simp add: touched_remove)
qed (use engine_okD(1) [OF assms] in \<open>simp_all add: identity_touched\<close>)

lemma engine_ok_drop_session: "engine_ok t \<Longrightarrow> engine_ok (drop_session C k t)"
  unfolding drop_session_def engine_ok_sends by (rule engine_ok_drop)

text \<open>A session with a peer whose key changes is dropped; one with a peer whose key was not known cannot exist.\<close>

lemma engine_ok_install_membership:
  assumes "engine_ok t"
  shows "engine_ok (fst (install_peer_membership X C E c t))"
proof -
  obtain device networks where snap: "relay_snapshot t = (device, networks)" by force
  let ?key = "(mcl_network_id (mc_claims c), mcl_device_id (mc_claims c))"
  let ?pk = "mcl_device_public_key (mc_claims c)"
  obtain peers result where u: "update_peer_membership X (we_instant E) (tp_peers t) c device networks = (peers, result)" by force
  note res = update_peer_membership_result [OF u engine_okD(1) [OF assms]]
  show ?thesis
  proof (cases result)
    case None
    then show ?thesis using assms res(2) by (simp add: install_peer_membership_def snap u)
  next
    case (Some changed)
    obtain r where r: "peers = hm_insert ?key r (tp_peers t)" "pro_device_public_key r = ?pk" "length ?pk = 32"
      and changed: "changed \<longleftrightarrow> (case hm_get (tp_peers t) ?key of None \<Rightarrow> False
            | Some r0 \<Rightarrow> pro_device_public_key r0 \<noteq> [] \<and> pro_device_public_key r0 \<noteq> ?pk)"
      using res(3) [OF Some] by (elim conjE exE) (rule that; assumption)
    define t1 where "t1 = (if changed then t\<lparr>tp_sessions := hm_remove ?key (tp_sessions t)\<rparr> else t)"
    have t1: "tp_peers t1 = tp_peers t" "tp_sessions t1 = (if changed then hm_remove ?key (tp_sessions t) else tp_sessions t)"
      by (simp_all add: t1_def)
    have ok: "engine_ok t1" unfolding t1_def by (cases changed) (simp_all add: assms engine_ok_drop)
    have "engine_ok (t1\<lparr>tp_peers := peers\<rparr>)"
    proof (rule engine_ok_peers [OF ok res(1)])
      fix k s
      assume s: "hm_get (tp_sessions t1) k = Some s" "identity_is_valid (tp_peers t1) k s"
      show "identity_is_valid peers k s"
      proof (cases "k = ?key")
        case True
        have kept: "\<not> changed" using s(1) unfolding t1 True by (cases changed) simp_all
        obtain r0 where r0: "hm_get (tp_peers t) ?key = Some r0" "pro_device_public_key r0 \<noteq> []" "pro_device_public_key r0 = peer_public_key s"
          using s(2) unfolding t1 True identity_is_valid_def by (cases "hm_get (tp_peers t) ?key") auto
        have "?pk = peer_public_key s" "?pk \<noteq> []" using changed kept r0 by simp_all
        then show ?thesis by (simp add: identity_is_valid_def r True)
      next
        case False
        then show ?thesis using s(2) by (simp add: identity_is_valid_def r t1)
      qed
    qed
    moreover have "tables (fst (install_peer_membership X C E c t)) = tables (t1\<lparr>tp_peers := peers\<rparr>)"
      by (cases changed) (simp_all add: install_peer_membership_def snap u Some drop_session_def observe_tables t1_def, simp_all add: tables_def)
    ultimately show ?thesis by (rule engine_ok_tables [THEN iffD2, rotated])
  qed
qed

lemma engine_ok_fold: "engine_ok t \<Longrightarrow> (\<And>x t. engine_ok t \<Longrightarrow> engine_ok (f x t)) \<Longrightarrow> engine_ok (fold f xs t)"
  by (induction xs arbitrary: t) auto

lemma engine_ok_afor:
  assumes "engine_ok t" and "\<And>x t. engine_ok t \<Longrightarrow> engine_ok (fst (f x t))"
  shows "engine_ok (fst (afor f xs t))"
  using assms(1)
proof (induction xs arbitrary: t)
  case (Cons x xs)
  then show ?case using assms(2) [of t x] by (cases "f x t") (simp add: abind_def split: sum.split)
qed (simp add: areturn_def)

lemma engine_ok_discovered_peer:
  assumes "engine_ok t"
  shows "engine_ok (discovered_peer X C E n peer t)"
proof -
  have "engine_ok (fold (learn_candidate E k) cs (fst (install_peer_membership X C E c t)))" for k cs c
    by (rule engine_ok_fold [OF engine_ok_install_membership [OF assms]]) (rule engine_ok_learn_candidate)
  moreover have "engine_ok (fst (install_peer_membership X C E c t))" for c by (rule engine_ok_install_membership [OF assms])
  ultimately have "engine_ok (case install_peer_membership X C E c t of (t, False) \<Rightarrow> t | (t, True) \<Rightarrow> fold (learn_candidate E k) cs t)" for k cs c
    by (simp add: case_prod_beta split: bool.split)
  then show ?thesis using assms by (simp add: discovered_peer_def case_prod_beta Let_def split: option.split)
qed

text \<open>Updates of the tables that the invariant does not mention.\<close>

lemma engine_ok_other_tables [simp]:
  "engine_ok (t\<lparr>tp_stun_transactions := a\<rparr>) = engine_ok t" "engine_ok (t\<lparr>tp_root_transactions := b\<rparr>) = engine_ok t"
  "engine_ok (t\<lparr>tp_relay_transactions := c\<rparr>) = engine_ok t" "engine_ok (t\<lparr>tp_advertised_candidates := d\<rparr>) = engine_ok t"
  "engine_ok (t\<lparr>tp_registration_schedules := e\<rparr>) = engine_ok t" "engine_ok (t\<lparr>tp_endpoints := f\<rparr>) = engine_ok t"
  "engine_ok (t\<lparr>tp_endpoint_health := g\<rparr>) = engine_ok t" "engine_ok (t\<lparr>tp_agent := h\<rparr>) = engine_ok t"
  "engine_ok (t\<lparr>tp_relay_confirmations_accepted := i\<rparr>) = engine_ok t" "engine_ok (t\<lparr>tp_relay_confirmations_rejected := j\<rparr>) = engine_ok t"
  "engine_ok (t\<lparr>tp_authorization_hint_refreshes := l\<rparr>) = engine_ok t" "engine_ok (t\<lparr>tp_peer_paths := m\<rparr>) = engine_ok t"
  "engine_ok (t\<lparr>tp_seen_handshakes := n\<rparr>) = engine_ok t" "engine_ok (t\<lparr>tp_written := q\<rparr>) = engine_ok t"
  "engine_ok (t\<lparr>tp_registration_backoff_seconds := r\<rparr>) = engine_ok t"
  by (simp_all add: engine_ok_def)

lemma engine_ok_hint [simp]: "engine_ok (fst (consider_hint X E hint t)) = engine_ok t"
  by (simp add: consider_hint_def case_prod_beta)

lemma engine_ok_mark_registered [simp]: "engine_ok (mark_registered E n e k t) = engine_ok t"
  by (simp add: mark_registered_def Let_def split: option.split)

lemma engine_ok_confirm [simp]: "engine_ok (confirm_registration E n e t) = engine_ok t" "engine_ok (reject_confirmation t) = engine_ok t"
  by (simp_all add: confirm_registration_def reject_confirmation_def Let_def)

lemma engine_ok_root_response:
  assumes "engine_ok t"
  shows "engine_ok (apply_root_response X C E n remote response t)"
proof (cases response)
  case (Registered observed discovered refresh hints)
  have "engine_ok (fold (\<lambda>hint t. if aeh_network_id hint = n then fst (consider_hint X E hint t) else t) hints
      ((mark_registered E n remote Root t)\<lparr>tp_endpoints := mark_root_responsive n remote (we_instant E)
         (tp_endpoints (mark_registered E n remote Root t))\<rparr>))"
    by (rule engine_ok_fold) (simp_all add: assms)
  then show ?thesis
    unfolding apply_root_response_def Registered Let_def root_response.case
    by (rule engine_ok_fold) (rule engine_ok_discovered_peer)
qed (simp add: apply_root_response_def assms)

section \<open>Encryptions\<close>

lemma seals_nth: "(key, nonce) \<in> set (seals keys start n) \<longleftrightarrow>
    key = psk_send_key keys \<and> (\<exists>k < n. nonce = session_nonce (psk_session_id keys) (start + of_nat k))"
  by (auto simp: seals_def)

lemma of_nat_less_u64: "k < n \<Longrightarrow> n < 2 ^ 64 \<Longrightarrow> (of_nat k :: u64) < of_nat n"
  by (simp add: word_less_nat_alt unat_of_nat)

lemma distinct_seals: "n < 2 ^ 64 \<Longrightarrow> distinct (seals keys start n)"
proof -
  assume n: "n < 2 ^ 64"
  have "inj_on (\<lambda>k. (psk_send_key keys, session_nonce (psk_session_id keys) (start + of_nat k))) (set [0..<n])"
  proof (rule inj_onI)
    fix a b
    assume ab: "a \<in> set [0..<n]" "b \<in> set [0..<n]"
      "(psk_send_key keys, session_nonce (psk_session_id keys) (start + of_nat a))
         = (psk_send_key keys, session_nonce (psk_session_id keys) (start + of_nat b))"
    then have "(of_nat a :: u64) = of_nat b" by (simp add: session_nonce_def)
    moreover have "a < 2 ^ 64" "b < 2 ^ 64" using ab n by auto
    moreover have "unat (of_nat a :: u64) = unat (of_nat b :: u64)" using calculation(1) by (rule arg_cong)
    ultimately show "a = b" unfolding unat_of_nat by simp
  qed
  then show ?thesis unfolding seals_def distinct_map by simp
qed

lemma nonces_okD:
  assumes "nonces_ok sessions sealed"
  shows "distinct sealed" "established sessions k e \<Longrightarrow> nonces_below sealed e"
    "established sessions k e \<Longrightarrow> established sessions k' e' \<Longrightarrow> psk_send_key (eds_keys e) = psk_send_key (eds_keys e') \<Longrightarrow> k = k'"
  using assms unfolding nonces_ok_def by blast+

lemma nonces_okI:
  assumes "distinct sealed" and "\<And>k e. established sessions k e \<Longrightarrow> nonces_below sealed e"
    and "\<And>k e k' e'. established sessions k e \<Longrightarrow> established sessions k' e' \<Longrightarrow>
      psk_send_key (eds_keys e) = psk_send_key (eds_keys e') \<Longrightarrow> k = k'"
  shows "nonces_ok sessions sealed"
  using assms unfolding nonces_ok_def by blast

lemma nonces_below_append_other:
  "nonces_below sealed e \<Longrightarrow> psk_send_key (eds_keys e) \<notin> fst ` set later \<Longrightarrow> nonces_below (sealed @ later) e"
  unfolding nonces_below_def by force

text \<open>A session under a key that was not used before, with the packets sealed under it so far.\<close>

lemma nonces_ok_install:
  assumes "nonces_ok sessions sealed" and "psk_send_key (eds_keys e) \<notin> used_keys sessions sealed"
    and "eds_next_sequence e = of_nat n" and "n < 2 ^ 64"
  shows "nonces_ok (hm_insert k (EstablishedSession e) sessions) (sealed @ seals (eds_keys e) 0 n)"
proof -
  let ?sessions = "hm_insert k (EstablishedSession e) sessions" and ?sealed = "sealed @ seals (eds_keys e) 0 n"
  have fresh: "psk_send_key (eds_keys e) \<notin> fst ` set sealed"
    "\<And>k' e'. established sessions k' e' \<Longrightarrow> psk_send_key (eds_keys e') \<noteq> psk_send_key (eds_keys e)"
    using assms(2) unfolding used_keys_def by auto
  have new: "fst ` set (seals (eds_keys e) 0 n) \<subseteq> {psk_send_key (eds_keys e)}" by (auto simp: seals_def)
  have est: "established ?sessions k' e' \<longleftrightarrow> (if k' = k then e' = e else established sessions k' e')" for k' e'
    by (auto simp: established_def)
  show ?thesis
  proof (rule nonces_okI)
    have "set sealed \<inter> set (seals (eds_keys e) 0 n) = {}" using fresh(1) by (auto simp: seals_def image_iff)
    then show "distinct ?sealed" using nonces_okD(1) [OF assms(1)] distinct_seals [OF assms(4)] by simp
    fix k1 e1
    assume e1: "established ?sessions k1 e1"
    show "nonces_below ?sealed e1"
    proof (cases "k1 = k")
      case True
      then have "e1 = e" using e1 by (simp add: est)
      moreover have "(psk_send_key (eds_keys e), nonce) \<notin> set sealed" for nonce using fresh(1) by force
      ultimately show ?thesis
        using of_nat_less_u64 [OF _ assms(4)] assms(3) by (auto simp: nonces_below_def seals_nth)
    next
      case False
      then have old: "established sessions k1 e1" using e1 by (simp add: est)
      show ?thesis
        by (rule nonces_below_append_other [OF nonces_okD(2) [OF assms(1) old]]) (use fresh(2) [OF old] new in blast)
    qed
    fix k2 e2
    assume e2: "established ?sessions k2 e2" and same: "psk_send_key (eds_keys e1) = psk_send_key (eds_keys e2)"
    show "k1 = k2"
    proof (cases "k1 = k \<or> k2 = k")
      case True
      then show ?thesis using e1 e2 same fresh(2) [of k1 e1] fresh(2) [of k2 e2] by (auto simp: est split: if_splits)
    next
      case False
      then show ?thesis using e1 e2 nonces_okD(3) [OF assms(1) _ _ same] by (simp add: est)
    qed
  qed
qed

text \<open>The next packet of a session.\<close>

lemma nonces_ok_seal:
  assumes "nonces_ok sessions sealed" and "established sessions k e" and "eds_next_sequence e \<noteq> - 1"
    and "eds_keys e' = eds_keys e" and "eds_next_sequence e' = saturating_add (eds_next_sequence e) 1"
  shows "nonces_ok (hm_insert k (EstablishedSession e') sessions) (sealed @ seals (eds_keys e) (eds_next_sequence e) 1)"
proof -
  let ?sessions = "hm_insert k (EstablishedSession e') sessions"
  let ?nonce = "session_nonce (psk_session_id (eds_keys e)) (eds_next_sequence e)"
  have one: "seals (eds_keys e) (eds_next_sequence e) 1 = [(psk_send_key (eds_keys e), ?nonce)]" by (simp add: seals_def)
  have est: "established ?sessions k' f \<longleftrightarrow> (if k' = k then f = e' else established sessions k' f)" for k' f
    by (auto simp: established_def)
  note below = nonces_okD(2) [OF assms(1,2)]
  have less: "eds_next_sequence e < eds_next_sequence e'" using assms(3,5) by (simp add: saturating_add_one_gt)
  show ?thesis
  proof (rule nonces_okI)
    have "(psk_send_key (eds_keys e), ?nonce) \<notin> set sealed"
      using below unfolding nonces_below_def by (auto simp: session_nonce_def)
    then show "distinct (sealed @ seals (eds_keys e) (eds_next_sequence e) 1)" unfolding one using nonces_okD(1) [OF assms(1)] by simp
    fix k1 e1
    assume e1: "established ?sessions k1 e1"
    show "nonces_below (sealed @ seals (eds_keys e) (eds_next_sequence e) 1) e1"
    proof (cases "k1 = k")
      case True
      then have e1': "e1 = e'" using e1 by (simp add: est)
      show ?thesis
        unfolding nonces_below_def e1' assms(4) one
      proof (intro allI impI)
        fix nonce
        assume "(psk_send_key (eds_keys e), nonce) \<in> set (sealed @ [(psk_send_key (eds_keys e), ?nonce)])"
        then consider "(psk_send_key (eds_keys e), nonce) \<in> set sealed" | "nonce = ?nonce" by auto
        then show "\<exists>s < eds_next_sequence e'. nonce = session_nonce (psk_session_id (eds_keys e)) s"
        proof cases
          case 1
          then show ?thesis using below less unfolding nonces_below_def by (meson order_less_trans)
        qed (use less in blast)
      qed
    next
      case False
      then have old: "established sessions k1 e1" using e1 by (simp add: est)
      then have "psk_send_key (eds_keys e1) \<noteq> psk_send_key (eds_keys e)" using nonces_okD(3) [OF assms(1) old assms(2)] False by blast
      then show ?thesis by (intro nonces_below_append_other [OF nonces_okD(2) [OF assms(1) old]]) (simp add: one [simplified])
    qed
    fix k2 e2
    assume e2: "established ?sessions k2 e2" and same: "psk_send_key (eds_keys e1) = psk_send_key (eds_keys e2)"
    have "\<exists>f. established sessions k' f \<and> psk_send_key (eds_keys f) = psk_send_key (eds_keys g)" if "established ?sessions k' g" for k' g
      using that assms(2,4) by (cases "k' = k") (auto simp: est)
    from this [OF e1] this [OF e2] show "k1 = k2" using nonces_okD(3) [OF assms(1)] same by metis
  qed
qed

section \<open>Datagrams\<close>

lemma engine_ok_handle_root:
  "engine_ok t \<Longrightarrow> engine_ok (fst (handle_root_response R X C E i t))"
  by (simp add: handle_root_response_def engine_ok_root_response split: option.split)

lemma engine_ok_stun: "engine_ok t \<Longrightarrow> engine_ok (receive_stun_success C E remote tid c t)"
  by (simp add: receive_stun_success_def Let_def case_prod_beta split: option.split)

lemma engine_ok_counted_hint:
  "engine_ok t \<Longrightarrow> engine_ok (case consider_hint X E h t of
     (t, True) \<Rightarrow> t\<lparr>tp_authorization_hint_refreshes := tp_authorization_hint_refreshes t + 1\<rparr> | (t, False) \<Rightarrow> t)"
  using engine_ok_hint [of X E h t] by (cases "consider_hint X E h t") (simp split: bool.split)

lemma engine_ok_signed_ack:
  assumes "engine_ok t"
  shows "engine_ok (receive_signed_ack R X E i t)"
proof (cases "wo_parse_ack R (drop 5 (in_packet i))")
  case (Some a)
  obtain transactions health result where ack: "acknowledge_signed_relay_registration R a (in_remote i) (we_instant E) (we_now E)
      (tp_relay_transactions t, tp_endpoint_health t) = ((transactions, health), result)" by (metis prod.exhaust)
  show ?thesis
  proof (cases result)
    case None
    then show ?thesis using assms by (simp add: receive_signed_ack_def Some ack)
  next
    case r: (Some nh)
    let ?u = "confirm_registration E (fst nh) (in_remote i) (t\<lparr>tp_relay_transactions := transactions, tp_endpoint_health := health\<rparr>)"
    have ok: "engine_ok ?u" using assms by simp
    show ?thesis
      using engine_ok_counted_hint [OF ok] ok
      by (cases nh; cases "snd nh") (simp_all add: receive_signed_ack_def Some ack r Let_def)
  qed
qed (simp add: receive_signed_ack_def assms)

lemma engine_ok_ack: "engine_ok t \<Longrightarrow> engine_ok (receive_ack C E i t)"
  by (simp add: receive_ack_def Let_def case_prod_beta split: option.split bool.split)

lemma engine_ok_peer_identity: "engine_ok t \<Longrightarrow> engine_ok (receive_peer_identity R X C E i t)"
  by (simp add: receive_peer_identity_def engine_ok_install_membership split: option.split)

lemma engine_ok_peer: "engine_ok t \<Longrightarrow> engine_ok (receive_peer X E i t)"
  by (simp add: receive_peer_def Let_def case_prod_beta engine_ok_learn_candidate split: option.split)

lemma engine_ok_punch:
  assumes "engine_ok t"
  shows "engine_ok (receive_punch X E i t)"
proof -
  have "engine_ok (t\<lparr>tp_peers := hm_insert k (fst (mark_success e now r)) (tp_peers t)\<rparr>)" if "hm_get (tp_peers t) k = Some r" for k r e now
    by (rule engine_ok_route [OF assms that]) (simp_all add: mark_success_kept)
  then show ?thesis using assms by (simp add: receive_punch_def Let_def case_prod_beta split: option.split)
qed

subsection \<open>Session frames\<close>

lemma seal_queued_next:
  "seal_queued_from S keys n source peer start queued = Inr (next, packets) \<Longrightarrow> next = start + of_nat (length queued)"
proof (induction queued arbitrary: start packets)
  case (Cons q qs)
  then obtain packets' where "seal_queued_from S keys n source peer (start + 1) qs = Inr (next, packets')" by (auto simp: case_prod_beta)
  then show ?case using Cons.IH [of "start + 1" packets'] by (simp add: add.assoc)
qed simp

text \<open>The ghost of the encryptions is what the sealing really uses: the \<open>k\<close>-th queued packet is sealed with sequence number \<open>k\<close>.\<close>

lemma seal_queued_nth:
  assumes "seal_queued_from S keys n source peer start queued = Inr (next, packets)"
  shows "length packets = length queued
    \<and> (\<forall>k < length queued. session_seal S keys n source peer (start + of_nat k) (queued ! k) = Inr (packets ! k))"
  using assms
proof (induction queued arbitrary: start packets)
  case (Cons q qs)
  then obtain p ps where p: "packets = p # ps" "session_seal S keys n source peer start q = Inr p"
    "seal_queued_from S keys n source peer (start + 1) qs = Inr (next, ps)" by (auto simp: case_prod_beta)
  have "session_seal S keys n source peer (start + of_nat k) ((q # qs) ! k) = Inr ((p # ps) ! k)" if "k < length (q # qs)" for k
    using that Cons.IH [OF p(3)] p(2) by (cases k) (simp_all add: add.assoc)
  then show ?case using Cons.IH [OF p(3)] p(1) by simp
qed simp

lemma taken_over_length:
  assumes "engine_ok t"
  shows "length (fst (taken_over (hm_get (tp_sessions t) k))) \<le> SESSION_QUEUE_CAPACITY"
  using engine_okD(4) [OF assms, of k] by (auto simp: taken_over_def split: option.split peer_session_state.split)

lemma engine_ok_new_session:
  assumes "engine_ok t" and "identity_is_valid (tp_peers t) k s" and "session_good s"
    and "nonces_ok (hm_insert k s (tp_sessions t)) sealed"
  shows "engine_ok (t\<lparr>tp_sessions := hm_insert k s (tp_sessions t), tp_sealed := sealed\<rparr>)"
  using assms by (auto simp: engine_ok_def sessions_ok_def)

lemma engine_ok_install_session:
  assumes "engine_ok t" and "psk_send_key keys \<notin> used_keys (tp_sessions t) (tp_sealed t)"
    and "hm_get (tp_peers t) key = Some r" and "pro_device_public_key r = pk" and "pk \<noteq> []"
  shows "engine_ok (fst (install_session S C E i key keys pk response t))"
proof -
  obtain queued counters where q: "taken_over (hm_get (tp_sessions t) key) = (queued, counters)" by (rule prod.exhaust)
  obtain d a rt rj where counters: "counters = (d, a, rt, rj)" by (cases counters) auto
  have len: "length queued \<le> 8" using taken_over_length [OF assms(1), of key] by (simp add: q SESSION_QUEUE_CAPACITY_def)
  show ?thesis
  proof (cases "seal_queued_packets S keys (fst key) (fst (relay_snapshot t)) (snd key) queued")
    case (Inl e)
    then show ?thesis using assms(1) by (simp add: install_session_def q)
  next
    case (Inr np)
    obtain "next" packets where np: "np = (next, packets)" by (cases np)
    have "next": "next = of_nat (length queued)"
      using seal_queued_next [of S keys "fst key" "fst (relay_snapshot t)" "snd key" 0 queued "next" packets] Inr
      by (simp add: seal_queued_packets_def np)
    define e where "e = new_established keys pk next (we_instant E) response (inbound_path C i) counters"
    have e: "eds_keys e = keys" "eds_peer_public_key e = pk" "eds_next_sequence e = of_nat (length queued)"
      by (simp_all add: e_def new_established_def counters "next")
    have "nonces_ok (hm_insert key (EstablishedSession e) (tp_sessions t)) (tp_sealed t @ seals keys 0 (length queued))"
      using nonces_ok_install [OF engine_okD(3) [OF assms(1)], of e "length queued" key] assms(2) e len by simp
    note nonces = this
    define t1 where "t1 = t\<lparr>tp_sessions := hm_insert key (EstablishedSession e) (tp_sessions t),
        tp_sealed := tp_sealed t @ seals keys 0 (length queued)\<rparr>"
    define t2 where "t2 = (case response of None \<Rightarrow> t1 | Some r \<Rightarrow> fst (send_to_inbound_path E i r t1))"
    have "engine_ok t1"
      unfolding t1_def by (rule engine_ok_new_session [OF assms(1) _ _ nonces]) (simp_all add: identity_is_valid_def assms(3-5) e)
    then have "engine_ok (fst (send_all_to_inbound_path E i packets t2))" by (simp add: t2_def split: option.split)
    moreover have "fst (install_session S C E i key keys pk response t) =
        update_session C E key (record_encrypted_send_results (snd (send_all_to_inbound_path E i packets t2)))
          (fst (send_all_to_inbound_path E i packets t2))"
      by (simp add: install_session_def q Inr np e_def t1_def t2_def Let_def case_prod_beta cong: option.case_cong)
    ultimately show ?thesis by (simp add: engine_ok_update_session)
  qed
qed

text \<open>
  A handshake gives keys that were not used before: what a completed exchange of fresh secrets yields is neither the key of another
  session nor that of an earlier encryption.
\<close>

definition handshake_is_fresh ::
  "'s session_ops_scheme \<Rightarrow> worker_config \<Rightarrow> worker_env \<Rightarrow> bytes option \<Rightarrow> inbound \<Rightarrow> 'a transport \<Rightarrow> bool" where
  "handshake_is_fresh S C E secret i t \<longleftrightarrow>
     (\<forall>pk nk keys response. accept_pairwise_handshake S secret (in_packet i) pk (wc_identity C) nk (we_now E)
          HANDSHAKE_CLOCK_SKEW_SECONDS = Inr (keys, response) \<longrightarrow> psk_send_key keys \<notin> used_keys (tp_sessions t) (tp_sealed t))
     \<and> (\<forall>k p nk keys. hm_get (tp_sessions t) k = Some (PendingSession p) \<longrightarrow>
          initiator_complete S (pds_handshake p) (in_packet i) (pds_peer_public_key p) nk (we_now E) HANDSHAKE_CLOCK_SKEW_SECONDS = Inr keys
          \<longrightarrow> psk_send_key keys \<notin> used_keys (tp_sessions t) (tp_sealed t))"

lemma admit_session_initD:
  assumes "admit_session_init S X now packet t = Some (key, network, pk, session_id)"
  shows "\<exists>r. hm_get (tp_peers t) key = Some r \<and> pro_device_public_key r = pk \<and> length pk = 32"
    "local_network_is_authorized X network now" "network \<in> set (snd (relay_snapshot t))" "vn_id (jn_network network) = fst key"
  using assms unfolding admit_session_init_def find_network_def
  by (auto simp: case_prod_beta Let_def split: sum.splits option.splits if_splits dest: find_SomeD)

lemma admit_session_responseD:
  assumes "admit_session_response X now packet t = Some (key, network_key, p)"
  shows "\<exists>r. hm_get (tp_peers t) key = Some r \<and> pro_device_public_key r = pds_peer_public_key p"
    "hm_get (tp_sessions t) key = Some (PendingSession p)"
  using assms unfolding admit_session_response_def
  by (auto simp: case_prod_beta Let_def split: sum.splits option.splits if_splits peer_session_state.splits)

lemma engine_ok_session_init:
  assumes "engine_ok t" and "handshake_is_fresh S C E secret i t"
  shows "engine_ok (fst (receive_session_init S X C E secret i t))"
proof (cases "admit_session_init S X (we_now E) (in_packet i) t")
  case None
  then show ?thesis using assms(1) by (simp add: receive_session_init_def)
next
  case (Some a)
  obtain key network pk session_id where a: "a = (key, network, pk, session_id)" by (cases a)
  obtain r where r: "hm_get (tp_peers t) key = Some r" "pro_device_public_key r = pk" "length pk = 32"
    using admit_session_initD(1) [OF Some [unfolded a]] by blast
  have install: "engine_ok (fst (install_session S C E i key keys pk response (t\<lparr>tp_seen_handshakes := seen\<rparr>)))"
    if "accept_pairwise_handshake S secret (in_packet i) pk (wc_identity C) nk (we_now E) HANDSHAKE_CLOCK_SKEW_SECONDS = Inr (keys, resp)"
    for keys response seen nk resp
    by (rule engine_ok_install_session [where r = r])
      (use assms that r in \<open>auto simp: handshake_is_fresh_def\<close>)
  have upd: "engine_ok (update_session C E key f u)" if "engine_ok u" "\<And>s. same_session s (f s)" for f and u :: "'a transport"
    using that by (rule engine_ok_update_session)
  show ?thesis
    using assms(1) by (simp add: receive_session_init_def Some a Let_def upd install case_prod_beta split: option.split sum.split bool.split)
qed

lemma engine_ok_session_response:
  assumes "engine_ok t" and "handshake_is_fresh S C E secret i t"
  shows "engine_ok (fst (receive_session_response S X C E i t))"
proof (cases "admit_session_response X (we_now E) (in_packet i) t")
  case None
  then show ?thesis using assms(1) by (simp add: receive_session_response_def)
next
  case (Some a)
  obtain key nk p where a: "a = (key, nk, p)" by (cases a)
  note adm = admit_session_responseD [OF Some [unfolded a]]
  obtain r where r: "hm_get (tp_peers t) key = Some r" "pro_device_public_key r = pds_peer_public_key p" using adm(1) by blast
  have "pds_peer_public_key p \<noteq> []" using engine_okD(4) [OF assms(1) adm(2)] r by (auto simp: identity_is_valid_def)
  then have "engine_ok (fst (install_session S C E i key keys (pds_peer_public_key p) None t))"
    if "initiator_complete S (pds_handshake p) (in_packet i) (pds_peer_public_key p) nk (we_now E) HANDSHAKE_CLOCK_SKEW_SECONDS = Inr keys"
    for keys
    using engine_ok_install_session [OF assms(1) _ r] assms(2) that adm(2) unfolding handshake_is_fresh_def by blast
  then show ?thesis
    using assms(1) by (simp add: receive_session_response_def Some a engine_ok_update_session split: sum.split)
qed

lemma engine_ok_touch:
  assumes "engine_ok t" and "hm_get (tp_sessions t) k = Some s" and "same_session s s'"
  shows "engine_ok (t\<lparr>tp_sessions := hm_insert k s' (tp_sessions t)\<rparr>)"
proof (rule engine_ok_adjust [OF assms(1)])
  show "touched (tp_sessions t) (tp_sessions (t\<lparr>tp_sessions := hm_insert k s' (tp_sessions t)\<rparr>))"
    using touched_insert [OF engine_okD(2) [OF assms(1)] assms(2,3)] by simp
qed (use engine_okD(1) [OF assms(1)] in \<open>simp_all add: identity_touched\<close>)

lemma engine_ok_learn_direct:
  assumes "engine_ok t"
  shows "engine_ok (learn_direct_endpoint C E k remote t)"
proof (cases "hm_get (tp_peers t) k")
  case (Some r)
  have "route_kept r (fst (mark_success remote (we_instant E) (add_candidate remote r)))"
    using add_candidate_kept mark_success_kept by (rule route_kept_trans)
  then show ?thesis using engine_ok_route [OF assms Some] assms by (simp add: learn_direct_endpoint_def Some)
qed (simp add: learn_direct_endpoint_def assms)

lemma open_session_dataD:
  assumes "open_session_data S packet t = Some (key, destination, e', opened)"
  shows "\<exists>e. hm_get (tp_sessions t) key = Some (EstablishedSession e)
      \<and> e' = e\<lparr>eds_replay_window := fst (session_open S (eds_keys e) (eds_replay_window e) packet)\<rparr>
      \<and> opened = (case snd (session_open S (eds_keys e) (eds_replay_window e) packet) of Inl _ \<Rightarrow> None | Inr p \<Rightarrow> Some p)"
    "destination = fst (relay_snapshot t)" "snd key \<noteq> destination"
    "parse_session_routing_header packet RELAY_SESSION_DATA = Inr (fst key, snd key, destination)"
  using assms unfolding open_session_data_def
  by (auto simp: case_prod_beta Let_def split: sum.splits option.splits if_splits peer_session_state.splits)

lemma engine_ok_session_data:
  assumes "engine_ok t"
  shows "engine_ok (fst (receive_session_data S X A C E i t))"
proof (cases "open_session_data S (in_packet i) t")
  case (Some a)
  obtain key destination e' opened where a: "a = (key, destination, e', opened)" by (cases a)
  obtain e w where e: "hm_get (tp_sessions t) key = Some (EstablishedSession e)" "e' = e\<lparr>eds_replay_window := w\<rparr>"
    using open_session_dataD(1) [OF Some [unfolded a]] by blast
  have same: "same_session (EstablishedSession e) (EstablishedSession e')" by (simp add: e(2))
  note ok = engine_ok_touch [OF assms e(1) same]
  have upd: "engine_ok (update_session C E key f (t\<lparr>tp_sessions := hm_insert key (EstablishedSession e') (tp_sessions t)\<rparr>))"
    if "\<And>s. same_session s (f s)" for f
    using engine_ok_update_session [OF ok] that by blast
  have "same_session s (set_path path (record_authenticated_packet s))" for s path
    by (rule same_session_trans [of _ "record_authenticated_packet s"]) simp_all
  then show ?thesis
    by (simp add: receive_session_data_def Some a Let_def upd engine_ok_learn_direct split: option.split)
qed (simp add: receive_session_data_def assms)

lemma engine_ok_datagram:
  assumes "engine_ok t" and "handshake_is_fresh S C E secret i t"
  shows "engine_ok (fst (receive_udp_packet S R X A C E secret i t))"
proof (cases "parse_stun_binding_success (in_packet i)")
  case None
  show ?thesis
  proof (cases "snd (handle_root_response R X C E i t)")
    case True
    then show ?thesis
      using engine_ok_handle_root [OF assms(1), of R X C E i]
      by (cases "handle_root_response R X C E i t") (simp add: receive_udp_packet_def None)
  next
    case False
    then have "handle_root_response R X C E i t = (t, False)"
      by (auto simp: handle_root_response_def split: option.splits if_splits)
    moreover have "engine_ok (fst (receive_relay_frame S R X A C E secret i t))"
      unfolding receive_relay_frame_def Let_def
      by (simp add: assms engine_ok_signed_ack engine_ok_ack engine_ok_peer_identity engine_ok_peer engine_ok_punch
          engine_ok_session_init engine_ok_session_response [OF assms] engine_ok_session_data)
    ultimately show ?thesis using assms(1) by (simp add: receive_udp_packet_def None)
  qed
next
  case (Some a)
  then show ?thesis using engine_ok_stun [OF assms(1)] by (cases a) (simp add: receive_udp_packet_def)
qed

section \<open>The tick\<close>

lemma drop_session_fields [simp]:
  "tp_sessions (drop_session C k t) = hm_remove k (tp_sessions t)" "tp_peers (drop_session C k t) = tp_peers t"
  "tp_sealed (drop_session C k t) = tp_sealed t"
  by (simp_all add: drop_session_def)

lemma fold_drop_session:
  "hm_get (tp_sessions (fold (drop_session C) ks t)) k = (if k \<in> set ks then None else hm_get (tp_sessions t) k)"
  "tp_peers (fold (drop_session C) ks t) = tp_peers t" "tp_sealed (fold (drop_session C) ks t) = tp_sealed t"
  "hm_ok (tp_sessions t) \<Longrightarrow> hm_ok (tp_sessions (fold (drop_session C) ks t))"
  by (induction ks arbitrary: t) auto

lemma engine_ok_removals:
  assumes "engine_ok t" and "directory_good (tp_peers t')" and "tp_sealed t' = tp_sealed t" and "hm_ok (tp_sessions t')"
    and "\<And>k s. hm_get (tp_sessions t') k = Some s \<Longrightarrow> hm_get (tp_sessions t) k = Some s \<and> identity_is_valid (tp_peers t') k s"
  shows "engine_ok t'"
proof (rule engine_ok_adjust [OF assms(1,2) _ _ assms(3)])
  show "touched (tp_sessions t) (tp_sessions t')" using assms(4,5) unfolding touched_def by (metis same_session_refl)
qed (use assms(5) in blast)

lemma hm_get_None_keys: "hm_get m k = None \<longleftrightarrow> k \<notin> fst ` set m"
  by (simp add: hm_get_def map_of_eq_None_iff)

lemma engine_ok_forget:
  assumes "engine_ok t"
  shows "engine_ok (forget_unauthorized X C E t)"
proof -
  let ?u = "\<lambda>i. network_is_usable X (we_now E) (snd (relay_snapshot t)) i"
  let ?ks = "filter (\<lambda>(i, _). \<not> ?u i) (map fst (tp_sessions t))"
  let ?t = "t\<lparr>tp_peers := hm_retain (\<lambda>(i, _) _. ?u i) (tp_peers t)\<rparr>"
  have eq: "forget_unauthorized X C E t = fold (drop_session C) ?ks ?t" by (simp add: forget_unauthorized_def Let_def)
  show ?thesis
    unfolding eq
  proof (rule engine_ok_removals [OF assms])
    show "directory_good (tp_peers (fold (drop_session C) ?ks ?t))"
      by (simp add: fold_drop_session directory_good_retain engine_okD(1) [OF assms])
    show "hm_ok (tp_sessions (fold (drop_session C) ?ks ?t))" using engine_okD(2) [OF assms] by (simp add: fold_drop_session)
    fix k s
    assume "hm_get (tp_sessions (fold (drop_session C) ?ks ?t)) k = Some s"
    then have s: "hm_get (tp_sessions t) k = Some s" and "k \<notin> set ?ks" by (auto simp: fold_drop_session split: if_splits)
    moreover have "k \<in> fst ` set (tp_sessions t)" using s hm_get_None_keys [of "tp_sessions t" k] by simp
    ultimately have "?u (fst k)" by (auto simp: case_prod_beta)
    moreover have "identity_is_valid (tp_peers t) k s" using engine_okD(4) [OF assms s] by blast
    ultimately have "identity_is_valid (hm_retain (\<lambda>(i, _) _. ?u i) (tp_peers t)) k s"
      using directory_goodD(1) [OF engine_okD(1) [OF assms]]
      by (auto simp: identity_is_valid_def hm_get_retain case_prod_beta split: option.splits)
    then show "hm_get (tp_sessions t) k = Some s \<and> identity_is_valid (tp_peers (fold (drop_session C) ?ks ?t)) k s"
      using s by (simp add: fold_drop_session)
  qed (simp add: fold_drop_session)
qed

lemma engine_ok_note_path:
  assumes "engine_ok (fst tp)"
  shows "engine_ok (note_path C E k d tp)"
proof -
  have "same_session s (record_encrypted_send_results r (set_path p s))" for s r p
    by (rule same_session_trans [of _ "set_path p s"]) simp_all
  then show ?thesis
    using assms unfolding note_path_def case_prod_beta by (intro engine_ok_update_session) (auto split: option.split)
qed

lemma engine_ok_retries:
  assumes "engine_ok t"
  shows "engine_ok (retry_handshakes X C E t)"
proof -
  let ?t = "t\<lparr>tp_sessions := map (\<lambda>(key, session). (key, mark_retry (we_instant E) session)) (tp_sessions t)\<rparr>"
  have "engine_ok ?t"
  proof (rule engine_ok_adjust [OF assms])
    show "touched (tp_sessions t) (tp_sessions ?t)"
      using engine_okD(2) [OF assms] by (auto simp: touched_def hm_get_map_values hm_ok_map_values)
  qed (use engine_okD(1) [OF assms] in \<open>simp_all add: identity_touched\<close>)
  moreover have "engine_ok (retry_handshake X C E x u)" if "engine_ok u" for x and u :: "'a transport"
    using that by (simp add: retry_handshake_def case_prod_beta engine_ok_note_path split: option.split)
  ultimately show ?thesis unfolding retry_handshakes_def Let_def by (rule engine_ok_fold)
qed

lemma probed_route_kept: "route_kept r (probed_route now r)"
proof -
  have "route_kept r' (fold (\<lambda>e. mark_probe_sent e now) es r')" for es r'
  proof (induction es arbitrary: r')
    case (Cons e es)
    show ?case using route_kept_trans [OF mark_probe_sent_kept Cons.IH] by simp
  qed simp
  then show ?thesis
    unfolding probed_route_def Let_def
    using route_kept_trans [OF route_kept_trans [OF expire_directory_kept expire_probes_kept]] by blast
qed

lemma expire_session_fields [simp]:
  "tp_sessions (expire_session C E kb t) = hm_remove (fst kb) (tp_sessions t)" "tp_peers (expire_session C E kb t) = tp_peers t"
  "tp_sealed (expire_session C E kb t) = tp_sealed t"
  by (simp_all add: expire_session_def case_prod_beta Let_def)

lemma fold_expire_session:
  "hm_get (tp_sessions (fold (expire_session C E) kbs t)) k = (if k \<in> fst ` set kbs then None else hm_get (tp_sessions t) k)"
  "tp_peers (fold (expire_session C E) kbs t) = tp_peers t" "tp_sealed (fold (expire_session C E) kbs t) = tp_sealed t"
  "hm_ok (tp_sessions t) \<Longrightarrow> hm_ok (tp_sessions (fold (expire_session C E) kbs t))"
  by (induction kbs arbitrary: t) auto

lemma engine_ok_probes:
  assumes "engine_ok t"
  shows "engine_ok (probe_peers C E t)"
proof -
  let ?peers = "map (\<lambda>(key, route). (key, probed_route (we_instant E) route)) (tp_peers t)"
  let ?stale = "List.map_filter (\<lambda>(key, session).
      if \<not> identity_is_valid ?peers key session \<or> session_is_expired (we_instant E) session
      then Some (key, session_is_expired (we_instant E) session) else None) (tp_sessions t)"
  let ?t = "fold (expire_session C E) ?stale (t\<lparr>tp_peers := ?peers\<rparr>)"
  have "engine_ok ?t"
  proof (rule engine_ok_removals [OF assms])
    show "directory_good (tp_peers ?t)"
      using directory_good_map [OF engine_okD(1) [OF assms] probed_route_kept] by (simp add: fold_expire_session)
    show "hm_ok (tp_sessions ?t)" using engine_okD(2) [OF assms] by (simp add: fold_expire_session)
    fix k s
    assume "hm_get (tp_sessions ?t) k = Some s"
    then have s: "hm_get (tp_sessions t) k = Some s" and fresh: "k \<notin> fst ` set ?stale" by (auto simp: fold_expire_session split: if_splits)
    have mem: "(k, s) \<in> set (tp_sessions t)" using s by (rule hm_get_in_set)
    have "identity_is_valid ?peers k s"
    proof (rule ccontr)
      assume "\<not> identity_is_valid ?peers k s"
      then have "(k, session_is_expired (we_instant E) s) \<in> set ?stale"
        unfolding in_set_map_filter_iff by (intro exI [of _ "(k, s)"] conjI mem) simp
      then show False using fresh by force
    qed
    then show "hm_get (tp_sessions t) k = Some s \<and> identity_is_valid (tp_peers ?t) k s" using s by (simp add: fold_expire_session)
  qed (simp add: fold_expire_session)
  then show ?thesis unfolding probe_peers_def Let_def update_peer_paths_def engine_ok_other_tables engine_ok_sends .
qed

lemma engine_ok_schedule [simp]: "engine_ok (set_schedule target s t) = engine_ok t"
  by (simp add: set_schedule_def)

lemma engine_ok_relay_registration [simp]: "engine_ok (fst (send_relay_registration C E n e p t)) = engine_ok t"
  by (simp add: send_relay_registration_def Let_def case_prod_beta)

lemma engine_ok_register_relay [simp]: "engine_ok (fst (register_with_relay R C E random d identity m e t)) = engine_ok t"
proof -
  have "engine_ok (fst (send_relay_registration C E n e p u)) = engine_ok u" for n p and u :: "'b transport" by simp
  then show ?thesis
    by (simp add: register_with_relay_def Let_def case_prod_beta split: sum.split option.split bool.split)
qed

lemma engine_ok_register_root [simp]: "engine_ok (fst (register_with_root R C E random d identity m root e t)) = engine_ok t"
  by (simp add: register_with_root_def Let_def case_prod_beta split: sum.split option.split bool.split)

lemma engine_ok_abind:
  assumes "engine_ok (fst (f t))" and "\<And>x u. engine_ok u \<Longrightarrow> engine_ok (fst (g x u))"
  shows "engine_ok (fst (abind f g t))"
  using assms(1) assms(2) by (cases "f t") (simp add: abind_def split: sum.split)

lemma engine_ok_register_membership: "engine_ok t \<Longrightarrow> engine_ok (fst (register_membership R C E I d identity m t))"
  unfolding register_membership_def Let_def by (rule engine_ok_abind) (intro engine_ok_afor; simp)+

lemma engine_ok_stun_request [simp]: "engine_ok (send_stun_request E random server t) = engine_ok t"
  by (simp add: send_stun_request_def Let_def case_prod_beta split: bool.split)

lemma engine_ok_stun_requests: "engine_ok t \<Longrightarrow> engine_ok (send_stun_requests E I t)"
  unfolding send_stun_requests_def by (rule engine_ok_fold) (simp_all add: case_prod_beta)

lemma engine_ok_scan:
  assumes "engine_ok t"
  shows "engine_ok (fst (scan_registrations R X C E I due t))"
proof -
  have tail: "engine_ok (expire_transactions E (if due then send_stun_requests E I u else u))" if "engine_ok u" for u :: "'a transport"
    using that engine_ok_stun_requests [OF that] by (simp add: expire_transactions_def)
  show ?thesis
    using assms unfolding scan_registrations_def
    by (auto simp: Let_def tail engine_ok_register_membership split: option.split intro!: engine_ok_abind engine_ok_afor)
qed

subsection \<open>Packets of the interface\<close>

lemma same_session_queue: "same_session (PendingSession p) (PendingSession (queue_packet x p))"
  "same_session (PendingSession p) (PendingSession (retried now (queue_packet x p)))"
  by (simp_all add: queue_packet_def retried_def)

lemma engine_ok_usable:
  assumes "engine_ok t"
  shows "engine_ok (t\<lparr>tp_sessions := usable_sessions now pk k (tp_sessions t)\<rparr>)"
  using assms engine_ok_drop [OF assms] by (simp add: usable_sessions_def split: option.split)

lemma usable_not_discarded:
  "hm_get (usable_sessions now pk k sessions) k = Some s \<Longrightarrow> \<not> must_discard now pk s"
  by (auto simp: usable_sessions_def split: option.splits if_splits)

lemma engine_ok_forward_target:
  assumes "engine_ok t" and "hm_get (tp_peers t) (vn_id (jn_network n), target) = Some route"
  shows "engine_ok (fst (forward_to_target S C E random n packet (target, route) t))"
    "tp_peers (fst (forward_to_target S C E random n packet (target, route) t)) = tp_peers t"
proof -
  let ?key = "(vn_id (jn_network n), target)" and ?pk = "pro_device_public_key route"
  let ?usable = "usable_sessions (we_instant E) ?pk ?key (tp_sessions t)"
  define prep where "prep = prepare_outbound_peer_packet S (we_instant E) (we_now E) random (fst ?key) (fst (relay_snapshot t)) target
      ?pk (wc_identity C) packet (tp_sessions t)"
  let ?sealed = "tp_sealed t @ (if length ?pk \<noteq> 32 then [] else sealed_for (hm_get ?usable ?key))"
  let ?t = "t\<lparr>tp_sessions := fst prep, tp_sealed := ?sealed\<rparr>"
  have ok: "engine_ok ?t"
  proof (cases "length ?pk = 32")
    case False
    then show ?thesis using assms(1) by (simp add: prep_def prepare_outbound_peer_packet_def)
  next
    case True
    define u where "u = t\<lparr>tp_sessions := ?usable\<rparr>"
    have u: "engine_ok u" "tp_sessions u = ?usable" "tp_peers u = tp_peers t" "tp_sealed u = tp_sealed t"
      using engine_ok_usable [OF assms(1)] by (simp_all add: u_def)
    have id: "identity_is_valid (tp_peers u) ?key s" if "peer_public_key s = ?pk" for s
      using assms(2) True that by (auto simp: identity_is_valid_def u)
    have "engine_ok (u\<lparr>tp_sessions := fst prep, tp_sealed := ?sealed\<rparr>)"
    proof (cases "hm_get ?usable ?key")
      case None
      show ?thesis
      proof (cases "initiator_start S (fst random) (snd random) (fst ?key) (fst (relay_snapshot t)) target (wc_identity C) (we_now E)")
        case (Inl e)
        then show ?thesis using u None True by (simp add: prep_def prepare_outbound_peer_packet_def sealed_for_def engine_ok_def)
      next
        case (Inr hp)
        obtain s where prep: "fst prep = hm_insert ?key (PendingSession s) (tp_sessions u)" and s: "pds_peer_public_key s = ?pk"
            "length (pds_queued_packets s) = 1"
          using True None Inr by (cases hp) (auto simp: prep_def prepare_outbound_peer_packet_def Let_def u)
        have "nonces_ok (hm_insert ?key (PendingSession s) (tp_sessions u)) (tp_sealed u)"
          using engine_okD(3) [OF u(1)] by (auto simp: nonces_ok_def established_def)
        then have "engine_ok (u\<lparr>tp_sessions := hm_insert ?key (PendingSession s) (tp_sessions u), tp_sealed := tp_sealed u\<rparr>)"
          by (intro engine_ok_new_session [OF u(1) id]) (simp_all add: s SESSION_QUEUE_CAPACITY_def)
        then show ?thesis using None True by (simp add: prep sealed_for_def u)
      qed
    next
      case (Some session)
      show ?thesis
      proof (cases session)
        case (PendingSession p)
        define q where "q = queue_packet packet p"
        define s' where "s' = PendingSession (if retry_due (we_instant E) q then retried (we_instant E) q else q)"
        have "fst prep = hm_insert ?key s' (tp_sessions u)"
          using True Some PendingSession by (simp add: prep_def prepare_outbound_peer_packet_def Let_def u q_def s'_def)
        moreover have "same_session session s'"
          unfolding PendingSession s'_def q_def using same_session_queue by (cases "retry_due (we_instant E) (queue_packet packet p)") auto
        ultimately have "fst prep = hm_insert ?key s' (tp_sessions u)" "same_session session s'" by blast+
        then show ?thesis using engine_ok_touch [OF u(1)] Some True PendingSession by (simp add: sealed_for_def u engine_ok_def)
      next
        case (EstablishedSession e)
        let ?e = "e\<lparr>eds_next_sequence := saturating_add (eds_next_sequence e) 1\<rparr>"
        have keep: "\<not> must_discard (we_instant E) ?pk session" by (rule usable_not_discarded [OF Some])
        then have "nonces_ok (hm_insert ?key (EstablishedSession ?e) (tp_sessions u)) (tp_sealed u @ seals (eds_keys e) (eds_next_sequence e) 1)"
          using Some EstablishedSession by (intro nonces_ok_seal [OF engine_okD(3) [OF u(1)]]) (simp_all add: established_def u must_discard_def)
        then have "engine_ok (u\<lparr>tp_sessions := hm_insert ?key (EstablishedSession ?e) (tp_sessions u),
            tp_sealed := tp_sealed u @ seals (eds_keys e) (eds_next_sequence e) 1\<rparr>)"
          using keep EstablishedSession by (intro engine_ok_new_session [OF u(1) id]) (simp_all add: must_discard_def)
        then show ?thesis
          using True Some EstablishedSession by (simp add: prep_def prepare_outbound_peer_packet_def sealed_for_def Let_def u)
      qed
    qed
    then show ?thesis by (simp add: u_def)
  qed
  define u where "u = ?t"
  have u: "engine_ok u" using ok by (simp only: u_def)
  obtain sessions r where prep: "prep = (sessions, r)" by (cases prep)
  note prepared = prep [unfolded prep_def fst_conv]
  have "fst (forward_to_target S C E random n packet (target, route) t) = fst (case r of
      Inl error \<Rightarrow> (u, Inl (SessionFailed error)) | Inr None \<Rightarrow> (u, Inr ())
    | Inr (Some (PreparedHandshake bytes)) \<Rightarrow> (note_path C E ?key False (send_peer_routed_packet C E n route bytes u), Inr ())
    | Inr (Some (PreparedData bytes)) \<Rightarrow> (note_path C E ?key True (send_peer_routed_packet C E n route bytes u), Inr ()))"
    by (simp only: forward_to_target_def prod.case Let_def prepared prep u_def fst_conv)
  then show "engine_ok (fst (forward_to_target S C E random n packet (target, route) t))"
    using u by (simp add: engine_ok_note_path split: sum.split option.split prepared_peer_packet.split)
  show "tp_peers (fst (forward_to_target S C E random n packet (target, route) t)) = tp_peers t"
    by (simp add: forward_to_target_def Let_def case_prod_beta note_path_def split: sum.split option.split prepared_peer_packet.split)
qed

lemma afor_keeps:
  assumes "P t" and "\<And>x t. x \<in> set xs \<Longrightarrow> P t \<Longrightarrow> P (fst (f x t))"
  shows "P (fst (afor f xs t))"
  using assms
proof (induction xs arbitrary: t)
  case (Cons x xs)
  then show ?case using Cons.prems(2) [of x t] by (cases "f x t") (simp add: abind_def split: sum.split)
qed (simp add: areturn_def)

lemma peer_targets_in_directory:
  assumes "hm_ok peers" and "(device, route) \<in> set (peer_targets_for_packet X peers n gateway packet)"
  shows "hm_get peers (vn_id (jn_network n), device) = Some route"
proof -
  have "\<exists>i. i = vn_id (jn_network n) \<and> ((i, device), route) \<in> set peers"
    using assms(2) by (auto simp: peer_targets_for_packet_def in_set_map_filter_iff split: option.splits if_splits)
  then show ?thesis using hm_in_set_iff [OF assms(1)] by blast
qed

lemma engine_ok_forward_packet:
  assumes "engine_ok t"
  shows "engine_ok (fst (forward_packet S X C E random packet t))"
proof -
  have "engine_ok (fst (afor (\<lambda>target. forward_to_target S C E (random (fst target)) n packet target)
      (peer_targets_for_packet X (tp_peers t) n gateway packet) t))" for n gateway
  proof -
    let ?P = "\<lambda>u. engine_ok u \<and> tp_peers u = tp_peers t"
    have "?P (fst (afor (\<lambda>target. forward_to_target S C E (random (fst target)) n packet target)
      (peer_targets_for_packet X (tp_peers t) n gateway packet) t))"
    proof (rule afor_keeps [where P = ?P])
      fix x u
      assume x: "x \<in> set (peer_targets_for_packet X (tp_peers t) n gateway packet)" and u: "?P u"
      obtain device route where xx: "x = (device, route)" by (cases x)
      have "hm_get (tp_peers u) (vn_id (jn_network n), device) = Some route"
        using peer_targets_in_directory [OF directory_goodD(1) [OF engine_okD(1) [OF assms]] x [unfolded xx]] u by simp
      then show "?P (fst (forward_to_target S C E (random (fst x)) n packet x u))"
        using engine_ok_forward_target [of u n device route S C E] u by (simp add: xx)
    qed (simp add: assms)
    then show ?thesis ..
  qed
  then show ?thesis using assms by (simp add: forward_packet_def case_prod_beta Let_def split: option.split)
qed

lemma engine_ok_forward_packets: "engine_ok t \<Longrightarrow> engine_ok (fst (forward_packets S X C E I t))"
  unfolding forward_packets_def
  by (rule engine_ok_afor) (auto simp: case_prod_beta araise_def engine_ok_forward_packet split: sum.split)

lemma engine_ok_maintain:
  assumes "engine_ok t"
  shows "engine_ok (snd (snd (maintain X C E I (timers, mapping, t))))"
proof -
  let ?p = "if we_instant E \<ge> wt_port_mapping_refresh timers then (case ti_port_mapping I of None \<Rightarrow> (mapping, t)
      | Some external \<Rightarrow> (Some external, renew_port_mapping mapping external t)) else (mapping, t)"
  obtain mapping' u where p: "?p = (mapping', u)" by (metis prod.exhaust)
  have "engine_ok (snd ?p)" using assms by (simp add: renew_port_mapping_def Let_def split: option.split)
  then have "engine_ok u" by (simp only: p snd_conv)
  then have forget: "engine_ok (forget_unauthorized X C E u)" by (rule engine_ok_forget)
  have "engine_ok (if b then retry_handshakes X C E (forget_unauthorized X C E u) else forget_unauthorized X C E u)" for b
    using forget by (simp add: engine_ok_retries)
  then have "engine_ok (if b' then probe_peers C E (if b then retry_handshakes X C E (forget_unauthorized X C E u) else forget_unauthorized X C E u)
      else (if b then retry_handshakes X C E (forget_unauthorized X C E u) else forget_unauthorized X C E u))" for b b'
    by (simp add: engine_ok_probes)
  then show ?thesis by (simp only: maintain_def prod.case Let_def p snd_conv)
qed

lemma engine_ok_tick:
  assumes "engine_ok t"
  shows "engine_ok (snd (snd (fst (worker_tick S R X A C E I (timers, mapping, t)))))"
proof -
  obtain timers' mapping' u where m: "maintain X C E I (timers, mapping, t) = (timers', mapping', u)" by (metis prod.exhaust)
  have u: "engine_ok u" using engine_ok_maintain [OF assms, of X C E I timers mapping] by (simp add: m)
  let ?scan = "if we_instant E \<ge> wt_registration_scan timers'
    then scan_registrations R X C E I (we_instant E \<ge> wt_stun_refresh timers') u else (u, Inr ())"
  obtain v r where v: "?scan = (v, r)" by (metis prod.exhaust)
  have "engine_ok (fst ?scan)" using u by (simp add: engine_ok_scan)
  then have "engine_ok v" by (simp add: v)
  moreover obtain w s where w: "forward_packets S X C E I v = (w, s)" by (metis prod.exhaust)
  ultimately have "engine_ok v" "engine_ok w" using engine_ok_forward_packets [of v S X C E I] by simp_all
  then show ?thesis
    using assms by (simp only: worker_tick_def prod.case Let_def m v w) (auto split: sum.split)
qed

section \<open>Runs of a worker\<close>

text \<open>
  A worker starts with the tables of \<^verbatim>\<open>run_relay_worker\<close>. Then datagrams and ticks follow in any order, and between them the handlers of the agent
  may change the agent in any way. The code ends the worker when a step fails; the relation goes on, so that what holds of all runs
  also holds at the moment of a failure.
\<close>

inductive worker_run ::
  "'s session_ops_scheme \<Rightarrow> 'r worker_ops_scheme \<Rightarrow> 'x pool_ops_scheme \<Rightarrow> 'a adapter_ops \<Rightarrow> worker_config \<Rightarrow> 'a transport \<Rightarrow> bool"
  for S :: "'s session_ops_scheme" and R :: "'r worker_ops_scheme" and X :: "'x pool_ops_scheme" and A :: "'a adapter_ops"
    and C :: worker_config where
  start: "worker_start (wc_configuration C) now establish t = (timers, mapping, t') \<Longrightarrow> worker_run S R X A C t'"
| datagram: "worker_run S R X A C t \<Longrightarrow> handshake_is_fresh S C E secret i t \<Longrightarrow>
    receive_udp_packet S R X A C E secret i t = (t', r) \<Longrightarrow> worker_run S R X A C t'"
| tick: "worker_run S R X A C t \<Longrightarrow> worker_tick S R X A C E I (timers, mapping, t) = ((timers', mapping', t'), r) \<Longrightarrow>
    worker_run S R X A C t'"
| agent: "worker_run S R X A C t \<Longrightarrow> worker_run S R X A C (t\<lparr>tp_agent := w\<rparr>)"

lemma worker_run_ok: "worker_run S R X A C t \<Longrightarrow> engine_ok t"
proof (induction rule: worker_run.induct)
  case (start now establish t timers mapping t')
  then have "tp_peers t' = []" "tp_sessions t' = []" "tp_sealed t' = []" by (auto simp: worker_start_def Let_def)
  then show ?case
    by (simp add: engine_ok_def directory_good_def sessions_ok_def nonces_ok_def established_def agent_table.disjoint_Nil)
next
  case (datagram t E secret i t' r)
  then show ?case using engine_ok_datagram [of t S C E secret i R X A] by simp
next
  case (tick t E I timers mapping timers' mapping' t' r)
  then show ?case using engine_ok_tick [of t S R X A C E I timers mapping] by simp
qed simp

text \<open>
  C3: No nonce is used twice. In every run of a transport worker, with any datagrams, ticks, failures of the network and changes of the agent, no two
  packets are encrypted under the same key with the same nonce, across all peers and sessions, also
  when a session is replaced and when its sequence numbers run out, provided that every completed handshake gives a key that was not used
  before.
\<close>

theorem nonces_never_repeat:
  assumes "worker_run S R X A C t"
  shows "distinct (tp_sealed t)"
  using engine_okD(3) [OF worker_run_ok [OF assms]] by (simp add: nonces_ok_def)


end
