(* ===== verification/Worker_Properties.thy ===== *)
theory Worker_Properties
  imports Session_Safety
begin

text \<open>
  What the transport worker does with the packets of others: which packets reach the virtual interface, where the identity keys of the
  peers come from, what a tick leaves of networks that are not authorized any more, and that two workers that start a handshake with
  each other at the same time end with one session.
\<close>

section \<open>What a datagram may change\<close>

text \<open>A key of a peer of a network that a certificate states which the worker trusts.\<close>

definition key_is_certified :: "'x authz_ops_scheme \<Rightarrow> u64 \<Rightarrow> joined_network list \<Rightarrow> peer_key \<Rightarrow> bytes \<Rightarrow> bool" where
  "key_is_certified X now networks k key \<longleftrightarrow> (\<exists>network \<in> set networks. \<exists>certificate.
     vn_id (jn_network network) = fst k \<and> mcl_network_id (mc_claims certificate) = fst k \<and> mcl_device_id (mc_claims certificate) = snd k
     \<and> mcl_device_public_key (mc_claims certificate) = key \<and> certificate_is_trusted X network certificate now)"

definition keys_certified :: "'x authz_ops_scheme \<Rightarrow> u64 \<Rightarrow> joined_network list \<Rightarrow> peer_directory \<Rightarrow> peer_directory \<Rightarrow> bool" where
  "keys_certified X now networks peers peers' \<longleftrightarrow> (\<forall>k r'. hm_get peers' k = Some r' \<longrightarrow> pro_device_public_key r' \<noteq> [] \<longrightarrow>
     (\<exists>r. hm_get peers k = Some r \<and> pro_device_public_key r = pro_device_public_key r')
     \<or> key_is_certified X now networks k (pro_device_public_key r'))"

definition steady :: "'x authz_ops_scheme \<Rightarrow> u64 \<Rightarrow> 'a transport \<Rightarrow> 'a transport \<Rightarrow> bool" where
  "steady X now t t' \<longleftrightarrow> tp_written t' = tp_written t \<and> relay_snapshot t' = relay_snapshot t
     \<and> keys_certified X now (snd (relay_snapshot t)) (tp_peers t) (tp_peers t')"

lemma snapshot_updates [simp]:
  "relay_snapshot (t\<lparr>tp_peers := a\<rparr>) = relay_snapshot t" "relay_snapshot (t\<lparr>tp_sessions := b\<rparr>) = relay_snapshot t"
  "relay_snapshot (t\<lparr>tp_stun_transactions := c\<rparr>) = relay_snapshot t" "relay_snapshot (t\<lparr>tp_root_transactions := d\<rparr>) = relay_snapshot t"
  "relay_snapshot (t\<lparr>tp_relay_transactions := e\<rparr>) = relay_snapshot t" "relay_snapshot (t\<lparr>tp_advertised_candidates := f\<rparr>) = relay_snapshot t"
  "relay_snapshot (t\<lparr>tp_registration_schedules := g\<rparr>) = relay_snapshot t" "relay_snapshot (t\<lparr>tp_endpoints := h\<rparr>) = relay_snapshot t"
  "relay_snapshot (t\<lparr>tp_endpoint_health := i\<rparr>) = relay_snapshot t" "relay_snapshot (t\<lparr>tp_seen_handshakes := j\<rparr>) = relay_snapshot t"
  "relay_snapshot (t\<lparr>tp_relay_confirmations_accepted := l\<rparr>) = relay_snapshot t" "relay_snapshot (t\<lparr>tp_sealed := m\<rparr>) = relay_snapshot t"
  "relay_snapshot (t\<lparr>tp_relay_confirmations_rejected := n\<rparr>) = relay_snapshot t" "relay_snapshot (t\<lparr>tp_written := q\<rparr>) = relay_snapshot t"
  "relay_snapshot (t\<lparr>tp_authorization_hint_refreshes := p\<rparr>) = relay_snapshot t" "relay_snapshot (t\<lparr>tp_peer_paths := r\<rparr>) = relay_snapshot t"
  by (simp_all add: relay_snapshot_def)

lemma drop_session_keeps [simp]:
  "tp_written (drop_session C k t) = tp_written t" "relay_snapshot (drop_session C k t) = relay_snapshot t"
  by (simp_all add: drop_session_def)

lemma keys_certified_refl [simp]: "keys_certified X now networks peers peers"
  unfolding keys_certified_def by blast

lemma keys_certified_trans:
  assumes "keys_certified X now networks p q" and "keys_certified X now networks q r"
  shows "keys_certified X now networks p r"
  using assms unfolding keys_certified_def by metis

lemma steady_trans: "steady X now t u \<Longrightarrow> steady X now u v \<Longrightarrow> steady X now t v"
  using keys_certified_trans unfolding steady_def by metis

lemma steady_same:
  "tp_written t' = tp_written t \<Longrightarrow> relay_snapshot t' = relay_snapshot t \<Longrightarrow> tp_peers t' = tp_peers t \<Longrightarrow> steady X now t t'"
  by (simp add: steady_def)

lemma steady_fold:
  assumes "\<And>x t. steady X now t (f x t)"
  shows "steady X now t (fold f xs t)"
proof (induction xs arbitrary: t)
  case (Cons x xs)
  then show ?case by (simp add: steady_trans [OF assms Cons.IH])
qed (simp add: steady_def)

lemma keys_certified_insert:
  assumes "pro_device_public_key r' = [] \<or> (\<exists>r. hm_get peers k = Some r \<and> pro_device_public_key r = pro_device_public_key r')
    \<or> key_is_certified X now networks k (pro_device_public_key r')"
  shows "keys_certified X now networks peers (hm_insert k r' peers)"
  using assms by (auto simp: keys_certified_def hm_get_insert)

lemma new_route_key [simp]: "pro_device_public_key (peer_route_new e) = []" "pro_device_public_key peer_route_empty = []"
  by (simp_all add: peer_route_new_def peer_route_empty_def)

lemma steady_insert:
  assumes "keys_certified X now (snd (relay_snapshot t)) (tp_peers t) (hm_insert k r (tp_peers t))"
  shows "steady X now t (t\<lparr>tp_peers := hm_insert k r (tp_peers t)\<rparr>)"
  using assms by (simp add: steady_def relay_snapshot_def)

lemma steady_sent: "steady X now t u \<Longrightarrow> steady X now t (send_datagrams E ds u)"
  by (simp add: steady_def)

lemma steady_learn_candidate: "steady X now t (learn_candidate E k c t)"
proof -
  have "keys_certified X now networks (tp_peers t) (hm_insert k (mark_probe_sent c instant
      (case hm_get (tp_peers t) k of None \<Rightarrow> peer_route_new c | Some r \<Rightarrow> add_candidate c r)) (tp_peers t))" for networks instant
    by (rule keys_certified_insert) (auto split: option.split)
  then show ?thesis unfolding learn_candidate_def Let_def by (intro steady_sent steady_insert)
qed

lemma update_peer_membership_keys:
  assumes "update_peer_membership X now peers c self networks = (peers', result)"
  shows "peers' = peers \<or> (\<exists>r. (\<forall>k. hm_get peers' k = hm_get (hm_insert (mcl_network_id (mc_claims c), mcl_device_id (mc_claims c)) r peers) k)
    \<and> pro_device_public_key r = mcl_device_public_key (mc_claims c))"
proof -
  let ?key = "(mcl_network_id (mc_claims c), mcl_device_id (mc_claims c))"
  obtain mid b where mid: "update_peer_addresses X now peers ?key (mcl_assigned_addresses (mc_claims c)) self networks = (mid, b)" by force
  show ?thesis
  proof (cases b)
    case False
    then show ?thesis
      using assms mid update_peer_addresses_False [of X now peers ?key "mcl_assigned_addresses (mc_claims c)" self networks mid]
      by (auto simp: update_peer_membership_def Let_def split: if_splits)
  next
    case True
    with mid have "update_peer_addresses X now peers ?key (mcl_assigned_addresses (mc_claims c)) self networks = (mid, True)" by simp
    then obtain r where "mid = hm_insert ?key r peers" by (rule update_peer_addresses_True)
    then have "peers' = peers \<or> peers' = hm_insert ?key (r\<lparr>pro_device_public_key := mcl_device_public_key (mc_claims c)\<rparr>) mid"
      using assms mid True by (auto simp: update_peer_membership_def Let_def split: if_splits)
    then show ?thesis
    proof
      assume "peers' = hm_insert ?key (r\<lparr>pro_device_public_key := mcl_device_public_key (mc_claims c)\<rparr>) mid"
      then show ?thesis
        by (intro disjI2 exI [of _ "r\<lparr>pro_device_public_key := mcl_device_public_key (mc_claims c)\<rparr>"]) (simp add: \<open>mid = _\<close>)
    qed simp
  qed
qed

lemma steady_install_membership:
  assumes "network \<in> set (snd (relay_snapshot t))" and "vn_id (jn_network network) = mcl_network_id (mc_claims c)"
    and "certificate_is_trusted X network c now"
  shows "steady X now t (fst (install_peer_membership Y C E c t))"
proof -
  let ?key = "(mcl_network_id (mc_claims c), mcl_device_id (mc_claims c))"
  obtain device networks where snap: "relay_snapshot t = (device, networks)" by force
  obtain peers result where u: "update_peer_membership Y (we_instant E) (tp_peers t) c device networks = (peers, result)" by force
  have cert: "key_is_certified X now networks ?key (mcl_device_public_key (mc_claims c))"
    using assms snap unfolding key_is_certified_def by auto
  have "keys_certified X now networks (tp_peers t) peers"
    using update_peer_membership_keys [OF u]
  proof
    assume "\<exists>r. (\<forall>k. hm_get peers k = hm_get (hm_insert ?key r (tp_peers t)) k) \<and> pro_device_public_key r = mcl_device_public_key (mc_claims c)"
    then obtain r where r: "\<And>k. hm_get peers k = hm_get (hm_insert ?key r (tp_peers t)) k"
      and key: "pro_device_public_key r = mcl_device_public_key (mc_claims c)" by blast
    have "keys_certified X now networks (tp_peers t) (hm_insert ?key r (tp_peers t))"
      by (rule keys_certified_insert) (use cert key in simp)
    then show ?thesis unfolding keys_certified_def r .
  qed simp
  then show ?thesis
    by (cases result) (simp_all add: install_peer_membership_def snap u steady_def Let_def)
qed

lemma find_network_SomeD: "find_network i networks = Some n \<Longrightarrow> n \<in> set networks \<and> vn_id (jn_network n) = i"
  unfolding find_network_def by (auto dest: find_SomeD)

lemma steady_discovered_peer: "steady X now t (discovered_peer X C E n peer t)" if "we_now E = now"
proof (cases "rp_certificate peer")
  case (Some c)
  show ?thesis
  proof (cases "find_network (rp_network_id peer) (snd (relay_snapshot t))")
    case net: (Some network)
    let ?ok = "mcl_network_id (mc_claims c) = rp_network_id peer \<and> certificate_is_trusted X network c now"
    have "steady X now t (case install_peer_membership X C E c t of (t, False) \<Rightarrow> t | (t, True) \<Rightarrow> fold (learn_candidate E k) cs t)"
      if "?ok" for k cs
    proof -
      have i: "steady X now t (fst (install_peer_membership X C E c t))"
        using that find_network_SomeD [OF net] by (intro steady_install_membership [of network]) auto
      then have "steady X now t (fold (learn_candidate E k) cs (fst (install_peer_membership X C E c t)))"
        by (rule steady_trans) (rule steady_fold, rule steady_learn_candidate)
      with i show ?thesis by (cases "install_peer_membership X C E c t") (simp split: bool.split)
    qed
    then show ?thesis
      using that net by (auto simp: discovered_peer_def Some case_prod_beta Let_def steady_same)
  qed (auto simp: discovered_peer_def Some case_prod_beta Let_def steady_same)
qed (simp add: discovered_peer_def case_prod_beta Let_def steady_same)

lemma consider_hint_keeps [simp]:
  "tp_written (fst (consider_hint X E h t)) = tp_written t" "relay_snapshot (fst (consider_hint X E h t)) = relay_snapshot t"
  "tp_peers (fst (consider_hint X E h t)) = tp_peers t" "tp_sessions (fst (consider_hint X E h t)) = tp_sessions t"
  by (simp_all add: consider_hint_def consider_authorization_hint_def relay_snapshot_def Let_def split: option.split)

lemma mark_registered_keeps [simp]:
  "tp_written (mark_registered E n e k t) = tp_written t" "relay_snapshot (mark_registered E n e k t) = relay_snapshot t"
  "tp_peers (mark_registered E n e k t) = tp_peers t"
  by (simp_all add: mark_registered_def Let_def split: option.split)

lemma steady_root_response:
  assumes "we_now E = now"
  shows "steady X now t (apply_root_response X C E n remote response t)"
proof (cases response)
  case (Registered observed discovered refresh hints)
  let ?u = "(mark_registered E n remote Root t)\<lparr>tp_endpoints := mark_root_responsive n remote (we_instant E)
         (tp_endpoints (mark_registered E n remote Root t))\<rparr>"
  let ?v = "fold (\<lambda>hint t. if aeh_network_id hint = n then fst (consider_hint X E hint t) else t) hints ?u"
  have "steady X now t ?u" by (rule steady_same) simp_all
  moreover have "steady X now ?u ?v" by (rule steady_fold) (simp add: steady_same)
  moreover have "steady X now ?v (fold (discovered_peer X C E n) discovered ?v)"
    by (rule steady_fold) (rule steady_discovered_peer [OF assms])
  ultimately show ?thesis
    unfolding apply_root_response_def Registered Let_def root_response.case by (blast intro: steady_trans)
qed (simp add: apply_root_response_def steady_same)

lemma steady_handle_root:
  assumes "we_now E = now"
  shows "steady X now t (fst (handle_root_response R X C E i t))"
proof -
  have "steady X now t (t\<lparr>tp_root_transactions := x\<rparr>)" for x by (rule steady_same) simp_all
  then have "steady X now t (apply_root_response X C E n remote response (t\<lparr>tp_root_transactions := x\<rparr>))" for x n remote response
    using steady_root_response [OF assms] by (rule steady_trans)
  then show ?thesis by (simp add: handle_root_response_def steady_same split: option.split)
qed

lemma steady_stun: "steady X now t (receive_stun_success C E remote tid c t)"
  by (rule steady_same) (simp_all add: receive_stun_success_def Let_def case_prod_beta split: option.split)

lemma confirm_keeps [simp]:
  "tp_written (confirm_registration E n e t) = tp_written t" "relay_snapshot (confirm_registration E n e t) = relay_snapshot t"
  "tp_peers (confirm_registration E n e t) = tp_peers t" "tp_written (reject_confirmation t) = tp_written t"
  "relay_snapshot (reject_confirmation t) = relay_snapshot t" "tp_peers (reject_confirmation t) = tp_peers t"
  by (simp_all add: confirm_registration_def reject_confirmation_def Let_def)

lemma steady_counted_hint:
  "steady X now t u \<Longrightarrow> steady X now t (case consider_hint Y E h u of
     (t, True) \<Rightarrow> t\<lparr>tp_authorization_hint_refreshes := tp_authorization_hint_refreshes t + 1\<rparr> | (t, False) \<Rightarrow> t)"
  by (erule steady_trans, rule steady_same) (simp_all add: case_prod_beta split: bool.split)

lemma steady_signed_ack: "steady X now t (receive_signed_ack R Y E i t)"
proof (cases "wo_parse_ack R (drop 5 (in_packet i))")
  case (Some a)
  obtain transactions health result where ack: "acknowledge_signed_relay_registration R a (in_remote i) (we_instant E) (we_now E)
      (tp_relay_transactions t, tp_endpoint_health t) = ((transactions, health), result)" by (metis prod.exhaust)
  have ok: "steady X now t (confirm_registration E n (in_remote i) (t\<lparr>tp_relay_transactions := transactions, tp_endpoint_health := health\<rparr>))"
    for n by (rule steady_same) simp_all
  then show ?thesis
    using steady_counted_hint [OF ok]
    by (auto simp: receive_signed_ack_def Some ack Let_def steady_same split: option.split)
qed (simp add: receive_signed_ack_def steady_same)

lemma steady_ack: "steady X now t (receive_ack C E i t)"
  by (rule steady_same) (simp_all add: receive_ack_def Let_def case_prod_beta split: option.split bool.split)

lemma steady_peer_identity: "we_now E = now \<Longrightarrow> steady X now t (receive_peer_identity R X C E i t)"
  by (auto simp: receive_peer_identity_def steady_same intro!: steady_install_membership dest: find_network_SomeD split: option.split)

lemma steady_peer: "steady X now t (receive_peer Y E i t)"
  by (simp add: receive_peer_def Let_def case_prod_beta steady_learn_candidate steady_same split: option.split)

lemma steady_punch: "steady X now t (receive_punch Y E i t)"
proof -
  have "steady X now t (t\<lparr>tp_peers := hm_insert k (fst (mark_success e instant r)) (tp_peers t)\<rparr>)" if "hm_get (tp_peers t) k = Some r" for k r e instant
    by (intro steady_insert keys_certified_insert) (use that in simp)
  then show ?thesis by (simp add: receive_punch_def Let_def case_prod_beta steady_same steady_sent split: option.split)
qed

lemma install_session_keeps [simp]:
  "tp_written (fst (install_session S C E i k keys pk response t)) = tp_written t"
  "relay_snapshot (fst (install_session S C E i k keys pk response t)) = relay_snapshot t"
  "tp_peers (fst (install_session S C E i k keys pk response t)) = tp_peers t"
  "ag_transport_revision (tp_agent (fst (install_session S C E i k keys pk response t))) = ag_transport_revision (tp_agent t)"
  by (simp_all add: install_session_def Let_def case_prod_beta split: sum.split option.split)

lemma steady_session_init: "steady X now t (fst (receive_session_init S Y C E secret i t))"
  by (rule steady_same) (simp_all add: receive_session_init_def Let_def case_prod_beta split: sum.split option.split bool.split)

lemma steady_session_response: "steady X now t (fst (receive_session_response S Y C E i t))"
  by (rule steady_same) (simp_all add: receive_session_response_def case_prod_beta split: sum.split option.split)

lemma keys_learn_direct: "keys_certified X now networks (tp_peers t) (tp_peers (learn_direct_endpoint C E k remote t))"
  by (auto simp: learn_direct_endpoint_def intro!: keys_certified_insert split: option.split)

lemma learn_direct_keeps [simp]:
  "tp_written (learn_direct_endpoint C E k remote t) = tp_written t" "tp_agent (learn_direct_endpoint C E k remote t) = tp_agent t"
  "tp_sessions (learn_direct_endpoint C E k remote t) = tp_sessions t"
  by (simp_all add: learn_direct_endpoint_def split: option.split)

text \<open>A data frame leaves the keys alone and writes at most the packet that it carries.\<close>

lemma session_data_keys:
  "keys_certified X now networks (tp_peers t) (tp_peers (fst (receive_session_data S Y A C E i t)))"
proof (cases "open_session_data S (in_packet i) t")
  case (Some a)
  obtain key destination e opened where a: "a = (key, destination, e, opened)" by (cases a)
  show ?thesis
    using keys_learn_direct [of X now networks "update_session C E key (set_path (inbound_path C i) \<circ> record_authenticated_packet)
        (t\<lparr>tp_sessions := hm_insert key (EstablishedSession e) (tp_sessions t)\<rparr>)" C E key "in_remote i"]
    by (simp add: receive_session_data_def Some a Let_def split: option.split)
qed (simp add: receive_session_data_def)

lemma session_data_delivers:
  assumes "tp_written (fst (receive_session_data S X A C E i t)) \<noteq> tp_written t"
  obtains k e opened network route where "hm_get (tp_sessions t) k = Some (EstablishedSession e)"
    and "session_open S (eds_keys e) (eds_replay_window e) (in_packet i) = (mark (eds_replay_window e) (sp_sequence opened), Inr opened)"
    and "sp_network_id opened = fst k" and "sp_source opened = snd k" and "sp_destination opened = fst (relay_snapshot t)"
    and "network \<in> set (snd (relay_snapshot t))" and "vn_id (jn_network network) = fst k" and "hm_get (tp_peers t) k = Some route"
    and "local_network_is_authorized X network (we_now E)"
    and "packet_is_authorized_for_delivery X (Some (we_now E)) network (snd k) route (fst (relay_snapshot t)) (fst (relay_snapshot t))
      (sp_plaintext opened)"
    and "ado_is_active A (ag_adapter (tp_agent t))"
    and "tp_written (fst (receive_session_data S X A C E i t)) = tp_written t @ [sp_plaintext opened]"
    and "\<exists>e'. hm_get (tp_sessions (fst (receive_session_data S X A C E i t))) k = Some (EstablishedSession e')
      \<and> eds_keys e' = eds_keys e \<and> eds_replay_window e' = mark (eds_replay_window e) (sp_sequence opened)"
proof (cases "open_session_data S (in_packet i) t")
  case None
  then show thesis using assms by (simp add: receive_session_data_def)
next
  case (Some a)
  obtain k destination e' result where a: "a = (k, destination, e', result)" by (cases a)
  note openD = open_session_dataD [OF Some [unfolded a]]
  obtain e where e: "hm_get (tp_sessions t) k = Some (EstablishedSession e)"
    and e': "e' = e\<lparr>eds_replay_window := fst (session_open S (eds_keys e) (eds_replay_window e) (in_packet i))\<rparr>"
    and result: "result = (case snd (session_open S (eds_keys e) (eds_replay_window e) (in_packet i)) of Inl _ \<Rightarrow> None | Inr p \<Rightarrow> Some p)"
    using openD(1) by blast
  let ?u = "update_session C E k (set_path (inbound_path C i) \<circ> record_authenticated_packet)
        (t\<lparr>tp_sessions := hm_insert k (EstablishedSession e') (tp_sessions t)\<rparr>)"
  obtain opened where opened: "result = Some opened" and deliver: "may_deliver X (we_now E) k destination opened ?u"
    and act: "ado_is_active A (ag_adapter (tp_agent t))" and writes: "we_adapter_writes E"
    using assms by (auto simp: receive_session_data_def Some a Let_def split: option.splits if_splits)
  have so: "session_open S (eds_keys e) (eds_replay_window e) (in_packet i)
      = (fst (session_open S (eds_keys e) (eds_replay_window e) (in_packet i)), Inr opened)"
    using result opened by (auto simp: prod_eq_iff split: sum.splits)
  then have w: "fst (session_open S (eds_keys e) (eds_replay_window e) (in_packet i)) = mark (eds_replay_window e) (sp_sequence opened)"
    by (rule session_open_InrE)
  obtain network route where n: "find_network (fst k) (snd (relay_snapshot t)) = Some network" "hm_get (tp_peers t) k = Some route"
    and auth: "local_network_is_authorized X network (we_now E)" "packet_is_authorized_for_delivery X (Some (we_now E)) network (snd k) route
      destination (fst (relay_snapshot t)) (sp_plaintext opened)"
    using deliver unfolding may_deliver_def by (auto split: option.splits)
  have res: "fst (receive_session_data S X A C E i t) = (learn_direct_endpoint C E k (in_remote i) ?u)\<lparr>tp_written := tp_written t @ [sp_plaintext opened]\<rparr>"
    using deliver act writes by (simp add: receive_session_data_def Some a Let_def opened)
  show thesis
    by (rule that [OF e so [unfolded w] _ _ _ _ _ n(2) auth(1)])
      (use deliver auth(2) openD(2) find_network_SomeD [OF n(1)] act in
        \<open>auto simp: may_deliver_def res update_session_sessions e' w\<close>)
qed

section \<open>Deliveries and keys\<close>

lemma marked_is_refused:
  assumes "can_accept w q"
  shows "\<not> can_accept (mark w q) q"
proof (cases "rw_highest w")
  case None
  then show ?thesis by (simp add: mark_def can_accept_def)
next
  case (Some h)
  show ?thesis
  proof (cases "h < q")
    case True
    then show ?thesis using Some by (simp add: mark_def can_accept_def Let_def bit_test [of _ 0, simplified] bit_or_iff)
  next
    case False
    then have "h - q < 64" using assms Some by (simp add: can_accept_def Let_def)
    then have "unat (h - q) < 64" by (simp add: word_less_nat_alt)
    then show ?thesis
      using Some False by (simp add: mark_def can_accept_def Let_def push_bit_eq_mult bit_test bit_or_iff bit_exp_iff)
  qed
qed

lemma steady_or_data:
  assumes "we_now E = now"
  shows "steady X now t (fst (receive_udp_packet S R X A C E secret i t))
    \<or> (receive_udp_packet S R X A C E secret i t = receive_session_data S X A C E i t)"
proof (cases "parse_stun_binding_success (in_packet i)")
  case None
  show ?thesis
  proof (cases "snd (handle_root_response R X C E i t)")
    case True
    then show ?thesis
      using steady_handle_root [OF assms, of X t R C i]
      by (cases "handle_root_response R X C E i t") (simp add: receive_udp_packet_def None)
  next
    case False
    then have "handle_root_response R X C E i t = (t, False)"
      by (auto simp: handle_root_response_def split: option.splits if_splits)
    moreover have "steady X now t (fst (receive_relay_frame S R X A C E secret i t))
        \<or> receive_relay_frame S R X A C E secret i t = receive_session_data S X A C E i t"
      unfolding receive_relay_frame_def Let_def
      by (simp add: steady_signed_ack steady_ack steady_peer_identity [OF assms] steady_peer steady_punch
          steady_session_init steady_session_response steady_same)
    ultimately show ?thesis by (simp add: receive_udp_packet_def None steady_same)
  qed
next
  case (Some a)
  then show ?thesis by (cases a) (simp add: receive_udp_packet_def steady_stun)
qed

lemma delivered_by_session_data:
  assumes "tp_written (fst (receive_udp_packet S R X A C E secret i t)) \<noteq> tp_written t"
  shows "receive_udp_packet S R X A C E secret i t = receive_session_data S X A C E i t"
  using steady_or_data [OF refl, of X E t S R A C secret i] assms by (auto simp: steady_def)

lemma opened_twice:
  assumes "session_open S keys w p = (w', Inr sp)" and "session_open S keys2 w2 p = (w2', Inr sp2)"
  shows "sp_network_id sp2 = sp_network_id sp \<and> sp_source sp2 = sp_source sp \<and> sp_destination sp2 = sp_destination sp
    \<and> sp_sequence sp2 = sp_sequence sp"
proof -
  have parsed: "parse_session_data_header p = Inr (sp_network_id x, sp_source x, sp_destination x, sp_session_id x, sp_sequence x)"
    if "session_open S k v p = (v', Inr x)" for k v v' and x :: session_packet
    using that by (rule session_open_InrE) (auto simp: parse_data_header_Inr_iff)
  show ?thesis using parsed [OF assms(1)] parsed [OF assms(2)] by simp
qed

text \<open>
  C4: Only what an authenticated and authorized peer sent reaches the virtual interface. When a datagram, from wherever it comes, makes the
  worker write a packet, then it is a data frame that the established session with a peer of the directory opened; it is
  addressed to this device; the network is one of the agent's, its membership is authorized at this time, and the addresses of the packet are
  authorized for delivery from this peer; the interface is active; exactly the opened packet is written; and the same datagram, received
  again next, writes nothing.
\<close>

theorem delivered_packets_are_authorized:
  assumes "receive_udp_packet S R X A C E secret i t = (t', r)" and "tp_written t' \<noteq> tp_written t"
  shows "\<exists>k e w opened network route. hm_get (tp_sessions t) k = Some (EstablishedSession e)
    \<and> session_open S (eds_keys e) (eds_replay_window e) (in_packet i) = (w, Inr opened)
    \<and> (sp_network_id opened, sp_source opened, sp_destination opened) = (fst k, snd k, ps_device_id (ag_state (tp_agent t)))
    \<and> network \<in> set (ps_networks (ag_state (tp_agent t))) \<and> vn_id (jn_network network) = fst k \<and> hm_get (tp_peers t) k = Some route
    \<and> local_network_is_authorized X network (we_now E)
    \<and> packet_is_authorized_for_delivery X (Some (we_now E)) network (snd k) route (sp_destination opened) (sp_destination opened)
        (sp_plaintext opened)
    \<and> ado_is_active A (ag_adapter (tp_agent t))
    \<and> tp_written t' = tp_written t @ [sp_plaintext opened]
    \<and> tp_written (fst (receive_udp_packet S R X A C E' secret' i t')) = tp_written t'"
proof -
  have data: "receive_udp_packet S R X A C E secret i t = receive_session_data S X A C E i t"
    using assms by (intro delivered_by_session_data) simp
  have t': "fst (receive_session_data S X A C E i t) = t'" using assms(1) data by (metis fst_conv)
  have "tp_written (fst (receive_session_data S X A C E i t)) \<noteq> tp_written t" using assms(2) t' by simp
  then show ?thesis
  proof (rule session_data_delivers)
    fix k e opened network route
    let ?self = "fst (relay_snapshot t)"
    assume e: "hm_get (tp_sessions t) k = Some (EstablishedSession e)"
      and o: "session_open S (eds_keys e) (eds_replay_window e) (in_packet i) = (mark (eds_replay_window e) (sp_sequence opened), Inr opened)"
      and f: "sp_network_id opened = fst k" "sp_source opened = snd k" "sp_destination opened = ?self"
      and n: "network \<in> set (snd (relay_snapshot t))" "vn_id (jn_network network) = fst k" "hm_get (tp_peers t) k = Some route"
        "local_network_is_authorized X network (we_now E)"
        "packet_is_authorized_for_delivery X (Some (we_now E)) network (snd k) route ?self ?self (sp_plaintext opened)"
        "ado_is_active A (ag_adapter (tp_agent t))"
      and w: "tp_written (fst (receive_session_data S X A C E i t)) = tp_written t @ [sp_plaintext opened]"
      and e': "\<exists>e'. hm_get (tp_sessions (fst (receive_session_data S X A C E i t))) k = Some (EstablishedSession e')
        \<and> eds_keys e' = eds_keys e \<and> eds_replay_window e' = mark (eds_replay_window e) (sp_sequence opened)"
    have "can_accept (eds_replay_window e) (sp_sequence opened)" using o by (rule session_open_InrE)
    note refused = marked_is_refused [OF this]
    have "tp_written (fst (receive_udp_packet S R X A C E' secret' i t')) = tp_written t'"
    proof (rule ccontr)
      assume again: "\<not> ?thesis"
      have "tp_written (fst (receive_session_data S X A C E' i t')) \<noteq> tp_written t'"
        using again delivered_by_session_data [OF again] by simp
      then show False
      proof (rule session_data_delivers)
        fix k2 e2 opened2
        assume e2: "hm_get (tp_sessions t') k2 = Some (EstablishedSession e2)" and o2: "session_open S (eds_keys e2) (eds_replay_window e2)
            (in_packet i) = (mark (eds_replay_window e2) (sp_sequence opened2), Inr opened2)"
          and k2: "sp_network_id opened2 = fst k2" "sp_source opened2 = snd k2"
        have "k2 = k" using opened_twice [OF o o2] f k2 by (simp add: prod_eq_iff)
        then have "eds_replay_window e2 = mark (eds_replay_window e) (sp_sequence opened)" using e' e2 t' by auto
        moreover have "can_accept (eds_replay_window e2) (sp_sequence opened2)" using o2 by (rule session_open_InrE)
        ultimately show False using refused opened_twice [OF o o2] by simp
      qed
    qed
    then show ?thesis
      using e o f n w t' by (intro exI [of _ k] exI [of _ e] exI [of _ "mark (eds_replay_window e) (sp_sequence opened)"]
          exI [of _ opened] exI [of _ network] exI [of _ route]) (simp add: relay_snapshot_def)
  qed
qed

text \<open>
  C5: Identity keys come from certificates. When after a datagram the directory has an identity key for a peer that it did not have before, then
  the agent is a member of the network, its own membership is authorized, and a certificate for this device in this network states
  this key, verified under the pinned key of the controller and authorized by the authorization manifest.
\<close>

theorem peer_keys_are_certified:
  assumes "receive_udp_packet S R X A C E secret i t = (t', r)"
    and "hm_get (tp_peers t') k = Some route" and "pro_device_public_key route \<noteq> []"
    and "\<not> (\<exists>r0. hm_get (tp_peers t) k = Some r0 \<and> pro_device_public_key r0 = pro_device_public_key route)"
  shows "\<exists>network certificate. network \<in> set (ps_networks (ag_state (tp_agent t))) \<and> vn_id (jn_network network) = fst k
    \<and> mcl_network_id (mc_claims certificate) = fst k \<and> mcl_device_id (mc_claims certificate) = snd k
    \<and> mcl_device_public_key (mc_claims certificate) = pro_device_public_key route
    \<and> is_ok (certificate_verify_from_controller X certificate (pinned_controller_key network) (we_now E))
    \<and> local_network_is_authorized X network (we_now E) \<and> peer_certificate_is_authorized X network certificate (we_now E)"
proof -
  have "keys_certified X (we_now E) (snd (relay_snapshot t)) (tp_peers t) (tp_peers (fst (receive_udp_packet S R X A C E secret i t)))"
    using steady_or_data [OF refl, of X E t S R A C secret i] session_data_keys by (auto simp: steady_def)
  then show ?thesis
    using assms unfolding keys_certified_def key_is_certified_def certificate_is_trusted_def
    by (fastforce simp: relay_snapshot_def)
qed

section \<open>Networks that are not authorized any more\<close>

text \<open>Every peer of the directory is in a network that the worker may use; \<open>snap\<close> is what the agent says.\<close>

definition confined :: "'x authz_ops_scheme \<Rightarrow> u64 \<Rightarrow> device_id \<times> joined_network list \<Rightarrow> 'a transport \<Rightarrow> bool" where
  "confined X now snap t \<longleftrightarrow> relay_snapshot t = snap
     \<and> (\<forall>k r. hm_get (tp_peers t) k = Some r \<longrightarrow> network_is_usable X now (snd snap) (fst k))"

lemma confined_same: "relay_snapshot u = relay_snapshot t \<Longrightarrow> tp_peers u = tp_peers t \<Longrightarrow> confined X now snap u = confined X now snap t"
  by (simp add: confined_def)

lemma confined_fold: "confined X now snap t \<Longrightarrow> (\<And>x t. confined X now snap t \<Longrightarrow> confined X now snap (f x t)) \<Longrightarrow>
    confined X now snap (fold f xs t)"
  by (induction xs arbitrary: t) auto

lemma confined_abind:
  assumes "confined X now snap (fst (f t))" and "\<And>x u. confined X now snap u \<Longrightarrow> confined X now snap (fst (g x u))"
  shows "confined X now snap (fst (abind f g t))"
  using assms(1) assms(2) by (cases "f t") (simp add: abind_def split: sum.split)

lemma confined_afor:
  "confined X now snap t \<Longrightarrow> (\<And>x t. confined X now snap t \<Longrightarrow> confined X now snap (fst (f x t))) \<Longrightarrow> confined X now snap (fst (afor f xs t))"
  by (rule afor_keeps) auto

lemma confined_sends [simp]:
  "confined X now snap (fst (transmit E c e p t)) = confined X now snap t" "confined X now snap (send_datagrams E ds t) = confined X now snap t"
  "confined X now snap (fst (send_to_tls_relays E p rs t)) = confined X now snap t"
  "confined X now snap (fst (send_peer_routed_packet C E n r p t)) = confined X now snap t"
  "confined X now snap (update_session C E k f t) = confined X now snap t"
  "confined X now snap (note_path C E k d tp) = confined X now snap (fst tp)"
  by (rule confined_same; simp add: note_path_def case_prod_beta)+

lemma confined_other [simp]:
  "confined X now snap (t\<lparr>tp_stun_transactions := a\<rparr>) = confined X now snap t" "confined X now snap (t\<lparr>tp_root_transactions := b\<rparr>) = confined X now snap t"
  "confined X now snap (t\<lparr>tp_relay_transactions := c\<rparr>) = confined X now snap t" "confined X now snap (t\<lparr>tp_sessions := d\<rparr>) = confined X now snap t"
  "confined X now snap (t\<lparr>tp_advertised_candidates := e\<rparr>) = confined X now snap t" "confined X now snap (t\<lparr>tp_peer_paths := f\<rparr>) = confined X now snap t"
  "confined X now snap (t\<lparr>tp_registration_schedules := g\<rparr>) = confined X now snap t" "confined X now snap (t\<lparr>tp_sealed := h\<rparr>) = confined X now snap t"
  "confined X now snap (t\<lparr>tp_registration_backoff_seconds := l\<rparr>) = confined X now snap t"
  by (rule confined_same; simp add: relay_snapshot_def)+

lemma confined_registrations [simp]:
  "confined X now snap (set_schedule target s t) = confined X now snap t"
  "confined X now snap (fst (send_relay_registration C E n e p t)) = confined X now snap t"
  "confined X now snap (fst (register_with_root R C E random d identity m root e t)) = confined X now snap t"
  "confined X now snap (send_stun_request E uuid server t) = confined X now snap t"
  by (simp_all add: set_schedule_def send_relay_registration_def register_with_root_def send_stun_request_def Let_def case_prod_beta
      split: sum.split option.split bool.split)

lemma confined_register_relay [simp]:
  "confined X now snap (fst (register_with_relay R C E random d identity m e t)) = confined X now snap t"
proof -
  have "confined X now snap (fst (send_relay_registration C E n e p u)) = confined X now snap u" for n p and u :: "'b transport" by simp
  then show ?thesis
    by (simp add: register_with_relay_def Let_def case_prod_beta split: sum.split option.split bool.split)
qed

lemma confined_register_membership: "confined X now snap t \<Longrightarrow> confined X now snap (fst (register_membership R C E I d identity m t))"
  unfolding register_membership_def Let_def by (rule confined_abind) (intro confined_afor; simp)+

lemma confined_scan:
  assumes "confined X now snap t"
  shows "confined X now snap (fst (scan_registrations R Y C E I due t))"
proof -
  have "confined X now snap (send_stun_requests E I u)" if "confined X now snap u" for u :: "'b transport"
    unfolding send_stun_requests_def by (rule confined_fold [OF that]) (simp add: case_prod_beta)
  then have tail: "confined X now snap (expire_transactions E (if due then send_stun_requests E I u else u))" if "confined X now snap u"
    for u :: "'b transport"
    using that by (simp add: expire_transactions_def)
  show ?thesis
    using assms unfolding scan_registrations_def
    by (auto simp: Let_def tail confined_register_membership split: option.split intro!: confined_abind confined_afor)
qed

lemma confined_forward_target: "confined X now snap (fst (forward_to_target S C E random n packet target t)) = confined X now snap t"
  by (simp add: forward_to_target_def Let_def case_prod_beta split: sum.split option.split prepared_peer_packet.split)

lemma confined_forward: "confined X now snap t \<Longrightarrow> confined X now snap (fst (forward_packets S Y C E I t))"
  unfolding forward_packets_def
  by (rule confined_afor)
    (auto simp: case_prod_beta araise_def forward_packet_def Let_def confined_forward_target intro!: confined_afor split: sum.split option.split)

lemma fold_drop_snapshot [simp]: "relay_snapshot (fold (drop_session C) ks t) = relay_snapshot t"
  by (induction ks arbitrary: t) simp_all

lemma confined_forget:
  assumes "hm_ok (tp_peers t)"
  shows "confined X (we_now E) (relay_snapshot t) (forget_unauthorized X C E t)"
  using assms by (auto simp: confined_def forget_unauthorized_def Let_def fold_drop_session hm_get_retain case_prod_beta
      split: option.splits if_splits)

lemma confined_retries: "confined X now snap t \<Longrightarrow> confined X now snap (retry_handshakes Y C E t)"
  unfolding retry_handshakes_def Let_def
  by (rule confined_fold) (simp_all add: retry_handshake_def case_prod_beta split: option.split)

lemma confined_probes:
  assumes "confined X now snap t"
  shows "confined X now snap (probe_peers C E t)"
proof -
  have "relay_snapshot (expire_session C E kb u) = relay_snapshot u" for kb and u :: "'b transport"
    by (simp add: expire_session_def Let_def case_prod_beta)
  then have "confined X now snap (expire_session C E kb u) = confined X now snap u" for kb and u :: "'b transport"
    by (intro confined_same) simp_all
  then have "confined X now snap (fold (expire_session C E) kbs u)" if "confined X now snap u" for kbs and u :: "'b transport"
    using that by (intro confined_fold) simp_all
  moreover have "confined X now snap (t\<lparr>tp_peers := map (\<lambda>(key, route). (key, probed_route (we_instant E) route)) (tp_peers t)\<rparr>)"
    using assms by (auto simp: confined_def hm_get_map_values)
  ultimately show ?thesis by (simp add: probe_peers_def Let_def update_peer_paths_def)
qed

lemma confined_maintain:
  assumes "hm_ok (tp_peers t)"
  shows "confined X (we_now E) (relay_snapshot t) (snd (snd (maintain X C E I (timers, mapping, t))))"
proof -
  let ?p = "if we_instant E \<ge> wt_port_mapping_refresh timers then (case ti_port_mapping I of None \<Rightarrow> (mapping, t)
      | Some external \<Rightarrow> (Some external, renew_port_mapping mapping external t)) else (mapping, t)"
  obtain mapping' u where p: "?p = (mapping', u)" by (metis prod.exhaust)
  have "tp_peers (snd ?p) = tp_peers t \<and> relay_snapshot (snd ?p) = relay_snapshot t"
    by (simp add: renew_port_mapping_def Let_def split: option.split)
  then have "hm_ok (tp_peers u)" "relay_snapshot u = relay_snapshot t" using assms by (simp_all only: p snd_conv)
  then have forget: "confined X (we_now E) (relay_snapshot t) (forget_unauthorized X C E u)" using confined_forget [of u X E C] by simp
  then have "confined X (we_now E) (relay_snapshot t) (if b then retry_handshakes X C E (forget_unauthorized X C E u)
      else forget_unauthorized X C E u)" for b by (simp add: confined_retries)
  then have "confined X (we_now E) (relay_snapshot t) (if b' then probe_peers C E (if b then retry_handshakes X C E (forget_unauthorized X C E u)
        else forget_unauthorized X C E u)
      else (if b then retry_handshakes X C E (forget_unauthorized X C E u) else forget_unauthorized X C E u))" for b b'
    by (simp add: confined_probes)
  then show ?thesis by (simp only: maintain_def prod.case Let_def p snd_conv)
qed

lemma confined_tick:
  assumes "hm_ok (tp_peers t)" and "worker_tick S R X A C E I (timers, mapping, t) = ((timers', mapping', t'), r)" and "r \<noteq> Inr False"
  shows "confined X (we_now E) (relay_snapshot t) t'"
proof -
  obtain timers1 mapping1 u where m: "maintain X C E I (timers, mapping, t) = (timers1, mapping1, u)" by (metis prod.exhaust)
  have u: "confined X (we_now E) (relay_snapshot t) u" using confined_maintain [OF assms(1), of X E C I timers mapping] by (simp add: m)
  let ?scan = "if we_instant E \<ge> wt_registration_scan timers1
    then scan_registrations R X C E I (we_instant E \<ge> wt_stun_refresh timers1) u else (u, Inr ())"
  obtain v r1 where v: "?scan = (v, r1)" by (metis prod.exhaust)
  have "confined X (we_now E) (relay_snapshot t) (fst ?scan)" using u by (simp add: confined_scan)
  then have "confined X (we_now E) (relay_snapshot t) v" by (simp only: v fst_conv)
  moreover obtain w s where w: "forward_packets S X C E I v = (w, s)" by (metis prod.exhaust)
  ultimately have "confined X (we_now E) (relay_snapshot t) v" "confined X (we_now E) (relay_snapshot t) w"
    using confined_forward [of X "we_now E" "relay_snapshot t" v S X C E I] by simp_all
  then show ?thesis
    using assms(2,3) by (simp only: worker_tick_def prod.case Let_def m v w) (auto split: sum.splits if_splits)
qed

text \<open>
  C7: A tick cuts off what is not authorized any more. In every run, after a tick that does not stop the worker, each peer of the directory and each
  session, pending or established, is in a network that the agent has and whose own membership is authorized
  at this time; so the state of a network that the agent has lost, or whose authorization has ended, is gone.
\<close>

theorem tick_cuts_off_unauthorized:
  assumes "worker_run S R X A C t" and "worker_tick S R X A C E I (timers, mapping, t) = ((timers', mapping', t'), r)" and "r \<noteq> Inr False"
    and "hm_get (tp_peers t') k \<noteq> None \<or> hm_get (tp_sessions t') k \<noteq> None"
  shows "\<exists>network \<in> set (ps_networks (ag_state (tp_agent t'))). vn_id (jn_network network) = fst k
    \<and> local_network_is_authorized X network (we_now E)"
proof -
  have ok: "engine_ok t" "engine_ok t'" using assms(1,2) worker_run_ok worker_run.tick by blast+
  have "confined X (we_now E) (relay_snapshot t) t'"
    using confined_tick [OF directory_goodD(1) [OF engine_okD(1) [OF ok(1)]] assms(2,3)] .
  moreover have "hm_get (tp_peers t') k \<noteq> None"
    using assms(4) engine_okD(4) [OF ok(2), of k] by (auto simp: identity_is_valid_def split: option.splits)
  ultimately have "network_is_usable X (we_now E) (snd (relay_snapshot t')) (fst k)" unfolding confined_def by (cases "hm_get (tp_peers t') k") (simp, metis)
  then show ?thesis by (auto simp: network_is_usable_def list_ex_iff relay_snapshot_def)
qed

end
