(* ===== verification/Worker_Handshake.thy ===== *)
theory Worker_Handshake
  imports Worker_Properties
begin

text \<open>
  Two workers and a handshake: both have queued packets for each other and started a handshake at the same time, so that their first packets cross. The tie
  is broken by the device identifiers, and the two end with one session whose keys mirror each other.
\<close>

section \<open>One side\<close>

text \<open>A worker that knows a peer of a network, and one that has started a handshake with it.\<close>

definition knows_peer :: "'x authz_ops_scheme \<Rightarrow> u64 \<Rightarrow> network_id \<Rightarrow> bytes \<Rightarrow> device_id \<Rightarrow> device_id \<Rightarrow> bytes \<Rightarrow> 'a transport \<Rightarrow> bool" where
  "knows_peer X now n network_key self peer public_key t \<longleftrightarrow> fst (relay_snapshot t) = self
     \<and> (\<exists>network. find_network n (snd (relay_snapshot t)) = Some network \<and> local_network_is_authorized X network now
          \<and> network_key_from_slice (jn_network_key network) = Inr network_key)
     \<and> (\<exists>route. hm_get (tp_peers t) (n, peer) = Some route \<and> pro_device_public_key route = public_key \<and> length public_key = 32)"

definition awaits_response ::
  "'s session_ops_scheme \<Rightarrow> network_id \<Rightarrow> device_id \<Rightarrow> device_id \<Rightarrow> bytes \<Rightarrow> bytes \<Rightarrow> bytes \<Rightarrow> bytes \<Rightarrow> u64 \<Rightarrow> 'a transport \<Rightarrow> pending_session \<Rightarrow> bool" where
  "awaits_response S n self peer identity public_key session_id secret issued_at t p \<longleftrightarrow>
     hm_get (tp_sessions t) (n, peer) = Some (PendingSession p) \<and> pds_peer_public_key p = public_key
     \<and> initiator_start S (Some session_id) (Some secret) n self peer identity issued_at = Inr (pds_handshake p, pds_init_packet p)"

lemma init_packet_id:
  assumes "json_session_ok S" and "initiator_start S (Some sid) (Some secret) n self peer identity issued = Inr (h, packet)"
  shows "parse_session_routing_header packet RELAY_SESSION_INIT = Inr (n, self, peer)"
    "session_handshake_id S packet RELAY_SESSION_INIT = Inr sid"
  using assms(2)
  by (rule initiator_startE; use assms(1) in \<open>simp add: session_handshake_id_def json_session_ok_def\<close>)+

lemma admits_init:
  assumes "json_session_ok S" and "initiator_start S (Some sid) (Some secret) n peer self identity issued = Inr (h, packet)"
    and "knows_peer X now n nk self peer pk t" and "self \<noteq> peer"
  shows "\<exists>network. admit_session_init S X now packet t = Some ((n, peer), network, pk, sid)
    \<and> network_key_from_slice (jn_network_key network) = Inr nk"
  using assms(3,4) init_packet_id [OF assms(1,2)]
  by (auto simp: admit_session_init_def knows_peer_def case_prod_beta Let_def)

lemma seal_queued_total:
  assumes "\<And>k nonce ad m. aead_encrypt S k nonce ad m \<noteq> None"
  shows "\<exists>next packets. seal_queued_from S keys n source peer start queued = Inr (next, packets)"
proof (induction queued arbitrary: start)
  case (Cons q qs)
  obtain c where "session_seal S keys n source peer start q = Inr c"
    using assms by (fastforce simp: session_seal_def Let_def)
  then show ?case using Cons.IH [of "start + 1"] by auto
qed simp

text \<open>A handshake that has given keys ends with an established session.\<close>

lemma install_session_result:
  assumes "\<And>k nonce ad m. aead_encrypt S k nonce ad m \<noteq> None"
  shows "\<exists>t' e. install_session S C E i key keys pk response t = (t', Inr ()) \<and> hm_get (tp_sessions t') key = Some (EstablishedSession e)
    \<and> eds_keys e = keys \<and> eds_peer_public_key e = pk \<and> eds_cached_response e = response
    \<and> eds_next_sequence e = of_nat (length (fst (taken_over (hm_get (tp_sessions t) key)))) \<and> eds_established_at e = we_instant E"
proof -
  obtain queued counters where q: "taken_over (hm_get (tp_sessions t) key) = (queued, counters)" by (rule prod.exhaust)
  obtain d a rt rj where counters: "counters = (d, a, rt, rj)" by (cases counters) auto
  obtain sequence packets where np: "seal_queued_from S keys (fst key) (fst (relay_snapshot t)) (snd key) 0 queued = Inr (sequence, packets)"
    using seal_queued_total [OF assms] by blast
  have s: "sequence = of_nat (length queued)" using seal_queued_next [OF np] by simp
  show ?thesis
    by (simp add: install_session_def q seal_queued_packets_def np Let_def case_prod_beta update_session_sessions new_established_def
        counters s split: option.split)
qed

lemma lower_side_waits:
  assumes "json_session_ok S" and "initiator_start S (Some sid) (Some secret) n peer self identity issued = Inr (h, in_packet i)"
    and "knows_peer X (we_now E) n nk self peer pk t" and "self < peer" and "hm_get (tp_sessions t) (n, peer) = Some (PendingSession p)"
  shows "receive_session_init S X C E rnd i t = (t, Inr ())"
proof -
  obtain network where "admit_session_init S X (we_now E) (in_packet i) t = Some ((n, peer), network, pk, sid)"
    using admits_init [OF assms(1-3)] assms(4) by auto
  moreover have "fst (relay_snapshot t) = self" using assms(3) by (simp add: knows_peer_def)
  ultimately show ?thesis using assms(4,5) by (simp add: receive_session_init_def cached_response_for_def is_pending_def)
qed

lemma accepts_init:
  assumes "json_session_ok S" and "initiator_start S (Some sid) (Some secret) n peer self identity issued = Inr (h, in_packet i)"
    and "knows_peer X (we_now E) n nk self peer pk t" and "self \<noteq> peer"
    and "cached_response_for (hm_get (tp_sessions t) (n, peer)) sid = None" and "\<not> (is_pending (hm_get (tp_sessions t) (n, peer)) \<and> self < peer)"
    and "accept_pairwise_handshake S rnd (in_packet i) pk (wc_identity C) nk (we_now E) HANDSHAKE_CLOCK_SKEW_SECONDS = Inr (keys, response)"
    and "record_session_handshake (tp_seen_handshakes t) (n, peer) sid (we_instant E) = (seen, True)"
  shows "receive_session_init S X C E rnd i t = install_session S C E i (n, peer) keys pk (Some response) (t\<lparr>tp_seen_handshakes := seen\<rparr>)"
proof -
  obtain network where a: "admit_session_init S X (we_now E) (in_packet i) t = Some ((n, peer), network, pk, sid)"
      "network_key_from_slice (jn_network_key network) = Inr nk"
    using admits_init [OF assms(1-4)] by auto
  have "fst (relay_snapshot t) = self" using assms(3) by (simp add: knows_peer_def)
  then show ?thesis using assms(5-8) a by (auto simp: receive_session_init_def)
qed

lemma higher_side_accepts:
  assumes "json_session_ok S" and "initiator_start S (Some sid) (Some secret) n peer self identity issued = Inr (h, in_packet i)"
    and "knows_peer X (we_now E) n nk self peer pk t" and "peer < self" and "hm_get (tp_sessions t) (n, peer) = Some (PendingSession p)"
    and "accept_pairwise_handshake S rnd (in_packet i) pk (wc_identity C) nk (we_now E) HANDSHAKE_CLOCK_SKEW_SECONDS = Inr (keys, response)"
    and "record_session_handshake (tp_seen_handshakes t) (n, peer) sid (we_instant E) = (seen, True)"
    and "\<And>k nonce ad m. aead_encrypt S k nonce ad m \<noteq> None"
  shows "\<exists>t' e. receive_session_init S X C E rnd i t = (t', Inr ()) \<and> hm_get (tp_sessions t') (n, peer) = Some (EstablishedSession e)
    \<and> eds_keys e = keys \<and> eds_cached_response e = Some response \<and> eds_next_sequence e = of_nat (length (pds_queued_packets p))"
proof -
  have "receive_session_init S X C E rnd i t
      = install_session S C E i (n, peer) keys pk (Some response) (t\<lparr>tp_seen_handshakes := seen\<rparr>)"
    by (rule accepts_init [OF assms(1-3) _ _ _ assms(6,7)]) (use assms(4,5) in \<open>auto simp: cached_response_for_def\<close>)
  then show ?thesis
    using install_session_result [OF assms(8), of C E i "(n, peer)" keys pk "Some response" "t\<lparr>tp_seen_handshakes := seen\<rparr>"] assms(5)
    by (auto simp: taken_over_def)
qed

lemma response_completes:
  assumes "parse_session_routing_header (in_packet i) RELAY_SESSION_RESPONSE = Inr (n, peer, self)"
    and "knows_peer X (we_now E) n nk self peer pk t" and "self \<noteq> peer" and "hm_get (tp_sessions t) (n, peer) = Some (PendingSession p)"
    and "pds_peer_public_key p = pk"
    and "initiator_complete S (pds_handshake p) (in_packet i) pk nk (we_now E) HANDSHAKE_CLOCK_SKEW_SECONDS = Inr keys"
    and "\<And>k nonce ad m. aead_encrypt S k nonce ad m \<noteq> None"
  shows "\<exists>t' e. receive_session_response S X C E i t = (t', Inr ()) \<and> hm_get (tp_sessions t') (n, peer) = Some (EstablishedSession e)
    \<and> eds_keys e = keys \<and> eds_next_sequence e = of_nat (length (pds_queued_packets p))"
proof -
  have "admit_session_response X (we_now E) (in_packet i) t = Some ((n, peer), nk, p)"
    using assms(1-5) by (auto simp: admit_session_response_def knows_peer_def case_prod_beta Let_def)
  then have "receive_session_response S X C E i t = install_session S C E i (n, peer) keys pk None t"
    using assms(5,6) by (simp add: receive_session_response_def)
  then show ?thesis
    using install_session_result [OF assms(7), of C E i "(n, peer)" keys pk None t] assms(4) by (auto simp: taken_over_def)
qed

section \<open>Both sides\<close>

text \<open>
  C8: Crossing handshakes give one session. Two workers of the same network, which know each other's identity keys, have both queued packets for the other
  and started a handshake; the first packets cross. If the encoders, HKDF and AES-GCM succeed, the agreed secret is not
  the all-zero one, the clocks are within 120 seconds and the identifier of the handshake was not seen before, then the device with the smaller
  identifier ignores the other's first packet and stays as it is, the other one gives up its own handshake and accepts, its response completes
  the handshake of the first, and both have an established session with the identifier of that handshake, each sending under the key under
  which the other receives, with all queued packets of both sides sealed.
\<close>

theorem crossing_handshakes_converge:
  assumes "ed_correct S" and "dh_correct S" and "json_session_ok S" and "\<And>v. json_response_payload S v \<noteq> None" and "\<And>v. json_response S v \<noteq> None"
    and "\<And>salt ikm info. hkdf_expand S salt ikm info 64 \<noteq> None" and aead: "\<And>k nonce ad m. aead_encrypt S k nonce ad m \<noteq> None"
    and "length (wc_identity CA) = 32" and "length (wc_identity CB) = 32" and "a < b"
    and knows_a: "knows_peer X (we_now EA) n nk a b (verifying_key S (wc_identity CB)) tA"
    and later_a: "knows_peer X (we_now EA') n nk a b (verifying_key S (wc_identity CB)) tA"
    and knows_b: "knows_peer X (we_now EB) n nk b a (verifying_key S (wc_identity CA)) tB"
    and wait_a: "awaits_response S n a b (wc_identity CA) (verifying_key S (wc_identity CB)) sidA secretA issuedA tA pA"
    and wait_b: "awaits_response S n b a (wc_identity CB) (verifying_key S (wc_identity CA)) sidB secretB issuedB tB pB"
    and "in_packet iA = pds_init_packet pB" and "in_packet iB = pds_init_packet pA"
    and "abs_diff (we_now EB) issuedA \<le> HANDSHAKE_CLOCK_SKEW_SECONDS" and "abs_diff (we_now EA') (we_now EB) \<le> HANDSHAKE_CLOCK_SKEW_SECONDS"
    and "x25519 S fresh (x25519_public S secretA) \<noteq> replicate 32 0"
    and "record_session_handshake (tp_seen_handshakes tB) (n, a) sidA (we_instant EB) = (seen, True)"
  shows "receive_session_init S X CA EA rnd iA tA = (tA, Inr ())
    \<and> (\<exists>tB' eB response. receive_session_init S X CB EB (Some fresh) iB tB = (tB', Inr ())
         \<and> hm_get (tp_sessions tB') (n, a) = Some (EstablishedSession eB) \<and> eds_cached_response eB = Some response
         \<and> (\<forall>i. in_packet i = response \<longrightarrow> (\<exists>tA' eA. receive_session_response S X CA EA' i tA = (tA', Inr ())
              \<and> hm_get (tp_sessions tA') (n, b) = Some (EstablishedSession eA)
              \<and> psk_session_id (eds_keys eA) = sidA \<and> psk_session_id (eds_keys eB) = sidA
              \<and> psk_send_key (eds_keys eA) = psk_receive_key (eds_keys eB) \<and> psk_receive_key (eds_keys eA) = psk_send_key (eds_keys eB)
              \<and> eds_next_sequence eA = of_nat (length (pds_queued_packets pA)) \<and> eds_next_sequence eB = of_nat (length (pds_queued_packets pB)))))"
proof
  note start_a = wait_a [unfolded awaits_response_def] and start_b = wait_b [unfolded awaits_response_def]
  show "receive_session_init S X CA EA rnd iA tA = (tA, Inr ())"
    using start_a start_b assms(16) by (intro lower_side_waits [OF assms(3) _ knows_a assms(10)]) auto
  obtain kr response where accept: "accept_pairwise_handshake S (Some fresh) (in_packet iB) (verifying_key S (wc_identity CA)) (wc_identity CB) nk
      (we_now EB) HANDSHAKE_CLOCK_SKEW_SECONDS = Inr (kr, response)"
    using accept_handshake_succeeds [OF assms(1,3,8) _ assms(18,4,5,6,20)] start_a assms(17) by metis
  have start: "initiator_start S (Some sidA) (Some secretA) n a b (wc_identity CA) issuedA = Inr (pds_handshake pA, in_packet iB)"
    using start_a assms(17) by simp
  have sid: "psk_session_id kr = sidA" by (rule accepted_session_id [OF assms(3) start accept])
  note complete = handshake_agrees [OF assms(1-3,9) start accept assms(19)]
  have header: "parse_session_routing_header response RELAY_SESSION_RESPONSE = Inr (n, b, a)"
  proof -
    have "parse_session_routing_header (in_packet iB) RELAY_SESSION_INIT = Inr (n, a, b)" by (rule init_packet_id(1) [OF assms(3) start])
    with accept show ?thesis by (elim accept_handshakeE) simp
  qed
  obtain tB' eB where b: "receive_session_init S X CB EB (Some fresh) iB tB = (tB', Inr ())"
      "hm_get (tp_sessions tB') (n, a) = Some (EstablishedSession eB)"
      "eds_keys eB = kr" "eds_cached_response eB = Some response" "eds_next_sequence eB = of_nat (length (pds_queued_packets pB))"
    using higher_side_accepts [OF assms(3) start knows_b assms(10) _ accept assms(21) aead] start_b by blast
  have "\<exists>tA' eA. receive_session_response S X CA EA' i tA = (tA', Inr ()) \<and> hm_get (tp_sessions tA') (n, b) = Some (EstablishedSession eA)
      \<and> eds_keys eA = \<lparr>psk_session_id = psk_session_id kr, psk_send_key = psk_receive_key kr, psk_receive_key = psk_send_key kr\<rparr>
      \<and> eds_next_sequence eA = of_nat (length (pds_queued_packets pA))" if "in_packet i = response" for i
    using response_completes [OF _ later_a _ _ _ _ aead] header complete start_a assms(10) that by auto
  then show "\<exists>tB' eB response. receive_session_init S X CB EB (Some fresh) iB tB = (tB', Inr ())
         \<and> hm_get (tp_sessions tB') (n, a) = Some (EstablishedSession eB) \<and> eds_cached_response eB = Some response
         \<and> (\<forall>i. in_packet i = response \<longrightarrow> (\<exists>tA' eA. receive_session_response S X CA EA' i tA = (tA', Inr ())
              \<and> hm_get (tp_sessions tA') (n, b) = Some (EstablishedSession eA)
              \<and> psk_session_id (eds_keys eA) = sidA \<and> psk_session_id (eds_keys eB) = sidA
              \<and> psk_send_key (eds_keys eA) = psk_receive_key (eds_keys eB) \<and> psk_receive_key (eds_keys eA) = psk_send_key (eds_keys eB)
              \<and> eds_next_sequence eA = of_nat (length (pds_queued_packets pA)) \<and> eds_next_sequence eB = of_nat (length (pds_queued_packets pB))))"
    using b sid by (intro exI [of _ tB'] exI [of _ eB] exI [of _ response]) fastforce
qed

section \<open>A first packet that comes late\<close>

text \<open>A data frame of another session is never opened.\<close>

lemma other_session_refused:
  assumes "session_seal S keys n source peer sequence plaintext = Inr packet" and "length (psk_session_id keys) = 16"
    and "length (psk_session_id keys') = 16" and "psk_session_id keys' \<noteq> psk_session_id keys"
  shows "\<exists>e. snd (session_open S keys' w packet) = Inl e"
proof (rule ccontr)
  assume "\<not> ?thesis"
  then obtain w' sp where sp: "session_open S keys' w packet = (w', Inr sp)" by (metis prod.collapse sum.exhaust)
  obtain c where c: "packet = session_data_header n source peer (psk_session_id keys) sequence @ c"
    using assms(1) by (auto simp: session_seal_def Let_def)
  obtain c' where c': "length (sp_session_id sp) = 16" "16 \<le> length c'" "sp_session_id sp = psk_session_id keys'"
    "packet = session_data_header (sp_network_id sp) (sp_source sp) (sp_destination sp) (sp_session_id sp) (sp_sequence sp) @ c'"
    using sp by (rule session_open_InrE) auto
  have "length c = length c'"
    using arg_cong [OF trans [OF c [symmetric] c'(4)], of length] assms(2) c'(1) by (simp add: length_session_data_header)
  then have "parse_session_data_header packet = Inr (n, source, peer, psk_session_id keys, sequence)"
    using c c'(2) assms(2) by (auto simp: parse_data_header_Inr_iff)
  moreover have "parse_session_data_header packet
      = Inr (sp_network_id sp, sp_source sp, sp_destination sp, sp_session_id sp, sp_sequence sp)"
    using c'(1,2,4) by (auto simp: parse_data_header_Inr_iff)
  ultimately show False using c'(3) assms(4) by simp
qed

text \<open>
  C9: The tie is broken only while the handshake of the lower device is pending. Two workers have agreed on the session of
  the lower device; then the other's first packet, which has crossed and comes late, arrives. The lower device accepts it and replaces its session,
  the other ignores the response because it has a session, and from then on neither opens what the other sends: the two sessions
  have different identifiers.
\<close>

theorem late_initiation_splits_the_pair:
  assumes "ed_correct S" and "json_session_ok S" and "\<And>v. json_response_payload S v \<noteq> None" and "\<And>v. json_response S v \<noteq> None"
    and "\<And>salt ikm info. hkdf_expand S salt ikm info 64 \<noteq> None" and aead: "\<And>k nonce ad m. aead_encrypt S k nonce ad m \<noteq> None"
    and "length (wc_identity CB) = 32" and "a < b"
    and knows_a: "knows_peer X (we_now EA) n nk a b (verifying_key S (wc_identity CB)) tA"
    and "hm_get (tp_sessions tA) (n, b) = Some (EstablishedSession eA)" and "psk_session_id (eds_keys eA) = sidA"
    and session_b: "hm_get (tp_sessions tB) (n, a) = Some (EstablishedSession eB)" and "psk_session_id (eds_keys eB) = sidA"
    and start: "initiator_start S (Some sidB) (Some secretB) n b a (wc_identity CB) issuedB = Inr (h, in_packet i)"
    and "length sidA = 16" and "length sidB = 16" and "sidB \<noteq> sidA"
    and "abs_diff (we_now EA) issuedB \<le> HANDSHAKE_CLOCK_SKEW_SECONDS" and "x25519 S fresh (x25519_public S secretB) \<noteq> replicate 32 0"
    and "record_session_handshake (tp_seen_handshakes tA) (n, b) sidB (we_instant EA) = (seen, True)"
  shows "\<exists>tA' eA' response. receive_session_init S X CA EA (Some fresh) i tA = (tA', Inr ())
    \<and> hm_get (tp_sessions tA') (n, b) = Some (EstablishedSession eA') \<and> eds_cached_response eA' = Some response
    \<and> (\<forall>i'. in_packet i' = response \<longrightarrow> receive_session_response S X CB EB i' tB = (tB, Inr ()))
    \<and> (\<forall>sequence plaintext packet w. session_seal S (eds_keys eA') n a b sequence plaintext = Inr packet \<longrightarrow>
         (\<exists>e. snd (session_open S (eds_keys eB) w packet) = Inl e))
    \<and> (\<forall>sequence plaintext packet w. session_seal S (eds_keys eB) n b a sequence plaintext = Inr packet \<longrightarrow>
         (\<exists>e. snd (session_open S (eds_keys eA') w packet) = Inl e))"
proof -
  obtain kr response where accept: "accept_pairwise_handshake S (Some fresh) (in_packet i) (verifying_key S (wc_identity CB)) (wc_identity CA) nk
      (we_now EA) HANDSHAKE_CLOCK_SKEW_SECONDS = Inr (kr, response)"
    using accept_handshake_succeeds [OF assms(1,2,7) start assms(18,3,4,5,19)] by metis
  have sid: "psk_session_id kr = sidB" by (rule accepted_session_id [OF assms(2) start accept])
  have header: "parse_session_routing_header response RELAY_SESSION_RESPONSE = Inr (n, a, b)"
  proof -
    have "parse_session_routing_header (in_packet i) RELAY_SESSION_INIT = Inr (n, b, a)" by (rule init_packet_id(1) [OF assms(2) start])
    with accept show ?thesis by (elim accept_handshakeE) simp
  qed
  have ne: "a \<noteq> b" using assms(8) by auto
  have pending: "cached_response_for (hm_get (tp_sessions tA) (n, b)) sidB = None" "\<not> (is_pending (hm_get (tp_sessions tA) (n, b)) \<and> a < b)"
    using assms(10,11,17) by (auto simp: cached_response_for_def is_pending_def)
  note recv = accepts_init [OF assms(2) start knows_a ne pending accept assms(20)]
  obtain tA' eA' where a: "receive_session_init S X CA EA (Some fresh) i tA = (tA', Inr ())"
      "hm_get (tp_sessions tA') (n, b) = Some (EstablishedSession eA')" "eds_keys eA' = kr" "eds_cached_response eA' = Some response"
    using install_session_result [OF aead, of CA EA i "(n, b)" kr "verifying_key S (wc_identity CB)" "Some response"
        "tA\<lparr>tp_seen_handshakes := seen\<rparr>"] recv by auto
  have "receive_session_response S X CB EB i' tB = (tB, Inr ())" if "in_packet i' = response" for i'
    using header session_b that
    by (auto simp: receive_session_response_def admit_session_response_def case_prod_beta Let_def split: option.split sum.split)
  moreover have "\<exists>e. snd (session_open S (eds_keys eB) w packet) = Inl e" if "session_seal S (eds_keys eA') n a b sequence plaintext = Inr packet"
    for sequence plaintext packet w
    using that by (rule other_session_refused) (use a(3) sid assms(13,15-17) in auto)
  moreover have "\<exists>e. snd (session_open S (eds_keys eA') w packet) = Inl e" if "session_seal S (eds_keys eB) n b a sequence plaintext = Inr packet"
    for sequence plaintext packet w
    using that by (rule other_session_refused) (use a(3) sid assms(13,15-17) in auto)
  ultimately show ?thesis using a by blast
qed

end
