(* ===== verification/Worker_Samples.thy ===== *)
theory Worker_Samples
  imports Worker_Handshake
begin

text \<open>
  A sample run of a transport worker, which the properties of the worker are applied to: device 2 of a network learns the identity of
  device 1 from the relay, accepts its handshake, and sends it two packets.
\<close>

section \<open>The sample worker\<close>

definition sample_member_network :: joined_network where
  "sample_member_network = sample_joined\<lparr>jn_certificate := Some sample_peer_certificate,
     jn_control_plane := sample_control_plane\<lparr>ncp_policy_manifest := None\<rparr>\<rparr>"

definition sample_worker_agent :: "unit agent" where
  "sample_worker_agent = (let st = (persisted_state_new 2 (replicate 32 8))\<lparr>ps_networks := [sample_member_network]\<rparr>
     in \<lparr>ag_state = st, ag_file = st, ag_adapter = (), ag_turn_credentials = [], ag_transport_revision = 0,
       ag_observations = observation_default, ag_transport_reload = False, ag_authorization_refresh = False, ag_shutting_down = False\<rparr>)"

definition sample_worker :: "unit transport" where
  "sample_worker = \<lparr>tp_agent = sample_worker_agent,
     tp_endpoints = endpoint_health_default, tp_peer_paths = [], tp_relay_confirmations_accepted = 0, tp_relay_confirmations_rejected = 0,
     tp_authorization_hint_refreshes = 0, tp_registration_backoff_seconds = 0, tp_peers = [], tp_sessions = [], tp_seen_handshakes = [],
     tp_stun_transactions = [], tp_root_transactions = [], tp_relay_transactions = [], tp_advertised_candidates = [],
     tp_endpoint_health = endpoint_health_default, tp_registration_schedules = [], tp_sent = [], tp_written = [], tp_sealed = []\<rparr>"

definition sample_worker_config :: worker_config where
  "sample_worker_config = \<lparr>wc_configuration = \<lparr>tcf_networks = [], tcf_relay_endpoints = [SocketV4 9 9], tcf_root_servers = [],
       tcf_stun_servers = [], tcf_upnp_enabled = False, tcf_turn_routes = []\<rparr>, wc_revision = 0, wc_identity = replicate 32 8\<rparr>"

definition sample_worker_env :: worker_env where
  "sample_worker_env = \<lparr>we_instant = 7, we_now = 300, we_sockets = \<lparr>tso_ipv6 = False, tso_accepts = (\<lambda>_ _ _. True)\<rparr>,
     we_adapter_writes = True\<rparr>"

definition sample_worker_ops :: worker_ops where
  "sample_worker_ops = relay_ops.extend (sample_relay_ops\<lparr>parse_certificate := \<lambda>_. Some sample_peer_certificate\<rparr>)
     (worker_ops.fields (\<lambda>_. None) (\<lambda>_. None) (\<lambda>_. None))"

definition sample_interface :: "unit adapter_ops" where
  "sample_interface = \<lparr>ado_is_active = (\<lambda>_. True), ado_activate = (\<lambda>a. (a, True)), ado_deactivate = id,
     ado_configure_networks = (\<lambda>_ a. (a, True)), ado_remove_network = (\<lambda>_ a. (a, True)), ado_configure_policy = (\<lambda>_ a. (a, True)),
     ado_configure_exit_gateways = (\<lambda>_ a. (a, True)), ado_configure_kill_switch = (\<lambda>_ a. (a, True))\<rparr>"

definition sample_inbound :: "bytes \<Rightarrow> inbound" where
  "sample_inbound packet = \<lparr>in_remote = SocketV4 9 9, in_packet = packet, in_via_tls_relay = False, in_via_turn = False,
     in_via_tls_turn = False\<rparr>"

lemma sample_worker_sel [simp]:
  "relay_snapshot sample_worker = (2, [sample_member_network])" "tp_peers sample_worker = []" "tp_sessions sample_worker = []"
  "tp_seen_handshakes sample_worker = []" "tp_sealed sample_worker = []" "tp_written sample_worker = []"
  "ag_transport_revision (tp_agent sample_worker) = 0"
  "wc_identity sample_worker_config = replicate 32 8" "wc_revision sample_worker_config = 0"
  "tcf_relay_endpoints (wc_configuration sample_worker_config) = [SocketV4 9 9]" "tcf_networks (wc_configuration sample_worker_config) = []"
  "we_instant sample_worker_env = 7" "we_now sample_worker_env = 300" "we_adapter_writes sample_worker_env"
  "in_packet (sample_inbound p) = p" "in_remote (sample_inbound p) = SocketV4 9 9" "ado_is_active sample_interface a"
  "wo_parse_root_response sample_worker_ops b = None" "parse_certificate sample_worker_ops b = Some sample_peer_certificate"
  by (simp_all add: sample_worker_def sample_worker_agent_def Let_def sample_worker_config_def sample_worker_env_def sample_inbound_def sample_interface_def
      relay_snapshot_def persisted_state_new_def sample_worker_ops_def relay_ops.defs worker_ops.defs)

lemma sample_member_sel [simp]:
  "vn_id (jn_network sample_member_network) = 5" "jn_network_key sample_member_network = replicate 32 9"
  "jn_assigned_addresses sample_member_network = [V4 0x64400003]"
  by (simp_all add: sample_member_network_def sample_joined_def)

lemma sample_member_manifest: "verified_authorization_manifest sample_dp sample_member_network 300 = Some sample_manifest"
  by (simp add: verified_authorization_manifest_def sample_member_network_def sample_joined_def sample_control_plane_def
      pinned_controller_key_def authorization_verify_Inr_iff is_ok_iff sample_manifest_def AUTHORIZATION_MANIFEST_VERSION_def
      saturating_add_def const_policy_simps pool_ops.defs sample_dp_def open_prims_def sample_prims_def)

lemma sample_manifest_authorizes: "authorizes sample_manifest sample_peer_certificate"
  by (simp add: authorizes_def sample_peer_certificate_def sample_certificate_def sample_claims_def sample_manifest_def sample_member_def)

lemma sample_member_authorized: "local_network_is_authorized sample_dp sample_member_network 300"
  unfolding local_network_is_authorized_def sample_member_manifest
  by (simp add: sample_member_network_def sample_joined_def sample_manifest_authorizes)

lemma sample_certificate_trusted: "certificate_is_trusted sample_dp sample_member_network sample_peer_certificate 300"
  using sample_manifest_authorizes sample_member_authorized
  by (simp add: certificate_is_trusted_def peer_certificate_is_authorized_def sample_member_manifest)
    (simp add: is_ok_iff certificate_verify_Inr_iff certificate_message_def sample_peer_certificate_def sample_member_network_def sample_joined_def
      sample_certificate_def sample_claims_def sample_control_plane_def pinned_controller_key_def
      const_policy_simps pool_ops.defs sample_dp_def open_prims_def sample_prims_def)

section \<open>Learning a peer\<close>

lemma relay_magic_is_not_stun: "parse_stun_binding_success (RELAY_MAGIC @ rest) = None"
proof -
  have "u16_of_be [0x4D, 0x4C] \<noteq> u16_of_be (u16_to_be 0x0101)" by simp (simp add: u16_of_be_def be_to_nat_def)
  then have "[0x4D, 0x4C] \<noteq> u16_to_be 0x0101" by metis
  then show ?thesis by (simp add: parse_stun_binding_success_def RELAY_MAGIC_def)
qed

lemma sample_dispatch:
  "receive_udp_packet S sample_worker_ops X A C E rnd (sample_inbound (RELAY_MAGIC @ kind # rest)) t
     = receive_relay_frame S sample_worker_ops X A C E rnd (sample_inbound (RELAY_MAGIC @ kind # rest)) t"
  by (simp add: receive_udp_packet_def relay_magic_is_not_stun handle_root_response_def) (simp add: RELAY_MAGIC_def)

lemma sample_membership_update:
  "update_peer_membership sample_dp 7 [] sample_peer_certificate 2 [sample_member_network] = ([((5, 1), sample_peer_route)], Some False)"
proof -
  have "address_belongs_to_network sample_dp sample_member_network (V4 0x64400002)"
    by (simp add: sample_member_network_def sample_joined_def sample_dp_def const_policy_simps pool_ops.defs drop_bit_eq_div)
  then have "update_peer_addresses sample_dp 7 [] (5, 1) [V4 0x64400002] 2 [sample_member_network]
      = ([((5, 1), set_assigned_addresses_at [V4 0x64400002] 7 peer_route_empty)], True)"
    by (simp add: update_peer_addresses_def RELAY_MAX_ASSIGNED_ADDRESSES_def directory_conflict_def hm_insert_def)
  then show ?thesis
    by (simp add: update_peer_membership_def sample_peer_certificate_def sample_certificate_def
        sample_claims_def hm_insert_def hm_get_def peer_route_empty_def set_assigned_addresses_at_def sample_peer_route_def)
qed

definition sample_identity :: inbound where
  "sample_identity = sample_inbound (RELAY_MAGIC @ RELAY_PEER_IDENTITY # [0])"

definition sample_knowing :: "unit transport" where
  "sample_knowing = sample_worker\<lparr>tp_peers := [((5, 1), sample_peer_route)]\<rparr>"

lemma sample_claims_sel [simp]:
  "mcl_network_id (mc_claims sample_peer_certificate) = 5" "mcl_device_id (mc_claims sample_peer_certificate) = 1"
  "mcl_device_public_key (mc_claims sample_peer_certificate) = replicate 32 4"
  by (simp_all add: sample_peer_certificate_def sample_claims_def)

lemma sample_learns:
  "receive_udp_packet S sample_worker_ops sample_dp A sample_worker_config sample_worker_env rnd sample_identity sample_worker
     = (sample_knowing, Inr ())"
proof -
  have "parse_peer_identity sample_worker_ops (RELAY_MAGIC @ RELAY_PEER_IDENTITY # [0]) = Some sample_peer_certificate"
    by (simp add: parse_peer_identity_def) (simp add: RELAY_MAGIC_def)
  moreover have "find_network 5 [sample_member_network] = Some sample_member_network" by (simp add: find_network_def)
  moreover have "(RELAY_MAGIC @ RELAY_PEER_IDENTITY # [0]) ! 4 = RELAY_PEER_IDENTITY" by (simp add: RELAY_MAGIC_def)
  ultimately show ?thesis
    unfolding sample_identity_def sample_dispatch
    by (simp add: receive_relay_frame_def Let_def receive_peer_identity_def install_peer_membership_def sample_certificate_trusted
        sample_membership_update sample_knowing_def)
      (simp add: frame_kinds)
qed

text \<open>The keys at a peer that the directory did not have.\<close>

theorem peer_keys_are_certified_witness:
  "\<exists>network certificate. network \<in> set [sample_member_network] \<and> mcl_device_public_key (mc_claims certificate) = replicate 32 4
    \<and> is_ok (certificate_verify_from_controller sample_dp certificate (pinned_controller_key network) 300)"
proof -
  have "hm_get (tp_peers sample_knowing) (5, 1) = Some sample_peer_route" by (simp add: sample_knowing_def hm_get_def)
  then show ?thesis
    using peer_keys_are_certified [OF sample_learns [of sample_session sample_interface None], of "(5, 1)" sample_peer_route]
    by (auto simp: sample_peer_route_def sample_worker_def sample_worker_agent_def Let_def persisted_state_new_def) 
qed

section \<open>A session with the peer\<close>

definition sample_ready :: "unit transport \<Rightarrow> established_session \<Rightarrow> bool" where
  "sample_ready t e \<longleftrightarrow> relay_snapshot t = (2, [sample_member_network]) \<and> tp_peers t = [((5, 1), sample_peer_route)]
     \<and> ag_transport_revision (tp_agent t) = 0 \<and> hm_get (tp_sessions t) (5, 1) = Some (EstablishedSession e)
     \<and> map fst (tp_sessions t) = [(5, 1)] \<and> eds_peer_public_key e = replicate 32 4 \<and> eds_established_at e = 7"

lemma sample_knowing_sel [simp]:
  "relay_snapshot sample_knowing = (2, [sample_member_network])" "tp_peers sample_knowing = [((5, 1), sample_peer_route)]"
  "tp_sessions sample_knowing = []" "tp_seen_handshakes sample_knowing = []" "tp_sealed sample_knowing = []"
  "ag_transport_revision (tp_agent sample_knowing) = 0"
  by (simp_all add: sample_knowing_def)

lemma sample_knows_peer: "tp_peers t = [((5, 1), sample_peer_route)] \<Longrightarrow> relay_snapshot t = (2, [sample_member_network])
    \<Longrightarrow> knows_peer sample_dp 300 5 (replicate 32 9) 2 1 (replicate 32 4) t"
  by (simp add: knows_peer_def find_network_def sample_member_authorized network_key_from_slice_def hm_get_def sample_peer_route_def)

lemma sample_aead: "aead_encrypt sample_session k nonce ad m \<noteq> None"
  by (simp add: sample_session_simps sample_encrypt_def)

lemma sample_start:
  obtains hs e where "initiator_start sample_session (Some sid) (Some [s]) n i r identity issued = Inr (hs, routing_header RELAY_SESSION_INIT n i r @ e)"
proof -
  have "\<exists>hs p. initiator_start sample_session (Some sid) (Some [s]) n i r identity issued = Inr (hs, p)"
    using sample_session_total(1,2)
    by (fastforce simp: initiator_start_def sign_payload_def signature_message_def encode_routed_json_def Let_def)
  then show thesis using that by (metis initiator_startE)
qed

text \<open>The first packet of device 1 makes an established session, here without queued packets.\<close>

lemma sample_accepts:
  obtains i t e where "receive_udp_packet sample_session sample_worker_ops sample_dp A sample_worker_config sample_worker_env (Some [2]) i
      sample_knowing = (t, Inr ())"
    and "sample_ready t e" and "eds_next_sequence e = 0" and "tp_sealed t = []"
proof -
  obtain hs b where start: "initiator_start sample_session (Some (replicate 16 7)) (Some [1]) 5 1 2 (replicate 32 4) 300
      = Inr (hs, routing_header RELAY_SESSION_INIT 5 1 2 @ b)" by (rule sample_start)
  let ?i = "sample_inbound (routing_header RELAY_SESSION_INIT 5 1 2 @ b)"
  have start': "initiator_start sample_session (Some (replicate 16 7)) (Some [1]) 5 1 2 (replicate 32 4) 300 = Inr (hs, in_packet ?i)"
    using start by simp
  obtain keys response where accept: "accept_pairwise_handshake sample_session (Some [2]) (in_packet ?i) (replicate 32 4)
      (wc_identity sample_worker_config) (replicate 32 9) (we_now sample_worker_env) HANDSHAKE_CLOCK_SKEW_SECONDS = Inr (keys, response)"
    using accept_handshake_succeeds [OF _ _ _ start, of 300 HANDSHAKE_CLOCK_SKEW_SECONDS "[2]" "replicate 32 8" "replicate 32 9"]
      sample_session_total(3,4,5)
    by (auto simp: sample_session_simps abs_diff_def HANDSHAKE_CLOCK_SKEW_SECONDS_def)
  have seen: "record_session_handshake (tp_seen_handshakes sample_knowing) (5, 1) (replicate 16 7) (we_instant sample_worker_env)
      = ([(((5, 1), replicate 16 7), 7)], True)"
    by (simp add: record_session_handshake_def hm_retain_def hm_insert_def Let_def MAX_HANDSHAKE_REPLAY_ENTRIES_def)
  define u where "u = sample_knowing\<lparr>tp_seen_handshakes := [(((5, 1), replicate 16 7), 7)]\<rparr>"
  have "receive_session_init sample_session sample_dp sample_worker_config sample_worker_env (Some [2]) ?i sample_knowing
      = install_session sample_session sample_worker_config sample_worker_env ?i (5, 1) keys (replicate 32 4) (Some response) u"
    unfolding u_def by (rule accepts_init [OF _ start' _ _ _ _ accept seen]) (simp_all add: sample_knows_peer cached_response_for_def is_pending_def)
  moreover have "receive_relay_frame sample_session sample_worker_ops sample_dp A sample_worker_config sample_worker_env (Some [2]) ?i sample_knowing
      = receive_session_init sample_session sample_dp sample_worker_config sample_worker_env (Some [2]) ?i sample_knowing"
    by (simp add: receive_relay_frame_def routing_header_def RELAY_MAGIC_def) (simp add: frame_kinds)
  moreover have "receive_udp_packet sample_session sample_worker_ops sample_dp A sample_worker_config sample_worker_env (Some [2]) ?i sample_knowing
      = receive_relay_frame sample_session sample_worker_ops sample_dp A sample_worker_config sample_worker_env (Some [2]) ?i sample_knowing"
    using sample_dispatch by (simp add: routing_header_def)
  ultimately have recv: "receive_udp_packet sample_session sample_worker_ops sample_dp A sample_worker_config sample_worker_env (Some [2]) ?i
      sample_knowing = install_session sample_session sample_worker_config sample_worker_env ?i (5, 1) keys (replicate 32 4) (Some response) u"
    by simp
  obtain t e where t: "install_session sample_session sample_worker_config sample_worker_env ?i (5, 1) keys (replicate 32 4) (Some response) u
      = (t, Inr ())" "hm_get (tp_sessions t) (5, 1) = Some (EstablishedSession e)" "eds_keys e = keys" "eds_peer_public_key e = replicate 32 4"
      "eds_next_sequence e = 0" "eds_established_at e = 7"
    using install_session_result [OF sample_aead, of sample_worker_config sample_worker_env ?i "(5, 1)" keys "replicate 32 4" "Some response" u]
    by (auto simp: u_def taken_over_def)
  have "map fst (tp_sessions t) = [(5, 1)]" "tp_sealed t = []"
    using t(1) by (auto simp: install_session_def u_def taken_over_def seal_queued_packets_def Let_def case_prod_beta update_session_sessions
        hm_insert_def hm_get_def seals_def)
  moreover have "relay_snapshot t = (2, [sample_member_network])" "tp_peers t = [((5, 1), sample_peer_route)]"
      "ag_transport_revision (tp_agent t) = 0"
    using install_session_keeps [of sample_session sample_worker_config sample_worker_env ?i "(5, 1)" keys "replicate 32 4" "Some response" u]
    unfolding t(1) by (simp_all add: u_def)
  ultimately show thesis using t recv by (intro that [of ?i t e]) (simp_all add: sample_ready_def)
qed

section \<open>Ticks\<close>

definition sample_timers :: worker_timers where
  "sample_timers = \<lparr>wt_registration_scan = 1000, wt_stun_refresh = 1000, wt_port_mapping_refresh = 1000, wt_peer_probe = 1000,
     wt_handshake_retry = 1000\<rparr>"

definition sample_tick_input :: "bytes list \<Rightarrow> tick_input" where
  "sample_tick_input packets = \<lparr>ti_port_mapping = None, ti_relay_nonce = (\<lambda>_ _. 0), ti_root_nonce = (\<lambda>_ _. 0), ti_stun_random = (\<lambda>_. 0),
     ti_handshake = (\<lambda>_ _. (None, None)), ti_stun_servers = [], ti_packets = map Inr packets\<rparr>"

lemma sample_member_usable: "network_is_usable sample_dp 300 [sample_member_network] 5"
  by (simp add: network_is_usable_def sample_member_authorized)

lemma sample_maintain:
  assumes "relay_snapshot t = (2, [sample_member_network])" and "tp_peers t = [((5, 1), sample_peer_route)]"
    and "map fst (tp_sessions t) \<in> {[], [(5, 1)]}"
  shows "maintain sample_dp C sample_worker_env I (sample_timers, None, t) = (sample_timers, None, t)"
proof -
  have "filter (\<lambda>(i, _). \<not> network_is_usable sample_dp 300 [sample_member_network] i) (map fst (tp_sessions t)) = []"
    using assms(3) by (auto simp: sample_member_usable)
  then have "forget_unauthorized sample_dp C sample_worker_env t = t"
    unfolding forget_unauthorized_def Let_def using assms(1,2) by (simp add: hm_retain_def sample_member_usable)
  then show ?thesis by (simp add: maintain_def sample_timers_def)
qed

lemma sample_tick:
  assumes "relay_snapshot t = (2, [sample_member_network])" and "tp_peers t = [((5, 1), sample_peer_route)]"
    and "map fst (tp_sessions t) \<in> {[], [(5, 1)]}" and "ag_transport_revision (tp_agent t) = 0"
    and "forward_packets S sample_dp sample_worker_config sample_worker_env I t = (t', Inr ())"
  shows "worker_tick S R sample_dp sample_interface sample_worker_config sample_worker_env I (sample_timers, None, t)
    = ((sample_timers, None, t'), Inr True)"
  using sample_maintain [OF assms(1-3)] assms(4,5)
  by (simp add: worker_tick_def has_expired_planet_def) (simp add: sample_timers_def)

text \<open>A packet to the address of the peer.\<close>

definition sample_direct_packet :: bytes where
  "sample_direct_packet = [0x45, 0, 0, 0, 0, 0, 0, 0, 0, 0, 0, 0, 100, 64, 0, 3, 100, 64, 0, 2]"

lemma sample_direct_addresses: "packet_addresses sample_direct_packet = Some (V4 0x64400003, V4 0x64400002)"
  by (simp add: packet_addresses_def sample_direct_packet_def drop_bit_eq_div ipv4_new_def u32_of_be_def be_to_nat_def)

lemma sample_direct_route:
  "outbound_route_for_ip_packet sample_dp (Some 300) [sample_member_network] 2 sample_direct_packet
     = Some \<lparr>onr_network = sample_member_network, onr_gateway = None\<rparr>"
proof -
  have "\<not> is_group_destination sample_dp sample_member_network (V4 0x64400002)"
    "destination_prefix_len sample_dp sample_member_network (V4 0x64400002) = Some 24"
    by (simp_all add: sample_member_network_def sample_joined_def sample_dp_def const_policy_simps pool_ops.defs ipv4_broadcast_def
        ipv4_octet_def drop_bit_eq_div)
  moreover have "policy_gateway sample_dp (Some 300) sample_member_network (V4 0x64400002) = None"
    by (simp add: policy_gateway_def sample_member_network_def)
  ultimately show ?thesis by (simp add: outbound_route_for_ip_packet_def sample_direct_addresses direct_route_def)
qed

lemma sample_direct_targets:
  "peer_targets_for_packet sample_dp [((5, 1), sample_peer_route)] sample_member_network None sample_direct_packet = [(1, sample_peer_route)]"
  by (simp add: peer_targets_for_packet_def sample_direct_addresses map_filter_simps sample_peer_route_def)

text \<open>A tick that reads one packet seals it for the peer.\<close>

lemma sample_forward:
  assumes "sample_ready t e" and "eds_next_sequence e \<noteq> - 1"
  shows "\<exists>t' e'. forward_packets sample_session sample_dp sample_worker_config sample_worker_env (sample_tick_input [sample_direct_packet]) t
      = (t', Inr ()) \<and> sample_ready t' e' \<and> eds_keys e' = eds_keys e \<and> eds_next_sequence e' = saturating_add (eds_next_sequence e) 1
      \<and> tp_sealed t' = tp_sealed t @ seals (eds_keys e) (eds_next_sequence e) 1"
proof -
  note r = assms(1) [unfolded sample_ready_def]
  obtain packet where packet: "session_seal sample_session (eds_keys e) 5 2 1 (eds_next_sequence e) sample_direct_packet = Inr packet"
    using sample_aead by (fastforce simp: session_seal_def Let_def)
  let ?e = "e\<lparr>eds_next_sequence := saturating_add (eds_next_sequence e) 1\<rparr>"
  have usable: "usable_sessions 7 (replicate 32 4) (5, 1) (tp_sessions t) = tp_sessions t"
    using r assms(2) by (simp add: usable_sessions_def must_discard_def)
  define u where "u = t\<lparr>tp_sessions := hm_insert (5, 1) (EstablishedSession ?e) (tp_sessions t),
      tp_sealed := tp_sealed t @ seals (eds_keys e) (eds_next_sequence e) 1\<rparr>"
  have fw: "forward_to_target sample_session sample_worker_config sample_worker_env (None, None) sample_member_network sample_direct_packet
      (1, sample_peer_route) t
      = (note_path sample_worker_config sample_worker_env (5, 1) True
          (send_peer_routed_packet sample_worker_config sample_worker_env sample_member_network sample_peer_route packet u), Inr ())"
    using r packet usable
    by (simp add: forward_to_target_def prepare_outbound_peer_packet_def sample_peer_route_def Let_def sealed_for_def u_def)
  have keys: "map fst (hm_insert (5, 1) s (tp_sessions t)) = [(5, 1)]" for s using r by (cases "tp_sessions t") (auto simp: hm_insert_def)
  define v where "v = note_path sample_worker_config sample_worker_env (5, 1) True
          (send_peer_routed_packet sample_worker_config sample_worker_env sample_member_network sample_peer_route packet u)"
  obtain f where v: "v = update_session sample_worker_config sample_worker_env (5, 1) f
      (fst (send_peer_routed_packet sample_worker_config sample_worker_env sample_member_network sample_peer_route packet u))"
    and f: "\<And>s. same_session s (f s)" "\<And>e. \<exists>e'. f (EstablishedSession e) = EstablishedSession e' \<and> eds_established_at e' = eds_established_at e"
    by (rule that [OF v_def [unfolded note_path_def case_prod_beta]])
      (auto split: option.split intro: same_session_trans [OF same_session_updates(1) same_session_updates(4)])
  obtain e' where e': "f (EstablishedSession ?e) = EstablishedSession e'" "eds_established_at e' = 7" using f(2) [of ?e] r by auto
  have same: "same_session (EstablishedSession ?e) (EstablishedSession e')" using f(1) [of "EstablishedSession ?e"] e'(1) by simp
  have "sample_ready v e' \<and> tp_sealed v = tp_sealed t @ seals (eds_keys e) (eds_next_sequence e) 1"
    using r same e' keys by (simp add: sample_ready_def v update_session_sessions u_def)
  moreover have "forward_packets sample_session sample_dp sample_worker_config sample_worker_env (sample_tick_input [sample_direct_packet]) t = (v, Inr ())"
    using r fw by (simp add: forward_packets_def sample_tick_input_def abind_def areturn_def forward_packet_def sample_direct_route
        sample_member_authorized sample_direct_targets v_def)
  ultimately show ?thesis using same by auto
qed

section \<open>The run\<close>

abbreviation sample_run :: "unit transport \<Rightarrow> bool" where
  "sample_run \<equiv> worker_run sample_session sample_worker_ops sample_dp sample_interface sample_worker_config"

lemma sample_run_knowing: "sample_run sample_knowing"
proof -
  have "worker_start (wc_configuration sample_worker_config) 0 (\<lambda>_. None) sample_worker = (fst (worker_start (wc_configuration sample_worker_config)
      0 (\<lambda>_. None) sample_worker), None, sample_worker)"
    by (simp add: worker_start_def sample_worker_config_def sample_worker_def)
  then have "sample_run sample_worker" by (rule worker_run.start)
  moreover have "handshake_is_fresh sample_session sample_worker_config sample_worker_env None sample_identity sample_worker"
    by (simp add: handshake_is_fresh_def used_keys_def established_def)
  ultimately show ?thesis using sample_learns by (rule worker_run.datagram)
qed

lemma sample_run_ready:
  obtains t e where "sample_run t" and "sample_ready t e" and "eds_next_sequence e = 0" and "tp_sealed t = []"
proof (rule sample_accepts [of sample_interface])
  fix i t e
  assume step: "receive_udp_packet sample_session sample_worker_ops sample_dp sample_interface sample_worker_config sample_worker_env
      (Some [2]) i sample_knowing = (t, Inr ())"
    and e: "sample_ready t e" "eds_next_sequence e = 0" "tp_sealed t = []"
  have "handshake_is_fresh sample_session sample_worker_config sample_worker_env (Some [2]) i sample_knowing"
    by (simp add: handshake_is_fresh_def used_keys_def established_def)
  then have "sample_run t" using sample_run_knowing step by (blast intro: worker_run.datagram)
  then show thesis using e by (rule that)
qed

lemma sample_run_tick:
  assumes "sample_run t" and "sample_ready t e" and "eds_next_sequence e \<noteq> - 1"
  obtains t' e' where "sample_run t'" and "sample_ready t' e'" and "eds_next_sequence e' = saturating_add (eds_next_sequence e) 1"
    and "tp_sealed t' = tp_sealed t @ seals (eds_keys e) (eds_next_sequence e) 1"
proof -
  from sample_forward [OF assms(2,3)]
  obtain t' e' where f: "forward_packets sample_session sample_dp sample_worker_config sample_worker_env (sample_tick_input [sample_direct_packet]) t
      = (t', Inr ())" and e': "sample_ready t' e'" "eds_next_sequence e' = saturating_add (eds_next_sequence e) 1"
      "tp_sealed t' = tp_sealed t @ seals (eds_keys e) (eds_next_sequence e) 1" by blast
  have "worker_tick sample_session sample_worker_ops sample_dp sample_interface sample_worker_config sample_worker_env
      (sample_tick_input [sample_direct_packet]) (sample_timers, None, t) = ((sample_timers, None, t'), Inr True)"
    using assms(2) f by (intro sample_tick) (simp_all add: sample_ready_def)
  then show thesis using e' worker_run.tick [OF assms(1)] by (blast intro: that)
qed

text \<open>The properties of all runs at the sample run, which seals two packets.\<close>

theorem nonces_never_repeat_witness: "\<exists>t. sample_run t \<and> length (tp_sealed t) = 2 \<and> distinct (tp_sealed t)"
proof (rule sample_run_ready)
  fix t e
  assume t: "sample_run t" "sample_ready t e" "eds_next_sequence e = 0" "tp_sealed t = []"
  show ?thesis
  proof (rule sample_run_tick [OF t(1,2)])
    show "eds_next_sequence e \<noteq> - 1" by (simp add: t(3))
    fix t1 e1
    assume t1: "sample_run t1" "sample_ready t1 e1" "eds_next_sequence e1 = saturating_add (eds_next_sequence e) 1"
      "tp_sealed t1 = tp_sealed t @ seals (eds_keys e) (eds_next_sequence e) 1"
    show ?thesis
    proof (rule sample_run_tick [OF t1(1,2)])
      show "eds_next_sequence e1 \<noteq> - 1" by (simp add: t1(3) t(3) saturating_add_def)
      fix t2 e2
      assume t2: "sample_run t2" "tp_sealed t2 = tp_sealed t1 @ seals (eds_keys e1) (eds_next_sequence e1) 1"
      show ?thesis
        using t2 t1(4) t(4) nonces_never_repeat [OF t2(1)] by (intro exI [of _ t2]) (simp add: seals_def)
    qed
  qed
qed


text \<open>The tick at the peer of the sample run.\<close>

theorem tick_cuts_off_unauthorized_witness:
  "\<exists>network \<in> set [sample_member_network]. vn_id (jn_network network) = 5 \<and> local_network_is_authorized sample_dp network 300"
proof -
  have "forward_packets sample_session sample_dp sample_worker_config sample_worker_env (sample_tick_input []) sample_knowing = (sample_knowing, Inr ())"
    by (simp add: forward_packets_def sample_tick_input_def areturn_def)
  then have "worker_tick sample_session sample_worker_ops sample_dp sample_interface sample_worker_config sample_worker_env
      (sample_tick_input []) (sample_timers, None, sample_knowing) = ((sample_timers, None, sample_knowing), Inr True)"
    by (intro sample_tick) simp_all
  from tick_cuts_off_unauthorized [OF sample_run_knowing this, of "(5, 1)"] show ?thesis
    by (simp add: hm_get_def) (simp add: sample_knowing_def sample_worker_def sample_worker_agent_def Let_def persisted_state_new_def)
qed

section \<open>A delivery\<close>

definition sample_answer :: bytes where
  "sample_answer = [0x45, 0, 0, 0, 0, 0, 0, 0, 0, 0, 0, 0, 100, 64, 0, 2, 100, 64, 0, 3]"

lemma sample_answer_allowed:
  "packet_is_authorized_for_delivery sample_dp (Some 300) sample_member_network 1 sample_peer_route 2 2 sample_answer"
proof -
  have "packet_addresses sample_answer = Some (V4 0x64400002, V4 0x64400003)"
    by (simp add: packet_addresses_def sample_answer_def drop_bit_eq_div ipv4_new_def u32_of_be_def be_to_nat_def)
  then show ?thesis by (simp add: packet_is_authorized_for_delivery_def sample_peer_route_def)
qed

definition sample_connected :: "unit transport" where
  "sample_connected = sample_knowing\<lparr>tp_sessions := [((5, 1), EstablishedSession
     (new_established right_keys (replicate 32 4) 0 7 None RelayPath (0, 1, 0, 0)))]\<rparr>"

lemma sample_delivery:
  obtains b t where "receive_udp_packet sample_session sample_worker_ops sample_dp sample_interface sample_worker_config sample_worker_env None
      (sample_inbound (routing_header RELAY_SESSION_DATA 5 1 2 @ b)) sample_connected = (t, Inr ())"
    and "tp_written t = [sample_answer]"
proof -
  let ?h = "session_data_header 5 1 2 (replicate 16 7) 9"
  obtain c where c: "aead_encrypt sample_session [1] (session_nonce (replicate 16 7) 9) ?h sample_answer = Some c" using sample_aead by blast
  then have dec: "aead_decrypt sample_session [1] (session_nonce (replicate 16 7) 9) ?h c = Some sample_answer" "16 \<le> length c"
    using sample_session_prims(2) by (auto simp: aead_correct_def)
  obtain b where b: "?h @ c = routing_header RELAY_SESSION_DATA 5 1 2 @ b" by (auto simp: session_data_header_def)
  let ?i = "sample_inbound (?h @ c)"
  have opened: "session_open sample_session right_keys replay_window_default (?h @ c) = (mark replay_window_default 9,
      Inr \<lparr>sp_network_id = 5, sp_source = 1, sp_destination = 2, sp_session_id = replicate 16 7, sp_sequence = 9, sp_plaintext = sample_answer\<rparr>)"
    using dec by (simp add: session_open_eq right_keys_def can_accept_def replay_window_default_def)
  have header: "parse_session_routing_header (?h @ c) RELAY_SESSION_DATA = Inr (5, 1, 2)" unfolding b by simp
  have sel: "relay_snapshot sample_connected = (2, [sample_member_network])" "tp_peers sample_connected = [((5, 1), sample_peer_route)]"
      "tp_written sample_connected = []"
    by (simp_all add: sample_connected_def sample_knowing_def)
  have "\<exists>t. receive_session_data sample_session sample_dp sample_interface sample_worker_config sample_worker_env ?i sample_connected = (t, Inr ())
      \<and> tp_written t = [sample_answer]"
  proof -
    let ?e = "new_established right_keys (replicate 32 4) 0 7 None RelayPath (0, 1, 0, 0)"
    let ?sp = "\<lparr>sp_network_id = 5, sp_source = 1, sp_destination = 2, sp_session_id = replicate 16 7, sp_sequence = 9, sp_plaintext = sample_answer\<rparr>"
    have e: "hm_get (tp_sessions sample_connected) (5, 1) = Some (EstablishedSession ?e)" by (simp add: sample_connected_def hm_get_def)
    have "eds_keys ?e = right_keys" "eds_replay_window ?e = replay_window_default" by (simp_all add: new_established_def)
    then have od: "open_session_data sample_session (?h @ c) sample_connected
        = Some ((5, 1), 2, ?e\<lparr>eds_replay_window := mark replay_window_default 9\<rparr>, Some ?sp)"
      using header sel(1) e opened by (simp add: open_session_data_def)
    have may: "may_deliver sample_dp 300 (5, 1) 2 ?sp u" if "relay_snapshot u = (2, [sample_member_network])"
        "tp_peers u = [((5, 1), sample_peer_route)]" for u :: "unit transport"
      using that sample_answer_allowed by (simp add: may_deliver_def find_network_def hm_get_def sample_member_authorized)
    show ?thesis using sel by (simp add: receive_session_data_def od Let_def may)
  qed
  moreover have "receive_udp_packet sample_session sample_worker_ops sample_dp sample_interface sample_worker_config sample_worker_env None ?i
      sample_connected = receive_session_data sample_session sample_dp sample_interface sample_worker_config sample_worker_env ?i sample_connected"
  proof -
    have "receive_udp_packet sample_session sample_worker_ops sample_dp sample_interface sample_worker_config sample_worker_env None ?i
        sample_connected = receive_relay_frame sample_session sample_worker_ops sample_dp sample_interface sample_worker_config sample_worker_env
        None ?i sample_connected"
      using sample_dispatch unfolding b by (simp add: routing_header_def)
    then show ?thesis unfolding b by (simp add: receive_relay_frame_def routing_header_def RELAY_MAGIC_def) (simp add: frame_kinds)
  qed
  ultimately show thesis unfolding b by (metis that)
qed

text \<open>A delivery: a packet of the peer.\<close>

theorem delivered_packets_are_authorized_witness:
  "\<exists>t i network route. tp_written t = [sample_answer] \<and> network \<in> set [sample_member_network]
    \<and> packet_is_authorized_for_delivery sample_dp (Some 300) network 1 route 2 2 sample_answer
    \<and> tp_written (fst (receive_udp_packet sample_session sample_worker_ops sample_dp sample_interface sample_worker_config sample_worker_env None
        i t)) = [sample_answer]"
proof (rule sample_delivery)
  fix b t
  let ?i = "sample_inbound (routing_header RELAY_SESSION_DATA 5 1 2 @ b)"
  assume recv: "receive_udp_packet sample_session sample_worker_ops sample_dp sample_interface sample_worker_config sample_worker_env None
      ?i sample_connected = (t, Inr ())" and t: "tp_written t = [sample_answer]"
  have sel: "tp_written sample_connected = []" "ps_networks (ag_state (tp_agent sample_connected)) = [sample_member_network]"
      "ps_device_id (ag_state (tp_agent sample_connected)) = 2" "tp_sessions sample_connected = [((5, 1), EstablishedSession
        (new_established right_keys (replicate 32 4) 0 7 None RelayPath (0, 1, 0, 0)))]"
    by (simp_all add: sample_connected_def sample_knowing_def sample_worker_def sample_worker_agent_def Let_def persisted_state_new_def)
  have changed: "tp_written t \<noteq> tp_written sample_connected" using t sel(1) by simp
  from delivered_packets_are_authorized [OF recv changed, where E' = sample_worker_env and secret' = None]
  obtain k e network route and opened :: session_packet where d: "hm_get (tp_sessions sample_connected) k = Some (EstablishedSession e)"
      "(sp_network_id opened, sp_source opened, sp_destination opened) = (fst k, snd k, 2)" "network \<in> set [sample_member_network]"
      "packet_is_authorized_for_delivery sample_dp (Some 300) network (snd k) route (sp_destination opened) (sp_destination opened) (sp_plaintext opened)"
      "tp_written t = [sp_plaintext opened]"
      "tp_written (fst (receive_udp_packet sample_session sample_worker_ops sample_dp sample_interface sample_worker_config sample_worker_env None ?i t))
        = tp_written t"
    unfolding sel(1,2,3) append_Nil sample_worker_sel by (elim exE conjE) (rule that)
  have "k = (5, 1)" using d(1) by (simp add: sel(4) hm_get_def split: if_splits)
  then show ?thesis using d t by (intro exI [of _ t] exI [of _ ?i] exI [of _ network] exI [of _ route]) auto
qed

section \<open>Two workers\<close>

definition sample_pending :: "initiator_handshake \<Rightarrow> bytes \<Rightarrow> bytes \<Rightarrow> pending_session" where
  "sample_pending handshake packet public_key = \<lparr>pds_handshake = handshake, pds_init_packet = packet, pds_peer_public_key = public_key,
     pds_created_at = 7, pds_last_sent = 7, pds_queued_packets = [sample_direct_packet], pds_path = Unknown, pds_dropped_packets = 0,
     pds_handshake_attempts = 1, pds_handshake_retries = 0, pds_rejected_packets_received = 0\<rparr>"

definition sample_other :: "unit transport" where
  "sample_other = sample_worker\<lparr>tp_agent := sample_worker_agent\<lparr>ag_state :=
       (persisted_state_new 1 (replicate 32 4))\<lparr>ps_networks := [sample_member_network]\<rparr>\<rparr>,
     tp_peers := [((5, 2), sample_peer_route\<lparr>pro_device_public_key := replicate 32 8\<rparr>)]\<rparr>"

lemma sample_other_knows:
  "knows_peer sample_dp 300 5 (replicate 32 9) 1 2 (replicate 32 8) (sample_other\<lparr>tp_sessions := s\<rparr>)"
proof -
  have "relay_snapshot sample_other = (1, [sample_member_network])" "tp_peers sample_other = [((5, 2), sample_peer_route\<lparr>pro_device_public_key := replicate 32 8\<rparr>)]"
    by (simp_all add: sample_other_def relay_snapshot_def persisted_state_new_def)
  then show ?thesis by (simp add: knows_peer_def find_network_def sample_member_authorized network_key_from_slice_def hm_get_def)
qed

text \<open>Crossing handshakes at two workers with one queued packet each.\<close>

theorem crossing_handshakes_converge_witness:
  "\<exists>(tA :: unit transport) (tB :: unit transport) iA iB CA tB' eB. receive_session_init sample_session sample_dp CA sample_worker_env None iA tA = (tA, Inr ())
    \<and> receive_session_init sample_session sample_dp sample_worker_config sample_worker_env (Some [3]) iB tB = (tB', Inr ())
    \<and> hm_get (tp_sessions tB') (5, 1) = Some (EstablishedSession eB) \<and> psk_session_id (eds_keys eB) = replicate 16 7"
proof -
  obtain hA bA where startA: "initiator_start sample_session (Some (replicate 16 7)) (Some [1]) 5 1 2 (replicate 32 4) 300
      = Inr (hA, routing_header RELAY_SESSION_INIT 5 1 2 @ bA)" by (rule sample_start)
  obtain hB bB where startB: "initiator_start sample_session (Some (replicate 16 6)) (Some [2]) 5 2 1 (replicate 32 8) 300
      = Inr (hB, routing_header RELAY_SESSION_INIT 5 2 1 @ bB)" by (rule sample_start)
  define pA where "pA = sample_pending hA (routing_header RELAY_SESSION_INIT 5 1 2 @ bA) (replicate 32 8)"
  define pB where "pB = sample_pending hB (routing_header RELAY_SESSION_INIT 5 2 1 @ bB) (replicate 32 4)"
  define tA where "tA = sample_other\<lparr>tp_sessions := [((5, 2), PendingSession pA)]\<rparr>"
  define tB where "tB = sample_knowing\<lparr>tp_sessions := [((5, 1), PendingSession pB)]\<rparr>"
  define CA where "CA = sample_worker_config\<lparr>wc_identity := replicate 32 4\<rparr>"
  define iA where "iA = sample_inbound (pds_init_packet pB)"
  define iB where "iB = sample_inbound (pds_init_packet pA)"
  have waitA: "awaits_response sample_session 5 1 2 (wc_identity CA) (verifying_key sample_session (wc_identity sample_worker_config))
      (replicate 16 7) [1] 300 tA pA"
    using startA by (simp add: awaits_response_def tA_def pA_def sample_pending_def CA_def sample_session_simps hm_get_def)
  have waitB: "awaits_response sample_session 5 2 1 (wc_identity sample_worker_config) (verifying_key sample_session (wc_identity CA))
      (replicate 16 6) [2] 300 tB pB"
    using startB by (simp add: awaits_response_def tB_def pB_def sample_pending_def CA_def sample_session_simps hm_get_def)
  have seen: "record_session_handshake (tp_seen_handshakes tB) (5, 1) (replicate 16 7) (we_instant sample_worker_env)
      = ([(((5, 1), replicate 16 7), 7)], True)"
    by (simp add: tB_def record_session_handshake_def hm_retain_def hm_insert_def Let_def MAX_HANDSHAKE_REPLAY_ENTRIES_def)
  have knowsA: "knows_peer sample_dp (we_now sample_worker_env) 5 (replicate 32 9) 1 2
      (verifying_key sample_session (wc_identity sample_worker_config)) tA"
    using sample_other_knows by (simp add: tA_def sample_session_simps)
  have knowsB: "knows_peer sample_dp (we_now sample_worker_env) 5 (replicate 32 9) 2 1 (verifying_key sample_session (wc_identity CA)) tB"
    using sample_knows_peer [of tB] by (simp add: tB_def CA_def sample_session_simps)
  have lengths: "length (wc_identity CA) = 32" "length (wc_identity sample_worker_config) = 32" "(1::device_id) < 2"
    by (simp_all add: CA_def)
  have skew: "abs_diff (we_now sample_worker_env) 300 \<le> HANDSHAKE_CLOCK_SKEW_SECONDS"
    by (simp add: abs_diff_def HANDSHAKE_CLOCK_SKEW_SECONDS_def)
  then have skew': "abs_diff (we_now sample_worker_env) (we_now sample_worker_env) \<le> HANDSHAKE_CLOCK_SKEW_SECONDS" by simp
  have agreed: "x25519 sample_session [3] (x25519_public sample_session [1]) \<noteq> replicate 32 0" by (simp add: sample_session_simps)
  have packets: "in_packet iA = pds_init_packet pB" "in_packet iB = pds_init_packet pA" by (simp_all add: iA_def iB_def)
  from crossing_handshakes_converge [OF sample_session_prims(1) sample_session_laws sample_session_total(3-5) sample_aead lengths
      knowsA knowsA knowsB waitA waitB packets skew skew' agreed seen, of None]
  show ?thesis
  proof (elim conjE exE)
    fix tB' eB response
    assume a: "receive_session_init sample_session sample_dp CA sample_worker_env None iA tA = (tA, Inr ())"
      and b: "receive_session_init sample_session sample_dp sample_worker_config sample_worker_env (Some [3]) iB tB = (tB', Inr ())"
        "hm_get (tp_sessions tB') (5, 1) = Some (EstablishedSession eB)"
      and r: "\<forall>i. in_packet i = response \<longrightarrow> (\<exists>tA' eA. receive_session_response sample_session sample_dp CA sample_worker_env i tA = (tA', Inr ())
        \<and> hm_get (tp_sessions tA') (5, 2) = Some (EstablishedSession eA)
        \<and> psk_session_id (eds_keys eA) = replicate 16 7 \<and> psk_session_id (eds_keys eB) = replicate 16 7
        \<and> psk_send_key (eds_keys eA) = psk_receive_key (eds_keys eB) \<and> psk_receive_key (eds_keys eA) = psk_send_key (eds_keys eB)
        \<and> eds_next_sequence eA = of_nat (length (pds_queued_packets pA)) \<and> eds_next_sequence eB = of_nat (length (pds_queued_packets pB)))"
    have "psk_session_id (eds_keys eB) = replicate 16 7" using r [THEN spec, of "sample_inbound response"] by auto
    then show ?thesis using a b by blast
  qed
qed

text \<open>A late first packet between the two.\<close>

theorem late_initiation_splits_the_pair_witness:
  "\<exists>(tA :: unit transport) tA' eA' i. hm_get (tp_sessions tA) (5, 2) \<noteq> None
    \<and> receive_session_init sample_session sample_dp (sample_worker_config\<lparr>wc_identity := replicate 32 4\<rparr>) sample_worker_env (Some [3]) i tA = (tA', Inr ())
    \<and> hm_get (tp_sessions tA') (5, 2) = Some (EstablishedSession eA')
    \<and> (\<forall>sequence plaintext packet w. session_seal sample_session (eds_keys eA') 5 1 2 sequence plaintext = Inr packet \<longrightarrow>
         (\<exists>e. snd (session_open sample_session right_keys w packet) = Inl e))"
proof -
  obtain hB bB where start: "initiator_start sample_session (Some (replicate 16 6)) (Some [2]) 5 2 1 (replicate 32 8) 300
      = Inr (hB, routing_header RELAY_SESSION_INIT 5 2 1 @ bB)" by (rule sample_start)
  define i where "i = sample_inbound (routing_header RELAY_SESSION_INIT 5 2 1 @ bB)"
  define eA where "eA = new_established left_keys (replicate 32 8) 1 7 None Direct (0, 1, 0, 0)"
  define tA where "tA = sample_other\<lparr>tp_sessions := [((5, 2), EstablishedSession eA)]\<rparr>"
  define eB where "eB = new_established right_keys (replicate 32 4) 0 7 None RelayPath (0, 1, 0, 0)"
  have startB: "initiator_start sample_session (Some (replicate 16 6)) (Some [2]) 5 2 1 (wc_identity sample_worker_config) 300 = Inr (hB, in_packet i)"
    using start by (simp add: i_def)
  have sessions: "hm_get (tp_sessions tA) (5, 2) = Some (EstablishedSession eA)" "hm_get (tp_sessions sample_connected) (5, 1) = Some (EstablishedSession eB)"
      "psk_session_id (eds_keys eA) = replicate 16 7" "psk_session_id (eds_keys eB) = replicate 16 7" "eds_keys eB = right_keys"
    by (simp_all add: tA_def sample_connected_def eA_def eB_def new_established_def left_keys_def right_keys_def hm_get_def)
  have knowsA: "knows_peer sample_dp (we_now sample_worker_env) 5 (replicate 32 9) 1 2
      (verifying_key sample_session (wc_identity sample_worker_config)) tA"
    using sample_other_knows by (simp add: tA_def sample_session_simps)
  have seen: "record_session_handshake (tp_seen_handshakes tA) (5, 2) (replicate 16 6) (we_instant sample_worker_env)
      = ([(((5, 2), replicate 16 6), 7)], True)"
    by (simp add: tA_def sample_other_def record_session_handshake_def hm_retain_def hm_insert_def Let_def MAX_HANDSHAKE_REPLAY_ENTRIES_def)
  have side: "length (wc_identity sample_worker_config) = 32" "(1::device_id) < 2" "length (replicate 16 7 :: bytes) = 16"
      "length (replicate 16 6 :: bytes) = 16" "replicate 16 6 \<noteq> (replicate 16 7 :: bytes)"
      "abs_diff (we_now sample_worker_env) 300 \<le> HANDSHAKE_CLOCK_SKEW_SECONDS"
      "x25519 sample_session [3] (x25519_public sample_session [2]) \<noteq> replicate 32 0"
    by (simp_all add: abs_diff_def HANDSHAKE_CLOCK_SKEW_SECONDS_def sample_session_simps)
  from late_initiation_splits_the_pair [OF sample_session_prims(1) sample_session_laws(2) sample_session_total(3-5) sample_aead side(1,2) knowsA
      sessions(1,3,2,4) startB side(3-7) seen, of "sample_worker_config\<lparr>wc_identity := replicate 32 4\<rparr>" sample_worker_env]
  obtain tA' eA' where r: "receive_session_init sample_session sample_dp (sample_worker_config\<lparr>wc_identity := replicate 32 4\<rparr>) sample_worker_env
      (Some [3]) i tA = (tA', Inr ())" "hm_get (tp_sessions tA') (5, 2) = Some (EstablishedSession eA')"
      "\<forall>sequence plaintext packet w. session_seal sample_session (eds_keys eA') 5 1 2 sequence plaintext = Inr packet \<longrightarrow>
         (\<exists>e. snd (session_open sample_session (eds_keys eB) w packet) = Inl e)"
    by (elim exE conjE) (rule that)
  then show ?thesis
    using sessions(1,5) by (intro exI [of _ tA] exI [of _ tA'] exI [of _ eA'] exI [of _ i]) simp
qed

end
