(* ===== verification/Spec2Isabelle.thy ===== *)
theory Spec2Isabelle
  imports Pairwise_Session Relay_Server Root_Server Agent_Contract Worker_Samples
begin

text \<open>
  MeshLake: a verification of its protocols, servers and device agent.

  MeshLake joins devices into virtual networks. A \<^emph>\<open>controller\<close> owns networks, enrolls devices and signs what they may
  do: membership certificates, authorization manifests, routing policies and the Planet manifest that names the other
  services. \<^emph>\<open>Root\<close> servers tell a device the endpoints of its co-members, \<^emph>\<open>relay\<close> servers forward sealed packets
  between devices that cannot reach each other, and an \<^emph>\<open>agent\<close> on each device keeps pairwise sessions, a directory of
  peers, and decides which packets leave and enter the virtual interface. All sources are under
  \<^verbatim>\<open>crates/\<close>; paths below are relative to it.

  \<^bold>\<open>Theories and what they model.\<close>

  \<^item> \<open>Prelude\<close>: machine words, results with early return, big-endian integers, addresses and their order, hash maps as
    association lists with distinct keys. \<open>Primitives\<close>: the operations taken from cryptographic crates and their laws.
    \<open>Sample_Ops\<close>: concrete operations that satisfy the laws, used by the witnesses.
  \<^item> \<open>Wire_Format\<close> (\<^verbatim>\<open>meshlake-core/src/relay.rs, overlay.rs\<close>), \<open>Replay_Window\<close> and \<open>Pairwise_Session\<close>
    (\<^verbatim>\<open>session.rs\<close>): frames, the replay window and its set-based specification, the handshake and the data channel.
  \<^item> \<open>Service_Identity\<close> (\<^verbatim>\<open>service_identity.rs\<close>), \<open>Membership\<close> (\<^verbatim>\<open>model.rs, crypto.rs\<close>), \<open>Authorization\<close>
    (\<^verbatim>\<open>authorization.rs\<close>), \<open>Planet\<close> (\<^verbatim>\<open>crypto.rs\<close>), \<open>Network_Policy\<close> (\<^verbatim>\<open>policy.rs\<close>), \<open>Root_Protocol\<close> (\<^verbatim>\<open>root.rs\<close>) and
    \<open>Relay_Protocol\<close> (\<^verbatim>\<open>relay.rs\<close>): the signed documents, how they are signed, verified and used.
  \<^item> \<open>Nonce_Cache\<close>, \<open>Peer_Table\<close>: the two contracts that the servers and the agent share, as locales; \<open>Relay_Server\<close>
    (\<^verbatim>\<open>meshlake-relay/src/main.rs\<close>) and \<open>Root_Server\<close> (\<^verbatim>\<open>meshlake-root/src/main.rs\<close>): one definition per handler over a record
    of the server's tables, and the receive loop as a step relation.
  \<^item> \<open>Address_Pool\<close>, \<open>Controller\<close>, \<open>Controller_Invariants\<close>, \<open>Controller_State\<close> (\<^verbatim>\<open>meshlake-controller/src/main.rs\<close>): address
    allocation, every handler of the controller, its reachable states, and the migration and validation of its state.
  \<^item> \<open>Data_Plane\<close> (\<^verbatim>\<open>meshlaked/src/data_plane/ip.rs\<close>), \<open>Peer_Directory\<close> (\<^verbatim>\<open>meshlaked/src/main.rs\<close>), \<open>Transport_Health\<close>
    (\<^verbatim>\<open>transport_health.rs\<close>), \<open>Session_Observability\<close> (\<^verbatim>\<open>session_observability.rs\<close>): packet classification, the directory of
    peers, registration schedules and the health of endpoints, and the registry of sessions.
  \<^item> \<open>Agent_Config\<close>, \<open>Agent_Exits\<close>, \<open>Agent_Migration\<close> (\<^verbatim>\<open>meshlaked/src/main.rs, exit_gateway.rs, adapter/kill_switch.rs\<close>): the
    persisted state of the agent and the acceptance of a Planet, exit selections and gateways, the transport configuration
    and the exceptions of the kill switch, and the migration of a persisted state. \<open>Policy_Plan\<close>
    (\<^verbatim>\<open>adapter/policy.rs\<close>) and \<open>Linux_Adapter\<close> (\<^verbatim>\<open>adapter/linux.rs\<close>): the routes and DNS settings that the policies ask for,
    and the commands and transactions by which the Linux adapter applies them, over an arbitrary operating system.
  \<^item> \<open>Agent_Core\<close>, \<open>Agent_Refresh\<close>, \<open>Agent_Enrollment\<close> (\<^verbatim>\<open>meshlaked/src/main.rs\<close>): the handlers of the agent as actions that may fail
    after having changed the agent: relays, exits, gateways and networks; Planet, authorization and policy refreshes; enrollment.
    The adapter is a record of operations, what a controller answers and whether a file is written are arguments.
    \<open>Agent_Invariants\<close> has the runs of the agent as a step relation and the invariant of its state, \<open>Agent_Revocation\<close> composes the agent
    with the controller and the Linux adapter, and \<open>Agent_Contract\<close> states what the handlers rely on of an adapter as a locale,
    which the Linux adapter interprets.
  \<^item> \<open>Agent_Wire\<close>, \<open>Session_Engine\<close>, \<open>Transport_Worker\<close>, \<open>Transport_Tick\<close> (\<^verbatim>\<open>meshlaked/src/main.rs\<close>, \<^verbatim>\<open>run_relay_worker\<close> and what it calls): the
    transport worker. Its tables are one record; a datagram and a tick of the timer are actions on it: STUN, root responses, relay frames,
    the pairwise sessions with their queues, path selection, repeated handshakes, probes, registrations and the packets of the
    interface. The record has a ghost, \<open>tp_sealed\<close>, that lists the key and the nonce of every encryption and is never read.
    \<open>Session_Safety\<close> has the runs of a worker as a step relation and the invariant of its tables, \<open>Worker_Properties\<close> what datagrams and ticks may do,
    \<open>Worker_Handshake\<close> two workers whose handshakes cross, and \<open>Worker_Samples\<close> a run of two devices for the witnesses.

  \<^bold>\<open>How the model corresponds to the code.\<close> A struct is a record, an enum a datatype, a method a function that takes and
  returns the record. A \<^verbatim>\<open>Result\<close> is a sum with the error on the left. A handler that changes state returns the new
  state beside its result, also when it fails. \<^verbatim>\<open>HashMap\<close> iteration follows the order of the association list. Code
  outside the repository (Ed25519, X25519, AEAD, HKDF, SHA-256, HMAC, serde, \<^verbatim>\<open>ipnet\<close>, URLs, Base64) is a record of
  operations passed to the definitions; the laws that a theorem needs of them (\<open>ed_correct\<close>, \<open>signs_only\<close>,
  \<open>aead_correct\<close>, \<open>dh_correct\<close>, injective encoders, \<open>pool_laws\<close>) are hypotheses, and every witness
  instantiates the operations with concrete functions. Each handler reads the clock once; random values and the outcome
  of writing a file are arguments. Instants are natural numbers, of nanoseconds in the agent. Wall-clock seconds, epochs
  and counters are words of their width, with saturation where the code saturates.

  \<^bold>\<open>What is shown.\<close>

  \<^item> Sessions: no sequence number is opened twice, the bitmap window refines the set of seen numbers, honest handshakes
    complete with mirrored keys, accepted handshakes and packets were made by the expected peer.
  \<^item> Documents: what is accepted was signed by the trusted key with exactly its contents, over a locale of signed documents
    that each format interprets; signed documents are accepted while valid; rollbacks and foreign documents are refused.
  \<^item> Servers: in every reachable state peers hold valid certificates and disjoint addresses; data is forwarded exactly within
    a network; replays are refused; a device learns exactly its co-members.
  \<^item> Controller: in every reachable state members have distinct addresses and certificates, tokens serve one device, removal
    is final for a certificate, epochs never go back, and state changes need authority.
  \<^item> Agent: the gateway of a packet is the unique longest match, packets leave only through the network that owns their
    source, the directory never assigns an address twice, registrations are spaced, the session registry is bounded.
    A loaded state is valid and loading it again changes nothing; the transport follows the accepted Planet; the kill switch
    lets through exactly the control plane; every planned route is granted by a signed policy; what the Linux adapter
    removes is what it installed.
    In every run of the agent its networks, policies, selections and gateways stay consistent, and pinned keys and Planets never go
    back. A member that the controller removes is gone from its agent after the next refresh; only an activation opens the interface.
    In every run of a transport worker no nonce is used twice under a key, sessions stay bound to the certified identity keys of their peers,
    only authorized packets of authenticated peers reach the interface, and a tick cuts off networks that are not authorized any more. Handshakes that
    cross converge; a first packet that comes late does not, which one theorem describes.
    Two theorems describe what failures and partial updates leave behind: a refused exit selection stays in memory, and an enrollment replaces
    the policy plan of all networks.

  \<^bold>\<open>Termination and bounds.\<close> Loops over slices are structural recursion. The scan for an IPv4 address runs once per host of
  the prefix, the one for IPv6 once per used address plus one; both are shown to find an address whenever one is free.
  The loop that trims expired observations and the one over the attributes of a STUN answer are functions with a measure. No definition uses fuel.

  \<^bold>\<open>Not modelled.\<close> Sockets, TLS, TURN, port mapping, the Windows adapter, the tasks that restart a worker, state encryption and backup, the HTTP
  routing and the command lines and graphical client: they are effects of the platform or of third-party code. Concurrency
  is the interleaving of whole handlers, because each handler holds its lock throughout; enrollment, which waits for the
  network before it takes the locks, is split there and interleaves with every other handler. A datagram and a tick of the worker are
  steps of their own, between which the handlers may change the agent. Poisoned locks and panics on a
  clock before 1970 are not modelled.
\<close>

end
